(* ===== verification/Prelude.thy ===== *)
theory Prelude
  imports Main "HOL-Library.Word" "HOL-Library.Char_ord" "HOL-Library.List_Lexorder"
    "HOL-Library.AList"
begin

text \<open>
  Shared vocabulary of the development: fallible results, Go byte strings and their
  standard-library operations, fixed-width little-endian reads, and the generic facts about
  lists and association lists that the components use.

  A Go \<open>string\<close> and a Go \<open>[]byte\<close> are both byte sequences; both are modelled as \<open>char list\<close>
  (an Isabelle \<open>char\<close> is one byte). A Go map that the code iterates over is an association
  list with distinct keys. A Go \<open>error\<close> result is \<open>'e option\<close> (None is nil), and a pair
  (value, error) is a sum with the error on the left.
\<close>

named_theorems result_simps \<open>equations of the result combinators\<close>

type_synonym bytes = "char list"

section \<open>Results\<close>

fun rbind :: "'e + 'a \<Rightarrow> ('a \<Rightarrow> 'e + 'b) \<Rightarrow> 'e + 'b" where
  "rbind (Inl e) f = Inl e"
| "rbind (Inr x) f = f x"

text \<open>\<open>if err := check(); err != nil { return err }\<close> followed by the rest.\<close>

fun check_err :: "'e option \<Rightarrow> 'e + 'a \<Rightarrow> 'e + 'a" where
  "check_err (Some e) k = Inl e"
| "check_err None k = k"

text \<open>\<open>if err := check(); err != nil { return err }\<close> in a function that returns only an error.\<close>

fun or_else :: "'e option \<Rightarrow> 'e option \<Rightarrow> 'e option" where
  "or_else (Some e) k = Some e"
| "or_else None k = k"

fun fold_res :: "('s \<Rightarrow> 'x \<Rightarrow> 'e + 's) \<Rightarrow> 's \<Rightarrow> 'x list \<Rightarrow> 'e + 's" where
  "fold_res f s [] = Inr s"
| "fold_res f s (x # xs) = rbind (f s x) (\<lambda>s'. fold_res f s' xs)"

lemma rbind_eq_Inr [result_simps]: "rbind m f = Inr y \<longleftrightarrow> (\<exists>x. m = Inr x \<and> f x = Inr y)"
  by (cases m) auto

lemma rbind_InrE: "rbind m f = Inr y \<Longrightarrow> (\<And>x. m = Inr x \<Longrightarrow> f x = Inr y \<Longrightarrow> P) \<Longrightarrow> P"
  by (cases m) auto

lemma rbind_eq_Inl [result_simps]:
  "rbind m f = Inl e \<longleftrightarrow> m = Inl e \<or> (\<exists>x. m = Inr x \<and> f x = Inl e)"
  by (cases m) auto

lemma check_err_eq_Inr [result_simps]: "check_err o' k = Inr y \<longleftrightarrow> o' = None \<and> k = Inr y"
  by (cases o') auto

lemma or_else_eq_None [result_simps]: "or_else a b = None \<longleftrightarrow> a = None \<and> b = None"
  by (cases a) auto

lemma fold_res_append:
  "fold_res f s (xs @ ys) = rbind (fold_res f s xs) (\<lambda>s'. fold_res f s' ys)"
proof (induction xs arbitrary: s)
  case Nil
  show ?case by simp
next
  case (Cons x xs)
  then show ?case by (cases "f s x") simp_all
qed

lemma fold_res_inv:
  assumes "\<And>s x s'. P s \<Longrightarrow> f s x = Inr s' \<Longrightarrow> P s'" and "P s" and "fold_res f s xs = Inr s'"
  shows "P s'"
  using assms(2,3)
  by (induction xs arbitrary: s) (auto simp: result_simps intro: assms(1))

text \<open>Every element of the list is visited, and what follows a visit keeps a preorder.\<close>

lemma fold_res_rel:
  assumes refl: "\<And>s. R s s" and trans: "\<And>s t u. R s t \<Longrightarrow> R t u \<Longrightarrow> R s u"
    and step: "\<And>s x t. f s x = Inr t \<Longrightarrow> R s t" and "fold_res f s xs = Inr s'"
  shows "R s s'"
  using assms(4)
  by (induction xs arbitrary: s) (auto simp: result_simps intro: refl dest: step trans)

lemma fold_res_visits:
  assumes refl: "\<And>s. R s s" and trans: "\<And>s t u. R s t \<Longrightarrow> R t u \<Longrightarrow> R s u"
    and step: "\<And>s x t. f s x = Inr t \<Longrightarrow> R s t"
    and run: "fold_res f s xs = Inr s'" and x: "x \<in> set xs"
  obtains s1 s2 where "R s s1" "f s1 x = Inr s2" "R s2 s'"
proof -
  obtain ys zs where xs: "xs = ys @ x # zs" using x by (auto simp: in_set_conv_decomp)
  obtain s1 s2 where r: "fold_res f s ys = Inr s1" "f s1 x = Inr s2" "fold_res f s2 zs = Inr s'"
    using run by (auto simp: xs fold_res_append result_simps)
  have "R s s1" by (rule fold_res_rel [where R = R and f = f, OF refl trans step r(1)])
  moreover have "R s2 s'" by (rule fold_res_rel [where R = R and f = f, OF refl trans step r(3)])
  ultimately show thesis using r(2) that by blast
qed

text \<open>A key that is distinct along a list selects at most one element.\<close>

lemma filter_key_unique: "distinct (map f xs) \<Longrightarrow> length (filter (\<lambda>x. f x = k) xs) \<le> 1"
proof (induction xs)
  case (Cons x xs)
  then show ?case by (cases "f x = k") (auto simp: filter_empty_conv rev_image_eqI)
qed simp

lemma filter_find_unique:
  assumes "distinct (map f xs)" and "find (\<lambda>x. f x = k) xs = Some x"
  shows "filter (\<lambda>x. f x = k) xs = [x]"
proof -
  have "x \<in> set (filter (\<lambda>x. f x = k) xs)"
    using assms(2) by (auto simp: find_Some_iff)
  moreover have "length (filter (\<lambda>x. f x = k) xs) \<le> 1"
    using assms(1) by (rule filter_key_unique)
  ultimately show ?thesis by (cases "filter (\<lambda>x. f x = k) xs") (auto simp: le_Suc_eq)
qed

section \<open>Byte strings\<close>

definition starts_with :: "bytes \<Rightarrow> bytes \<Rightarrow> bool" where
  "starts_with p s \<longleftrightarrow> take (length p) s = p"

definition ends_with :: "bytes \<Rightarrow> bytes \<Rightarrow> bool" where
  "ends_with p s \<longleftrightarrow> starts_with (rev p) (rev s)"

lemma starts_with_iff: "starts_with p s \<longleftrightarrow> (\<exists>r. s = p @ r)"
  by (auto simp: starts_with_def) (metis append_take_drop_id)

lemma ends_with_iff: "ends_with p s \<longleftrightarrow> (\<exists>r. s = r @ p)"
  unfolding ends_with_def starts_with_iff
  by (metis rev_append rev_rev_ident)

lemma starts_with_drop: "starts_with p s \<Longrightarrow> p @ drop (length p) s = s"
  by (metis append_take_drop_id starts_with_def)

text \<open>\<open>strings.Split\<close> with a one-byte separator; the result is never empty.\<close>

fun split_on :: "char \<Rightarrow> bytes \<Rightarrow> bytes list" where
  "split_on c [] = [[]]"
| "split_on c (x # xs) =
     (if x = c then [] # split_on c xs
      else (case split_on c xs of [] \<Rightarrow> [[x]] | w # ws \<Rightarrow> (x # w) # ws))"

lemma split_on_not_Nil [simp]: "split_on c s \<noteq> []"
  by (induction s) (auto split: list.splits)

lemma split_on_sep: "w \<in> set (split_on c s) \<Longrightarrow> c \<notin> set w"
  by (induction s arbitrary: w) (auto split: list.splits if_splits)

lemma split_on_subset: "w \<in> set (split_on c s) \<Longrightarrow> set w \<subseteq> set s"
proof (induction s arbitrary: w)
  case Nil
  then show ?case by simp
next
  case (Cons x xs)
  then show ?case by (fastforce split: list.splits if_splits)
qed

lemma split_on_covers: "x \<in> set s \<Longrightarrow> x \<noteq> c \<Longrightarrow> \<exists>w\<in>set (split_on c s). x \<in> set w"
  by (induction s) (auto split: list.splits)

lemma split_on_append_sep:
  "split_on c (s @ c # t) = split_on c s @ split_on c t"
proof (induction s)
  case Nil
  then show ?case by simp
next
  case (Cons x xs)
  then show ?case by (cases "split_on c xs") (auto split: list.splits)
qed

text \<open>The text before and after the last occurrence of a byte (\<open>strings.LastIndexByte\<close>).\<close>

definition split_last :: "char \<Rightarrow> bytes \<Rightarrow> (bytes \<times> bytes) option" where
  "split_last c s =
     (if c \<in> set s
      then Some (rev (tl (dropWhile (\<lambda>x. x \<noteq> c) (rev s))), rev (takeWhile (\<lambda>x. x \<noteq> c) (rev s)))
      else None)"

lemma split_last_Some: "split_last c s = Some (a, b) \<Longrightarrow> s = a @ c # b \<and> c \<notin> set b"
proof -
  assume h: "split_last c s = Some (a, b)"
  then have mem: "c \<in> set (rev s)"
    and a: "a = rev (tl (dropWhile (\<lambda>x. x \<noteq> c) (rev s)))"
    and b: "b = rev (takeWhile (\<lambda>x. x \<noteq> c) (rev s))"
    by (auto simp: split_last_def split: if_splits)
  from mem have ne: "dropWhile (\<lambda>x. x \<noteq> c) (rev s) \<noteq> []"
    by (simp add: dropWhile_eq_Nil_conv)
  then have hd: "hd (dropWhile (\<lambda>x. x \<noteq> c) (rev s)) = c"
    using hd_dropWhile [of "\<lambda>x. x \<noteq> c" "rev s"] by simp
  have "rev s = rev b @ c # rev a"
    using takeWhile_dropWhile_id [of "\<lambda>x. x \<noteq> c" "rev s"] list.collapse [OF ne]
    by (simp only: a b rev_rev_ident hd)
  then have "rev (rev s) = rev (rev b @ c # rev a)"
    by (rule arg_cong)
  then have "s = a @ c # b"
    by simp
  moreover have "c \<notin> set b" using b by (auto dest: set_takeWhileD)
  ultimately show ?thesis by simp
qed

lemma split_last_None: "split_last c s = None \<longleftrightarrow> c \<notin> set s"
  by (simp add: split_last_def)

section \<open>Character classes\<close>

definition is_digit :: "char \<Rightarrow> bool" where "is_digit c \<longleftrightarrow> CHR ''0'' \<le> c \<and> c \<le> CHR ''9''"
definition is_lower :: "char \<Rightarrow> bool" where "is_lower c \<longleftrightarrow> CHR ''a'' \<le> c \<and> c \<le> CHR ''z''"
definition is_upper :: "char \<Rightarrow> bool" where "is_upper c \<longleftrightarrow> CHR ''A'' \<le> c \<and> c \<le> CHR ''Z''"
definition is_alnum :: "char \<Rightarrow> bool" where "is_alnum c \<longleftrightarrow> is_digit c \<or> is_lower c \<or> is_upper c"
definition is_hex_lower :: "char \<Rightarrow> bool" where
  "is_hex_lower c \<longleftrightarrow> is_digit c \<or> CHR ''a'' \<le> c \<and> c \<le> CHR ''f''"
definition is_hex :: "char \<Rightarrow> bool" where
  "is_hex c \<longleftrightarrow> is_hex_lower c \<or> CHR ''A'' \<le> c \<and> c \<le> CHR ''F''"

lemmas char_class_defs =
  is_digit_def is_lower_def is_upper_def is_alnum_def is_hex_lower_def is_hex_def

text \<open>
  \<open>strings.ToLower\<close> on ASCII text. Bytes from 0x80 on are left alone; the callers either have
  checked that the text is ASCII or only compare the result with ASCII text that no
  lower-cased non-ASCII rune can produce.
\<close>

definition lower_char :: "char \<Rightarrow> char" where
  "lower_char c = (if is_upper c then char_of (of_char c + (32 :: nat)) else c)"

definition to_lower :: "bytes \<Rightarrow> bytes" where
  "to_lower s = map lower_char s"

lemma length_to_lower [simp]: "length (to_lower s) = length s"
  by (simp add: to_lower_def)

lemma is_upper_nat: "is_upper c \<longleftrightarrow> 65 \<le> (of_char c :: nat) \<and> (of_char c :: nat) \<le> 90"
  by (simp add: is_upper_def less_eq_char_def)

lemma of_char_less_256: "(of_char c :: nat) < 256"
proof -
  have "(of_char c :: nat) \<in> {0..<256}"
    using range_nat_of_char by blast
  then show ?thesis by simp
qed

lemma lower_char_not_upper [simp]: "\<not> is_upper (lower_char c)"
  by (auto simp: lower_char_def is_upper_nat)

lemma lower_char_id [simp]: "\<not> is_upper c \<Longrightarrow> lower_char c = c"
  by (simp add: lower_char_def)

lemma lower_char_idem [simp]: "lower_char (lower_char c) = lower_char c"
  by simp

lemma to_lower_idem [simp]: "to_lower (to_lower s) = to_lower s"
  by (simp add: to_lower_def)

lemma to_lower_id: "list_all (\<lambda>c. \<not> is_upper c) s \<Longrightarrow> to_lower s = s"
  by (induction s) (auto simp: to_lower_def)

section \<open>Decimal numbers\<close>

definition digit_char :: "nat \<Rightarrow> char" where
  "digit_char d = ''0123456789'' ! d"

fun nat_str :: "nat \<Rightarrow> bytes" where
  "nat_str n = (if n < 10 then [digit_char n] else nat_str (n div 10) @ [digit_char (n mod 10)])"

declare nat_str.simps [simp del]

lemma nat_str_eval [simp]:
  "n < 10 \<Longrightarrow> nat_str n = [digit_char n]"
  "\<not> n < 10 \<Longrightarrow> nat_str n = nat_str (n div 10) @ [digit_char (n mod 10)]"
  by (simp_all add: nat_str.simps)

text \<open>\<open>strconv.Itoa\<close>.\<close>

definition int_str :: "int \<Rightarrow> bytes" where
  "int_str n = (if n < 0 then CHR ''-'' # nat_str (nat (- n)) else nat_str (nat n))"

definition digits_nat :: "bytes \<Rightarrow> nat" where
  "digits_nat s = foldl (\<lambda>n c. 10 * n + (of_char c - 48)) 0 s"

text \<open>\<open>strconv.Atoi\<close> on a 64-bit platform: an optional sign, at least one digit, in range.\<close>

definition atoi :: "bytes \<Rightarrow> int option" where
  "atoi s =
     (let neg = (case s of [] \<Rightarrow> False | c # _ \<Rightarrow> c = CHR ''-'');
          ds = (case s of [] \<Rightarrow> [] | c # cs \<Rightarrow> if c = CHR ''-'' \<or> c = CHR ''+'' then cs else s);
          n = (if neg then - int (digits_nat ds) else int (digits_nat ds))
      in if ds \<noteq> [] \<and> list_all is_digit ds \<and> - (2 ^ 63) \<le> n \<and> n < 2 ^ 63 then Some n else None)"

section \<open>Little-endian reads\<close>

fun le_nat :: "bytes \<Rightarrow> nat" where
  "le_nat [] = 0"
| "le_nat (c # cs) = of_char c + 256 * le_nat cs"

lemma digit_step: "d < (256 :: nat) \<Longrightarrow> n < m \<Longrightarrow> d + 256 * n < 256 * m"
  by arith

lemma le_nat_bound: "le_nat bs < 256 ^ length bs"
  by (induction bs) (simp_all add: digit_step of_char_less_256)

definition u16le :: "bytes \<Rightarrow> 16 word" where "u16le bs = of_nat (le_nat (take 2 bs))"
definition u32le :: "bytes \<Rightarrow> 32 word" where "u32le bs = of_nat (le_nat (take 4 bs))"
definition u64le :: "bytes \<Rightarrow> 64 word" where "u64le bs = of_nat (le_nat (take 8 bs))"

section \<open>Association lists as Go maps\<close>

lemma map_of_update [simp]: "map_of (AList.update k v al) = (map_of al)(k \<mapsto> v)"
  by (simp add: update_conv')

lemma map_of_delete [simp]: "map_of (AList.delete k al) = (map_of al)(k := None)"
  by (simp add: delete_conv')

text \<open>A map filled from a list whose keys are distinct.\<close>

lemma map_of_keys: "map_of (map (\<lambda>e. (f e, e)) xs) k = find (\<lambda>e. f e = k) xs"
  by (induction xs) auto

lemma map_of_rev_keys:
  assumes "distinct (map f xs)"
  shows "map_of (rev (map (\<lambda>e. (f e, e)) xs)) k = find (\<lambda>e. f e = k) xs"
proof -
  have "map_of (rev (map (\<lambda>e. (f e, e)) xs)) = map_of (map (\<lambda>e. (f e, e)) xs)"
    using assms by (subst map_of_inject_set) (simp_all add: comp_def rev_map [symmetric])
  then show ?thesis by (simp add: map_of_keys)
qed

text \<open>Sorted duplicate-free keys: \<open>for k := range m { out = append(out, k) }; sort.Strings(out)\<close>.\<close>

definition sorted_keys :: "(bytes \<times> 'v) list \<Rightarrow> bytes list" where
  "sorted_keys al = sort (remdups (map fst al))"

definition sorted_set :: "bytes list \<Rightarrow> bytes list" where
  "sorted_set xs = sort (remdups xs)"

lemma set_sorted_set [simp]: "set (sorted_set xs) = set xs"
  by (simp add: sorted_set_def)

lemma sorted_sorted_set [simp]: "sorted (sorted_set xs)"
  by (simp add: sorted_set_def)

lemma distinct_sorted_set [simp]: "distinct (sorted_set xs)"
  by (simp add: sorted_set_def)

lemma sorted_set_id: "sorted xs \<Longrightarrow> distinct xs \<Longrightarrow> sorted_set xs = xs"
  by (simp add: sorted_set_def distinct_remdups_id sort_key_id_if_sorted)

lemma map_insort_key: "map f (insort_key f x xs) = insort (f x) (map f xs)"
  by (induction xs) simp_all

lemma map_sort_key: "map f (sort_key f xs) = sort (map f xs)"
  by (induction xs) (simp_all add: map_insort_key)

section \<open>Replayed ledgers\<close>

text \<open>
  Both record files of the signing gate are replayed entry by entry into a state. This is
  the contract a replay function gives its clients: the initial state is well formed, every
  accepted entry keeps it well formed, and \<open>le\<close> is a preorder of states along which accepted
  entries only move forward.
\<close>

locale replayed_ledger =
  fixes apply_entry :: "'s \<Rightarrow> 'x \<Rightarrow> 'e + 's"
    and initial :: 's
    and wf :: "'s \<Rightarrow> bool"
    and le :: "'s \<Rightarrow> 's \<Rightarrow> bool"
  assumes wf_initial: "wf initial"
    and wf_apply: "wf s \<Longrightarrow> apply_entry s x = Inr s' \<Longrightarrow> wf s'"
    and le_refl: "le s s"
    and le_trans: "le s t \<Longrightarrow> le t u \<Longrightarrow> le s u"
    and le_apply: "wf s \<Longrightarrow> apply_entry s x = Inr s' \<Longrightarrow> le s s'"
begin

lemma wf_replay_from: "wf s \<Longrightarrow> fold_res apply_entry s xs = Inr s' \<Longrightarrow> wf s'"
  by (rule fold_res_inv [where P = wf and f = apply_entry]) (auto intro: wf_apply)

lemma wf_replay: "fold_res apply_entry initial xs = Inr s \<Longrightarrow> wf s"
  using wf_replay_from wf_initial by blast

lemma le_replay: "wf s \<Longrightarrow> fold_res apply_entry s xs = Inr s' \<Longrightarrow> le s s'"
proof (induction xs arbitrary: s)
  case Nil
  then show ?case by (simp add: le_refl)
next
  case (Cons x xs)
  then obtain t where t: "apply_entry s x = Inr t" "fold_res apply_entry t xs = Inr s'"
    by (auto simp: result_simps)
  have "wf t" using Cons.prems(1) t(1) by (rule wf_apply)
  then have "le t s'" using t(2) by (rule Cons.IH)
  moreover have "le s t" using Cons.prems(1) t(1) by (rule le_apply)
  ultimately show ?case by (blast intro: le_trans)
qed

lemma prefix_le:
  assumes "fold_res apply_entry initial xs = Inr s"
    and "fold_res apply_entry initial (xs @ ys) = Inr s'"
  shows "le s s'"
proof -
  have "fold_res apply_entry s ys = Inr s'"
    using assms by (simp add: fold_res_append)
  then show ?thesis using wf_replay [OF assms(1)] le_replay by blast
qed

end

end
