(* ===== verification/GoText.thy ===== *)
theory GoText
  imports Prelude
begin

text \<open>
  The parts of Go's standard library that the signing gate's rules rest on, as the code uses
  them: UTF-8 decoding (\<open>unicode/utf8\<close>, \<open>for range\<close> over a string), \<open>strings.TrimSpace\<close>,
  \<open>encoding/hex\<close>, \<open>encoding/base64\<close> (standard alphabet, \<open>Strict\<close>), and the way
  \<open>encoding/json\<close> writes a string. A rune is its code point, a natural number.
\<close>

section \<open>UTF-8\<close>

definition byte_in :: "nat \<Rightarrow> nat \<Rightarrow> char \<Rightarrow> bool" where
  "byte_in lo hi c \<longleftrightarrow> lo \<le> of_char c \<and> of_char c \<le> hi"

abbreviation cont_byte :: "char \<Rightarrow> bool" where
  "cont_byte \<equiv> byte_in 0x80 0xBF"

definition low6 :: "char \<Rightarrow> nat" where
  "low6 c = of_char c - 0x80"

text \<open>One rune and its width, None where Go yields \<open>utf8.RuneError\<close> with width 1.\<close>

definition utf8_step :: "bytes \<Rightarrow> (nat \<times> nat) option" where
  "utf8_step s =
     (case s of [] \<Rightarrow> None
      | c0 # t0 \<Rightarrow> let b0 = of_char c0 :: nat in
          if b0 < 0x80 then Some (b0, 1)
          else if b0 < 0xC2 \<or> 0xF4 < b0 then None
          else (case t0 of [] \<Rightarrow> None
            | c1 # t1 \<Rightarrow>
              if b0 < 0xE0 then
                (if cont_byte c1 then Some ((b0 - 0xC0) * 64 + low6 c1, 2) else None)
              else if \<not> byte_in (if b0 = 0xE0 then 0xA0 else if b0 = 0xF0 then 0x90 else 0x80)
                               (if b0 = 0xED then 0x9F else if b0 = 0xF4 then 0x8F else 0xBF) c1
              then None
              else (case t1 of [] \<Rightarrow> None
                | c2 # t2 \<Rightarrow>
                  if \<not> cont_byte c2 then None
                  else if b0 < 0xF0 then Some ((b0 - 0xE0) * 4096 + low6 c1 * 64 + low6 c2, 3)
                  else (case t2 of [] \<Rightarrow> None
                    | c3 # t3 \<Rightarrow>
                      if cont_byte c3
                      then Some ((b0 - 0xF0) * 262144 + low6 c1 * 4096 + low6 c2 * 64 + low6 c3, 4)
                      else None))))"

lemma utf8_step_width:
  "utf8_step s = Some (r, w) \<Longrightarrow> 0 < w \<and> w \<le> length s"
  by (auto simp: utf8_step_def Let_def split: list.splits if_splits)

definition utf8_rune_error :: nat where
  "utf8_rune_error = 0xFFFD"

text \<open>The runes of a string with the bytes of each, as \<open>for range\<close> walks it.\<close>

fun segments :: "bytes \<Rightarrow> (nat \<times> bytes) list" where
  "segments [] = []"
| "segments (c # cs) =
     (case utf8_step (c # cs) of
        None \<Rightarrow> (utf8_rune_error, [c]) # segments cs
      | Some (r, w) \<Rightarrow> (r, c # take (w - 1) cs) # segments (drop (w - 1) cs))"

definition runes :: "bytes \<Rightarrow> nat list" where
  "runes s = map fst (segments s)"

fun utf8_valid :: "bytes \<Rightarrow> bool" where
  "utf8_valid [] = True"
| "utf8_valid (c # cs) =
     (case utf8_step (c # cs) of None \<Rightarrow> False | Some (r, w) \<Rightarrow> utf8_valid (drop (w - 1) cs))"

lemma concat_segments: "concat (map snd (segments s)) = s"
  by (induction s rule: segments.induct) (auto split: option.splits)

lemma runes_Nil [simp]: "runes [] = []"
  by (simp add: runes_def)

lemma segments_eq_Nil [simp]: "segments s = [] \<longleftrightarrow> s = []"
  by (cases s) (auto split: option.splits)

text \<open>\<open>utf8.AppendRune\<close> for a Unicode scalar value.\<close>

definition encode_rune :: "nat \<Rightarrow> bytes" where
  "encode_rune r =
     (if r < 0x80 then [char_of r]
      else if r < 0x800 then [char_of (0xC0 + r div 64), char_of (0x80 + r mod 64)]
      else if r < 0x10000 then
        [char_of (0xE0 + r div 4096), char_of (0x80 + r div 64 mod 64), char_of (0x80 + r mod 64)]
      else
        [char_of (0xF0 + r div 262144), char_of (0x80 + r div 4096 mod 64),
         char_of (0x80 + r div 64 mod 64), char_of (0x80 + r mod 64)])"

definition scalar_value :: "nat \<Rightarrow> bool" where
  "scalar_value r \<longleftrightarrow> r < 0xD800 \<or> 0xE000 \<le> r \<and> r < 0x110000"

lemma of_char_char_of [simp]: "(of_char (char_of (n :: nat)) :: nat) = n mod 256"
  by (simp add: of_char_of take_bit_eq_mod)

lemma rune_digits:
  fixes r :: nat
  shows "r div 4096 = r div 64 div 64" and "r div 262144 = r div 64 div 64 div 64"
    and "r div 64 * 64 + r mod 64 = r"
  by (simp_all add: div_mult2_eq [symmetric])

lemma utf8_step_encode3:
  assumes "0x800 \<le> r" "r < 0x10000" "scalar_value r"
  shows "utf8_step (encode_rune r @ s) = Some (r, 3)"
proof -
  define q where "q = r div 64"
  define p where "p = q div 64"
  have r: "r = q * 64 + r mod 64" "r mod 64 < 64" by (simp_all add: q_def)
  have q: "q = p * 64 + q mod 64" "q mod 64 < 64" by (simp_all add: p_def)
  have p: "r div 4096 = p" "p < 16" using assms r q by (simp_all add: rune_digits p_def q_def)
  have lo: "p = 0 \<Longrightarrow> 32 \<le> q mod 64" using assms(1) r q by linarith
  have hi: "p = 13 \<Longrightarrow> q mod 64 \<le> 31"
    using assms(3) r q unfolding scalar_value_def by linarith
  have m: "(224 + p) mod 256 = 224 + p" "(128 + q mod 64) mod 256 = 128 + q mod 64"
    "(128 + r mod 64) mod 256 = 128 + r mod 64" using p(2) by simp_all
  have e: "p * 4096 + q mod 64 * 64 + r mod 64 = r" using r q by linarith
  have enc: "encode_rune r = [char_of (0xE0 + p), char_of (0x80 + q mod 64), char_of (0x80 + r mod 64)]"
    using assms(1,2) p(1) by (simp add: encode_rune_def q_def)
  show ?thesis using p(2) lo hi e r(2) q(2)
    by (auto simp: enc utf8_step_def Let_def byte_in_def low6_def m simp del: mod_less_divisor)
qed

lemma utf8_step_encode4:
  assumes "0x10000 \<le> r" "r < 0x110000"
  shows "utf8_step (encode_rune r @ s) = Some (r, 4)"
proof -
  define q where "q = r div 64"
  define p where "p = q div 64"
  define n where "n = p div 64"
  have r: "r = q * 64 + r mod 64" "r mod 64 < 64" by (simp_all add: q_def)
  have q: "q = p * 64 + q mod 64" "q mod 64 < 64" by (simp_all add: p_def)
  have p: "p = n * 64 + p mod 64" "p mod 64 < 64" by (simp_all add: n_def)
  have n: "r div 262144 = n" "n < 5" "r div 4096 = p"
    using assms r q p by (simp_all add: rune_digits n_def p_def q_def)
  have lo: "n = 0 \<Longrightarrow> 16 \<le> p mod 64" using assms(1) r q p by linarith
  have hi: "n = 4 \<Longrightarrow> p mod 64 \<le> 15" using assms(2) r q p by linarith
  have m: "(240 + n) mod 256 = 240 + n" "(128 + p mod 64) mod 256 = 128 + p mod 64"
    "(128 + q mod 64) mod 256 = 128 + q mod 64" "(128 + r mod 64) mod 256 = 128 + r mod 64"
    using n(2) by simp_all
  have e: "n * 262144 + p mod 64 * 4096 + q mod 64 * 64 + r mod 64 = r" using r q p by linarith
  have enc: "encode_rune r = [char_of (0xF0 + n), char_of (0x80 + p mod 64),
      char_of (0x80 + q mod 64), char_of (0x80 + r mod 64)]"
    using assms n by (simp add: encode_rune_def q_def)
  show ?thesis using n(2) lo hi e r(2) q(2) p(2)
    by (auto simp: enc utf8_step_def Let_def byte_in_def low6_def m simp del: mod_less_divisor)
qed

lemma utf8_step_encode:
  assumes "scalar_value r"
  shows "utf8_step (encode_rune r @ s) = Some (r, length (encode_rune r))"
proof -
  consider "r < 0x80" | "0x80 \<le> r" "r < 0x800" | "0x800 \<le> r" "r < 0x10000"
    | "0x10000 \<le> r" "r < 0x110000"
    using assms unfolding scalar_value_def by linarith
  then show ?thesis
  proof cases
    case 1
    then show ?thesis by (simp add: utf8_step_def encode_rune_def Let_def)
  next
    case 2
    have "r div 64 < 32" "2 \<le> r div 64" using 2 by auto
    then show ?thesis using 2
      by (simp add: utf8_step_def encode_rune_def Let_def byte_in_def low6_def)
  next
    case 3
    then show ?thesis using utf8_step_encode3 [OF 3 assms] by (simp add: encode_rune_def)
  next
    case 4
    then show ?thesis using utf8_step_encode4 [OF 4] by (simp add: encode_rune_def)
  qed
qed

lemma encode_rune_not_Nil [simp]: "encode_rune r \<noteq> []"
  by (simp add: encode_rune_def)

lemma utf8_valid_step: "s \<noteq> [] \<Longrightarrow> utf8_step s = Some (r, w) \<Longrightarrow> utf8_valid s = utf8_valid (drop w s)"
  using utf8_step_width [of s r w] by (cases s) (auto simp: drop_Cons')

lemma segments_step:
  "s \<noteq> [] \<Longrightarrow> utf8_step s = Some (r, w) \<Longrightarrow> segments s = (r, take w s) # segments (drop w s)"
  using utf8_step_width [of s r w] by (cases s) (auto simp: drop_Cons' take_Cons')

lemma utf8_encode_append:
  assumes "scalar_value r"
  shows "utf8_valid (encode_rune r @ s) = utf8_valid s"
    and "runes (encode_rune r @ s) = r # runes s"
  using utf8_valid_step [OF _ utf8_step_encode [OF assms, of s]]
    segments_step [OF _ utf8_step_encode [OF assms, of s]]
  by (simp_all add: runes_def)

text \<open>Text written rune by rune is valid and reads back as the same runes.\<close>

lemma utf8_concat_encode:
  "list_all scalar_value rs \<Longrightarrow>
     utf8_valid (concat (map encode_rune rs)) \<and> runes (concat (map encode_rune rs)) = rs"
  by (induction rs) (simp_all add: utf8_encode_append)

section \<open>White space\<close>

definition is_space_rune :: "nat \<Rightarrow> bool" where
  "is_space_rune r \<longleftrightarrow> 9 \<le> r \<and> r \<le> 13 \<or> r = 0x20 \<or> r = 0x85 \<or> r = 0xA0 \<or> r = 0x1680 \<or>
     0x2000 \<le> r \<and> r \<le> 0x200A \<or> r = 0x2028 \<or> r = 0x2029 \<or> r = 0x202F \<or> r = 0x205F \<or> r = 0x3000"

definition trim_space :: "bytes \<Rightarrow> bytes" where
  "trim_space s =
     concat (map snd (rev (dropWhile (\<lambda>x. is_space_rune (fst x))
       (rev (dropWhile (\<lambda>x. is_space_rune (fst x)) (segments s))))))"

section \<open>Hexadecimal\<close>

definition hex_digit :: "nat \<Rightarrow> char" where
  "hex_digit d = (if d < 10 then char_of (48 + d) else char_of (87 + d))"

definition hex_encode :: "bytes \<Rightarrow> bytes" where
  "hex_encode s = concat (map (\<lambda>c. [hex_digit (of_char c div 16), hex_digit (of_char c mod 16)]) s)"

lemma length_hex_encode [simp]: "length (hex_encode s) = 2 * length s"
  by (induction s) (simp_all add: hex_encode_def)

lemma hex_digit_lower: "d < 16 \<Longrightarrow> is_hex_lower (hex_digit d)"
  by (auto simp: hex_digit_def is_hex_lower_def is_digit_def less_eq_char_def)

lemma hex_encode_lower: "list_all is_hex_lower (hex_encode s)"
proof (induction s)
  case Nil
  show ?case by (simp add: hex_encode_def)
next
  case (Cons c s)
  have "(of_char c :: nat) div 16 < 16" using of_char_less_256 [of c] by linarith
  then show ?case using Cons by (simp add: hex_encode_def hex_digit_lower)
qed

section \<open>Base64\<close>

definition b64_char :: "nat \<Rightarrow> char" where
  "b64_char n = (if n < 26 then char_of (65 + n) else if n < 52 then char_of (71 + n)
     else if n < 62 then char_of (n - 4) else if n = 62 then CHR ''+'' else CHR ''/'')"

definition b64_val :: "char \<Rightarrow> nat option" where
  "b64_val c = (if is_upper c then Some (of_char c - 65)
     else if is_lower c then Some (of_char c - 71)
     else if is_digit c then Some (of_char c + 4)
     else if c = CHR ''+'' then Some 62 else if c = CHR ''/'' then Some 63 else None)"

text \<open>The four six-bit groups of three bytes.\<close>

definition sextet1 :: "char \<Rightarrow> nat" where "sextet1 x = of_char x div 4"
definition sextet2 :: "char \<Rightarrow> nat \<Rightarrow> nat" where "sextet2 x y = of_char x mod 4 * 16 + y div 16"
definition sextet3 :: "char \<Rightarrow> nat \<Rightarrow> nat" where "sextet3 y z = of_char y mod 16 * 4 + z div 64"
definition sextet4 :: "char \<Rightarrow> nat" where "sextet4 z = of_char z mod 64"

fun b64_encode :: "bytes \<Rightarrow> bytes" where
  "b64_encode [] = []"
| "b64_encode [x] = [b64_char (sextet1 x), b64_char (sextet2 x 0), CHR ''='', CHR ''='']"
| "b64_encode [x, y] =
     [b64_char (sextet1 x), b64_char (sextet2 x (of_char y)), b64_char (sextet3 y 0), CHR ''='']"
| "b64_encode (x # y # z # s) =
     b64_char (sextet1 x) # b64_char (sextet2 x (of_char y)) # b64_char (sextet3 y (of_char z))
       # b64_char (sextet4 z) # b64_encode s"

text \<open>One quantum; \<open>Strict\<close> refuses non-zero bits that padding throws away.\<close>

fun b64_quanta :: "bytes \<Rightarrow> bytes option" where
  "b64_quanta [] = Some []"
| "b64_quanta (a # b # c # d # s) =
     (case (b64_val a, b64_val b) of
        (Some i, Some j) \<Rightarrow>
          if c = CHR ''='' then
            (if d = CHR ''='' \<and> s = [] \<and> j mod 16 = 0 then Some [char_of (i * 4 + j div 16)] else None)
          else (case b64_val c of None \<Rightarrow> None
            | Some k \<Rightarrow>
                if d = CHR ''='' then
                  (if s = [] \<and> k mod 4 = 0
                   then Some [char_of (i * 4 + j div 16), char_of (j mod 16 * 16 + k div 4)] else None)
                else (case b64_val d of None \<Rightarrow> None
                  | Some l \<Rightarrow> map_option (\<lambda>r. char_of (i * 4 + j div 16) # char_of (j mod 16 * 16 + k div 4)
                                   # char_of (k mod 4 * 64 + l) # r) (b64_quanta s)))
      | _ \<Rightarrow> None)"
| "b64_quanta _ = None"

text \<open>
  \<open>base64.StdEncoding.Strict().DecodeString\<close>: carriage returns and line feeds are skipped
  wherever they stand, also under \<open>Strict\<close>.
\<close>

definition is_crlf :: "char \<Rightarrow> bool" where
  "is_crlf c \<longleftrightarrow> c = CHR 0x0A \<or> c = CHR 0x0D"

definition b64_decode :: "bytes \<Rightarrow> bytes option" where
  "b64_decode s = b64_quanta (filter (\<lambda>c. \<not> is_crlf c) s)"

lemma b64_val_char: "n < 64 \<Longrightarrow> b64_val (b64_char n) = Some n"
  by (auto simp: b64_val_def b64_char_def is_upper_def is_lower_def is_digit_def less_eq_char_def)

lemma b64_char_plain: "n < 64 \<Longrightarrow> b64_char n \<noteq> CHR ''='' \<and> \<not> is_crlf (b64_char n)"
  using b64_val_char [of n] by (auto simp: is_crlf_def b64_val_def char_class_defs less_eq_char_def)

lemma sextet_bounds [simp]:
  "sextet1 x < 64" "y < 256 \<Longrightarrow> sextet2 x y < 64" "y < 256 \<Longrightarrow> sextet3 x y < 64" "sextet4 x < 64"
  unfolding sextet1_def sextet2_def sextet3_def sextet4_def
  using of_char_less_256 [of x] by linarith+

lemma byte_splits:
  fixes n :: nat
  assumes "n < 256"
  shows "n div 16 mod 16 * 16 + n mod 16 = n" and "n div 64 mod 4 * 64 + n mod 64 = n"
  using assms by simp_all

lemma sextet_bytes:
  "y < 256 \<Longrightarrow> sextet1 x * 4 + sextet2 x y div 16 = of_char x"
  "z < 256 \<Longrightarrow> sextet2 x' (of_char c) mod 16 * 16 + sextet3 c z div 4 = of_char c"
  "sextet3 x' (of_char c) mod 4 * 64 + sextet4 c = of_char c"
  "sextet2 x 0 mod 16 = 0" "sextet3 x 0 mod 4 = 0"
  using of_char_less_256 [of x] of_char_less_256 [of c] byte_splits [OF of_char_less_256 [of c]]
  by (simp_all add: sextet1_def sextet2_def sextet3_def sextet4_def)

lemma b64_encode_no_crlf: "filter (\<lambda>c. \<not> is_crlf c) (b64_encode s) = b64_encode s"
proof (induction s rule: b64_encode.induct)
  case (4 x y z s)
  then show ?case by (simp add: b64_char_plain of_char_less_256)
qed (simp_all add: b64_char_plain of_char_less_256, simp_all add: is_crlf_def)

lemma b64_quanta_encode: "b64_quanta (b64_encode s) = Some s"
proof (induction s rule: b64_encode.induct)
  case (4 x y z s)
  then show ?case by (simp add: b64_val_char b64_char_plain sextet_bytes of_char_less_256)
qed (simp_all add: b64_val_char b64_char_plain sextet_bytes of_char_less_256)

lemma b64_roundtrip [simp]: "b64_decode (b64_encode s) = Some s"
  by (simp add: b64_decode_def b64_encode_no_crlf b64_quanta_encode)

lemma b64_decode_skip_newline:
  "b64_decode (s @ CHR 0x0A # t) = b64_decode (s @ t)"
  by (simp add: b64_decode_def is_crlf_def)

text \<open>\<open>base64.StdEncoding.EncodedLen\<close>.\<close>

definition b64_encoded_len :: "nat \<Rightarrow> nat" where
  "b64_encoded_len n = (n + 2) div 3 * 4"

lemma length_b64_encode: "length (b64_encode s) = b64_encoded_len (length s)"
proof (induction s rule: b64_encode.induct)
  case (4 x y z s)
  have "(Suc (Suc (Suc (length s))) + 2) div 3 = Suc ((length s + 2) div 3)" by presburger
  then show ?case using 4 by (simp add: b64_encoded_len_def)
qed (simp_all add: b64_encoded_len_def)

lemma b64_encoded_len_mono: "m \<le> n \<Longrightarrow> b64_encoded_len m \<le> b64_encoded_len n"
  by (simp add: b64_encoded_len_def div_le_mono)

section \<open>JSON strings\<close>

text \<open>
  \<open>json.Marshal\<close> of a string: quotes, backslashes and control characters are escaped, \<open><\<close>,
  \<open>>\<close> and \<open>&\<close> too (HTML escaping is on by default), and so are U+2028, U+2029 and every
  invalid byte.
\<close>

definition json_u :: "nat \<Rightarrow> bytes" where
  "json_u n = CHR 0x5C # CHR ''u'' # map hex_digit [n div 4096 mod 16, n div 256 mod 16, n div 16 mod 16, n mod 16]"

definition json_segment :: "nat \<times> bytes \<Rightarrow> bytes" where
  "json_segment seg =
     (case seg of (r, raw) \<Rightarrow>
        if r = 0x22 \<or> r = 0x5C then [CHR 0x5C, char_of r]
        else if r = 8 then [CHR 0x5C, CHR ''b''] else if r = 12 then [CHR 0x5C, CHR ''f'']
        else if r = 10 then [CHR 0x5C, CHR ''n''] else if r = 13 then [CHR 0x5C, CHR ''r'']
        else if r = 9 then [CHR 0x5C, CHR ''t'']
        else if r < 0x20 \<or> r = 0x3C \<or> r = 0x3E \<or> r = 0x26 then json_u r
        else if length raw = 1 \<and> 0x80 \<le> r \<or> r = 0x2028 \<or> r = 0x2029 then json_u r
        else raw)"

definition json_string :: "bytes \<Rightarrow> bytes" where
  "json_string s = CHR 0x22 # concat (map json_segment (segments s)) @ [CHR 0x22]"

text \<open>Escaping makes a string at most six times as long.\<close>

lemma segments_nonempty: "(r, raw) \<in> set (segments s) \<Longrightarrow> raw \<noteq> []"
  by (induction s rule: segments.induct) (auto split: option.splits)

lemma length_json_segment: "raw \<noteq> [] \<Longrightarrow> length (json_segment (r, raw)) \<le> 6 * length raw"
  by (cases raw) (auto simp: json_segment_def json_u_def)

lemma length_json_string: "length (json_string s) \<le> 6 * length s + 2"
proof -
  have le: "length (concat (map json_segment segs)) \<le> 6 * length (concat (map snd segs))"
    if "\<forall>(r, raw)\<in>set segs. raw \<noteq> []" for segs
    using that by (induction segs) (auto intro!: add_mono length_json_segment)
  have "\<forall>(r, raw)\<in>set (segments s). raw \<noteq> []" using segments_nonempty by auto
  from le [OF this] show ?thesis by (simp add: json_string_def concat_segments)
qed

text \<open>A marshalled string has no line feed.\<close>

lemma utf8_step_bytes:
  assumes "utf8_step s = Some (r, w)"
  shows "w = 1 \<and> (\<exists>c cs. s = c # cs \<and> of_char c = r) \<and> r < 0x80 \<or> (\<forall>c\<in>set (take w s). 0x80 \<le> (of_char c :: nat))"
  using assms
  by (auto simp: utf8_step_def Let_def byte_in_def split: list.splits if_splits)

lemma segments_bytes:
  "(r, raw) \<in> set (segments s) \<Longrightarrow>
     (\<exists>c. raw = [c] \<and> of_char c = r \<and> r < 0x80) \<or> (\<forall>c\<in>set raw. 0x80 \<le> (of_char c :: nat)) \<or>
     r = utf8_rune_error \<and> length raw = 1"
proof (induction s rule: segments.induct)
  case 1
  then show ?case by simp
next
  case (2 c cs)
  show ?case
  proof (cases "utf8_step (c # cs)")
    case None
    then show ?thesis using 2 by auto
  next
    case (Some p)
    obtain q w where p: "utf8_step (c # cs) = Some (q, w)" using Some by (cases p) auto
    have w: "0 < w" using utf8_step_width [OF p] by simp
    then have tk: "take w (c # cs) = c # take (w - 1) cs" by (cases w) auto
    from 2(3) p consider "r = q" "raw = c # take (w - 1) cs" | "(r, raw) \<in> set (segments (drop (w - 1) cs))" by auto
    then show ?thesis
    proof cases
      case 1
      then show ?thesis using utf8_step_bytes [OF p] tk by auto
    next
      case 2
      then show ?thesis using "2.IH"(2) [OF p] p by auto
    qed
  qed
qed

lemma hex_digit_not_lf: "d < 16 \<Longrightarrow> hex_digit d \<noteq> CHR 0x0A"
  using hex_digit_lower [of d] by (auto simp: char_class_defs less_eq_char_def)

lemma json_u_no_lf: "CHR 0x0A \<notin> set (json_u n)"
  by (auto simp: json_u_def hex_digit_not_lf [symmetric] eq_commute [of "CHR 0x0A"] dest: hex_digit_not_lf [THEN notE, rotated])

text \<open>No line feed inside.\<close>

definition no_lf :: "bytes \<Rightarrow> bool" where
  "no_lf s \<longleftrightarrow> CHR 0x0A \<notin> set s"

lemma no_lf_append [simp]: "no_lf (s @ t) \<longleftrightarrow> no_lf s \<and> no_lf t"
  by (simp add: no_lf_def)

lemma no_lf_Nil [simp]: "no_lf []"
  by (simp add: no_lf_def)

lemma no_lf_Cons [simp]: "no_lf (c # s) \<longleftrightarrow> c \<noteq> CHR 0x0A \<and> no_lf s"
  by (auto simp: no_lf_def)

lemma no_lf_concat [simp]: "no_lf (concat xs) \<longleftrightarrow> list_all no_lf xs"
  by (auto simp: no_lf_def list_all_iff)

lemma split_on_no_lf: "no_lf s \<Longrightarrow> split_on (CHR 0x0A) s = [s]"
  by (induction s) auto

lemma split_on_lf_free: "w \<in> set (split_on (CHR 0x0A) s) \<Longrightarrow> no_lf w"
  using split_on_sep by (auto simp: no_lf_def)

lemma json_segment_no_lf:
  assumes "(r, raw) \<in> set (segments s)" shows "no_lf (json_segment (r, raw))"
proof -
  have "no_lf raw" if "r \<noteq> 10" "\<not> (length raw = 1 \<and> 0x80 \<le> r)"
    using segments_bytes [OF assms] that by (auto simp: utf8_rune_error_def no_lf_def)
  moreover have "char_of r \<noteq> CHR 0x0A" if "r = 0x22 \<or> r = 0x5C"
  proof
    assume "char_of r = CHR 0x0A"
    then have "(of_char (char_of r :: char) :: nat) = of_char (CHR 0x0A)" by simp
    then show False using that by auto
  qed
  moreover have "no_lf (json_u r)" using json_u_no_lf by (simp add: no_lf_def)
  ultimately show ?thesis by (auto simp: json_segment_def)
qed

lemma json_string_no_lf [simp]: "no_lf (json_string s)"
  using json_segment_no_lf [of _ _ s] by (auto simp: json_string_def list_all_iff)

lemma digit_char_no_lf: "d < 10 \<Longrightarrow> digit_char d \<noteq> CHR 0x0A"
proof -
  assume "d < 10"
  then have "d \<in> {0, 1, 2, 3, 4, 5, 6, 7, 8, 9}" by auto
  then show ?thesis by (auto simp: digit_char_def)
qed

lemma nat_str_no_lf [simp]: "no_lf (nat_str n)"
proof (induction n rule: nat_str.induct)
  case (1 n)
  then show ?case using digit_char_no_lf [of n] digit_char_no_lf [of "n mod 10"] by (cases "n < 10") auto
qed

lemma int_str_no_lf [simp]: "no_lf (int_str n)"
  unfolding int_str_def by simp

end
