(* ===== verification/Ident.thy ===== *)
theory Ident
  imports GoText
begin

text \<open>
  The identifier rules of the signing chain: package \<open>signing/ident\<close> (tenant slugs, package
  names, key aliases, machine names, server ids, timestamps) and package
  \<open>signing/fingerprint\<close> (full sha256 in lower-case hexadecimal). Every rule is a white list
  over ASCII; a regular expression of the source is written out as a predicate on the bytes.
\<close>

section \<open>Fingerprints\<close>

definition fingerprint_length :: nat where
  "fingerprint_length = 64"

definition fingerprint_valid :: "bytes \<Rightarrow> bool" where
  "fingerprint_valid s \<longleftrightarrow> length s = fingerprint_length \<and> list_all is_hex_lower s"

text \<open>\<open>fingerprint.Normalize\<close>: colons removed, lower-cased, then checked.\<close>

definition fingerprint_normalize :: "bytes \<Rightarrow> bytes option" where
  "fingerprint_normalize s =
     (let out = to_lower (filter (\<lambda>c. c \<noteq> CHR '':'') s)
      in if fingerprint_valid out then Some out else None)"

lemma is_hex_lower_plain: "is_hex_lower c \<Longrightarrow> \<not> is_upper c \<and> c \<noteq> CHR '':''"
  by (auto simp: char_class_defs less_eq_char_def)

lemma fingerprint_normalize_valid: "fingerprint_normalize s = Some t \<Longrightarrow> fingerprint_valid t"
  by (auto simp: fingerprint_normalize_def Let_def split: if_splits)

lemma fingerprint_normalize_id: "fingerprint_valid s \<Longrightarrow> fingerprint_normalize s = Some s"
proof -
  assume v: "fingerprint_valid s"
  then have all: "\<forall>c\<in>set s. is_hex_lower c" by (simp add: fingerprint_valid_def list_all_iff)
  have "filter (\<lambda>c. c \<noteq> CHR '':'') s = s"
    by (rule filter_True) (use all is_hex_lower_plain in blast)
  moreover have "to_lower s = s"
    by (rule to_lower_id) (use all is_hex_lower_plain in \<open>simp add: list_all_iff\<close>)
  ultimately show ?thesis using v by (simp add: fingerprint_normalize_def)
qed

lemma fingerprint_valid_not_Nil [simp]: "\<not> fingerprint_valid []"
  by (simp add: fingerprint_valid_def fingerprint_length_def)

lemma hex_encode_valid: "length d = 32 \<Longrightarrow> fingerprint_valid (hex_encode d)"
  by (simp add: fingerprint_valid_def fingerprint_length_def hex_encode_lower)

section \<open>Identifiers\<close>

definition slug_char :: "char \<Rightarrow> bool" where
  "slug_char c \<longleftrightarrow> is_alnum c \<or> c \<in> {CHR ''.'', CHR ''_'', CHR ''-''}"

text \<open>\<open>^[A-Za-z0-9][A-Za-z0-9._-]{0,99}$\<close>\<close>

definition valid_tenant_slug :: "bytes \<Rightarrow> bool" where
  "valid_tenant_slug s =
     (case s of [] \<Rightarrow> False | c # cs \<Rightarrow> is_alnum c \<and> length cs \<le> 99 \<and> list_all slug_char cs)"

definition package_char :: "char \<Rightarrow> bool" where
  "package_char c \<longleftrightarrow> is_lower c \<or> is_digit c \<or> c = CHR ''_''"

definition package_segment :: "bytes \<Rightarrow> bool" where
  "package_segment s = (case s of [] \<Rightarrow> False | c # cs \<Rightarrow> is_lower c \<and> list_all package_char cs)"

definition max_package_name_length :: nat where
  "max_package_name_length = 255"

text \<open>\<open>^[a-z][a-z0-9_]*(\.[a-z][a-z0-9_]*)+$\<close>, at most 255 bytes.\<close>

definition valid_package_name :: "bytes \<Rightarrow> bool" where
  "valid_package_name s \<longleftrightarrow>
     length s \<le> max_package_name_length \<and>
     2 \<le> length (split_on (CHR ''.'') s) \<and> list_all package_segment (split_on (CHR ''.'') s)"

text \<open>\<open>^[A-Za-z0-9._-]{1,64}$\<close>\<close>

definition valid_key_alias :: "bytes \<Rightarrow> bool" where
  "valid_key_alias s \<longleftrightarrow> 1 \<le> length s \<and> length s \<le> 64 \<and> list_all slug_char s"

text \<open>\<open>^[a-z0-9][a-z0-9-]{1,39}$\<close>\<close>

definition valid_machine_name :: "bytes \<Rightarrow> bool" where
  "valid_machine_name s =
     (case s of [] \<Rightarrow> False
      | c # cs \<Rightarrow> (is_lower c \<or> is_digit c) \<and> 1 \<le> length cs \<and> length cs \<le> 39 \<and>
          list_all (\<lambda>x. is_lower x \<or> is_digit x \<or> x = CHR ''-'') cs)"

definition id_char :: "char \<Rightarrow> bool" where
  "id_char c \<longleftrightarrow> is_alnum c \<or> c = CHR ''_'' \<or> c = CHR ''-''"

text \<open>
  \<open>^[a-z]{2,8}_[A-Za-z0-9_-]{4,64}$\<close>: the prefix has no underscore, so the first one ends it.
\<close>

definition valid_server_id :: "bytes \<Rightarrow> bool" where
  "valid_server_id s =
     (let pre = takeWhile (\<lambda>c. c \<noteq> CHR ''_'') s; rest = dropWhile (\<lambda>c. c \<noteq> CHR ''_'') s
      in 2 \<le> length pre \<and> length pre \<le> 8 \<and> list_all is_lower pre \<and>
         (case rest of [] \<Rightarrow> False
          | _ # cs \<Rightarrow> 4 \<le> length cs \<and> length cs \<le> 64 \<and> list_all id_char cs))"

definition valid_server_id_with_prefix :: "bytes \<Rightarrow> bytes \<Rightarrow> bool" where
  "valid_server_id_with_prefix s p \<longleftrightarrow> starts_with (p @ ''_'') s \<and> valid_server_id s"

definition printable_ascii :: "bytes \<Rightarrow> bool" where
  "printable_ascii s \<longleftrightarrow> list_all (\<lambda>c. byte_in 0x20 0x7E c) s"

section \<open>Timestamps\<close>

text \<open>
  \<open>time.Parse(time.RFC3339Nano, s)\<close> for a string that ends in \<open>Z\<close>. The general parser takes
  the hour with one or two digits and the fraction after a period or a comma.
\<close>

definition two_digits :: "bytes \<Rightarrow> (nat \<times> bytes) option" where
  "two_digits s =
     (case s of a # b # r \<Rightarrow> if is_digit a \<and> is_digit b then Some (digits_nat [a, b], r) else None
      | _ \<Rightarrow> None)"

definition hour_digits :: "bytes \<Rightarrow> (nat \<times> bytes) option" where
  "hour_digits s =
     (case s of [] \<Rightarrow> None
      | a # r \<Rightarrow> if \<not> is_digit a then None
          else (case r of b # r' \<Rightarrow> if is_digit b then Some (digits_nat [a, b], r') else Some (digits_nat [a], r)
                | [] \<Rightarrow> Some (digits_nat [a], r)))"

definition expect_char :: "char \<Rightarrow> bytes \<Rightarrow> bytes option" where
  "expect_char c s = (case s of [] \<Rightarrow> None | x # r \<Rightarrow> if x = c then Some r else None)"

definition four_digits :: "bytes \<Rightarrow> (nat \<times> bytes) option" where
  "four_digits s =
     (if 4 \<le> length s \<and> list_all is_digit (take 4 s) then Some (digits_nat (take 4 s), drop 4 s) else None)"

definition skip_fraction :: "bytes \<Rightarrow> bytes" where
  "skip_fraction s =
     (case s of c # d # r \<Rightarrow>
        if (c = CHR ''.'' \<or> c = CHR '','') \<and> is_digit d then dropWhile is_digit (d # r) else s
      | _ \<Rightarrow> s)"

definition leap_year :: "nat \<Rightarrow> bool" where
  "leap_year y \<longleftrightarrow> y mod 4 = 0 \<and> (y mod 100 \<noteq> 0 \<or> y mod 400 = 0)"

definition days_in_month :: "nat \<Rightarrow> nat \<Rightarrow> nat" where
  "days_in_month m y =
     (if m = 2 then if leap_year y then 29 else 28
      else if m \<in> {4, 6, 9, 11} then 30 else 31)"

definition parse_rfc3339z :: "bytes \<Rightarrow> bool" where
  "parse_rfc3339z s =
     (case Option.bind (four_digits s) (\<lambda>(y, s1).
        Option.bind (expect_char (CHR ''-'') s1) (\<lambda>s2.
        Option.bind (two_digits s2) (\<lambda>(m, s3).
        Option.bind (expect_char (CHR ''-'') s3) (\<lambda>s4.
        Option.bind (two_digits s4) (\<lambda>(d, s5).
        Option.bind (expect_char (CHR ''T'') s5) (\<lambda>s6.
        Option.bind (hour_digits s6) (\<lambda>(h, s7).
        Option.bind (expect_char (CHR '':'') s7) (\<lambda>s8.
        Option.bind (two_digits s8) (\<lambda>(mi, s9).
        Option.bind (expect_char (CHR '':'') s9) (\<lambda>s10.
        Option.bind (two_digits s10) (\<lambda>(sec, s11).
          if 1 \<le> m \<and> m \<le> 12 \<and> h < 24 \<and> mi < 60 \<and> sec < 60 \<and> 1 \<le> d \<and> d \<le> days_in_month m y
          then Some (skip_fraction s11) else None))))))))))) of
        None \<Rightarrow> False | Some rest \<Rightarrow> rest = ''Z'')"

definition valid_rfc3339_utc :: "bytes \<Rightarrow> bool" where
  "valid_rfc3339_utc s \<longleftrightarrow> length s \<le> 40 \<and> ends_with ''Z'' s \<and> parse_rfc3339z s"

section \<open>What the rules exclude\<close>

lemma is_alnum_visible: "is_alnum c \<Longrightarrow> byte_in 0x21 0x7E c"
  by (auto simp: char_class_defs byte_in_def less_eq_char_def)

lemma id_class_visible:
  "slug_char c \<Longrightarrow> byte_in 0x21 0x7E c" "id_char c \<Longrightarrow> byte_in 0x21 0x7E c"
  by (auto simp: slug_char_def id_char_def byte_in_def dest: is_alnum_visible)

lemma is_lower_alnum: "is_lower c \<Longrightarrow> is_alnum c"
  by (simp add: is_alnum_def)

lemma valid_server_id_visible:
  assumes "valid_server_id s" shows "list_all (byte_in 0x21 0x7E) s"
proof -
  define pre where "pre = takeWhile (\<lambda>c. c \<noteq> CHR ''_'') s"
  define rest where "rest = dropWhile (\<lambda>c. c \<noteq> CHR ''_'') s"
  have s: "s = pre @ rest" by (simp add: pre_def rest_def)
  have pre: "list_all is_lower pre"
    and rest: "\<exists>cs. rest = CHR ''_'' # cs \<and> list_all id_char cs"
    using assms
    by (auto simp: valid_server_id_def Let_def pre_def rest_def dropWhile_eq_Cons_conv
        split: list.splits)
  have "list_all (byte_in 0x21 0x7E) pre"
    using pre by (rule list.pred_mono_strong) (auto intro: is_alnum_visible is_lower_alnum)
  moreover have "list_all (byte_in 0x21 0x7E) rest"
    using rest id_class_visible(2) id_class_visible(1) [of "CHR ''_''"]
    by (auto simp: list_all_iff slug_char_def)
  ultimately show ?thesis using s by simp
qed

lemma package_char_visible: "package_char c \<Longrightarrow> byte_in 0x21 0x7E c"
  by (auto simp: package_char_def char_class_defs byte_in_def less_eq_char_def)

lemma valid_package_name_visible:
  assumes "valid_package_name s" shows "list_all (byte_in 0x21 0x7E) s"
proof (clarsimp simp: list_all_iff)
  fix c assume c: "c \<in> set s"
  show "byte_in 0x21 0x7E c"
  proof (cases "c = CHR ''.''")
    case True
    then show ?thesis by (simp add: byte_in_def)
  next
    case False
    then obtain w where w: "w \<in> set (split_on (CHR ''.'') s)" "c \<in> set w"
      using c split_on_covers by blast
    then have "package_segment w" using assms by (simp add: valid_package_name_def list_all_iff)
    then have "package_char c" using w(2)
      by (auto simp: package_segment_def package_char_def list_all_iff split: list.splits)
    then show ?thesis by (rule package_char_visible)
  qed
qed

end
