(* ===== verification/Crypto.thy ===== *)
theory Crypto
  imports Ident
begin

text \<open>
  The cryptographic primitives of Go's standard library (\<open>crypto/sha256\<close>, \<open>crypto/ed25519\<close>)
  are parameters of the model, gathered in one record. \<open>crypto_ok\<close> states what their
  documentation promises; it says nothing about collisions or forgeries. Statements that need
  collision freedom instead exhibit the collision.
\<close>

record crypto =
  sha256_sum :: "bytes \<Rightarrow> bytes"
  ed_public :: "bytes \<Rightarrow> bytes"
  ed_sign :: "bytes \<Rightarrow> bytes \<Rightarrow> bytes"
  ed_verify :: "bytes \<Rightarrow> bytes \<Rightarrow> bytes \<Rightarrow> bool"

definition ed_public_key_size :: nat where "ed_public_key_size = 32"
definition ed_private_key_size :: nat where "ed_private_key_size = 64"
definition ed_signature_size :: nat where "ed_signature_size = 64"

lemmas ed_sizes = ed_public_key_size_def ed_private_key_size_def ed_signature_size_def

definition crypto_ok :: "crypto \<Rightarrow> bool" where
  "crypto_ok K \<longleftrightarrow>
     (\<forall>m. length (sha256_sum K m) = 32) \<and>
     (\<forall>priv m. length priv = ed_private_key_size \<longrightarrow>
        length (ed_public K priv) = ed_public_key_size \<and>
        length (ed_sign K priv m) = ed_signature_size \<and>
        ed_verify K (ed_public K priv) m (ed_sign K priv m))"

text \<open>\<open>fingerprint.SHA256Hex\<close>.\<close>

definition sha256_hex :: "crypto \<Rightarrow> bytes \<Rightarrow> bytes" where
  "sha256_hex K b = hex_encode (sha256_sum K b)"

lemma sha256_hex_valid: "crypto_ok K \<Longrightarrow> fingerprint_valid (sha256_hex K b)"
  by (simp add: sha256_hex_def crypto_ok_def hex_encode_valid)

text \<open>Two different messages with the same sha256.\<close>

definition sha256_collision :: "crypto \<Rightarrow> bytes \<Rightarrow> bytes \<Rightarrow> bool" where
  "sha256_collision K a b \<longleftrightarrow> a \<noteq> b \<and> sha256_sum K a = sha256_sum K b"

lemma hex_digit_inj: "i < 16 \<Longrightarrow> j < 16 \<Longrightarrow> hex_digit i = hex_digit j \<longleftrightarrow> i = j"
proof
  assume b: "i < 16" "j < 16" and e: "hex_digit i = hex_digit j"
  then have "(of_char (hex_digit i) :: nat) = of_char (hex_digit j)" by simp
  then show "i = j" using b by (auto simp: hex_digit_def split: if_splits)
qed simp

lemma hex_encode_inj: "hex_encode a = hex_encode b \<Longrightarrow> a = b"
proof (induction a arbitrary: b)
  case Nil
  then show ?case by (cases b) (simp_all add: hex_encode_def)
next
  case (Cons x a)
  then obtain y b' where b: "b = y # b'" by (cases b) (simp_all add: hex_encode_def)
  have lt: "(of_char x :: nat) div 16 < 16" "(of_char y :: nat) div 16 < 16"
    using of_char_less_256 [of x] of_char_less_256 [of y] by linarith+
  have "(of_char x :: nat) div 16 = of_char y div 16" "(of_char x :: nat) mod 16 = of_char y mod 16"
    using Cons.prems lt by (auto simp: b hex_encode_def hex_digit_inj)
  then have "(of_char x :: nat) = of_char y" by (metis div_mod_decomp)
  moreover have "a = b'" using Cons.prems by (intro Cons.IH) (simp add: b hex_encode_def)
  ultimately show ?case by (simp add: b of_char_eq_iff)
qed

lemma sha256_hex_eq: "sha256_hex K a = sha256_hex K b \<Longrightarrow> a = b \<or> sha256_collision K a b"
  by (auto simp: sha256_hex_def sha256_collision_def dest: hex_encode_inj)

text \<open>A toy instance, for the witnesses: hashing truncates, and a signature is a constant.\<close>

definition toy_crypto :: crypto where
  "toy_crypto = \<lparr>sha256_sum = (\<lambda>m. take 32 (m @ replicate 32 (CHR 0x00))),
     ed_public = (\<lambda>p. take 32 p), ed_sign = (\<lambda>p m. replicate 64 (CHR 0x00)),
     ed_verify = (\<lambda>p m s. s = replicate 64 (CHR 0x00))\<rparr>"

lemma toy_crypto_ok: "crypto_ok toy_crypto"
  by (auto simp: crypto_ok_def toy_crypto_def ed_sizes min_def)

end
