(* ===== verification/TrustRoots.thy ===== *)
theory TrustRoots
  imports Crypto
begin

text \<open>
  Package \<open>signing/trustroots\<close>: the trust roots compiled into an installation package (server
  origin, OTA certificate, bootstrap signer, App Links hosts, scheme, channel, application id),
  their strict validation and normal form, and the digest over that form. The signing gate and
  the server must agree on these functions.

  \<open>net/url\<close> is modelled as the code uses it, on a text that starts with \<open>https://\<close> and whose
  authority must be the whole rest; the bracket rule is the one of Go 1.24.0, the version that
  \<open>go.mod\<close> names. The address parser is modelled for dotted IPv4 only: a text that parses
  as IPv6 contains a colon, which no label of a DNS name may.
\<close>

record roots =
  api_base_url :: bytes
  ota_certificate_sha256 :: bytes
  bootstrap_signer_address :: bytes
  app_links_hosts :: "bytes list"
  scheme :: bytes
  distribution_channel :: bytes
  application_id :: bytes

datatype roots_error =
    ApiBaseUrlInvalid | OtaCertificateInvalid | BootstrapSignerInvalid | AppLinksHostsCount
  | AppLinksHostInvalid | SchemeMalformed | SchemeNotCustom | ChannelUnknown | ApplicationIdInvalid

definition distribution_channels :: "bytes list" where
  "distribution_channels = [''development'', ''staging'', ''store'', ''direct'', ''mdm'']"

definition ota_manifest_path :: bytes where
  "ota_manifest_path = ''/v1/ota/manifest''"

definition max_app_links_hosts :: nat where
  "max_app_links_hosts = 16"

section \<open>Patterns\<close>

text \<open>\<open>^[a-z][a-z0-9.+-]{1,31}$\<close>\<close>

definition valid_scheme :: "bytes \<Rightarrow> bool" where
  "valid_scheme s =
     (case s of [] \<Rightarrow> False
      | c # cs \<Rightarrow> is_lower c \<and> 1 \<le> length cs \<and> length cs \<le> 31 \<and>
          list_all (\<lambda>x. is_lower x \<or> is_digit x \<or> x \<in> {CHR ''.'', CHR ''+'', CHR ''-''}) cs)"

text \<open>\<open>^[a-z0-9][a-z0-9_-]{1,119}$\<close>\<close>

definition valid_application_id :: "bytes \<Rightarrow> bool" where
  "valid_application_id s =
     (case s of [] \<Rightarrow> False
      | c # cs \<Rightarrow> (is_lower c \<or> is_digit c) \<and> 1 \<le> length cs \<and> length cs \<le> 119 \<and>
          list_all (\<lambda>x. is_lower x \<or> is_digit x \<or> x \<in> {CHR ''_'', CHR ''-''}) cs)"

text \<open>\<open>^0x[0-9a-fA-F]{40}$\<close>\<close>

definition valid_address :: "bytes \<Rightarrow> bool" where
  "valid_address s \<longleftrightarrow> starts_with ''0x'' s \<and> length s = 42 \<and> list_all is_hex (drop 2 s)"

definition label_char :: "char \<Rightarrow> bool" where
  "label_char c \<longleftrightarrow> is_lower c \<or> is_digit c \<or> c = CHR ''-''"

text \<open>\<open>^[a-z0-9]([a-z0-9-]{0,61}[a-z0-9])?$\<close>\<close>

definition valid_label :: "bytes \<Rightarrow> bool" where
  "valid_label s \<longleftrightarrow> s \<noteq> [] \<and> length s \<le> 63 \<and> list_all label_char s \<and>
     hd s \<noteq> CHR ''-'' \<and> last s \<noteq> CHR ''-''"

definition graphic_ascii :: "bytes \<Rightarrow> bool" where
  "graphic_ascii s \<longleftrightarrow> list_all (byte_in 0x21 0x7E) s"

section \<open>Hosts\<close>

definition ipv4_octet :: "bytes \<Rightarrow> bool" where
  "ipv4_octet s \<longleftrightarrow> s \<noteq> [] \<and> length s \<le> 3 \<and> list_all is_digit s \<and>
     (length s = 1 \<or> hd s \<noteq> CHR ''0'') \<and> digits_nat s \<le> 255"

definition is_ipv4 :: "bytes \<Rightarrow> bool" where
  "is_ipv4 s \<longleftrightarrow> length (split_on (CHR ''.'') s) = 4 \<and> list_all ipv4_octet (split_on (CHR ''.'') s)"

text \<open>\<open>validateDNSName\<close>: two labels at least, no address, no localhost, no all-digit top level.\<close>

definition valid_dns_name :: "bytes \<Rightarrow> bool" where
  "valid_dns_name host \<longleftrightarrow>
     \<not> (host = [] \<or> 253 < length host \<or> is_ipv4 host \<or> host = ''localhost'' \<or> ends_with ''.localhost'' host) \<and>
     (let labels = split_on (CHR ''.'') host
      in 2 \<le> length labels \<and> list_all valid_label labels \<and> \<not> list_all is_digit (last labels))"

definition valid_port :: "bytes \<Rightarrow> bool" where
  "valid_port p =
     (case atoi p of None \<Rightarrow> False
      | Some n \<Rightarrow> 1 \<le> n \<and> n \<le> 65535 \<and> int_str n = p \<and> n \<noteq> 443)"

text \<open>\<open>validateHostPort\<close>.\<close>

definition valid_host_port :: "bytes \<Rightarrow> bool" where
  "valid_host_port hp =
     (case split_last (CHR '':'') hp of
        None \<Rightarrow> valid_dns_name hp
      | Some (host, port) \<Rightarrow> valid_port port \<and> valid_dns_name host)"

definition normalize_hosts :: "bytes list \<Rightarrow> roots_error + bytes list" where
  "normalize_hosts hosts =
     (if hosts = [] \<or> max_app_links_hosts < length hosts then Inl AppLinksHostsCount
      else if \<not> list_all (\<lambda>h. graphic_ascii h \<and> valid_host_port (to_lower h)) hosts
      then Inl AppLinksHostInvalid
      else Inr (sorted_set (map to_lower hosts)))"

definition normalize_address :: "bytes \<Rightarrow> roots_error + bytes" where
  "normalize_address raw = (if valid_address raw then Inr (to_lower raw) else Inl BootstrapSignerInvalid)"

section \<open>The server origin\<close>

definition optional_port :: "bytes \<Rightarrow> bool" where
  "optional_port s = (case s of [] \<Rightarrow> True | c # ds \<Rightarrow> c = CHR '':'' \<and> list_all is_digit ds)"

text \<open>
  \<open>url.Parse\<close> of \<open>https://\<close> followed by \<open>rest\<close>: whether it succeeds with no user, path, query or
  fragment and with \<open>u.Host = rest\<close>. An escaped host is decoded, so it differs from the text.
\<close>

definition url_host_is :: "bytes \<Rightarrow> bool" where
  "url_host_is rest \<longleftrightarrow>
     rest \<noteq> [] \<and> list_all (\<lambda>c. c \<notin> {CHR ''/'', CHR ''?'', CHR ''#'', CHR ''@'', CHR ''%''}) rest \<and>
     (if starts_with ''['' rest
      then (case split_last (CHR '']'') rest of None \<Rightarrow> False | Some (_, port) \<Rightarrow> optional_port port)
      else (case split_last (CHR '':'') rest of None \<Rightarrow> True
            | Some (_, port) \<Rightarrow> list_all is_digit port))"

text \<open>\<open>u.Hostname()\<close> and \<open>u.Port()\<close>.\<close>

definition split_host_port :: "bytes \<Rightarrow> bytes \<times> bytes" where
  "split_host_port hp =
     (let (host, port) =
            (case split_last (CHR '':'') hp of
               Some (a, b) \<Rightarrow> if list_all is_digit b then (a, b) else (hp, [])
             | None \<Rightarrow> (hp, []))
      in (if starts_with ''['' host \<and> ends_with '']'' host then butlast (tl host) else host, port))"

definition https_prefix :: bytes where
  "https_prefix = ''https://''"

definition validate_api_base_url :: "bytes \<Rightarrow> roots_error option" where
  "validate_api_base_url raw =
     (if raw = [] \<or> 262 < length raw \<or> \<not> graphic_ascii raw \<or> \<not> starts_with https_prefix raw
      then Some ApiBaseUrlInvalid
      else let rest = drop (length https_prefix) raw in
        if \<not> url_host_is rest then Some ApiBaseUrlInvalid
        else let (host, port) = split_host_port rest in
          if port \<noteq> [] \<and> \<not> valid_port port then Some ApiBaseUrlInvalid
          else if port = [] \<and> ends_with '':'' rest then Some ApiBaseUrlInvalid
          else if \<not> valid_dns_name host then Some ApiBaseUrlInvalid
          else None)"

definition ota_manifest_url :: "bytes \<Rightarrow> bytes" where
  "ota_manifest_url api = api @ ota_manifest_path"

definition app_links_host_for :: "bytes \<Rightarrow> roots_error + bytes" where
  "app_links_host_for api =
     check_err (validate_api_base_url api) (Inr (drop (length https_prefix) api))"

section \<open>Normal form and digest\<close>

definition roots_normalize :: "roots \<Rightarrow> roots_error + roots" where
  "roots_normalize r =
     check_err (validate_api_base_url (api_base_url r))
     (case fingerprint_normalize (ota_certificate_sha256 r) of None \<Rightarrow> Inl OtaCertificateInvalid
      | Some cert \<Rightarrow>
        rbind (normalize_address (bootstrap_signer_address r)) (\<lambda>address.
        rbind (normalize_hosts (app_links_hosts r)) (\<lambda>hosts.
          if \<not> valid_scheme (scheme r) then Inl SchemeMalformed
          else if scheme r = ''http'' \<or> scheme r = ''https'' then Inl SchemeNotCustom
          else if distribution_channel r \<notin> set distribution_channels then Inl ChannelUnknown
          else if \<not> valid_application_id (application_id r) then Inl ApplicationIdInvalid
          else Inr \<lparr>api_base_url = api_base_url r, ota_certificate_sha256 = cert,
                 bootstrap_signer_address = address, app_links_hosts = hosts, scheme = scheme r,
                 distribution_channel = distribution_channel r, application_id = application_id r\<rparr>)))"

definition json_field :: "bytes \<Rightarrow> bytes \<Rightarrow> bytes" where
  "json_field name value = json_string name @ '':'' @ value"

fun json_commas :: "bytes list \<Rightarrow> bytes" where
  "json_commas [] = []"
| "json_commas [x] = x"
| "json_commas (x # y # xs) = x @ '','' @ json_commas (y # xs)"

text \<open>\<open>json.Marshal\<close> of normalized roots; the field order is the struct's.\<close>

definition roots_json :: "roots \<Rightarrow> bytes" where
  "roots_json r = ''{'' @ json_commas
     [json_field ''apiBaseUrl'' (json_string (api_base_url r)),
      json_field ''otaCertificateSha256'' (json_string (ota_certificate_sha256 r)),
      json_field ''bootstrapSignerAddress'' (json_string (bootstrap_signer_address r)),
      json_field ''appLinksHosts'' (''['' @ json_commas (map json_string (app_links_hosts r)) @ '']''),
      json_field ''scheme'' (json_string (scheme r)),
      json_field ''distributionChannel'' (json_string (distribution_channel r)),
      json_field ''applicationId'' (json_string (application_id r))] @ ''}''"

definition roots_digest :: "crypto \<Rightarrow> roots \<Rightarrow> roots_error + bytes" where
  "roots_digest K r =
     rbind (roots_normalize r) (\<lambda>n. Inr (sha256_hex K (''rn-trust-roots/v1'' @ [CHR 0x0A] @ roots_json n)))"

text \<open>\<open>Equal\<close>: the scalar fields and the number of hosts, then the hosts one by one.\<close>

definition roots_equal :: "roots \<Rightarrow> roots \<Rightarrow> bool" where
  "roots_equal a b \<longleftrightarrow>
     \<not> (api_base_url a \<noteq> api_base_url b \<or> ota_certificate_sha256 a \<noteq> ota_certificate_sha256 b \<or>
        bootstrap_signer_address a \<noteq> bootstrap_signer_address b \<or> scheme a \<noteq> scheme b \<or>
        distribution_channel a \<noteq> distribution_channel b \<or> application_id a \<noteq> application_id b \<or>
        length (app_links_hosts a) \<noteq> length (app_links_hosts b)) \<and>
     (\<forall>i<length (app_links_hosts a). app_links_hosts a ! i = app_links_hosts b ! i)"

section \<open>The normal form is a normal form\<close>

lemma is_upper_hex: "is_hex c \<Longrightarrow> is_hex (lower_char c)"
  by (auto simp: lower_char_def is_upper_nat is_hex_def is_hex_lower_def is_digit_def less_eq_char_def)

lemma graphic_lower_char: "byte_in 0x21 0x7E c \<Longrightarrow> byte_in 0x21 0x7E (lower_char c)"
  by (auto simp: lower_char_def is_upper_nat byte_in_def)

lemma graphic_to_lower: "graphic_ascii h \<Longrightarrow> graphic_ascii (to_lower h)"
  by (auto simp: graphic_ascii_def to_lower_def list_all_iff graphic_lower_char)

lemma valid_address_lower:
  assumes "valid_address a" shows "valid_address (to_lower a)"
proof -
  obtain r where a: "a = ''0x'' @ r" using assms by (auto simp: valid_address_def starts_with_iff)
  have "to_lower a = ''0x'' @ to_lower r"
    by (simp add: a to_lower_def lower_char_def is_upper_nat)
  then show ?thesis using assms is_upper_hex
    by (auto simp: valid_address_def a starts_with_iff to_lower_def list_all_iff)
qed

lemma normalize_address_idem:
  "normalize_address a = Inr b \<Longrightarrow> normalize_address b = Inr b"
  by (auto simp: normalize_address_def valid_address_lower split: if_splits)

lemma normalize_hosts_idem:
  assumes "normalize_hosts hs = Inr ns" shows "normalize_hosts ns = Inr ns"
proof -
  have ok: "hs \<noteq> []" "length hs \<le> max_app_links_hosts"
    "list_all (\<lambda>h. graphic_ascii h \<and> valid_host_port (to_lower h)) hs"
    and ns: "ns = sorted_set (map to_lower hs)"
    using assms by (auto simp: normalize_hosts_def split: if_splits)
  have low: "map to_lower ns = ns"
    by (rule map_idI) (auto simp: ns)
  have "length ns \<le> length hs"
    by (simp add: ns sorted_set_def length_remdups_leq [of "map to_lower hs", simplified])
  moreover have "ns \<noteq> []" using ok(1) by (metis ns set_sorted_set list.map_disc_iff set_empty)
  moreover have "list_all (\<lambda>h. graphic_ascii h \<and> valid_host_port (to_lower h)) ns"
    using ok(3) by (auto simp: ns list_all_iff intro: graphic_to_lower)
  moreover have "sorted_set ns = ns" by (simp add: ns sorted_set_id)
  ultimately show ?thesis using ok(2) low by (simp add: normalize_hosts_def)
qed

lemma roots_normalize_Inr:
  "roots_normalize r = Inr n \<longleftrightarrow>
     validate_api_base_url (api_base_url r) = None \<and> api_base_url n = api_base_url r \<and>
     fingerprint_normalize (ota_certificate_sha256 r) = Some (ota_certificate_sha256 n) \<and>
     normalize_address (bootstrap_signer_address r) = Inr (bootstrap_signer_address n) \<and>
     normalize_hosts (app_links_hosts r) = Inr (app_links_hosts n) \<and>
     valid_scheme (scheme r) \<and> scheme r \<noteq> ''http'' \<and> scheme r \<noteq> ''https'' \<and> scheme n = scheme r \<and>
     distribution_channel r \<in> set distribution_channels \<and> distribution_channel n = distribution_channel r \<and>
     valid_application_id (application_id r) \<and> application_id n = application_id r"
  by (cases r; cases n)
    (auto simp: roots_normalize_def result_simps split: option.splits if_splits)

lemma roots_normalize_fixpoint: "roots_normalize r = Inr n \<Longrightarrow> roots_normalize n = Inr n"
  by (auto simp: roots_normalize_Inr
      dest: normalize_address_idem normalize_hosts_idem
        fingerprint_normalize_valid [THEN fingerprint_normalize_id])

lemma normalize_hosts_sorted:
  "normalize_hosts hs = Inr ns \<Longrightarrow> sorted ns \<and> distinct ns \<and> ns \<noteq> []"
  using set_sorted_set [of "map to_lower hs"]
  by (auto simp: normalize_hosts_def simp del: set_sorted_set split: if_splits)

lemma roots_equal_iff: "roots_equal a b \<longleftrightarrow> a = b"
  by (cases a; cases b) (auto simp: roots_equal_def list_eq_iff_nth_eq)

section \<open>Server origin and App Links host agree\<close>

lemma valid_label_lower: "valid_label s \<Longrightarrow> list_all (\<lambda>c. \<not> is_upper c) s"
  by (auto simp: valid_label_def label_char_def list_all_iff char_class_defs less_eq_char_def)

lemma valid_dns_name_lower:
  assumes "valid_dns_name h" shows "list_all (\<lambda>c. \<not> is_upper c) h"
proof (clarsimp simp: list_all_iff)
  fix c assume c: "c \<in> set h" "is_upper c"
  then have "c \<noteq> CHR ''.''" by (auto simp: is_upper_nat)
  then obtain w where w: "w \<in> set (split_on (CHR ''.'') h)" "c \<in> set w"
    using c(1) split_on_covers by blast
  then have "valid_label w" using assms by (simp add: valid_dns_name_def Let_def list_all_iff)
  then show False using w(2) c(2) valid_label_lower by (auto simp: list_all_iff)
qed

lemma is_digit_not_upper: "is_digit c \<Longrightarrow> \<not> is_upper c"
  by (auto simp: char_class_defs less_eq_char_def)

lemma plain_split_host_port:
  assumes h: "url_host_is rest" and b: "\<not> starts_with ''['' rest"
    and e: "split_host_port rest = (host, port)"
  shows "(rest = host \<and> port = [] \<and> CHR '':'' \<notin> set rest) \<or>
         (rest = host @ CHR '':'' # port \<and> list_all is_digit port \<and> split_last (CHR '':'') rest = Some (host, port))"
proof (cases "split_last (CHR '':'') rest")
  case None
  then have "split_host_port rest = (rest, [])"
    using b by (simp add: split_host_port_def)
  then show ?thesis using e None by (auto simp: split_last_None)
next
  case (Some p)
  obtain x y where p: "split_last (CHR '':'') rest = Some (x, y)" using Some by (cases p) auto
  have y: "list_all is_digit y" using h b p by (simp add: url_host_is_def)
  have r: "rest = x @ CHR '':'' # y" using split_last_Some [OF p] by simp
  have "\<not> starts_with ''['' x"
    using b r by (cases x) (auto simp: starts_with_iff)
  then have "split_host_port rest = (x, y)" by (simp add: split_host_port_def p y)
  then show ?thesis using e p y r by auto
qed

lemma origin_host_port:
  assumes v: "validate_api_base_url u = None" and b: "CHR ''['' \<notin> set u"
  shows "valid_host_port (drop (length https_prefix) u) \<and>
         to_lower (drop (length https_prefix) u) = drop (length https_prefix) u \<and>
         graphic_ascii (drop (length https_prefix) u)"
proof -
  define rest where "rest = drop (length https_prefix) u"
  obtain host port where hp: "split_host_port rest = (host, port)" by fastforce
  have g: "graphic_ascii u" and h: "url_host_is rest"
    and p: "port \<noteq> [] \<longrightarrow> valid_port port" and e: "\<not> (port = [] \<and> ends_with '':'' rest)"
    and d: "valid_dns_name host"
    using v by (auto simp: validate_api_base_url_def rest_def [symmetric] Let_def hp split: if_splits)
  have "set rest \<subseteq> set u" by (auto simp: rest_def dest: in_set_dropD)
  then have nb: "\<not> starts_with ''['' rest" and gr: "graphic_ascii rest"
    using b g by (auto simp: starts_with_iff graphic_ascii_def list_all_iff)
  consider "rest = host" "port = []" "CHR '':'' \<notin> set rest"
    | "rest = host @ CHR '':'' # port" "list_all is_digit port" "split_last (CHR '':'') rest = Some (host, port)"
    using plain_split_host_port [OF h nb hp] by blast
  then have "valid_host_port rest \<and> list_all (\<lambda>c. \<not> is_upper c) rest"
  proof cases
    case 1
    then show ?thesis using d valid_dns_name_lower
      by (simp add: valid_host_port_def split_last_None [THEN iffD2])
  next
    case 2
    have "port \<noteq> []" using e 2(1) by (auto simp: ends_with_iff)
    moreover have "\<not> is_upper (CHR '':'')" by (simp add: is_upper_nat)
    ultimately show ?thesis using 2 p d valid_dns_name_lower is_digit_not_upper
      by (auto simp: valid_host_port_def list_all_iff)
  qed
  then show ?thesis using gr by (simp add: rest_def [symmetric] to_lower_id)
qed

text \<open>
  What \<open>Normalize\<close> returns is a normal form: normalizing it again changes
  nothing, the host list is sorted and free of duplicates, and the certificate is a
  fingerprint. The gate compares stored roots with the result of \<open>Normalize\<close> by \<open>Equal\<close>, which
  is equality.
\<close>

theorem trust_roots_normalize_idempotent:
  assumes "roots_normalize r = Inr n"
  shows "roots_normalize n = Inr n \<and> (\<forall>m. roots_equal n m \<longleftrightarrow> n = m) \<and>
         sorted (app_links_hosts n) \<and> distinct (app_links_hosts n) \<and> app_links_hosts n \<noteq> [] \<and>
         fingerprint_valid (ota_certificate_sha256 n)"
  using assms roots_normalize_fixpoint [OF assms]
  by (auto simp: roots_normalize_Inr roots_equal_iff fingerprint_normalize_valid
      dest: normalize_hosts_sorted)

text \<open>An example used by the witnesses: two hosts out of order, one of them in upper case.\<close>

definition example_roots :: roots where
  "example_roots = \<lparr>api_base_url = ''https://api.example.com'',
     ota_certificate_sha256 = replicate 64 (CHR ''A''),
     bootstrap_signer_address = ''0x'' @ replicate 40 (CHR ''B''),
     app_links_hosts = [''www.example.com'', ''API.example.com''], scheme = ''anyfun'',
     distribution_channel = ''direct'', application_id = ''any-fun''\<rparr>"

definition example_roots_normal :: roots where
  "example_roots_normal = \<lparr>api_base_url = ''https://api.example.com'',
     ota_certificate_sha256 = replicate 64 (CHR ''a''),
     bootstrap_signer_address = ''0x'' @ replicate 40 (CHR ''b''),
     app_links_hosts = [''api.example.com'', ''www.example.com''], scheme = ''anyfun'',
     distribution_channel = ''direct'', application_id = ''any-fun''\<rparr>"

lemma example_roots_normalize: "roots_normalize example_roots = Inr example_roots_normal"
  by code_simp

theorem trust_roots_normalize_idempotent_witness:
  "roots_normalize example_roots = Inr example_roots_normal \<and>
   roots_normalize example_roots_normal = Inr example_roots_normal"
  using trust_roots_normalize_idempotent [OF example_roots_normalize] example_roots_normalize by simp

text \<open>
  The App Links host the server derives from an accepted server origin is a host
  the gate accepts, and already in normal form, port included; brackets aside.
\<close>

theorem app_links_host_of_origin:
  assumes "app_links_host_for u = Inr h" and "CHR ''['' \<notin> set u"
  shows "https_prefix @ h = u \<and> normalize_hosts [h] = Inr [h]"
proof -
  have v: "validate_api_base_url u = None" and h: "h = drop (length https_prefix) u"
    using assms(1) by (auto simp: app_links_host_for_def result_simps)
  have "starts_with https_prefix u"
    using v by (auto simp: validate_api_base_url_def split: if_splits)
  then have "https_prefix @ h = u" by (simp add: h starts_with_drop)
  moreover have "normalize_hosts [h] = Inr [h]"
    using origin_host_port [OF v assms(2)]
    by (simp add: normalize_hosts_def h max_app_links_hosts_def sorted_set_def)
  ultimately show ?thesis by simp
qed

lemmas origin_eval =
  app_links_host_for_def validate_api_base_url_def https_prefix_def graphic_ascii_def byte_in_def
  starts_with_def ends_with_def url_host_is_def split_last_def split_host_port_def valid_port_def
  atoi_def int_str_def digits_nat_def digit_char_def is_digit_def is_lower_def valid_dns_name_def
  valid_label_def label_char_def is_ipv4_def

theorem app_links_host_of_origin_witness:
  "app_links_host_for ''https://api.example.com:8443'' = Inr ''api.example.com:8443'' \<and>
   normalize_hosts [''api.example.com:8443''] = Inr [''api.example.com:8443'']"
proof -
  have h: "app_links_host_for ''https://api.example.com:8443'' = Inr ''api.example.com:8443''"
    by (simp add: origin_eval)
  show ?thesis using h app_links_host_of_origin [OF h] by simp
qed

text \<open>
  The exception is real: with Go 1.24.0's parser an origin whose DNS name stands
  in brackets is accepted, although it is not a DNS host, and the host derived from it is one
  that \<open>NormalizeHosts\<close> refuses.
\<close>

theorem bracketed_origin_accepted:
  "validate_api_base_url ''https://[api.example.com]'' = None \<and>
   app_links_host_for ''https://[api.example.com]'' = Inr ''[api.example.com]'' \<and>
   normalize_hosts [''[api.example.com]''] = Inl AppLinksHostInvalid \<and>
   \<not> valid_dns_name ''[api.example.com]''"
  by code_simp

end
