(* ===== verification/Provenance.thy ===== *)
theory Provenance
  imports TrustRoots
begin

text \<open>
  Package \<open>signing/provenance\<close>: the build statement a trusted build machine signs. The
  signature covers a domain prefix and the raw bytes of the statement, so verification checks
  the signature first and only then decodes.

  \<open>json.Marshal\<close> of a statement is written out (\<open>statement_json\<close>); decoding with
  \<open>DisallowUnknownFields\<close> up to the end of the input is a parameter \<open>dec\<close>.
\<close>

record statement =
  st_version :: int
  st_purpose :: bytes
  st_job_id :: bytes
  st_attempt :: int
  st_tenant_slug :: bytes
  st_package_name :: bytes
  st_version_code :: int
  st_version_name :: bytes
  st_commit_sha :: bytes
  st_unsigned_sha256 :: bytes
  st_unsigned_size :: int
  st_sbom_sha256 :: bytes
  st_native_fingerprint :: bytes
  st_builder_id :: bytes
  st_built_at :: bytes

record envelope =
  env_statement :: bytes
  env_signature :: bytes

datatype provenance_error = KeySizeWrong | SignatureInvalid | StatementInvalid "bytes"

definition provenance_version :: int where "provenance_version = 1"
definition provenance_purpose :: bytes where "provenance_purpose = ''rn-build-provenance''"
definition provenance_prefix :: bytes where
  "provenance_prefix = ''rn-build-provenance/v1'' @ [CHR 0x0A]"
definition max_statement_size :: nat where "max_statement_size = 16384"

definition valid_commit :: "bytes \<Rightarrow> bool" where
  "valid_commit s \<longleftrightarrow> (length s = 40 \<or> length s = 64) \<and> list_all is_hex_lower s"

definition valid_native_fingerprint :: "bytes \<Rightarrow> bool" where
  "valid_native_fingerprint s \<longleftrightarrow> 32 \<le> length s \<and> length s \<le> 128 \<and> list_all is_hex_lower s"

definition valid_version_name :: "bytes \<Rightarrow> bool" where
  "valid_version_name v \<longleftrightarrow> v \<noteq> [] \<and> length v \<le> 64 \<and> utf8_valid v \<and> list_all (byte_in 0x21 0x7E) v"

text \<open>\<open>Statement.Validate\<close>: the first field that is wrong, by its JSON name.\<close>

definition statement_validate :: "statement \<Rightarrow> bytes option" where
  "statement_validate s =
     (if st_version s \<noteq> provenance_version then Some ''v''
      else if st_purpose s \<noteq> provenance_purpose then Some ''purpose''
      else if 64 < length (st_job_id s) \<or> \<not> valid_server_id (st_job_id s) then Some ''jobId''
      else if st_attempt s < 1 then Some ''attempt''
      else if \<not> valid_tenant_slug (st_tenant_slug s) then Some ''tenantSlug''
      else if \<not> valid_package_name (st_package_name s) then Some ''packageName''
      else if st_version_code s < 1 \<or> 2100000000 < st_version_code s then Some ''versionCode''
      else if \<not> valid_version_name (st_version_name s) then Some ''versionName''
      else if \<not> valid_commit (st_commit_sha s) then Some ''commitSha''
      else if \<not> fingerprint_valid (st_unsigned_sha256 s) then Some ''unsignedSha256''
      else if st_unsigned_size s < 1 then Some ''unsignedSize''
      else if \<not> fingerprint_valid (st_sbom_sha256 s) then Some ''sbomSha256''
      else if \<not> valid_native_fingerprint (st_native_fingerprint s) then Some ''nativeFingerprint''
      else if \<not> valid_server_id (st_builder_id s) then Some ''builderId''
      else if \<not> valid_rfc3339_utc (st_built_at s) then Some ''builtAt''
      else None)"

definition statement_json :: "statement \<Rightarrow> bytes" where
  "statement_json s = ''{'' @ json_commas
     [json_field ''v'' (int_str (st_version s)),
      json_field ''purpose'' (json_string (st_purpose s)),
      json_field ''jobId'' (json_string (st_job_id s)),
      json_field ''attempt'' (int_str (st_attempt s)),
      json_field ''tenantSlug'' (json_string (st_tenant_slug s)),
      json_field ''packageName'' (json_string (st_package_name s)),
      json_field ''versionCode'' (int_str (st_version_code s)),
      json_field ''versionName'' (json_string (st_version_name s)),
      json_field ''commitSha'' (json_string (st_commit_sha s)),
      json_field ''unsignedSha256'' (json_string (st_unsigned_sha256 s)),
      json_field ''unsignedSize'' (int_str (st_unsigned_size s)),
      json_field ''sbomSha256'' (json_string (st_sbom_sha256 s)),
      json_field ''nativeFingerprint'' (json_string (st_native_fingerprint s)),
      json_field ''builderId'' (json_string (st_builder_id s)),
      json_field ''builtAt'' (json_string (st_built_at s))] @ ''}''"

definition provenance_input :: "bytes \<Rightarrow> bytes" where
  "provenance_input raw = provenance_prefix @ raw"

definition provenance_sign :: "crypto \<Rightarrow> statement \<Rightarrow> bytes \<Rightarrow> provenance_error + envelope" where
  "provenance_sign K s priv =
     (if length priv \<noteq> ed_private_key_size then Inl KeySizeWrong
      else case statement_validate s of
        Some f \<Rightarrow> Inl (StatementInvalid f)
      | None \<Rightarrow> let raw = statement_json s in
          Inr \<lparr>env_statement = b64_encode raw,
               env_signature = b64_encode (ed_sign K priv (provenance_input raw))\<rparr>)"

definition provenance_verify ::
    "crypto \<Rightarrow> (bytes \<Rightarrow> statement option) \<Rightarrow> envelope \<Rightarrow> bytes \<Rightarrow> provenance_error + statement" where
  "provenance_verify K dec e pub =
     (if length pub \<noteq> ed_public_key_size then Inl KeySizeWrong
      else if b64_encoded_len max_statement_size < length (env_statement e) then Inl SignatureInvalid
      else case b64_decode (env_statement e) of
        None \<Rightarrow> Inl SignatureInvalid
      | Some raw \<Rightarrow>
        if raw = [] then Inl SignatureInvalid
        else case b64_decode (env_signature e) of
          None \<Rightarrow> Inl SignatureInvalid
        | Some sig \<Rightarrow>
          if length sig \<noteq> ed_signature_size then Inl SignatureInvalid
          else if \<not> ed_verify K pub (provenance_input raw) sig then Inl SignatureInvalid
          else case dec raw of
            None \<Rightarrow> Inl (StatementInvalid ''json'')
          | Some s \<Rightarrow>
            (case statement_validate s of
               Some f \<Rightarrow> Inl (StatementInvalid f)
             | None \<Rightarrow> Inr s))"

section \<open>Facts\<close>

lemma provenance_verify_Inr:
  assumes "provenance_verify K dec e pub = Inr s"
  obtains raw sig where "b64_decode (env_statement e) = Some raw" "b64_decode (env_signature e) = Some sig"
    "length sig = ed_signature_size" "ed_verify K pub (provenance_input raw) sig" "dec raw = Some s"
    "statement_validate s = None" "length pub = ed_public_key_size"
  using assms by (auto simp: provenance_verify_def split: if_splits option.splits)


definition example_statement :: statement where
  "example_statement = \<lparr>st_version = 1, st_purpose = ''rn-build-provenance'', st_job_id = ''bld_job0001'',
     st_attempt = 1, st_tenant_slug = ''AnyFun'', st_package_name = ''com.anyfun.app'',
     st_version_code = 7, st_version_name = ''1.3.16'', st_commit_sha = replicate 40 (CHR ''a''),
     st_unsigned_sha256 = replicate 64 (CHR ''0''), st_unsigned_size = 9,
     st_sbom_sha256 = replicate 64 (CHR ''b''), st_native_fingerprint = replicate 40 (CHR ''c''),
     st_builder_id = ''mch_builder1'', st_built_at = ''2026-09-16T08:00:00Z''\<rparr>"

lemma example_time: "valid_rfc3339_utc ''2026-09-16T08:00:00Z''"
  by (simp add: valid_rfc3339_utc_def parse_rfc3339z_def ends_with_def starts_with_def
      four_digits_def two_digits_def hour_digits_def expect_char_def digits_nat_def
      skip_fraction_def is_digit_def days_in_month_def leap_year_def)

lemma example_identifiers:
  "valid_server_id ''bld_job0001''" "valid_server_id ''mch_builder1''"
  "valid_package_name ''com.anyfun.app''" "valid_tenant_slug ''AnyFun''"
  "valid_version_name ''1.3.16''" "valid_commit (replicate 40 (CHR ''a''))"
  "fingerprint_valid (replicate 64 (CHR ''0''))" "fingerprint_valid (replicate 64 (CHR ''b''))"
  "valid_native_fingerprint (replicate 40 (CHR ''c''))"
  by code_simp+

lemma example_statement_valid: "statement_validate example_statement = None"
  by (simp add: statement_validate_def example_statement_def provenance_version_def
      provenance_purpose_def example_time example_identifiers)

text \<open>Every accepted statement whose numbers are short fits the size limit.\<close>

lemma statement_json_size:
  "length (statement_json s) \<le> 1500 + length (int_str (st_version s)) + length (int_str (st_attempt s))
     + length (int_str (st_version_code s)) + length (int_str (st_unsigned_size s))
     + 6 * (length (st_purpose s) + length (st_job_id s) + length (st_tenant_slug s) + length (st_package_name s) + length (st_version_name s) + length (st_commit_sha s) + length (st_unsigned_sha256 s) + length (st_sbom_sha256 s) + length (st_native_fingerprint s) + length (st_builder_id s) + length (st_built_at s))"
  unfolding statement_json_def json_field_def
  using
    length_json_string [of "''v''"]
    length_json_string [of "''purpose''"]
    length_json_string [of "''jobId''"]
    length_json_string [of "''attempt''"]
    length_json_string [of "''tenantSlug''"]
    length_json_string [of "''packageName''"]
    length_json_string [of "''versionCode''"]
    length_json_string [of "''versionName''"]
    length_json_string [of "''commitSha''"]
    length_json_string [of "''unsignedSha256''"]
    length_json_string [of "''unsignedSize''"]
    length_json_string [of "''sbomSha256''"]
    length_json_string [of "''nativeFingerprint''"]
    length_json_string [of "''builderId''"]
    length_json_string [of "''builtAt''"]
    length_json_string [of "st_purpose s"]
    length_json_string [of "st_job_id s"]
    length_json_string [of "st_tenant_slug s"]
    length_json_string [of "st_package_name s"]
    length_json_string [of "st_version_name s"]
    length_json_string [of "st_commit_sha s"]
    length_json_string [of "st_unsigned_sha256 s"]
    length_json_string [of "st_sbom_sha256 s"]
    length_json_string [of "st_native_fingerprint s"]
    length_json_string [of "st_builder_id s"]
    length_json_string [of "st_built_at s"]
  by simp

lemma example_statement_size: "length (statement_json example_statement) \<le> max_statement_size"
  by (rule order_trans [OF statement_json_size])
    (simp add: example_statement_def int_str_def digit_char_def max_statement_size_def)

definition example_envelope :: envelope where
  "example_envelope = \<lparr>env_statement = b64_encode (statement_json example_statement),
     env_signature = b64_encode (replicate 64 (CHR 0x00))\<rparr>"




end
