(* ===== verification/RecordTypes.thy ===== *)
theory RecordTypes
  imports TrustRoots
begin

text \<open>
  The data of the two record files of the signing gate (\<open>signing/records/types.go\<close>): one Isabelle
  record per Go struct, with the \<open>validate\<close> method of each. A validator returns the first
  complaint as a short tag, None when the value is valid; the Go strings that stand for
  enumerations (role, mode, status) stay strings, because a decoded record may hold any text.
\<close>

section \<open>Constants and patterns\<close>

definition role_primary :: bytes where "role_primary = ''primary''"
definition role_standby :: bytes where "role_standby = ''standby''"

definition role_mode_initial :: bytes where "role_mode_initial = ''initial''"
definition role_mode_import_file :: bytes where "role_mode_import_file = ''import-file''"
definition role_mode_manual :: bytes where "role_mode_manual = ''manual''"
definition role_mode_enroll :: bytes where "role_mode_enroll = ''enroll''"

lemmas role_defs = role_primary_def role_standby_def role_mode_initial_def role_mode_import_file_def
  role_mode_manual_def role_mode_enroll_def

definition max_version_code :: int where "max_version_code = 2100000000"

definition trust_mode_operator :: bytes where "trust_mode_operator = ''operator''"
definition trust_mode_enroll :: bytes where "trust_mode_enroll = ''enroll''"

definition confirm_first_generation :: bytes where "confirm_first_generation = ''first-generation''"
definition confirm_regenerated :: bytes where "confirm_regenerated = ''regenerated''"
definition confirm_peer_generated :: bytes where "confirm_peer_generated = ''peer-generated''"
definition confirm_peer_resealed :: bytes where "confirm_peer_resealed = ''peer-resealed''"

lemmas confirm_mode_defs = confirm_first_generation_def confirm_regenerated_def
  confirm_peer_generated_def confirm_peer_resealed_def

definition status_reserved :: bytes where "status_reserved = ''reserved''"
definition status_signed :: bytes where "status_signed = ''signed''"
definition status_completed :: bytes where "status_completed = ''completed''"
definition status_abandoned :: bytes where "status_abandoned = ''abandoned''"

lemmas status_defs = status_reserved_def status_signed_def status_completed_def status_abandoned_def

lemma status_distinct [simp]:
  "status_reserved \<noteq> status_signed" "status_reserved \<noteq> status_completed" "status_reserved \<noteq> status_abandoned"
  "status_signed \<noteq> status_reserved" "status_signed \<noteq> status_completed" "status_signed \<noteq> status_abandoned"
  "status_completed \<noteq> status_reserved" "status_completed \<noteq> status_signed" "status_completed \<noteq> status_abandoned"
  "status_abandoned \<noteq> status_reserved" "status_abandoned \<noteq> status_signed" "status_abandoned \<noteq> status_completed"
  by (simp_all add: status_defs)

definition min_confirmed_min_sdk :: int where "min_confirmed_min_sdk = 24"
definition min_confirmed_target_sdk :: int where "min_confirmed_target_sdk = 28"

definition operator_char :: "char \<Rightarrow> bool" where
  "operator_char c \<longleftrightarrow> slug_char c \<or> c = CHR ''@''"

text \<open>\<open>operatorPattern\<close>: \<open>^[A-Za-z0-9._@-]{1,64}$\<close>\<close>

definition valid_operator :: "bytes \<Rightarrow> bool" where
  "valid_operator s \<longleftrightarrow> 1 \<le> length s \<and> length s \<le> 64 \<and> list_all operator_char s"

text \<open>\<open>releaseIDPattern\<close> and \<open>generationRequestIDPattern\<close>: \<open>^[A-Za-z0-9_-]{1,128}$\<close>\<close>

definition valid_release_id :: "bytes \<Rightarrow> bool" where
  "valid_release_id s \<longleftrightarrow> 1 \<le> length s \<and> length s \<le> 128 \<and> list_all id_char s"

definition valid_generation_request_id :: "bytes \<Rightarrow> bool" where
  "valid_generation_request_id s \<longleftrightarrow> 1 \<le> length s \<and> length s \<le> 128 \<and> list_all id_char s"

text \<open>\<open>resealIDPattern\<close>: \<open>^rsl_[A-Za-z0-9_-]{22}$\<close>\<close>

definition valid_reseal_id :: "bytes \<Rightarrow> bool" where
  "valid_reseal_id s \<longleftrightarrow> starts_with ''rsl_'' s \<and> length s = 26 \<and> list_all id_char (drop 4 s)"

text \<open>\<open>validText\<close> of \<open>chain.go\<close>: not blank, at most \<open>m\<close> bytes, valid UTF-8, no control character.\<close>

definition valid_text :: "bytes \<Rightarrow> nat \<Rightarrow> bool" where
  "valid_text s m \<longleftrightarrow> \<not> (trim_space s = [] \<or> m < length s) \<and>
     list_all (\<lambda>r. \<not> (r < 0x20 \<or> r = 0x7f \<or> r = 0xfffd)) (runes s)"

definition validate_operator_reason :: "bytes \<Rightarrow> bytes \<Rightarrow> bytes option" where
  "validate_operator_reason op reason =
     (if \<not> valid_operator op then Some ''operator''
      else if length (runes reason) < 3 \<or> \<not> valid_text reason 512 then Some ''reason''
      else None)"

definition valid_reason :: "bytes \<Rightarrow> bool" where
  "valid_reason s \<longleftrightarrow> validate_operator_reason ''x'' s = None"

section \<open>Trust records\<close>

record role_change =
  rc_role :: bytes
  rc_mode :: bytes
  rc_previous :: bytes
  rc_operator :: bytes
  rc_reason :: bytes
  rc_at :: bytes

definition role_validate :: "role_change \<Rightarrow> bytes option" where
  "role_validate r =
     (if rc_role r \<noteq> role_primary \<and> rc_role r \<noteq> role_standby then Some ''role''
      else or_else
        (if rc_mode r = role_mode_enroll then
           (if rc_role r \<noteq> role_standby then Some ''an enrollment role record must be standby''
            else if rc_previous r \<noteq> [] then Some ''an enrollment role record must not name a previous primary''
            else None)
         else if rc_mode r = role_mode_initial \<or> rc_mode r = role_mode_manual then
           (if rc_previous r \<noteq> [] \<and> \<not> fingerprint_valid (rc_previous r)
            then Some ''previousPrimaryEd25519Sha256'' else None)
         else if rc_mode r = role_mode_import_file then
           (if \<not> fingerprint_valid (rc_previous r) then Some ''previousPrimaryEd25519Sha256'' else None)
         else Some ''mode'')
        (validate_operator_reason (rc_operator r) (rc_reason r)))"

record builder_trust =
  bt_builder_id :: bytes
  bt_key_sha256 :: bytes
  bt_name :: bytes
  bt_operator :: bytes
  bt_note :: bytes
  bt_at :: bytes

definition builder_validate :: "builder_trust \<Rightarrow> bytes option" where
  "builder_validate b =
     (if \<not> valid_server_id (bt_builder_id b) then Some ''builderId''
      else if \<not> fingerprint_valid (bt_key_sha256 b) then Some ''ed25519PublicKeySha256''
      else if \<not> valid_machine_name (bt_name b) then Some ''name''
      else if \<not> valid_operator (bt_operator b) then Some ''operator''
      else if bt_note b \<noteq> [] \<and> \<not> valid_text (bt_note b) 512 then Some ''note''
      else None)"

record builder_revoke =
  br_builder_id :: bytes
  br_operator :: bytes
  br_reason :: bytes

definition builder_revoke_validate :: "builder_revoke \<Rightarrow> bytes option" where
  "builder_revoke_validate b =
     (if \<not> valid_server_id (br_builder_id b) then Some ''builderId''
      else validate_operator_reason (br_operator b) (br_reason b))"

record peer_trust =
  pt_name :: bytes
  pt_x25519_sha256 :: bytes
  pt_ed25519_sha256 :: bytes
  pt_mode :: bytes
  pt_operator :: bytes
  pt_note :: bytes
  pt_at :: bytes

definition peer_validate :: "peer_trust \<Rightarrow> bytes option" where
  "peer_validate p =
     (if \<not> valid_machine_name (pt_name p) then Some ''name''
      else if \<not> fingerprint_valid (pt_x25519_sha256 p) then Some ''x25519PublicKeySha256''
      else if \<not> fingerprint_valid (pt_ed25519_sha256 p) then Some ''ed25519PublicKeySha256''
      else if pt_mode p \<noteq> trust_mode_operator then Some ''mode''
      else if \<not> valid_operator (pt_operator p) then Some ''operator''
      else if pt_note p \<noteq> [] \<and> \<not> valid_text (pt_note p) 512 then Some ''note''
      else None)"

record peer_revoke =
  pr_name :: bytes
  pr_operator :: bytes
  pr_reason :: bytes

definition peer_revoke_validate :: "peer_revoke \<Rightarrow> bytes option" where
  "peer_revoke_validate p =
     (if \<not> valid_machine_name (pr_name p) then Some ''name''
      else validate_operator_reason (pr_operator p) (pr_reason p))"

record recovery_trust =
  rt_name :: bytes
  rt_x25519_sha256 :: bytes
  rt_mode :: bytes
  rt_operator :: bytes
  rt_note :: bytes
  rt_at :: bytes

definition recovery_validate :: "recovery_trust \<Rightarrow> bytes option" where
  "recovery_validate r =
     (if \<not> valid_machine_name (rt_name r) then Some ''name''
      else if \<not> fingerprint_valid (rt_x25519_sha256 r) then Some ''x25519PublicKeySha256''
      else if rt_mode r \<noteq> trust_mode_operator \<and> rt_mode r \<noteq> trust_mode_enroll then Some ''mode''
      else if \<not> valid_operator (rt_operator r) then Some ''operator''
      else if rt_note r \<noteq> [] \<and> \<not> valid_text (rt_note r) 512 then Some ''note''
      else None)"

record recovery_revoke =
  rr_x25519_sha256 :: bytes
  rr_operator :: bytes
  rr_reason :: bytes

definition recovery_revoke_validate :: "recovery_revoke \<Rightarrow> bytes option" where
  "recovery_revoke_validate r =
     (if \<not> fingerprint_valid (rr_x25519_sha256 r) then Some ''x25519PublicKeySha256''
      else validate_operator_reason (rr_operator r) (rr_reason r))"

record confirmation =
  cf_tenant :: bytes
  cf_package :: bytes
  cf_cert :: bytes
  cf_key_alias :: bytes
  cf_keystore_version :: int
  cf_roots :: roots
  cf_roots_digest :: bytes
  cf_min_sdk :: int
  cf_target_sdk :: int
  cf_first_sign_max :: int
  cf_confirmed_by :: bytes
  cf_mode :: bytes
  cf_request_id :: bytes
  cf_generator_name :: bytes
  cf_generator_sha256 :: bytes
  cf_confirmed_at :: bytes

definition auto_confirmed_by_prefix :: bytes where "auto_confirmed_by_prefix = ''auto:''"

definition auto_confirmed_by :: "bytes \<Rightarrow> bytes \<Rightarrow> bytes" where
  "auto_confirmed_by mode generator =
     (if mode = confirm_peer_generated \<or> mode = confirm_peer_resealed
      then auto_confirmed_by_prefix @ mode @ '':'' @ generator
      else auto_confirmed_by_prefix @ mode)"

definition confirmation_mode_validate :: "confirmation \<Rightarrow> bytes option" where
  "confirmation_mode_validate c =
     (if cf_mode c = [] then
        (if \<not> valid_operator (cf_confirmed_by c) then Some ''confirmedBy''
         else if cf_request_id c \<noteq> [] \<or> cf_generator_name c \<noteq> [] \<or> cf_generator_sha256 c \<noteq> []
         then Some ''an operator confirmation must not carry generation fields''
         else None)
      else if cf_mode c = confirm_first_generation \<or> cf_mode c = confirm_regenerated \<or>
              cf_mode c = confirm_peer_generated \<or> cf_mode c = confirm_peer_resealed then
        (if \<not> valid_generation_request_id (cf_request_id c) then Some ''generationRequestId''
         else if cf_mode c = confirm_peer_resealed \<and> \<not> valid_reseal_id (cf_request_id c)
         then Some ''generationRequestId of a resealed confirmation''
         else if \<not> valid_machine_name (cf_generator_name c) then Some ''generatorName''
         else if \<not> fingerprint_valid (cf_generator_sha256 c) then Some ''generatorEd25519Sha256''
         else if cf_confirmed_by c \<noteq> auto_confirmed_by (cf_mode c) (cf_generator_name c)
         then Some ''confirmedBy''
         else None)
      else Some ''mode'')"

definition confirmation_validate :: "crypto \<Rightarrow> confirmation \<Rightarrow> bytes option" where
  "confirmation_validate K c =
     (if \<not> valid_tenant_slug (cf_tenant c) then Some ''tenantSlug''
      else if \<not> valid_package_name (cf_package c) then Some ''packageName''
      else if \<not> fingerprint_valid (cf_cert c) then Some ''certificateSha256''
      else if \<not> valid_key_alias (cf_key_alias c) then Some ''keyAlias''
      else if cf_keystore_version c < 0 then Some ''keystoreVersion''
      else if cf_min_sdk c < min_confirmed_min_sdk \<or> 1000 < cf_min_sdk c then Some ''minSdk''
      else if cf_target_sdk c < cf_min_sdk c \<or> cf_target_sdk c < min_confirmed_target_sdk \<or>
              1000 < cf_target_sdk c then Some ''targetSdk''
      else if cf_first_sign_max c < 1 \<or> max_version_code < cf_first_sign_max c
      then Some ''firstSignMaxVersionCode''
      else or_else (confirmation_mode_validate c)
        (case roots_normalize (cf_roots c) of
           Inl _ \<Rightarrow> Some ''trustRoots''
         | Inr n \<Rightarrow>
           if \<not> roots_equal n (cf_roots c) then Some ''trustRoots must be stored in normalized form''
           else if roots_digest K (cf_roots c) \<noteq> Inr (cf_roots_digest c) then Some ''trustRootsDigest''
           else None))"

section \<open>Signed records\<close>

record reservation =
  rv_job_id :: bytes
  rv_attempt :: int
  rv_tenant :: bytes
  rv_package :: bytes
  rv_cert :: bytes
  rv_vc :: int
  rv_unsigned :: bytes
  rv_status :: bytes
  rv_signed :: bytes
  rv_release :: bytes
  rv_source :: bytes
  rv_reserved_at :: bytes
  rv_updated_at :: bytes

definition validate_reserve :: "reservation \<Rightarrow> bytes option" where
  "validate_reserve r =
     (if \<not> valid_server_id (rv_job_id r) then Some ''jobId''
      else if rv_attempt r < 0 then Some ''signAttempt''
      else if \<not> valid_tenant_slug (rv_tenant r) then Some ''tenantSlug''
      else if \<not> valid_package_name (rv_package r) then Some ''packageName''
      else if \<not> fingerprint_valid (rv_cert r) then Some ''certificateSha256''
      else if rv_vc r < 1 \<or> max_version_code < rv_vc r then Some ''versionCode''
      else if \<not> fingerprint_valid (rv_unsigned r) then Some ''unsignedSha256''
      else None)"

text \<open>A \<open>Reservation\<close> literal with the identifying fields set and everything else zero.\<close>

definition reservation_key :: "bytes \<Rightarrow> int \<Rightarrow> bytes \<Rightarrow> bytes \<Rightarrow> bytes \<Rightarrow> int \<Rightarrow> bytes \<Rightarrow> reservation" where
  "reservation_key job attempt tenant pkg cert vc uns =
     \<lparr>rv_job_id = job, rv_attempt = attempt, rv_tenant = tenant, rv_package = pkg, rv_cert = cert,
      rv_vc = vc, rv_unsigned = uns, rv_status = [], rv_signed = [], rv_release = [],
      rv_source = [], rv_reserved_at = [], rv_updated_at = []\<rparr>"

record reserve_limits =
  lim_max_vc :: int
  lim_max_jump :: int
  lim_first_sign_max :: int

definition limits_validate :: "reserve_limits \<Rightarrow> bytes option" where
  "limits_validate l =
     (if lim_max_vc l < 1 \<or> lim_max_jump l < 1 \<or> lim_first_sign_max l < 1
      then Some ''reserve limits must all be positive'' else None)"

record signed_record =
  sr_job_id :: bytes
  sr_package :: bytes
  sr_cert :: bytes
  sr_vc :: int
  sr_unsigned :: bytes
  sr_signed :: bytes

definition signed_validate :: "signed_record \<Rightarrow> bytes option" where
  "signed_validate s =
     or_else (validate_reserve (reservation_key (sr_job_id s) 0 ''x'' (sr_package s) (sr_cert s) (sr_vc s) (sr_unsigned s)))
       (if \<not> fingerprint_valid (sr_signed s) then Some ''signedSha256'' else None)"

record complete_record =
  cr_job_id :: bytes
  cr_package :: bytes
  cr_cert :: bytes
  cr_vc :: int
  cr_unsigned :: bytes
  cr_signed :: bytes
  cr_release :: bytes

definition complete_validate :: "complete_record \<Rightarrow> bytes option" where
  "complete_validate c =
     or_else (validate_reserve (reservation_key (cr_job_id c) 0 ''x'' (cr_package c) (cr_cert c) (cr_vc c) (cr_unsigned c)))
       (if \<not> fingerprint_valid (cr_signed c) then Some ''signedSha256''
        else if \<not> valid_release_id (cr_release c) then Some ''releaseId'' else None)"

record abandon_record =
  ar_job_id :: bytes
  ar_package :: bytes
  ar_cert :: bytes
  ar_vc :: int
  ar_unsigned :: bytes
  ar_operator :: bytes
  ar_reason :: bytes

definition abandon_validate :: "abandon_record \<Rightarrow> bytes option" where
  "abandon_validate a =
     or_else (validate_reserve (reservation_key (ar_job_id a) 0 ''x'' (ar_package a) (ar_cert a) (ar_vc a) (ar_unsigned a)))
       (validate_operator_reason (ar_operator a) (ar_reason a))"

record import_record =
  ir_source_sha256 :: bytes
  ir_source_seq :: "64 word"
  ir_job_id :: bytes
  ir_attempt :: int
  ir_tenant :: bytes
  ir_package :: bytes
  ir_cert :: bytes
  ir_vc :: int
  ir_unsigned :: bytes
  ir_status :: bytes
  ir_signed :: bytes
  ir_release :: bytes
  ir_operator :: bytes

definition import_status_validate :: "import_record \<Rightarrow> bytes option" where
  "import_status_validate i =
     (if ir_status i = status_reserved then
        (if ir_signed i \<noteq> [] \<or> ir_release i \<noteq> [] then Some ''a reserved import'' else None)
      else if ir_status i = status_signed then
        (if \<not> fingerprint_valid (ir_signed i) \<or> ir_release i \<noteq> [] then Some ''a signed import'' else None)
      else if ir_status i = status_completed then
        (if \<not> fingerprint_valid (ir_signed i) \<or> \<not> valid_release_id (ir_release i)
         then Some ''a completed import'' else None)
      else Some ''status'')"

definition import_validate :: "import_record \<Rightarrow> bytes option" where
  "import_validate i =
     (if \<not> fingerprint_valid (ir_source_sha256 i) then Some ''sourceEd25519Sha256''
      else or_else (validate_reserve (reservation_key (ir_job_id i) (ir_attempt i) (ir_tenant i) (ir_package i)
             (ir_cert i) (ir_vc i) (ir_unsigned i)))
        (or_else (import_status_validate i)
           (if \<not> valid_operator (ir_operator i) then Some ''operator'' else None)))"

record baseline =
  bl_package :: bytes
  bl_cert :: bytes
  bl_max :: int
  bl_operator :: bytes
  bl_note :: bytes
  bl_at :: bytes

definition baseline_validate :: "baseline \<Rightarrow> bytes option" where
  "baseline_validate b =
     (if \<not> valid_package_name (bl_package b) then Some ''packageName''
      else if \<not> fingerprint_valid (bl_cert b) then Some ''certificateSha256''
      else if bl_max b < 1 \<or> max_version_code < bl_max b then Some ''maxVersionCode''
      else if \<not> valid_operator (bl_operator b) then Some ''operator''
      else if bl_note b \<noteq> [] \<and> \<not> valid_text (bl_note b) 512 then Some ''note''
      else None)"

section \<open>Facts\<close>

lemma validate_reserve_None:
  "validate_reserve r = None \<longleftrightarrow>
     valid_server_id (rv_job_id r) \<and> 0 \<le> rv_attempt r \<and> valid_tenant_slug (rv_tenant r) \<and>
     valid_package_name (rv_package r) \<and> fingerprint_valid (rv_cert r) \<and>
     1 \<le> rv_vc r \<and> rv_vc r \<le> max_version_code \<and> fingerprint_valid (rv_unsigned r)"
  by (auto simp: validate_reserve_def)

lemma reservation_key_sel [simp]:
  "rv_job_id (reservation_key j a t p c v u) = j" "rv_attempt (reservation_key j a t p c v u) = a"
  "rv_tenant (reservation_key j a t p c v u) = t" "rv_package (reservation_key j a t p c v u) = p"
  "rv_cert (reservation_key j a t p c v u) = c" "rv_vc (reservation_key j a t p c v u) = v"
  "rv_unsigned (reservation_key j a t p c v u) = u" "rv_status (reservation_key j a t p c v u) = []"
  "rv_signed (reservation_key j a t p c v u) = []" "rv_release (reservation_key j a t p c v u) = []"
  by (simp_all add: reservation_key_def)

lemma confirmation_validate_None:
  assumes "confirmation_validate K c = None"
  shows "valid_tenant_slug (cf_tenant c)" "valid_package_name (cf_package c)" "fingerprint_valid (cf_cert c)"
    "min_confirmed_min_sdk \<le> cf_min_sdk c" "min_confirmed_target_sdk \<le> cf_target_sdk c"
    "cf_min_sdk c \<le> cf_target_sdk c" "1 \<le> cf_first_sign_max c" "cf_first_sign_max c \<le> max_version_code"
    "roots_normalize (cf_roots c) = Inr (cf_roots c)" "roots_digest K (cf_roots c) = Inr (cf_roots_digest c)"
    "confirmation_mode_validate c = None"
  using assms
  by (auto simp: confirmation_validate_def roots_equal_iff result_simps split: if_splits sum.splits)

end
