(* ===== verification/RecordData.thy ===== *)
theory RecordData
  imports RecordTypes
begin

text \<open>
  What a record line carries: the \<open>data\<close> of every record type as one datatype, its
  \<open>json.Marshal\<close> text, and the verified entries that the replay functions consume.

  \<open>strictUnmarshal\<close> of a record's data is a parameter \<open>dec\<close>: given the record type and the raw
  text it yields the decoded struct. The fields tagged \<open>json:"-"\<close> are zero after decoding.
\<close>

record genesis =
  gn_machine :: bytes
  gn_ed25519 :: bytes
  gn_ed25519_sha256 :: bytes
  gn_x25519_sha256 :: bytes

datatype payload =
    PGenesis genesis
  | PRole role_change
  | PBuilder builder_trust
  | PBuilderRevoke builder_revoke
  | PTenant confirmation
  | PPeer peer_trust
  | PPeerRevoke peer_revoke
  | PRecovery recovery_trust
  | PRecoveryRevoke recovery_revoke
  | PReserve reservation
  | PSigned signed_record
  | PComplete complete_record
  | PAbandon abandon_record
  | PImport import_record
  | PBaseline baseline

fun payload_type :: "payload \<Rightarrow> bytes" where
  "payload_type (PGenesis _) = ''genesis''"
| "payload_type (PRole _) = ''role''"
| "payload_type (PBuilder _) = ''builder''"
| "payload_type (PBuilderRevoke _) = ''builder-revoke''"
| "payload_type (PTenant _) = ''tenant''"
| "payload_type (PPeer _) = ''peer''"
| "payload_type (PPeerRevoke _) = ''peer-revoke''"
| "payload_type (PRecovery _) = ''recovery''"
| "payload_type (PRecoveryRevoke _) = ''recovery-revoke''"
| "payload_type (PReserve _) = ''reserve''"
| "payload_type (PSigned _) = ''signed''"
| "payload_type (PComplete _) = ''complete''"
| "payload_type (PAbandon _) = ''abandon''"
| "payload_type (PImport _) = ''import''"
| "payload_type (PBaseline _) = ''baseline''"

section \<open>Marshalling\<close>

definition json_object :: "bytes list \<Rightarrow> bytes" where
  "json_object fs = ''{'' @ json_commas fs @ ''}''"

abbreviation str_field :: "bytes \<Rightarrow> bytes \<Rightarrow> bytes" where
  "str_field name v \<equiv> json_field name (json_string v)"

abbreviation int_field :: "bytes \<Rightarrow> int \<Rightarrow> bytes" where
  "int_field name v \<equiv> json_field name (int_str v)"

text \<open>A string field tagged \<open>omitempty\<close>.\<close>

definition opt_field :: "bytes \<Rightarrow> bytes \<Rightarrow> bytes list" where
  "opt_field name v = (if v = [] then [] else [str_field name v])"

fun payload_json :: "payload \<Rightarrow> bytes" where
  "payload_json (PGenesis g) = json_object
     [str_field ''machineName'' (gn_machine g), str_field ''ed25519PublicKey'' (gn_ed25519 g),
      str_field ''ed25519PublicKeySha256'' (gn_ed25519_sha256 g),
      str_field ''x25519PublicKeySha256'' (gn_x25519_sha256 g)]"
| "payload_json (PRole r) = json_object
     [str_field ''role'' (rc_role r), str_field ''mode'' (rc_mode r),
      str_field ''previousPrimaryEd25519Sha256'' (rc_previous r),
      str_field ''operator'' (rc_operator r), str_field ''reason'' (rc_reason r)]"
| "payload_json (PBuilder b) = json_object
     [str_field ''builderId'' (bt_builder_id b), str_field ''ed25519PublicKeySha256'' (bt_key_sha256 b),
      str_field ''name'' (bt_name b), str_field ''operator'' (bt_operator b), str_field ''note'' (bt_note b)]"
| "payload_json (PBuilderRevoke b) = json_object
     [str_field ''builderId'' (br_builder_id b), str_field ''operator'' (br_operator b),
      str_field ''reason'' (br_reason b)]"
| "payload_json (PTenant c) = json_object
     ([str_field ''tenantSlug'' (cf_tenant c), str_field ''packageName'' (cf_package c),
       str_field ''certificateSha256'' (cf_cert c), str_field ''keyAlias'' (cf_key_alias c),
       int_field ''keystoreVersion'' (cf_keystore_version c),
       json_field ''trustRoots'' (roots_json (cf_roots c)),
       str_field ''trustRootsDigest'' (cf_roots_digest c), int_field ''minSdk'' (cf_min_sdk c),
       int_field ''targetSdk'' (cf_target_sdk c),
       int_field ''firstSignMaxVersionCode'' (cf_first_sign_max c),
       str_field ''confirmedBy'' (cf_confirmed_by c)] @
      opt_field ''mode'' (cf_mode c) @ opt_field ''generationRequestId'' (cf_request_id c) @
      opt_field ''generatorName'' (cf_generator_name c) @
      opt_field ''generatorEd25519Sha256'' (cf_generator_sha256 c))"
| "payload_json (PPeer p) = json_object
     [str_field ''name'' (pt_name p), str_field ''x25519PublicKeySha256'' (pt_x25519_sha256 p),
      str_field ''ed25519PublicKeySha256'' (pt_ed25519_sha256 p), str_field ''mode'' (pt_mode p),
      str_field ''operator'' (pt_operator p), str_field ''note'' (pt_note p)]"
| "payload_json (PPeerRevoke p) = json_object
     [str_field ''name'' (pr_name p), str_field ''operator'' (pr_operator p), str_field ''reason'' (pr_reason p)]"
| "payload_json (PRecovery r) = json_object
     [str_field ''name'' (rt_name r), str_field ''x25519PublicKeySha256'' (rt_x25519_sha256 r),
      str_field ''mode'' (rt_mode r), str_field ''operator'' (rt_operator r), str_field ''note'' (rt_note r)]"
| "payload_json (PRecoveryRevoke r) = json_object
     [str_field ''x25519PublicKeySha256'' (rr_x25519_sha256 r), str_field ''operator'' (rr_operator r),
      str_field ''reason'' (rr_reason r)]"
| "payload_json (PReserve r) = json_object
     [str_field ''jobId'' (rv_job_id r), int_field ''signAttempt'' (rv_attempt r),
      str_field ''tenantSlug'' (rv_tenant r), str_field ''packageName'' (rv_package r),
      str_field ''certificateSha256'' (rv_cert r), int_field ''versionCode'' (rv_vc r),
      str_field ''unsignedSha256'' (rv_unsigned r)]"
| "payload_json (PSigned s) = json_object
     [str_field ''jobId'' (sr_job_id s), str_field ''packageName'' (sr_package s),
      str_field ''certificateSha256'' (sr_cert s), int_field ''versionCode'' (sr_vc s),
      str_field ''unsignedSha256'' (sr_unsigned s), str_field ''signedSha256'' (sr_signed s)]"
| "payload_json (PComplete c) = json_object
     [str_field ''jobId'' (cr_job_id c), str_field ''packageName'' (cr_package c),
      str_field ''certificateSha256'' (cr_cert c), int_field ''versionCode'' (cr_vc c),
      str_field ''unsignedSha256'' (cr_unsigned c), str_field ''signedSha256'' (cr_signed c),
      str_field ''releaseId'' (cr_release c)]"
| "payload_json (PAbandon a) = json_object
     [str_field ''jobId'' (ar_job_id a), str_field ''packageName'' (ar_package a),
      str_field ''certificateSha256'' (ar_cert a), int_field ''versionCode'' (ar_vc a),
      str_field ''unsignedSha256'' (ar_unsigned a), str_field ''operator'' (ar_operator a),
      str_field ''reason'' (ar_reason a)]"
| "payload_json (PImport i) = json_object
     [str_field ''sourceEd25519Sha256'' (ir_source_sha256 i),
      json_field ''sourceSeq'' (nat_str (unat (ir_source_seq i))),
      str_field ''jobId'' (ir_job_id i), int_field ''signAttempt'' (ir_attempt i),
      str_field ''tenantSlug'' (ir_tenant i), str_field ''packageName'' (ir_package i),
      str_field ''certificateSha256'' (ir_cert i), int_field ''versionCode'' (ir_vc i),
      str_field ''unsignedSha256'' (ir_unsigned i), str_field ''status'' (ir_status i),
      str_field ''signedSha256'' (ir_signed i), str_field ''releaseId'' (ir_release i),
      str_field ''operator'' (ir_operator i)]"
| "payload_json (PBaseline b) = json_object
     [str_field ''packageName'' (bl_package b), str_field ''certificateSha256'' (bl_cert b),
      int_field ''maxVersionCode'' (bl_max b), str_field ''operator'' (bl_operator b),
      str_field ''note'' (bl_note b)]"

section \<open>Decoding\<close>

type_synonym decoder = "bytes \<Rightarrow> bytes \<Rightarrow> payload option"

definition dec_genesis :: "decoder \<Rightarrow> bytes \<Rightarrow> genesis option" where
  "dec_genesis dec raw = (case dec ''genesis'' raw of Some (PGenesis g) \<Rightarrow> Some g | _ \<Rightarrow> None)"

definition dec_role :: "decoder \<Rightarrow> bytes \<Rightarrow> role_change option" where
  "dec_role dec raw = (case dec ''role'' raw of Some (PRole r) \<Rightarrow> Some r | _ \<Rightarrow> None)"

definition dec_builder :: "decoder \<Rightarrow> bytes \<Rightarrow> builder_trust option" where
  "dec_builder dec raw = (case dec ''builder'' raw of Some (PBuilder b) \<Rightarrow> Some b | _ \<Rightarrow> None)"

definition dec_builder_revoke :: "decoder \<Rightarrow> bytes \<Rightarrow> builder_revoke option" where
  "dec_builder_revoke dec raw =
     (case dec ''builder-revoke'' raw of Some (PBuilderRevoke b) \<Rightarrow> Some b | _ \<Rightarrow> None)"

definition dec_tenant :: "decoder \<Rightarrow> bytes \<Rightarrow> confirmation option" where
  "dec_tenant dec raw = (case dec ''tenant'' raw of Some (PTenant c) \<Rightarrow> Some c | _ \<Rightarrow> None)"

definition dec_peer :: "decoder \<Rightarrow> bytes \<Rightarrow> peer_trust option" where
  "dec_peer dec raw = (case dec ''peer'' raw of Some (PPeer p) \<Rightarrow> Some p | _ \<Rightarrow> None)"

definition dec_peer_revoke :: "decoder \<Rightarrow> bytes \<Rightarrow> peer_revoke option" where
  "dec_peer_revoke dec raw = (case dec ''peer-revoke'' raw of Some (PPeerRevoke p) \<Rightarrow> Some p | _ \<Rightarrow> None)"

definition dec_recovery :: "decoder \<Rightarrow> bytes \<Rightarrow> recovery_trust option" where
  "dec_recovery dec raw = (case dec ''recovery'' raw of Some (PRecovery r) \<Rightarrow> Some r | _ \<Rightarrow> None)"

definition dec_recovery_revoke :: "decoder \<Rightarrow> bytes \<Rightarrow> recovery_revoke option" where
  "dec_recovery_revoke dec raw =
     (case dec ''recovery-revoke'' raw of Some (PRecoveryRevoke r) \<Rightarrow> Some r | _ \<Rightarrow> None)"

definition dec_reserve :: "decoder \<Rightarrow> bytes \<Rightarrow> reservation option" where
  "dec_reserve dec raw =
     (case dec ''reserve'' raw of
        Some (PReserve r) \<Rightarrow>
          Some (reservation_key (rv_job_id r) (rv_attempt r) (rv_tenant r) (rv_package r) (rv_cert r)
            (rv_vc r) (rv_unsigned r))
      | _ \<Rightarrow> None)"

definition dec_signed :: "decoder \<Rightarrow> bytes \<Rightarrow> signed_record option" where
  "dec_signed dec raw = (case dec ''signed'' raw of Some (PSigned s) \<Rightarrow> Some s | _ \<Rightarrow> None)"

definition dec_complete :: "decoder \<Rightarrow> bytes \<Rightarrow> complete_record option" where
  "dec_complete dec raw = (case dec ''complete'' raw of Some (PComplete c) \<Rightarrow> Some c | _ \<Rightarrow> None)"

definition dec_abandon :: "decoder \<Rightarrow> bytes \<Rightarrow> abandon_record option" where
  "dec_abandon dec raw = (case dec ''abandon'' raw of Some (PAbandon a) \<Rightarrow> Some a | _ \<Rightarrow> None)"

definition dec_import :: "decoder \<Rightarrow> bytes \<Rightarrow> import_record option" where
  "dec_import dec raw = (case dec ''import'' raw of Some (PImport i) \<Rightarrow> Some i | _ \<Rightarrow> None)"

definition dec_baseline :: "decoder \<Rightarrow> bytes \<Rightarrow> baseline option" where
  "dec_baseline dec raw = (case dec ''baseline'' raw of Some (PBaseline b) \<Rightarrow> Some b | _ \<Rightarrow> None)"

lemmas dec_defs = dec_genesis_def dec_role_def dec_builder_def dec_builder_revoke_def dec_tenant_def
  dec_peer_def dec_peer_revoke_def dec_recovery_def dec_recovery_revoke_def dec_reserve_def
  dec_signed_def dec_complete_def dec_abandon_def dec_import_def dec_baseline_def

text \<open>\<open>entry\<close>: one verified line.\<close>

record entry =
  en_seq :: nat
  en_at :: bytes
  en_type :: bytes
  en_data :: bytes
  en_hash :: bytes

text \<open>Why a replay refuses an entry: undecodable data, an invalid value, or a broken rule.\<close>

datatype replay_error = BadData | BadValue bytes | BadStep bytes | UnknownType bytes

text \<open>The failures of the store's operations, the sentinel errors of \<open>store.go\<close> first.\<close>

datatype record_error =
    ErrMissing | ErrVersionCodeTaken | ErrVersionCodeNotIncreasing | ErrVersionCodeOutOfBounds
  | ErrJobConflict | ErrNotReserved | ErrNotSigned | ErrSignedMismatch | ErrAlreadySigned
  | ErrAlreadyCompleted | ErrConfirmationChanged | ErrCertificateSeen
  | ErrInvalid bytes | ErrNotTrusted bytes | ErrSelfPeer | ErrPeerKeyKnown bytes | ErrNotPrimary
  | ErrNoMode

section \<open>Shared steps\<close>

text \<open>Decode, then validate, then the rule of the record type.\<close>

definition decoded :: "'a option \<Rightarrow> ('a \<Rightarrow> bytes option) \<Rightarrow> ('a \<Rightarrow> replay_error + 's) \<Rightarrow> replay_error + 's" where
  "decoded d validate k =
     (case d of None \<Rightarrow> Inl BadData
      | Some x \<Rightarrow> (case validate x of Some m \<Rightarrow> Inl (BadValue m) | None \<Rightarrow> k x))"

lemma decoded_Inr [result_simps]:
  "decoded d v k = Inr s \<longleftrightarrow> (\<exists>x. d = Some x \<and> v x = None \<and> k x = Inr s)"
  by (auto simp: decoded_def split: option.splits)

definition invalid :: "bytes option \<Rightarrow> record_error option" where
  "invalid v = map_option ErrInvalid v"

lemma invalid_None [simp]: "invalid v = None \<longleftrightarrow> v = None"
  by (simp add: invalid_def)

text \<open>An entry whose data decodes to a given payload.\<close>

definition carries :: "decoder \<Rightarrow> entry \<Rightarrow> payload \<Rightarrow> bool" where
  "carries dec e p \<longleftrightarrow> en_type e = payload_type p \<and> dec (en_type e) (en_data e) = Some p"

lemma carries_type: "carries dec e p \<Longrightarrow> en_type e = payload_type p"
  by (simp add: carries_def)

end
