(* ===== verification/RecordSigned.thy ===== *)
theory RecordSigned
  imports RecordData "HOL-Library.Product_Lexorder"
begin

text \<open>
  \<open>signed.jsonl\<close> (\<open>signing/records/store.go\<close>): the reservations of (package, certificate,
  version code) triples and their life from reserved through signed to completed or abandoned.

  The source keeps pointers: \<open>byVC\<close> and \<open>byJob\<close> point into \<open>all\<close>, and a replayed line mutates the
  pointee. Here a pointer is an index into \<open>ss_all\<close>. \<open>clone\<close> keeps that structure, so on values it
  is the identity. Each operation is its \<open>plan\<close> closure: from the current state, the records to
  append (none when the call is idempotent) or an error; \<open>appendRecords\<close> is in \<open>RecordStore\<close>.
\<close>

type_synonym vc_index = "bytes \<times> bytes \<times> int"

record signed_state =
  ss_all :: "reservation list"
  ss_by_vc :: "(vc_index \<times> nat) list"
  ss_by_job :: "(bytes \<times> nat) list"
  ss_baselines :: "((bytes \<times> bytes) \<times> baseline) list"

definition new_signed_state :: signed_state where
  "new_signed_state = \<lparr>ss_all = [], ss_by_vc = [], ss_by_job = [], ss_baselines = []\<rparr>"

definition vc_key :: "reservation \<Rightarrow> vc_index" where
  "vc_key r = (rv_package r, rv_cert r, rv_vc r)"

abbreviation live :: "reservation \<Rightarrow> bool" where
  "live r \<equiv> rv_status r \<noteq> status_abandoned"

text \<open>\<open>ss.byVC[k]\<close> and \<open>ss.byJob[j]\<close>, dereferenced.\<close>

definition at_vc :: "signed_state \<Rightarrow> vc_index \<Rightarrow> reservation option" where
  "at_vc ss k = map_option ((!) (ss_all ss)) (map_of (ss_by_vc ss) k)"

definition at_job :: "signed_state \<Rightarrow> bytes \<Rightarrow> reservation option" where
  "at_job ss j = map_option ((!) (ss_all ss)) (map_of (ss_by_job ss) j)"

text \<open>The job holds a reservation that has not been released.\<close>

definition job_busy :: "signed_state \<Rightarrow> bytes \<Rightarrow> bool" where
  "job_busy ss j = (case at_job ss j of None \<Rightarrow> False | Some r \<Rightarrow> live r)"

section \<open>Replay\<close>

definition insert_reservation :: "signed_state \<Rightarrow> reservation \<Rightarrow> replay_error + signed_state" where
  "insert_reservation ss r =
     (let k = vc_key r; i = length (ss_all ss)
      in if map_of (ss_by_vc ss) k \<noteq> None
         then Inl (BadStep ''reserves a versionCode that is already reserved'')
         else if job_busy ss (rv_job_id r)
         then Inl (BadStep ''reserves for a job that already holds a reservation'')
         else Inr (ss\<lparr>ss_by_vc := AList.update k i (ss_by_vc ss),
                      ss_by_job := AList.update (rv_job_id r) i (ss_by_job ss),
                      ss_all := ss_all ss @ [r]\<rparr>))"

definition same_binding :: "reservation \<Rightarrow> bytes \<Rightarrow> bytes \<Rightarrow> int \<Rightarrow> bytes \<Rightarrow> bool" where
  "same_binding cur pkg cert vc uns \<longleftrightarrow>
     \<not> (rv_package cur \<noteq> pkg \<or> rv_cert cur \<noteq> cert \<or> rv_vc cur \<noteq> vc \<or> rv_unsigned cur \<noteq> uns)"

text \<open>\<open>cur\<close> is mutated in place.\<close>

definition set_reservation :: "signed_state \<Rightarrow> nat \<Rightarrow> reservation \<Rightarrow> signed_state" where
  "set_reservation ss i r = ss\<lparr>ss_all := (ss_all ss)[i := r]\<rparr>"

definition replay_signed :: "signed_state \<Rightarrow> signed_record \<Rightarrow> bytes \<Rightarrow> replay_error + signed_state" where
  "replay_signed ss sr at =
     (let bad = BadStep ''records a signed package for a reservation that does not exist or is already completed or released''
      in case map_of (ss_by_job ss) (sr_job_id sr) of
           None \<Rightarrow> Inl bad
         | Some i \<Rightarrow> let cur = ss_all ss ! i in
             if (rv_status cur \<noteq> status_reserved \<and> rv_status cur \<noteq> status_signed) \<or>
                \<not> same_binding cur (sr_package sr) (sr_cert sr) (sr_vc sr) (sr_unsigned sr)
             then Inl bad
             else Inr (set_reservation ss i
               (cur\<lparr>rv_status := status_signed, rv_signed := sr_signed sr, rv_updated_at := at\<rparr>)))"

definition replay_complete :: "signed_state \<Rightarrow> complete_record \<Rightarrow> bytes \<Rightarrow> replay_error + signed_state" where
  "replay_complete ss c at =
     (let bad = BadStep ''completes a reservation that has no matching signed package''
      in case map_of (ss_by_job ss) (cr_job_id c) of
           None \<Rightarrow> Inl bad
         | Some i \<Rightarrow> let cur = ss_all ss ! i in
             if rv_status cur \<noteq> status_signed \<or>
                \<not> same_binding cur (cr_package c) (cr_cert c) (cr_vc c) (cr_unsigned c) \<or>
                rv_signed cur \<noteq> cr_signed c
             then Inl bad
             else Inr (set_reservation ss i
               (cur\<lparr>rv_status := status_completed, rv_release := cr_release c, rv_updated_at := at\<rparr>)))"

definition replay_abandon :: "signed_state \<Rightarrow> abandon_record \<Rightarrow> bytes \<Rightarrow> replay_error + signed_state" where
  "replay_abandon ss a at =
     (let bad = BadStep ''abandons a reservation that does not exist or has already produced a signed package''
      in case map_of (ss_by_job ss) (ar_job_id a) of
           None \<Rightarrow> Inl bad
         | Some i \<Rightarrow> let cur = ss_all ss ! i in
             if rv_status cur \<noteq> status_reserved \<or>
                \<not> same_binding cur (ar_package a) (ar_cert a) (ar_vc a) (ar_unsigned a)
             then Inl bad
             else Inr ((set_reservation ss i (cur\<lparr>rv_status := status_abandoned, rv_updated_at := at\<rparr>))
               \<lparr>ss_by_vc := AList.delete (vc_key cur) (ss_by_vc ss)\<rparr>))"

definition replay_baseline :: "signed_state \<Rightarrow> baseline \<Rightarrow> signed_state" where
  "replay_baseline ss b =
     (let k = (bl_package b, bl_cert b)
      in case map_of (ss_baselines ss) k of
           None \<Rightarrow> ss\<lparr>ss_baselines := AList.update k b (ss_baselines ss)\<rparr>
         | Some cur \<Rightarrow> if bl_max cur < bl_max b
             then ss\<lparr>ss_baselines := AList.update k b (ss_baselines ss)\<rparr> else ss)"

definition imported_reservation :: "import_record \<Rightarrow> bytes \<Rightarrow> reservation" where
  "imported_reservation i at =
     \<lparr>rv_job_id = ir_job_id i, rv_attempt = ir_attempt i, rv_tenant = ir_tenant i, rv_package = ir_package i,
      rv_cert = ir_cert i, rv_vc = ir_vc i, rv_unsigned = ir_unsigned i, rv_status = ir_status i,
      rv_signed = ir_signed i, rv_release = ir_release i, rv_source = ''import'',
      rv_reserved_at = at, rv_updated_at = at\<rparr>"

definition reserved_reservation :: "reservation \<Rightarrow> bytes \<Rightarrow> reservation" where
  "reserved_reservation r at =
     r\<lparr>rv_status := status_reserved, rv_source := ''local'', rv_reserved_at := at, rv_updated_at := at\<rparr>"

definition apply_signed :: "decoder \<Rightarrow> signed_state \<Rightarrow> entry \<Rightarrow> replay_error + signed_state" where
  "apply_signed dec ss e =
     (let t = en_type e; raw = en_data e; at = en_at e
      in if t = ''genesis'' then Inr ss
         else if t = ''reserve'' then decoded (dec_reserve dec raw) validate_reserve
           (\<lambda>r. insert_reservation ss (reserved_reservation r at))
         else if t = ''import'' then decoded (dec_import dec raw) import_validate
           (\<lambda>i. insert_reservation ss (imported_reservation i at))
         else if t = ''signed'' then decoded (dec_signed dec raw) signed_validate (\<lambda>sr. replay_signed ss sr at)
         else if t = ''complete'' then decoded (dec_complete dec raw) complete_validate (\<lambda>c. replay_complete ss c at)
         else if t = ''abandon'' then decoded (dec_abandon dec raw) abandon_validate (\<lambda>a. replay_abandon ss a at)
         else if t = ''baseline'' then decoded (dec_baseline dec raw) baseline_validate
           (\<lambda>b. Inr (replay_baseline ss (b\<lparr>bl_at := at\<rparr>)))
         else Inl (UnknownType t))"

section \<open>Queries\<close>

text \<open>\<open>if !has || v > max { max, has = v, true }\<close>; the pair (max, has) is an option.\<close>

definition max_step :: "int option \<Rightarrow> int \<Rightarrow> int option" where
  "max_step m v = (case m of None \<Rightarrow> Some v | Some x \<Rightarrow> if x < v then Some v else m)"

record signed_view =
  sv_max :: "int option"
  sv_existing :: "reservation option"

definition view_current :: "signed_state \<Rightarrow> bytes \<Rightarrow> nat option" where
  "view_current ss job =
     (case map_of (ss_by_job ss) job of
        None \<Rightarrow> None | Some i \<Rightarrow> if live (ss_all ss ! i) then Some i else None)"

definition view_exclude :: "signed_state \<Rightarrow> bytes \<Rightarrow> bytes \<Rightarrow> bytes \<Rightarrow> bytes \<Rightarrow> nat option" where
  "view_exclude ss pkg cert job uns =
     (case view_current ss job of
        None \<Rightarrow> None
      | Some i \<Rightarrow> let r = ss_all ss ! i in
          if rv_package r = pkg \<and> rv_cert r = cert \<and> rv_unsigned r = uns then Some i else None)"

definition view :: "signed_state \<Rightarrow> bytes \<Rightarrow> bytes \<Rightarrow> bytes \<Rightarrow> bytes \<Rightarrow> signed_view" where
  "view ss pkg cert job uns =
     (let ex = view_exclude ss pkg cert job uns;
          counted = filter (\<lambda>(k, i). \<not> (fst k \<noteq> pkg \<or> fst (snd k) \<noteq> cert \<or> Some i = ex)) (ss_by_vc ss);
          m = foldl max_step None (map (\<lambda>(k, i). rv_vc (ss_all ss ! i)) counted)
      in \<lparr>sv_max = (case map_of (ss_baselines ss) (pkg, cert) of
                      None \<Rightarrow> m | Some b \<Rightarrow> max_step m (bl_max b)),
          sv_existing = map_option ((!) (ss_all ss)) (view_current ss job)\<rparr>)"

definition package_max_version_code :: "signed_state \<Rightarrow> bytes \<Rightarrow> int option" where
  "package_max_version_code ss pkg =
     (let m = foldl max_step None
                (map (\<lambda>(k, i). rv_vc (ss_all ss ! i)) (filter (\<lambda>(k, i). fst k = pkg) (ss_by_vc ss)))
      in foldl max_step m (map (\<lambda>(k, b). bl_max b) (filter (\<lambda>(k, b). fst k = pkg) (ss_baselines ss))))"

definition reservations :: "signed_state \<Rightarrow> reservation list" where
  "reservations ss = ss_all ss"

definition baselines :: "signed_state \<Rightarrow> baseline list" where
  "baselines ss = sort_key (\<lambda>b. (bl_package b, bl_cert b)) (map snd (ss_baselines ss))"

definition has_signing_history :: "signed_state \<Rightarrow> bool" where
  "has_signing_history ss \<longleftrightarrow> 0 < length (ss_all ss) \<or> 0 < length (ss_baselines ss)"

section \<open>Operations\<close>

definition plan_reserve ::
    "signed_state \<Rightarrow> reservation \<Rightarrow> reserve_limits \<Rightarrow> record_error + (reservation option \<times> payload list)" where
  "plan_reserve ss r0 lim =
     check_err (invalid (validate_reserve r0)) (check_err (invalid (limits_validate lim))
     (let r = r0\<lparr>rv_status := [], rv_signed := [], rv_release := [], rv_source := []\<rparr>
      in case at_vc ss (vc_key r) of
        Some cur \<Rightarrow>
          if rv_job_id cur = rv_job_id r \<and> rv_unsigned cur = rv_unsigned r \<and> rv_tenant cur = rv_tenant r
          then Inr (Some cur, []) else Inl ErrVersionCodeTaken
      | None \<Rightarrow>
          if job_busy ss (rv_job_id r) then Inl ErrJobConflict
          else let m = sv_max (view ss (rv_package r) (rv_cert r) (rv_job_id r) (rv_unsigned r))
            in if lim_max_vc lim < rv_vc r then Inl ErrVersionCodeOutOfBounds
               else (case m of
                   Some x \<Rightarrow> if rv_vc r \<le> x then Inl ErrVersionCodeNotIncreasing
                     else if lim_max_jump lim < rv_vc r - x then Inl ErrVersionCodeOutOfBounds
                     else Inr (None, [PReserve r])
                 | None \<Rightarrow> if lim_first_sign_max lim < rv_vc r then Inl ErrVersionCodeOutOfBounds
                     else Inr (None, [PReserve r]))))"

definition plan_mark_signed :: "signed_state \<Rightarrow> bytes \<Rightarrow> bytes \<Rightarrow> bytes \<Rightarrow> record_error + payload list" where
  "plan_mark_signed ss job uns sg =
     (case at_job ss job of
        None \<Rightarrow> Inl ErrNotReserved
      | Some cur \<Rightarrow>
        if rv_status cur = status_abandoned \<or> rv_unsigned cur \<noteq> uns then Inl ErrNotReserved
        else if (rv_status cur = status_signed \<or> rv_status cur = status_completed) \<and> rv_signed cur = sg
        then Inr []
        else if rv_status cur = status_completed then Inl ErrAlreadyCompleted
        else let rec = \<lparr>sr_job_id = job, sr_package = rv_package cur, sr_cert = rv_cert cur,
                        sr_vc = rv_vc cur, sr_unsigned = uns, sr_signed = sg\<rparr>
             in check_err (invalid (signed_validate rec)) (Inr [PSigned rec]))"

definition plan_complete ::
    "signed_state \<Rightarrow> bytes \<Rightarrow> bytes \<Rightarrow> bytes \<Rightarrow> bytes \<Rightarrow> record_error + payload list" where
  "plan_complete ss job uns sg release =
     (case at_job ss job of
        None \<Rightarrow> Inl ErrNotReserved
      | Some cur \<Rightarrow>
        if rv_status cur = status_abandoned \<or> rv_unsigned cur \<noteq> uns then Inl ErrNotReserved
        else if rv_status cur = status_reserved then Inl ErrNotSigned
        else if rv_status cur = status_completed then
          (if rv_signed cur = sg \<and> rv_release cur = release then Inr [] else Inl ErrAlreadyCompleted)
        else if rv_signed cur \<noteq> sg then Inl ErrSignedMismatch
        else let rec = \<lparr>cr_job_id = job, cr_package = rv_package cur, cr_cert = rv_cert cur,
                        cr_vc = rv_vc cur, cr_unsigned = uns, cr_signed = sg, cr_release = release\<rparr>
             in check_err (invalid (complete_validate rec)) (Inr [PComplete rec]))"

text \<open>\<open>Abandon\<close> also returns the reservation it releases.\<close>

definition plan_abandon ::
    "signed_state \<Rightarrow> bytes \<Rightarrow> bytes \<Rightarrow> bytes \<Rightarrow> record_error + (reservation \<times> payload list)" where
  "plan_abandon ss job op reason =
     check_err (invalid (validate_operator_reason op reason))
     (case at_job ss job of
        None \<Rightarrow> Inl ErrNotReserved
      | Some cur \<Rightarrow>
        if rv_status cur = status_abandoned then Inl ErrNotReserved
        else if rv_status cur = status_completed then Inl ErrAlreadyCompleted
        else if rv_status cur = status_signed then Inl ErrAlreadySigned
        else let rec = \<lparr>ar_job_id = job, ar_package = rv_package cur, ar_cert = rv_cert cur,
                        ar_vc = rv_vc cur, ar_unsigned = rv_unsigned cur, ar_operator = op, ar_reason = reason\<rparr>
             in check_err (invalid (abandon_validate rec)) (Inr (cur, [PAbandon rec])))"

definition plan_baseline :: "baseline \<Rightarrow> record_error + payload list" where
  "plan_baseline b = check_err (invalid (baseline_validate b)) (Inr [PBaseline b])"

definition import_of :: "bytes \<Rightarrow> bytes \<Rightarrow> reservation \<Rightarrow> import_record" where
  "import_of source op r =
     \<lparr>ir_source_sha256 = source, ir_source_seq = 0, ir_job_id = rv_job_id r, ir_attempt = rv_attempt r,
      ir_tenant = rv_tenant r, ir_package = rv_package r, ir_cert = rv_cert r, ir_vc = rv_vc r,
      ir_unsigned = rv_unsigned r, ir_status = rv_status r, ir_signed = rv_signed r,
      ir_release = rv_release r, ir_operator = op\<rparr>"

text \<open>One turn of \<open>Import\<close>'s loop: the records so far, \<open>seenJobs\<close> and \<open>seenVC\<close>.\<close>

definition import_step ::
    "signed_state \<Rightarrow> bytes \<Rightarrow> bytes \<Rightarrow> payload list \<times> bytes list \<times> vc_index list \<Rightarrow> reservation
     \<Rightarrow> record_error + (payload list \<times> bytes list \<times> vc_index list)" where
  "import_step ss source op acc r =
     (let (items, jobs, vcs) = acc; rec = import_of source op r; k = vc_key r
      in check_err (invalid (import_validate rec))
        (case at_vc ss k of
           Some cur \<Rightarrow>
             if rv_job_id cur = rv_job_id r \<and> rv_unsigned cur = rv_unsigned r \<and> rv_status cur = rv_status r \<and>
                rv_signed cur = rv_signed r \<and> rv_release cur = rv_release r
             then Inr acc else Inl ErrVersionCodeTaken
         | None \<Rightarrow>
             if job_busy ss (rv_job_id r) \<or> rv_job_id r \<in> set jobs \<or> k \<in> set vcs then Inl ErrJobConflict
             else Inr (items @ [PImport rec], rv_job_id r # jobs, k # vcs)))"

definition plan_import ::
    "signed_state \<Rightarrow> bytes \<Rightarrow> reservation list \<Rightarrow> bytes \<Rightarrow> record_error + (nat \<times> payload list)" where
  "plan_import ss source rs op =
     (if \<not> fingerprint_valid source \<or> \<not> valid_operator op then Inl (ErrInvalid ''import'')
      else rbind (fold_res (import_step ss source op) ([], [], []) rs)
        (\<lambda>(items, _). Inr (length items, items)))"

end
