(* ===== verification/SignedLedger.thy ===== *)
theory SignedLedger
  imports RecordSigned
begin

text \<open>
  What the signed ledger guarantees: its invariant, the life of a reservation as a step
  relation, and the interpretation of the ledger contract on \<open>apply_signed\<close>. The properties
  then speak of any file that replays, whoever wrote it.
\<close>

declare map_of_eq_Some_iff [simp del]

section \<open>The life of a reservation\<close>

inductive reservation_step :: "reservation \<Rightarrow> reservation \<Rightarrow> bool" where
  step_signed: "rv_status r = status_reserved \<or> rv_status r = status_signed \<Longrightarrow> fingerprint_valid s \<Longrightarrow>
    reservation_step r (r\<lparr>rv_status := status_signed, rv_signed := s, rv_updated_at := t\<rparr>)"
| step_completed: "rv_status r = status_signed \<Longrightarrow> valid_release_id rel \<Longrightarrow>
    reservation_step r (r\<lparr>rv_status := status_completed, rv_release := rel, rv_updated_at := t\<rparr>)"
| step_abandoned: "rv_status r = status_reserved \<Longrightarrow>
    reservation_step r (r\<lparr>rv_status := status_abandoned, rv_updated_at := t\<rparr>)"

inductive_cases reservation_stepE: "reservation_step r r'"

abbreviation reservation_steps :: "reservation \<Rightarrow> reservation \<Rightarrow> bool" where
  "reservation_steps \<equiv> reservation_step\<^sup>*\<^sup>*"

text \<open>What identifies a reservation never changes.\<close>

definition binding_of :: "reservation \<Rightarrow> bytes \<times> int \<times> bytes \<times> bytes \<times> bytes \<times> int \<times> bytes" where
  "binding_of r = (rv_job_id r, rv_attempt r, rv_tenant r, rv_package r, rv_cert r, rv_vc r, rv_unsigned r)"

lemma step_binding: "reservation_step r r' \<Longrightarrow> binding_of r' = binding_of r"
  by (auto simp: binding_of_def elim!: reservation_stepE)

lemma step_from_final:
  "reservation_step r r' \<Longrightarrow> rv_status r \<noteq> status_completed \<and> rv_status r \<noteq> status_abandoned"
  by (auto elim!: reservation_stepE)

lemma step_from_signed:
  "reservation_step r r' \<Longrightarrow> rv_status r = status_signed \<Longrightarrow>
     rv_status r' = status_signed \<or> rv_status r' = status_completed"
  by (auto elim!: reservation_stepE)

lemma step_completed_package:
  "reservation_step r r' \<Longrightarrow> rv_status r' = status_completed \<Longrightarrow> rv_signed r' = rv_signed r"
  by (auto elim!: reservation_stepE)

lemma steps_binding: "reservation_steps r r' \<Longrightarrow> binding_of r' = binding_of r"
  by (induction rule: rtranclp_induct) (auto simp: step_binding)

lemma steps_final:
  "reservation_steps r r' \<Longrightarrow> rv_status r = status_completed \<or> rv_status r = status_abandoned \<Longrightarrow> r' = r"
  by (induction rule: converse_rtranclp_induct) (auto dest: step_from_final)

lemma steps_from_signed:
  "reservation_steps r r' \<Longrightarrow> rv_status r = status_signed \<Longrightarrow>
     rv_status r' = status_signed \<or> rv_status r' = status_completed"
proof (induction rule: rtranclp_induct)
  case base
  then show ?case by simp
next
  case (step y z)
  then show ?case using step_from_final step_from_signed by blast
qed

section \<open>Invariant\<close>

definition reservation_ok :: "reservation \<Rightarrow> bool" where
  "reservation_ok r \<longleftrightarrow> validate_reserve r = None \<and>
     (rv_status r = status_reserved \<and> rv_signed r = [] \<and> rv_release r = [] \<or>
      rv_status r = status_signed \<and> fingerprint_valid (rv_signed r) \<and> rv_release r = [] \<or>
      rv_status r = status_completed \<and> fingerprint_valid (rv_signed r) \<and> valid_release_id (rv_release r) \<or>
      rv_status r = status_abandoned \<and> rv_signed r = [] \<and> rv_release r = [])"

definition vc_index_ok :: "signed_state \<Rightarrow> bool" where
  "vc_index_ok ss \<longleftrightarrow> distinct (map fst (ss_by_vc ss)) \<and>
     (\<forall>k i. map_of (ss_by_vc ss) k = Some i \<longleftrightarrow>
        i < length (ss_all ss) \<and> live (ss_all ss ! i) \<and> vc_key (ss_all ss ! i) = k)"

definition job_index_ok :: "signed_state \<Rightarrow> bool" where
  "job_index_ok ss \<longleftrightarrow>
     (\<forall>j i. map_of (ss_by_job ss) j = Some i \<longrightarrow> i < length (ss_all ss) \<and> rv_job_id (ss_all ss ! i) = j) \<and>
     (\<forall>i<length (ss_all ss). live (ss_all ss ! i) \<longrightarrow>
        map_of (ss_by_job ss) (rv_job_id (ss_all ss ! i)) = Some i)"

definition baselines_ok :: "signed_state \<Rightarrow> bool" where
  "baselines_ok ss \<longleftrightarrow> distinct (map fst (ss_baselines ss)) \<and>
     (\<forall>k b. map_of (ss_baselines ss) k = Some b \<longrightarrow>
        k = (bl_package b, bl_cert b) \<and> 1 \<le> bl_max b \<and> bl_max b \<le> max_version_code)"

definition wf_signed :: "signed_state \<Rightarrow> bool" where
  "wf_signed ss \<longleftrightarrow> list_all reservation_ok (ss_all ss) \<and> vc_index_ok ss \<and> job_index_ok ss \<and> baselines_ok ss"

definition signed_le :: "signed_state \<Rightarrow> signed_state \<Rightarrow> bool" where
  "signed_le ss ss' \<longleftrightarrow> length (ss_all ss) \<le> length (ss_all ss') \<and>
     (\<forall>i<length (ss_all ss). reservation_steps (ss_all ss ! i) (ss_all ss' ! i)) \<and>
     (\<forall>k b. map_of (ss_baselines ss) k = Some b \<longrightarrow>
        (\<exists>b'. map_of (ss_baselines ss') k = Some b' \<and> bl_max b \<le> bl_max b'))"

lemmas wf_signed_defs = wf_signed_def vc_index_ok_def job_index_ok_def baselines_ok_def

lemma wf_reservation_ok: "wf_signed ss \<Longrightarrow> i < length (ss_all ss) \<Longrightarrow> reservation_ok (ss_all ss ! i)"
  by (simp add: wf_signed_def list_all_length)

lemma wf_vc_iff:
  assumes "wf_signed ss"
  shows "map_of (ss_by_vc ss) k = Some i \<longleftrightarrow>
    i < length (ss_all ss) \<and> live (ss_all ss ! i) \<and> vc_key (ss_all ss ! i) = k"
  using assms unfolding wf_signed_defs by blast

lemma wf_job_index:
  "wf_signed ss \<Longrightarrow> map_of (ss_by_job ss) j = Some i \<Longrightarrow> i < length (ss_all ss) \<and> rv_job_id (ss_all ss ! i) = j"
  by (simp add: wf_signed_defs)

lemma wf_job_live:
  "wf_signed ss \<Longrightarrow> i < length (ss_all ss) \<Longrightarrow> live (ss_all ss ! i) \<Longrightarrow>
     map_of (ss_by_job ss) (rv_job_id (ss_all ss ! i)) = Some i"
  by (simp add: wf_signed_defs)

lemma signed_le_refl: "signed_le ss ss"
  by (auto simp: signed_le_def)

lemma signed_le_trans: "signed_le a b \<Longrightarrow> signed_le b c \<Longrightarrow> signed_le a c"
  unfolding signed_le_def by (meson order_trans rtranclp_trans less_le_trans)

section \<open>Replay keeps the invariant and only moves forward\<close>

text \<open>Changing one reservation that keeps its key, its job and its liveness.\<close>

lemma nth_set: "(xs[i := x]) ! j = (if j = i \<and> i < length xs then x else xs ! j)"
  by (cases "i < length xs") (simp_all add: nth_list_update list_update_beyond)

lemma set_reservation_wf:
  assumes "wf_signed ss" and "i < length (ss_all ss)" and "reservation_ok r" and "live (ss_all ss ! i)" and "live r"
    and "vc_key r = vc_key (ss_all ss ! i)" and "rv_job_id r = rv_job_id (ss_all ss ! i)"
  shows "wf_signed (set_reservation ss i r)"
proof -
  have "list_all reservation_ok ((ss_all ss)[i := r])"
    using assms(1,3) by (auto simp: wf_signed_def list_all_length nth_set)
  moreover have "vc_index_ok (set_reservation ss i r)"
    using assms unfolding wf_signed_def vc_index_ok_def by (auto simp: set_reservation_def nth_set)
  moreover have "job_index_ok (set_reservation ss i r)"
    using assms unfolding wf_signed_def job_index_ok_def by (auto simp: set_reservation_def nth_set)
  ultimately show ?thesis using assms(1)
    by (simp add: wf_signed_def baselines_ok_def set_reservation_def)
qed

lemma set_reservation_le:
  assumes "i < length (ss_all ss)" and "reservation_steps (ss_all ss ! i) r"
  shows "signed_le ss (set_reservation ss i r)"
  using assms by (auto simp: signed_le_def set_reservation_def nth_set)

lemma insert_wf:
  assumes wf: "wf_signed ss" and r: "reservation_ok r" "live r" and ins: "insert_reservation ss r = Inr ss'"
  shows "wf_signed ss'"
proof -
  let ?n = "length (ss_all ss)"
  have ss': "ss' = ss\<lparr>ss_by_vc := AList.update (vc_key r) ?n (ss_by_vc ss),
      ss_by_job := AList.update (rv_job_id r) ?n (ss_by_job ss), ss_all := ss_all ss @ [r]\<rparr>"
    and free: "map_of (ss_by_vc ss) (vc_key r) = None" and idle: "\<not> job_busy ss (rv_job_id r)"
    using ins by (auto simp: insert_reservation_def Let_def split: if_splits)
  have none: "\<not> (i < ?n \<and> live (ss_all ss ! i) \<and> vc_key (ss_all ss ! i) = vc_key r)" for i
    using wf_vc_iff [OF wf, of "vc_key r" i] free by auto
  have other: "rv_job_id (ss_all ss ! i) \<noteq> rv_job_id r" if "i < ?n" "live (ss_all ss ! i)" for i
    using wf_job_live [OF wf that] idle that by (auto simp: job_busy_def at_job_def)
  have "vc_index_ok ss'"
    unfolding vc_index_ok_def
  proof (intro conjI allI)
    show "distinct (map fst (ss_by_vc ss'))"
      using wf by (simp add: ss' wf_signed_defs distinct_update)
    fix k i
    show "map_of (ss_by_vc ss') k = Some i \<longleftrightarrow>
        i < length (ss_all ss') \<and> live (ss_all ss' ! i) \<and> vc_key (ss_all ss' ! i) = k"
      using wf_vc_iff [OF wf, of k i] none [of i] r(2)
      by (cases "i < ?n"; cases "i = ?n") (auto simp: ss' nth_append)
  qed
  moreover have "job_index_ok ss'"
    unfolding job_index_ok_def
  proof (intro conjI allI impI)
    fix j i assume "map_of (ss_by_job ss') j = Some i"
    then show "i < length (ss_all ss')" "rv_job_id (ss_all ss' ! i) = j"
      using wf_job_index [OF wf, of j i] by (auto simp: ss' nth_append split: if_splits)
  next
    fix i assume "i < length (ss_all ss')" "live (ss_all ss' ! i)"
    then show "map_of (ss_by_job ss') (rv_job_id (ss_all ss' ! i)) = Some i"
      using wf_job_live [OF wf, of i] other [of i]
      by (cases "i = ?n") (auto simp: ss' nth_append)
  qed
  moreover have "list_all reservation_ok (ss_all ss')"
    using wf r(1) by (simp add: ss' wf_signed_def)
  ultimately show ?thesis using wf by (simp add: wf_signed_def baselines_ok_def ss')
qed

lemma insert_le: "insert_reservation ss r = Inr ss' \<Longrightarrow> signed_le ss ss'"
  by (auto simp: insert_reservation_def Let_def signed_le_def nth_append split: if_splits)

lemma reserved_ok:
  "dec_reserve dec raw = Some r \<Longrightarrow> validate_reserve r = None \<Longrightarrow> reservation_ok (reserved_reservation r at)"
  by (auto simp: dec_reserve_def reservation_ok_def reserved_reservation_def validate_reserve_None
      split: option.splits payload.splits)

lemma imported_ok: "import_validate i = None \<Longrightarrow> reservation_ok (imported_reservation i at)"
  by (auto simp: import_validate_def import_status_validate_def reservation_ok_def result_simps
      imported_reservation_def validate_reserve_None split: if_splits)

lemma imported_live: "import_validate i = None \<Longrightarrow> live (imported_reservation i at)"
  by (auto simp: import_validate_def import_status_validate_def imported_reservation_def result_simps
      split: if_splits)

lemma replay_signed_Inr:
  assumes "replay_signed ss sr at = Inr ss'"
  obtains i where "map_of (ss_by_job ss) (sr_job_id sr) = Some i"
    "rv_status (ss_all ss ! i) = status_reserved \<or> rv_status (ss_all ss ! i) = status_signed"
    "same_binding (ss_all ss ! i) (sr_package sr) (sr_cert sr) (sr_vc sr) (sr_unsigned sr)"
    "ss' = set_reservation ss i ((ss_all ss ! i)\<lparr>rv_status := status_signed, rv_signed := sr_signed sr,
       rv_updated_at := at\<rparr>)"
  using assms by (auto simp: replay_signed_def Let_def split: option.splits if_splits)

lemma replay_complete_Inr:
  assumes "replay_complete ss c at = Inr ss'"
  obtains i where "map_of (ss_by_job ss) (cr_job_id c) = Some i" "rv_status (ss_all ss ! i) = status_signed"
    "same_binding (ss_all ss ! i) (cr_package c) (cr_cert c) (cr_vc c) (cr_unsigned c)"
    "rv_signed (ss_all ss ! i) = cr_signed c"
    "ss' = set_reservation ss i ((ss_all ss ! i)\<lparr>rv_status := status_completed, rv_release := cr_release c,
       rv_updated_at := at\<rparr>)"
  using assms by (auto simp: replay_complete_def Let_def split: option.splits if_splits)

lemma replay_abandon_Inr:
  assumes "replay_abandon ss a at = Inr ss'"
  obtains i where "map_of (ss_by_job ss) (ar_job_id a) = Some i" "rv_status (ss_all ss ! i) = status_reserved"
    "ss' = (set_reservation ss i ((ss_all ss ! i)\<lparr>rv_status := status_abandoned, rv_updated_at := at\<rparr>))
       \<lparr>ss_by_vc := AList.delete (vc_key (ss_all ss ! i)) (ss_by_vc ss)\<rparr>"
  using assms by (auto simp: replay_abandon_def Let_def split: option.splits if_splits)

lemma validate_reserve_update [simp]:
  "validate_reserve (r\<lparr>rv_status := a\<rparr>) = validate_reserve r"
  "validate_reserve (r\<lparr>rv_signed := a\<rparr>) = validate_reserve r"
  "validate_reserve (r\<lparr>rv_release := a\<rparr>) = validate_reserve r"
  "validate_reserve (r\<lparr>rv_source := a\<rparr>) = validate_reserve r"
  "validate_reserve (r\<lparr>rv_updated_at := a\<rparr>) = validate_reserve r"
  by (simp_all add: validate_reserve_def)

lemma vc_key_update [simp]:
  "vc_key (r\<lparr>rv_status := a\<rparr>) = vc_key r" "vc_key (r\<lparr>rv_signed := a\<rparr>) = vc_key r"
  "vc_key (r\<lparr>rv_release := a\<rparr>) = vc_key r" "vc_key (r\<lparr>rv_updated_at := a\<rparr>) = vc_key r"
  "vc_key (r\<lparr>rv_source := a\<rparr>) = vc_key r"
  by (simp_all add: vc_key_def)

lemma replay_signed_wf:
  assumes wf: "wf_signed ss" and v: "signed_validate sr = None" and h: "replay_signed ss sr at = Inr ss'"
  shows "wf_signed ss' \<and> signed_le ss ss'"
proof -
  obtain i where i: "map_of (ss_by_job ss) (sr_job_id sr) = Some i"
    "rv_status (ss_all ss ! i) = status_reserved \<or> rv_status (ss_all ss ! i) = status_signed"
    and ss': "ss' = set_reservation ss i ((ss_all ss ! i)\<lparr>rv_status := status_signed,
       rv_signed := sr_signed sr, rv_updated_at := at\<rparr>)"
    using h by (rule replay_signed_Inr)
  have lt: "i < length (ss_all ss)" using wf_job_index [OF wf i(1)] by simp
  have fp: "fingerprint_valid (sr_signed sr)"
    using v by (auto simp: signed_validate_def result_simps split: if_splits)
  have "reservation_steps (ss_all ss ! i) ((ss_all ss ! i)\<lparr>rv_status := status_signed,
      rv_signed := sr_signed sr, rv_updated_at := at\<rparr>)"
    using i(2) fp by (blast intro: step_signed)
  moreover have "wf_signed ss'"
    unfolding ss' using wf lt
    by (rule set_reservation_wf) (use wf_reservation_ok [OF wf lt] i(2) fp in \<open>auto simp: reservation_ok_def\<close>)
  ultimately show ?thesis using set_reservation_le [OF lt] by (simp add: ss')
qed

lemma replay_complete_wf:
  assumes wf: "wf_signed ss" and v: "complete_validate c = None" and h: "replay_complete ss c at = Inr ss'"
  shows "wf_signed ss' \<and> signed_le ss ss'"
proof -
  obtain i where i: "map_of (ss_by_job ss) (cr_job_id c) = Some i" "rv_status (ss_all ss ! i) = status_signed"
    and ss': "ss' = set_reservation ss i ((ss_all ss ! i)\<lparr>rv_status := status_completed,
       rv_release := cr_release c, rv_updated_at := at\<rparr>)"
    using h by (rule replay_complete_Inr)
  have lt: "i < length (ss_all ss)" using wf_job_index [OF wf i(1)] by simp
  have rel: "valid_release_id (cr_release c)"
    using v by (auto simp: complete_validate_def result_simps split: if_splits)
  have "reservation_steps (ss_all ss ! i) ((ss_all ss ! i)\<lparr>rv_status := status_completed,
      rv_release := cr_release c, rv_updated_at := at\<rparr>)"
    using i(2) rel by (blast intro: step_completed)
  moreover have "wf_signed ss'"
    unfolding ss' using wf lt
    by (rule set_reservation_wf) (use wf_reservation_ok [OF wf lt] i(2) rel in \<open>auto simp: reservation_ok_def\<close>)
  ultimately show ?thesis using set_reservation_le [OF lt] by (simp add: ss')
qed

lemma replay_abandon_wf:
  assumes wf: "wf_signed ss" and h: "replay_abandon ss a at = Inr ss'"
  shows "wf_signed ss' \<and> signed_le ss ss'"
proof -
  obtain i where i: "map_of (ss_by_job ss) (ar_job_id a) = Some i" "rv_status (ss_all ss ! i) = status_reserved"
    and ss': "ss' = (set_reservation ss i ((ss_all ss ! i)\<lparr>rv_status := status_abandoned, rv_updated_at := at\<rparr>))
       \<lparr>ss_by_vc := AList.delete (vc_key (ss_all ss ! i)) (ss_by_vc ss)\<rparr>"
    using h by (rule replay_abandon_Inr)
  define r where "r = (ss_all ss ! i)\<lparr>rv_status := status_abandoned, rv_updated_at := at\<rparr>"
  have lt: "i < length (ss_all ss)" using wf_job_index [OF wf i(1)] by simp
  have all': "ss_all ss' = (ss_all ss)[i := r]" and vc': "ss_by_vc ss' = AList.delete (vc_key (ss_all ss ! i)) (ss_by_vc ss)"
    and rest: "ss_by_job ss' = ss_by_job ss" "ss_baselines ss' = ss_baselines ss"
    by (simp_all add: ss' set_reservation_def r_def)
  have live_i: "live (ss_all ss ! i)" using i(2) by simp
  have dead: "\<not> live r" by (simp add: r_def)
  have rok: "reservation_ok r"
    using wf_reservation_ok [OF wf lt] i(2) by (auto simp: reservation_ok_def r_def)
  have uniq: "j = i" if "j < length (ss_all ss)" "live (ss_all ss ! j)" "vc_key (ss_all ss ! j) = vc_key (ss_all ss ! i)" for j
    using wf_vc_iff [OF wf, of "vc_key (ss_all ss ! i)" j] wf_vc_iff [OF wf, of "vc_key (ss_all ss ! i)" i] that lt live_i
    by simp
  have "vc_index_ok ss'"
    unfolding vc_index_ok_def
  proof (intro conjI allI)
    show "distinct (map fst (ss_by_vc ss'))"
      using wf by (simp add: vc' wf_signed_defs distinct_delete)
    fix k j
    show "map_of (ss_by_vc ss') k = Some j \<longleftrightarrow>
        j < length (ss_all ss') \<and> live (ss_all ss' ! j) \<and> vc_key (ss_all ss' ! j) = k"
      using wf_vc_iff [OF wf, of k j] uniq [of j] dead by (auto simp: all' vc' nth_set)
  qed
  moreover have "job_index_ok ss'"
    using wf_job_index [OF wf] wf_job_live [OF wf] dead
    by (auto simp: job_index_ok_def all' rest nth_set) (simp_all add: r_def)
  moreover have "list_all reservation_ok (ss_all ss')"
    using wf rok by (auto simp: all' wf_signed_def list_all_length nth_set)
  ultimately have "wf_signed ss'"
    using wf by (simp add: wf_signed_def baselines_ok_def rest)
  moreover have "reservation_steps (ss_all ss ! i) r"
    unfolding r_def using i(2) by (blast intro: step_abandoned)
  then have "signed_le ss ss'"
    using lt by (auto simp: signed_le_def all' rest nth_set)
  ultimately show ?thesis by simp
qed

lemma update_baseline_wf:
  assumes wf: "wf_signed ss" and v: "baseline_validate b = None"
    and up: "\<And>c. map_of (ss_baselines ss) (bl_package b, bl_cert b) = Some c \<Longrightarrow> bl_max c \<le> bl_max b"
    and ss': "ss' = ss\<lparr>ss_baselines := AList.update (bl_package b, bl_cert b) (b\<lparr>bl_at := at\<rparr>) (ss_baselines ss)\<rparr>"
  shows "wf_signed ss' \<and> signed_le ss ss'"
proof -
  have b: "1 \<le> bl_max b" "bl_max b \<le> max_version_code"
    using v by (auto simp: baseline_validate_def split: if_splits)
  have "baselines_ok ss'"
    using wf b by (auto simp: ss' wf_signed_def baselines_ok_def distinct_update split: if_splits)
  then have "wf_signed ss'" using wf by (simp add: ss' wf_signed_def vc_index_ok_def job_index_ok_def)
  moreover have "signed_le ss ss'"
    using up by (auto simp: ss' signed_le_def)
  ultimately show ?thesis by simp
qed

lemma replay_baseline_wf:
  assumes wf: "wf_signed ss" and v: "baseline_validate b = None"
  shows "wf_signed (replay_baseline ss (b\<lparr>bl_at := at\<rparr>)) \<and> signed_le ss (replay_baseline ss (b\<lparr>bl_at := at\<rparr>))"
proof (cases "map_of (ss_baselines ss) (bl_package b, bl_cert b)")
  case None
  then show ?thesis using update_baseline_wf [OF wf v _ refl, of at]
    by (simp add: replay_baseline_def)
next
  case (Some c)
  then show ?thesis using update_baseline_wf [OF wf v _ refl, of at] wf
    by (auto simp: replay_baseline_def signed_le_refl)
qed

text \<open>What an accepted entry was, by its type.\<close>

lemma apply_signed_cases:
  assumes "apply_signed dec ss e = Inr ss'"
  obtains (Genesis) "ss' = ss"
  | (Reserve) r where "dec_reserve dec (en_data e) = Some r" "validate_reserve r = None"
      "insert_reservation ss (reserved_reservation r (en_at e)) = Inr ss'"
  | (Import) i where "dec_import dec (en_data e) = Some i" "import_validate i = None"
      "insert_reservation ss (imported_reservation i (en_at e)) = Inr ss'"
  | (Signed) sr where "dec_signed dec (en_data e) = Some sr" "signed_validate sr = None"
      "replay_signed ss sr (en_at e) = Inr ss'"
  | (Complete) c where "dec_complete dec (en_data e) = Some c" "complete_validate c = None"
      "replay_complete ss c (en_at e) = Inr ss'"
  | (Abandon) a where "dec_abandon dec (en_data e) = Some a" "abandon_validate a = None"
      "replay_abandon ss a (en_at e) = Inr ss'"
  | (Baseline) b where "dec_baseline dec (en_data e) = Some b" "baseline_validate b = None"
      "ss' = replay_baseline ss (b\<lparr>bl_at := en_at e\<rparr>)"
  using assms by (auto simp: apply_signed_def Let_def result_simps split: if_splits)

lemma reserved_live: "live (reserved_reservation r at)"
  by (simp add: reserved_reservation_def)

lemma apply_signed_wf:
  assumes "wf_signed ss" and "apply_signed dec ss e = Inr ss'"
  shows "wf_signed ss' \<and> signed_le ss ss'"
  using assms(2)
proof (cases rule: apply_signed_cases)
  case Genesis
  then show ?thesis using assms(1) by (simp add: signed_le_refl)
next
  case (Reserve r)
  then show ?thesis using insert_wf [OF assms(1) reserved_ok reserved_live] insert_le by blast
next
  case (Import i)
  then show ?thesis using insert_wf [OF assms(1) imported_ok imported_live] insert_le by blast
next
  case (Signed sr)
  then show ?thesis using replay_signed_wf assms(1) by blast
next
  case (Complete c)
  then show ?thesis using replay_complete_wf assms(1) by blast
next
  case (Abandon a)
  then show ?thesis using replay_abandon_wf assms(1) by blast
next
  case (Baseline b)
  then show ?thesis using replay_baseline_wf assms(1) by simp
qed

lemma new_signed_state_wf: "wf_signed new_signed_state"
  by (simp add: new_signed_state_def wf_signed_defs)

interpretation signed_ledger: replayed_ledger "apply_signed dec" new_signed_state wf_signed signed_le
  for dec
  by unfold_locales
    (auto simp: new_signed_state_wf signed_le_refl dest: apply_signed_wf intro: signed_le_trans)

section \<open>The version codes a view reports\<close>

lemma max_step_None: "foldl max_step m xs = None \<longleftrightarrow> m = None \<and> xs = []"
  by (induction xs arbitrary: m) (auto simp: max_step_def split: option.splits)

lemma max_step_Some:
  "foldl max_step m xs = Some x \<Longrightarrow>
     (\<forall>v\<in>set xs. v \<le> x) \<and> (\<forall>y. m = Some y \<longrightarrow> y \<le> x) \<and> (x \<in> set xs \<or> m = Some x)"
proof (induction xs arbitrary: m)
  case Nil
  then show ?case by simp
next
  case (Cons v xs)
  then have "foldl max_step (max_step m v) xs = Some x" by simp
  from Cons.IH [OF this] show ?case
    by (auto simp: max_step_def split: option.splits if_splits)
qed

text \<open>The live reservations of a package and certificate, one left out.\<close>

definition counted_vcs :: "signed_state \<Rightarrow> bytes \<Rightarrow> bytes \<Rightarrow> nat option \<Rightarrow> int set" where
  "counted_vcs ss pkg cert ex =
     {rv_vc (ss_all ss ! i) | i. i < length (ss_all ss) \<and> live (ss_all ss ! i) \<and>
        rv_package (ss_all ss ! i) = pkg \<and> rv_cert (ss_all ss ! i) = cert \<and> Some i \<noteq> ex}"

lemma wf_by_vc_mem:
  assumes "wf_signed ss"
  shows "(k, i) \<in> set (ss_by_vc ss) \<longleftrightarrow>
    i < length (ss_all ss) \<and> live (ss_all ss ! i) \<and> vc_key (ss_all ss ! i) = k"
proof -
  have "distinct (map fst (ss_by_vc ss))" using assms by (simp add: wf_signed_defs)
  then show ?thesis using wf_vc_iff [OF assms, of k i] map_of_eq_Some_iff by metis
qed

lemma counted_set:
  assumes "wf_signed ss"
  shows "set (map (\<lambda>(k, i). rv_vc (ss_all ss ! i))
           (filter (\<lambda>(k, i). \<not> (fst k \<noteq> pkg \<or> fst (snd k) \<noteq> cert \<or> Some i = ex)) (ss_by_vc ss)))
         = counted_vcs ss pkg cert ex"
  (is "set (map ?f (filter ?P _)) = _")
proof (rule set_eqI)
  fix v
  have "v \<in> set (map ?f (filter ?P (ss_by_vc ss))) \<longleftrightarrow>
      (\<exists>k i. (k, i) \<in> set (ss_by_vc ss) \<and> ?P (k, i) \<and> v = rv_vc (ss_all ss ! i))"
    by (force simp del: map_of_eq_Some_iff)
  also have "\<dots> \<longleftrightarrow> v \<in> counted_vcs ss pkg cert ex"
    unfolding wf_by_vc_mem [OF assms] counted_vcs_def by (auto simp: vc_key_def)
  finally show "v \<in> set (map ?f (filter ?P (ss_by_vc ss))) \<longleftrightarrow> v \<in> counted_vcs ss pkg cert ex" .
qed

lemma max_step_Max: "foldl max_step None xs = (if set xs = {} then None else Some (Max (set xs)))"
proof (cases "foldl max_step None xs")
  case None
  then show ?thesis by (simp add: max_step_None)
next
  case (Some x)
  then have "Max (set xs) = x" "set xs \<noteq> {}"
    using max_step_Some [OF Some] by (auto intro: Max_eqI)
  then show ?thesis using Some by simp
qed

definition baseline_vcs :: "signed_state \<Rightarrow> bytes \<Rightarrow> bytes \<Rightarrow> int set" where
  "baseline_vcs ss pkg cert = bl_max ` set_option (map_of (ss_baselines ss) (pkg, cert))"

lemma view_max:
  assumes "wf_signed ss"
  shows "sv_max (view ss pkg cert job uns) =
    (let S = counted_vcs ss pkg cert (view_exclude ss pkg cert job uns) \<union> baseline_vcs ss pkg cert
     in if S = {} then None else Some (Max S))"
proof -
  define ex where "ex = view_exclude ss pkg cert job uns"
  define vs where "vs = map (\<lambda>(k, i). rv_vc (ss_all ss ! i))
           (filter (\<lambda>(k, i). \<not> (fst k \<noteq> pkg \<or> fst (snd k) \<noteq> cert \<or> Some i = ex)) (ss_by_vc ss))"
  define bs where "bs = (case map_of (ss_baselines ss) (pkg, cert) of None \<Rightarrow> [] | Some b \<Rightarrow> [bl_max b])"
  have vs: "set vs = counted_vcs ss pkg cert ex"
    unfolding vs_def by (rule counted_set [OF assms])
  have bs: "set bs = baseline_vcs ss pkg cert"
    by (cases "map_of (ss_baselines ss) (pkg, cert)") (simp_all add: bs_def baseline_vcs_def)
  have "sv_max (view ss pkg cert job uns) = foldl max_step None (vs @ bs)"
    unfolding view_def Let_def ex_def [symmetric] vs_def [symmetric] bs_def
    by (simp split: option.splits)
  then show ?thesis
    unfolding max_step_Max by (simp add: vs bs ex_def [symmetric])
qed

lemma counted_finite [simp]: "finite (counted_vcs ss pkg cert ex)"
proof (rule finite_subset)
  show "counted_vcs ss pkg cert ex \<subseteq> (\<lambda>i. rv_vc (ss_all ss ! i)) ` {..<length (ss_all ss)}"
    by (auto simp: counted_vcs_def)
qed simp

lemma baseline_finite [simp]: "finite (baseline_vcs ss pkg cert)"
  by (simp add: baseline_vcs_def)

lemma view_max_bound:
  assumes "wf_signed ss"
  shows "sv_max (view ss pkg cert job uns) = None \<Longrightarrow>
           counted_vcs ss pkg cert (view_exclude ss pkg cert job uns) = {} \<and> baseline_vcs ss pkg cert = {}"
    and "sv_max (view ss pkg cert job uns) = Some m \<Longrightarrow>
           v \<in> counted_vcs ss pkg cert (view_exclude ss pkg cert job uns) \<union> baseline_vcs ss pkg cert \<Longrightarrow> v \<le> m"
  unfolding view_max [OF assms] Let_def by (auto split: if_splits)

section \<open>Operations\<close>

lemma vc_key_clear [simp]:
  "vc_key (r\<lparr>rv_status := a, rv_signed := b, rv_release := c, rv_source := d\<rparr>) = vc_key r"
  by (simp add: vc_key_def)

lemma at_vc_Some:
  assumes "wf_signed ss" and "at_vc ss k = Some r"
  shows "\<exists>i<length (ss_all ss). ss_all ss ! i = r \<and> live r \<and> vc_key r = k"
  using assms(2) wf_vc_iff [OF assms(1)] by (auto simp: at_vc_def)

lemma job_not_busy:
  assumes "wf_signed ss" and "\<not> job_busy ss j" and "i < length (ss_all ss)" and "live (ss_all ss ! i)"
  shows "rv_job_id (ss_all ss ! i) \<noteq> j"
  using assms wf_job_live [OF assms(1,3,4)] by (auto simp: job_busy_def at_job_def)

lemma not_busy_no_exclude: "\<not> job_busy ss job \<Longrightarrow> view_exclude ss pkg cert job uns = None"
  by (auto simp: job_busy_def at_job_def view_exclude_def view_current_def split: option.splits)

lemma plan_reserve_new:
  assumes "plan_reserve ss r lim = Inr (None, items)"
  shows "items = [PReserve (r\<lparr>rv_status := [], rv_signed := [], rv_release := [], rv_source := []\<rparr>)]"
    "validate_reserve r = None" "limits_validate lim = None" "map_of (ss_by_vc ss) (vc_key r) = None"
    "\<not> job_busy ss (rv_job_id r)" "rv_vc r \<le> lim_max_vc lim"
    "case sv_max (view ss (rv_package r) (rv_cert r) (rv_job_id r) (rv_unsigned r)) of
       None \<Rightarrow> rv_vc r \<le> lim_first_sign_max lim
     | Some m \<Rightarrow> m < rv_vc r \<and> rv_vc r - m \<le> lim_max_jump lim"
  using assms
  by (auto simp: plan_reserve_def Let_def result_simps at_vc_def not_less not_le
      split: option.splits if_splits)

end
