(* ===== verification/SignedProps.thy ===== *)
theory SignedProps
  imports SignedLedger
begin

text \<open>
  The properties of the signed ledger: what holds of every file that replays, and what each
  operation of the store writes, given that its records replay.
\<close>

section \<open>Each operation's record replays\<close>

lemma carries_dec:
  "carries dec e (PReserve r) \<Longrightarrow> dec_reserve dec (en_data e) =
     Some (reservation_key (rv_job_id r) (rv_attempt r) (rv_tenant r) (rv_package r) (rv_cert r) (rv_vc r) (rv_unsigned r))"
  "carries dec e (PSigned sr) \<Longrightarrow> dec_signed dec (en_data e) = Some sr"
  "carries dec e (PComplete c) \<Longrightarrow> dec_complete dec (en_data e) = Some c"
  "carries dec e (PAbandon a) \<Longrightarrow> dec_abandon dec (en_data e) = Some a"
  "carries dec e (PImport i) \<Longrightarrow> dec_import dec (en_data e) = Some i"
  "carries dec e (PBaseline b) \<Longrightarrow> dec_baseline dec (en_data e) = Some b"
  by (auto simp: carries_def dec_defs)

lemma validate_reserve_key [simp]:
  "validate_reserve (reservation_key (rv_job_id r) (rv_attempt r) (rv_tenant r) (rv_package r)
     (rv_cert r) (rv_vc r) (rv_unsigned r)) = validate_reserve r"
  by (simp add: validate_reserve_def)

lemma apply_signed_carries:
  "carries dec e (PReserve r) \<Longrightarrow> validate_reserve r = None \<Longrightarrow>
     apply_signed dec ss e = insert_reservation ss (reserved_reservation
       (reservation_key (rv_job_id r) (rv_attempt r) (rv_tenant r) (rv_package r) (rv_cert r) (rv_vc r) (rv_unsigned r)) (en_at e))"
  "carries dec e (PSigned sr) \<Longrightarrow> signed_validate sr = None \<Longrightarrow> apply_signed dec ss e = replay_signed ss sr (en_at e)"
  "carries dec e (PComplete c) \<Longrightarrow> complete_validate c = None \<Longrightarrow> apply_signed dec ss e = replay_complete ss c (en_at e)"
  "carries dec e (PAbandon a) \<Longrightarrow> abandon_validate a = None \<Longrightarrow> apply_signed dec ss e = replay_abandon ss a (en_at e)"
  "carries dec e (PImport i) \<Longrightarrow> import_validate i = None \<Longrightarrow>
     apply_signed dec ss e = insert_reservation ss (imported_reservation i (en_at e))"
  by (simp_all add: apply_signed_def carries_type carries_dec decoded_def)

lemma insert_reservation_ok:
  "map_of (ss_by_vc ss) (vc_key r) = None \<Longrightarrow> \<not> job_busy ss (rv_job_id r) \<Longrightarrow>
     insert_reservation ss r = Inr (ss\<lparr>ss_by_vc := AList.update (vc_key r) (length (ss_all ss)) (ss_by_vc ss),
       ss_by_job := AList.update (rv_job_id r) (length (ss_all ss)) (ss_by_job ss), ss_all := ss_all ss @ [r]\<rparr>)"
  by (simp add: insert_reservation_def Let_def)

lemma at_job_Some:
  assumes "wf_signed ss" and "at_job ss j = Some r"
  obtains i where "map_of (ss_by_job ss) j = Some i" "i < length (ss_all ss)" "ss_all ss ! i = r" "rv_job_id r = j"
  using assms(2) wf_job_index [OF assms(1)] by (auto simp: at_job_def)

lemma same_binding_refl [simp]:
  "same_binding r (rv_package r) (rv_cert r) (rv_vc r) (rv_unsigned r)"
  by (simp add: same_binding_def)

lemma plan_mark_signed_write:
  assumes "wf_signed ss" and "plan_mark_signed ss job uns sg = Inr [p]"
  obtains i sr where "p = PSigned sr" "signed_validate sr = None" "map_of (ss_by_job ss) job = Some i"
    "i < length (ss_all ss)" "rv_unsigned (ss_all ss ! i) = uns"
    "\<And>at. replay_signed ss sr at = Inr (set_reservation ss i
       ((ss_all ss ! i)\<lparr>rv_status := status_signed, rv_signed := sg, rv_updated_at := at\<rparr>))"
proof -
  obtain cur where cur: "at_job ss job = Some cur" and live: "live cur" and u: "rv_unsigned cur = uns"
    and nc: "rv_status cur \<noteq> status_completed"
    and v: "signed_validate \<lparr>sr_job_id = job, sr_package = rv_package cur, sr_cert = rv_cert cur,
                        sr_vc = rv_vc cur, sr_unsigned = uns, sr_signed = sg\<rparr> = None"
    and p: "p = PSigned \<lparr>sr_job_id = job, sr_package = rv_package cur, sr_cert = rv_cert cur,
                        sr_vc = rv_vc cur, sr_unsigned = uns, sr_signed = sg\<rparr>"
    using assms(2)
    by (auto simp: plan_mark_signed_def Let_def result_simps split: option.splits if_splits)
  obtain i where i: "map_of (ss_by_job ss) job = Some i" "i < length (ss_all ss)" "ss_all ss ! i = cur"
    using at_job_Some [OF assms(1) cur] by blast
  have "rv_status cur = status_reserved \<or> rv_status cur = status_signed"
    using wf_reservation_ok [OF assms(1) i(2)] live nc by (auto simp: reservation_ok_def i(3))
  then have "\<And>at. replay_signed ss \<lparr>sr_job_id = job, sr_package = rv_package cur, sr_cert = rv_cert cur,
                        sr_vc = rv_vc cur, sr_unsigned = uns, sr_signed = sg\<rparr> at = Inr (set_reservation ss i
       ((ss_all ss ! i)\<lparr>rv_status := status_signed, rv_signed := sg, rv_updated_at := at\<rparr>))"
    using u i by (auto simp: replay_signed_def)
  then show thesis using that [OF p v i(1,2)] u i(3) by simp
qed

lemma plan_complete_write:
  assumes "wf_signed ss" and "plan_complete ss job uns sg rel = Inr [p]"
  obtains i c where "p = PComplete c" "complete_validate c = None" "map_of (ss_by_job ss) job = Some i"
    "i < length (ss_all ss)" "rv_unsigned (ss_all ss ! i) = uns" "rv_signed (ss_all ss ! i) = sg"
    "\<And>at. replay_complete ss c at = Inr (set_reservation ss i
       ((ss_all ss ! i)\<lparr>rv_status := status_completed, rv_release := rel, rv_updated_at := at\<rparr>))"
proof -
  obtain cur where cur: "at_job ss job = Some cur" and live: "live cur" and u: "rv_unsigned cur = uns"
    and nc: "rv_status cur \<noteq> status_completed" "rv_status cur \<noteq> status_reserved" and sg: "rv_signed cur = sg"
    and v: "complete_validate \<lparr>cr_job_id = job, cr_package = rv_package cur, cr_cert = rv_cert cur,
                        cr_vc = rv_vc cur, cr_unsigned = uns, cr_signed = sg, cr_release = rel\<rparr> = None"
    and p: "p = PComplete \<lparr>cr_job_id = job, cr_package = rv_package cur, cr_cert = rv_cert cur,
                        cr_vc = rv_vc cur, cr_unsigned = uns, cr_signed = sg, cr_release = rel\<rparr>"
    using assms(2)
    by (auto simp: plan_complete_def Let_def result_simps split: option.splits if_splits)
  obtain i where i: "map_of (ss_by_job ss) job = Some i" "i < length (ss_all ss)" "ss_all ss ! i = cur"
    using at_job_Some [OF assms(1) cur] by blast
  have "rv_status cur = status_signed"
    using wf_reservation_ok [OF assms(1) i(2)] live nc by (auto simp: reservation_ok_def i(3))
  then have "\<And>at. replay_complete ss \<lparr>cr_job_id = job, cr_package = rv_package cur, cr_cert = rv_cert cur,
                        cr_vc = rv_vc cur, cr_unsigned = uns, cr_signed = sg, cr_release = rel\<rparr> at = Inr (set_reservation ss i
       ((ss_all ss ! i)\<lparr>rv_status := status_completed, rv_release := rel, rv_updated_at := at\<rparr>))"
    using u i sg by (auto simp: replay_complete_def)
  then show thesis using that [OF p v i(1,2)] u sg i(3) by simp
qed

lemma plan_abandon_write:
  assumes "wf_signed ss" and "plan_abandon ss job op reason = Inr (out, items)"
  obtains i a where "items = [PAbandon a]" "abandon_validate a = None" "map_of (ss_by_job ss) job = Some i"
    "i < length (ss_all ss)" "out = ss_all ss ! i" "rv_status out = status_reserved"
    "\<And>at. replay_abandon ss a at = Inr ((set_reservation ss i
       ((ss_all ss ! i)\<lparr>rv_status := status_abandoned, rv_updated_at := at\<rparr>))
         \<lparr>ss_by_vc := AList.delete (vc_key (ss_all ss ! i)) (ss_by_vc ss)\<rparr>)"
proof -
  have cur: "at_job ss job = Some out" and live: "live out"
    and nc: "rv_status out \<noteq> status_completed" "rv_status out \<noteq> status_signed"
    and v: "abandon_validate \<lparr>ar_job_id = job, ar_package = rv_package out, ar_cert = rv_cert out,
              ar_vc = rv_vc out, ar_unsigned = rv_unsigned out, ar_operator = op, ar_reason = reason\<rparr> = None"
    and items: "items = [PAbandon \<lparr>ar_job_id = job, ar_package = rv_package out, ar_cert = rv_cert out,
              ar_vc = rv_vc out, ar_unsigned = rv_unsigned out, ar_operator = op, ar_reason = reason\<rparr>]"
    using assms(2) by (auto simp: plan_abandon_def Let_def result_simps split: option.splits if_splits)
  obtain i where i: "map_of (ss_by_job ss) job = Some i" "i < length (ss_all ss)" "ss_all ss ! i = out"
    using at_job_Some [OF assms(1) cur] by blast
  have st: "rv_status out = status_reserved"
    using wf_reservation_ok [OF assms(1) i(2)] live nc by (auto simp: reservation_ok_def i(3))
  have "\<And>at. replay_abandon ss \<lparr>ar_job_id = job, ar_package = rv_package out, ar_cert = rv_cert out,
              ar_vc = rv_vc out, ar_unsigned = rv_unsigned out, ar_operator = op, ar_reason = reason\<rparr> at
       = Inr ((set_reservation ss i ((ss_all ss ! i)\<lparr>rv_status := status_abandoned, rv_updated_at := at\<rparr>))
         \<lparr>ss_by_vc := AList.delete (vc_key (ss_all ss ! i)) (ss_by_vc ss)\<rparr>)"
    using st i by (simp add: replay_abandon_def)
  then show thesis using that [OF items v i(1,2) i(3) [symmetric] st] by simp
qed

lemma at_job_set:
  "map_of (ss_by_job ss) j = Some i \<Longrightarrow> i < length (ss_all ss) \<Longrightarrow> at_job (set_reservation ss i r) j = Some r"
  by (simp add: at_job_def set_reservation_def nth_set)

section \<open>A concrete ledger, for the witnesses\<close>

definition ex_r1 :: reservation where
  "ex_r1 = reservation_key ''bld_job0001'' 1 ''AnyFun'' ''com.anyfun.app'' (replicate 64 (CHR ''0'')) 7
     (replicate 64 (CHR ''b''))"

definition ex_r2 :: reservation where
  "ex_r2 = reservation_key ''bld_job0002'' 1 ''AnyFun'' ''com.anyfun.app'' (replicate 64 (CHR ''0'')) 9
     (replicate 64 (CHR ''c''))"

definition ex_s1 :: signed_record where
  "ex_s1 = \<lparr>sr_job_id = ''bld_job0001'', sr_package = ''com.anyfun.app'', sr_cert = replicate 64 (CHR ''0''),
     sr_vc = 7, sr_unsigned = replicate 64 (CHR ''b''), sr_signed = replicate 64 (CHR ''d'')\<rparr>"

definition ex_c1 :: complete_record where
  "ex_c1 = \<lparr>cr_job_id = ''bld_job0001'', cr_package = ''com.anyfun.app'', cr_cert = replicate 64 (CHR ''0''),
     cr_vc = 7, cr_unsigned = replicate 64 (CHR ''b''), cr_signed = replicate 64 (CHR ''d''), cr_release = ''rel_1''\<rparr>"

definition ex_a2 :: abandon_record where
  "ex_a2 = \<lparr>ar_job_id = ''bld_job0002'', ar_package = ''com.anyfun.app'', ar_cert = replicate 64 (CHR ''0''),
     ar_vc = 9, ar_unsigned = replicate 64 (CHR ''c''), ar_operator = ''alice'', ar_reason = ''stuck''\<rparr>"

definition ex_imported :: reservation where
  "ex_imported = ex_r2\<lparr>rv_status := status_signed, rv_signed := replicate 64 (CHR ''e'')\<rparr>"

definition ex_source :: bytes where "ex_source = replicate 64 (CHR ''f'')"

text \<open>The raw texts of the example are one letter each.\<close>

definition ex_dec :: decoder where
  "ex_dec t raw = map_of [(''a'', PReserve ex_r1), (''b'', PSigned ex_s1), (''c'', PComplete ex_c1),
     (''d'', PReserve ex_r2), (''e'', PAbandon ex_a2), (''f'', PImport (import_of ex_source ''alice'' ex_imported))] raw"

definition ex_entry :: "nat \<Rightarrow> bytes \<Rightarrow> bytes \<Rightarrow> entry" where
  "ex_entry n t raw = \<lparr>en_seq = n, en_at = ''2026-09-16T08:00:00Z'', en_type = t, en_data = raw, en_hash = []\<rparr>"

definition ex_entries :: "entry list" where
  "ex_entries = [ex_entry 1 ''reserve'' ''a'', ex_entry 2 ''signed'' ''b'', ex_entry 3 ''complete'' ''c'',
     ex_entry 4 ''reserve'' ''d'', ex_entry 5 ''abandon'' ''e'']"

definition ex_ledger :: "nat \<Rightarrow> signed_state" where
  "ex_ledger n = (case fold_res (apply_signed ex_dec) new_signed_state (take n ex_entries) of
     Inr s \<Rightarrow> s | Inl _ \<Rightarrow> new_signed_state)"

definition ex_limits :: reserve_limits where
  "ex_limits = \<lparr>lim_max_vc = 1000, lim_max_jump = 10, lim_first_sign_max = 50\<rparr>"

lemma replay_ok_iff: "isl m = False \<Longrightarrow> m = Inr (case m of Inr s \<Rightarrow> s | Inl _ \<Rightarrow> d)"
  by (cases m) simp_all

lemma ex_replay_isl:
  "isl (fold_res (apply_signed ex_dec) new_signed_state (take 0 ex_entries)) = False"
  "isl (fold_res (apply_signed ex_dec) new_signed_state (take 1 ex_entries)) = False"
  "isl (fold_res (apply_signed ex_dec) new_signed_state (take 2 ex_entries)) = False"
  "isl (fold_res (apply_signed ex_dec) new_signed_state (take 3 ex_entries)) = False"
  "isl (fold_res (apply_signed ex_dec) new_signed_state (take 4 ex_entries)) = False"
  by code_simp+

lemmas ex_replay = ex_replay_isl [THEN replay_ok_iff, of new_signed_state, folded ex_ledger_def]

abbreviation ex_time :: bytes where "ex_time \<equiv> ''2026-09-16T08:00:00Z''"

lemma ex_reason: "validate_operator_reason ''alice'' ''stuck'' = None"
  by (simp add: validate_operator_reason_def valid_text_def trim_space_def runes_def utf8_step_def
      is_space_rune_def valid_operator_def operator_char_def slug_char_def char_class_defs)

lemma ex_abandon_valid: "abandon_validate ex_a2 = None"
proof -
  have "validate_reserve (reservation_key ''bld_job0002'' 0 ''x'' ''com.anyfun.app'' (replicate 64 (CHR ''0'')) 9
     (replicate 64 (CHR ''c''))) = None"
    by code_simp
  then show ?thesis by (simp add: abandon_validate_def ex_a2_def ex_reason)
qed

lemma ex_at_job:
  "at_job (ex_ledger 1) ''bld_job0001'' = Some (reserved_reservation ex_r1 ex_time)"
  "at_job (ex_ledger 2) ''bld_job0001'' =
     Some ((reserved_reservation ex_r1 ex_time)\<lparr>rv_status := status_signed, rv_signed := replicate 64 (CHR ''d'')\<rparr>)"
  "at_job (ex_ledger 4) ''bld_job0002'' = Some (reserved_reservation ex_r2 ex_time)"
  by code_simp+

lemma ex_plans:
  "plan_reserve new_signed_state ex_r1 ex_limits = Inr (None, [PReserve ex_r1])"
  "plan_reserve (ex_ledger 3) ex_r2 ex_limits = Inr (None, [PReserve ex_r2])"
  "plan_mark_signed (ex_ledger 1) ''bld_job0001'' (replicate 64 (CHR ''b'')) (replicate 64 (CHR ''d'')) = Inr [PSigned ex_s1]"
  "plan_complete (ex_ledger 2) ''bld_job0001'' (replicate 64 (CHR ''b'')) (replicate 64 (CHR ''d'')) ''rel_1'' = Inr [PComplete ex_c1]"
  "plan_import (ex_ledger 3) ex_source [ex_imported] ''alice'' = Inr (1, [PImport (import_of ex_source ''alice'' ex_imported)])"
  by code_simp+

lemma ex_plan_abandon:
  "plan_abandon (ex_ledger 4) ''bld_job0002'' ''alice'' ''stuck'' = Inr (reserved_reservation ex_r2 ex_time, [PAbandon ex_a2])"
proof -
  have "\<lparr>ar_job_id = ''bld_job0002'', ar_package = rv_package (reserved_reservation ex_r2 ex_time),
     ar_cert = rv_cert (reserved_reservation ex_r2 ex_time), ar_vc = rv_vc (reserved_reservation ex_r2 ex_time),
     ar_unsigned = rv_unsigned (reserved_reservation ex_r2 ex_time), ar_operator = ''alice'', ar_reason = ''stuck''\<rparr> = ex_a2"
    by (simp add: ex_a2_def reserved_reservation_def ex_r2_def)
  then show ?thesis using ex_abandon_valid
    by (simp add: plan_abandon_def ex_at_job ex_reason invalid_def Let_def) (simp add: reserved_reservation_def)
qed

lemma ex_carries:
  "carries ex_dec (ex_entry 1 ''reserve'' ''a'') (PReserve ex_r1)"
  "carries ex_dec (ex_entry 2 ''signed'' ''b'') (PSigned ex_s1)"
  "carries ex_dec (ex_entry 3 ''complete'' ''c'') (PComplete ex_c1)"
  "carries ex_dec (ex_entry 5 ''abandon'' ''e'') (PAbandon ex_a2)"
  "carries ex_dec (ex_entry 4 ''import'' ''f'') (PImport (import_of ex_source ''alice'' ex_imported))"
  by (simp_all add: carries_def ex_entry_def ex_dec_def)

section \<open>Every ledger that replays\<close>

lemma distinct_map_filter:
  assumes "\<And>i j. i < length xs \<Longrightarrow> j < length xs \<Longrightarrow> P (xs ! i) \<Longrightarrow> P (xs ! j) \<Longrightarrow>
      f (xs ! i) = f (xs ! j) \<Longrightarrow> i = j"
  shows "distinct (map f (filter P xs))"
  using assms
proof (induction xs)
  case Nil
  show ?case by simp
next
  case (Cons x xs)
  have "distinct (map f (filter P xs))"
    by (rule Cons.IH) (use Cons.prems [of "Suc _" "Suc _"] in auto)
  moreover have "f x \<notin> f ` set (filter P xs)" if "P x"
  proof
    assume "f x \<in> f ` set (filter P xs)"
    then obtain j where "j < length xs" "P (xs ! j)" "f x = f (xs ! j)" by (auto simp: in_set_conv_nth)
    then show False using Cons.prems [of 0 "Suc j"] that by simp
  qed
  ultimately show ?case by simp
qed

text \<open>
  Property C3. In every ledger that replays, no two live reservations share a version code of
  the same package and certificate, and no job holds two of them.
\<close>

theorem signed_no_double_binding:
  assumes "fold_res (apply_signed dec) new_signed_state es = Inr ss"
  shows "distinct (map vc_key (filter live (ss_all ss))) \<and> distinct (map rv_job_id (filter live (ss_all ss)))"
proof
  have wf: "wf_signed ss" using assms by (rule signed_ledger.wf_replay)
  show "distinct (map vc_key (filter live (ss_all ss)))"
    by (rule distinct_map_filter) (metis wf_vc_iff [OF wf] option.inject)
  show "distinct (map rv_job_id (filter live (ss_all ss)))"
    by (rule distinct_map_filter) (metis wf_job_live [OF wf] option.inject)
qed

text \<open>
  Property C22. History is never rewritten: replaying more lines keeps every reservation with its
  binding, one that was signed is signed or completed for ever, a completed or released one is
  never touched again, and no baseline goes down.
\<close>

theorem signed_history_persistent:
  assumes "fold_res (apply_signed dec) new_signed_state es = Inr ss"
    and "fold_res (apply_signed dec) new_signed_state (es @ fs) = Inr ss'"
    and "i < length (ss_all ss)"
  shows "i < length (ss_all ss') \<and> binding_of (ss_all ss' ! i) = binding_of (ss_all ss ! i) \<and>
    (rv_status (ss_all ss ! i) = status_signed \<longrightarrow>
       rv_status (ss_all ss' ! i) = status_signed \<or> rv_status (ss_all ss' ! i) = status_completed) \<and>
    (rv_status (ss_all ss ! i) = status_completed \<or> rv_status (ss_all ss ! i) = status_abandoned \<longrightarrow>
       ss_all ss' ! i = ss_all ss ! i) \<and>
    (\<forall>k b. map_of (ss_baselines ss) k = Some b \<longrightarrow>
       (\<exists>b'. map_of (ss_baselines ss') k = Some b' \<and> bl_max b \<le> bl_max b'))"
proof -
  have le: "signed_le ss ss'" using assms(1,2) by (rule signed_ledger.prefix_le)
  then have st: "reservation_steps (ss_all ss ! i) (ss_all ss' ! i)" using assms(3) by (simp add: signed_le_def)
  show ?thesis using le assms(3) steps_binding [OF st] steps_from_signed [OF st] steps_final [OF st]
    by (auto simp: signed_le_def)
qed

text \<open>
  Property C11. A new reservation is written only for a version code above every live one and
  every baseline of its package and certificate, within the absolute limit, within the jump
  limit of the highest of them, and within the first-signature limit when there is none; and
  only for a job that holds no other.
\<close>

theorem reserve_version_code_bounds:
  assumes "fold_res (apply_signed dec) new_signed_state es = Inr ss"
    and "plan_reserve ss r lim = Inr (None, items)"
  shows "let S = counted_vcs ss (rv_package r) (rv_cert r) None \<union> baseline_vcs ss (rv_package r) (rv_cert r)
    in (\<forall>v\<in>S. v < rv_vc r) \<and> rv_vc r \<le> lim_max_vc lim \<and> 1 \<le> rv_vc r \<and>
       (if S = {} then rv_vc r \<le> lim_first_sign_max lim else rv_vc r \<le> Max S + lim_max_jump lim) \<and>
       (\<forall>i<length (ss_all ss). live (ss_all ss ! i) \<longrightarrow> rv_job_id (ss_all ss ! i) \<noteq> rv_job_id r)"
proof -
  have wf: "wf_signed ss" using assms(1) by (rule signed_ledger.wf_replay)
  note new = plan_reserve_new [OF assms(2)]
  define S where "S = counted_vcs ss (rv_package r) (rv_cert r) None \<union> baseline_vcs ss (rv_package r) (rv_cert r)"
  have m: "sv_max (view ss (rv_package r) (rv_cert r) (rv_job_id r) (rv_unsigned r)) =
      (if S = {} then None else Some (Max S))"
    using view_max [OF wf, of "rv_package r" "rv_cert r" "rv_job_id r" "rv_unsigned r"] not_busy_no_exclude [OF new(5)]
    by (simp add: S_def Let_def)
  have fin: "finite S" by (simp add: S_def)
  have up: "(\<forall>v\<in>S. v < rv_vc r) \<and> (if S = {} then rv_vc r \<le> lim_first_sign_max lim else rv_vc r \<le> Max S + lim_max_jump lim)"
  proof (cases "S = {}")
    case True
    then show ?thesis using new(7) by (simp add: m)
  next
    case False
    then have "Max S < rv_vc r \<and> rv_vc r - Max S \<le> lim_max_jump lim" using new(7) by (simp add: m)
    then show ?thesis using False fin by (auto dest: Max_ge [OF fin])
  qed
  have "1 \<le> rv_vc r" using new(2) by (simp add: validate_reserve_None)
  then show ?thesis using up new(6) job_not_busy [OF wf new(5)] by (simp add: S_def [symmetric] Let_def)
qed

text \<open>
  The line \<open>Reserve\<close> writes is accepted by the replay, and the same call made again
  finds the reservation and writes nothing.
\<close>

theorem reserve_replays_and_is_idempotent:
  assumes "plan_reserve ss r lim = Inr (None, [p])" and "carries dec e p"
  shows "\<exists>ss' cur. apply_signed dec ss e = Inr ss' \<and> rv_status cur = status_reserved \<and>
    binding_of cur = binding_of r \<and> at_job ss' (rv_job_id r) = Some cur \<and>
    at_vc ss' (vc_key r) = Some cur \<and> plan_reserve ss' r lim = Inr (Some cur, [])"
proof -
  note new = plan_reserve_new [OF assms(1)]
  define r' where "r' = reserved_reservation (reservation_key (rv_job_id r) (rv_attempt r) (rv_tenant r)
    (rv_package r) (rv_cert r) (rv_vc r) (rv_unsigned r)) (en_at e)"
  define r0 where "r0 = r\<lparr>rv_status := [], rv_signed := [], rv_release := [], rv_source := []\<rparr>"
  define ss' where "ss' = ss\<lparr>ss_by_vc := AList.update (vc_key r) (length (ss_all ss)) (ss_by_vc ss),
       ss_by_job := AList.update (rv_job_id r) (length (ss_all ss)) (ss_by_job ss), ss_all := ss_all ss @ [r']\<rparr>"
  have p: "p = PReserve r0" using new(1) by (simp add: r0_def)
  have sel: "vc_key r' = vc_key r" "rv_job_id r' = rv_job_id r" "rv_tenant r' = rv_tenant r"
    "rv_unsigned r' = rv_unsigned r" "binding_of r' = binding_of r" "rv_status r' = status_reserved"
    by (simp_all add: r'_def reserved_reservation_def vc_key_def binding_of_def)
  have "apply_signed dec ss e = insert_reservation ss r'"
    using apply_signed_carries(1) [of dec e r0 ss] assms(2) new(2) by (simp add: p r0_def r'_def)
  also have "\<dots> = Inr ss'"
    using insert_reservation_ok [of ss r'] new(4,5) by (simp add: sel ss'_def)
  finally have ap: "apply_signed dec ss e = Inr ss'" .
  have at: "at_vc ss' (vc_key r) = Some r'" "at_job ss' (rv_job_id r) = Some r'"
    by (simp_all add: at_vc_def at_job_def ss'_def)
  have "plan_reserve ss' r lim = Inr (Some r', [])"
    using new(2,3) at(1) sel by (simp add: plan_reserve_def invalid_def)
  then show ?thesis using ap at sel by blast
qed

text \<open>
  After \<open>MarkSigned\<close> has written its line the job's reservation is signed with that
  package, the same call writes nothing more, and \<open>Abandon\<close> refuses to release it.
\<close>

theorem mark_signed_blocks_release:
  assumes "fold_res (apply_signed dec) new_signed_state es = Inr ss"
    and "plan_mark_signed ss job uns sg = Inr [p]" and "carries dec e p"
  shows "\<exists>ss' cur. apply_signed dec ss e = Inr ss' \<and> at_job ss' job = Some cur \<and>
    rv_status cur = status_signed \<and> rv_signed cur = sg \<and> plan_mark_signed ss' job uns sg = Inr [] \<and>
    (\<forall>op reason. \<exists>err. plan_abandon ss' job op reason = Inl err \<and>
       (validate_operator_reason op reason = None \<longrightarrow> err = ErrAlreadySigned))"
proof -
  have wf: "wf_signed ss" using assms(1) by (rule signed_ledger.wf_replay)
  obtain i sr where p: "p = PSigned sr" and v: "signed_validate sr = None"
    and i: "map_of (ss_by_job ss) job = Some i" "i < length (ss_all ss)" "rv_unsigned (ss_all ss ! i) = uns"
    and rep: "\<And>at. replay_signed ss sr at = Inr (set_reservation ss i
       ((ss_all ss ! i)\<lparr>rv_status := status_signed, rv_signed := sg, rv_updated_at := at\<rparr>))"
    using plan_mark_signed_write [OF wf assms(2)] by metis
  define cur where "cur = (ss_all ss ! i)\<lparr>rv_status := status_signed, rv_signed := sg, rv_updated_at := en_at e\<rparr>"
  have ap: "apply_signed dec ss e = Inr (set_reservation ss i cur)"
    using apply_signed_carries(2) [of dec e sr ss] assms(3) v rep by (simp add: p cur_def)
  have at: "at_job (set_reservation ss i cur) job = Some cur" using i(1,2) by (rule at_job_set)
  have cur: "rv_status cur = status_signed" "rv_signed cur = sg" "rv_unsigned cur = uns"
    by (simp_all add: cur_def i(3))
  have "plan_mark_signed (set_reservation ss i cur) job uns sg = Inr []"
    by (simp add: plan_mark_signed_def at cur)
  moreover have "\<exists>err. plan_abandon (set_reservation ss i cur) job op reason = Inl err \<and>
       (validate_operator_reason op reason = None \<longrightarrow> err = ErrAlreadySigned)" for op reason
    by (cases "validate_operator_reason op reason") (simp_all add: plan_abandon_def at cur invalid_def)
  ultimately show ?thesis using ap at cur by blast
qed

text \<open>
  Property C26. \<open>Complete\<close> writes only for the package that was last marked signed; afterwards the
  reservation is completed with that package and release, the same call writes nothing, and any
  other package, release or a release of the reservation is refused.
\<close>

theorem complete_is_final:
  assumes "fold_res (apply_signed dec) new_signed_state es = Inr ss"
    and "plan_complete ss job uns sg rel = Inr [p]" and "carries dec e p"
  shows "\<exists>ss' old cur. apply_signed dec ss e = Inr ss' \<and> at_job ss job = Some old \<and>
    rv_status old = status_signed \<and> rv_signed old = sg \<and> at_job ss' job = Some cur \<and>
    rv_status cur = status_completed \<and> rv_signed cur = sg \<and> rv_release cur = rel \<and>
    plan_complete ss' job uns sg rel = Inr [] \<and>
    (\<forall>sg' rel'. (sg', rel') \<noteq> (sg, rel) \<longrightarrow> plan_complete ss' job uns sg' rel' = Inl ErrAlreadyCompleted) \<and>
    (\<forall>sg'. sg' \<noteq> sg \<longrightarrow> plan_mark_signed ss' job uns sg' = Inl ErrAlreadyCompleted) \<and>
    (\<forall>op reason. validate_operator_reason op reason = None \<longrightarrow>
       plan_abandon ss' job op reason = Inl ErrAlreadyCompleted)"
proof -
  have wf: "wf_signed ss" using assms(1) by (rule signed_ledger.wf_replay)
  obtain i c where p: "p = PComplete c" and v: "complete_validate c = None"
    and i: "map_of (ss_by_job ss) job = Some i" "i < length (ss_all ss)"
      "rv_unsigned (ss_all ss ! i) = uns" "rv_signed (ss_all ss ! i) = sg"
    and rep: "\<And>at. replay_complete ss c at = Inr (set_reservation ss i
       ((ss_all ss ! i)\<lparr>rv_status := status_completed, rv_release := rel, rv_updated_at := at\<rparr>))"
    using plan_complete_write [OF wf assms(2)] by metis
  define cur where "cur = (ss_all ss ! i)\<lparr>rv_status := status_completed, rv_release := rel, rv_updated_at := en_at e\<rparr>"
  have ap: "apply_signed dec ss e = Inr (set_reservation ss i cur)"
    using apply_signed_carries(3) [of dec e c ss] assms(3) v rep by (simp add: p cur_def)
  have old: "at_job ss job = Some (ss_all ss ! i)" using i(1) by (simp add: at_job_def)
  have st: "rv_status (ss_all ss ! i) = status_signed"
    using assms(2) old wf_reservation_ok [OF wf i(2)]
    by (auto simp: plan_complete_def reservation_ok_def split: if_splits)
  have at: "at_job (set_reservation ss i cur) job = Some cur" using i(1,2) by (rule at_job_set)
  have cur: "rv_status cur = status_completed" "rv_signed cur = sg" "rv_unsigned cur = uns" "rv_release cur = rel"
    by (simp_all add: cur_def i(3,4))
  show ?thesis
    by (intro exI [of _ "set_reservation ss i cur"] exI [of _ "ss_all ss ! i"] exI [of _ cur])
      (auto simp: ap old st i(4) at cur plan_complete_def plan_mark_signed_def plan_abandon_def invalid_def)
qed

text \<open>
  \<open>Abandon\<close> releases a reservation that has signed nothing: its version code is free
  again, nothing else changes, and the job can no longer record a package for it.
\<close>

theorem abandon_frees_the_version_code:
  assumes "fold_res (apply_signed dec) new_signed_state es = Inr ss"
    and "plan_abandon ss job op reason = Inr (out, [p])" and "carries dec e p"
  shows "\<exists>ss'. apply_signed dec ss e = Inr ss' \<and> at_job ss job = Some out \<and> rv_status out = status_reserved \<and>
    at_vc ss' (vc_key out) = None \<and> (\<forall>k. k \<noteq> vc_key out \<longrightarrow> at_vc ss' k = at_vc ss k) \<and>
    \<not> job_busy ss' job \<and>
    (\<forall>uns sg. plan_mark_signed ss' job uns sg = Inl ErrNotReserved) \<and>
    (\<forall>uns sg rel. plan_complete ss' job uns sg rel = Inl ErrNotReserved)"
proof -
  have wf: "wf_signed ss" using assms(1) by (rule signed_ledger.wf_replay)
  obtain i a where "[p] = [PAbandon a]" and v: "abandon_validate a = None"
    and i: "map_of (ss_by_job ss) job = Some i" "i < length (ss_all ss)" and out: "out = ss_all ss ! i"
      "rv_status out = status_reserved"
    and rep: "\<And>at. replay_abandon ss a at = Inr ((set_reservation ss i
       ((ss_all ss ! i)\<lparr>rv_status := status_abandoned, rv_updated_at := at\<rparr>))
         \<lparr>ss_by_vc := AList.delete (vc_key (ss_all ss ! i)) (ss_by_vc ss)\<rparr>)"
    using plan_abandon_write [OF wf assms(2)] by blast
  then have p: "p = PAbandon a" by simp
  define cur where "cur = out\<lparr>rv_status := status_abandoned, rv_updated_at := en_at e\<rparr>"
  define ss' where "ss' = (set_reservation ss i cur)\<lparr>ss_by_vc := AList.delete (vc_key out) (ss_by_vc ss)\<rparr>"
  have ap: "apply_signed dec ss e = Inr ss'"
    using apply_signed_carries(4) [of dec e a ss] assms(3) v rep by (simp add: p ss'_def cur_def out(1))
  have job: "at_job ss' job = Some cur" using i by (simp add: at_job_def ss'_def set_reservation_def)
  have dead: "rv_status cur = status_abandoned" by (simp add: cur_def)
  have other: "at_vc ss' k = at_vc ss k" if "k \<noteq> vc_key out" for k
  proof -
    have "map_of (ss_by_vc ss) k \<noteq> Some i" using wf_vc_iff [OF wf, of k i] that out(1) by auto
    then show ?thesis using that
      by (auto simp: at_vc_def ss'_def set_reservation_def nth_set split: option.splits
          intro!: option.map_cong)
  qed
  have free: "at_vc ss' (vc_key out) = None" by (simp add: at_vc_def ss'_def)
  have "at_job ss job = Some out" using i(1) out(1) by (simp add: at_job_def)
  then show ?thesis using ap other out(2) free
    by (intro exI [of _ ss'])
      (simp add: job dead plan_mark_signed_def plan_complete_def job_busy_def)
qed

section \<open>Importing another gate's ledger\<close>

declare split_paired_All [simp del] split_paired_Ex [simp del]

lemma insert_lookup:
  assumes "wf_signed ss" and "insert_reservation ss r = Inr ss'"
  shows "at_vc ss' k = (if k = vc_key r then Some r else at_vc ss k)"
    and "at_job ss' j = (if j = rv_job_id r then Some r else at_job ss j)"
proof -
  have ss': "ss' = ss\<lparr>ss_by_vc := AList.update (vc_key r) (length (ss_all ss)) (ss_by_vc ss),
       ss_by_job := AList.update (rv_job_id r) (length (ss_all ss)) (ss_by_job ss), ss_all := ss_all ss @ [r]\<rparr>"
    using assms(2) by (auto simp: insert_reservation_def Let_def split: if_splits)
  show "at_vc ss' k = (if k = vc_key r then Some r else at_vc ss k)"
    using wf_vc_iff [OF assms(1), of k]
    by (cases "map_of (ss_by_vc ss) k") (auto simp: ss' at_vc_def nth_append)
  show "at_job ss' j = (if j = rv_job_id r then Some r else at_job ss j)"
    using wf_job_index [OF assms(1), of j]
    by (cases "map_of (ss_by_job ss) j") (auto simp: ss' at_job_def nth_append)
qed

text \<open>The state \<open>s\<close> has grown from \<open>ss\<close> by reservations of the given jobs and version codes.\<close>

definition grown :: "signed_state \<Rightarrow> signed_state \<Rightarrow> bytes list \<Rightarrow> vc_index list \<Rightarrow> bool" where
  "grown ss s jobs vcs \<longleftrightarrow> wf_signed s \<and>
     (\<forall>k. at_vc s k \<noteq> None \<longrightarrow> k \<in> set vcs \<or> at_vc ss k \<noteq> None) \<and>
     (\<forall>k c. at_vc ss k = Some c \<longrightarrow> at_vc s k = Some c) \<and>
     (\<forall>j. job_busy s j \<longrightarrow> job_busy ss j \<or> j \<in> set jobs)"

text \<open>The ledger holds this reservation, in this status and with this package and release.\<close>

definition present :: "signed_state \<Rightarrow> reservation \<Rightarrow> bool" where
  "present s r \<longleftrightarrow> (\<exists>cur. at_vc s (vc_key r) = Some cur \<and> rv_job_id cur = rv_job_id r \<and>
     rv_unsigned cur = rv_unsigned r \<and> rv_status cur = rv_status r \<and> rv_signed cur = rv_signed r \<and>
     rv_release cur = rv_release r)"

lemma imported_sel [simp]:
  "vc_key (imported_reservation (import_of src op r) t) = vc_key r"
  "rv_job_id (imported_reservation (import_of src op r) t) = rv_job_id r"
  "rv_unsigned (imported_reservation (import_of src op r) t) = rv_unsigned r"
  "rv_status (imported_reservation (import_of src op r) t) = rv_status r"
  "rv_signed (imported_reservation (import_of src op r) t) = rv_signed r"
  "rv_release (imported_reservation (import_of src op r) t) = rv_release r"
  by (simp_all add: imported_reservation_def import_of_def vc_key_def)

lemma import_insert:
  assumes g: "grown ss s jobs vcs" and c: "carries dec e (PImport (import_of src op r))"
    and v: "import_validate (import_of src op r) = None" and free: "at_vc ss (vc_key r) = None"
    and idle: "\<not> job_busy ss (rv_job_id r)" and new: "rv_job_id r \<notin> set jobs" "vc_key r \<notin> set vcs"
  shows "\<exists>s'. apply_signed dec s e = Inr s' \<and> grown ss s' (rv_job_id r # jobs) (vc_key r # vcs) \<and> present s' r \<and>
    (\<forall>k x. at_vc s k = Some x \<longrightarrow> at_vc s' k = Some x)"
proof -
  let ?i = "imported_reservation (import_of src op r) (en_at e)"
  have wf: "wf_signed s" using g by (simp add: grown_def)
  have f: "at_vc s (vc_key r) = None" using g free new(2) by (auto simp: grown_def)
  have nb: "\<not> job_busy s (rv_job_id r)" using g idle new(1) by (auto simp: grown_def)
  have "map_of (ss_by_vc s) (vc_key ?i) = None" using f by (simp add: at_vc_def)
  then obtain s' where s': "insert_reservation s ?i = Inr s'"
    using insert_reservation_ok [of s ?i] nb by auto
  have wf': "wf_signed s'" using insert_wf [OF wf imported_ok [OF v] imported_live [OF v] s'] .
  note look = insert_lookup [OF wf s']
  have "at_vc s' k = Some x" if "at_vc s k = Some x" for k x using that f by (auto simp: look)
  moreover have "present s' r" by (simp add: present_def look)
  moreover have "grown ss s' (rv_job_id r # jobs) (vc_key r # vcs)"
    using g wf' free by (auto simp: grown_def look job_busy_def split: if_splits)
  ultimately show ?thesis using apply_signed_carries(5) [OF c v, of s] s' by auto
qed

lemma present_mono: "present s r \<Longrightarrow> (\<And>k x. at_vc s k = Some x \<Longrightarrow> at_vc s' k = Some x) \<Longrightarrow> present s' r"
  unfolding present_def by blast

lemma import_step_Inr:
  assumes "import_step ss src op (items, jobs, vcs) r = Inr acc"
  obtains (Skip) "acc = (items, jobs, vcs)" "present ss r"
  | (New) "acc = (items @ [PImport (import_of src op r)], rv_job_id r # jobs, vc_key r # vcs)"
      "import_validate (import_of src op r) = None" "at_vc ss (vc_key r) = None"
      "\<not> job_busy ss (rv_job_id r)" "rv_job_id r \<notin> set jobs" "vc_key r \<notin> set vcs"
  using assms
  by (auto simp: import_step_def Let_def result_simps present_def split: option.splits if_splits)

lemma import_fold:
  assumes "fold_res (import_step ss src op) (items, jobs, vcs) rs = Inr (items', jobs', vcs')"
  shows "\<exists>new. items' = items @ new \<and> (\<forall>s es. grown ss s jobs vcs \<longrightarrow> list_all2 (carries dec) es new \<longrightarrow>
    (\<exists>s'. fold_res (apply_signed dec) s es = Inr s' \<and> grown ss s' jobs' vcs' \<and> (\<forall>r\<in>set rs. present s' r) \<and>
      (\<forall>k x. at_vc s k = Some x \<longrightarrow> at_vc s' k = Some x)))"
  using assms
proof (induction rs arbitrary: items jobs vcs)
  case Nil
  then show ?case by (intro exI [of _ "[]"]) auto
next
  case (Cons r rs)
  obtain acc where acc: "import_step ss src op (items, jobs, vcs) r = Inr acc"
    and rest: "fold_res (import_step ss src op) acc rs = Inr (items', jobs', vcs')"
    using Cons.prems by (auto simp: result_simps)
  from acc show ?case
  proof (cases rule: import_step_Inr)
    case Skip
    obtain new where new: "items' = items @ new" and run: "\<And>s es. grown ss s jobs vcs \<Longrightarrow> list_all2 (carries dec) es new \<Longrightarrow>
      \<exists>s'. fold_res (apply_signed dec) s es = Inr s' \<and> grown ss s' jobs' vcs' \<and> (\<forall>r\<in>set rs. present s' r) \<and>
        (\<forall>k x. at_vc s k = Some x \<longrightarrow> at_vc s' k = Some x)"
      using Cons.IH [OF rest [unfolded Skip(1)]] by blast
    have "present s' r" if "grown ss s' jobs' vcs'" for s'
      using Skip(2) that by (auto simp: grown_def intro: present_mono)
    then show ?thesis using new run by (intro exI [of _ new]) (metis set_ConsD)
  next
    case New
    let ?p = "PImport (import_of src op r)"
    obtain new where new: "items' = (items @ [?p]) @ new"
      and run: "\<And>s es. grown ss s (rv_job_id r # jobs) (vc_key r # vcs) \<Longrightarrow> list_all2 (carries dec) es new \<Longrightarrow>
      \<exists>s'. fold_res (apply_signed dec) s es = Inr s' \<and> grown ss s' jobs' vcs' \<and> (\<forall>r\<in>set rs. present s' r) \<and>
        (\<forall>k x. at_vc s k = Some x \<longrightarrow> at_vc s' k = Some x)"
      using Cons.IH [OF rest [unfolded New(1)]] by blast
    have "\<exists>s'. fold_res (apply_signed dec) s (e # es) = Inr s' \<and> grown ss s' jobs' vcs' \<and>
        (\<forall>r\<in>set (r # rs). present s' r) \<and> (\<forall>k x. at_vc s k = Some x \<longrightarrow> at_vc s' k = Some x)"
      if g: "grown ss s jobs vcs" and e: "carries dec e ?p" and es: "list_all2 (carries dec) es new" for s e es
    proof -
      obtain s1 where s1: "apply_signed dec s e = Inr s1" "grown ss s1 (rv_job_id r # jobs) (vc_key r # vcs)"
        "present s1 r" "\<forall>k x. at_vc s k = Some x \<longrightarrow> at_vc s1 k = Some x"
        using import_insert [OF g e New(2-6)] by blast
      obtain s' where "fold_res (apply_signed dec) s1 es = Inr s'" "grown ss s' jobs' vcs'"
        "\<forall>r\<in>set rs. present s' r" "\<forall>k x. at_vc s1 k = Some x \<longrightarrow> at_vc s' k = Some x"
        using run [OF s1(2) es] by blast
      then show ?thesis using s1 present_mono [of s1 r s'] by (intro exI [of _ s']) auto
    qed
    then show ?thesis using new by (intro exI [of _ "?p # new"]) (auto simp: list_all2_Cons2)
  qed
qed

lemma grown_refl: "wf_signed ss \<Longrightarrow> grown ss ss [] []"
  by (auto simp: grown_def)

text \<open>
  When \<open>Import\<close> accepts a batch, all the records it writes replay one after the
  other, the count it returns is their number, and afterwards the ledger holds every imported
  reservation with its status, package and release, and every version code it held before.
\<close>

theorem import_is_all_or_nothing:
  assumes "fold_res (apply_signed dec) new_signed_state es = Inr ss"
    and "plan_import ss source rs op = Inr (n, items)" and "list_all2 (carries dec) fs items"
  shows "\<exists>ss'. fold_res (apply_signed dec) new_signed_state (es @ fs) = Inr ss' \<and> n = length fs \<and>
    list_all (present ss') rs \<and> (\<forall>k x. at_vc ss k = Some x \<longrightarrow> at_vc ss' k = Some x)"
proof -
  have wf: "wf_signed ss" using assms(1) by (rule signed_ledger.wf_replay)
  obtain jobs vcs where run: "fold_res (import_step ss source op) ([], [], []) rs = Inr (items, jobs, vcs)"
    and n: "n = length items"
    using assms(2) by (auto simp: plan_import_def result_simps split: if_splits)
  obtain ss' where "fold_res (apply_signed dec) ss fs = Inr ss'" "\<forall>r\<in>set rs. present ss' r"
    "\<forall>k x. at_vc ss k = Some x \<longrightarrow> at_vc ss' k = Some x"
    using import_fold [OF run, of dec] grown_refl [OF wf] assms(3) by (metis append_Nil)
  then show ?thesis using assms(1) n list_all2_lengthD [OF assms(3)]
    by (simp add: fold_res_append list_all_iff)
qed

section \<open>Witnesses\<close>

theorem signed_no_double_binding_witness:
  "distinct (map vc_key (filter live (ss_all (ex_ledger 4)))) \<and> length (filter live (ss_all (ex_ledger 4))) = 2"
proof -
  have "length (filter live (ss_all (ex_ledger 4))) = 2" by code_simp
  then show ?thesis using signed_no_double_binding [OF ex_replay(5)] by simp
qed

theorem signed_history_persistent_witness:
  "rv_status (ss_all (ex_ledger 3) ! 0) = status_completed \<and> 0 < length (ss_all (ex_ledger 3)) \<and>
   ss_all (ex_ledger 4) ! 0 = ss_all (ex_ledger 3) ! 0"
proof -
  have c: "rv_status (ss_all (ex_ledger 3) ! 0) = status_completed" "0 < length (ss_all (ex_ledger 3))" by code_simp+
  have "take 4 ex_entries = take 3 ex_entries @ [ex_entry 4 ''reserve'' ''d'']" by (simp add: ex_entries_def)
  then have "fold_res (apply_signed ex_dec) new_signed_state (take 3 ex_entries @ [ex_entry 4 ''reserve'' ''d''])
      = Inr (ex_ledger 4)"
    using ex_replay(5) by simp
  from signed_history_persistent [OF ex_replay(4) this c(2)] show ?thesis using c by simp
qed

theorem reserve_version_code_bounds_witness:
  "counted_vcs (ex_ledger 3) (rv_package ex_r2) (rv_cert ex_r2) None \<union>
       baseline_vcs (ex_ledger 3) (rv_package ex_r2) (rv_cert ex_r2) \<subseteq> {..<9}"
  using reserve_version_code_bounds [OF ex_replay(4) ex_plans(2)] by (auto simp: Let_def ex_r2_def)

theorem reserve_replays_and_is_idempotent_witness:
  "\<exists>ss' cur. apply_signed ex_dec new_signed_state (ex_entry 1 ''reserve'' ''a'') = Inr ss' \<and>
     plan_reserve ss' ex_r1 ex_limits = Inr (Some cur, [])"
  using reserve_replays_and_is_idempotent [OF ex_plans(1) ex_carries(1)] by blast

theorem mark_signed_blocks_release_witness:
  "\<exists>ss'. apply_signed ex_dec (ex_ledger 1) (ex_entry 2 ''signed'' ''b'') = Inr ss' \<and>
     plan_abandon ss' ''bld_job0001'' ''alice'' ''stuck'' = Inl ErrAlreadySigned"
  using mark_signed_blocks_release [OF ex_replay(2) ex_plans(3) ex_carries(2)] ex_reason by metis

theorem complete_is_final_witness:
  "\<exists>ss'. apply_signed ex_dec (ex_ledger 2) (ex_entry 3 ''complete'' ''c'') = Inr ss' \<and>
     plan_abandon ss' ''bld_job0001'' ''alice'' ''stuck'' = Inl ErrAlreadyCompleted"
  using complete_is_final [OF ex_replay(3) ex_plans(4) ex_carries(3)] ex_reason by blast

theorem abandon_frees_the_version_code_witness:
  "\<exists>ss'. apply_signed ex_dec (ex_ledger 4) (ex_entry 5 ''abandon'' ''e'') = Inr ss' \<and>
     at_vc ss' (vc_key (reserved_reservation ex_r2 ex_time)) = None"
  using abandon_frees_the_version_code [OF ex_replay(5) ex_plan_abandon ex_carries(4)] by blast

theorem import_is_all_or_nothing_witness:
  "\<exists>ss'. fold_res (apply_signed ex_dec) new_signed_state (take 3 ex_entries @ [ex_entry 4 ''import'' ''f'']) = Inr ss' \<and>
     present ss' ex_imported"
proof -
  have c: "list_all2 (carries ex_dec) [ex_entry 4 ''import'' ''f''] [PImport (import_of ex_source ''alice'' ex_imported)]"
    by (simp add: ex_carries)
  show ?thesis using import_is_all_or_nothing [OF ex_replay(4) ex_plans(5) c] by auto
qed

end
