(* ===== verification/RecordTrust.thy ===== *)
theory RecordTrust
  imports RecordData "HOL-Library.Product_Lexorder"
begin

text \<open>
  \<open>trust.jsonl\<close> (\<open>signing/records/store.go\<close>): the role of this signing gate, the builders, peers
  and recovery keys it trusts, and the operator's confirmation of each package's certificate and
  trust roots. A Go map is an association list; a method that ranges over one sorts the result.

  Each operation is its \<open>plan\<close> closure with the checks made before it: from the current state,
  the records to append or an error.
\<close>

record trust_state =
  ts_role :: role_change
  ts_builders :: "(bytes \<times> builder_trust) list"
  ts_confirmations :: "(bytes \<times> confirmation) list"
  ts_certificates :: "(bytes \<times> bytes list) list"
  ts_peers :: "(bytes \<times> peer_trust) list"
  ts_recovery :: "(bytes \<times> recovery_trust) list"
  ts_tenants :: "(bytes \<times> bytes) list"

definition new_trust_state :: trust_state where
  "new_trust_state = \<lparr>ts_role = \<lparr>rc_role = role_standby, rc_mode = [], rc_previous = [], rc_operator = [],
       rc_reason = [], rc_at = []\<rparr>,
     ts_builders = [], ts_confirmations = [], ts_certificates = [], ts_peers = [], ts_recovery = [], ts_tenants = []\<rparr>"

section \<open>Replay\<close>

definition seen_certs :: "trust_state \<Rightarrow> bytes \<Rightarrow> bytes list" where
  "seen_certs ts pkg = (case map_of (ts_certificates ts) pkg of None \<Rightarrow> [] | Some cs \<Rightarrow> cs)"

definition replay_tenant :: "trust_state \<Rightarrow> confirmation \<Rightarrow> trust_state" where
  "replay_tenant ts c =
     ts\<lparr>ts_confirmations := AList.update (cf_package c) c (ts_confirmations ts),
        ts_certificates := AList.update (cf_package c) (List.insert (cf_cert c) (seen_certs ts (cf_package c)))
          (ts_certificates ts),
        ts_tenants := AList.update (cf_tenant c) (cf_package c) (ts_tenants ts)\<rparr>"

definition apply_trust :: "crypto \<Rightarrow> decoder \<Rightarrow> trust_state \<Rightarrow> entry \<Rightarrow> replay_error + trust_state" where
  "apply_trust K dec ts e =
     (let t = en_type e; raw = en_data e; at = en_at e
      in if t = ''genesis'' then Inr ts
         else if t = ''role'' then decoded (dec_role dec raw) role_validate
           (\<lambda>r. Inr (ts\<lparr>ts_role := r\<lparr>rc_at := at\<rparr>\<rparr>))
         else if t = ''builder'' then decoded (dec_builder dec raw) builder_validate
           (\<lambda>b. Inr (ts\<lparr>ts_builders := AList.update (bt_builder_id b) (b\<lparr>bt_at := at\<rparr>) (ts_builders ts)\<rparr>))
         else if t = ''builder-revoke'' then decoded (dec_builder_revoke dec raw) builder_revoke_validate
           (\<lambda>b. if map_of (ts_builders ts) (br_builder_id b) = None
                then Inl (BadStep ''revokes a builder that is not trusted'')
                else Inr (ts\<lparr>ts_builders := AList.delete (br_builder_id b) (ts_builders ts)\<rparr>))
         else if t = ''tenant'' then decoded (dec_tenant dec raw) (confirmation_validate K)
           (\<lambda>c. Inr (replay_tenant ts (c\<lparr>cf_confirmed_at := at\<rparr>)))
         else if t = ''peer'' then decoded (dec_peer dec raw) peer_validate
           (\<lambda>p. Inr (ts\<lparr>ts_peers := AList.update (pt_name p) (p\<lparr>pt_at := at\<rparr>) (ts_peers ts)\<rparr>))
         else if t = ''peer-revoke'' then decoded (dec_peer_revoke dec raw) peer_revoke_validate
           (\<lambda>p. if map_of (ts_peers ts) (pr_name p) = None
                then Inl (BadStep ''revokes a signing gate that is not trusted'')
                else Inr (ts\<lparr>ts_peers := AList.delete (pr_name p) (ts_peers ts)\<rparr>))
         else if t = ''recovery'' then decoded (dec_recovery dec raw) recovery_validate
           (\<lambda>r. Inr (ts\<lparr>ts_recovery := AList.update (rt_x25519_sha256 r) (r\<lparr>rt_at := at\<rparr>) (ts_recovery ts)\<rparr>))
         else if t = ''recovery-revoke'' then decoded (dec_recovery_revoke dec raw) recovery_revoke_validate
           (\<lambda>r. if map_of (ts_recovery ts) (rr_x25519_sha256 r) = None
                then Inl (BadStep ''revokes a recovery key that is not trusted'')
                else Inr (ts\<lparr>ts_recovery := AList.delete (rr_x25519_sha256 r) (ts_recovery ts)\<rparr>))
         else Inl (UnknownType t))"

section \<open>Queries\<close>

definition trusted_builders :: "trust_state \<Rightarrow> builder_trust list" where
  "trusted_builders ts = sort_key bt_builder_id (map snd (ts_builders ts))"

text \<open>\<open>Confirmation\<close>: only the active confirmation of the package, and only for its certificate.\<close>

definition confirmation_for :: "trust_state \<Rightarrow> bytes \<Rightarrow> bytes \<Rightarrow> confirmation option" where
  "confirmation_for ts pkg cert =
     (case map_of (ts_confirmations ts) pkg of
        None \<Rightarrow> None | Some c \<Rightarrow> if cf_cert c \<noteq> cert then None else Some c)"

definition active_confirmation :: "trust_state \<Rightarrow> bytes \<Rightarrow> confirmation option" where
  "active_confirmation ts pkg = map_of (ts_confirmations ts) pkg"

definition confirmations :: "trust_state \<Rightarrow> confirmation list" where
  "confirmations ts = sort_key (\<lambda>c. (cf_tenant c, cf_package c)) (map snd (ts_confirmations ts))"

definition tenant_confirmed_package :: "trust_state \<Rightarrow> bytes \<Rightarrow> bytes option" where
  "tenant_confirmed_package ts tenant = map_of (ts_tenants ts) tenant"

definition certificate_seen :: "trust_state \<Rightarrow> bytes \<Rightarrow> bytes \<Rightarrow> bool" where
  "certificate_seen ts pkg cert \<longleftrightarrow> cert \<in> set (seen_certs ts pkg)"

definition trusted_peers :: "trust_state \<Rightarrow> peer_trust list" where
  "trusted_peers ts = sort_key pt_name (map snd (ts_peers ts))"

definition trusted_recovery_keys :: "trust_state \<Rightarrow> recovery_trust list" where
  "trusted_recovery_keys ts = sort_key (\<lambda>r. (rt_name r, rt_x25519_sha256 r)) (map snd (ts_recovery ts))"

section \<open>Operations\<close>

definition plan_set_role :: "role_change \<Rightarrow> record_error + payload list" where
  "plan_set_role r = check_err (invalid (role_validate r)) (Inr [PRole r])"

text \<open>
  \<open>SupersededPrimaryReason\<close>: seven Chinese runes spelling "superseded by the promotion of this
  machine" in UTF-8, then the English text.
\<close>

definition superseded_primary_reason :: bytes where
  "superseded_primary_reason =
     map char_of [0xE8 :: nat, 0xA2, 0xAB, 0xE6, 0x9C, 0xAC, 0xE6, 0x9C, 0xBA, 0xE6, 0x8F, 0x90, 0xE5, 0x8D, 0x87,
       0xE5, 0x8F, 0x96, 0xE4, 0xBB, 0xA3] @ '' / superseded when this signing gate was promoted''"

definition superseded_peers :: "trust_state \<Rightarrow> role_change \<Rightarrow> bytes list" where
  "superseded_peers ts r =
     (if rc_previous r = [] then []
      else sort (map (\<lambda>(_, p). pt_name p) (filter (\<lambda>(_, p). pt_ed25519_sha256 p = rc_previous r) (ts_peers ts))))"

text \<open>\<open>Promote\<close> returns the names of the peers it revokes.\<close>

definition plan_promote :: "trust_state \<Rightarrow> role_change \<Rightarrow> record_error + (bytes list \<times> payload list)" where
  "plan_promote ts r =
     (if rc_role r \<noteq> role_primary then Inl ErrNotPrimary
      else check_err (invalid (role_validate r))
        (let revoked = superseded_peers ts r
         in Inr (revoked,
              map (\<lambda>n. PPeerRevoke \<lparr>pr_name = n, pr_operator = rc_operator r, pr_reason = superseded_primary_reason\<rparr>) revoked
              @ [PRole r])))"

definition plan_trust_builder :: "builder_trust \<Rightarrow> record_error + payload list" where
  "plan_trust_builder b = check_err (invalid (builder_validate b)) (Inr [PBuilder b])"

definition plan_revoke_builder :: "trust_state \<Rightarrow> bytes \<Rightarrow> bytes \<Rightarrow> bytes \<Rightarrow> record_error + payload list" where
  "plan_revoke_builder ts builder op reason =
     (let rec = \<lparr>br_builder_id = builder, br_operator = op, br_reason = reason\<rparr>
      in check_err (invalid (builder_revoke_validate rec))
        (if map_of (ts_builders ts) builder = None then Inl (ErrNotTrusted builder)
         else Inr [PBuilderRevoke rec]))"

definition plan_confirm :: "crypto \<Rightarrow> confirmation \<Rightarrow> record_error + payload list" where
  "plan_confirm K c = check_err (invalid (confirmation_validate K c)) (Inr [PTenant c])"

text \<open>Field by field; the trust roots are compared by their digest.\<close>

definition same_confirmation :: "confirmation \<Rightarrow> confirmation \<Rightarrow> bool" where
  "same_confirmation a b \<longleftrightarrow>
     cf_tenant a = cf_tenant b \<and> cf_package a = cf_package b \<and> cf_cert a = cf_cert b \<and>
     cf_key_alias a = cf_key_alias b \<and> cf_keystore_version a = cf_keystore_version b \<and>
     cf_roots_digest a = cf_roots_digest b \<and> cf_min_sdk a = cf_min_sdk b \<and> cf_target_sdk a = cf_target_sdk b \<and>
     cf_first_sign_max a = cf_first_sign_max b \<and> cf_confirmed_by a = cf_confirmed_by b \<and> cf_mode a = cf_mode b \<and>
     cf_request_id a = cf_request_id b \<and> cf_generator_name a = cf_generator_name b \<and>
     cf_generator_sha256 a = cf_generator_sha256 b \<and> cf_confirmed_at a = cf_confirmed_at b"

definition plan_confirm_auto ::
    "crypto \<Rightarrow> trust_state \<Rightarrow> confirmation \<Rightarrow> confirmation option \<Rightarrow> record_error + payload list" where
  "plan_confirm_auto K ts c expected =
     (if cf_mode c = [] then Inl ErrNoMode
      else check_err (invalid (confirmation_validate K c))
        (let current = map_of (ts_confirmations ts) (cf_package c)
         in if (case current of None \<Rightarrow> False | Some x \<Rightarrow>
                 cf_cert x = cf_cert c \<and> cf_tenant x = cf_tenant c \<and> cf_request_id x = cf_request_id c \<and> cf_mode x \<noteq> [])
            then Inr []
            else if (case (current, expected) of
                 (None, None) \<Rightarrow> False
               | (Some x, Some y) \<Rightarrow> \<not> same_confirmation x y
               | _ \<Rightarrow> True)
            then Inl ErrConfirmationChanged
            else if certificate_seen ts (cf_package c) (cf_cert c) then Inl ErrCertificateSeen
            else Inr [PTenant c]))"

text \<open>\<open>TrustPeer\<close>: another machine than this one, and no second name for the same keys.\<close>

definition plan_trust_peer :: "genesis \<Rightarrow> trust_state \<Rightarrow> peer_trust \<Rightarrow> record_error + payload list" where
  "plan_trust_peer g ts p =
     check_err (invalid (peer_validate p))
     (if pt_name p = gn_machine g \<or> pt_ed25519_sha256 p = gn_ed25519_sha256 g \<or>
         pt_x25519_sha256 p = gn_x25519_sha256 g
      then Inl ErrSelfPeer
      else (case find (\<lambda>(name, other). name \<noteq> pt_name p \<and>
                   (pt_ed25519_sha256 other = pt_ed25519_sha256 p \<or> pt_x25519_sha256 other = pt_x25519_sha256 p))
                 (ts_peers ts) of
          Some (name, _) \<Rightarrow> Inl (ErrPeerKeyKnown name)
        | None \<Rightarrow> Inr [PPeer p]))"

definition plan_revoke_peer :: "trust_state \<Rightarrow> bytes \<Rightarrow> bytes \<Rightarrow> bytes \<Rightarrow> record_error + payload list" where
  "plan_revoke_peer ts name op reason =
     (let rec = \<lparr>pr_name = name, pr_operator = op, pr_reason = reason\<rparr>
      in check_err (invalid (peer_revoke_validate rec))
        (if map_of (ts_peers ts) name = None then Inl (ErrNotTrusted name) else Inr [PPeerRevoke rec]))"

definition plan_trust_recovery :: "recovery_trust \<Rightarrow> record_error + payload list" where
  "plan_trust_recovery r = check_err (invalid (recovery_validate r)) (Inr [PRecovery r])"

definition plan_revoke_recovery :: "trust_state \<Rightarrow> bytes \<Rightarrow> bytes \<Rightarrow> bytes \<Rightarrow> record_error + payload list" where
  "plan_revoke_recovery ts fp op reason =
     (let rec = \<lparr>rr_x25519_sha256 = fp, rr_operator = op, rr_reason = reason\<rparr>
      in check_err (invalid (recovery_revoke_validate rec))
        (if map_of (ts_recovery ts) fp = None then Inl (ErrNotTrusted fp) else Inr [PRecoveryRevoke rec]))"

text \<open>The writing methods of the store on \<open>trust.jsonl\<close>, as one type.\<close>

datatype trust_op =
    OpSetRole role_change | OpPromote role_change
  | OpTrustBuilder builder_trust | OpRevokeBuilder bytes bytes bytes
  | OpConfirm confirmation | OpConfirmAuto confirmation "confirmation option"
  | OpTrustPeer peer_trust | OpRevokePeer bytes bytes bytes
  | OpTrustRecovery recovery_trust | OpRevokeRecovery bytes bytes bytes

fun trust_plan :: "crypto \<Rightarrow> genesis \<Rightarrow> trust_state \<Rightarrow> trust_op \<Rightarrow> record_error + payload list" where
  "trust_plan K g ts (OpSetRole r) = plan_set_role r"
| "trust_plan K g ts (OpPromote r) = rbind (plan_promote ts r) (\<lambda>(_, items). Inr items)"
| "trust_plan K g ts (OpTrustBuilder b) = plan_trust_builder b"
| "trust_plan K g ts (OpRevokeBuilder b op reason) = plan_revoke_builder ts b op reason"
| "trust_plan K g ts (OpConfirm c) = plan_confirm K c"
| "trust_plan K g ts (OpConfirmAuto c expected) = plan_confirm_auto K ts c expected"
| "trust_plan K g ts (OpTrustPeer p) = plan_trust_peer g ts p"
| "trust_plan K g ts (OpRevokePeer n op reason) = plan_revoke_peer ts n op reason"
| "trust_plan K g ts (OpTrustRecovery r) = plan_trust_recovery r"
| "trust_plan K g ts (OpRevokeRecovery fp op reason) = plan_revoke_recovery ts fp op reason"

end
