(* ===== verification/TrustLedger.thy ===== *)
theory TrustLedger
  imports RecordTrust
begin

text \<open>
  What the trust ledger guarantees: its invariant, the interpretation of the ledger contract on
  \<open>apply_trust\<close>, and the properties of confirmations, promotion and peers.
\<close>

declare map_of_eq_Some_iff [simp del]
declare split_paired_All [simp del] split_paired_Ex [simp del]

section \<open>Invariant\<close>

definition builders_ok :: "trust_state \<Rightarrow> bool" where
  "builders_ok ts \<longleftrightarrow> distinct (map fst (ts_builders ts)) \<and>
     (\<forall>k b. map_of (ts_builders ts) k = Some b \<longrightarrow> bt_builder_id b = k \<and> builder_validate b = None)"

definition peers_ok :: "trust_state \<Rightarrow> bool" where
  "peers_ok ts \<longleftrightarrow> distinct (map fst (ts_peers ts)) \<and>
     (\<forall>k p. map_of (ts_peers ts) k = Some p \<longrightarrow> pt_name p = k \<and> peer_validate p = None)"

definition recovery_ok :: "trust_state \<Rightarrow> bool" where
  "recovery_ok ts \<longleftrightarrow> distinct (map fst (ts_recovery ts)) \<and>
     (\<forall>k r. map_of (ts_recovery ts) k = Some r \<longrightarrow> rt_x25519_sha256 r = k \<and> recovery_validate r = None)"

definition confirmations_ok :: "crypto \<Rightarrow> trust_state \<Rightarrow> bool" where
  "confirmations_ok K ts \<longleftrightarrow> distinct (map fst (ts_confirmations ts)) \<and>
     (\<forall>k c. map_of (ts_confirmations ts) k = Some c \<longrightarrow>
        cf_package c = k \<and> confirmation_validate K c = None \<and> certificate_seen ts k (cf_cert c) \<and>
        map_of (ts_tenants ts) (cf_tenant c) \<noteq> None)"

definition role_ok :: "trust_state \<Rightarrow> bool" where
  "role_ok ts \<longleftrightarrow> rc_role (ts_role ts) = role_primary \<or> rc_role (ts_role ts) = role_standby"

definition wf_trust :: "crypto \<Rightarrow> trust_state \<Rightarrow> bool" where
  "wf_trust K ts \<longleftrightarrow> builders_ok ts \<and> peers_ok ts \<and> recovery_ok ts \<and> confirmations_ok K ts \<and> role_ok ts"

definition trust_le :: "trust_state \<Rightarrow> trust_state \<Rightarrow> bool" where
  "trust_le ts ts' \<longleftrightarrow>
     (\<forall>p c. certificate_seen ts p c \<longrightarrow> certificate_seen ts' p c) \<and>
     (\<forall>t. map_of (ts_tenants ts) t \<noteq> None \<longrightarrow> map_of (ts_tenants ts') t \<noteq> None)"

lemma role_validate_at [simp]: "role_validate (r\<lparr>rc_at := t\<rparr>) = role_validate r"
  unfolding role_validate_def by simp

lemma builder_validate_at [simp]: "builder_validate (b\<lparr>bt_at := t\<rparr>) = builder_validate b"
  unfolding builder_validate_def by simp

lemma peer_validate_at [simp]: "peer_validate (p\<lparr>pt_at := t\<rparr>) = peer_validate p"
  unfolding peer_validate_def by simp

lemma recovery_validate_at [simp]: "recovery_validate (v\<lparr>rt_at := t\<rparr>) = recovery_validate v"
  unfolding recovery_validate_def by simp

lemma confirmation_validate_at [simp]:
  "confirmation_validate K (c\<lparr>cf_confirmed_at := t\<rparr>) = confirmation_validate K c"
  by (cases c) (simp only: confirmation_validate_def confirmation_mode_validate_def confirmation.simps)

lemma seen_replay_tenant [simp]:
  "certificate_seen (replay_tenant ts c) p k \<longleftrightarrow> p = cf_package c \<and> k = cf_cert c \<or> certificate_seen ts p k"
  by (auto simp: certificate_seen_def seen_certs_def replay_tenant_def)

lemma replay_tenant_sel [simp]:
  "ts_confirmations (replay_tenant ts c) = AList.update (cf_package c) c (ts_confirmations ts)"
  "ts_tenants (replay_tenant ts c) = AList.update (cf_tenant c) (cf_package c) (ts_tenants ts)"
  "ts_builders (replay_tenant ts c) = ts_builders ts" "ts_peers (replay_tenant ts c) = ts_peers ts"
  "ts_recovery (replay_tenant ts c) = ts_recovery ts" "ts_role (replay_tenant ts c) = ts_role ts"
  by (simp_all add: replay_tenant_def)

lemma replay_tenant_confirmations:
  assumes "confirmations_ok K ts" and "confirmation_validate K c = None"
  shows "confirmations_ok K (replay_tenant ts c)"
  unfolding confirmations_ok_def
proof (intro conjI allI impI)
  show "distinct (map fst (ts_confirmations (replay_tenant ts c)))"
    using assms(1) by (simp add: confirmations_ok_def distinct_update)
  fix k x assume "map_of (ts_confirmations (replay_tenant ts c)) k = Some x"
  then have "k = cf_package c \<and> x = c \<or> k \<noteq> cf_package c \<and> map_of (ts_confirmations ts) k = Some x"
    by (simp split: if_splits)
  then show "cf_package x = k" "confirmation_validate K x = None"
    "certificate_seen (replay_tenant ts c) k (cf_cert x)"
    "map_of (ts_tenants (replay_tenant ts c)) (cf_tenant x) \<noteq> None"
    using assms by (auto simp: confirmations_ok_def)
qed

lemma replay_tenant_wf:
  assumes "wf_trust K ts" and "confirmation_validate K c = None"
  shows "wf_trust K (replay_tenant ts c) \<and> trust_le ts (replay_tenant ts c)"
  using assms replay_tenant_confirmations [of K ts c]
  by (simp add: wf_trust_def builders_ok_def peers_ok_def recovery_ok_def role_ok_def trust_le_def)

lemma seen_other [simp]:
  "certificate_seen (ts\<lparr>ts_role := r\<rparr>) p k = certificate_seen ts p k"
  "certificate_seen (ts\<lparr>ts_builders := b\<rparr>) p k = certificate_seen ts p k"
  "certificate_seen (ts\<lparr>ts_peers := q\<rparr>) p k = certificate_seen ts p k"
  "certificate_seen (ts\<lparr>ts_recovery := v\<rparr>) p k = certificate_seen ts p k"
  by (simp_all add: certificate_seen_def seen_certs_def)

lemma trust_le_refl: "trust_le ts ts"
  by (simp add: trust_le_def)

lemma trust_le_trans: "trust_le a b \<Longrightarrow> trust_le b c \<Longrightarrow> trust_le a c"
  by (simp add: trust_le_def)

lemma role_validate_role: "role_validate r = None \<Longrightarrow> rc_role r = role_primary \<or> rc_role r = role_standby"
  by (auto simp: role_validate_def split: if_splits)

lemma apply_trust_cases:
  assumes "apply_trust K dec ts e = Inr ts'"
  obtains (Genesis) "ts' = ts"
  | (Role) r where "role_validate r = None" "ts' = ts\<lparr>ts_role := r\<lparr>rc_at := en_at e\<rparr>\<rparr>"
  | (Builder) b where "builder_validate b = None"
      "ts' = ts\<lparr>ts_builders := AList.update (bt_builder_id b) (b\<lparr>bt_at := en_at e\<rparr>) (ts_builders ts)\<rparr>"
  | (BuilderRevoke) k where "ts' = ts\<lparr>ts_builders := AList.delete k (ts_builders ts)\<rparr>"
  | (Tenant) c where "confirmation_validate K c = None" "ts' = replay_tenant ts (c\<lparr>cf_confirmed_at := en_at e\<rparr>)"
  | (Peer) p where "en_type e = ''peer''" "peer_validate p = None"
      "ts' = ts\<lparr>ts_peers := AList.update (pt_name p) (p\<lparr>pt_at := en_at e\<rparr>) (ts_peers ts)\<rparr>"
  | (PeerRevoke) k where "ts' = ts\<lparr>ts_peers := AList.delete k (ts_peers ts)\<rparr>"
  | (Recovery) r where "recovery_validate r = None"
      "ts' = ts\<lparr>ts_recovery := AList.update (rt_x25519_sha256 r) (r\<lparr>rt_at := en_at e\<rparr>) (ts_recovery ts)\<rparr>"
  | (RecoveryRevoke) k where "ts' = ts\<lparr>ts_recovery := AList.delete k (ts_recovery ts)\<rparr>"
proof -
  note run = assms [unfolded apply_trust_def Let_def]
  consider "en_type e = ''genesis''"
    | "en_type e = ''role''"
    | "en_type e = ''builder''"
    | "en_type e = ''builder-revoke''"
    | "en_type e = ''tenant''"
    | "en_type e = ''peer''"
    | "en_type e = ''peer-revoke''"
    | "en_type e = ''recovery''"
    | "en_type e = ''recovery-revoke''"
    | "en_type e \<notin> {''genesis'', ''role'', ''builder'', ''builder-revoke'', ''tenant'', ''peer'', ''peer-revoke'', ''recovery'', ''recovery-revoke''}"
    by blast
  then show thesis
  proof cases
    case 1
    show thesis using run by (auto simp: 1 decoded_Inr intro: Genesis split: if_splits)
  next
    case 2
    show thesis using run by (auto simp: 2 decoded_Inr intro: Role split: if_splits)
  next
    case 3
    show thesis using run by (auto simp: 3 decoded_Inr intro: Builder split: if_splits)
  next
    case 4
    show thesis using run by (auto simp: 4 decoded_Inr intro: BuilderRevoke split: if_splits)
  next
    case 5
    show thesis using run by (auto simp: 5 decoded_Inr intro: Tenant split: if_splits)
  next
    case 6
    show thesis using run by (auto simp: 6 decoded_Inr intro: Peer split: if_splits)
  next
    case 7
    show thesis using run by (auto simp: 7 decoded_Inr intro: PeerRevoke split: if_splits)
  next
    case 8
    show thesis using run by (auto simp: 8 decoded_Inr intro: Recovery split: if_splits)
  next
    case 9
    show thesis using run by (auto simp: 9 decoded_Inr intro: RecoveryRevoke split: if_splits)
  next
    case 10
    then show thesis using run by simp
  qed
qed

lemma seen_ext:
  "ts_certificates ts' = ts_certificates ts \<Longrightarrow> certificate_seen ts' p k = certificate_seen ts p k"
  by (simp add: certificate_seen_def seen_certs_def)

lemma confirmations_ext:
  assumes "ts_confirmations ts' = ts_confirmations ts" and "ts_certificates ts' = ts_certificates ts"
    and "ts_tenants ts' = ts_tenants ts" and "confirmations_ok K ts"
  shows "confirmations_ok K ts' \<and> trust_le ts ts'"
  using assms(4) seen_ext [OF assms(2)] by (simp add: confirmations_ok_def trust_le_def assms(1,3))

lemma apply_trust_wf:
  assumes wf: "wf_trust K ts" and "apply_trust K dec ts e = Inr ts'"
  shows "wf_trust K ts' \<and> trust_le ts ts'"
proof -
  have b: "builders_ok ts" and p: "peers_ok ts" and r: "recovery_ok ts" and c: "confirmations_ok K ts"
    and o: "role_ok ts"
    using wf by (simp_all add: wf_trust_def)
  show ?thesis using assms(2)
  proof (cases rule: apply_trust_cases)
    case Genesis
    then show ?thesis using wf by (simp add: trust_le_refl)
  next
    case (Role x)
    then have "role_ok ts'" using role_validate_role by (simp add: role_ok_def)
    then show ?thesis using Role b p r confirmations_ext [of ts' ts K] c
      by (simp add: wf_trust_def builders_ok_def peers_ok_def recovery_ok_def)
  next
    case (Builder x)
    then have "builders_ok ts'" using b by (auto simp: builders_ok_def distinct_update split: if_splits)
    then show ?thesis using Builder(2) p r o confirmations_ext [of ts' ts K] c
      by (simp add: wf_trust_def peers_ok_def recovery_ok_def role_ok_def)
  next
    case (BuilderRevoke k)
    then have "builders_ok ts'" using b by (auto simp: builders_ok_def distinct_delete split: if_splits)
    then show ?thesis using BuilderRevoke p r o confirmations_ext [of ts' ts K] c
      by (simp add: wf_trust_def peers_ok_def recovery_ok_def role_ok_def)
  next
    case (Tenant x)
    then show ?thesis using replay_tenant_wf [OF wf] by simp
  next
    case (Peer x)
    then have "peers_ok ts'" using p by (auto simp: peers_ok_def distinct_update split: if_splits)
    then show ?thesis using Peer(3) b r o confirmations_ext [of ts' ts K] c
      by (simp add: wf_trust_def builders_ok_def recovery_ok_def role_ok_def)
  next
    case (PeerRevoke k)
    then have "peers_ok ts'" using p by (auto simp: peers_ok_def distinct_delete split: if_splits)
    then show ?thesis using PeerRevoke b r o confirmations_ext [of ts' ts K] c
      by (simp add: wf_trust_def builders_ok_def recovery_ok_def role_ok_def)
  next
    case (Recovery x)
    then have "recovery_ok ts'" using r by (auto simp: recovery_ok_def distinct_update split: if_splits)
    then show ?thesis using Recovery(2) b p o confirmations_ext [of ts' ts K] c
      by (simp add: wf_trust_def builders_ok_def peers_ok_def role_ok_def)
  next
    case (RecoveryRevoke k)
    then have "recovery_ok ts'" using r by (auto simp: recovery_ok_def distinct_delete split: if_splits)
    then show ?thesis using RecoveryRevoke b p o confirmations_ext [of ts' ts K] c
      by (simp add: wf_trust_def builders_ok_def peers_ok_def role_ok_def)
  qed
qed

lemma new_trust_state_wf: "wf_trust K new_trust_state"
  by (simp add: new_trust_state_def wf_trust_def builders_ok_def peers_ok_def recovery_ok_def
      confirmations_ok_def role_ok_def)

interpretation trust_ledger: replayed_ledger "apply_trust K dec" new_trust_state "wf_trust K" trust_le
  for K dec
  by unfold_locales
    (auto simp: new_trust_state_wf trust_le_refl dest: apply_trust_wf intro: trust_le_trans)

section \<open>Each operation's record replays\<close>

lemma trust_carries_dec:
  "carries dec e (PRole r) \<Longrightarrow> dec_role dec (en_data e) = Some r"
  "carries dec e (PTenant c) \<Longrightarrow> dec_tenant dec (en_data e) = Some c"
  "carries dec e (PPeer p) \<Longrightarrow> dec_peer dec (en_data e) = Some p"
  "carries dec e (PPeerRevoke v) \<Longrightarrow> dec_peer_revoke dec (en_data e) = Some v"
  by (auto simp: carries_def dec_defs)

lemma apply_trust_carries:
  "carries dec e (PRole r) \<Longrightarrow> role_validate r = None \<Longrightarrow>
     apply_trust K dec ts e = Inr (ts\<lparr>ts_role := r\<lparr>rc_at := en_at e\<rparr>\<rparr>)"
  "carries dec e (PTenant c) \<Longrightarrow> confirmation_validate K c = None \<Longrightarrow>
     apply_trust K dec ts e = Inr (replay_tenant ts (c\<lparr>cf_confirmed_at := en_at e\<rparr>))"
  "carries dec e (PPeer p) \<Longrightarrow> peer_validate p = None \<Longrightarrow>
     apply_trust K dec ts e = Inr (ts\<lparr>ts_peers := AList.update (pt_name p) (p\<lparr>pt_at := en_at e\<rparr>) (ts_peers ts)\<rparr>)"
  "carries dec e (PPeerRevoke v) \<Longrightarrow> peer_revoke_validate v = None \<Longrightarrow> map_of (ts_peers ts) (pr_name v) \<noteq> None \<Longrightarrow>
     apply_trust K dec ts e = Inr (ts\<lparr>ts_peers := AList.delete (pr_name v) (ts_peers ts)\<rparr>)"
  by (auto simp: apply_trust_def carries_type trust_carries_dec decoded_def)

section \<open>Promotion\<close>

lemma superseded_reason_ok: "valid_operator op \<Longrightarrow> validate_operator_reason op superseded_primary_reason = None"
  by (simp add: validate_operator_reason_def superseded_primary_reason_def valid_text_def trim_space_def
      runes_def utf8_step_def is_space_rune_def byte_in_def low6_def)

lemma role_validate_operator: "role_validate r = None \<Longrightarrow> valid_operator (rc_operator r)"
  by (auto simp: role_validate_def result_simps validate_operator_reason_def split: if_splits)

definition superseded_by :: "role_change \<Rightarrow> bytes \<times> peer_trust \<Rightarrow> bool" where
  "superseded_by r = (\<lambda>(_, p). pt_ed25519_sha256 p = rc_previous r)"

lemma superseded_names:
  assumes "wf_trust K ts" and "rc_previous r \<noteq> []"
  shows "superseded_peers ts r = sort (map fst (filter (superseded_by r) (ts_peers ts)))"
proof -
  have d: "distinct (map fst (ts_peers ts))"
    and k: "\<And>n p. map_of (ts_peers ts) n = Some p \<Longrightarrow> pt_name p = n"
    using assms(1) by (auto simp: wf_trust_def peers_ok_def)
  have n: "pt_name p = n" if "(n, p) \<in> set (ts_peers ts)" for n p
    using k that map_of_eq_Some_iff [OF d] by blast
  have "map (\<lambda>(_, p). pt_name p) (filter (superseded_by r) (ts_peers ts)) = map fst (filter (superseded_by r) (ts_peers ts))"
    by (rule map_cong [OF refl]) (use n in \<open>simp add: split_beta\<close>)
  then show ?thesis using assms(2) unfolding superseded_peers_def superseded_by_def by (simp only: if_False)
qed

lemma superseded_set:
  assumes "wf_trust K ts" and "rc_previous r \<noteq> []"
  shows "n \<in> set (superseded_peers ts r) \<longleftrightarrow>
    (\<exists>p. map_of (ts_peers ts) n = Some p \<and> pt_ed25519_sha256 p = rc_previous r)"
proof -
  have d: "distinct (map fst (ts_peers ts))" using assms(1) by (simp add: wf_trust_def peers_ok_def)
  have "n \<in> set (superseded_peers ts r) \<longleftrightarrow> n \<in> fst ` {x \<in> set (ts_peers ts). superseded_by r x}"
    unfolding superseded_names [OF assms] by (simp only: set_sort set_map set_filter)
  also have "\<dots> \<longleftrightarrow> (\<exists>p. (n, p) \<in> set (ts_peers ts) \<and> pt_ed25519_sha256 p = rc_previous r)"
    unfolding superseded_by_def by force
  finally show ?thesis unfolding map_of_eq_Some_iff [OF d] .
qed

lemma superseded_distinct:
  assumes "wf_trust K ts" shows "distinct (superseded_peers ts r)"
proof (cases "rc_previous r = []")
  case True
  then show ?thesis by (simp add: superseded_peers_def)
next
  case False
  have "distinct (map fst (ts_peers ts))" using assms by (simp add: wf_trust_def peers_ok_def)
  then have "distinct (map fst (filter (superseded_by r) (ts_peers ts)))" by (rule distinct_map_filter)
  then show ?thesis unfolding superseded_names [OF assms False] by (simp only: distinct_sort)
qed

text \<open>Replaying one revocation per name removes exactly those names.\<close>

lemma replay_revocations:
  assumes "list_all2 (\<lambda>e n. carries dec e (PPeerRevoke \<lparr>pr_name = n, pr_operator = op, pr_reason = reason\<rparr>)) es ns"
    and "distinct ns" and "\<forall>n\<in>set ns. map_of (ts_peers ts) n \<noteq> None \<and> valid_machine_name n"
    and "validate_operator_reason op reason = None"
  shows "\<exists>ts'. fold_res (apply_trust K dec) ts es = Inr ts' \<and> ts_role ts' = ts_role ts \<and>
    (\<forall>n. map_of (ts_peers ts') n = (if n \<in> set ns then None else map_of (ts_peers ts) n)) \<and>
    ts_builders ts' = ts_builders ts \<and> ts_confirmations ts' = ts_confirmations ts \<and> ts_recovery ts' = ts_recovery ts"
  using assms
proof (induction es ns arbitrary: ts rule: list_all2_induct)
  case Nil
  then show ?case by simp
next
  case (Cons e es n ns)
  let ?v = "\<lparr>pr_name = n, pr_operator = op, pr_reason = reason\<rparr>"
  let ?ts = "ts\<lparr>ts_peers := AList.delete n (ts_peers ts)\<rparr>"
  have "peer_revoke_validate ?v = None" using Cons.prems by (simp add: peer_revoke_validate_def)
  then have ap: "apply_trust K dec ts e = Inr ?ts"
    using apply_trust_carries(4) [OF Cons.hyps(1), of ts K] Cons.prems by simp
  have "\<exists>ts'. fold_res (apply_trust K dec) ?ts es = Inr ts' \<and> ts_role ts' = ts_role ?ts \<and>
    (\<forall>m. map_of (ts_peers ts') m = (if m \<in> set ns then None else map_of (ts_peers ?ts) m)) \<and>
    ts_builders ts' = ts_builders ?ts \<and> ts_confirmations ts' = ts_confirmations ?ts \<and> ts_recovery ts' = ts_recovery ?ts"
    by (rule Cons.IH) (use Cons.prems in auto)
  then show ?case using ap by auto
qed

end
