(* ===== verification/TrustProps.thy ===== *)
theory TrustProps
  imports TrustLedger
begin

text \<open>
  The properties of the trust ledger: what an active confirmation is worth, what an automatic
  confirmation may do, what a promotion removes, and which peers can be trusted.
\<close>

section \<open>Facts about the plans\<close>

lemma plan_confirm_auto_write:
  assumes "plan_confirm_auto K ts c expected = Inr [p]"
  shows "p = PTenant c" "confirmation_validate K c = None" "cf_mode c \<noteq> []"
    "\<not> certificate_seen ts (cf_package c) (cf_cert c)"
    "rel_option same_confirmation (map_of (ts_confirmations ts) (cf_package c)) expected"
  using assms
  by (auto simp: plan_confirm_auto_def Let_def result_simps split: if_splits option.splits)

lemma plan_promote_Inr:
  assumes "plan_promote ts r = Inr (revoked, items)"
  shows "rc_role r = role_primary" "role_validate r = None" "revoked = superseded_peers ts r"
    "items = map (\<lambda>n. PPeerRevoke \<lparr>pr_name = n, pr_operator = rc_operator r, pr_reason = superseded_primary_reason\<rparr>) revoked
       @ [PRole r]"
  using assms by (auto simp: plan_promote_def Let_def result_simps split: if_splits)

lemma promote_replay:
  assumes wf: "wf_trust K ts" and plan: "plan_promote ts r = Inr (revoked, items)"
    and c: "list_all2 (carries dec) es items"
  shows "\<exists>ts'. fold_res (apply_trust K dec) ts es = Inr ts' \<and> rc_role (ts_role ts') = role_primary \<and>
    (\<forall>n. map_of (ts_peers ts') n = (if n \<in> set revoked then None else map_of (ts_peers ts) n)) \<and>
    ts_builders ts' = ts_builders ts \<and> ts_confirmations ts' = ts_confirmations ts \<and> ts_recovery ts' = ts_recovery ts"
proof -
  note pl = plan_promote_Inr [OF plan]
  let ?P = "\<lambda>n. PPeerRevoke \<lparr>pr_name = n, pr_operator = rc_operator r, pr_reason = superseded_primary_reason\<rparr>"
  obtain es1 e where es: "es = es1 @ [e]" and es1: "list_all2 (carries dec) es1 (map ?P revoked)" and e: "carries dec e (PRole r)"
    using c unfolding pl(4) list_all2_append2 by (auto simp: list_all2_Cons2)
  have names: "\<forall>n\<in>set revoked. map_of (ts_peers ts) n \<noteq> None \<and> valid_machine_name n"
  proof
    fix n assume n: "n \<in> set revoked"
    then have "rc_previous r \<noteq> []" by (auto simp: pl(3) superseded_peers_def)
    then obtain q where q: "map_of (ts_peers ts) n = Some q" using superseded_set [OF wf] n pl(3) by blast
    then have "pt_name q = n \<and> peer_validate q = None" using wf by (simp add: wf_trust_def peers_ok_def)
    then show "map_of (ts_peers ts) n \<noteq> None \<and> valid_machine_name n"
      using q by (auto simp: peer_validate_def split: if_splits)
  qed
  have "distinct revoked" using superseded_distinct [OF wf] by (simp add: pl(3))
  moreover have "validate_operator_reason (rc_operator r) superseded_primary_reason = None"
    using role_validate_operator [OF pl(2)] by (rule superseded_reason_ok)
  moreover have "list_all2 (\<lambda>e n. carries dec e (?P n)) es1 revoked"
    using es1 by (simp add: list_all2_map2)
  ultimately obtain t where t: "fold_res (apply_trust K dec) ts es1 = Inr t" "ts_role t = ts_role ts"
    "\<forall>n. map_of (ts_peers t) n = (if n \<in> set revoked then None else map_of (ts_peers ts) n)"
    "ts_builders t = ts_builders ts" "ts_confirmations t = ts_confirmations ts" "ts_recovery t = ts_recovery ts"
    using replay_revocations [of dec "rc_operator r" superseded_primary_reason es1 revoked ts K] names by blast
  have "apply_trust K dec t e = Inr (t\<lparr>ts_role := r\<lparr>rc_at := en_at e\<rparr>\<rparr>)"
    using apply_trust_carries(1) [OF e pl(2)] .
  then show ?thesis using t pl(1) by (simp add: es fold_res_append)
qed

text \<open>No peer is this machine, and no two peers share a key.\<close>

definition peers_separate :: "genesis \<Rightarrow> trust_state \<Rightarrow> bool" where
  "peers_separate g ts \<longleftrightarrow>
     (\<forall>n p. map_of (ts_peers ts) n = Some p \<longrightarrow> pt_name p \<noteq> gn_machine g \<and>
        pt_ed25519_sha256 p \<noteq> gn_ed25519_sha256 g \<and> pt_x25519_sha256 p \<noteq> gn_x25519_sha256 g) \<and>
     (\<forall>n m p q. map_of (ts_peers ts) n = Some p \<longrightarrow> map_of (ts_peers ts) m = Some q \<longrightarrow> n \<noteq> m \<longrightarrow>
        pt_ed25519_sha256 p \<noteq> pt_ed25519_sha256 q \<and> pt_x25519_sha256 p \<noteq> pt_x25519_sha256 q)"

lemma peers_separate_shrink:
  assumes "peers_separate g ts" and "\<And>n p. map_of (ts_peers ts') n = Some p \<Longrightarrow> map_of (ts_peers ts) n = Some p"
  shows "peers_separate g ts'"
  using assms unfolding peers_separate_def by blast

lemma plan_trust_peer_write:
  assumes "plan_trust_peer g ts p = Inr [q]"
  shows "q = PPeer p" "peer_validate p = None"
    "pt_name p \<noteq> gn_machine g \<and> pt_ed25519_sha256 p \<noteq> gn_ed25519_sha256 g \<and> pt_x25519_sha256 p \<noteq> gn_x25519_sha256 g"
    "\<And>n o'. map_of (ts_peers ts) n = Some o' \<Longrightarrow> n \<noteq> pt_name p \<Longrightarrow>
       pt_ed25519_sha256 o' \<noteq> pt_ed25519_sha256 p \<and> pt_x25519_sha256 o' \<noteq> pt_x25519_sha256 p"
  using assms
  by (auto simp: plan_trust_peer_def result_simps find_None_iff split: if_splits option.splits
      dest: map_of_SomeD)

text \<open>The states the store's operations reach from an empty ledger.\<close>

inductive trust_reachable :: "crypto \<Rightarrow> decoder \<Rightarrow> genesis \<Rightarrow> trust_state \<Rightarrow> bool" for K dec g where
  start: "trust_reachable K dec g new_trust_state"
| step: "trust_reachable K dec g ts \<Longrightarrow> trust_plan K g ts op = Inr items \<Longrightarrow> list_all2 (carries dec) es items \<Longrightarrow>
    fold_res (apply_trust K dec) ts es = Inr ts' \<Longrightarrow> trust_reachable K dec g ts'"

lemma payload_type_peer: "payload_type q = ''peer'' \<Longrightarrow> \<exists>p. q = PPeer p"
  by (cases q) simp_all

lemma apply_no_peer:
  assumes "carries dec e q" and "\<forall>p. q \<noteq> PPeer p" and "apply_trust K dec ts e = Inr ts'"
    and "map_of (ts_peers ts') n = Some x"
  shows "map_of (ts_peers ts) n = Some x"
  using assms(3)
proof (cases rule: apply_trust_cases)
  case (Peer p)
  then show ?thesis using payload_type_peer [of q] assms(1,2) by (simp add: carries_def)
qed (use assms(4) in \<open>auto split: if_splits\<close>)

lemma fold_no_peer:
  assumes "list_all2 (carries dec) es items" and "list_all (\<lambda>q. \<forall>p. q \<noteq> PPeer p) items"
    and "fold_res (apply_trust K dec) ts es = Inr ts'" and "map_of (ts_peers ts') n = Some x"
  shows "map_of (ts_peers ts) n = Some x"
  using assms
proof (induction es items arbitrary: ts rule: list_all2_induct)
  case Nil
  then show ?case by simp
next
  case (Cons e es q qs)
  then obtain t where t: "apply_trust K dec ts e = Inr t" "fold_res (apply_trust K dec) t es = Inr ts'"
    by (auto simp: result_simps)
  have "map_of (ts_peers t) n = Some x" using Cons.IH [OF _ t(2)] Cons.prems by simp
  then show ?case using apply_no_peer [OF Cons.hyps(1) _ t(1)] Cons.prems(1) by simp
qed

lemma trust_plan_no_peer:
  assumes "\<not> (\<exists>p. op = OpTrustPeer p)" and "trust_plan K g ts op = Inr items"
  shows "list_all (\<lambda>q. \<forall>p. q \<noteq> PPeer p) items"
proof (cases op)
  case (OpPromote r)
  then obtain revoked where "plan_promote ts r = Inr (revoked, items)"
    using assms(2) by (auto simp: result_simps)
  from plan_promote_Inr(4) [OF this] show ?thesis by (auto simp: list_all_iff)
next
  case (OpConfirmAuto c x)
  then have "plan_confirm_auto K ts c x = Inr items" using assms(2) by simp
  then show ?thesis
    by (auto simp: plan_confirm_auto_def Let_def result_simps split: if_splits option.splits)
qed (use assms in \<open>auto simp: plan_set_role_def plan_trust_builder_def plan_revoke_builder_def plan_confirm_def
    plan_revoke_peer_def plan_trust_recovery_def plan_revoke_recovery_def Let_def result_simps split: if_splits\<close>)

lemma trust_peer_separate:
  assumes sep: "peers_separate g ts" and plan: "plan_trust_peer g ts p = Inr [q]" and c: "carries dec e (PPeer p)"
    and ap: "apply_trust K dec ts e = Inr ts'"
  shows "peers_separate g ts'"
proof -
  note w = plan_trust_peer_write [OF plan]
  let ?p = "p\<lparr>pt_at := en_at e\<rparr>"
  have ts': "ts' = ts\<lparr>ts_peers := AList.update (pt_name p) ?p (ts_peers ts)\<rparr>"
    using apply_trust_carries(3) [OF c w(2), of K ts] ap by simp
  have look: "map_of (ts_peers ts') n = (if n = pt_name p then Some ?p else map_of (ts_peers ts) n)" for n
    by (simp add: ts')
  have self: "pt_name x \<noteq> gn_machine g \<and> pt_ed25519_sha256 x \<noteq> gn_ed25519_sha256 g \<and>
      pt_x25519_sha256 x \<noteq> gn_x25519_sha256 g" if "map_of (ts_peers ts') n = Some x" for n x
  proof (cases "n = pt_name p")
    case True
    then show ?thesis using that w(3) by (auto simp: look)
  next
    case False
    then show ?thesis using that sep unfolding look peers_separate_def by simp
  qed
  have "pt_ed25519_sha256 x \<noteq> pt_ed25519_sha256 y \<and> pt_x25519_sha256 x \<noteq> pt_x25519_sha256 y"
    if x: "map_of (ts_peers ts') n = Some x" and y: "map_of (ts_peers ts') m = Some y" and "n \<noteq> m" for n m x y
  proof -
    consider "n = pt_name p" "x = ?p" "m \<noteq> pt_name p" "map_of (ts_peers ts) m = Some y"
      | "m = pt_name p" "y = ?p" "n \<noteq> pt_name p" "map_of (ts_peers ts) n = Some x"
      | "map_of (ts_peers ts) n = Some x" "map_of (ts_peers ts) m = Some y"
      using x y \<open>n \<noteq> m\<close> unfolding look by (cases "n = pt_name p"; cases "m = pt_name p") simp_all
    then show ?thesis
    proof cases
      case 1
      have "pt_ed25519_sha256 y \<noteq> pt_ed25519_sha256 p \<and> pt_x25519_sha256 y \<noteq> pt_x25519_sha256 p"
        using w(4) 1(3,4) by blast
      then show ?thesis using 1(2) by auto
    next
      case 2
      have "pt_ed25519_sha256 x \<noteq> pt_ed25519_sha256 p \<and> pt_x25519_sha256 x \<noteq> pt_x25519_sha256 p"
        using w(4) 2(3,4) by blast
      then show ?thesis using 2(2) by auto
    next
      case 3
      then show ?thesis using sep \<open>n \<noteq> m\<close> unfolding peers_separate_def by blast
    qed
  qed
  then show ?thesis using self unfolding peers_separate_def by blast
qed

section \<open>Properties\<close>

text \<open>
  Property C23. Whatever the ledger, the confirmation the gate uses for a package and certificate
  is the package's only active one; it is well formed, with normalized trust roots that match
  their digest and SDK limits that leave no legacy install path, and its certificate and tenant
  are remembered.
\<close>

theorem active_confirmation_is_valid:
  assumes "fold_res (apply_trust K dec) new_trust_state es = Inr ts"
    and "confirmation_for ts pkg cert = Some c"
  shows "active_confirmation ts pkg = Some c \<and> cf_package c = pkg \<and> cf_cert c = cert \<and>
    valid_package_name pkg \<and> fingerprint_valid cert \<and> valid_tenant_slug (cf_tenant c) \<and>
    24 \<le> cf_min_sdk c \<and> 28 \<le> cf_target_sdk c \<and> cf_min_sdk c \<le> cf_target_sdk c \<and>
    1 \<le> cf_first_sign_max c \<and> cf_first_sign_max c \<le> max_version_code \<and>
    roots_normalize (cf_roots c) = Inr (cf_roots c) \<and> roots_digest K (cf_roots c) = Inr (cf_roots_digest c) \<and>
    certificate_seen ts pkg cert \<and> tenant_confirmed_package ts (cf_tenant c) \<noteq> None \<and>
    (\<forall>other. other \<noteq> cert \<longrightarrow> confirmation_for ts pkg other = None)"
proof -
  have wf: "wf_trust K ts" using assms(1) by (rule trust_ledger.wf_replay)
  have c: "map_of (ts_confirmations ts) pkg = Some c" "cf_cert c = cert"
    using assms(2) by (auto simp: confirmation_for_def split: option.splits if_splits)
  then have k: "cf_package c = pkg" "confirmation_validate K c = None" "certificate_seen ts pkg cert"
    "map_of (ts_tenants ts) (cf_tenant c) \<noteq> None"
    using wf by (auto simp: wf_trust_def confirmations_ok_def)
  show ?thesis using confirmation_validate_None [OF k(2)] k(1,3,4) c
    by (simp add: active_confirmation_def tenant_confirmed_package_def confirmation_for_def
        min_confirmed_min_sdk_def min_confirmed_target_sdk_def)
qed


text \<open>
  An automatic confirmation is written only while the active confirmation is the
  very one it was computed from; its record replays and becomes the active confirmation, and
  making the same call again writes nothing.
\<close>

theorem confirm_auto_takes_effect:
  assumes "plan_confirm_auto K ts c expected = Inr [p]" and "carries dec e p"
  shows "\<exists>ts'. apply_trust K dec ts e = Inr ts' \<and>
    rel_option same_confirmation (active_confirmation ts (cf_package c)) expected \<and>
    confirmation_for ts' (cf_package c) (cf_cert c) = Some (c\<lparr>cf_confirmed_at := en_at e\<rparr>) \<and>
    (\<forall>q. q \<noteq> cf_package c \<longrightarrow> active_confirmation ts' q = active_confirmation ts q) \<and>
    tenant_confirmed_package ts' (cf_tenant c) = Some (cf_package c) \<and>
    (\<forall>x. plan_confirm_auto K ts' c x = Inr [])"
proof -
  note w = plan_confirm_auto_write [OF assms(1)]
  let ?ts = "replay_tenant ts (c\<lparr>cf_confirmed_at := en_at e\<rparr>)"
  have ap: "apply_trust K dec ts e = Inr ?ts"
    using apply_trust_carries(2) [of dec e c K ts] assms(2) w(1,2) by simp
  show ?thesis
    by (rule exI [of _ ?ts])
      (use w in \<open>simp add: ap active_confirmation_def confirmation_for_def tenant_confirmed_package_def
        plan_confirm_auto_def invalid_def\<close>)
qed

text \<open>
  \<open>Promote\<close> writes records that all replay: afterwards this gate is primary, no
  trusted peer holds the key of the primary it replaces, and every other peer, builder,
  confirmation and recovery key is as before.
\<close>

theorem promote_drops_the_old_primary:
  assumes "fold_res (apply_trust K dec) new_trust_state es = Inr ts"
    and "plan_promote ts r = Inr (revoked, items)" and "list_all2 (carries dec) fs items"
    and "rc_previous r \<noteq> []"
  shows "\<exists>ts'. fold_res (apply_trust K dec) new_trust_state (es @ fs) = Inr ts' \<and>
    rc_role (ts_role ts') = role_primary \<and>
    (\<forall>n p. map_of (ts_peers ts') n = Some p \<longleftrightarrow>
       map_of (ts_peers ts) n = Some p \<and> pt_ed25519_sha256 p \<noteq> rc_previous r) \<and>
    set revoked = {n. \<exists>p. map_of (ts_peers ts) n = Some p \<and> pt_ed25519_sha256 p = rc_previous r} \<and>
    ts_builders ts' = ts_builders ts \<and> ts_confirmations ts' = ts_confirmations ts \<and> ts_recovery ts' = ts_recovery ts"
proof -
  have wf: "wf_trust K ts" using assms(1) by (rule trust_ledger.wf_replay)
  have rev: "revoked = superseded_peers ts r" using plan_promote_Inr(3) [OF assms(2)] .
  note sup = superseded_set [OF wf assms(4)]
  obtain ts' where ts': "fold_res (apply_trust K dec) ts fs = Inr ts'" "rc_role (ts_role ts') = role_primary"
    "\<forall>n. map_of (ts_peers ts') n = (if n \<in> set revoked then None else map_of (ts_peers ts) n)"
    "ts_builders ts' = ts_builders ts" "ts_confirmations ts' = ts_confirmations ts" "ts_recovery ts' = ts_recovery ts"
    using promote_replay [OF wf assms(2,3)] by blast
  have "map_of (ts_peers ts') n = Some p \<longleftrightarrow>
       map_of (ts_peers ts) n = Some p \<and> pt_ed25519_sha256 p \<noteq> rc_previous r" for n p
    using ts'(3) sup [of n] by (auto simp: rev)
  moreover have "set revoked = {n. \<exists>p. map_of (ts_peers ts) n = Some p \<and> pt_ed25519_sha256 p = rc_previous r}"
    using sup by (auto simp: rev)
  ultimately show ?thesis using ts' assms(1) by (simp add: fold_res_append)
qed

text \<open>
  Along every sequence of the store's operations, no trusted peer is this machine
  and no two trusted peers share an Ed25519 or an X25519 key.
\<close>

theorem peers_stay_separate:
  assumes "trust_reachable K dec g ts"
  shows "peers_separate g ts"
  using assms
proof (induction rule: trust_reachable.induct)
  case start
  then show ?case by (simp add: peers_separate_def new_trust_state_def)
next
  case (step ts op items es ts')
  show ?case
  proof (cases "\<exists>p. op = OpTrustPeer p")
    case True
    then obtain p where plan: "plan_trust_peer g ts p = Inr items" using step.hyps by auto
    then obtain e where e: "carries dec e (PPeer p)" "es = [e]"
      using step.hyps(3) by (auto simp: plan_trust_peer_def result_simps list_all2_Cons2 split: if_splits option.splits)
    have "items = [PPeer p]" using plan
      by (auto simp: plan_trust_peer_def result_simps split: if_splits option.splits)
    then show ?thesis using trust_peer_separate [OF step.IH _ e(1)] plan step.hyps(4) e(2)
      by (auto simp: result_simps)
  next
    case False
    then have "list_all (\<lambda>q. \<forall>p. q \<noteq> PPeer p) items" using step.hyps(2) by (rule trust_plan_no_peer)
    then show ?thesis using peers_separate_shrink [OF step.IH] fold_no_peer [OF step.hyps(3) _ step.hyps(4)] by blast
  qed
qed

section \<open>Witnesses\<close>

definition ex_fp :: "char \<Rightarrow> bytes" where "ex_fp c = replicate 64 c"

definition ex_roots_digest :: bytes where
  "ex_roots_digest = sha256_hex toy_crypto (''rn-trust-roots/v1'' @ [CHR 0x0A] @ roots_json example_roots_normal)"

definition ex_auto :: confirmation where
  "ex_auto = \<lparr>cf_tenant = ''AnyFun'', cf_package = ''com.anyfun.app'', cf_cert = ex_fp (CHR ''0''),
     cf_key_alias = ''key'', cf_keystore_version = 1, cf_roots = example_roots_normal,
     cf_roots_digest = ex_roots_digest, cf_min_sdk = 24, cf_target_sdk = 34, cf_first_sign_max = 50,
     cf_confirmed_by = ''auto:first-generation'', cf_mode = ''first-generation'', cf_request_id = ''req1'',
     cf_generator_name = ''gate-1'', cf_generator_sha256 = ex_fp (CHR ''b''), cf_confirmed_at = []\<rparr>"

definition ex_manual :: confirmation where
  "ex_manual = ex_auto\<lparr>cf_cert := ex_fp (CHR ''d''), cf_confirmed_by := ''alice'', cf_mode := [],
     cf_request_id := [], cf_generator_name := [], cf_generator_sha256 := []\<rparr>"

definition ex_peer :: peer_trust where
  "ex_peer = \<lparr>pt_name = ''gate-2'', pt_x25519_sha256 = ex_fp (CHR ''1''), pt_ed25519_sha256 = ex_fp (CHR ''2''),
     pt_mode = ''operator'', pt_operator = ''alice'', pt_note = [], pt_at = []\<rparr>"

definition ex_primary :: role_change where
  "ex_primary = \<lparr>rc_role = ''primary'', rc_mode = ''manual'', rc_previous = ex_fp (CHR ''2''),
     rc_operator = ''alice'', rc_reason = ''stuck'', rc_at = []\<rparr>"

definition ex_genesis :: genesis where
  "ex_genesis = \<lparr>gn_machine = ''gate-1'', gn_ed25519 = [], gn_ed25519_sha256 = ex_fp (CHR ''3''),
     gn_x25519_sha256 = ex_fp (CHR ''4'')\<rparr>"

definition ex_revocation :: peer_revoke where
  "ex_revocation = \<lparr>pr_name = ''gate-2'', pr_operator = ''alice'', pr_reason = superseded_primary_reason\<rparr>"

definition ex_trust_dec :: decoder where
  "ex_trust_dec t raw = map_of [(''a'', PTenant ex_auto), (''b'', PTenant ex_manual), (''c'', PPeer ex_peer),
     (''d'', PRole ex_primary), (''e'', PPeerRevoke ex_revocation)] raw"

definition ex_line :: "bytes \<Rightarrow> bytes \<Rightarrow> entry" where
  "ex_line t raw = \<lparr>en_seq = 1, en_at = ''2026-09-16T08:00:00Z'', en_type = t, en_data = raw, en_hash = []\<rparr>"

lemma ex_line_carries:
  "carries ex_trust_dec (ex_line ''tenant'' ''a'') (PTenant ex_auto)"
  "carries ex_trust_dec (ex_line ''tenant'' ''b'') (PTenant ex_manual)"
  "carries ex_trust_dec (ex_line ''peer'' ''c'') (PPeer ex_peer)"
  "carries ex_trust_dec (ex_line ''role'' ''d'') (PRole ex_primary)"
  "carries ex_trust_dec (ex_line ''peer-revoke'' ''e'') (PPeerRevoke ex_revocation)"
  by (simp_all add: carries_def ex_line_def ex_trust_dec_def)

lemma ex_texts:
  "fingerprint_valid (ex_fp (CHR ''0''))" "fingerprint_valid (ex_fp (CHR ''1''))" "fingerprint_valid (ex_fp (CHR ''2''))"
  "fingerprint_valid (ex_fp (CHR ''b''))" "fingerprint_valid (ex_fp (CHR ''d''))"
  "valid_tenant_slug ''AnyFun''" "valid_package_name ''com.anyfun.app''" "valid_key_alias ''key''"
  "valid_generation_request_id ''req1''" "valid_machine_name ''gate-1''" "valid_machine_name ''gate-2''"
  "valid_operator ''alice''"
  by code_simp+

lemma ex_normal: "roots_normalize example_roots_normal = Inr example_roots_normal"
  using example_roots_normalize by (rule roots_normalize_fixpoint)

lemma ex_confirmations_valid:
  "confirmation_validate toy_crypto ex_auto = None" "confirmation_validate toy_crypto ex_manual = None"
  by (simp_all add: confirmation_validate_def ex_auto_def ex_manual_def ex_texts min_confirmed_min_sdk_def
      min_confirmed_target_sdk_def max_version_code_def confirmation_mode_validate_def confirm_mode_defs
      auto_confirmed_by_def auto_confirmed_by_prefix_def ex_normal roots_equal_iff roots_digest_def ex_roots_digest_def)

lemma ex_peer_valid: "peer_validate ex_peer = None"
  by (simp add: peer_validate_def ex_peer_def ex_texts trust_mode_operator_def)

lemma ex_stuck: "validate_operator_reason ''alice'' ''stuck'' = None"
  by (simp add: validate_operator_reason_def valid_text_def trim_space_def runes_def utf8_step_def
      is_space_rune_def ex_texts)

lemma ex_primary_valid: "role_validate ex_primary = None"
  by (simp add: role_validate_def ex_primary_def role_defs ex_texts ex_stuck)

definition ex_confirmed :: trust_state where
  "ex_confirmed = replay_tenant new_trust_state (ex_auto\<lparr>cf_confirmed_at := en_at (ex_line ''tenant'' ''a'')\<rparr>)"

definition ex_with_peer :: trust_state where
  "ex_with_peer = new_trust_state\<lparr>ts_peers := [(''gate-2'', ex_peer\<lparr>pt_at := en_at (ex_line ''peer'' ''c'')\<rparr>)]\<rparr>"

lemma ex_confirmed_replay:
  "fold_res (apply_trust toy_crypto ex_trust_dec) new_trust_state [ex_line ''tenant'' ''a''] = Inr ex_confirmed"
  by (simp add: apply_trust_carries(2) [OF ex_line_carries(1) ex_confirmations_valid(1)] ex_confirmed_def)

lemma ex_peer_replay:
  "fold_res (apply_trust toy_crypto ex_trust_dec) new_trust_state [ex_line ''peer'' ''c''] = Inr ex_with_peer"
  by (simp add: apply_trust_carries(3) [OF ex_line_carries(3) ex_peer_valid] ex_with_peer_def new_trust_state_def
      ex_peer_def)

theorem active_confirmation_is_valid_witness:
  "confirmation_for ex_confirmed ''com.anyfun.app'' (ex_fp (CHR ''0'')) \<noteq> None \<and>
   confirmation_for ex_confirmed ''com.anyfun.app'' (ex_fp (CHR ''d'')) = None"
proof -
  have "confirmation_for ex_confirmed ''com.anyfun.app'' (ex_fp (CHR ''0'')) = Some (ex_auto\<lparr>cf_confirmed_at := en_at (ex_line ''tenant'' ''a'')\<rparr>)"
    by (simp add: confirmation_for_def ex_confirmed_def ex_auto_def)
  moreover have "ex_fp (CHR ''d'') \<noteq> ex_fp (CHR ''0'')" by (simp add: ex_fp_def)
  ultimately show ?thesis using active_confirmation_is_valid [OF ex_confirmed_replay] by auto
qed


theorem confirm_auto_takes_effect_witness:
  "\<exists>ts'. apply_trust toy_crypto ex_trust_dec new_trust_state (ex_line ''tenant'' ''a'') = Inr ts' \<and>
     plan_confirm_auto toy_crypto ts' ex_auto None = Inr []"
proof -
  have "plan_confirm_auto toy_crypto new_trust_state ex_auto None = Inr [PTenant ex_auto]"
    by (simp add: plan_confirm_auto_def ex_confirmations_valid invalid_def new_trust_state_def certificate_seen_def
        seen_certs_def) (simp add: ex_auto_def)
  from confirm_auto_takes_effect [OF this ex_line_carries(1)] show ?thesis by blast
qed

theorem promote_drops_the_old_primary_witness:
  "\<exists>ts'. fold_res (apply_trust toy_crypto ex_trust_dec) new_trust_state
       ([ex_line ''peer'' ''c''] @ [ex_line ''peer-revoke'' ''e'', ex_line ''role'' ''d'']) = Inr ts' \<and>
     map_of (ts_peers ts') ''gate-2'' = None \<and> map_of (ts_peers ex_with_peer) ''gate-2'' \<noteq> None"
proof -
  have p: "superseded_peers ex_with_peer ex_primary = [''gate-2'']"
    by (simp add: superseded_peers_def ex_with_peer_def ex_primary_def ex_peer_def) (simp add: ex_fp_def)
  have plan: "plan_promote ex_with_peer ex_primary = Inr ([''gate-2''], [PPeerRevoke ex_revocation, PRole ex_primary])"
    by (simp add: plan_promote_def p ex_primary_valid invalid_def)
      (simp add: ex_primary_def role_defs ex_revocation_def)
  have c: "list_all2 (carries ex_trust_dec) [ex_line ''peer-revoke'' ''e'', ex_line ''role'' ''d''] [PPeerRevoke ex_revocation, PRole ex_primary]"
    by (simp add: ex_line_carries)
  have ne: "rc_previous ex_primary \<noteq> []" by (simp add: ex_primary_def ex_fp_def)
  obtain ts' where ts': "fold_res (apply_trust toy_crypto ex_trust_dec) new_trust_state
       ([ex_line ''peer'' ''c''] @ [ex_line ''peer-revoke'' ''e'', ex_line ''role'' ''d'']) = Inr ts'"
    and gone: "\<forall>n p. map_of (ts_peers ts') n = Some p \<longleftrightarrow>
       map_of (ts_peers ex_with_peer) n = Some p \<and> pt_ed25519_sha256 p \<noteq> rc_previous ex_primary"
    using promote_drops_the_old_primary [OF ex_peer_replay plan c ne] by blast
  have at: "map_of (ts_peers ex_with_peer) ''gate-2'' = Some (ex_peer\<lparr>pt_at := en_at (ex_line ''peer'' ''c'')\<rparr>)"
    by (simp add: ex_with_peer_def)
  have "pt_ed25519_sha256 (ex_peer\<lparr>pt_at := en_at (ex_line ''peer'' ''c'')\<rparr>) = rc_previous ex_primary"
    by (simp add: ex_peer_def ex_primary_def)
  then have "map_of (ts_peers ts') ''gate-2'' = None" using gone at by (metis option.exhaust option.inject)
  then show ?thesis using ts' at by blast
qed

theorem peers_stay_separate_witness:
  "peers_separate ex_genesis ex_with_peer \<and> ts_peers ex_with_peer \<noteq> []"
proof -
  have ne: "ex_fp c = ex_fp d \<longleftrightarrow> c = d" for c d by (simp add: ex_fp_def)
  have "plan_trust_peer ex_genesis new_trust_state ex_peer = Inr [PPeer ex_peer]"
    by (simp add: plan_trust_peer_def ex_peer_valid invalid_def new_trust_state_def)
      (simp add: ex_peer_def ex_genesis_def ne)
  then have "trust_plan toy_crypto ex_genesis new_trust_state (OpTrustPeer ex_peer) = Inr [PPeer ex_peer]" by simp
  moreover have "list_all2 (carries ex_trust_dec) [ex_line ''peer'' ''c''] [PPeer ex_peer]"
    by (simp add: ex_line_carries)
  ultimately have "trust_reachable toy_crypto ex_trust_dec ex_genesis ex_with_peer"
    using ex_peer_replay trust_reachable.step [OF trust_reachable.start] by blast
  from peers_stay_separate [OF this] show ?thesis by (simp add: ex_with_peer_def)
qed

end
