(* ===== verification/RecordChain.thy ===== *)
theory RecordChain
  imports RecordData
begin

text \<open>
  The hash chain of a record file (\<open>signing/records/chain.go\<close>): how a line is written and how it
  is verified. \<open>json.Marshal\<close> is written out, the compaction of a raw message included; the two
  strict decoders of a line and of its body, like the decoder of the data, are parameters.
\<close>

record body =
  bd_v :: int
  bd_file :: bytes
  bd_seq :: nat
  bd_prev :: bytes
  bd_at :: bytes
  bd_type :: bytes
  bd_data :: bytes

record line =
  ln_body :: bytes
  ln_sig :: bytes

record codec =
  cd_line :: "bytes \<Rightarrow> line option"
  cd_body :: "bytes \<Rightarrow> body option"
  cd_data :: decoder

datatype chain_error =
    LineLength | LineJson | BodyJson | BodyNotCanonical | LineNotCanonical | VersionWrong | FileWrong
  | SequenceWrong | ChainBroken | TimeMalformed | SignatureMalformed | FirstNotGenesis | GenesisJson
  | GenesisInvalid bytes | GenesisNotPinned bytes | GenesisRepeated | SignatureWrong

definition kind_trust :: bytes where "kind_trust = ''trust''"
definition kind_signed :: bytes where "kind_signed = ''signed''"
definition record_version :: int where "record_version = 1"
definition signature_prefix :: bytes where "signature_prefix = ''rn-signer-record/v1'' @ [CHR 0x0A]"
definition zero_hash :: bytes where "zero_hash = replicate 64 (CHR ''0'')"
definition max_file_size :: nat where "max_file_size = 268435456"
definition max_line_size :: nat where "max_line_size = 65536"

section \<open>Writing\<close>

text \<open>
  \<open>compact\<close> of \<open>encoding/json\<close> with HTML escaping, on a valid JSON text: white space outside
  strings goes, the characters that HTML or JavaScript would misread are escaped. The flags are
  "inside a string" and "after a backslash".
\<close>

definition json_space :: "char \<Rightarrow> bool" where
  "json_space c \<longleftrightarrow> c \<in> {CHR '' '', CHR 0x09, CHR 0x0A, CHR 0x0D}"

fun compact_from :: "bool \<Rightarrow> bool \<Rightarrow> bytes \<Rightarrow> bytes" where
  "compact_from str esc [] = []"
| "compact_from str esc (c # cs) =
     (if c = CHR ''<'' \<or> c = CHR ''>'' \<or> c = CHR ''&'' then json_u (of_char c) @ compact_from str False cs
      else if c = CHR 0xE2 \<and> (take 2 cs = [CHR 0x80, CHR 0xA8] \<or> take 2 cs = [CHR 0x80, CHR 0xA9])
      then (if take 2 cs = [CHR 0x80, CHR 0xA8] then json_u 0x2028 else json_u 0x2029) @ compact_from str False (drop 2 cs)
      else if \<not> str then
        (if json_space c then compact_from False False cs
         else c # compact_from (c = CHR 0x22) False cs)
      else if esc then c # compact_from True False cs
      else c # compact_from (c \<noteq> CHR 0x22) (c = CHR 0x5C) cs)"

text \<open>\<open>json.Marshal\<close> of a \<open>json.RawMessage\<close>; nil is null.\<close>

definition raw_json :: "bytes \<Rightarrow> bytes" where
  "raw_json raw = (if raw = [] then ''null'' else compact_from False False raw)"

definition body_json :: "body \<Rightarrow> bytes" where
  "body_json b = json_object
     [int_field ''v'' (bd_v b), str_field ''file'' (bd_file b), json_field ''seq'' (nat_str (bd_seq b)),
      str_field ''prev'' (bd_prev b), str_field ''at'' (bd_at b), str_field ''type'' (bd_type b),
      json_field ''data'' (raw_json (bd_data b))]"

definition assemble_line :: "bytes \<Rightarrow> bytes \<Rightarrow> bytes" where
  "assemble_line raw_body sig =
     CHR ''{'' # CHR 0x22 # ''body'' @ CHR 0x22 # CHR '':'' # raw_body @
     CHR '','' # CHR 0x22 # ''sig'' @ CHR 0x22 # CHR '':'' # json_string sig @ ''}''"

definition signing_input :: "bytes \<Rightarrow> bytes" where
  "signing_input raw_body = signature_prefix @ raw_body"

definition line_hash :: "crypto \<Rightarrow> bytes \<Rightarrow> bytes" where
  "line_hash K raw = sha256_hex K raw"

text \<open>An instant in UTC, in the components that \<open>Format\<close> prints.\<close>

record utc =
  ut_year :: nat
  ut_month :: nat
  ut_day :: nat
  ut_hour :: nat
  ut_minute :: nat
  ut_second :: nat
  ut_milli :: nat

definition padded :: "nat \<Rightarrow> nat \<Rightarrow> bytes" where
  "padded w n = replicate (w - length (nat_str n)) (CHR ''0'') @ nat_str n"

definition format_time :: "utc \<Rightarrow> bytes" where
  "format_time t = padded 4 (ut_year t) @ ''-'' @ padded 2 (ut_month t) @ ''-'' @ padded 2 (ut_day t) @ ''T'' @
     padded 2 (ut_hour t) @ '':'' @ padded 2 (ut_minute t) @ '':'' @ padded 2 (ut_second t) @ ''.'' @
     padded 3 (ut_milli t) @ ''Z''"

definition line_body :: "bytes \<Rightarrow> nat \<Rightarrow> bytes \<Rightarrow> utc \<Rightarrow> payload \<Rightarrow> body" where
  "line_body kind seq prev at p =
     \<lparr>bd_v = record_version, bd_file = kind, bd_seq = seq, bd_prev = prev, bd_at = format_time at,
      bd_type = payload_type p, bd_data = payload_json p\<rparr>"

text \<open>\<open>encodeLine\<close>, without the newline; None when the line would be too long.\<close>

definition encode_line ::
    "crypto \<Rightarrow> bytes \<Rightarrow> nat \<Rightarrow> bytes \<Rightarrow> utc \<Rightarrow> payload \<Rightarrow> bytes \<Rightarrow> bytes option" where
  "encode_line K kind seq prev at p priv =
     (let raw_body = body_json (line_body kind seq prev at p);
          sig = ed_sign K priv (signing_input raw_body);
          out = assemble_line raw_body (b64_encode sig)
      in if max_line_size < length out then None else Some out)"

section \<open>Verifying\<close>

definition genesis_validate :: "crypto \<Rightarrow> genesis \<Rightarrow> bytes + bytes" where
  "genesis_validate K g =
     (if \<not> valid_machine_name (gn_machine g) then Inl ''machineName''
      else case b64_decode (gn_ed25519 g) of
        None \<Rightarrow> Inl ''ed25519PublicKey''
      | Some raw \<Rightarrow>
        if length raw \<noteq> ed_public_key_size then Inl ''ed25519PublicKey''
        else if sha256_hex K raw \<noteq> gn_ed25519_sha256 g then Inl ''ed25519PublicKeySha256''
        else if \<not> fingerprint_valid (gn_x25519_sha256 g) then Inl ''x25519PublicKeySha256''
        else Inr raw)"

record verifier =
  vf_kind :: bytes
  vf_pinned :: "genesis \<Rightarrow> bytes option"
  vf_pub :: bytes
  vf_genesis :: genesis
  vf_seq :: nat
  vf_tail :: bytes

definition empty_genesis :: genesis where
  "empty_genesis = \<lparr>gn_machine = [], gn_ed25519 = [], gn_ed25519_sha256 = [], gn_x25519_sha256 = []\<rparr>"

definition new_verifier :: "bytes \<Rightarrow> (genesis \<Rightarrow> bytes option) \<Rightarrow> verifier" where
  "new_verifier kind pinned =
     \<lparr>vf_kind = kind, vf_pinned = pinned, vf_pub = [], vf_genesis = empty_genesis, vf_seq = 0, vf_tail = zero_hash\<rparr>"

text \<open>The genesis step of \<open>verifyLine\<close>: it fixes the key the file is verified with.\<close>

definition verify_genesis :: "crypto \<Rightarrow> codec \<Rightarrow> verifier \<Rightarrow> body \<Rightarrow> chain_error + verifier" where
  "verify_genesis K C v b =
     (if bd_seq b = 0 then
        (if bd_type b \<noteq> ''genesis'' then Inl FirstNotGenesis
         else case dec_genesis (cd_data C) (bd_data b) of
           None \<Rightarrow> Inl GenesisJson
         | Some g \<Rightarrow>
           (case genesis_validate K g of
              Inl e \<Rightarrow> Inl (GenesisInvalid e)
            | Inr pub \<Rightarrow>
              (case vf_pinned v g of
                 Some e \<Rightarrow> Inl (GenesisNotPinned e)
               | None \<Rightarrow> Inr (v\<lparr>vf_pub := pub, vf_genesis := g\<rparr>))))
      else if bd_type b = ''genesis'' then Inl GenesisRepeated
      else Inr v)"

definition verify_line :: "crypto \<Rightarrow> codec \<Rightarrow> verifier \<Rightarrow> bytes \<Rightarrow> chain_error + (verifier \<times> entry)" where
  "verify_line K C v raw =
     (if raw = [] \<or> max_line_size < length raw then Inl LineLength
      else case cd_line C raw of
        None \<Rightarrow> Inl LineJson
      | Some l \<Rightarrow>
        (case cd_body C (ln_body l) of
           None \<Rightarrow> Inl BodyJson
         | Some b \<Rightarrow>
           if body_json b \<noteq> ln_body l then Inl BodyNotCanonical
           else if assemble_line (ln_body l) (ln_sig l) \<noteq> raw then Inl LineNotCanonical
           else if bd_v b \<noteq> record_version then Inl VersionWrong
           else if bd_file b \<noteq> vf_kind v then Inl FileWrong
           else if bd_seq b \<noteq> vf_seq v then Inl SequenceWrong
           else if bd_prev b \<noteq> vf_tail v then Inl ChainBroken
           else if \<not> valid_rfc3339_utc (bd_at b) then Inl TimeMalformed
           else (case b64_decode (ln_sig l) of
              None \<Rightarrow> Inl SignatureMalformed
            | Some sig \<Rightarrow>
              if length sig \<noteq> ed_signature_size then Inl SignatureMalformed
              else rbind (verify_genesis K C v b) (\<lambda>v1.
                if \<not> ed_verify K (vf_pub v1) (signing_input (ln_body l)) sig then Inl SignatureWrong
                else let hash = line_hash K raw
                  in Inr (v1\<lparr>vf_seq := vf_seq v1 + 1, vf_tail := hash\<rparr>,
                       \<lparr>en_seq = bd_seq b, en_at = bd_at b, en_type = bd_type b, en_data = bd_data b,
                        en_hash = hash\<rparr>)))))"

datatype feed_error = ErrTornTail | ErrCorrupt "chain_error + replay_error" | ErrShrank | ErrTooLarge

definition feed_step ::
    "crypto \<Rightarrow> codec \<Rightarrow> ('s \<Rightarrow> entry \<Rightarrow> replay_error + 's) \<Rightarrow> verifier \<times> 's \<Rightarrow> bytes \<Rightarrow> feed_error + (verifier \<times> 's)" where
  "feed_step K C ap vs raw =
     (case verify_line K C (fst vs) raw of
        Inl e \<Rightarrow> Inl (ErrCorrupt (Inl e))
      | Inr (v', e) \<Rightarrow>
        (case ap (snd vs) e of Inl x \<Rightarrow> Inl (ErrCorrupt (Inr x)) | Inr s' \<Rightarrow> Inr (v', s')))"

text \<open>
  \<open>feed\<close>: every complete line verified and applied. On an error the source has applied the lines
  before it, and every caller then drops the state or stops for good; the model returns only
  the error.
\<close>

definition feed ::
    "crypto \<Rightarrow> codec \<Rightarrow> ('s \<Rightarrow> entry \<Rightarrow> replay_error + 's) \<Rightarrow> verifier \<times> 's \<Rightarrow> bytes \<Rightarrow> feed_error + (verifier \<times> 's)" where
  "feed K C ap vs data =
     (if data = [] then Inr vs
      else if last data \<noteq> CHR 0x0A then Inl ErrTornTail
      else fold_res (feed_step K C ap) vs (butlast (split_on (CHR 0x0A) data)))"

text \<open>\<open>readRange\<close> on the bytes of the file.\<close>

definition read_range :: "bytes \<Rightarrow> nat \<Rightarrow> nat \<Rightarrow> feed_error + bytes" where
  "read_range content from to =
     (if to < from then Inl ErrShrank
      else if max_file_size < to then Inl ErrTooLarge
      else Inr (take (to - from) (drop from content)))"

section \<open>Facts\<close>

lemma verify_genesis_Inr:
  assumes "verify_genesis K C v b = Inr v1"
  shows "vf_seq v1 = vf_seq v" "vf_tail v1 = vf_tail v" "vf_kind v1 = vf_kind v" "vf_pinned v1 = vf_pinned v"
    "bd_seq b \<noteq> 0 \<Longrightarrow> v1 = v" "bd_seq b = 0 \<longleftrightarrow> bd_type b = ''genesis''"
    "bd_seq b = 0 \<Longrightarrow> genesis_validate K (vf_genesis v1) = Inr (vf_pub v1) \<and> vf_pinned v (vf_genesis v1) = None"
  using assms by (auto simp: verify_genesis_def split: if_splits option.splits sum.splits)

lemma verify_line_Inr:
  assumes "verify_line K C v raw = Inr (v', e)"
  obtains l b sig v1 where "cd_line C raw = Some l" "cd_body C (ln_body l) = Some b" "body_json b = ln_body l"
    "assemble_line (ln_body l) (ln_sig l) = raw" "bd_v b = record_version" "bd_file b = vf_kind v"
    "bd_seq b = vf_seq v" "bd_prev b = vf_tail v" "valid_rfc3339_utc (bd_at b)"
    "b64_decode (ln_sig l) = Some sig" "length sig = ed_signature_size" "verify_genesis K C v b = Inr v1"
    "ed_verify K (vf_pub v1) (signing_input (ln_body l)) sig" "length raw \<le> max_line_size"
    "v' = v1\<lparr>vf_seq := vf_seq v1 + 1, vf_tail := line_hash K raw\<rparr>"
    "e = \<lparr>en_seq = bd_seq b, en_at = bd_at b, en_type = bd_type b, en_data = bd_data b, en_hash = line_hash K raw\<rparr>"
  using assms
  by (auto simp: verify_line_def Let_def result_simps split: if_splits option.splits)

lemma verify_line_state:
  assumes "verify_line K C v raw = Inr (v', e)"
  shows "vf_seq v' = Suc (vf_seq v)" "vf_tail v' = line_hash K raw" "vf_kind v' = vf_kind v"
    "vf_pinned v' = vf_pinned v" "en_seq e = vf_seq v" "en_hash e = line_hash K raw"
    "vf_seq v \<noteq> 0 \<Longrightarrow> vf_pub v' = vf_pub v \<and> vf_genesis v' = vf_genesis v"
  using assms
  by (auto elim!: verify_line_Inr simp: verify_genesis_Inr(1-4) dest: verify_genesis_Inr(5))

text \<open>A line commits to the tail before it.\<close>

lemma verify_line_prev:
  assumes "verify_line K C v raw = Inr (v', e)" and "verify_line K C w raw = Inr (w', e')"
  shows "vf_tail v = vf_tail w"
proof -
  obtain l b where "cd_line C raw = Some l" "cd_body C (ln_body l) = Some b" "bd_prev b = vf_tail v"
    using assms(1) by (rule verify_line_Inr)
  moreover obtain m c where "cd_line C raw = Some m" "cd_body C (ln_body m) = Some c" "bd_prev c = vf_tail w"
    using assms(2) by (rule verify_line_Inr)
  ultimately show ?thesis by simp
qed

lemma feed_step_Inr:
  "feed_step K C ap vs raw = Inr vs' \<longleftrightarrow>
     (\<exists>e. verify_line K C (fst vs) raw = Inr (fst vs', e) \<and> ap (snd vs) e = Inr (snd vs'))"
  by (cases vs') (auto simp: feed_step_def split: sum.splits)

lemma feed_fold_seq:
  assumes "fold_res (feed_step K C ap) vs xs = Inr vs'"
  shows "vf_seq (fst vs') = vf_seq (fst vs) + length xs"
  using assms
proof (induction xs arbitrary: vs)
  case Nil
  then show ?case by simp
next
  case (Cons x xs)
  then obtain t where "feed_step K C ap vs x = Inr t" "fold_res (feed_step K C ap) t xs = Inr vs'"
    by (auto simp: result_simps)
  then show ?case using Cons.IH verify_line_state(1) by (fastforce simp: feed_step_Inr)
qed

lemma feed_fold_tail:
  assumes "fold_res (feed_step K C ap) vs xs = Inr a" and "fold_res (feed_step K C ap') ws ys = Inr b"
    and "length xs = length ys" and "vf_tail (fst a) = vf_tail (fst b)"
  shows "xs = ys \<or> (\<exists>m n. sha256_collision K m n)"
  using assms
proof (induction xs arbitrary: ys a b rule: rev_induct)
  case Nil
  then show ?case by simp
next
  case (snoc x xs)
  obtain ys' y where ys: "ys = ys' @ [y]" "length ys' = length xs"
    using snoc.prems(3) by (metis append_butlast_last_id length_append_singleton length_butlast diff_Suc_1 list.size(3) nat.distinct(1))
  obtain t u where t: "fold_res (feed_step K C ap) vs xs = Inr t" "feed_step K C ap t x = Inr a"
    and u: "fold_res (feed_step K C ap') ws ys' = Inr u" "feed_step K C ap' u y = Inr b"
    using snoc.prems(1,2) by (auto simp: ys fold_res_append result_simps)
  obtain e where e: "verify_line K C (fst t) x = Inr (fst a, e)" using t(2) by (auto simp: feed_step_Inr)
  obtain f where f: "verify_line K C (fst u) y = Inr (fst b, f)" using u(2) by (auto simp: feed_step_Inr)
  have "line_hash K x = line_hash K y"
    using snoc.prems(4) verify_line_state(2) [OF e] verify_line_state(2) [OF f] by simp
  then consider "x = y" | "sha256_collision K x y"
    unfolding line_hash_def using sha256_hex_eq by blast
  then show ?case
  proof cases
    case 1
    then have "vf_tail (fst t) = vf_tail (fst u)" using verify_line_prev [OF e] f by blast
    then have "xs = ys' \<or> (\<exists>m n. sha256_collision K m n)"
      using snoc.IH [OF t(1) u(1)] ys(2) by simp
    then show ?thesis using 1 ys(1) by blast
  next
    case 2
    then show ?thesis by blast
  qed
qed

text \<open>A written line has no line feed, so the newline after it ends it.\<close>

lemma json_field_no_lf [simp]: "no_lf (json_field n v) \<longleftrightarrow> no_lf v"
  by (simp add: json_field_def)

lemma json_commas_no_lf [simp]: "list_all no_lf xs \<Longrightarrow> no_lf (json_commas xs)"
  by (induction xs rule: json_commas.induct) auto

lemma json_object_no_lf [simp]: "list_all no_lf xs \<Longrightarrow> no_lf (json_object xs)"
  by (simp add: json_object_def)

lemma opt_field_no_lf [simp]: "list_all no_lf (opt_field n v)"
  by (simp add: opt_field_def)

lemma json_strings_no_lf [simp]: "list_all no_lf (map json_string xs)"
  by (simp add: list_all_iff)

lemma roots_json_no_lf [simp]: "no_lf (roots_json r)"
  unfolding roots_json_def by simp

lemma payload_json_no_lf [simp]: "no_lf (payload_json p)"
  by (cases p) simp_all

lemma no_lf_drop: "no_lf s \<Longrightarrow> no_lf (drop n s)"
  by (auto simp: no_lf_def dest: in_set_dropD)

lemma no_lf_json_u [simp]: "no_lf (json_u n)"
  using json_u_no_lf by (simp add: no_lf_def)

lemma compact_no_lf: "no_lf s \<Longrightarrow> no_lf (compact_from b e s)"
proof (induction s arbitrary: b e rule: length_induct)
  case (1 s)
  show ?case
  proof (cases s)
    case Nil
    then show ?thesis by simp
  next
    case (Cons c cs)
    have cs: "no_lf cs" "c \<noteq> CHR 0x0A" using 1(2) by (simp_all add: Cons)
    have ih: "no_lf (compact_from b e cs)" "no_lf (compact_from b e (drop 2 cs))" for b e
      using 1(1) cs(1) no_lf_drop [of cs 2] by (simp_all add: Cons)
    show ?thesis using cs(2) unfolding Cons compact_from.simps by (simp only: ih if_split) (simp add: ih)
  qed
qed

lemma body_json_no_lf: "no_lf (bd_data b) \<Longrightarrow> no_lf (body_json b)"
  unfolding body_json_def by (simp add: raw_json_def compact_no_lf)

lemma encode_line_no_lf: "encode_line K kind seq prev at p priv = Some raw \<Longrightarrow> no_lf raw"
  using body_json_no_lf [of "line_body kind seq prev at p"]
  by (auto simp: encode_line_def Let_def assemble_line_def line_body_def split: if_splits)

text \<open>Bounds on the size of a line.\<close>

lemma length_json_u [simp]: "length (json_u n) = 6"
  by (simp add: json_u_def)

lemma length_compact: "length (compact_from b e s) \<le> 6 * length s"
proof (induction s arbitrary: b e rule: length_induct)
  case (1 s)
  show ?case
  proof (cases s)
    case Nil
    then show ?thesis by simp
  next
    case (Cons c cs)
    have ih: "length (compact_from b e cs) \<le> 6 * length cs" for b e using 1 by (simp add: Cons)
    have ih2: "length (compact_from b e (drop 2 cs)) \<le> 6 * (length cs - 2)" for b e
      using 1 [rule_format, of "drop 2 cs" b e] by (simp add: Cons)
    have a: "length (compact_from b e (drop 2 cs)) \<le> 6 * length cs" for b e using ih2 [of b e] by linarith
    have b': "length (compact_from b e cs) \<le> 5 + 6 * length cs" for b e using ih [of b e] by linarith
    have c': "length (compact_from b e cs) \<le> 6 + 6 * length cs" for b e using ih [of b e] by linarith
    show ?thesis unfolding Cons compact_from.simps by (simp add: ih a b' c')
  qed
qed

lemma length_json_field: "length (json_field n v) \<le> 6 * length n + 3 + length v"
  using length_json_string [of n] by (simp add: json_field_def)

end
