(* ===== verification/ChainProps.thy ===== *)
theory ChainProps
  imports RecordChain
begin

text \<open>
  The properties of the hash chain: what is written verifies, a tip commits to the whole file,
  every line is signed by the pinned machine, and the one place where a line has two spellings.
\<close>

section \<open>The lines of a file\<close>

definition file_lines :: "bytes \<Rightarrow> bytes list" where
  "file_lines data = butlast (split_on (CHR 0x0A) data)"

lemma split_on_join: "concat (map (\<lambda>l. l @ [c]) (butlast (split_on c s))) @ last (split_on c s) = s"
proof (induction s)
  case Nil
  then show ?case by simp
next
  case (Cons x xs)
  show ?case
  proof (cases "x = c")
    case True
    then show ?thesis using Cons by simp
  next
    case False
    then show ?thesis using Cons by (cases "split_on c xs") (auto split: if_splits)
  qed
qed

lemma split_on_last_sep: "s \<noteq> [] \<Longrightarrow> last s = c \<Longrightarrow> last (split_on c s) = []"
proof (induction s)
  case Nil
  then show ?case by simp
next
  case (Cons x xs)
  show ?case
  proof (cases "xs = []")
    case True
    then show ?thesis using Cons.prems by simp
  next
    case False
    then have l: "last (split_on c xs) = []" using Cons by simp
    have "split_on c xs \<noteq> [[]]" using split_on_join [of c xs] False by auto
    then show ?thesis using l by (cases "split_on c xs") (auto split: if_splits)
  qed
qed

lemma file_lines_join:
  "data \<noteq> [] \<Longrightarrow> last data = CHR 0x0A \<Longrightarrow> concat (map (\<lambda>l. l @ [CHR 0x0A]) (file_lines data)) = data"
  using split_on_join [of "CHR 0x0A" data] split_on_last_sep [of data "CHR 0x0A"] by (simp add: file_lines_def)

lemma feed_Inr:
  assumes "feed K C ap vs data = Inr vs'"
  shows "fold_res (feed_step K C ap) vs (file_lines data) = Inr vs'"
    and "concat (map (\<lambda>l. l @ [CHR 0x0A]) (file_lines data)) = data"
  using assms file_lines_join [of data]
  by (auto simp: feed_def file_lines_def split: if_splits)

text \<open>Every line of a fold is signed under the key in force at the end, once there is one.\<close>

definition signed_under :: "crypto \<Rightarrow> codec \<Rightarrow> bytes \<Rightarrow> bytes \<Rightarrow> bool" where
  "signed_under K C pub raw \<longleftrightarrow>
     (case cd_line C raw of None \<Rightarrow> False
      | Some l \<Rightarrow> (case b64_decode (ln_sig l) of None \<Rightarrow> False
          | Some sig \<Rightarrow> length sig = ed_signature_size \<and> ed_verify K pub (signature_prefix @ ln_body l) sig))"

lemma verify_line_signed:
  assumes "verify_line K C v raw = Inr (v', e)"
  shows "signed_under K C (vf_pub v') raw"
  using assms by (rule verify_line_Inr) (simp add: signed_under_def signing_input_def)

lemma verify_line_genesis:
  assumes "verify_line K C v raw = Inr (v', e)" and "vf_seq v = 0"
  shows "genesis_validate K (vf_genesis v') = Inr (vf_pub v') \<and> vf_pinned v (vf_genesis v') = None \<and> en_type e = ''genesis''"
  using assms by (auto elim!: verify_line_Inr dest: verify_genesis_Inr(6,7))

definition keyed :: "crypto \<Rightarrow> verifier \<Rightarrow> bool" where
  "keyed K v \<longleftrightarrow> vf_seq v \<noteq> 0 \<longrightarrow>
     genesis_validate K (vf_genesis v) = Inr (vf_pub v) \<and> vf_pinned v (vf_genesis v) = None"

lemma verify_line_keyed: "verify_line K C v raw = Inr (v', e) \<Longrightarrow> keyed K v \<Longrightarrow> keyed K v'"
  using verify_line_genesis [of K C v raw v' e] verify_line_state [of K C v raw v' e]
  by (cases "vf_seq v = 0") (auto simp: keyed_def)

lemma feed_fold_signed:
  assumes "fold_res (feed_step K C ap) vs xs = Inr vs'" and "keyed K (fst vs)"
  shows "keyed K (fst vs') \<and> list_all (signed_under K C (vf_pub (fst vs'))) xs \<and>
    vf_pinned (fst vs') = vf_pinned (fst vs) \<and> vf_kind (fst vs') = vf_kind (fst vs)"
  using assms(1)
proof (induction xs arbitrary: vs' rule: rev_induct)
  case Nil
  then show ?case using assms(2) by simp
next
  case (snoc x xs)
  obtain t where t: "fold_res (feed_step K C ap) vs xs = Inr t" "feed_step K C ap t x = Inr vs'"
    using snoc.prems by (auto simp: fold_res_append result_simps)
  obtain e where e: "verify_line K C (fst t) x = Inr (fst vs', e)" using t(2) by (auto simp: feed_step_Inr)
  have seq: "vf_seq (fst t) = vf_seq (fst vs) + length xs" using feed_fold_seq [OF t(1)] .
  have same: "xs = [] \<or> vf_pub (fst vs') = vf_pub (fst t)"
    using verify_line_state(7) [OF e] seq by (cases xs) auto
  show ?case
    using snoc.IH [OF t(1)] same verify_line_signed [OF e] verify_line_keyed [OF e] verify_line_state(3,4) [OF e]
    by auto
qed

section \<open>Properties\<close>

text \<open>
  Property C5. The number of lines and the hash of the last line commit to the whole file: two
  files that verify, whatever key each was checked against, and agree on both are the same bytes,
  unless sha256 has a collision.
\<close>

theorem tip_commits_to_history:
  assumes "feed K C ap (new_verifier kind p, s) data = Inr (v, s')"
    and "feed K C ap' (new_verifier kind' p', t) data' = Inr (w, t')"
    and "vf_seq v = vf_seq w" and "vf_tail v = vf_tail w"
  shows "data = data' \<or> (\<exists>m n. sha256_collision K m n)"
proof -
  have l: "vf_seq v = length (file_lines data)" "vf_seq w = length (file_lines data')"
    using feed_fold_seq [OF feed_Inr(1) [OF assms(1)]] feed_fold_seq [OF feed_Inr(1) [OF assms(2)]]
    by (simp_all add: new_verifier_def)
  have "file_lines data = file_lines data' \<or> (\<exists>m n. sha256_collision K m n)"
    by (rule feed_fold_tail [OF feed_Inr(1) [OF assms(1)] feed_Inr(1) [OF assms(2)]]) (use assms(3,4) l in simp_all)
  then show ?thesis using feed_Inr(2) [OF assms(1)] feed_Inr(2) [OF assms(2)] by metis
qed

text \<open>
  Property C15. Every line of a file that verifies is signed under one key, the key of a genesis
  record that is well formed and passes the pin; the first line is that record.
\<close>

theorem every_line_signed_by_pinned_key:
  assumes "feed K C ap (new_verifier kind pinned, s) data = Inr (v, s')" and "data \<noteq> []"
  shows "genesis_validate K (vf_genesis v) = Inr (vf_pub v) \<and> pinned (vf_genesis v) = None \<and>
    file_lines data \<noteq> [] \<and> list_all (signed_under K C (vf_pub v)) (file_lines data)"
proof -
  have k: "keyed K (fst (new_verifier kind pinned, s))" by (simp add: keyed_def new_verifier_def)
  have ne: "file_lines data \<noteq> []" using feed_Inr(2) [OF assms(1)] assms(2) by auto
  have "vf_seq v \<noteq> 0" using feed_fold_seq [OF feed_Inr(1) [OF assms(1)]] ne by (simp add: new_verifier_def)
  then show ?thesis using feed_fold_signed [OF feed_Inr(1) [OF assms(1)] k] ne
    by (auto simp: keyed_def new_verifier_def)
qed

text \<open>
  Property C37. A line written with this machine's key is accepted by the verifier that stands at
  the same place of the file, as long as the decoders invert the encoding of that very line;
  the entry it yields carries the payload's type, its text and the hash for the next line.
\<close>

theorem written_line_verifies:
  assumes "crypto_ok K" and "length priv = ed_private_key_size" and "vf_pub v = ed_public K priv" and "vf_seq v \<noteq> 0"
    and "encode_line K (vf_kind v) (vf_seq v) (vf_tail v) at p priv = Some raw"
    and "payload_type p \<noteq> ''genesis''" and "valid_rfc3339_utc (format_time at)"
    and "b = line_body (vf_kind v) (vf_seq v) (vf_tail v) at p"
    and "cd_line C raw = Some \<lparr>ln_body = body_json b,
           ln_sig = b64_encode (ed_sign K priv (signing_input (body_json b)))\<rparr>"
    and "cd_body C (body_json b) = Some b"
  shows "verify_line K C v raw = Inr (v\<lparr>vf_seq := vf_seq v + 1, vf_tail := line_hash K raw\<rparr>,
    \<lparr>en_seq = vf_seq v, en_at = format_time at, en_type = payload_type p, en_data = payload_json p,
     en_hash = line_hash K raw\<rparr>) \<and> no_lf raw"
proof -
  have raw: "raw = assemble_line (body_json b) (b64_encode (ed_sign K priv (signing_input (body_json b))))"
    and len: "\<not> max_line_size < length raw"
    using assms(5) by (auto simp: encode_line_def Let_def assms(8) split: if_splits)
  have sig: "length (ed_sign K priv (signing_input (body_json b))) = ed_signature_size"
    "ed_verify K (vf_pub v) (signing_input (body_json b)) (ed_sign K priv (signing_input (body_json b)))"
    using assms(1,2,3) by (auto simp: crypto_ok_def)
  have "raw \<noteq> []" by (simp add: raw assemble_line_def)
  moreover have "verify_genesis K C v b = Inr v" using assms(4,6) by (simp add: verify_genesis_def assms(8) line_body_def)
  ultimately show ?thesis using len assms(7,9,10) sig raw encode_line_no_lf [OF assms(5)]
    by (simp add: verify_line_def Let_def) (simp add: assms(8) line_body_def)
qed

text \<open>
  The header of \<open>chain.go\<close> says that a record has one spelling only. It does not: a
  signature is decoded by \<open>base64\<close>, which skips line feeds even in strict mode, so an accepted line
  with a line feed put in front of its signature is accepted too, with the same entry but for the
  hash.
\<close>

theorem line_has_two_spellings:
  assumes "verify_line K C v (assemble_line raw_body sig) = Inr (v', e)"
    and "cd_line C (assemble_line raw_body sig) = Some \<lparr>ln_body = raw_body, ln_sig = sig\<rparr>"
    and "cd_line C (assemble_line raw_body (CHR 0x0A # sig)) = Some \<lparr>ln_body = raw_body, ln_sig = CHR 0x0A # sig\<rparr>"
    and "length (assemble_line raw_body (CHR 0x0A # sig)) \<le> max_line_size"
  shows "\<exists>v'' e'. verify_line K C v (assemble_line raw_body (CHR 0x0A # sig)) = Inr (v'', e') \<and>
    en_seq e' = en_seq e \<and> en_at e' = en_at e \<and> en_type e' = en_type e \<and> en_data e' = en_data e \<and>
    assemble_line raw_body (CHR 0x0A # sig) \<noteq> assemble_line raw_body sig"
proof -
  let ?raw = "assemble_line raw_body (CHR 0x0A # sig)"
  have ne: "?raw \<noteq> assemble_line raw_body sig"
  proof
    assume "?raw = assemble_line raw_body sig"
    then have "cd_line C ?raw = Some \<lparr>ln_body = raw_body, ln_sig = sig\<rparr>" using assms(2) by simp
    then show False using assms(3) by simp
  qed
  have dec: "b64_decode (CHR 0x0A # sig) = b64_decode sig"
    using b64_decode_skip_newline [of "[]" sig] by simp
  obtain b s v1 where b: "cd_body C raw_body = Some b" "body_json b = raw_body" "bd_v b = record_version"
    "bd_file b = vf_kind v" "bd_seq b = vf_seq v" "bd_prev b = vf_tail v" "valid_rfc3339_utc (bd_at b)"
    "b64_decode sig = Some s" "length s = ed_signature_size" "verify_genesis K C v b = Inr v1"
    "ed_verify K (vf_pub v1) (signing_input raw_body) s"
    and e: "e = \<lparr>en_seq = bd_seq b, en_at = bd_at b, en_type = bd_type b, en_data = bd_data b,
      en_hash = line_hash K (assemble_line raw_body sig)\<rparr>"
    using assms(1,2) by (auto elim: verify_line_Inr)
  have "?raw \<noteq> []" by (simp add: assemble_line_def)
  then have "verify_line K C v ?raw = Inr (v1\<lparr>vf_seq := vf_seq v1 + 1, vf_tail := line_hash K ?raw\<rparr>,
      \<lparr>en_seq = bd_seq b, en_at = bd_at b, en_type = bd_type b, en_data = bd_data b, en_hash = line_hash K ?raw\<rparr>)"
    using assms(3,4) b dec by (simp add: verify_line_def Let_def)
  then show ?thesis using ne by (simp add: e)
qed

section \<open>Witnesses\<close>

definition ex_key :: bytes where "ex_key = replicate 64 (CHR ''k'')"
definition ex_zero_sig :: bytes where "ex_zero_sig = replicate 64 (CHR 0x00)"

definition ex_gate :: genesis where
  "ex_gate = \<lparr>gn_machine = ''gate-1'', gn_ed25519 = b64_encode (replicate 32 (CHR ''k'')),
     gn_ed25519_sha256 = sha256_hex toy_crypto (replicate 32 (CHR ''k'')), gn_x25519_sha256 = replicate 64 (CHR ''f'')\<rparr>"

definition ex_utc :: utc where
  "ex_utc = \<lparr>ut_year = 2026, ut_month = 9, ut_day = 16, ut_hour = 8, ut_minute = 0, ut_second = 0, ut_milli = 0\<rparr>"

lemma ex_utc_time: "format_time ex_utc = ''2026-09-16T08:00:00.000Z''" "valid_rfc3339_utc (format_time ex_utc)"
proof -
  show t: "format_time ex_utc = ''2026-09-16T08:00:00.000Z''"
    by (simp add: format_time_def ex_utc_def padded_def digit_char_def numeral_2_eq_2)
  show "valid_rfc3339_utc (format_time ex_utc)"
    unfolding t
    by (simp add: valid_rfc3339_utc_def parse_rfc3339z_def ends_with_def starts_with_def
      four_digits_def two_digits_def hour_digits_def expect_char_def digits_nat_def
      skip_fraction_def is_digit_def days_in_month_def leap_year_def)
qed

text \<open>A genesis line, the same line with a line feed in front of its signature, and a second line.\<close>

definition ex_body0 :: body where "ex_body0 = line_body kind_signed 0 zero_hash ex_utc (PGenesis ex_gate)"
definition ex_raw0 :: bytes where "ex_raw0 = assemble_line (body_json ex_body0) (b64_encode ex_zero_sig)"
definition ex_raw0' :: bytes where "ex_raw0' = assemble_line (body_json ex_body0) (CHR 0x0A # b64_encode ex_zero_sig)"
definition ex_payload1 :: payload where "ex_payload1 = PPeerRevoke \<lparr>pr_name = [], pr_operator = [], pr_reason = []\<rparr>"
definition ex_body1 :: body where "ex_body1 = line_body kind_signed 1 (line_hash toy_crypto ex_raw0) ex_utc ex_payload1"
definition ex_raw1 :: bytes where "ex_raw1 = assemble_line (body_json ex_body1) (b64_encode ex_zero_sig)"

definition ex_codec :: codec where
  "ex_codec =
     \<lparr>cd_line = (\<lambda>raw. map_of [(ex_raw0, \<lparr>ln_body = body_json ex_body0, ln_sig = b64_encode ex_zero_sig\<rparr>),
        (ex_raw0', \<lparr>ln_body = body_json ex_body0, ln_sig = CHR 0x0A # b64_encode ex_zero_sig\<rparr>)] raw),
      cd_body = (\<lambda>_. Some ex_body0), cd_data = (\<lambda>_ _. Some (PGenesis ex_gate))\<rparr>"

definition ex_codec1 :: codec where
  "ex_codec1 = \<lparr>cd_line = (\<lambda>_. Some \<lparr>ln_body = body_json ex_body1, ln_sig = b64_encode ex_zero_sig\<rparr>),
      cd_body = (\<lambda>_. Some ex_body1), cd_data = (\<lambda>_ _. None)\<rparr>"

lemma json_string_inj_sig: "ex_raw0' \<noteq> ex_raw0"
proof
  assume "ex_raw0' = ex_raw0"
  then have "json_string (CHR 0x0A # b64_encode ex_zero_sig) = json_string (b64_encode ex_zero_sig)"
    by (simp add: ex_raw0'_def ex_raw0_def assemble_line_def)
  then show False by (simp add: ex_zero_sig_def json_string_def utf8_step_def json_segment_def)
qed
lemma length_json_commas: "length (json_commas xs) \<le> sum_list (map length xs) + length xs"
  by (induction xs rule: json_commas.induct) auto

lemma length_assemble: "length (assemble_line b s) \<le> length b + 6 * length s + 30"
  using length_json_string [of s] by (simp add: assemble_line_def)

lemma length_raw_json: "length (raw_json d) \<le> 4 + 6 * length d"
  using length_compact [of False False d] by (auto simp: raw_json_def)

lemma length_hex: "length (sha256_hex toy_crypto m) = 64"
  by (simp add: sha256_hex_def toy_crypto_def)

lemma ex_body_size:
  "length (payload_json p) \<le> 2000 \<Longrightarrow> length prev = 64 \<Longrightarrow> n < 10 \<Longrightarrow> length (payload_type p) \<le> 20 \<Longrightarrow>
     length (body_json (line_body kind_signed n prev ex_utc p)) \<le> 20000"
proof -
  assume a: "length (payload_json p) \<le> 2000" "length prev = 64" "n < 10" "length (payload_type p) \<le> 20"
  let ?b = "line_body kind_signed n prev ex_utc p"
  let ?fs = "[int_field ''v'' (bd_v ?b), str_field ''file'' (bd_file ?b), json_field ''seq'' (nat_str (bd_seq ?b)),
      str_field ''prev'' (bd_prev ?b), str_field ''at'' (bd_at ?b), str_field ''type'' (bd_type ?b),
      json_field ''data'' (raw_json (bd_data ?b))]"
  have "length (body_json ?b) \<le> sum_list (map length ?fs) + 9"
    using length_json_commas [of ?fs] by (simp add: body_json_def json_object_def)
  also have "\<dots> \<le> 20000"
    using a length_raw_json [of "payload_json p"]
      length_json_field [of "''v''" "int_str 1"] length_json_field [of "''file''" "json_string kind_signed"]
      length_json_field [of "''seq''" "nat_str n"] length_json_field [of "''prev''" "json_string prev"]
      length_json_field [of "''at''" "json_string (format_time ex_utc)"]
      length_json_field [of "''type''" "json_string (payload_type p)"]
      length_json_field [of "''data''" "raw_json (payload_json p)"]
      length_json_string [of kind_signed] length_json_string [of prev] length_json_string [of "format_time ex_utc"]
      length_json_string [of "payload_type p"]
    by (simp add: line_body_def record_version_def kind_signed_def ex_utc_time(1) int_str_def)
  finally show ?thesis .
qed

lemma ex_gate_size: "length (payload_json (PGenesis ex_gate)) \<le> 2000"
proof -
  let ?fs = "[str_field ''machineName'' (gn_machine ex_gate), str_field ''ed25519PublicKey'' (gn_ed25519 ex_gate),
      str_field ''ed25519PublicKeySha256'' (gn_ed25519_sha256 ex_gate),
      str_field ''x25519PublicKeySha256'' (gn_x25519_sha256 ex_gate)]"
  have l: "length (gn_ed25519 ex_gate) = 44" "length (gn_ed25519_sha256 ex_gate) = 64"
    "length (gn_x25519_sha256 ex_gate) = 64" "length (gn_machine ex_gate) = 6"
    by (simp_all add: ex_gate_def length_b64_encode b64_encoded_len_def length_hex)
  show ?thesis
    using length_json_commas [of ?fs]
      length_json_field [of "''machineName''" "json_string (gn_machine ex_gate)"]
      length_json_field [of "''ed25519PublicKey''" "json_string (gn_ed25519 ex_gate)"]
      length_json_field [of "''ed25519PublicKeySha256''" "json_string (gn_ed25519_sha256 ex_gate)"]
      length_json_field [of "''x25519PublicKeySha256''" "json_string (gn_x25519_sha256 ex_gate)"]
      length_json_string [of "gn_machine ex_gate"] length_json_string [of "gn_ed25519 ex_gate"]
      length_json_string [of "gn_ed25519_sha256 ex_gate"] length_json_string [of "gn_x25519_sha256 ex_gate"] l
    by (simp add: json_object_def)
qed

lemma ex_sizes:
  "length ex_raw0 \<le> max_line_size" "length ex_raw0' \<le> max_line_size" "length ex_raw1 \<le> max_line_size"
proof -
  have s: "length (b64_encode ex_zero_sig) = 88" by (simp add: length_b64_encode b64_encoded_len_def ex_zero_sig_def)
  have b0: "length (body_json ex_body0) \<le> 20000"
    unfolding ex_body0_def by (rule ex_body_size) (use ex_gate_size in \<open>simp_all add: zero_hash_def\<close>)
  have "length (payload_json ex_payload1) \<le> 2000"
    by (simp add: ex_payload1_def json_object_def json_field_def json_string_def utf8_step_def json_segment_def)
  then have b1: "length (body_json ex_body1) \<le> 20000"
    unfolding ex_body1_def by (rule ex_body_size) (simp_all add: line_hash_def length_hex ex_payload1_def)
  show "length ex_raw0 \<le> max_line_size" "length ex_raw0' \<le> max_line_size" "length ex_raw1 \<le> max_line_size"
    using length_assemble [of "body_json ex_body0" "b64_encode ex_zero_sig"]
      length_assemble [of "body_json ex_body0" "CHR 0x0A # b64_encode ex_zero_sig"]
      length_assemble [of "body_json ex_body1" "b64_encode ex_zero_sig"] b0 b1 s
    by (simp_all add: ex_raw0_def ex_raw0'_def ex_raw1_def max_line_size_def)
qed

lemma ex_gate_valid: "genesis_validate toy_crypto ex_gate = Inr (replicate 32 (CHR ''k''))"
proof -
  have "valid_machine_name ''gate-1''" "fingerprint_valid (replicate 64 (CHR ''f''))" by code_simp+
  then show ?thesis by (simp add: genesis_validate_def ex_gate_def ed_sizes)
qed

lemma ex_zero_sig_ok: "length ex_zero_sig = ed_signature_size" "ed_verify toy_crypto pub m ex_zero_sig"
  by (simp_all add: ex_zero_sig_def ed_sizes toy_crypto_def)

definition ex_v0 :: verifier where "ex_v0 = new_verifier kind_signed (\<lambda>_. None)"

definition ex_after :: "bytes \<Rightarrow> verifier" where
  "ex_after raw = ex_v0\<lparr>vf_pub := replicate 32 (CHR ''k''), vf_genesis := ex_gate, vf_seq := 1,
     vf_tail := line_hash toy_crypto raw\<rparr>"

definition ex_first :: "bytes \<Rightarrow> entry" where
  "ex_first raw = \<lparr>en_seq = 0, en_at = bd_at ex_body0, en_type = ''genesis'', en_data = bd_data ex_body0,
     en_hash = line_hash toy_crypto raw\<rparr>"

lemma assemble_not_Nil [simp]: "assemble_line b s \<noteq> []"
  by (simp add: assemble_line_def)

lemma ex_verify_genesis: "verify_genesis toy_crypto ex_codec ex_v0 ex_body0
    = Inr (ex_v0\<lparr>vf_pub := replicate 32 (CHR ''k''), vf_genesis := ex_gate\<rparr>)"
  by (simp add: verify_genesis_def ex_body0_def line_body_def ex_codec_def dec_genesis_def ex_gate_valid
      ex_v0_def new_verifier_def)

lemma ex_verify0: "verify_line toy_crypto ex_codec ex_v0 ex_raw0 = Inr (ex_after ex_raw0, ex_first ex_raw0)"
proof -
  have "\<not> (ex_raw0 = [] \<or> max_line_size < length ex_raw0)" using ex_sizes(1) by (simp add: ex_raw0_def)
  moreover have "cd_line ex_codec ex_raw0 = Some \<lparr>ln_body = body_json ex_body0, ln_sig = b64_encode ex_zero_sig\<rparr>"
    "cd_body ex_codec (body_json ex_body0) = Some ex_body0"
    by (simp_all add: ex_codec_def)
  moreover have "bd_v ex_body0 = record_version" "bd_file ex_body0 = vf_kind ex_v0" "bd_seq ex_body0 = vf_seq ex_v0"
    "bd_prev ex_body0 = vf_tail ex_v0" "valid_rfc3339_utc (bd_at ex_body0)" "vf_seq ex_v0 = 0"
    "bd_type ex_body0 = ''genesis''"
    using ex_utc_time(2) by (simp_all add: ex_body0_def line_body_def ex_v0_def new_verifier_def)
  ultimately show ?thesis
    using ex_zero_sig_ok ex_verify_genesis
    by (simp add: verify_line_def ex_raw0_def [symmetric] Let_def ex_after_def ex_first_def)
qed

theorem line_has_two_spellings_witness:
  "\<exists>v'' e'. verify_line toy_crypto ex_codec ex_v0 ex_raw0' = Inr (v'', e') \<and> en_type e' = ''genesis'' \<and> ex_raw0' \<noteq> ex_raw0"
proof -
  have c: "cd_line ex_codec ex_raw0 = Some \<lparr>ln_body = body_json ex_body0, ln_sig = b64_encode ex_zero_sig\<rparr>"
    "cd_line ex_codec ex_raw0' = Some \<lparr>ln_body = body_json ex_body0, ln_sig = CHR 0x0A # b64_encode ex_zero_sig\<rparr>"
    using json_string_inj_sig by (simp_all add: ex_codec_def)
  show ?thesis
    using line_has_two_spellings [OF ex_verify0 [unfolded ex_raw0_def] c(1) [unfolded ex_raw0_def]
        c(2) [unfolded ex_raw0'_def] ex_sizes(2) [unfolded ex_raw0'_def]]
    by (auto simp: ex_raw0_def [symmetric] ex_raw0'_def [symmetric] ex_first_def)
qed

text \<open>Replaying nothing: the state is a unit.\<close>

definition ex_noop :: "unit \<Rightarrow> entry \<Rightarrow> replay_error + unit" where "ex_noop s e = Inr ()"

lemma file_lines_one: "no_lf raw \<Longrightarrow> file_lines (raw @ [CHR 0x0A]) = [raw]"
proof -
  have "split_on c (s @ [c]) = [s, []]" if "c \<notin> set s" for c s
    using that by (induction s) auto
  then show "no_lf raw \<Longrightarrow> file_lines (raw @ [CHR 0x0A]) = [raw]"
    by (simp add: file_lines_def no_lf_def)
qed

lemma ex_no_lf: "no_lf ex_raw0" "no_lf ex_raw0'"
proof -
  have "no_lf (body_json ex_body0)" by (rule body_json_no_lf) (simp add: ex_body0_def line_body_def del: payload_json.simps)
  then show "no_lf ex_raw0" "no_lf ex_raw0'" by (simp_all add: ex_raw0_def ex_raw0'_def assemble_line_def)
qed

lemma ex_feed0: "feed toy_crypto ex_codec ex_noop (new_verifier kind_signed (\<lambda>_. None), ()) (ex_raw0 @ [CHR 0x0A])
    = Inr (ex_after ex_raw0, ())"
  using file_lines_one [OF ex_no_lf(1)] ex_verify0
  by (simp add: feed_def file_lines_def feed_step_def ex_noop_def ex_v0_def)

theorem every_line_signed_by_pinned_key_witness:
  "genesis_validate toy_crypto ex_gate = Inr (replicate 32 (CHR ''k'')) \<and>
   list_all (signed_under toy_crypto ex_codec (replicate 32 (CHR ''k''))) (file_lines (ex_raw0 @ [CHR 0x0A]))"
  using every_line_signed_by_pinned_key [OF ex_feed0] by (simp add: ex_after_def)

text \<open>The toy hash keeps the first 32 bytes only, so the two spellings collide, as the theorem says.\<close>

lemma ex_verify0': "verify_line toy_crypto ex_codec ex_v0 ex_raw0' = Inr (ex_after ex_raw0', ex_first ex_raw0')"
proof -
  have "\<not> (ex_raw0' = [] \<or> max_line_size < length ex_raw0')" using ex_sizes(2) by (simp add: ex_raw0'_def)
  moreover have "cd_line ex_codec ex_raw0' = Some \<lparr>ln_body = body_json ex_body0, ln_sig = CHR 0x0A # b64_encode ex_zero_sig\<rparr>"
    "cd_body ex_codec (body_json ex_body0) = Some ex_body0"
    using json_string_inj_sig by (simp_all add: ex_codec_def)
  moreover have "bd_v ex_body0 = record_version" "bd_file ex_body0 = vf_kind ex_v0" "bd_seq ex_body0 = vf_seq ex_v0"
    "bd_prev ex_body0 = vf_tail ex_v0" "valid_rfc3339_utc (bd_at ex_body0)" "vf_seq ex_v0 = 0"
    "bd_type ex_body0 = ''genesis''"
    using ex_utc_time(2) by (simp_all add: ex_body0_def line_body_def ex_v0_def new_verifier_def)
  moreover have "b64_decode (CHR 0x0A # b64_encode ex_zero_sig) = Some ex_zero_sig"
    using b64_decode_skip_newline [of "[]" "b64_encode ex_zero_sig"] by simp
  ultimately show ?thesis
    using ex_zero_sig_ok ex_verify_genesis
    by (simp add: verify_line_def ex_raw0'_def [symmetric] Let_def ex_after_def ex_first_def)
qed

lemma ex_feed0': "feed toy_crypto ex_codec ex_noop (new_verifier kind_signed (\<lambda>_. None), ()) (ex_raw0' @ [CHR 0x0A])
    = Inr (ex_after ex_raw0', ())"
  using file_lines_one [OF ex_no_lf(2)] ex_verify0'
  by (simp add: feed_def file_lines_def feed_step_def ex_noop_def ex_v0_def)

theorem tip_commits_to_history_witness:
  "ex_raw0 @ [CHR 0x0A] \<noteq> ex_raw0' @ [CHR 0x0A] \<and> (\<exists>m n. sha256_collision toy_crypto m n)"
proof -
  have tk: "take 32 (assemble_line (body_json ex_body0) s) = take 32 (assemble_line (body_json ex_body0) t)" for s t
    by (simp add: assemble_line_def ex_body0_def line_body_def body_json_def json_object_def json_field_def
        json_string_def utf8_step_def json_segment_def record_version_def int_str_def digit_char_def kind_signed_def)
  have ln: "32 \<le> length (assemble_line (body_json ex_body0) s)" for s
    by (simp add: assemble_line_def ex_body0_def line_body_def body_json_def json_object_def json_field_def
        json_string_def utf8_step_def json_segment_def record_version_def int_str_def digit_char_def kind_signed_def)
  have h: "line_hash toy_crypto ex_raw0 = line_hash toy_crypto ex_raw0'"
    using tk [of "b64_encode ex_zero_sig" "CHR 0x0A # b64_encode ex_zero_sig"] ln
    by (simp add: line_hash_def sha256_hex_def toy_crypto_def ex_raw0_def ex_raw0'_def)
  have "vf_seq (ex_after ex_raw0) = vf_seq (ex_after ex_raw0')" "vf_tail (ex_after ex_raw0) = vf_tail (ex_after ex_raw0')"
    using h by (simp_all add: ex_after_def)
  then show ?thesis using tip_commits_to_history [OF ex_feed0 ex_feed0'] json_string_inj_sig by auto
qed

theorem written_line_verifies_witness:
  "verify_line toy_crypto ex_codec1 (ex_after ex_raw0) ex_raw1 =
     Inr ((ex_after ex_raw0)\<lparr>vf_seq := 2, vf_tail := line_hash toy_crypto ex_raw1\<rparr>,
       \<lparr>en_seq = 1, en_at = format_time ex_utc, en_type = ''peer-revoke'', en_data = payload_json ex_payload1,
        en_hash = line_hash toy_crypto ex_raw1\<rparr>)"
proof -
  let ?v = "ex_after ex_raw0"
  have v: "vf_kind ?v = kind_signed" "vf_seq ?v = 1" "vf_tail ?v = line_hash toy_crypto ex_raw0"
    "vf_pub ?v = ed_public toy_crypto ex_key"
    by (simp_all add: ex_after_def ex_v0_def new_verifier_def toy_crypto_def ex_key_def)
  have sig: "ed_sign toy_crypto ex_key m = ex_zero_sig" for m by (simp add: toy_crypto_def ex_zero_sig_def)
  have b: "ex_body1 = line_body (vf_kind ?v) (vf_seq ?v) (vf_tail ?v) ex_utc ex_payload1" by (simp add: v ex_body1_def)
  have enc: "encode_line toy_crypto (vf_kind ?v) (vf_seq ?v) (vf_tail ?v) ex_utc ex_payload1 ex_key = Some ex_raw1"
    using ex_sizes(3) by (simp add: encode_line_def b [symmetric] sig ex_raw1_def)
  have k: "length ex_key = ed_private_key_size" by (simp add: ex_key_def ed_sizes)
  have t: "payload_type ex_payload1 \<noteq> ''genesis''" by (simp add: ex_payload1_def)
  have c: "cd_line ex_codec1 ex_raw1 = Some \<lparr>ln_body = body_json ex_body1,
      ln_sig = b64_encode (ed_sign toy_crypto ex_key (signing_input (body_json ex_body1)))\<rparr>"
    "cd_body ex_codec1 (body_json ex_body1) = Some ex_body1"
    by (simp_all add: ex_codec1_def sig)
  have s: "vf_seq ?v \<noteq> 0" by (simp add: v)
  show ?thesis
    using written_line_verifies [OF toy_crypto_ok k v(4) s enc t ex_utc_time(2) b c]
    by (simp add: v(2)) (simp add: ex_payload1_def)
qed

end
