(* ===== verification/RecordStore.thy ===== *)
theory RecordStore
  imports ChainProps SignedLedger TrustLedger
begin

text \<open>
  The store that keeps the two record files (\<open>signing/records/store.go\<close>): opening, reading what
  other processes appended, and the all-or-nothing append.

  One file and what the process knows of it is a \<open>log_view\<close>: the verifier and offset of \<open>logFile\<close>,
  the replayed state, the bytes on disk, and the store's \<open>broken\<close> error. The mutex and the file
  locks make an operation atomic; other processes only append. What the disk does with a write is
  the parameter \<open>io\<close>.
\<close>

datatype io =
    IoOk
  | IoLockFails
  | IoShortWrite nat
  | IoSyncFails

datatype store_error =
    SeFeed feed_error
  | SeLock
  | SeWrite
  | SeMissing bytes
  | SeEmpty bytes
  | SeGenesisDiffers
  | SeKeySize
  | SeGenesis bytes
  | SeExists bytes
  | SeLineTooLong
  | SeInvalidRecord chain_error
  | SeWouldNotReplay replay_error
  | SeRefused record_error

record log_file =
  lf_verifier :: verifier
  lf_offset :: nat

record 's log_view =
  lv_file :: log_file
  lv_state :: 's
  lv_disk :: bytes
  lv_broken :: "store_error option"

type_synonym 's applier = "'s \<Rightarrow> entry \<Rightarrow> replay_error + 's"

section \<open>Reading\<close>

text \<open>
  \<open>refresh\<close>: verify and apply what lies beyond the offset. On an error the store is broken for
  good, so the lines applied before it are never seen.
\<close>

definition refresh :: "crypto \<Rightarrow> codec \<Rightarrow> 's applier \<Rightarrow> 's log_view \<Rightarrow> store_error option \<times> 's log_view" where
  "refresh K C ap lv =
     (case lv_broken lv of
        Some e \<Rightarrow> (Some e, lv)
      | None \<Rightarrow>
        let fail = (\<lambda>e. (Some (SeFeed e), lv\<lparr>lv_broken := Some (SeFeed e)\<rparr>)); size = length (lv_disk lv)
        in (case read_range (lv_disk lv) (lf_offset (lv_file lv)) size of
              Inl e \<Rightarrow> fail e
            | Inr data \<Rightarrow>
              (case feed K C ap (lf_verifier (lv_file lv), lv_state lv) data of
                 Inl e \<Rightarrow> fail e
               | Inr (v, s) \<Rightarrow> (None, lv\<lparr>lv_file := \<lparr>lf_verifier = v, lf_offset = size\<rparr>, lv_state := s\<rparr>))))"

definition read_log :: "crypto \<Rightarrow> codec \<Rightarrow> 's applier \<Rightarrow> 's log_view \<Rightarrow> ('s \<Rightarrow> 'r) \<Rightarrow> (store_error + 'r) \<times> 's log_view" where
  "read_log K C ap lv fn =
     (case refresh K C ap lv of
        (Some e, lv') \<Rightarrow> (Inl e, lv')
      | (None, lv') \<Rightarrow> (Inr (fn (lv_state lv')), lv'))"

section \<open>Appending\<close>

text \<open>One item of the dry run, on a copy of the verifier and of the state.\<close>

definition dry_step ::
    "crypto \<Rightarrow> codec \<Rightarrow> 's applier \<Rightarrow> bytes \<Rightarrow> utc \<Rightarrow> (verifier \<times> 's) \<times> bytes \<Rightarrow> payload \<Rightarrow>
     store_error + ((verifier \<times> 's) \<times> bytes)" where
  "dry_step K C ap priv now acc p =
     (let ((v, s), buf) = acc
      in case encode_line K (vf_kind v) (vf_seq v) (vf_tail v) now p priv of
           None \<Rightarrow> Inl SeLineTooLong
         | Some raw \<Rightarrow>
           (case verify_line K C v raw of
              Inl e \<Rightarrow> Inl (SeInvalidRecord e)
            | Inr (v', e) \<Rightarrow>
              (case ap s e of
                 Inl x \<Rightarrow> Inl (SeWouldNotReplay x)
               | Inr s' \<Rightarrow> Inr ((v', s'), buf @ raw @ [CHR 0x0A]))))"

text \<open>\<open>appendRecords\<close>: lock, refresh, plan, dry run, one write and sync, replay.\<close>

definition append_records ::
    "crypto \<Rightarrow> codec \<Rightarrow> 's applier \<Rightarrow> bytes \<Rightarrow> utc \<Rightarrow> io \<Rightarrow> 's log_view \<Rightarrow> ('s \<Rightarrow> record_error + ('r \<times> payload list)) \<Rightarrow>
     (store_error + 'r) \<times> 's log_view" where
  "append_records K C ap priv now io lv plan =
     (if io = IoLockFails then (Inl SeLock, lv)
      else case refresh K C ap lv of
        (Some e, lv1) \<Rightarrow> (Inl e, lv1)
      | (None, lv1) \<Rightarrow>
        (case plan (lv_state lv1) of
           Inl e \<Rightarrow> (Inl (SeRefused e), lv1)
         | Inr (r, items) \<Rightarrow>
           if items = [] then (Inr r, lv1)
           else
             (let vs = (lf_verifier (lv_file lv1), lv_state lv1)
              in case fold_res (dry_step K C ap priv now) (vs, []) items of
                Inl e \<Rightarrow> (Inl e, lv1)
              | Inr (_, data) \<Rightarrow>
                (case io of
                   IoShortWrite n \<Rightarrow>
                     (Inl SeWrite, lv1\<lparr>lv_disk := lv_disk lv1 @ take n data, lv_broken := Some SeWrite\<rparr>)
                 | IoSyncFails \<Rightarrow>
                     (Inl SeWrite, lv1\<lparr>lv_disk := lv_disk lv1 @ data, lv_broken := Some SeWrite\<rparr>)
                 | _ \<Rightarrow>
                   (case feed K C ap vs data of
                      Inl e \<Rightarrow> (Inl (SeFeed e), lv1\<lparr>lv_disk := lv_disk lv1 @ data, lv_broken := Some (SeFeed e)\<rparr>)
                    | Inr (v, s) \<Rightarrow>
                      (Inr r, lv1\<lparr>lv_disk := lv_disk lv1 @ data,
                         lv_file := \<lparr>lf_verifier = v, lf_offset = lf_offset (lv_file lv1) + length data\<rparr>,
                         lv_state := s\<rparr>))))))"

text \<open>\<open>append\<close>: one record after an optional check.\<close>

definition append_one ::
    "crypto \<Rightarrow> codec \<Rightarrow> 's applier \<Rightarrow> bytes \<Rightarrow> utc \<Rightarrow> io \<Rightarrow> 's log_view \<Rightarrow> ('s \<Rightarrow> record_error option) \<Rightarrow> payload \<Rightarrow>
     (store_error + unit) \<times> 's log_view" where
  "append_one K C ap priv now io lv check p =
     append_records K C ap priv now io lv (\<lambda>s. check_err (check s) (Inr ((), [p])))"

section \<open>Opening\<close>

definition pin_key :: "bytes \<Rightarrow> genesis \<Rightarrow> bytes option" where
  "pin_key pub g = (if gn_ed25519 g \<noteq> b64_encode pub then Some ''genesis names a different machine key'' else None)"

definition open_log :: "bytes \<Rightarrow> (genesis \<Rightarrow> bytes option) \<Rightarrow> bytes option \<Rightarrow> 's \<Rightarrow> store_error + 's log_view" where
  "open_log kind pinned content s =
     (case content of
        None \<Rightarrow> Inl (SeMissing kind)
      | Some disk \<Rightarrow>
          Inr \<lparr>lv_file = \<lparr>lf_verifier = new_verifier kind pinned, lf_offset = 0\<rparr>, lv_state = s, lv_disk = disk,
               lv_broken = None\<rparr>)"

record store =
  st_priv :: bytes
  st_trust :: "trust_state log_view"
  st_signed :: "signed_state log_view"

text \<open>
  \<open>Open\<close> on the contents of the two files (None: the file is missing). The checks of \<open>securefs\<close>
  on the directory and on the files' owner and mode are not modelled.
\<close>

definition open_store :: "crypto \<Rightarrow> codec \<Rightarrow> bytes \<Rightarrow> bytes option \<Rightarrow> bytes option \<Rightarrow> store_error + store" where
  "open_store K C priv trust sgd =
     (if length priv \<noteq> ed_private_key_size then Inl SeKeySize
      else let pinned = pin_key (ed_public K priv)
        in rbind (open_log kind_trust pinned trust new_trust_state) (\<lambda>t.
           rbind (open_log kind_signed pinned sgd new_signed_state) (\<lambda>s.
           (case refresh K C (apply_trust K (cd_data C)) t of
              (Some e, _) \<Rightarrow> Inl e
            | (None, t1) \<Rightarrow>
              (case refresh K C (apply_signed (cd_data C)) s of
                 (Some e, _) \<Rightarrow> Inl e
               | (None, s1) \<Rightarrow>
                 if vf_seq (lf_verifier (lv_file t1)) = 0 then Inl (SeEmpty kind_trust)
                 else if vf_seq (lf_verifier (lv_file s1)) = 0 then Inl (SeEmpty kind_signed)
                 else if vf_genesis (lf_verifier (lv_file t1)) \<noteq> vf_genesis (lf_verifier (lv_file s1))
                 then Inl SeGenesisDiffers
                 else Inr \<lparr>st_priv = priv, st_trust = t1, st_signed = s1\<rparr>)))))"

text \<open>\<open>Init\<close>: a genesis line in each of two new files; None stands for "does not exist yet".\<close>

definition init_genesis :: "crypto \<Rightarrow> bytes \<Rightarrow> bytes \<Rightarrow> bytes \<Rightarrow> genesis" where
  "init_genesis K machine priv x25519 =
     \<lparr>gn_machine = machine, gn_ed25519 = b64_encode (ed_public K priv),
      gn_ed25519_sha256 = sha256_hex K (ed_public K priv), gn_x25519_sha256 = x25519\<rparr>"

definition init_file :: "crypto \<Rightarrow> bytes \<Rightarrow> genesis \<Rightarrow> bytes \<Rightarrow> utc \<Rightarrow> bytes option \<Rightarrow> store_error + bytes" where
  "init_file K kind g priv now existing =
     (case encode_line K kind 0 zero_hash now (PGenesis g) priv of
        None \<Rightarrow> Inl SeLineTooLong
      | Some raw \<Rightarrow> (case existing of Some _ \<Rightarrow> Inl (SeExists kind) | None \<Rightarrow> Inr (raw @ [CHR 0x0A])))"

definition init_store ::
    "crypto \<Rightarrow> bytes \<Rightarrow> bytes \<Rightarrow> bytes \<Rightarrow> utc \<Rightarrow> utc \<Rightarrow> bytes option \<Rightarrow> bytes option \<Rightarrow> store_error + (bytes \<times> bytes)" where
  "init_store K machine priv x25519 now1 now2 trust sgd =
     (if length priv \<noteq> ed_private_key_size then Inl SeKeySize
      else let g = init_genesis K machine priv x25519
        in (case genesis_validate K g of
              Inl e \<Rightarrow> Inl (SeGenesis e)
            | Inr _ \<Rightarrow>
              rbind (init_file K kind_trust g priv now1 trust) (\<lambda>t.
              rbind (init_file K kind_signed g priv now2 sgd) (\<lambda>s. Inr (t, s)))))"

text \<open>\<open>Tips\<close>: the number of lines and the hash of the last one, of each file.\<close>

record tip =
  tp_lines :: nat
  tp_last_hash :: bytes

definition log_tip :: "'s log_view \<Rightarrow> tip" where
  "log_tip lv = \<lparr>tp_lines = vf_seq (lf_verifier (lv_file lv)), tp_last_hash = vf_tail (lf_verifier (lv_file lv))\<rparr>"

section \<open>Another gate's file\<close>

record foreign =
  fr_genesis :: genesis
  fr_lines :: nat
  fr_last_hash :: bytes
  fr_reservations :: "reservation list"
  fr_baselines :: "baseline list"

definition pin_fingerprint :: "bytes \<Rightarrow> genesis \<Rightarrow> bytes option" where
  "pin_fingerprint fp g =
     (if gn_ed25519_sha256 g \<noteq> fp then Some ''the file was written by a different signing gate'' else None)"

definition body_prefix :: bytes where
  "body_prefix = CHR ''{'' # CHR 0x22 # ''body'' @ [CHR 0x22, CHR '':'']"

text \<open>\<open>VerifyForeignSigned\<close>. The order of two baselines of one package is not determined by the source.\<close>

definition verify_foreign_signed :: "crypto \<Rightarrow> codec \<Rightarrow> bytes \<Rightarrow> bytes \<Rightarrow> store_error + foreign" where
  "verify_foreign_signed K C raw pinned =
     (if \<not> fingerprint_valid pinned then Inl (SeGenesis ''pinned'')
      else if max_file_size < length raw then Inl (SeFeed ErrTooLarge)
      else if \<not> starts_with body_prefix raw then Inl (SeFeed (ErrCorrupt (Inl LineJson)))
      else case feed K C (apply_signed (cd_data C)) (new_verifier kind_signed (pin_fingerprint pinned), new_signed_state) raw of
        Inl e \<Rightarrow> Inl (SeFeed e)
      | Inr (v, ss) \<Rightarrow>
        if vf_seq v = 0 then Inl (SeEmpty kind_signed)
        else Inr \<lparr>fr_genesis = vf_genesis v, fr_lines = vf_seq v, fr_last_hash = vf_tail v,
                  fr_reservations = filter live (ss_all ss),
                  fr_baselines = sort_key bl_package (map snd (ss_baselines ss))\<rparr>)"

section \<open>The writing methods\<close>

text \<open>What a method checks before it takes the lock, then its append.\<close>

definition guarded ::
    "record_error option \<Rightarrow> 's log_view \<Rightarrow> ((store_error + 'r) \<times> 's log_view) \<Rightarrow> (store_error + 'r) \<times> 's log_view" where
  "guarded pre lv run = (case pre of Some e \<Rightarrow> (Inl (SeRefused e), lv) | None \<Rightarrow> run)"

definition reserve ::
    "crypto \<Rightarrow> codec \<Rightarrow> bytes \<Rightarrow> utc \<Rightarrow> io \<Rightarrow> signed_state log_view \<Rightarrow> reservation \<Rightarrow> reserve_limits \<Rightarrow>
     (store_error + reservation option) \<times> signed_state log_view" where
  "reserve K C priv now io lv r lim =
     guarded (or_else (invalid (validate_reserve r)) (invalid (limits_validate lim))) lv
       (append_records K C (apply_signed (cd_data C)) priv now io lv (\<lambda>ss. plan_reserve ss r lim))"

definition mark_signed ::
    "crypto \<Rightarrow> codec \<Rightarrow> bytes \<Rightarrow> utc \<Rightarrow> io \<Rightarrow> signed_state log_view \<Rightarrow> bytes \<Rightarrow> bytes \<Rightarrow> bytes \<Rightarrow>
     (store_error + unit) \<times> signed_state log_view" where
  "mark_signed K C priv now io lv job uns sg =
     append_records K C (apply_signed (cd_data C)) priv now io lv
       (\<lambda>ss. rbind (plan_mark_signed ss job uns sg) (\<lambda>items. Inr ((), items)))"

definition complete ::
    "crypto \<Rightarrow> codec \<Rightarrow> bytes \<Rightarrow> utc \<Rightarrow> io \<Rightarrow> signed_state log_view \<Rightarrow> bytes \<Rightarrow> bytes \<Rightarrow> bytes \<Rightarrow> bytes \<Rightarrow>
     (store_error + unit) \<times> signed_state log_view" where
  "complete K C priv now io lv job uns sg rel =
     append_records K C (apply_signed (cd_data C)) priv now io lv
       (\<lambda>ss. rbind (plan_complete ss job uns sg rel) (\<lambda>items. Inr ((), items)))"

definition abandon ::
    "crypto \<Rightarrow> codec \<Rightarrow> bytes \<Rightarrow> utc \<Rightarrow> io \<Rightarrow> signed_state log_view \<Rightarrow> bytes \<Rightarrow> bytes \<Rightarrow> bytes \<Rightarrow>
     (store_error + reservation) \<times> signed_state log_view" where
  "abandon K C priv now io lv job op reason =
     guarded (invalid (validate_operator_reason op reason)) lv
       (append_records K C (apply_signed (cd_data C)) priv now io lv (\<lambda>ss. plan_abandon ss job op reason))"

definition import_reservations ::
    "crypto \<Rightarrow> codec \<Rightarrow> bytes \<Rightarrow> utc \<Rightarrow> io \<Rightarrow> signed_state log_view \<Rightarrow> bytes \<Rightarrow> reservation list \<Rightarrow> bytes \<Rightarrow>
     (store_error + nat) \<times> signed_state log_view" where
  "import_reservations K C priv now io lv source rs op =
     guarded (if \<not> fingerprint_valid source \<or> \<not> valid_operator op then Some (ErrInvalid ''import'') else None) lv
       (append_records K C (apply_signed (cd_data C)) priv now io lv (\<lambda>ss. plan_import ss source rs op))"

definition set_baseline ::
    "crypto \<Rightarrow> codec \<Rightarrow> bytes \<Rightarrow> utc \<Rightarrow> io \<Rightarrow> signed_state log_view \<Rightarrow> baseline \<Rightarrow> (store_error + unit) \<times> signed_state log_view" where
  "set_baseline K C priv now io lv b =
     guarded (invalid (baseline_validate b)) lv
       (append_one K C (apply_signed (cd_data C)) priv now io lv (\<lambda>_. None) (PBaseline b))"

text \<open>The checks that the methods on \<open>trust.jsonl\<close> make before they take the lock.\<close>

fun trust_guard :: "crypto \<Rightarrow> trust_op \<Rightarrow> record_error option" where
  "trust_guard K (OpSetRole r) = invalid (role_validate r)"
| "trust_guard K (OpPromote r) =
     (if rc_role r \<noteq> role_primary then Some ErrNotPrimary else invalid (role_validate r))"
| "trust_guard K (OpTrustBuilder b) = invalid (builder_validate b)"
| "trust_guard K (OpRevokeBuilder b op reason) =
     invalid (builder_revoke_validate \<lparr>br_builder_id = b, br_operator = op, br_reason = reason\<rparr>)"
| "trust_guard K (OpConfirm c) = invalid (confirmation_validate K c)"
| "trust_guard K (OpConfirmAuto c expected) =
     (if cf_mode c = [] then Some ErrNoMode else invalid (confirmation_validate K c))"
| "trust_guard K (OpTrustPeer p) = invalid (peer_validate p)"
| "trust_guard K (OpRevokePeer n op reason) =
     invalid (peer_revoke_validate \<lparr>pr_name = n, pr_operator = op, pr_reason = reason\<rparr>)"
| "trust_guard K (OpTrustRecovery r) = invalid (recovery_validate r)"
| "trust_guard K (OpRevokeRecovery fp op reason) =
     invalid (recovery_revoke_validate \<lparr>rr_x25519_sha256 = fp, rr_operator = op, rr_reason = reason\<rparr>)"

definition trust_method ::
    "crypto \<Rightarrow> codec \<Rightarrow> bytes \<Rightarrow> utc \<Rightarrow> io \<Rightarrow> trust_state log_view \<Rightarrow> trust_op \<Rightarrow> (store_error + unit) \<times> trust_state log_view" where
  "trust_method K C priv now io lv op =
     guarded (trust_guard K op) lv
       (append_records K C (apply_trust K (cd_data C)) priv now io lv
         (\<lambda>ts. rbind (trust_plan K (vf_genesis (lf_verifier (lv_file lv))) ts op) (\<lambda>items. Inr ((), items))))"

end
