(* ===== verification/StoreProps.thy ===== *)
theory StoreProps
  imports RecordStore
begin

text \<open>
  The properties of the store: the state is always the replay of the file, an append is all or
  nothing as long as the disk obeys, and what a failed write leaves behind.
\<close>

section \<open>Files and lines\<close>

definition lines_text :: "bytes list \<Rightarrow> bytes" where
  "lines_text ls = concat (map (\<lambda>l. l @ [CHR 0x0A]) ls)"

lemma lines_text_simps [simp]:
  "lines_text [] = []" "lines_text (l # ls) = l @ CHR 0x0A # lines_text ls"
  "lines_text (xs @ ys) = lines_text xs @ lines_text ys"
  by (simp_all add: lines_text_def)

lemma split_on_lines: "list_all no_lf ls \<Longrightarrow> split_on (CHR 0x0A) (lines_text ls) = ls @ [[]]"
  by (induction ls) (simp_all add: split_on_append_sep split_on_no_lf)

lemma file_lines_text [simp]: "list_all no_lf ls \<Longrightarrow> file_lines (lines_text ls) = ls"
  by (simp add: file_lines_def split_on_lines)

lemma last_lines_text: "ls \<noteq> [] \<Longrightarrow> lines_text ls \<noteq> [] \<and> last (lines_text ls) = CHR 0x0A"
  by (cases ls rule: rev_cases) simp_all

lemma feed_lines:
  assumes "list_all no_lf ls"
  shows "feed K C ap vs (lines_text ls) = fold_res (feed_step K C ap) vs ls"
  using assms last_lines_text [of ls] file_lines_text [OF assms]
  by (cases "ls = []") (simp_all add: feed_def file_lines_def)

lemma file_lines_no_lf: "list_all no_lf (file_lines d)"
  using split_on_lf_free by (auto simp: file_lines_def list_all_iff dest: in_set_butlastD)

lemma feed_Inr_lines:
  assumes "feed K C ap vs d = Inr vs'"
  obtains ls where "list_all no_lf ls" "d = lines_text ls" "fold_res (feed_step K C ap) vs ls = Inr vs'"
  using feed_Inr [OF assms] file_lines_no_lf [of d] by (metis lines_text_def)

lemma feed_append:
  assumes "feed K C ap vs d = Inr vs1"
  shows "feed K C ap vs (d @ d') = feed K C ap vs1 d'"
proof -
  obtain ls where ls: "list_all no_lf ls" "d = lines_text ls" "fold_res (feed_step K C ap) vs ls = Inr vs1"
    using assms by (rule feed_Inr_lines)
  show ?thesis
  proof (cases "d' = []")
    case True
    then show ?thesis using assms by (simp add: feed_def)
  next
    case ne: False
    show ?thesis
    proof (cases "last d' = CHR 0x0A")
      case False
      then show ?thesis using ne by (simp add: feed_def)
    next
      case True
      then have d': "d' = lines_text (file_lines d')" using file_lines_join [OF ne] by (simp add: lines_text_def)
      have "feed K C ap vs (d @ d') = feed K C ap vs (lines_text (ls @ file_lines d'))"
        using d' by (simp add: ls(2))
      also have "\<dots> = fold_res (feed_step K C ap) vs1 (file_lines d')"
        using ls(1,3) file_lines_no_lf [of d'] by (simp add: feed_lines fold_res_append del: lines_text_simps)
      also have "\<dots> = feed K C ap vs1 d'" using feed_lines [OF file_lines_no_lf] d' by metis
      finally show ?thesis .
    qed
  qed
qed

section \<open>The state is the replay of the file\<close>

definition consistent ::
    "crypto \<Rightarrow> codec \<Rightarrow> 's applier \<Rightarrow> verifier \<times> 's \<Rightarrow> 's log_view \<Rightarrow> bool" where
  "consistent K C ap start lv \<longleftrightarrow> lv_broken lv = None \<and> lf_offset (lv_file lv) \<le> length (lv_disk lv) \<and>
     feed K C ap start (take (lf_offset (lv_file lv)) (lv_disk lv)) = Inr (lf_verifier (lv_file lv), lv_state lv)"

text \<open>Nothing on disk is unread.\<close>

definition caught_up :: "'s log_view \<Rightarrow> bool" where
  "caught_up lv \<longleftrightarrow> lf_offset (lv_file lv) = length (lv_disk lv)"

lemma refresh_ok:
  assumes "consistent K C ap start lv" and "refresh K C ap lv = (None, lv')"
  shows "consistent K C ap start lv' \<and> caught_up lv' \<and> lv_disk lv' = lv_disk lv"
proof -
  let ?off = "lf_offset (lv_file lv)"
  obtain v s where f: "feed K C ap (lf_verifier (lv_file lv), lv_state lv) (take (length (lv_disk lv) - ?off) (drop ?off (lv_disk lv)))
      = Inr (v, s)"
    and lv': "lv' = lv\<lparr>lv_file := \<lparr>lf_verifier = v, lf_offset = length (lv_disk lv)\<rparr>, lv_state := s\<rparr>"
    using assms
    by (auto simp: refresh_def consistent_def Let_def read_range_def split: option.splits sum.splits if_splits)
  have t: "take (length (lv_disk lv) - ?off) (drop ?off (lv_disk lv)) = drop ?off (lv_disk lv)" by simp
  have "feed K C ap start (take ?off (lv_disk lv) @ drop ?off (lv_disk lv)) = Inr (v, s)"
    using feed_append assms(1) f unfolding consistent_def t by metis
  then show ?thesis using assms(1) by (simp add: lv' consistent_def caught_up_def)
qed

lemma refresh_disk: "lv_disk (snd (refresh K C ap lv)) = lv_disk lv"
  by (auto simp: refresh_def Let_def split: option.splits sum.splits)

lemma refresh_broken:
  "refresh K C ap lv = (Some e, lv') \<Longrightarrow> lv_broken lv' = Some e"
  by (auto simp: refresh_def Let_def split: option.splits sum.splits)

section \<open>The dry run\<close>

lemma dry_step_Inr:
  "dry_step K C ap priv now (vs, buf) p = Inr acc \<longleftrightarrow>
     (\<exists>raw vs'. encode_line K (vf_kind (fst vs)) (vf_seq (fst vs)) (vf_tail (fst vs)) now p priv = Some raw \<and>
        feed_step K C ap vs raw = Inr vs' \<and> acc = (vs', buf @ raw @ [CHR 0x0A]))"
  by (cases vs) (auto simp: dry_step_def feed_step_def split: option.splits sum.splits)

lemma dry_run_lines:
  assumes "fold_res (dry_step K C ap priv now) (vs, buf) items = Inr (vs', buf')"
  shows "\<exists>ls. buf' = buf @ lines_text ls \<and> length ls = length items \<and> list_all no_lf ls \<and>
    fold_res (feed_step K C ap) vs ls = Inr vs'"
  using assms
proof (induction items arbitrary: vs buf)
  case Nil
  then show ?case by (intro exI [of _ "[]"]) simp
next
  case (Cons p items)
  obtain acc where acc: "dry_step K C ap priv now (vs, buf) p = Inr acc"
    and rest: "fold_res (dry_step K C ap priv now) acc items = Inr (vs', buf')"
    using Cons.prems by (auto simp: result_simps)
  obtain raw w where e: "encode_line K (vf_kind (fst vs)) (vf_seq (fst vs)) (vf_tail (fst vs)) now p priv = Some raw"
    and w: "feed_step K C ap vs raw = Inr w" and a: "acc = (w, buf @ raw @ [CHR 0x0A])"
    using acc unfolding dry_step_Inr by blast
  obtain ls where ls: "buf' = (buf @ raw @ [CHR 0x0A]) @ lines_text ls" "length ls = length items" "list_all no_lf ls"
    "fold_res (feed_step K C ap) w ls = Inr vs'"
    using Cons.IH [OF rest [unfolded a]] by blast
  show ?case
    by (rule exI [of _ "raw # ls"]) (use ls w encode_line_no_lf [OF e] in simp)
qed

lemma dry_run_error: "fold_res (dry_step K C ap priv now) acc items = Inl e \<Longrightarrow> e \<noteq> SeWrite"
proof (induction items arbitrary: acc)
  case Nil
  then show ?case by simp
next
  case (Cons p items)
  then show ?case
    by (auto simp: result_simps dry_step_def split: prod.splits option.splits sum.splits)
qed

text \<open>Where a prefix of a batch of lines ends: at the end of a line, or inside one.\<close>

lemma take_lines:
  assumes "list_all no_lf ls"
  shows "(\<exists>k. take n (lines_text ls) = lines_text (take k ls)) \<or>
    take n (lines_text ls) \<noteq> [] \<and> last (take n (lines_text ls)) \<noteq> CHR 0x0A"
  using assms
proof (induction ls arbitrary: n)
  case Nil
  then show ?case by simp
next
  case (Cons l ls)
  show ?case
  proof (cases "n \<le> length l")
    case True
    show ?thesis
    proof (cases "n = 0")
      case True
      then show ?thesis by (intro disjI1 exI [of _ 0]) simp
    next
      case False
      then have ne: "take n l \<noteq> []" using True by (cases l) auto
      then have "last (take n l) \<in> set l" by (meson last_in_set in_set_takeD)
      then have "last (take n l) \<noteq> CHR 0x0A" using Cons.prems by (auto simp: no_lf_def)
      then show ?thesis using ne True by simp
    qed
  next
    case False
    then have t: "take n (lines_text (l # ls)) = l @ CHR 0x0A # take (n - length l - 1) (lines_text ls)"
      by (simp add: take_Cons')
    from Cons.IH [of "n - length l - 1"] Cons.prems
    consider k where "take (n - length l - 1) (lines_text ls) = lines_text (take k ls)"
      | "take (n - length l - 1) (lines_text ls) \<noteq> []" "last (take (n - length l - 1) (lines_text ls)) \<noteq> CHR 0x0A"
      by auto
    then show ?thesis
    proof cases
      case (1 k)
      then show ?thesis unfolding t by (intro disjI1 exI [of _ "Suc k"]) simp
    next
      case 2
      then show ?thesis unfolding t by simp
    qed
  qed
qed

text \<open>An invariant of the replay function holds of the state of a verified file.\<close>

lemma feed_state_inv:
  assumes "\<And>s e s'. P s \<Longrightarrow> ap s e = Inr s' \<Longrightarrow> P s'" and "P (snd vs)" and "feed K C ap vs d = Inr vs'"
  shows "P (snd vs')"
proof -
  have "fold_res (feed_step K C ap) vs (file_lines d) = Inr vs'" using feed_Inr(1) [OF assms(3)] .
  then show ?thesis
    by (rule fold_res_inv [where P = "\<lambda>vs. P (snd vs)", rotated 2])
      (use assms(1,2) in \<open>auto simp: feed_step_Inr\<close>)
qed

section \<open>Properties\<close>


text \<open>
  A write that fails stops the store: nothing is written any more and every later
  read and append returns the failure.
\<close>

theorem failed_write_latches:
  assumes "append_records K C ap priv now io lv plan = (Inl SeWrite, lv')" and "lv_broken lv = None"
  shows "lv_broken lv' = Some SeWrite \<and> (\<forall>fn. read_log K C ap lv' fn = (Inl SeWrite, lv')) \<and>
    (\<forall>priv' now' io' plan'. io' \<noteq> IoLockFails \<longrightarrow>
       append_records K C ap priv' now' io' lv' plan' = (Inl SeWrite, lv'))"
proof -
  have b: "lv_broken lv' = Some SeWrite"
    using assms
    by (auto simp: append_records_def Let_def split: if_splits option.splits prod.splits sum.splits io.splits
        dest: refresh_broken dry_run_error)
  then show ?thesis by (simp add: read_log_def append_records_def refresh_def)
qed

text \<open>
  Property C39. What a short write leaves: a store opened on the file afterwards either refuses
  it for its torn tail, or replays the old file and a prefix of the batch. A batch that was cut
  between two lines is not detected.
\<close>

theorem short_write_outcomes:
  assumes "consistent K C ap start lv"
    and "append_records K C ap priv now (IoShortWrite n) lv plan = (Inl SeWrite, lv')"
  shows "feed K C ap start (lv_disk lv') = Inl ErrTornTail \<or>
    (\<exists>vs x items ls whole k part. feed K C ap start (lv_disk lv) = Inr vs \<and> plan (snd vs) = Inr (x, items) \<and>
       length ls = length items \<and> fold_res (feed_step K C ap) vs ls = Inr whole \<and>
       lv_disk lv' = lv_disk lv @ lines_text (take k ls) \<and>
       fold_res (feed_step K C ap) vs (take k ls) = Inr part \<and> feed K C ap start (lv_disk lv') = Inr part)"
proof -
  obtain er lv1 where r: "refresh K C ap lv = (er, lv1)" by fastforce
  have er: "er = None"
  proof (cases er)
    case (Some e)
    have "refresh K C ap lv = (Some SeWrite, lv')" using assms(2) by (simp add: append_records_def r Some)
    then show ?thesis using assms(1)
      by (auto simp: refresh_def consistent_def Let_def split: sum.splits)
  qed simp
  have c1: "consistent K C ap start lv1" "caught_up lv1" "lv_disk lv1 = lv_disk lv"
    using refresh_ok [OF assms(1)] r er by auto
  have f1: "feed K C ap start (lv_disk lv) = Inr (lf_verifier (lv_file lv1), lv_state lv1)"
    using c1 by (simp add: consistent_def caught_up_def)
  let ?vs = "(lf_verifier (lv_file lv1), lv_state lv1)"
  obtain x items where q: "plan (lv_state lv1) = Inr (x, items)" "items \<noteq> []"
    using assms(2) by (auto simp: append_records_def r er split: sum.splits if_splits)
  obtain vs' data where d: "fold_res (dry_step K C ap priv now) (?vs, []) items = Inr (vs', data)"
    and disk: "lv_disk lv' = lv_disk lv1 @ take n data"
    using assms(2) q by (auto simp: append_records_def r er Let_def split: sum.splits dest: dry_run_error)
  obtain ls where ls: "data = lines_text ls" "length ls = length items" "list_all no_lf ls"
    "fold_res (feed_step K C ap) ?vs ls = Inr vs'"
    using dry_run_lines [OF d] by auto
  have fd: "feed K C ap start (lv_disk lv') = feed K C ap ?vs (take n (lines_text ls))"
    using feed_append [OF f1] by (simp add: disk c1(3) ls(1))
  from take_lines [OF ls(3), of n] show ?thesis
  proof
    assume "\<exists>k. take n (lines_text ls) = lines_text (take k ls)"
    then obtain k where k: "take n (lines_text ls) = lines_text (take k ls)" by blast
    have "fold_res (feed_step K C ap) ?vs (take k ls @ drop k ls) = Inr vs'" using ls(4) by simp
    then obtain w where w: "fold_res (feed_step K C ap) ?vs (take k ls) = Inr w"
      unfolding fold_res_append by (auto simp: result_simps)
    have "list_all no_lf (take k ls)" using ls(3) by (auto simp: list_all_iff dest: in_set_takeD)
    then have "feed K C ap start (lv_disk lv') = Inr w" using fd k w by (simp add: feed_lines)
    then show ?thesis using f1 q(1) ls w k disk c1(3)
      by (intro disjI2 exI [of _ ?vs] exI [of _ x] exI [of _ items] exI [of _ ls] exI [of _ vs'] exI [of _ k] exI [of _ w]) simp
  next
    assume "take n (lines_text ls) \<noteq> [] \<and> last (take n (lines_text ls)) \<noteq> CHR 0x0A"
    then have "feed K C ap ?vs (take n (lines_text ls)) = Inl ErrTornTail" by (simp add: feed_def)
    then show ?thesis using fd by simp
  qed
qed

text \<open>
  A store that opens has replayed both files to the end, from their first lines;
  both are signed under this machine's key and name the same machine.
\<close>

theorem open_store_sound:
  assumes "open_store K C priv (Some t) (Some s) = Inr st"
  shows "consistent K C (apply_trust K (cd_data C))
      (new_verifier kind_trust (pin_key (ed_public K priv)), new_trust_state) (st_trust st) \<and>
    consistent K C (apply_signed (cd_data C))
      (new_verifier kind_signed (pin_key (ed_public K priv)), new_signed_state) (st_signed st) \<and>
    caught_up (st_trust st) \<and> caught_up (st_signed st) \<and> lv_disk (st_trust st) = t \<and> lv_disk (st_signed st) = s \<and>
    vf_genesis (lf_verifier (lv_file (st_trust st))) = vf_genesis (lf_verifier (lv_file (st_signed st))) \<and>
    wf_trust K (lv_state (st_trust st)) \<and> wf_signed (lv_state (st_signed st))"
proof -
  define p where "p = pin_key (ed_public K priv)"
  define t0 where "t0 = \<lparr>lv_file = \<lparr>lf_verifier = new_verifier kind_trust p, lf_offset = 0\<rparr>,
    lv_state = new_trust_state, lv_disk = t, lv_broken = None\<rparr>"
  define s0 where "s0 = \<lparr>lv_file = \<lparr>lf_verifier = new_verifier kind_signed p, lf_offset = 0\<rparr>,
    lv_state = new_signed_state, lv_disk = s, lv_broken = None\<rparr>"
  obtain t1 s1 where t1: "refresh K C (apply_trust K (cd_data C)) t0 = (None, t1)"
    and s1: "refresh K C (apply_signed (cd_data C)) s0 = (None, s1)"
    and st: "st = \<lparr>st_priv = priv, st_trust = t1, st_signed = s1\<rparr>"
    and g: "vf_genesis (lf_verifier (lv_file t1)) = vf_genesis (lf_verifier (lv_file s1))"
    using assms
    by (auto simp: open_store_def open_log_def Let_def p_def [symmetric] t0_def [symmetric] s0_def [symmetric]
        split: if_splits option.splits prod.splits)
  have ct: "consistent K C (apply_trust K (cd_data C)) (new_verifier kind_trust p, new_trust_state) t0"
    by (simp add: consistent_def t0_def feed_def)
  have cs: "consistent K C (apply_signed (cd_data C)) (new_verifier kind_signed p, new_signed_state) s0"
    by (simp add: consistent_def s0_def feed_def)
  have rt: "consistent K C (apply_trust K (cd_data C)) (new_verifier kind_trust p, new_trust_state) t1 \<and>
      caught_up t1 \<and> lv_disk t1 = t"
    using refresh_ok [OF ct t1] by (simp add: t0_def)
  have rs: "consistent K C (apply_signed (cd_data C)) (new_verifier kind_signed p, new_signed_state) s1 \<and>
      caught_up s1 \<and> lv_disk s1 = s"
    using refresh_ok [OF cs s1] by (simp add: s0_def)
  have wt: "wf_trust K (lv_state t1)"
    using feed_state_inv [of "wf_trust K" "apply_trust K (cd_data C)"] apply_trust_wf new_trust_state_wf rt
    unfolding consistent_def by (metis snd_conv)
  have ws: "wf_signed (lv_state s1)"
    using feed_state_inv [of wf_signed "apply_signed (cd_data C)"] apply_signed_wf new_signed_state_wf rs
    unfolding consistent_def by (metis snd_conv)
  show ?thesis using rt rs g wt ws by (simp add: st p_def)
qed

section \<open>Witnesses\<close>

text \<open>A log that stands behind the genesis line of \<open>ChainProps\<close>, with an empty disk after it.\<close>

definition ex_start :: "verifier \<times> unit" where "ex_start = (ex_after ex_raw0, ())"

definition ex_view :: "unit log_view" where
  "ex_view = \<lparr>lv_file = \<lparr>lf_verifier = ex_after ex_raw0, lf_offset = 0\<rparr>, lv_state = (), lv_disk = [], lv_broken = None\<rparr>"

definition ex_plan :: "unit \<Rightarrow> record_error + (unit \<times> payload list)" where
  "ex_plan s = Inr ((), [ex_payload1])"

lemma ex_view_consistent: "consistent toy_crypto ex_codec1 ex_noop ex_start ex_view"
  by (simp add: consistent_def ex_view_def ex_start_def feed_def)

lemma ex_view_refresh: "refresh toy_crypto ex_codec1 ex_noop ex_view = (None, ex_view)"
  by (simp add: refresh_def ex_view_def read_range_def feed_def)

lemma ex_encode1:
  "encode_line toy_crypto (vf_kind (ex_after ex_raw0)) (vf_seq (ex_after ex_raw0)) (vf_tail (ex_after ex_raw0))
     ex_utc ex_payload1 ex_key = Some ex_raw1"
proof -
  have "ed_sign toy_crypto ex_key m = ex_zero_sig" for m by (simp add: toy_crypto_def ex_zero_sig_def)
  moreover have "line_body (vf_kind (ex_after ex_raw0)) (vf_seq (ex_after ex_raw0)) (vf_tail (ex_after ex_raw0))
     ex_utc ex_payload1 = ex_body1"
    by (simp add: ex_after_def ex_v0_def new_verifier_def ex_body1_def)
  ultimately show ?thesis using ex_sizes(3) by (simp add: encode_line_def ex_raw1_def)
qed

definition ex_after1 :: verifier where
  "ex_after1 = (ex_after ex_raw0)\<lparr>vf_seq := 2, vf_tail := line_hash toy_crypto ex_raw1\<rparr>"

lemma ex_verify1: "\<exists>e. verify_line toy_crypto ex_codec1 (ex_after ex_raw0) ex_raw1 = Inr (ex_after1, e)"
proof -
  have "\<not> (ex_raw1 = [] \<or> max_line_size < length ex_raw1)" using ex_sizes(3) by (simp add: ex_raw1_def)
  moreover have "verify_genesis toy_crypto ex_codec1 (ex_after ex_raw0) ex_body1 = Inr (ex_after ex_raw0)"
    by (simp add: verify_genesis_def ex_body1_def line_body_def ex_payload1_def)
  moreover have "bd_v ex_body1 = record_version" "bd_file ex_body1 = vf_kind (ex_after ex_raw0)"
    "bd_seq ex_body1 = vf_seq (ex_after ex_raw0)" "bd_prev ex_body1 = vf_tail (ex_after ex_raw0)"
    "valid_rfc3339_utc (bd_at ex_body1)" "vf_seq (ex_after ex_raw0) = 1"
    using ex_utc_time(2) by (simp_all add: ex_body1_def line_body_def ex_after_def ex_v0_def new_verifier_def)
  ultimately show ?thesis
    using ex_zero_sig_ok
    by (simp add: verify_line_def ex_codec1_def ex_raw1_def [symmetric] Let_def ex_after1_def numeral_2_eq_2)
qed

lemma ex_dry: "fold_res (dry_step toy_crypto ex_codec1 ex_noop ex_key ex_utc) ((ex_after ex_raw0, ()), []) [ex_payload1]
    = Inr ((ex_after1, ()), ex_raw1 @ [CHR 0x0A])"
  using ex_encode1 ex_verify1 by (auto simp: dry_step_def ex_noop_def)

lemma ex_feed1: "feed toy_crypto ex_codec1 ex_noop (ex_after ex_raw0, ()) (ex_raw1 @ [CHR 0x0A]) = Inr (ex_after1, ())"
proof -
  have "no_lf ex_raw1" using ex_encode1 by (rule encode_line_no_lf)
  then have "feed toy_crypto ex_codec1 ex_noop (ex_after ex_raw0, ()) (lines_text [ex_raw1])
      = fold_res (feed_step toy_crypto ex_codec1 ex_noop) (ex_after ex_raw0, ()) [ex_raw1]"
    by (intro feed_lines) simp
  then show ?thesis using ex_verify1 by (auto simp: feed_step_def ex_noop_def)
qed

lemma ex_append:
  "append_records toy_crypto ex_codec1 ex_noop ex_key ex_utc IoOk ex_view ex_plan =
     (Inr (), ex_view\<lparr>lv_disk := ex_raw1 @ [CHR 0x0A],
        lv_file := \<lparr>lf_verifier = ex_after1, lf_offset = length (ex_raw1 @ [CHR 0x0A])\<rparr>\<rparr>)"
  "append_records toy_crypto ex_codec1 ex_noop ex_key ex_utc IoSyncFails ex_view ex_plan =
     (Inl SeWrite, ex_view\<lparr>lv_disk := ex_raw1 @ [CHR 0x0A], lv_broken := Some SeWrite\<rparr>)"
  "append_records toy_crypto ex_codec1 ex_noop ex_key ex_utc (IoShortWrite 3) ex_view ex_plan =
     (Inl SeWrite, ex_view\<lparr>lv_disk := take 3 (ex_raw1 @ [CHR 0x0A]), lv_broken := Some SeWrite\<rparr>)"
  using ex_dry ex_feed1
  by (simp_all add: append_records_def ex_view_refresh ex_plan_def Let_def)
    (simp_all add: ex_view_def)


theorem failed_write_latches_witness:
  "lv_broken (snd (append_records toy_crypto ex_codec1 ex_noop ex_key ex_utc IoSyncFails ex_view ex_plan)) = Some SeWrite"
proof -
  have "lv_broken ex_view = None" by (simp add: ex_view_def)
  from failed_write_latches [OF ex_append(2) this] show ?thesis unfolding ex_append(2) by simp
qed

theorem short_write_outcomes_witness:
  "feed toy_crypto ex_codec1 ex_noop ex_start (take 3 (ex_raw1 @ [CHR 0x0A])) = Inl ErrTornTail \<or>
   (\<exists>k v. lines_text (take k [v]) = take 3 (ex_raw1 @ [CHR 0x0A]))"
  using short_write_outcomes [OF ex_view_consistent ex_append(3)]
proof
  assume "\<exists>vs x items ls whole k part. feed toy_crypto ex_codec1 ex_noop ex_start (lv_disk ex_view) = Inr vs \<and>
       ex_plan (snd vs) = Inr (x, items) \<and> length ls = length items \<and>
       fold_res (feed_step toy_crypto ex_codec1 ex_noop) vs ls = Inr whole \<and>
       lv_disk (ex_view\<lparr>lv_disk := take 3 (ex_raw1 @ [CHR 0x0A]), lv_broken := Some SeWrite\<rparr>) =
         lv_disk ex_view @ lines_text (take k ls) \<and>
       fold_res (feed_step toy_crypto ex_codec1 ex_noop) vs (take k ls) = Inr part \<and>
       feed toy_crypto ex_codec1 ex_noop ex_start
         (lv_disk (ex_view\<lparr>lv_disk := take 3 (ex_raw1 @ [CHR 0x0A]), lv_broken := Some SeWrite\<rparr>)) = Inr part"
  then obtain ls k where "length ls = Suc 0" "take 3 (ex_raw1 @ [CHR 0x0A]) = lines_text (take k ls)"
    by (auto simp: ex_plan_def ex_view_def)
  then show ?thesis by (auto simp: length_Suc_conv)
qed simp

text \<open>A pair of fresh files, as \<open>Init\<close> leaves them, and decoders that read them.\<close>

definition ex_trust_body :: body where "ex_trust_body = line_body kind_trust 0 zero_hash ex_utc (PGenesis ex_gate)"
definition ex_trust_raw :: bytes where "ex_trust_raw = assemble_line (body_json ex_trust_body) (b64_encode ex_zero_sig)"

definition ex_open_codec :: codec where
  "ex_open_codec =
     \<lparr>cd_line = (\<lambda>raw. map_of [(ex_raw0, \<lparr>ln_body = body_json ex_body0, ln_sig = b64_encode ex_zero_sig\<rparr>),
        (ex_trust_raw, \<lparr>ln_body = body_json ex_trust_body, ln_sig = b64_encode ex_zero_sig\<rparr>)] raw),
      cd_body = (\<lambda>raw. map_of [(body_json ex_body0, ex_body0), (body_json ex_trust_body, ex_trust_body)] raw),
      cd_data = (\<lambda>_ _. Some (PGenesis ex_gate))\<rparr>"

lemma ex_bodies_differ: "body_json ex_trust_body \<noteq> body_json ex_body0"
  by (simp add: ex_trust_body_def ex_body0_def line_body_def body_json_def json_object_def json_field_def
      json_string_def utf8_step_def json_segment_def kind_trust_def kind_signed_def)

lemma ex_raws_differ: "ex_trust_raw \<noteq> ex_raw0"
  using ex_bodies_differ by (simp add: ex_trust_raw_def ex_raw0_def assemble_line_def)

lemma ex_trust_size: "length ex_trust_raw \<le> max_line_size"
proof -
  let ?b = ex_trust_body
  have p: "length (payload_json (PGenesis ex_gate)) \<le> 2000" by (rule ex_gate_size)
  have e: "length (body_json ?b) \<le> length (body_json ex_body0) + 100"
    by (simp add: ex_trust_body_def ex_body0_def line_body_def body_json_def json_object_def json_field_def
      json_string_def utf8_step_def json_segment_def kind_trust_def kind_signed_def)
  have "length (body_json ex_body0) \<le> 20000"
    unfolding ex_body0_def by (rule ex_body_size) (use p in \<open>simp_all add: zero_hash_def\<close>)
  moreover have "length (b64_encode ex_zero_sig) = 88"
    by (simp add: length_b64_encode b64_encoded_len_def ex_zero_sig_def)
  ultimately show ?thesis using length_assemble [of "body_json ?b" "b64_encode ex_zero_sig"] e
    by (simp add: ex_trust_raw_def max_line_size_def)
qed

text \<open>A genesis line of either kind verifies under the pin of its own key.\<close>

lemma ex_open_verify:
  assumes "b = line_body kind 0 zero_hash ex_utc (PGenesis ex_gate)"
    and "raw = assemble_line (body_json b) (b64_encode ex_zero_sig)" and "length raw \<le> max_line_size"
    and "cd_line C raw = Some \<lparr>ln_body = body_json b, ln_sig = b64_encode ex_zero_sig\<rparr>"
    and "cd_body C (body_json b) = Some b" and "cd_data C = (\<lambda>_ _. Some (PGenesis ex_gate))"
    and "v = new_verifier kind (pin_key (ed_public toy_crypto ex_key))"
  shows "verify_line toy_crypto C v raw =
    Inr (v\<lparr>vf_pub := replicate 32 (CHR ''k''), vf_genesis := ex_gate, vf_seq := 1, vf_tail := line_hash toy_crypto raw\<rparr>,
      \<lparr>en_seq = 0, en_at = bd_at b, en_type = ''genesis'', en_data = bd_data b, en_hash = line_hash toy_crypto raw\<rparr>)"
proof -
  have ne: "raw \<noteq> []" by (simp add: assms(2))
  have pin: "pin_key (ed_public toy_crypto ex_key) ex_gate = None"
    by (simp add: pin_key_def ex_gate_def toy_crypto_def ex_key_def)
  have vf: "vf_kind v = kind" "vf_seq v = 0" "vf_tail v = zero_hash" "vf_pinned v = pin_key (ed_public toy_crypto ex_key)"
    by (simp_all add: assms(7) new_verifier_def)
  have bd: "bd_v b = record_version" "bd_file b = kind" "bd_seq b = 0" "bd_prev b = zero_hash" "bd_type b = ''genesis''"
    "valid_rfc3339_utc (bd_at b)"
    using ex_utc_time(2) by (simp_all add: assms(1) line_body_def)
  have "verify_genesis toy_crypto C v b = Inr (v\<lparr>vf_pub := replicate 32 (CHR ''k''), vf_genesis := ex_gate\<rparr>)"
    using pin by (simp add: verify_genesis_def bd assms(6) dec_genesis_def ex_gate_valid vf)
  then show ?thesis using ne assms(3,4,5) ex_zero_sig_ok bd vf
    by (simp add: verify_line_def assms(2) [symmetric] Let_def)
qed

lemma ex_refresh_genesis:
  assumes "verify_line toy_crypto C v raw = Inr (v', e)" and "ap s e = Inr s" and "no_lf raw"
    and "length (raw @ [CHR 0x0A]) \<le> max_file_size"
  shows "refresh toy_crypto C ap
      \<lparr>lv_file = \<lparr>lf_verifier = v, lf_offset = 0\<rparr>, lv_state = s, lv_disk = raw @ [CHR 0x0A], lv_broken = None\<rparr> =
    (None, \<lparr>lv_file = \<lparr>lf_verifier = v', lf_offset = length (raw @ [CHR 0x0A])\<rparr>, lv_state = s,
       lv_disk = raw @ [CHR 0x0A], lv_broken = None\<rparr>)"
proof -
  have "feed toy_crypto C ap (v, s) (lines_text [raw]) = fold_res (feed_step toy_crypto C ap) (v, s) [raw]"
    using assms(3) by (intro feed_lines) simp
  then have "feed toy_crypto C ap (v, s) (raw @ [CHR 0x0A]) = Inr (v', s)"
    using assms(1,2) by (simp add: feed_step_def)
  then show ?thesis using assms(4) by (simp add: refresh_def read_range_def)
qed

theorem open_store_sound_witness:
  "\<exists>st. open_store toy_crypto ex_open_codec ex_key (Some (ex_trust_raw @ [CHR 0x0A])) (Some (ex_raw0 @ [CHR 0x0A])) = Inr st \<and>
     caught_up (st_trust st) \<and> caught_up (st_signed st) \<and> lv_disk (st_signed st) = ex_raw0 @ [CHR 0x0A]"
proof -
  have data: "cd_data ex_open_codec = (\<lambda>_ _. Some (PGenesis ex_gate))" by (simp add: ex_open_codec_def)
  have ct: "cd_line ex_open_codec ex_trust_raw = Some \<lparr>ln_body = body_json ex_trust_body, ln_sig = b64_encode ex_zero_sig\<rparr>"
    "cd_body ex_open_codec (body_json ex_trust_body) = Some ex_trust_body"
    using ex_raws_differ ex_bodies_differ by (simp_all add: ex_open_codec_def)
  have cs: "cd_line ex_open_codec ex_raw0 = Some \<lparr>ln_body = body_json ex_body0, ln_sig = b64_encode ex_zero_sig\<rparr>"
    "cd_body ex_open_codec (body_json ex_body0) = Some ex_body0"
    by (simp_all add: ex_open_codec_def)
  note vt = ex_open_verify [OF ex_trust_body_def ex_trust_raw_def ex_trust_size ct data refl]
  note vs = ex_open_verify [OF ex_body0_def ex_raw0_def ex_sizes(1) cs data refl]
  have "no_lf (body_json ex_trust_body)"
    by (rule body_json_no_lf) (simp add: ex_trust_body_def line_body_def del: payload_json.simps)
  then have nt: "no_lf ex_trust_raw" by (simp add: ex_trust_raw_def assemble_line_def)
  have sz: "length (ex_trust_raw @ [CHR 0x0A]) \<le> max_file_size" "length (ex_raw0 @ [CHR 0x0A]) \<le> max_file_size"
    using ex_trust_size ex_sizes(1) by (simp_all add: max_line_size_def max_file_size_def)
  have at: "apply_trust toy_crypto dec s \<lparr>en_seq = n, en_at = a, en_type = ''genesis'', en_data = d, en_hash = h\<rparr> = Inr s"
    for dec s n a d h by (simp add: apply_trust_def)
  have as: "apply_signed dec s \<lparr>en_seq = n, en_at = a, en_type = ''genesis'', en_data = d, en_hash = h\<rparr> = Inr s"
    for dec s n a d h by (simp add: apply_signed_def)
  have "length ex_key = ed_private_key_size" by (simp add: ex_key_def ed_sizes)
  then obtain st where st: "open_store toy_crypto ex_open_codec ex_key (Some (ex_trust_raw @ [CHR 0x0A]))
      (Some (ex_raw0 @ [CHR 0x0A])) = Inr st"
    using ex_refresh_genesis [where ap = "apply_trust toy_crypto (cd_data ex_open_codec)" and s = new_trust_state,
        OF vt at nt sz(1)]
      ex_refresh_genesis [where ap = "apply_signed (cd_data ex_open_codec)" and s = new_signed_state,
        OF vs as ex_no_lf(1) sz(2)]
    by (auto simp: open_store_def open_log_def Let_def)
  from open_store_sound [OF st] st show ?thesis by blast
qed

end
