(* ===== verification/AxmlValue.thy ===== *)
theory AxmlValue
  imports GoText
begin

unbundle bit_operations_syntax

text \<open>
  The data of package \<open>signing/apk/axml\<close>: typed attribute values (\<open>value.go\<close>), elements and
  attributes (the types of \<open>decode.go\<close>) and the table of framework attributes (\<open>attrs.go\<close>).
  The table is loaded from the text embedded with \<open>go:embed\<close>; that text is the argument of
  \<open>load_framework\<close>.
\<close>

section \<open>Typed values\<close>

definition android_ns :: bytes where
  "android_ns = ''http://schemas.android.com/apk/res/android''"

definition type_string :: "8 word" where "type_string = 0x03"
definition type_dynamic_attribute :: "8 word" where "type_dynamic_attribute = 0x08"
definition type_int_dec :: "8 word" where "type_int_dec = 0x10"
definition type_int_hex :: "8 word" where "type_int_hex = 0x11"
definition type_int_boolean :: "8 word" where "type_int_boolean = 0x12"
definition type_int_color_argb8 :: "8 word" where "type_int_color_argb8 = 0x1c"
definition type_int_color_rgb4 :: "8 word" where "type_int_color_rgb4 = 0x1f"

lemmas value_types =
  type_string_def type_dynamic_attribute_def type_int_dec_def type_int_hex_def
  type_int_boolean_def type_int_color_argb8_def type_int_color_rgb4_def

record axml_value =
  val_type :: "8 word"
  val_data :: "32 word"
  val_string :: bytes

definition no_value :: axml_value where
  "no_value = \<lparr>val_type = 0, val_data = 0, val_string = []\<rparr>"

text \<open>\<open>Value.Bool\<close>: a boolean literal is true when its data is not zero.\<close>

definition value_bool :: "axml_value \<Rightarrow> bool option" where
  "value_bool v = (if val_type v \<noteq> type_int_boolean then None else Some (val_data v \<noteq> 0))"

text \<open>\<open>Value.Int\<close>: \<open>int64(int32(v.Data))\<close>.\<close>

definition value_int :: "axml_value \<Rightarrow> int option" where
  "value_int v =
     (if val_type v \<noteq> type_int_dec \<and> val_type v \<noteq> type_int_hex then None
      else Some (sint (val_data v)))"

definition value_str :: "axml_value \<Rightarrow> bytes option" where
  "value_str v = (if val_type v \<noteq> type_string then None else Some (val_string v))"

definition valid_type :: "8 word \<Rightarrow> bool" where
  "valid_type t \<longleftrightarrow>
     t \<le> type_dynamic_attribute \<or> type_int_dec \<le> t \<and> t \<le> type_int_boolean \<or>
     type_int_color_argb8 \<le> t \<and> t \<le> type_int_color_rgb4"

datatype axml_code =
    AxmlMalformed | AxmlStringPool | AxmlStringBudget | AxmlStringControl
  | AxmlUnknownFrameworkAttribute | AxmlAttributeIdMismatch | AxmlNamespace
  | AxmlDuplicateAttribute | AxmlAttributeOrder | AxmlRawValueMismatch

lemma value_int_range: "value_int v = Some n \<Longrightarrow> - (2 ^ 31) \<le> n \<and> n < 2 ^ 31"
  using sint_greater_eq [of "val_data v"] sint_less [of "val_data v"]
  by (auto simp: value_int_def split: if_splits)

text \<open>A value is read in at most one way.\<close>

lemma value_readings:
  "value_bool v = Some b \<Longrightarrow> value_int v = None \<and> value_str v = None"
  "value_int v = Some n \<Longrightarrow> value_bool v = None \<and> value_str v = None"
  "value_str v = Some s \<Longrightarrow> value_bool v = None \<and> value_int v = None"
  by (auto simp: value_bool_def value_int_def value_str_def value_types split: if_splits)

section \<open>Elements\<close>

record attribute =
  at_namespace :: bytes
  at_name :: bytes
  at_resource_id :: "32 word"
  at_value :: axml_value

datatype element =
  Element (el_name: bytes) (el_attrs: "attribute list") (el_children: "element list") (el_line: "32 word")

text \<open>\<open>Element.Attr\<close> and \<open>Element.AttrByName\<close>: the first attribute that matches.\<close>

definition el_attr :: "element \<Rightarrow> 32 word \<Rightarrow> attribute option" where
  "el_attr e rid = find (\<lambda>a. at_resource_id a = rid) (el_attrs e)"

definition el_attr_by_name :: "element \<Rightarrow> bytes \<Rightarrow> bytes \<Rightarrow> attribute option" where
  "el_attr_by_name e ns name = find (\<lambda>a. at_namespace a = ns \<and> at_name a = name) (el_attrs e)"

text \<open>The elements of a tree, the root first.\<close>

fun subelements :: "element \<Rightarrow> element list" where
  "subelements (Element n as cs l) = Element n as cs l # concat (map subelements cs)"

lemma subelements_self [simp]: "e \<in> set (subelements e)"
  by (cases e) simp

lemma subelements_children: "set (subelements e) = insert e (\<Union>c\<in>set (el_children e). set (subelements c))"
  by (cases e) auto

section \<open>The framework attribute table\<close>

type_synonym framework = "(bytes \<times> 32 word) list"

text \<open>\<open>FrameworkAttrID\<close> and \<open>FrameworkAttrName\<close>.\<close>

definition framework_attr_id :: "framework \<Rightarrow> bytes \<Rightarrow> 32 word option" where
  "framework_attr_id T name = map_of T name"

definition framework_attr_name :: "framework \<Rightarrow> 32 word \<Rightarrow> bytes option" where
  "framework_attr_name T rid = map_of (map (\<lambda>(n, i). (i, n)) T) rid"

datatype framework_panic = LineMalformed | BadId | NameTwice | IdTwice | ConstantDisagrees bytes

text \<open>
  \<open>strings.Fields\<close> on a line of the table. The table is ASCII, so white space is the six ASCII
  space characters.
\<close>

definition ascii_space :: "char \<Rightarrow> bool" where
  "ascii_space c \<longleftrightarrow> c \<in> {CHR '' '', CHR 0x09, CHR 0x0A, CHR 0x0B, CHR 0x0C, CHR 0x0D}"

definition words_of :: "bytes \<Rightarrow> bytes list" where
  "words_of s =
     filter (\<lambda>w. w \<noteq> []) (split_on (CHR '' '') (map (\<lambda>c. if ascii_space c then CHR '' '' else c) s))"

definition hex_value :: "char \<Rightarrow> nat" where
  "hex_value c =
     (if is_digit c then of_char c - 48 else if is_lower c then of_char c - 87 else of_char c - 55)"

text \<open>\<open>strconv.ParseUint(s, 16, 32)\<close>.\<close>

definition parse_hex32 :: "bytes \<Rightarrow> 32 word option" where
  "parse_hex32 s =
     (let n = foldl (\<lambda>n c. 16 * n + hex_value c) 0 s
      in if s \<noteq> [] \<and> list_all is_hex s \<and> n < 2 ^ 32 then Some (of_nat n) else None)"

definition framework_line :: "framework \<Rightarrow> bytes \<Rightarrow> framework_panic + framework" where
  "framework_line T raw =
     (let line = trim_space raw
      in if line = [] \<or> starts_with ''#'' line then Inr T
         else case words_of line of
           [name, id_text] \<Rightarrow>
             if \<not> starts_with ''0x'' id_text then Inl LineMalformed
             else (case parse_hex32 (drop 2 id_text) of
                 None \<Rightarrow> Inl BadId
               | Some rid \<Rightarrow>
                   if drop_bit 24 rid \<noteq> 0x01 then Inl BadId
                   else if framework_attr_id T name \<noteq> None then Inl NameTwice
                   else if framework_attr_name T rid \<noteq> None then Inl IdTwice
                   else Inr (T @ [(name, rid)]))
         | _ \<Rightarrow> Inl LineMalformed)"

definition load_framework :: "bytes \<Rightarrow> framework_panic + framework" where
  "load_framework text = fold_res framework_line [] (split_on (CHR 0x0A) text)"

section \<open>The constants\<close>

definition attr_name_id :: "32 word" where "attr_name_id = 0x01010003"
definition attr_permission :: "32 word" where "attr_permission = 0x01010006"
definition attr_protection_level :: "32 word" where "attr_protection_level = 0x01010009"
definition attr_shared_user_id :: "32 word" where "attr_shared_user_id = 0x0101000b"
definition attr_debuggable :: "32 word" where "attr_debuggable = 0x0101000f"
definition attr_exported :: "32 word" where "attr_exported = 0x01010010"
definition attr_value :: "32 word" where "attr_value = 0x01010024"
definition attr_resource :: "32 word" where "attr_resource = 0x01010025"
definition attr_scheme :: "32 word" where "attr_scheme = 0x01010027"
definition attr_host :: "32 word" where "attr_host = 0x01010028"
definition attr_path_prefix :: "32 word" where "attr_path_prefix = 0x0101002b"
definition attr_min_sdk_version :: "32 word" where "attr_min_sdk_version = 0x0101020c"
definition attr_version_code :: "32 word" where "attr_version_code = 0x0101021b"
definition attr_version_name :: "32 word" where "attr_version_name = 0x0101021c"
definition attr_target_sdk_version :: "32 word" where "attr_target_sdk_version = 0x01010270"
definition attr_max_sdk_version :: "32 word" where "attr_max_sdk_version = 0x01010271"
definition attr_test_only :: "32 word" where "attr_test_only = 0x01010272"
definition attr_allow_backup :: "32 word" where "attr_allow_backup = 0x01010280"
definition attr_uses_cleartext_traffic :: "32 word" where "attr_uses_cleartext_traffic = 0x010104ec"
definition attr_auto_verify :: "32 word" where "attr_auto_verify = 0x010104ee"
definition attr_network_security_config :: "32 word" where "attr_network_security_config = 0x01010527"
definition attr_version_code_major :: "32 word" where "attr_version_code_major = 0x01010576"

lemmas attr_ids =
  attr_name_id_def attr_permission_def attr_protection_level_def attr_shared_user_id_def
  attr_debuggable_def attr_exported_def attr_value_def attr_resource_def attr_scheme_def
  attr_host_def attr_path_prefix_def attr_min_sdk_version_def attr_version_code_def
  attr_version_name_def attr_target_sdk_version_def attr_max_sdk_version_def attr_test_only_def
  attr_allow_backup_def attr_uses_cleartext_traffic_def attr_auto_verify_def
  attr_network_security_config_def attr_version_code_major_def

definition attr_constants :: "(bytes \<times> 32 word) list" where
  "attr_constants =
     [(''name'', attr_name_id), (''permission'', attr_permission),
      (''protectionLevel'', attr_protection_level), (''sharedUserId'', attr_shared_user_id),
      (''debuggable'', attr_debuggable), (''exported'', attr_exported), (''value'', attr_value),
      (''resource'', attr_resource), (''scheme'', attr_scheme), (''host'', attr_host),
      (''pathPrefix'', attr_path_prefix), (''minSdkVersion'', attr_min_sdk_version),
      (''versionCode'', attr_version_code), (''versionName'', attr_version_name),
      (''targetSdkVersion'', attr_target_sdk_version), (''maxSdkVersion'', attr_max_sdk_version),
      (''testOnly'', attr_test_only), (''allowBackup'', attr_allow_backup),
      (''usesCleartextTraffic'', attr_uses_cleartext_traffic), (''autoVerify'', attr_auto_verify),
      (''networkSecurityConfig'', attr_network_security_config),
      (''versionCodeMajor'', attr_version_code_major)]"

text \<open>The second \<open>init\<close>: every constant is the table's id for its name.\<close>

definition check_constants :: "framework \<Rightarrow> framework_panic option" where
  "check_constants T =
     (case find (\<lambda>(name, rid). framework_attr_id T name \<noteq> Some rid) attr_constants of
        None \<Rightarrow> None | Some (name, _) \<Rightarrow> Some (ConstantDisagrees name))"

text \<open>What package initialisation guarantees: both directions of the table are functions.\<close>

definition framework_ok :: "framework \<Rightarrow> bool" where
  "framework_ok T \<longleftrightarrow> distinct (map fst T) \<and> distinct (map snd T) \<and>
     (\<forall>rid\<in>set (map snd T). drop_bit 24 rid = 0x01)"

lemma framework_ok_Nil [simp]: "framework_ok []"
  by (simp add: framework_ok_def)

lemma map_of_swap_None: "map_of (map (\<lambda>(n, i). (i, n)) T) rid = None \<longleftrightarrow> rid \<notin> set (map snd T)"
  by (auto simp: map_of_eq_None_iff image_image split_beta)

lemma framework_line_ok: "framework_ok T \<Longrightarrow> framework_line T raw = Inr T' \<Longrightarrow> framework_ok T'"
  unfolding framework_line_def Let_def
  by (auto simp: framework_ok_def framework_attr_id_def framework_attr_name_def map_of_eq_None_iff
      image_image split_beta intro: rev_image_eqI split: if_splits list.splits option.splits)

lemma load_framework_ok: "load_framework text = Inr T \<Longrightarrow> framework_ok T"
  unfolding load_framework_def
  by (rule fold_res_inv [where P = framework_ok and f = framework_line])
    (auto intro: framework_line_ok)

text \<open>The two lookups invert each other.\<close>

lemma framework_inverse:
  assumes "framework_ok T"
  shows "framework_attr_id T name = Some rid \<longleftrightarrow> framework_attr_name T rid = Some name"
proof -
  have "distinct (map fst (map (\<lambda>(n, i). (i, n)) T))"
    using assms by (simp add: framework_ok_def split_beta comp_def)
  moreover have "distinct (map fst T)" using assms by (simp add: framework_ok_def)
  ultimately show ?thesis
    by (auto simp: framework_attr_id_def framework_attr_name_def map_of_eq_Some_iff)
qed

lemma framework_package: "framework_ok T \<Longrightarrow> framework_attr_id T name = Some rid \<Longrightarrow> drop_bit 24 rid = 0x01"
  by (auto simp: framework_ok_def framework_attr_id_def dest!: map_of_SomeD)

end
