(* ===== verification/ApkTypes.thy ===== *)
theory ApkTypes
  imports AxmlValue
begin

text \<open>
  The types of package \<open>signing/apk\<close>: error codes, limits, ZIP entries, the facts of the
  manifest, the embedded Expo configuration and the parse result. A pointer that may be nil is
  an option. The text of an error (\<open>Detail\<close>) is not modelled.
\<close>

datatype apk_code =
    ApkReadFailed | ZipTooLarge | ZipNoEocd | ZipComment | Zip64Unsupported | ZipMultiDisk
  | ZipCdBounds | ZipTooManyEntries | ZipCdEntry | ZipNameInvalid | ZipDuplicateEntry
  | ZipEncrypted | ZipMethodUnsupported | ZipLocalHeaderMismatch | ZipOverlap
  | ZipUnaccountedBytes | ZipEntryTooLarge | ZipEntryCorrupt | ManifestMissing
  | ManifestStructure | ManifestAttributeType | ManifestElementNotAllowed
  | EmbeddedConfigInvalid | EmbeddedConfigDupKey | AxmlError axml_code

record apk_limits =
  max_file_size :: int
  max_entries :: int
  max_name_length :: int
  max_central_directory_size :: int
  max_manifest_size :: int
  max_json_asset_size :: int
  max_fingerprint_size :: int

definition default_apk_limits :: apk_limits where
  "default_apk_limits = \<lparr>max_file_size = 512 * 2 ^ 20, max_entries = 20000, max_name_length = 1024,
     max_central_directory_size = 32 * 2 ^ 20, max_manifest_size = 8 * 2 ^ 20,
     max_json_asset_size = 8 * 2 ^ 20, max_fingerprint_size = 1024\<rparr>"

definition manifest_entry :: bytes where "manifest_entry = ''AndroidManifest.xml''"
definition app_config_entry :: bytes where "app_config_entry = ''assets/app.config''"
definition app_manifest_entry :: bytes where "app_manifest_entry = ''assets/app.manifest''"
definition fingerprint_entry :: bytes where "fingerprint_entry = ''assets/fingerprint''"

record zip_entry =
  ze_name :: bytes
  ze_method :: "16 word"
  ze_flags :: "16 word"
  ze_crc32 :: "32 word"
  ze_compressed_size :: int
  ze_uncompressed_size :: int
  ze_local_header_offset :: int
  ze_data_offset :: int

record misaligned_entry =
  mis_name :: bytes
  mis_data_offset :: int
  mis_alignment :: int

section \<open>The manifest\<close>

record uses_permission =
  up_element :: bytes
  up_name :: bytes
  up_max_sdk :: "int option"

record permission_def =
  pd_name :: bytes
  pd_protection_level :: "int option"

record meta_data =
  md_name :: bytes
  md_value :: axml_value
  md_has_resource :: bool

record application =
  app_debuggable :: bool
  app_test_only :: bool
  app_network_security_config :: bool
  app_allow_backup :: "bool option"
  app_uses_cleartext_traffic :: "bool option"
  app_meta_data :: "meta_data list"

record intent_filter =
  if_component :: bytes
  if_component_name :: bytes
  if_auto_verify :: "bool option"
  if_actions :: "bytes list"
  if_categories :: "bytes list"
  if_schemes :: "bytes list"
  if_hosts :: "bytes list"

record manifest =
  man_package :: bytes
  man_version_code :: "int option"
  man_version_code_major :: bool
  man_version_name :: "bytes option"
  man_shared_user_id :: bool
  man_min_sdk :: "int option"
  man_target_sdk :: "int option"
  man_application :: "application option"
  man_uses_permissions :: "uses_permission list"
  man_permissions :: "permission_def list"
  man_permission_trees :: nat
  man_permission_groups :: nat
  man_intent_filters :: "intent_filter list"

section \<open>The embedded configuration and the parse result\<close>

record expo_config =
  cfg_slug :: "bytes option"
  cfg_scheme :: "bytes option"
  cfg_android_package :: "bytes option"
  cfg_version :: "bytes option"
  cfg_api_base_url :: "bytes option"
  cfg_bootstrap_signer_address :: "bytes option"
  cfg_application_id :: "bytes option"
  cfg_distribution_channel :: "bytes option"
  cfg_updates_url :: "bytes option"
  cfg_updates_enabled :: "bool option"
  cfg_android_version_code :: "int option"

record package =
  pkg_size :: int
  pkg_sha256 :: bytes
  pkg_entries :: "zip_entry list"
  pkg_signing_block :: bool
  pkg_v1_signature_files :: "bytes list"
  pkg_misaligned :: "misaligned_entry list"
  pkg_misaligned_count :: nat
  pkg_manifest :: "manifest option"
  pkg_app_config :: "expo_config option"
  pkg_has_app_manifest :: bool
  pkg_app_manifest :: "expo_config option"
  pkg_native_fingerprint :: "bytes option"

end
