(* ===== verification/ApkManifest.thy ===== *)
theory ApkManifest
  imports ApkTypes
begin

text \<open>
  \<open>signing/apk/manifest.go\<close>: from the decoded binary XML tree to the facts the policy needs. An
  element the code knows only in one place is refused everywhere else, so the facts speak for
  the whole document.
\<close>

definition component_elements :: "bytes list" where
  "component_elements = [''activity'', ''activity-alias'', ''service'', ''receiver'', ''provider'']"

definition uses_permission_elements :: "bytes list" where
  "uses_permission_elements = [''uses-permission'', ''uses-permission-sdk-23'', ''uses-permission-sdk-m'']"

definition top_level_only :: "bytes list" where
  "top_level_only =
     [''uses-permission'', ''uses-permission-sdk-23'', ''uses-permission-sdk-m'',
      ''permission'', ''permission-tree'', ''permission-group'', ''uses-sdk'', ''application'']"

definition manifest_children :: "bytes list" where
  "manifest_children =
     [''uses-sdk'', ''uses-permission'', ''uses-permission-sdk-23'', ''uses-permission-sdk-m'',
      ''permission'', ''permission-tree'', ''permission-group'', ''queries'', ''application'',
      ''uses-feature'', ''supports-screens'']"

definition application_children :: "bytes list" where
  "application_children =
     [''activity'', ''activity-alias'', ''service'', ''receiver'', ''provider'', ''meta-data'',
      ''uses-library'', ''uses-native-library'']"

definition forbidden_anywhere :: "bytes list" where
  "forbidden_anywhere = [''key-sets'', ''key-set'', ''upgrade-key-set'', ''public-key'']"

section \<open>Attributes\<close>

text \<open>
  \<open>stringAttr\<close>, \<open>intAttr\<close> and \<open>boolAttr\<close>: absent is nil, a literal of another type an error.
\<close>

definition typed_attr :: "(axml_value \<Rightarrow> 'a option) \<Rightarrow> element \<Rightarrow> 32 word \<Rightarrow> apk_code + 'a option" where
  "typed_attr read e rid =
     (case el_attr e rid of None \<Rightarrow> Inr None
      | Some a \<Rightarrow> (case read (at_value a) of None \<Rightarrow> Inl ManifestAttributeType | Some x \<Rightarrow> Inr (Some x)))"

definition string_attr :: "element \<Rightarrow> 32 word \<Rightarrow> apk_code + bytes option" where
  "string_attr = typed_attr value_str"

definition int_attr :: "element \<Rightarrow> 32 word \<Rightarrow> apk_code + int option" where
  "int_attr = typed_attr value_int"

definition bool_attr :: "element \<Rightarrow> 32 word \<Rightarrow> apk_code + bool option" where
  "bool_attr = typed_attr value_bool"

definition required_name :: "element \<Rightarrow> apk_code + bytes" where
  "required_name e =
     rbind (string_attr e attr_name_id) (\<lambda>name.
       case name of None \<Rightarrow> Inl ManifestStructure
       | Some s \<Rightarrow> if s = [] then Inl ManifestStructure else Inr s)"

definition attr_present :: "element \<Rightarrow> 32 word \<Rightarrow> bool" where
  "attr_present e rid = (el_attr e rid \<noteq> None)"

section \<open>Placement\<close>

fun check_placement :: "element \<Rightarrow> nat \<Rightarrow> apk_code option"
  and check_children :: "element list \<Rightarrow> nat \<Rightarrow> apk_code option" where
  "check_placement (Element name attrs children line) depth = check_children children depth"
| "check_children [] depth = None"
| "check_children (child # rest) depth =
     (if el_name child \<in> set forbidden_anywhere then Some ManifestElementNotAllowed
      else if 0 < depth \<and> el_name child \<in> set top_level_only then Some ManifestStructure
      else or_else (check_placement child (depth + 1)) (check_children rest depth))"

section \<open>Intent filters\<close>

definition filter_child :: "intent_filter \<Rightarrow> element \<Rightarrow> apk_code + intent_filter" where
  "filter_child f child =
     (if el_name child = ''action'' then
        rbind (required_name child) (\<lambda>name. Inr (f\<lparr>if_actions := if_actions f @ [name]\<rparr>))
      else if el_name child = ''category'' then
        rbind (required_name child) (\<lambda>name. Inr (f\<lparr>if_categories := if_categories f @ [name]\<rparr>))
      else if el_name child = ''data'' then
        rbind (string_attr child attr_scheme) (\<lambda>scheme.
        rbind (string_attr child attr_host) (\<lambda>host.
          Inr (f\<lparr>if_schemes := if_schemes f @ (case scheme of None \<Rightarrow> [] | Some s \<Rightarrow> [s]),
                 if_hosts := if_hosts f @ (case host of None \<Rightarrow> [] | Some h \<Rightarrow> [h])\<rparr>)))
      else Inr f)"

definition extract_intent_filter :: "bytes \<Rightarrow> bytes \<Rightarrow> element \<Rightarrow> apk_code + intent_filter" where
  "extract_intent_filter component component_name e =
     rbind (bool_attr e attr_auto_verify) (\<lambda>auto.
       fold_res filter_child
         \<lparr>if_component = component, if_component_name = component_name, if_auto_verify = auto,
          if_actions = [], if_categories = [], if_schemes = [], if_hosts = []\<rparr>
         (el_children e))"

section \<open>The application\<close>

text \<open>The loop over the children of \<open><application>\<close>; the names seen are those of the list so far.\<close>

definition component_filter ::
    "bytes \<Rightarrow> bytes \<Rightarrow> intent_filter list \<Rightarrow> element \<Rightarrow> apk_code + intent_filter list" where
  "component_filter component component_name filters f =
     (if el_name f \<noteq> ''intent-filter'' then Inr filters
      else rbind (extract_intent_filter component component_name f) (\<lambda>x. Inr (filters @ [x])))"

definition application_child ::
    "meta_data list \<times> intent_filter list \<Rightarrow> element \<Rightarrow> apk_code + meta_data list \<times> intent_filter list" where
  "application_child st child =
     (if el_name child \<notin> set application_children then Inl ManifestElementNotAllowed
      else if el_name child = ''meta-data'' then
        rbind (required_name child) (\<lambda>name.
          if name \<in> set (map md_name (fst st)) then Inl ManifestStructure
          else Inr (fst st @ [\<lparr>md_name = name,
                  md_value = (case el_attr child attr_value of None \<Rightarrow> no_value | Some a \<Rightarrow> at_value a),
                  md_has_resource = attr_present child attr_resource\<rparr>], snd st))
      else if el_name child \<in> set component_elements then
        rbind (required_name child) (\<lambda>component_name.
        rbind (fold_res (component_filter (el_name child) component_name) (snd st) (el_children child))
          (\<lambda>filters. Inr (fst st, filters)))
      else Inr st)"

definition extract_application :: "element \<Rightarrow> apk_code + application \<times> intent_filter list" where
  "extract_application e =
     rbind (bool_attr e attr_allow_backup) (\<lambda>backup.
     rbind (bool_attr e attr_uses_cleartext_traffic) (\<lambda>cleartext.
     rbind (fold_res application_child ([], []) (el_children e)) (\<lambda>(meta, filters).
       Inr (\<lparr>app_debuggable = attr_present e attr_debuggable,
             app_test_only = attr_present e attr_test_only,
             app_network_security_config = attr_present e attr_network_security_config,
             app_allow_backup = backup, app_uses_cleartext_traffic = cleartext,
             app_meta_data = meta\<rparr>, filters))))"

section \<open>The manifest\<close>

record manifest_scan =
  ms_manifest :: manifest
  ms_uses_sdk :: nat
  ms_applications :: nat

definition scan_uses_sdk :: "manifest_scan \<Rightarrow> element \<Rightarrow> apk_code + manifest_scan" where
  "scan_uses_sdk st child =
     (if 0 < ms_uses_sdk st then Inl ManifestStructure
      else rbind (int_attr child attr_min_sdk_version) (\<lambda>min_sdk.
        rbind (int_attr child attr_target_sdk_version) (\<lambda>target_sdk.
        rbind (int_attr child attr_max_sdk_version) (\<lambda>_.
          Inr (st\<lparr>ms_uses_sdk := ms_uses_sdk st + 1,
            ms_manifest := (ms_manifest st)\<lparr>man_min_sdk := min_sdk, man_target_sdk := target_sdk\<rparr>\<rparr>)))))"

definition scan_uses_permission :: "manifest_scan \<Rightarrow> element \<Rightarrow> apk_code + manifest_scan" where
  "scan_uses_permission st child =
     rbind (required_name child) (\<lambda>name.
     rbind (int_attr child attr_max_sdk_version) (\<lambda>max_sdk.
       Inr (st\<lparr>ms_manifest := (ms_manifest st)\<lparr>man_uses_permissions :=
         man_uses_permissions (ms_manifest st) @
           [\<lparr>up_element = el_name child, up_name = name, up_max_sdk = max_sdk\<rparr>]\<rparr>\<rparr>)))"

definition scan_permission :: "manifest_scan \<Rightarrow> element \<Rightarrow> apk_code + manifest_scan" where
  "scan_permission st child =
     rbind (required_name child) (\<lambda>name.
     rbind (int_attr child attr_protection_level) (\<lambda>level.
       Inr (st\<lparr>ms_manifest := (ms_manifest st)\<lparr>man_permissions :=
         man_permissions (ms_manifest st) @ [\<lparr>pd_name = name, pd_protection_level = level\<rparr>]\<rparr>\<rparr>)))"

definition scan_application :: "manifest_scan \<Rightarrow> element \<Rightarrow> apk_code + manifest_scan" where
  "scan_application st child =
     (if 0 < ms_applications st then Inl ManifestStructure
      else rbind (extract_application child) (\<lambda>(app, filters).
        Inr (st\<lparr>ms_applications := ms_applications st + 1,
          ms_manifest := (ms_manifest st)\<lparr>man_application := Some app, man_intent_filters := filters\<rparr>\<rparr>)))"

definition manifest_child :: "manifest_scan \<Rightarrow> element \<Rightarrow> apk_code + manifest_scan" where
  "manifest_child st child =
     (let m = ms_manifest st; name = el_name child in
      if name = ''uses-sdk'' then scan_uses_sdk st child
      else if name \<in> set uses_permission_elements then scan_uses_permission st child
      else if name = ''permission'' then scan_permission st child
      else if name = ''permission-tree'' then
        Inr (st\<lparr>ms_manifest := m\<lparr>man_permission_trees := man_permission_trees m + 1\<rparr>\<rparr>)
      else if name = ''permission-group'' then
        Inr (st\<lparr>ms_manifest := m\<lparr>man_permission_groups := man_permission_groups m + 1\<rparr>\<rparr>)
      else if name \<notin> set manifest_children then Inl ManifestElementNotAllowed
      else if name = ''application'' then scan_application st child
      else Inr st)"

definition extract_manifest :: "element \<Rightarrow> apk_code + manifest" where
  "extract_manifest root =
     (if el_name root \<noteq> ''manifest'' then Inl ManifestStructure
      else check_err (check_placement root 0)
        (case el_attr_by_name root [] ''package'' of None \<Rightarrow> Inl ManifestStructure
         | Some pkg \<Rightarrow>
           if at_resource_id pkg \<noteq> 0 then Inl ManifestStructure
           else case value_str (at_value pkg) of None \<Rightarrow> Inl ManifestAttributeType
           | Some s \<Rightarrow>
             rbind (int_attr root attr_version_code) (\<lambda>vc.
             rbind (string_attr root attr_version_name) (\<lambda>vn.
             rbind (fold_res manifest_child
               \<lparr>ms_manifest = \<lparr>man_package = s, man_version_code = vc,
                    man_version_code_major = attr_present root attr_version_code_major,
                    man_version_name = vn,
                    man_shared_user_id = attr_present root attr_shared_user_id,
                    man_min_sdk = None, man_target_sdk = None, man_application = None,
                    man_uses_permissions = [], man_permissions = [], man_permission_trees = 0,
                    man_permission_groups = 0, man_intent_filters = []\<rparr>,
                ms_uses_sdk = 0, ms_applications = 0\<rparr> (el_children root)) (\<lambda>st.
               Inr (ms_manifest st))))))"

end
