(* ===== verification/ManifestProps.thy ===== *)
theory ManifestProps
  imports ApkManifest
begin

text \<open>
  What the manifest extraction guarantees: an accepted document keeps every element the policy
  reads in its one place, and the extracted facts cover the whole document.
\<close>

section \<open>Placement\<close>

abbreviation below :: "element \<Rightarrow> element set" where
  "below e \<equiv> (\<Union>c\<in>set (el_children e). set (subelements c))"

definition well_placed :: "element \<Rightarrow> nat \<Rightarrow> bool" where
  "well_placed c d \<longleftrightarrow>
     (\<forall>x\<in>set (subelements c). el_name x \<notin> set forbidden_anywhere) \<and>
     (\<forall>x\<in>below c. el_name x \<notin> set top_level_only) \<and>
     (0 < d \<longrightarrow> el_name c \<notin> set top_level_only)"

lemma well_placedI:
  assumes "el_name c \<notin> set forbidden_anywhere" "0 < d \<longrightarrow> el_name c \<notin> set top_level_only"
    and kids: "\<forall>g\<in>set (el_children c). well_placed g (d + 1)"
  shows "well_placed c d"
proof -
  have "el_name x \<notin> set forbidden_anywhere \<and> el_name x \<notin> set top_level_only" if x: "x \<in> below c" for x
  proof -
    obtain g where g: "g \<in> set (el_children c)" "x \<in> set (subelements g)" using x by blast
    have "x = g \<or> x \<in> below g" using g(2) subelements_children [of g] by blast
    then show ?thesis using bspec [OF kids g(1)] g(2) by (auto simp: well_placed_def)
  qed
  moreover have "el_name x \<notin> set forbidden_anywhere" if "x \<in> set (subelements c)" for x
    using that assms(1) calculation [of x] unfolding subelements_children [of c] by (cases "x = c") auto
  ultimately show ?thesis using assms(2) by (simp add: well_placed_def)
qed

lemma placement_ok:
  "check_placement e d = None \<longrightarrow> (\<forall>c\<in>set (el_children e). well_placed c d)"
  "check_children cs d = None \<longrightarrow> (\<forall>c\<in>set cs. well_placed c d)"
proof (induction e d and cs d rule: check_placement_check_children.induct)
  case (3 child rest d)
  show ?case
  proof
    assume h: "check_children (child # rest) d = None"
    then have n: "el_name child \<notin> set forbidden_anywhere" "0 < d \<longrightarrow> el_name child \<notin> set top_level_only"
      and c: "check_placement child (d + 1) = None" and r: "check_children rest d = None"
      by (auto simp: result_simps split: if_splits)
    have "well_placed child d" using 3(1) n c by (intro well_placedI) auto
    moreover have "\<forall>c\<in>set rest. well_placed c d" using 3(2) n r by auto
    ultimately show "\<forall>c\<in>set (child # rest). well_placed c d" by simp
  qed
qed simp_all

section \<open>Attributes\<close>

lemma required_name_Inr:
  "required_name e = Inr s \<longleftrightarrow> string_attr e attr_name_id = Inr (Some s) \<and> s \<noteq> []"
  by (cases "string_attr e attr_name_id") (auto simp: required_name_def split: option.splits)

section \<open>The scan of the manifest's children\<close>

lemma top_level_names [simp]:
  "''uses-sdk'' \<notin> set uses_permission_elements" "''permission'' \<notin> set uses_permission_elements"
  "''permission-tree'' \<notin> set uses_permission_elements" "''permission-group'' \<notin> set uses_permission_elements"
  "''application'' \<notin> set uses_permission_elements" "''manifest'' \<notin> set uses_permission_elements"
  "''application'' \<in> set manifest_children"
  by (simp_all add: uses_permission_elements_def manifest_children_def)

lemma uses_permission_top: "n \<in> set uses_permission_elements \<Longrightarrow> n \<in> set top_level_only"
  by (auto simp: uses_permission_elements_def top_level_only_def)

text \<open>One visit of a child adds exactly that child's contribution.\<close>

definition permission_names :: "manifest_scan \<Rightarrow> bytes set" where
  "permission_names st = up_name ` set (man_uses_permissions (ms_manifest st))"

definition scan_le :: "manifest_scan \<Rightarrow> manifest_scan \<Rightarrow> bool" where
  "scan_le s t \<longleftrightarrow> permission_names s \<subseteq> permission_names t \<and> ms_applications s \<le> ms_applications t \<and>
     ms_uses_sdk s \<le> ms_uses_sdk t \<and>
     (ms_applications s = 1 \<longrightarrow>
        man_application (ms_manifest t) = man_application (ms_manifest s) \<and>
        man_intent_filters (ms_manifest t) = man_intent_filters (ms_manifest s) \<and> ms_applications t = 1)"

lemma scan_le_refl: "scan_le s s"
  by (simp add: scan_le_def)

lemma scan_le_trans: "scan_le s t \<Longrightarrow> scan_le t u \<Longrightarrow> scan_le s u"
  by (auto simp: scan_le_def)

lemmas scan_defs =
  scan_uses_sdk_def scan_uses_permission_def scan_permission_def scan_application_def

text \<open>The cases of a successful visit.\<close>

lemma manifest_child_cases:
  assumes "manifest_child st c = Inr st'"
  obtains (sdk) "el_name c = ''uses-sdk''" "scan_uses_sdk st c = Inr st'"
  | (perm) "el_name c \<in> set uses_permission_elements" "scan_uses_permission st c = Inr st'"
  | (app) "el_name c = ''application''" "scan_application st c = Inr st'"
  | (other) "el_name c \<notin> set uses_permission_elements" "el_name c \<noteq> ''application''"
      "el_name c \<noteq> ''uses-sdk''" "el_name c \<in> set manifest_children"
      "man_uses_permissions (ms_manifest st') = man_uses_permissions (ms_manifest st)"
      "man_application (ms_manifest st') = man_application (ms_manifest st)"
      "man_intent_filters (ms_manifest st') = man_intent_filters (ms_manifest st)"
      "ms_applications st' = ms_applications st" "ms_uses_sdk st' = ms_uses_sdk st"
proof -
  consider "el_name c = ''uses-sdk''" | "el_name c \<in> set uses_permission_elements"
    | "el_name c = ''permission''" | "el_name c = ''permission-tree''" | "el_name c = ''permission-group''"
    | "el_name c = ''application''"
    | "el_name c \<notin> set uses_permission_elements" "el_name c \<notin> {''uses-sdk'', ''permission'',
        ''permission-tree'', ''permission-group'', ''application''}"
    by blast
  then show thesis
  proof cases
    case 1
    then show ?thesis using assms sdk by (simp add: manifest_child_def)
  next
    case 2
    then have "el_name c \<noteq> ''uses-sdk''" using top_level_names by metis
    then show ?thesis using 2 assms perm by (simp add: manifest_child_def)
  next
    case 3
    then have "scan_permission st c = Inr st'" using assms by (simp add: manifest_child_def)
    then show ?thesis using 3 other by (auto simp: scan_permission_def result_simps manifest_children_def)
  next
    case 4
    then show ?thesis using assms other by (auto simp: manifest_child_def manifest_children_def Let_def)
  next
    case 5
    then show ?thesis using assms other by (auto simp: manifest_child_def manifest_children_def Let_def)
  next
    case 6
    then show ?thesis using assms app by (simp add: manifest_child_def)
  next
    case 7
    then show ?thesis using assms other by (auto simp: manifest_child_def Let_def split: if_splits)
  qed
qed

lemma manifest_child_le:
  assumes "manifest_child st c = Inr st'" shows "scan_le st st'"
  using assms
proof (cases rule: manifest_child_cases)
  case sdk
  then show ?thesis
    by (auto simp: scan_uses_sdk_def scan_le_def permission_names_def result_simps split: if_splits)
next
  case perm
  then show ?thesis by (auto simp: scan_uses_permission_def scan_le_def permission_names_def result_simps)
next
  case app
  then show ?thesis
    by (auto simp: scan_application_def scan_le_def permission_names_def result_simps split: if_splits)
next
  case other
  then show ?thesis by (simp add: scan_le_def permission_names_def)
qed

lemma manifest_scan_visits:
  assumes "fold_res manifest_child st cs = Inr st'" and "c \<in> set cs"
  obtains s1 s2 where "scan_le st s1" "manifest_child s1 c = Inr s2" "scan_le s2 st'"
  proof (rule fold_res_visits [where R = scan_le and f = manifest_child])
  show "fold_res manifest_child st cs = Inr st'" "c \<in> set cs" by (fact assms)+
qed (use scan_le_refl scan_le_trans manifest_child_le that in blast)+

text \<open>Every name in the list comes from an element.\<close>

lemma permission_names_from:
  assumes "fold_res manifest_child st cs = Inr st'" and "s \<in> permission_names st'"
  shows "s \<in> permission_names st \<or>
    (\<exists>c\<in>set cs. el_name c \<in> set uses_permission_elements \<and> string_attr c attr_name_id = Inr (Some s))"
  using assms
proof (induction cs arbitrary: st)
  case (Cons c cs)
  then obtain t where t: "manifest_child st c = Inr t" "fold_res manifest_child t cs = Inr st'"
    by (auto simp: result_simps)
  have "s \<in> permission_names t \<longrightarrow> s \<in> permission_names st \<or>
      (el_name c \<in> set uses_permission_elements \<and> string_attr c attr_name_id = Inr (Some s))"
    using t(1)
  proof (cases rule: manifest_child_cases)
    case sdk
    then show ?thesis by (auto simp: scan_uses_sdk_def permission_names_def result_simps split: if_splits)
  next
    case perm
    then show ?thesis
      by (auto simp: scan_uses_permission_def permission_names_def result_simps required_name_Inr)
  next
    case app
    then show ?thesis by (auto simp: scan_application_def permission_names_def result_simps split: if_splits)
  next
    case other
    then show ?thesis by (simp add: permission_names_def)
  qed
  then show ?case using Cons.IH [OF t(2) Cons.prems(2)] by auto
qed simp

text \<open>At most one \<open><uses-sdk>\<close> and one \<open><application>\<close>.\<close>

definition named :: "bytes \<Rightarrow> element list \<Rightarrow> element list" where
  "named n cs = filter (\<lambda>c. el_name c = n) cs"

lemma scan_counts:
  assumes "fold_res manifest_child st cs = Inr st'" "ms_uses_sdk st \<le> 1" "ms_applications st \<le> 1"
  shows "ms_uses_sdk st' = ms_uses_sdk st + length (named ''uses-sdk'' cs) \<and>
    ms_applications st' = ms_applications st + length (named ''application'' cs) \<and>
    ms_uses_sdk st' \<le> 1 \<and> ms_applications st' \<le> 1"
  using assms
proof (induction cs arbitrary: st)
  case Nil
  then show ?case by (simp add: named_def)
next
  case (Cons c cs)
  then obtain t where t: "manifest_child st c = Inr t" "fold_res manifest_child t cs = Inr st'"
    by (auto simp: result_simps)
  have "ms_uses_sdk t = ms_uses_sdk st + (if el_name c = ''uses-sdk'' then 1 else 0) \<and>
      ms_applications t = ms_applications st + (if el_name c = ''application'' then 1 else 0) \<and>
      ms_uses_sdk t \<le> 1 \<and> ms_applications t \<le> 1"
    using t(1)
  proof (cases rule: manifest_child_cases)
    case sdk
    then show ?thesis using Cons.prems by (auto simp: scan_uses_sdk_def result_simps split: if_splits)
  next
    case perm
    then have "el_name c \<noteq> ''uses-sdk''" "el_name c \<noteq> ''application''" using top_level_names by metis+
    then show ?thesis using perm Cons.prems by (auto simp: scan_uses_permission_def result_simps)
  next
    case app
    then show ?thesis using Cons.prems by (auto simp: scan_application_def result_simps split: if_splits)
  next
    case other
    then show ?thesis using Cons.prems by simp
  qed
  then show ?case using Cons.IH [OF t(2)] by (auto simp: named_def)
qed

lemma extract_manifest_Inr:
  assumes "extract_manifest root = Inr m"
  obtains st st' where "el_name root = ''manifest''" "check_placement root 0 = None"
    "fold_res manifest_child st (el_children root) = Inr st'" "m = ms_manifest st'"
    "ms_uses_sdk st = 0" "ms_applications st = 0" "man_uses_permissions (ms_manifest st) = []"
    "man_application (ms_manifest st) = None" "man_intent_filters (ms_manifest st) = []"
  using assms unfolding extract_manifest_def
  by (auto simp: result_simps split: if_splits option.splits)

section \<open>The application\<close>

definition app_scan_le :: "meta_data list \<times> intent_filter list \<Rightarrow> meta_data list \<times> intent_filter list \<Rightarrow> bool" where
  "app_scan_le s t \<longleftrightarrow> set (fst s) \<subseteq> set (fst t) \<and> set (snd s) \<subseteq> set (snd t)"

lemma app_scan_le_refl: "app_scan_le s s"
  by (simp add: app_scan_le_def)

lemma app_scan_le_trans: "app_scan_le s t \<Longrightarrow> app_scan_le t u \<Longrightarrow> app_scan_le s u"
  by (auto simp: app_scan_le_def)

lemma component_filters_le:
  assumes "fold_res (component_filter kind n) fs cs = Inr fs'" shows "set fs \<subseteq> set fs'"
  by (rule fold_res_rel [where R = "\<lambda>a b. set a \<subseteq> set b" and f = "component_filter kind n", OF _ _ _ assms])
    (auto simp: component_filter_def result_simps split: if_splits)

lemma application_child_le: "application_child s c = Inr t \<Longrightarrow> app_scan_le s t"
  by (auto simp: application_child_def app_scan_le_def result_simps dest!: component_filters_le split: if_splits)

lemma application_scan_visits:
  assumes "fold_res application_child st cs = Inr st'" and "c \<in> set cs"
  obtains s1 s2 where "app_scan_le st s1" "application_child s1 c = Inr s2" "app_scan_le s2 st'"
proof (rule fold_res_visits [where R = app_scan_le and f = application_child])
  show "fold_res application_child st cs = Inr st'" "c \<in> set cs" by (fact assms)+
qed (use app_scan_le_refl app_scan_le_trans application_child_le that in blast)+

text \<open>The meta-data names stay distinct, and every child is on the allow list.\<close>

lemma meta_names_distinct:
  assumes "fold_res application_child st cs = Inr st'" "distinct (map md_name (fst st))"
  shows "distinct (map md_name (fst st'))"
proof (rule fold_res_inv [where P = "\<lambda>s. distinct (map md_name (fst s))" and f = application_child, OF _ assms(2,1)])
  fix s c t
  assume "distinct (map md_name (fst s))" "application_child s c = Inr t"
  then show "distinct (map md_name (fst t))"
    by (auto simp: application_child_def result_simps split: if_splits)
qed

lemma extract_application_distinct:
  assumes "extract_application a = Inr (app, fs)" shows "distinct (map md_name (app_meta_data app))"
proof -
  obtain st where run: "fold_res application_child ([], []) (el_children a) = Inr st"
      and app: "app_meta_data app = fst st"
    using assms by (auto simp: extract_application_def result_simps)
  show ?thesis using meta_names_distinct [OF run] by (simp add: app)
qed

lemma component_not_meta [simp]:
  "''meta-data'' \<notin> set component_elements"
  "n \<in> set component_elements \<Longrightarrow> n \<in> set application_children"
  by (auto simp: component_elements_def application_children_def)

text \<open>A component's filter is in the list, as it was extracted.\<close>

lemma component_filter_extracted:
  assumes run: "fold_res (component_filter kind n) fs cs = Inr fs'"
    and f: "f \<in> set cs" "el_name f = ''intent-filter''"
  shows "\<exists>x\<in>set fs'. extract_intent_filter kind n f = Inr x"
proof -
  obtain s1 s2 where v: "component_filter kind n s1 f = Inr s2" "set s2 \<subseteq> set fs'"
  proof (rule fold_res_visits [where R = "\<lambda>a b. set a \<subseteq> set b" and f = "component_filter kind n"])
    show "fold_res (component_filter kind n) fs cs = Inr fs'" "f \<in> set cs" by (fact run f)+
    show "set s \<subseteq> set t" if "component_filter kind n s c = Inr t" for s c t
      using that by (auto simp: component_filter_def result_simps split: if_splits)
  qed auto
  then show ?thesis using f(2) by (auto simp: component_filter_def result_simps)
qed

lemma filter_hosts_extracted:
  assumes run: "extract_intent_filter kind n f = Inr x" and d: "d \<in> set (el_children f)" "el_name d = ''data''"
  shows "\<exists>scheme host. string_attr d attr_scheme = Inr scheme \<and> string_attr d attr_host = Inr host \<and>
    (\<forall>s. scheme = Some s \<longrightarrow> s \<in> set (if_schemes x)) \<and> (\<forall>h. host = Some h \<longrightarrow> h \<in> set (if_hosts x))"
proof -
  define R where "R = (\<lambda>(a :: intent_filter) (b :: intent_filter). set (if_schemes a) \<subseteq> set (if_schemes b) \<and> set (if_hosts a) \<subseteq> set (if_hosts b))"
  obtain st where scan: "fold_res filter_child st (el_children f) = Inr x"
    using run by (auto simp: extract_intent_filter_def result_simps)
  obtain s1 s2 where v: "filter_child s1 d = Inr s2" "R s2 x"
  proof (rule fold_res_visits [where R = R and f = filter_child])
    show "R s t" if "filter_child s c = Inr t" for s c t
      using that by (auto simp: R_def filter_child_def result_simps split: if_splits)
  qed (use d scan in \<open>auto simp: R_def\<close>)
  then show ?thesis using d(2)
    by (cases "string_attr d attr_scheme"; cases "string_attr d attr_host")
      (auto simp: filter_child_def R_def split: option.splits)
qed

lemma filter_component: "extract_intent_filter kind n f = Inr x \<Longrightarrow> if_component x = kind \<and> if_component_name x = n"
proof -
  assume "extract_intent_filter kind n f = Inr x"
  then obtain st where run: "fold_res filter_child st (el_children f) = Inr x"
    and st: "if_component st = kind" "if_component_name st = n"
    by (auto simp: extract_intent_filter_def result_simps)
  show ?thesis
    by (rule fold_res_inv [where P = "\<lambda>x. if_component x = kind \<and> if_component_name x = n" and f = filter_child, OF _ _ run])
      (use st in \<open>auto simp: filter_child_def result_simps split: if_splits\<close>)
qed

text \<open>The single application of an accepted manifest.\<close>

lemma manifest_application:
  assumes "extract_manifest root = Inr m" and "a \<in> set (el_children root)" "el_name a = ''application''"
  obtains app where "extract_application a = Inr (app, man_intent_filters m)" "man_application m = Some app"
proof -
  obtain st st' where run: "fold_res manifest_child st (el_children root) = Inr st'" and m: "m = ms_manifest st'"
    using assms(1) by (rule extract_manifest_Inr)
  obtain s1 s2 where v: "scan_le st s1" "manifest_child s1 a = Inr s2" "scan_le s2 st'"
    using run assms(2) by (rule manifest_scan_visits)
  have "scan_application s1 a = Inr s2"
    using v(2)
  proof (cases rule: manifest_child_cases)
    case perm
    then show ?thesis using assms(3) top_level_names by metis
  qed (use assms(3) in auto)
  then obtain app where "extract_application a = Inr (app, man_intent_filters (ms_manifest s2))"
      "man_application (ms_manifest s2) = Some app" "ms_applications s2 = 1"
    by (auto simp: scan_application_def result_simps split: if_splits)
  then show thesis using v(3) that by (auto simp: scan_le_def m)
qed

section \<open>Properties\<close>

lemma forbidden_nowhere:
  assumes "extract_manifest root = Inr m" and "x \<in> set (subelements root)"
  shows "el_name x \<notin> set forbidden_anywhere"
proof -
  obtain st st' where name: "el_name root = ''manifest''" and p: "check_placement root 0 = None"
    and run: "fold_res manifest_child st (el_children root) = Inr st'"
    using assms(1) by (rule extract_manifest_Inr)
  have "el_name root \<notin> set forbidden_anywhere" by (simp add: name forbidden_anywhere_def)
  moreover have "well_placed c 0" if "c \<in> set (el_children root)" for c
    using placement_ok(1) p that by blast
  ultimately show ?thesis
    using assms(2) unfolding subelements_children [of root] by (auto simp: well_placed_def)
qed

text \<open>
  In an accepted manifest no element of a signing key set occurs at any depth;
  the elements the policy reads (permissions, permission definitions, uses-sdk, application)
  occur only as children of the root; there is at most one application and one uses-sdk.
\<close>

theorem manifest_placement_enforced:
  assumes "extract_manifest root = Inr m"
  shows "list_all (\<lambda>x. el_name x \<notin> set forbidden_anywhere) (subelements root) \<and>
    list_all (\<lambda>x. el_name x \<notin> set top_level_only)
      (concat (map subelements (concat (map el_children (el_children root))))) \<and>
    length (named ''application'' (el_children root)) \<le> 1 \<and>
    length (named ''uses-sdk'' (el_children root)) \<le> 1"
proof -
  obtain st st' where name: "el_name root = ''manifest''" and p: "check_placement root 0 = None"
    and run: "fold_res manifest_child st (el_children root) = Inr st'"
    and z: "ms_uses_sdk st = 0" "ms_applications st = 0"
    using assms by (rule extract_manifest_Inr)
  have w: "well_placed c 0" if "c \<in> set (el_children root)" for c
    using placement_ok(1) p that by blast
  have "el_name root \<notin> set forbidden_anywhere" by (simp add: name forbidden_anywhere_def)
  moreover have "el_name x \<notin> set forbidden_anywhere" if "x \<in> below root" for x
    using that w by (auto simp: well_placed_def)
  ultimately have "list_all (\<lambda>x. el_name x \<notin> set forbidden_anywhere) (subelements root)"
    unfolding list_all_iff subelements_children [of root] by blast
  moreover have "list_all (\<lambda>x. el_name x \<notin> set top_level_only)
      (concat (map subelements (concat (map el_children (el_children root)))))"
    using w by (auto simp: list_all_iff well_placed_def)
  ultimately show ?thesis using scan_counts [OF run] z by auto
qed

definition sample_attr :: "bytes \<Rightarrow> 32 word \<Rightarrow> bytes \<Rightarrow> attribute" where
  "sample_attr name rid text = \<lparr>at_namespace = android_ns, at_name = name, at_resource_id = rid,
     at_value = \<lparr>val_type = type_string, val_data = 0, val_string = text\<rparr>\<rparr>"

definition sample_filter :: element where
  "sample_filter = Element ''intent-filter'' []
     [Element ''data'' [sample_attr ''scheme'' attr_scheme ''https'',
                        sample_attr ''host'' attr_host ''app.example.com''] [] 1] 1"

definition sample_application :: element where
  "sample_application = Element ''application'' []
     [Element ''activity'' [sample_attr ''name'' attr_name_id ''.Main''] [sample_filter] 1] 1"

definition sample_manifest :: element where
  "sample_manifest = Element ''manifest''
     [\<lparr>at_namespace = [], at_name = ''package'', at_resource_id = 0,
       at_value = \<lparr>val_type = type_string, val_data = 0, val_string = ''com.example.app''\<rparr>\<rparr>]
     [Element ''uses-permission'' [sample_attr ''name'' attr_name_id ''android.permission.CAMERA''] [] 1,
      sample_application] 1"

lemmas sample_defs = sample_manifest_def sample_application_def sample_filter_def sample_attr_def

lemma sample_extracts: "\<exists>m. extract_manifest sample_manifest = Inr m"
proof -
  have "case extract_manifest sample_manifest of Inl _ \<Rightarrow> False | Inr _ \<Rightarrow> True" by code_simp
  then show ?thesis by (auto split: sum.splits)
qed

theorem manifest_placement_enforced_witness:
  "\<exists>m. extract_manifest sample_manifest = Inr m \<and>
     list_all (\<lambda>x. el_name x \<notin> set forbidden_anywhere) (subelements sample_manifest)"
  using sample_extracts manifest_placement_enforced by blast

lemma uses_permission_scanned:
  assumes "extract_manifest root = Inr m" and x: "x \<in> set (subelements root)" "el_name x \<in> set uses_permission_elements"
  obtains s where "string_attr x attr_name_id = Inr (Some s)" "s \<in> up_name ` set (man_uses_permissions m)"
proof -
  obtain st st' where name: "el_name root = ''manifest''" and p: "check_placement root 0 = None"
    and run: "fold_res manifest_child st (el_children root) = Inr st'" and m: "m = ms_manifest st'"
    using assms(1) by (rule extract_manifest_Inr)
  have "x \<noteq> root" using x(2) top_level_names name by metis
  then obtain c where c: "c \<in> set (el_children root)" "x \<in> set (subelements c)"
    using x(1) unfolding subelements_children [of root] by blast
  have "well_placed c 0" using placement_ok(1) p c(1) by blast
  then have "x \<notin> below c" using uses_permission_top [OF x(2)] by (auto simp: well_placed_def)
  then have child: "x \<in> set (el_children root)" using c unfolding subelements_children [of c] by blast
  obtain s1 s2 where v: "manifest_child s1 x = Inr s2" "scan_le s2 st'"
    using run child by (rule manifest_scan_visits)
  have "scan_uses_permission s1 x = Inr s2"
    using v(1)
  proof (cases rule: manifest_child_cases)
    case sdk
    then show ?thesis using x(2) top_level_names by metis
  next
    case app
    then show ?thesis using x(2) top_level_names by metis
  qed (use x(2) in auto)
  then obtain s where "string_attr x attr_name_id = Inr (Some s)" "s \<in> permission_names s2"
    by (auto simp: scan_uses_permission_def permission_names_def result_simps required_name_Inr)
  moreover from this(2) have "s \<in> up_name ` set (man_uses_permissions m)"
    using v(2) by (auto simp: m scan_le_def permission_names_def)
  ultimately show thesis by (intro that)
qed

text \<open>
  The permission list is complete and exact: the names it holds are precisely the android:name
  strings of the uses-permission elements anywhere in the document, so a permission cannot be
  declared where the policy does not look.
\<close>

lemma permissions_exact:
  assumes "extract_manifest root = Inr m"
  shows "up_name ` set (man_uses_permissions m) =
    {s. \<exists>x\<in>set (subelements root). el_name x \<in> set uses_permission_elements \<and>
          string_attr x attr_name_id = Inr (Some s)}" (is "?L = ?R")
proof -
  obtain st st' where run: "fold_res manifest_child st (el_children root) = Inr st'" and m: "m = ms_manifest st'"
    and z: "man_uses_permissions (ms_manifest st) = []"
    using assms by (rule extract_manifest_Inr)
  have "?L \<subseteq> ?R"
  proof
    fix s
    assume "s \<in> ?L"
    then obtain c where "c \<in> set (el_children root)" "el_name c \<in> set uses_permission_elements"
        "string_attr c attr_name_id = Inr (Some s)"
      using permission_names_from [OF run] z m by (auto simp: permission_names_def)
    moreover from this have "c \<in> set (subelements root)"
      unfolding subelements_children [of root] using subelements_self by blast
    ultimately show "s \<in> ?R" by blast
  qed
  moreover have "?R \<subseteq> ?L"
  proof
    fix s
    assume "s \<in> ?R"
    then obtain x where x: "x \<in> set (subelements root)" "el_name x \<in> set uses_permission_elements"
        "string_attr x attr_name_id = Inr (Some s)"
      by blast
    obtain s' where "string_attr x attr_name_id = Inr (Some s')" "s' \<in> ?L"
      using assms x(1,2) by (rule uses_permission_scanned)
    then show "s \<in> ?L" using x(3) by simp
  qed
  ultimately show ?thesis by blast
qed

text \<open>
  Every deep link is seen: a scheme or host on a data element of an intent filter
  of any component of the application is in the extracted filters, under that component.
\<close>

theorem every_link_is_seen:
  assumes "extract_manifest root = Inr m"
    and "a \<in> set (el_children root)" "el_name a = ''application''"
    and "c \<in> set (el_children a)" "el_name c \<in> set component_elements"
    and "f \<in> set (el_children c)" "el_name f = ''intent-filter''"
    and "d \<in> set (el_children f)" "el_name d = ''data''"
  shows "\<exists>x\<in>set (man_intent_filters m). if_component x = el_name c \<and>
    (\<forall>s. string_attr d attr_scheme = Inr (Some s) \<longrightarrow> s \<in> set (if_schemes x)) \<and>
    (\<forall>h. string_attr d attr_host = Inr (Some h) \<longrightarrow> h \<in> set (if_hosts x))"
proof -
  obtain app where app: "extract_application a = Inr (app, man_intent_filters m)"
    using assms(1-3) by (rule manifest_application)
  then obtain metas where run: "fold_res application_child ([], []) (el_children a) = Inr (metas, man_intent_filters m)"
    by (auto simp: extract_application_def result_simps)
  obtain s1 s2 where v: "application_child s1 c = Inr s2" "app_scan_le s2 (metas, man_intent_filters m)"
    using run assms(4) by (rule application_scan_visits)
  obtain n where n: "fold_res (component_filter (el_name c) n) (snd s1) (el_children c) = Inr (snd s2)"
  proof -
    have "el_name c \<noteq> ''meta-data''" using assms(5) component_not_meta(1) by metis
    then show thesis using v(1) assms(5) that by (auto simp: application_child_def result_simps)
  qed
  obtain x where x: "x \<in> set (snd s2)" "extract_intent_filter (el_name c) n f = Inr x"
    using component_filter_extracted [OF n assms(6,7)] by blast
  then show ?thesis
    using v(2) filter_hosts_extracted [OF x(2) assms(8,9)] filter_component [OF x(2)]
    by (auto simp: app_scan_le_def)
qed

theorem every_link_is_seen_witness:
  "\<exists>m x. extract_manifest sample_manifest = Inr m \<and> x \<in> set (man_intent_filters m) \<and>
     if_component x = ''activity''"
proof -
  obtain m where m: "extract_manifest sample_manifest = Inr m" using sample_extracts by blast
  show ?thesis
    using every_link_is_seen [OF m, of sample_application "hd (el_children sample_application)" sample_filter
        "hd (el_children sample_filter)"] m
    by (auto simp: sample_defs component_elements_def)
qed

text \<open>
  The meta-data the policy reads by name is unambiguous: an accepted manifest never
  lists one name twice.
\<close>

theorem meta_data_is_unambiguous:
  assumes "extract_manifest root = Inr m" and "man_application m = Some app"
  shows "distinct (map md_name (app_meta_data app))"
proof -
  obtain st st' where run: "fold_res manifest_child st (el_children root) = Inr st'" and m: "m = ms_manifest st'"
    and z: "man_application (ms_manifest st) = None"
    using assms(1) by (rule extract_manifest_Inr)
  define P where "P = (\<lambda>s :: manifest_scan. \<forall>a. man_application (ms_manifest s) = Some a \<longrightarrow> distinct (map md_name (app_meta_data a)))"
  have "P st'"
  proof (rule fold_res_inv [where P = P and f = manifest_child, OF _ _ run])
    fix s c t
    assume "P s" and step: "manifest_child s c = Inr t"
    show "P t"
      using step
    proof (cases rule: manifest_child_cases)
      case app
      then show ?thesis
        by (auto simp: P_def scan_application_def result_simps
            dest: extract_application_distinct split: if_splits)
    qed (use \<open>P s\<close> in \<open>auto simp: P_def scan_uses_sdk_def scan_uses_permission_def result_simps split: if_splits\<close>)
  qed (simp add: P_def z)
  then show ?thesis using assms(2) by (simp add: P_def m)
qed

theorem meta_data_is_unambiguous_witness:
  "\<exists>m app. extract_manifest sample_manifest = Inr m \<and> man_application m = Some app \<and>
     distinct (map md_name (app_meta_data app))"
proof -
  obtain m where m: "extract_manifest sample_manifest = Inr m" using sample_extracts by blast
  have "sample_application \<in> set (el_children sample_manifest)" "el_name sample_application = ''application''"
    by (simp_all add: sample_defs)
  with m obtain app where "man_application m = Some app" by (rule manifest_application)
  then show ?thesis using m meta_data_is_unambiguous by blast
qed

end
