(* ===== verification/Json.thy ===== *)
theory Json
  imports GoText
begin

text \<open>
  Reading JSON with \<open>encoding/json\<close>, as the code uses it: the token stream of \<open>json.Decoder\<close>
  (\<open>Token\<close>, \<open>More\<close>, with \<open>UseNumber\<close>). The decoder's state is the unread input, the state of
  the token automaton and the stack of enclosing states. Reading a scalar value is the longest
  match of its grammar, strings are unquoted as \<open>encoding/json\<close> does (surrogate pairs joined, lone
  surrogates and invalid bytes replaced).
\<close>

section \<open>Scalars\<close>

definition prepend :: "bytes \<Rightarrow> (bytes \<times> bytes) option \<Rightarrow> (bytes \<times> bytes) option" where
  "prepend p r = (case r of None \<Rightarrow> None | Some (s, rest) \<Rightarrow> Some (p @ s, rest))"

definition hex_digit_value :: "char \<Rightarrow> nat" where
  "hex_digit_value c =
     (if is_digit c then of_char c - 48 else if is_lower c then of_char c - 87 else of_char c - 55)"

text \<open>Four hexadecimal digits.\<close>

definition hex4 :: "bytes \<Rightarrow> (nat \<times> bytes) option" where
  "hex4 s =
     (case s of
        a # b # c # d # rest \<Rightarrow>
          if is_hex a \<and> is_hex b \<and> is_hex c \<and> is_hex d
          then Some (((hex_digit_value a * 16 + hex_digit_value b) * 16 + hex_digit_value c) * 16 + hex_digit_value d, rest)
          else None
      | _ \<Rightarrow> None)"

lemma hex4_length: "hex4 s = Some (n, r) \<Longrightarrow> length r + 4 = length s"
  by (auto simp: hex4_def split: list.splits if_splits)

text \<open>The low half of a surrogate pair, when an escape for one follows.\<close>

definition low_surrogate :: "bytes \<Rightarrow> (nat \<times> bytes) option" where
  "low_surrogate s =
     (case s of
        a # b # es \<Rightarrow>
          if a = CHR 0x5C \<and> b = CHR ''u''
          then (case hex4 es of None \<Rightarrow> None
                | Some (n, r) \<Rightarrow> if 0xDC00 \<le> n \<and> n < 0xE000 then Some (n, r) else None)
          else None
      | _ \<Rightarrow> None)"

lemma low_surrogate_length: "low_surrogate s = Some (n, r) \<Longrightarrow> length r < length s"
  by (auto simp: low_surrogate_def dest: hex4_length split: list.splits if_splits option.splits)

definition simple_escape :: "char \<Rightarrow> char option" where
  "simple_escape e =
     (if e = CHR 0x22 \<or> e = CHR 0x5C \<or> e = CHR ''/'' then Some e
      else if e = CHR ''b'' then Some (CHR 0x08)
      else if e = CHR ''f'' then Some (CHR 0x0C)
      else if e = CHR ''n'' then Some (CHR 0x0A)
      else if e = CHR ''r'' then Some (CHR 0x0D)
      else if e = CHR ''t'' then Some (CHR 0x09)
      else None)"

text \<open>The content of a string after its opening quote, and the input after the closing one.\<close>

function lex_string :: "bytes \<Rightarrow> (bytes \<times> bytes) option" where
  "lex_string [] = None"
| "lex_string (c # cs) =
     (if c = CHR 0x22 then Some ([], cs)
      else if c = CHR 0x5C then
        (case cs of [] \<Rightarrow> None
         | e # es \<Rightarrow>
           (case simple_escape e of Some x \<Rightarrow> prepend [x] (lex_string es)
            | None \<Rightarrow>
              if e \<noteq> CHR ''u'' then None
              else (case hex4 es of None \<Rightarrow> None
                | Some (n, r) \<Rightarrow>
                  if n < 0xD800 \<or> 0xE000 \<le> n then prepend (encode_rune n) (lex_string r)
                  else if n < 0xDC00 then
                    (case low_surrogate r of
                       Some (m, r2) \<Rightarrow>
                         prepend (encode_rune (0x10000 + (n - 0xD800) * 1024 + (m - 0xDC00))) (lex_string r2)
                     | None \<Rightarrow> prepend (encode_rune utf8_rune_error) (lex_string r))
                  else prepend (encode_rune utf8_rune_error) (lex_string r))))
      else if (of_char c :: nat) < 0x20 then None
      else (case utf8_step (c # cs) of
          None \<Rightarrow> prepend (encode_rune utf8_rune_error) (lex_string cs)
        | Some (r, w) \<Rightarrow> prepend (take w (c # cs)) (lex_string (drop (w - 1) cs))))"
  by pat_completeness auto

termination
  by (relation "measure length")
    (auto dest!: hex4_length low_surrogate_length utf8_step_width simp: less_Suc_eq_le)

text \<open>Numbers: optional minus, integer part without leading zero, fraction, exponent.\<close>

definition take_digits :: "bytes \<Rightarrow> bytes \<times> bytes" where
  "take_digits s = (takeWhile is_digit s, dropWhile is_digit s)"

definition lex_int_part :: "bytes \<Rightarrow> (bytes \<times> bytes) option" where
  "lex_int_part s =
     (case s of [] \<Rightarrow> None
      | c # cs \<Rightarrow> if c = CHR ''0'' then Some ([c], cs)
                  else if is_digit c then Some (take_digits s) else None)"

definition lex_fraction :: "bytes \<Rightarrow> (bytes \<times> bytes) option" where
  "lex_fraction s =
     (case s of [] \<Rightarrow> Some ([], s)
      | c # cs \<Rightarrow>
        if c \<noteq> CHR ''.'' then Some ([], s)
        else (case take_digits cs of (ds, r) \<Rightarrow> if ds = [] then None else Some (c # ds, r)))"

definition lex_exponent :: "bytes \<Rightarrow> (bytes \<times> bytes) option" where
  "lex_exponent s =
     (case s of [] \<Rightarrow> Some ([], s)
      | c # cs \<Rightarrow>
        if c \<noteq> CHR ''e'' \<and> c \<noteq> CHR ''E'' then Some ([], s)
        else let (sign, t) = (case cs of [] \<Rightarrow> ([], cs)
                 | x # xs \<Rightarrow> if x = CHR ''+'' \<or> x = CHR ''-'' then ([x], xs) else ([], cs))
          in (case take_digits t of (ds, r) \<Rightarrow> if ds = [] then None else Some (c # sign @ ds, r)))"

definition lex_number :: "bytes \<Rightarrow> (bytes \<times> bytes) option" where
  "lex_number s =
     (let (sign, t) = (case s of [] \<Rightarrow> ([], s)
            | c # cs \<Rightarrow> if c = CHR ''-'' then ([c], cs) else ([], s))
      in case lex_int_part t of None \<Rightarrow> None
         | Some (i, t1) \<Rightarrow> (case lex_fraction t1 of None \<Rightarrow> None
           | Some (f, t2) \<Rightarrow> (case lex_exponent t2 of None \<Rightarrow> None
             | Some (e, t3) \<Rightarrow> Some (sign @ i @ f @ e, t3))))"

section \<open>Tokens\<close>

datatype jtoken =
    TArrayOpen | TArrayClose | TObjectOpen | TObjectClose
  | TString bytes | TNumber bytes | TBool bool | TNull

datatype token_state =
    TopValue | ArrayStart | ArrayValue | ArrayComma
  | ObjectStart | ObjectKey | ObjectColon | ObjectValue | ObjectComma

record decoder =
  d_input :: bytes
  d_state :: token_state
  d_stack :: "token_state list"

definition new_decoder :: "bytes \<Rightarrow> decoder" where
  "new_decoder s = \<lparr>d_input = s, d_state = TopValue, d_stack = []\<rparr>"

definition json_space :: "char \<Rightarrow> bool" where
  "json_space c \<longleftrightarrow> c = CHR '' '' \<or> c = CHR 0x09 \<or> c = CHR 0x0D \<or> c = CHR 0x0A"

definition skip_space :: "bytes \<Rightarrow> bytes" where
  "skip_space s = dropWhile json_space s"

lemma length_skip_space: "length (skip_space s) \<le> length s"
  by (simp add: skip_space_def length_dropWhile_le)

lemma skip_space_Cons: "skip_space s = c # cs \<Longrightarrow> length cs < length s"
  using length_skip_space [of s] by simp

definition value_allowed :: "token_state \<Rightarrow> bool" where
  "value_allowed st \<longleftrightarrow> st = TopValue \<or> st = ArrayStart \<or> st = ArrayValue \<or> st = ObjectValue"

definition value_end :: "token_state \<Rightarrow> token_state" where
  "value_end st =
     (if st = ArrayStart \<or> st = ArrayValue then ArrayComma
      else if st = ObjectValue then ObjectComma else st)"

datatype token_result = EndOfInput | BadToken | Token jtoken decoder

definition lex_literal :: "bytes \<Rightarrow> (jtoken \<times> bytes) option" where
  "lex_literal s =
     (if starts_with ''true'' s then Some (TBool True, drop 4 s)
      else if starts_with ''false'' s then Some (TBool False, drop 5 s)
      else if starts_with ''null'' s then Some (TNull, drop 4 s)
      else None)"

definition lex_scalar :: "bytes \<Rightarrow> (jtoken \<times> bytes) option" where
  "lex_scalar s =
     (case s of [] \<Rightarrow> None
      | c # cs \<Rightarrow>
        if c = CHR 0x22 then (case lex_string cs of None \<Rightarrow> None | Some (t, r) \<Rightarrow> Some (TString t, r))
        else if c = CHR ''-'' \<or> is_digit c
        then (case lex_number s of None \<Rightarrow> None | Some (t, r) \<Rightarrow> Some (TNumber t, r))
        else lex_literal s)"

definition open_token :: "decoder \<Rightarrow> bytes \<Rightarrow> jtoken \<Rightarrow> token_state \<Rightarrow> token_result" where
  "open_token d rest t st =
     (if value_allowed (d_state d)
      then Token t \<lparr>d_input = rest, d_state = st, d_stack = d_state d # d_stack d\<rparr>
      else BadToken)"

text \<open>A closing bracket is accepted in two states only, in which the stack is not empty.\<close>

definition close_token :: "decoder \<Rightarrow> bytes \<Rightarrow> jtoken \<Rightarrow> token_state set \<Rightarrow> token_result" where
  "close_token d rest t allowed =
     (if d_state d \<notin> allowed then BadToken
      else case d_stack d of [] \<Rightarrow> BadToken
        | st # stack \<Rightarrow> Token t \<lparr>d_input = rest, d_state = value_end st, d_stack = stack\<rparr>)"

definition scalar_token :: "decoder \<Rightarrow> bytes \<Rightarrow> token_result" where
  "scalar_token d s =
     (if d_state d = ObjectStart \<or> d_state d = ObjectKey then
        (case s of [] \<Rightarrow> BadToken
         | c # cs \<Rightarrow>
           if c \<noteq> CHR 0x22 then BadToken
           else (case lex_string cs of None \<Rightarrow> BadToken
             | Some (k, r) \<Rightarrow> Token (TString k) (d\<lparr>d_input := r, d_state := ObjectColon\<rparr>)))
      else if \<not> value_allowed (d_state d) then BadToken
      else (case lex_scalar s of None \<Rightarrow> BadToken
        | Some (t, r) \<Rightarrow> Token t (d\<lparr>d_input := r, d_state := value_end (d_state d)\<rparr>)))"

text \<open>\<open>Decoder.Token\<close>: separators move the automaton on and the loop continues.\<close>

function next_token :: "decoder \<Rightarrow> token_result" where
  "next_token d =
     (case skip_space (d_input d) of [] \<Rightarrow> EndOfInput
      | c # cs \<Rightarrow>
        if c = CHR ''['' then open_token d cs TArrayOpen ArrayStart
        else if c = CHR '']'' then close_token d cs TArrayClose {ArrayStart, ArrayComma}
        else if c = CHR ''{'' then open_token d cs TObjectOpen ObjectStart
        else if c = CHR ''}'' then close_token d cs TObjectClose {ObjectStart, ObjectComma}
        else if c = CHR '':'' then
          (if d_state d = ObjectColon then next_token (d\<lparr>d_input := cs, d_state := ObjectValue\<rparr>) else BadToken)
        else if c = CHR '','' then
          (if d_state d = ArrayComma then next_token (d\<lparr>d_input := cs, d_state := ArrayValue\<rparr>)
           else if d_state d = ObjectComma then next_token (d\<lparr>d_input := cs, d_state := ObjectKey\<rparr>)
           else BadToken)
        else scalar_token d (c # cs))"
  by pat_completeness auto

termination
  by (relation "measure (\<lambda>d. length (d_input d))") (auto dest: skip_space_Cons)

declare next_token.simps [simp del]

text \<open>\<open>Decoder.More\<close>.\<close>

definition more :: "decoder \<Rightarrow> bool" where
  "more d = (case skip_space (d_input d) of [] \<Rightarrow> False | c # _ \<Rightarrow> c \<noteq> CHR '']'' \<and> c \<noteq> CHR ''}'')"

section \<open>Every token consumes input\<close>

lemma prepend_SomeD: "prepend p r = Some (s, rest) \<Longrightarrow> \<exists>a. r = Some (a, rest) \<and> s = p @ a"
  by (auto simp: prepend_def split: option.splits)

lemma lex_string_length: "lex_string s = Some (t, r) \<Longrightarrow> length r < length s"
proof (induction s arbitrary: t rule: lex_string.induct)
  case (2 c cs)
  consider "c = CHR 0x22" | "c = CHR 0x5C" | "c \<noteq> CHR 0x22" "c \<noteq> CHR 0x5C" by blast
  then show ?case
  proof cases
    case 1
    then show ?thesis using "2.prems" by simp
  next
    case 2
    then show ?thesis using "2.prems" "2.IH"(1-5)
      by (fastforce dest!: prepend_SomeD hex4_length low_surrogate_length
          split: list.splits option.splits if_splits)
  next
    case 3
    then show ?thesis using "2.prems" "2.IH"(6,7)
      by (fastforce dest!: prepend_SomeD utf8_step_width split: option.splits if_splits)
  qed
qed simp

lemma take_digits_length: "take_digits s = (ds, r) \<Longrightarrow> length r + length ds = length s"
  using arg_cong [OF takeWhile_dropWhile_id [of is_digit s], of length] by (auto simp: take_digits_def)

lemma lex_int_part_length: "lex_int_part s = Some (t, r) \<Longrightarrow> length r < length s"
  by (auto simp: lex_int_part_def take_digits_def less_Suc_eq_le length_dropWhile_le split: list.splits if_splits)

lemma lex_fraction_length: "lex_fraction s = Some (t, r) \<Longrightarrow> length r \<le> length s"
  by (auto simp: lex_fraction_def dest: take_digits_length split: list.splits if_splits prod.splits)

lemma lex_exponent_length: "lex_exponent s = Some (t, r) \<Longrightarrow> length r \<le> length s"
  by (auto simp: lex_exponent_def Let_def dest!: take_digits_length split: list.splits if_splits prod.splits)

lemma lex_number_length: "lex_number s = Some (t, r) \<Longrightarrow> length r < length s"
  by (fastforce simp: lex_number_def Let_def
      dest!: lex_int_part_length lex_fraction_length lex_exponent_length
      split: list.splits if_splits option.splits)

lemma lex_literal_length: "lex_literal s = Some (t, r) \<Longrightarrow> length r < length s"
  by (auto simp: lex_literal_def starts_with_iff split: if_splits)

lemma lex_scalar_length: "lex_scalar s = Some (t, r) \<Longrightarrow> length r < length s"
  by (auto simp: lex_scalar_def dest!: lex_string_length lex_number_length lex_literal_length
      split: list.splits if_splits option.splits)

lemma open_token_length: "open_token d rest t st = Token u d' \<Longrightarrow> length (d_input d') = length rest"
  by (auto simp: open_token_def split: if_splits)

lemma close_token_length: "close_token d rest t A = Token u d' \<Longrightarrow> length (d_input d') = length rest"
  by (auto simp: close_token_def split: if_splits list.splits)

lemma scalar_token_length: "scalar_token d s = Token u d' \<Longrightarrow> length (d_input d') < length s"
  by (auto simp: scalar_token_def dest!: lex_scalar_length lex_string_length
      split: if_splits list.splits option.splits)

lemma next_token_length: "next_token d = Token t d' \<Longrightarrow> length (d_input d') < length (d_input d)"
proof (induction d rule: next_token.induct)
  case (1 d)
  show ?case
  proof (cases "skip_space (d_input d)")
    case Nil
    then show ?thesis using "1.prems" by (simp add: next_token.simps [of d])
  next
    case (Cons c cs)
    have le: "length cs < length (d_input d)" using Cons by (rule skip_space_Cons)
    have step: "length (d_input d') < length (d_input d)" if "next_token (d\<lparr>d_input := cs, d_state := st\<rparr>) = Token t d'"
        "(c = CHR '':'' \<and> d_state d = ObjectColon \<and> st = ObjectValue) \<or>
         (c = CHR '','' \<and> d_state d = ArrayComma \<and> st = ArrayValue) \<or>
         (c = CHR '','' \<and> d_state d = ObjectComma \<and> st = ObjectKey)" for st
      using that(2) "1.IH" Cons that(1) le by fastforce
    from "1.prems" Cons have n: "(if c = CHR ''['' then open_token d cs TArrayOpen ArrayStart
        else if c = CHR '']'' then close_token d cs TArrayClose {ArrayStart, ArrayComma}
        else if c = CHR ''{'' then open_token d cs TObjectOpen ObjectStart
        else if c = CHR ''}'' then close_token d cs TObjectClose {ObjectStart, ObjectComma}
        else if c = CHR '':'' then
          (if d_state d = ObjectColon then next_token (d\<lparr>d_input := cs, d_state := ObjectValue\<rparr>) else BadToken)
        else if c = CHR '','' then
          (if d_state d = ArrayComma then next_token (d\<lparr>d_input := cs, d_state := ArrayValue\<rparr>)
           else if d_state d = ObjectComma then next_token (d\<lparr>d_input := cs, d_state := ObjectKey\<rparr>)
           else BadToken)
        else scalar_token d (c # cs)) = Token t d'"
      by (simp add: next_token.simps [of d])
    have "length (skip_space (d_input d)) \<le> length (d_input d)" by (rule length_skip_space)
    with n le step Cons show ?thesis
      by (auto dest!: open_token_length close_token_length scalar_token_length split: if_splits)
  qed
qed

section \<open>Whole values\<close>

text \<open>A decoded value; the members of an object in the order of the text, repeated keys included.\<close>

datatype json_value =
    JNull | JBool bool | JNumber bytes | JString bytes
  | JArray "json_value list" | JObject "(bytes \<times> json_value) list"

text \<open>
  What \<open>json.Unmarshal\<close> reads before it looks at the target: one value of the grammar, nested at
  most 10000 deep, with nothing but white space behind it. None is a syntax error. The fuel,
  twice the length of the text plus two, covers every text.
\<close>

definition max_nesting :: nat where "max_nesting = 10000"

fun any_value :: "nat \<Rightarrow> decoder \<Rightarrow> nat \<Rightarrow> (json_value \<times> decoder) option"
  and any_items :: "nat \<Rightarrow> decoder \<Rightarrow> nat \<Rightarrow> json_value list \<Rightarrow> (json_value \<times> decoder) option"
  and any_members :: "nat \<Rightarrow> decoder \<Rightarrow> nat \<Rightarrow> (bytes \<times> json_value) list \<Rightarrow> (json_value \<times> decoder) option" where
  "any_value 0 d depth = None"
| "any_value (Suc n) d depth =
     (case next_token d of
        Token t d' \<Rightarrow>
          (case t of
             TObjectOpen \<Rightarrow> if max_nesting \<le> depth then None else any_members n d' (depth + 1) []
           | TArrayOpen \<Rightarrow> if max_nesting \<le> depth then None else any_items n d' (depth + 1) []
           | TObjectClose \<Rightarrow> None
           | TArrayClose \<Rightarrow> None
           | TString s \<Rightarrow> Some (JString s, d')
           | TNumber s \<Rightarrow> Some (JNumber s, d')
           | TBool b \<Rightarrow> Some (JBool b, d')
           | TNull \<Rightarrow> Some (JNull, d'))
      | _ \<Rightarrow> None)"
| "any_items 0 d depth acc = None"
| "any_items (Suc n) d depth acc =
     (if more d
      then (case any_value n d depth of None \<Rightarrow> None | Some (v, d2) \<Rightarrow> any_items n d2 depth (acc @ [v]))
      else (case next_token d of Token TArrayClose d' \<Rightarrow> Some (JArray acc, d') | _ \<Rightarrow> None))"
| "any_members 0 d depth acc = None"
| "any_members (Suc n) d depth acc =
     (if more d
      then (case next_token d of
          Token (TString key) d1 \<Rightarrow>
            (case any_value n d1 depth of None \<Rightarrow> None
             | Some (v, d2) \<Rightarrow> any_members n d2 depth (acc @ [(key, v)]))
        | _ \<Rightarrow> None)
      else (case next_token d of Token TObjectClose d' \<Rightarrow> Some (JObject acc, d') | _ \<Rightarrow> None))"

definition parse_json :: "bytes \<Rightarrow> json_value option" where
  "parse_json s =
     (case any_value (2 * length s + 2) (new_decoder s) 0 of None \<Rightarrow> None
      | Some (v, d) \<Rightarrow> (case next_token d of EndOfInput \<Rightarrow> Some v | _ \<Rightarrow> None))"

text \<open>
  \<open>json.Unmarshal\<close> into a \<open>map[string]string\<close>: null leaves the map empty, a null member is the
  empty string, any other member or value is an error. The last member of a name counts.
\<close>

definition string_map_member :: "bytes \<times> json_value \<Rightarrow> (bytes \<times> bytes) option" where
  "string_map_member kv =
     (case snd kv of JString s \<Rightarrow> Some (fst kv, s) | JNull \<Rightarrow> Some (fst kv, []) | _ \<Rightarrow> None)"

definition unmarshal_string_map :: "bytes \<Rightarrow> (bytes \<times> bytes) list option" where
  "unmarshal_string_map s =
     (case parse_json s of
        Some JNull \<Rightarrow> Some []
      | Some (JObject kvs) \<Rightarrow>
          if list_all (\<lambda>kv. string_map_member kv \<noteq> None) kvs
          then Some (rev (map (\<lambda>kv. the (string_map_member kv)) kvs)) else None
      | _ \<Rightarrow> None)"

text \<open>
  \<open>json.Unmarshal\<close> into a struct with one string field: members are matched by name without
  regard to ASCII case (the field names used have no letter with another fold), the last one
  counts, null leaves the field as it was, and any other value is an error.
\<close>

definition string_field_step :: "bytes \<Rightarrow> bytes option \<Rightarrow> bytes \<times> json_value \<Rightarrow> bytes option" where
  "string_field_step field acc kv =
     (if to_lower (fst kv) \<noteq> field then acc
      else case acc of None \<Rightarrow> None
        | Some old \<Rightarrow> (case snd kv of JString s \<Rightarrow> Some s | JNull \<Rightarrow> Some old | _ \<Rightarrow> None))"

definition unmarshal_string_field :: "bytes \<Rightarrow> bytes \<Rightarrow> bytes option" where
  "unmarshal_string_field field s =
     (case parse_json s of
        Some JNull \<Rightarrow> Some []
      | Some (JObject kvs) \<Rightarrow> foldl (string_field_step field) (Some []) kvs
      | _ \<Rightarrow> None)"

end
