(* ===== verification/ConfigProps.thy ===== *)
theory ConfigProps
  imports ApkConfig
begin

text \<open>
  What the strict reader of the embedded configuration guarantees: it always answers, and an
  accepted object means the same to every JSON reader (no key twice at any level) and is not
  nested deeper than the limit.
\<close>

section \<open>Distinct keys and depth\<close>

fun json_depth :: "json_value \<Rightarrow> nat" where
  "json_depth (JArray vs) = Suc (fold max (map json_depth vs) 0)"
| "json_depth (JObject kvs) = Suc (fold max (map (\<lambda>(k, v). json_depth v) kvs) 0)"
| "json_depth _ = 0"

fun keys_distinct :: "json_value \<Rightarrow> bool" where
  "keys_distinct (JArray vs) = list_all keys_distinct vs"
| "keys_distinct (JObject kvs) = (distinct (map fst kvs) \<and> list_all (\<lambda>(k, v). keys_distinct v) kvs)"
| "keys_distinct _ = True"

definition depth_le :: "nat \<Rightarrow> json_value \<Rightarrow> bool" where
  "depth_le n v \<longleftrightarrow> json_depth v \<le> n"

lemma fold_max_le: "fold max xs (a :: nat) \<le> n \<longleftrightarrow> a \<le> n \<and> (\<forall>x\<in>set xs. x \<le> n)"
  by (induction xs arbitrary: a) auto

lemma depth_le_scalar [simp]:
  "depth_le n (JString s)" "depth_le n (JNumber s)" "depth_le n (JBool b)" "depth_le n JNull"
  by (simp_all add: depth_le_def)

lemma depth_le_array: "0 < n \<Longrightarrow> list_all (depth_le (n - 1)) vs \<Longrightarrow> depth_le n (JArray vs)"
  by (cases n) (auto simp: depth_le_def fold_max_le list_all_iff)

lemma depth_le_object: "0 < n \<Longrightarrow> list_all (\<lambda>(k, v). depth_le (n - 1) v) kvs \<Longrightarrow> depth_le n (JObject kvs)"
  by (cases n) (auto simp: depth_le_def fold_max_le list_all_iff)

lemma read_well_formed:
  "read_value n d depth = Inr (v, d') \<Longrightarrow> keys_distinct v \<and> depth_le (max_json_depth - depth) v"
  "read_items n d depth acc = Inr (v, d') \<Longrightarrow> 0 < depth \<Longrightarrow> depth \<le> max_json_depth \<Longrightarrow>
     list_all keys_distinct acc \<Longrightarrow> list_all (depth_le (max_json_depth - depth)) acc \<Longrightarrow>
     keys_distinct v \<and> depth_le (max_json_depth - (depth - 1)) v"
  "read_object n d depth obj = Inr (obj', d') \<Longrightarrow> distinct (map fst obj) \<Longrightarrow>
     list_all (\<lambda>(k, v). keys_distinct v) obj \<Longrightarrow> list_all (\<lambda>(k, v). depth_le (max_json_depth - depth) v) obj \<Longrightarrow>
     distinct (map fst obj') \<and> list_all (\<lambda>(k, v). keys_distinct v) obj' \<and>
     list_all (\<lambda>(k, v). depth_le (max_json_depth - depth) v) obj'"
proof (induction n d depth and n d depth acc and n d depth obj arbitrary: v d' and v d' and obj' d'
    rule: read_value_read_items_read_object.induct)
  case (2 n d depth)
  from "2.prems" obtain t d1 where t: "next_token d = Token t d1"
    by (auto split: token_result.splits)
  show ?case
  proof (cases t)
    case TObjectOpen
    with "2.prems" t obtain obj where lt: "depth < max_json_depth" and v: "v = JObject obj"
      and r: "read_object n d1 (depth + 1) [] = Inr (obj, d')"
      by (auto simp: result_simps split: if_splits)
    have "distinct (map fst obj) \<and> list_all (\<lambda>(k, v). keys_distinct v) obj \<and>
        list_all (\<lambda>(k, v). depth_le (max_json_depth - (depth + 1)) v) obj"
      using "2.IH"(2) [OF t TObjectOpen _ r] lt by simp
    then show ?thesis using lt by (auto simp: v intro!: depth_le_object)
  next
    case TArrayOpen
    with "2.prems" t have lt: "depth < max_json_depth" and r: "read_items n d1 (depth + 1) [] = Inr (v, d')"
      by (auto split: if_splits)
    then show ?thesis using "2.IH"(1) [OF t TArrayOpen _ r] by simp
  qed (use "2.prems" t in auto)
next
  case (4 n d depth acc)
  show ?case
  proof (cases "more d")
    case True
    with "4.prems"(1) obtain item d2 where r: "read_value n d depth = Inr (item, d2)"
        "read_items n d2 depth (acc @ [item]) = Inr (v, d')"
      by (auto simp: result_simps)
    have "keys_distinct item \<and> depth_le (max_json_depth - depth) item" by (rule "4.IH"(1) [OF True r(1)])
    then show ?thesis using "4.IH"(2) [OF True r(2)] "4.prems"(2-) by simp
  next
    case False
    with "4.prems" have "v = JArray acc" by (auto split: token_result.splits jtoken.splits)
    moreover have "max_json_depth - (depth - 1) - 1 = max_json_depth - depth" "0 < max_json_depth - (depth - 1)"
      using "4.prems"(2,3) by simp_all
    ultimately show ?thesis using "4.prems"(4,5) by (auto intro!: depth_le_array)
  qed
next
  case (6 n d depth acc)
  show ?case
  proof (cases "more d")
    case True
    with "6.prems"(1) obtain key d1 w d2 where t: "next_token d = Token (TString key) d1"
        and k: "key \<notin> set (map fst acc)" and r: "read_value n d1 depth = Inr (w, d2)"
        "read_object n d2 depth (acc @ [(key, w)]) = Inr (obj', d')"
      by (auto simp: result_simps split: token_result.splits jtoken.splits if_splits)
    have "keys_distinct w \<and> depth_le (max_json_depth - depth) w" by (rule "6.IH"(1) [OF True t refl k r(1)])
    then show ?thesis using "6.IH"(2) [OF True t refl k r(2)] k "6.prems"(2-) by simp
  next
    case False
    with "6.prems" show ?thesis by (auto split: token_result.splits jtoken.splits)
  qed
qed simp_all

lemma parse_strict_Inr:
  assumes "parse_strict_json_object raw = Inr obj"
  obtains d d' where "utf8_valid raw" "next_token (new_decoder raw) = Token TObjectOpen d"
    "read_object (json_fuel raw) d 1 [] = Inr (obj, d')" "next_token d' = EndOfInput"
proof -
  have u: "utf8_valid raw" using assms by (auto simp: parse_strict_json_object_def split: if_splits)
  obtain d where t: "next_token (new_decoder raw) = Token TObjectOpen d"
    using assms u by (auto simp: parse_strict_json_object_def split: token_result.splits jtoken.splits)
  have e: "rbind (read_object (json_fuel raw) d 1 []) (\<lambda>(obj, d').
      case next_token d' of EndOfInput \<Rightarrow> Inr obj | _ \<Rightarrow> json_invalid) = Inr obj"
    using assms by (simp add: parse_strict_json_object_def u t)
  obtain obj2 d' where r: "read_object (json_fuel raw) d 1 [] = Inr (obj2, d')"
    using e by (cases "read_object (json_fuel raw) d 1 []") auto
  with e have "next_token d' = EndOfInput" "obj2 = obj" by (cases "next_token d'"; simp)+
  with u t r show thesis using that by blast
qed

lemma config_fuel_suffices: "parse_strict_json_object raw \<noteq> Inl JsonOutOfFuel"
proof -
  have "read_object (json_fuel raw) d 1 [] \<noteq> Inl JsonOutOfFuel"
    if "next_token (new_decoder raw) = Token t d" for t d
    using next_token_length [OF that] by (intro read_fuel(3)) (simp add: json_fuel_def new_decoder_def)
  then show ?thesis
    by (auto simp: parse_strict_json_object_def result_simps split: token_result.splits jtoken.splits if_splits)
qed


text \<open>
  An accepted configuration reads the same in every JSON reader: it is valid UTF-8,
  no object at any level has a key twice, and it is nested at most 64 deep.
\<close>

theorem accepted_config_is_unambiguous:
  assumes "parse_strict_json_object raw = Inr obj"
  shows "utf8_valid raw \<and> keys_distinct (JObject obj) \<and> json_depth (JObject obj) \<le> max_json_depth"
proof -
  obtain d d' where u: "utf8_valid raw" and r: "read_object (json_fuel raw) d 1 [] = Inr (obj, d')"
    using assms by (rule parse_strict_Inr)
  have w: "distinct (map fst obj)" "list_all (\<lambda>(k, v). keys_distinct v) obj"
      "list_all (\<lambda>(k, v). depth_le (max_json_depth - 1) v) obj"
    using read_well_formed(3) [OF r] by simp_all
  have "depth_le max_json_depth (JObject obj)" using w(3) by (intro depth_le_object) (simp_all add: max_json_depth_def)
  then show ?thesis using u w by (simp add: depth_le_def)
qed

definition quoted :: "bytes \<Rightarrow> bytes" where
  "quoted s = CHR 0x22 # s @ [CHR 0x22]"

definition sample_config :: bytes where
  "sample_config = ''{'' @ quoted ''slug'' @ '' : '' @ quoted ''demo'' @ '', '' @ quoted ''android'' @ '':{'' @
     quoted ''versionCode'' @ '': 12, '' @ quoted ''x'' @ '':[1.5e3,true,null]}}''"

lemma sample_config_parses:
  "parse_strict_json_object sample_config =
     Inr [(''slug'', JString ''demo''),
          (''android'', JObject [(''versionCode'', JNumber ''12''),
             (''x'', JArray [JNumber ''1.5e3'', JBool True, JNull])])]"
  by code_simp

theorem accepted_config_is_unambiguous_witness:
  "utf8_valid sample_config \<and>
   keys_distinct (JObject [(''slug'', JString ''demo''),
          (''android'', JObject [(''versionCode'', JNumber ''12''),
             (''x'', JArray [JNumber ''1.5e3'', JBool True, JNull])])])"
  using accepted_config_is_unambiguous [OF sample_config_parses] by simp

end
