(* ===== verification/PolicyPermissions.thy ===== *)
theory PolicyPermissions
  imports GoText
begin

text \<open>
  \<open>signing/policy/permissions.go\<close>: the permission allow list embedded in the gate, its load-time
  checks, and the sets it gives for a package and channel. A Go set is the list of its members.
  The descriptive \<open>comment\<close> field of the list is left out.
\<close>

record permission_list =
  pl_format :: bytes
  pl_allowed :: "bytes list"
  pl_by_channel :: "(bytes \<times> bytes list) list"
  pl_package_scoped :: "bytes list"
  pl_definitions :: "bytes list"

definition permissions_format :: bytes where
  "permissions_format = ''rn-signer-permissions/v1''"

definition package_placeholder :: bytes where
  "package_placeholder = ''{package}''"

datatype permissions_error = FormatWrong | PermissionTwice bytes | ScopeWrong bytes | NameWhitespace bytes

text \<open>The closure \<open>check\<close>: names are collected over all lists; a scoped name may repeat.\<close>

definition check_name :: "bool \<Rightarrow> bytes list \<Rightarrow> bytes \<Rightarrow> permissions_error + bytes list" where
  "check_name scoped seen name =
     (if name \<in> set seen \<and> \<not> scoped then Inl (PermissionTwice name)
      else if scoped \<and> \<not> starts_with (package_placeholder @ ''.'') name then Inl (ScopeWrong name)
      else if trim_space name \<noteq> name \<or> name = [] then Inl (NameWhitespace name)
      else Inr (name # seen))"

definition check_names :: "bool \<Rightarrow> bytes list \<Rightarrow> bytes list \<Rightarrow> permissions_error + bytes list" where
  "check_names scoped seen names = fold_res (check_name scoped) seen names"

text \<open>
  \<open>loadPermissions\<close> on the decoded list; the channels are visited in the order of the association
  list, any order of a Go map.
\<close>

definition load_permissions :: "permission_list \<Rightarrow> permissions_error + permission_list" where
  "load_permissions pl =
     (if pl_format pl \<noteq> permissions_format \<or> pl_allowed pl = [] then Inl FormatWrong
      else rbind (check_names False [] (pl_allowed pl)) (\<lambda>s1.
        rbind (fold_res (\<lambda>s (channel, names). check_names False s names) s1 (pl_by_channel pl)) (\<lambda>s2.
        rbind (check_names True s2 (pl_package_scoped pl)) (\<lambda>s3.
        rbind (check_names True s3 (pl_definitions pl)) (\<lambda>s4. Inr pl)))))"

text \<open>\<open>strings.Replace(s, old, new, 1)\<close> for a non-empty \<open>old\<close>.\<close>

fun replace_first :: "bytes \<Rightarrow> bytes \<Rightarrow> bytes \<Rightarrow> bytes" where
  "replace_first old new [] = []"
| "replace_first old new (c # cs) =
     (if starts_with old (c # cs) then new @ drop (length old) (c # cs)
      else c # replace_first old new cs)"

definition allowed_permission_set :: "permission_list \<Rightarrow> bytes \<Rightarrow> bytes \<Rightarrow> bytes list" where
  "allowed_permission_set pl package_name channel =
     pl_allowed pl @
     (case map_of (pl_by_channel pl) channel of None \<Rightarrow> [] | Some names \<Rightarrow> names) @
     map (replace_first package_placeholder package_name) (pl_package_scoped pl)"

definition allowed_definition_set :: "permission_list \<Rightarrow> bytes \<Rightarrow> bytes list" where
  "allowed_definition_set pl package_name =
     map (replace_first package_placeholder package_name) (pl_definitions pl)"

text \<open>\<open>AllowedPermissions\<close>: the set, sorted.\<close>

definition allowed_permissions :: "permission_list \<Rightarrow> bytes \<Rightarrow> bytes \<Rightarrow> bytes list" where
  "allowed_permissions pl package_name channel = sorted_set (allowed_permission_set pl package_name channel)"

section \<open>The embedded list\<close>

definition embedded_permissions :: permission_list where
  "embedded_permissions = \<lparr>
     pl_format = ''rn-signer-permissions/v1'',
     pl_allowed = [
       ''android.permission.ACCESS_NETWORK_STATE'',
       ''android.permission.ACCESS_WIFI_STATE'',
       ''android.permission.INTERNET'',
       ''android.permission.RECEIVE_BOOT_COMPLETED'',
       ''android.permission.WAKE_LOCK'',
       ''android.permission.POST_NOTIFICATIONS'',
       ''android.permission.VIBRATE'',
       ''com.google.android.c2dm.permission.RECEIVE'',
       ''com.google.android.finsky.permission.BIND_GET_INSTALL_REFERRER_SERVICE'',
       ''android.permission.USE_BIOMETRIC'',
       ''android.permission.USE_FINGERPRINT'',
       ''android.permission.CAMERA'',
       ''android.permission.DETECT_SCREEN_CAPTURE'',
       ''android.permission.READ_MEDIA_IMAGES'',
       ''android.permission.READ_EXTERNAL_STORAGE'',
       ''android.permission.WRITE_EXTERNAL_STORAGE'',
       ''android.permission.READ_APP_BADGE'',
       ''com.anddoes.launcher.permission.UPDATE_COUNT'',
       ''com.htc.launcher.permission.READ_SETTINGS'',
       ''com.htc.launcher.permission.UPDATE_SHORTCUT'',
       ''com.huawei.android.launcher.permission.CHANGE_BADGE'',
       ''com.huawei.android.launcher.permission.READ_SETTINGS'',
       ''com.huawei.android.launcher.permission.WRITE_SETTINGS'',
       ''com.majeur.launcher.permission.UPDATE_BADGE'',
       ''com.oppo.launcher.permission.READ_SETTINGS'',
       ''com.oppo.launcher.permission.WRITE_SETTINGS'',
       ''com.sec.android.provider.badge.permission.READ'',
       ''com.sec.android.provider.badge.permission.WRITE'',
       ''com.sonyericsson.home.permission.BROADCAST_BADGE'',
       ''com.sonymobile.home.permission.PROVIDER_INSERT_BADGE'',
       ''me.everything.badger.permission.BADGE_COUNT_READ'',
       ''me.everything.badger.permission.BADGE_COUNT_WRITE''],
     pl_by_channel = [(''direct'', [''android.permission.REQUEST_INSTALL_PACKAGES''])],
     pl_package_scoped = [''{package}.DYNAMIC_RECEIVER_NOT_EXPORTED_PERMISSION''],
     pl_definitions = [''{package}.DYNAMIC_RECEIVER_NOT_EXPORTED_PERMISSION'']\<rparr>"

lemma replace_first_placeholder: "replace_first package_placeholder p (package_placeholder @ s) = p @ s"
  by (simp add: package_placeholder_def starts_with_def)

end
