(* ===== verification/Policy.thy ===== *)
theory Policy
  imports Provenance ApkTypes Json PolicyPermissions
begin

text \<open>
  \<open>signing/policy/policy.go\<close>: the checks a package must pass before the gate signs it.
  \<open>evaluate_file\<close> is the entry point of the inspection process: it hashes the file, checks the
  provenance, and only then hands the file to the APK parser, which is an argument, as it is a
  package variable in the code.

  A check returns the facts it has completed, or the violation that ends the evaluation. Every
  dereference of a pointer that could be nil is written out (\<open>NilDereference\<close>), so that its
  absence is a theorem. The text of a violation (\<open>Detail\<close>) is not modelled. PEM decoding, X.509
  parsing and the JSON decoding of the build statement are parameters (\<open>policy_lib\<close>).
\<close>

section \<open>Input and result\<close>

record job =
  job_id :: bytes
  job_tenant_slug :: bytes
  job_version :: bytes
  job_build_number :: int
  job_attempt :: int
  job_sign_attempt :: int
  job_commit_sha :: bytes
  job_unsigned_sha256 :: bytes
  job_unsigned_size :: int
  job_sbom_sha256 :: bytes
  job_native_fingerprint :: bytes

record job_provenance =
  pv_statement :: bytes
  pv_signature :: bytes
  pv_builder_id :: bytes
  pv_builder_public_key :: bytes

record trusted_builder =
  tb_id :: bytes
  tb_key_sha256 :: bytes

record confirmed =
  cn_tenant_slug :: bytes
  cn_package_name :: bytes
  cn_certificate_sha256 :: bytes
  cn_trust_roots :: roots
  cn_min_sdk :: int
  cn_target_sdk :: int
  cn_first_sign_max :: int

record signed_input =
  sg_has_max :: bool
  sg_max_version_code :: int

record policy_limits =
  pol_max_jump :: int
  pol_max_version_code :: int

record policy_input =
  in_version :: int
  in_job :: job
  in_provenance :: job_provenance
  in_builders :: "trusted_builder list"
  in_confirmed :: confirmed
  in_signed :: signed_input
  in_limits :: policy_limits
  in_apk_size :: int

record facts =
  fa_size :: int
  fa_package_name :: bytes
  fa_version_code :: int
  fa_version_name :: bytes
  fa_min_sdk :: int
  fa_target_sdk :: int
  fa_permissions :: "bytes list"
  fa_permission_definitions :: "bytes list"
  fa_trust_roots :: roots
  fa_native_fingerprint :: bytes
  fa_native_fingerprint_source :: bytes
  fa_builder_id :: bytes
  fa_commit_sha :: bytes

datatype policy_code =
    ApkUnreadable | PolicyInputInvalid | UnsignedSha256Mismatch | UnsignedSizeMismatch
  | ApkUnparseable | PolicyManifestMissing | ApkRejected apk_code
  | BuilderNotTrusted | BuilderKeyMismatch | ProvenanceSignatureInvalid
  | ProvenanceStatementInvalid | ProvenanceMismatch bytes
  | InputAlreadySigned | NotAligned
  | PackageNameMismatch | VersionNameMismatch | VersionCodeMajorPresent | VersionCodeMissing
  | VersionCodeMismatch | VersionCodeAboveLimit | VersionCodeNotIncreasing
  | VersionCodeJumpTooLarge | VersionCodeAboveFirstSignLimit
  | ManifestApplicationMissing | Debuggable | TestOnly | AllowBackupNotFalse
  | CleartextTrafficAllowed | NetworkSecurityConfigPresent | SharedUserIdPresent
  | MinSdkBelowConfirmed | TargetSdkBelowConfirmed
  | PermissionNotAllowed | PermissionDefinitionNotAllowed
  | EmbeddedConfigMissing | OtaConfigurationNotAllowed | TrustRootMismatch
  | ManifestMetaDataDuplicate | OtaCertificateMismatch | OtaCertificateMissing
  | CleartextAppLink | NativeFingerprintInvalid | NativeFingerprintMismatch

definition kind_violation :: bytes where "kind_violation = ''violation''"

record verdict =
  vd_ok :: bool
  vd_kind :: bytes
  vd_code :: "policy_code option"
  vd_checked_sha256 :: bytes
  vd_facts :: "facts option"

datatype policy_fail = NilDereference | Violation policy_code

datatype outcome = Panicked | Verdict verdict

definition violation :: "policy_code \<Rightarrow> verdict" where
  "violation c = \<lparr>vd_ok = False, vd_kind = kind_violation, vd_code = Some c, vd_checked_sha256 = [],
     vd_facts = None\<rparr>"

fun deref :: "'a option \<Rightarrow> policy_fail + 'a" where
  "deref None = Inl NilDereference"
| "deref (Some x) = Inr x"

abbreviation refuse :: "policy_code \<Rightarrow> policy_fail + 'a" where
  "refuse c \<equiv> Inl (Violation c)"

text \<open>A guard that ends the check with a violation.\<close>

definition require :: "bool \<Rightarrow> policy_code \<Rightarrow> policy_fail + 'a \<Rightarrow> policy_fail + 'a" where
  "require ok c k = (if ok then k else refuse c)"

lemma require_Inr [result_simps]: "require ok c k = Inr y \<longleftrightarrow> ok \<and> k = Inr y"
  by (simp add: require_def)

lemma require_Inl [result_simps]:
  "require ok c k = Inl e \<longleftrightarrow> (\<not> ok \<and> e = Violation c) \<or> (ok \<and> k = Inl e)"
  by (auto simp: require_def)

lemma deref_Inr [result_simps]: "deref o' = Inr y \<longleftrightarrow> o' = Some y"
  by (cases o') auto

lemma deref_Inl [result_simps]: "deref o' = Inl e \<longleftrightarrow> o' = None \<and> e = NilDereference"
  by (cases o') auto

text \<open>The parts of the standard library that are parameters.\<close>

record pem_block =
  pem_type :: bytes
  pem_headers :: "(bytes \<times> bytes) list"
  pem_bytes :: bytes

record policy_lib =
  lib_crypto :: crypto
  lib_statement :: "bytes \<Rightarrow> statement option"
  lib_pem :: "bytes \<Rightarrow> (pem_block \<times> bytes) option"
  lib_x509 :: "bytes \<Rightarrow> bool"

section \<open>The shape of the input\<close>

definition input_version :: int where "input_version = 1"
definition min_sdk_floor :: int where "min_sdk_floor = 24"
definition target_sdk_floor :: int where "target_sdk_floor = 28"

definition validate_job :: "policy_input \<Rightarrow> bool" where
  "validate_job inp =
     (let j = in_job inp in
      \<not> (in_version inp \<noteq> input_version) \<and>
      \<not> (\<not> valid_server_id (job_id j)) \<and>
      \<not> (\<not> valid_tenant_slug (job_tenant_slug j)) \<and>
      \<not> (job_version j = [] \<or> 64 < length (job_version j) \<or> \<not> printable_ascii (job_version j) \<or>
         CHR '' '' \<in> set (job_version j)) \<and>
      \<not> (job_build_number j < 1) \<and>
      \<not> (job_attempt j < 1 \<or> job_sign_attempt j < 1) \<and>
      \<not> (\<not> fingerprint_valid (job_unsigned_sha256 j) \<or> \<not> fingerprint_valid (job_sbom_sha256 j)) \<and>
      \<not> (job_unsigned_size j < 1 \<or> in_apk_size inp < 1) \<and>
      \<not> (\<not> valid_server_id (pv_builder_id (in_provenance inp))))"

definition validate_confirmed :: "policy_input \<Rightarrow> bool" where
  "validate_confirmed inp =
     (let c = in_confirmed inp in
      \<not> (\<not> valid_tenant_slug (cn_tenant_slug c) \<or> \<not> valid_package_name (cn_package_name c) \<or>
         \<not> fingerprint_valid (cn_certificate_sha256 c)) \<and>
      \<not> (cn_min_sdk c < min_sdk_floor \<or> cn_target_sdk c < cn_min_sdk c \<or> cn_target_sdk c < target_sdk_floor) \<and>
      \<not> (cn_first_sign_max c < 1) \<and>
      \<not> (pol_max_jump (in_limits inp) < 1 \<or> pol_max_version_code (in_limits inp) < 1) \<and>
      \<not> (sg_has_max (in_signed inp) \<and> sg_max_version_code (in_signed inp) < 1))"

text \<open>\<open>ValidateInput\<close>: whether it returns nil.\<close>

definition validate_input :: "policy_input \<Rightarrow> bool" where
  "validate_input inp \<longleftrightarrow>
     validate_job inp \<and> validate_confirmed inp \<and>
     (case roots_normalize (cn_trust_roots (in_confirmed inp)) of
        Inl _ \<Rightarrow> False
      | Inr n \<Rightarrow> roots_equal n (cn_trust_roots (in_confirmed inp))) \<and>
     list_all (\<lambda>b. valid_server_id (tb_id b) \<and> fingerprint_valid (tb_key_sha256 b)) (in_builders inp)"

section \<open>Provenance\<close>

text \<open>The pinned key of a builder: the last entry of that id wins, and an empty pin is none.\<close>

definition pinned_key :: "trusted_builder list \<Rightarrow> bytes \<Rightarrow> bytes" where
  "pinned_key bs b = foldl (\<lambda>p x. if tb_id x = b then tb_key_sha256 x else p) [] bs"

text \<open>The comparison of the statement with the job: the first field that differs.\<close>

definition statement_mismatch :: "policy_input \<Rightarrow> statement \<Rightarrow> bytes option" where
  "statement_mismatch inp s =
     (let j = in_job inp; c = in_confirmed inp in
      if st_job_id s \<noteq> job_id j then Some ''jobId''
      else if st_attempt s \<noteq> job_attempt j then Some ''attempt''
      else if st_tenant_slug s \<noteq> job_tenant_slug j \<or> st_tenant_slug s \<noteq> cn_tenant_slug c then Some ''tenantSlug''
      else if st_package_name s \<noteq> cn_package_name c then Some ''packageName''
      else if st_version_code s \<noteq> job_build_number j then Some ''versionCode''
      else if st_version_name s \<noteq> job_version j then Some ''versionName''
      else if st_commit_sha s \<noteq> job_commit_sha j then Some ''commitSha''
      else if st_unsigned_sha256 s \<noteq> job_unsigned_sha256 j then Some ''unsignedSha256''
      else if st_unsigned_size s \<noteq> job_unsigned_size j then Some ''unsignedSize''
      else if st_sbom_sha256 s \<noteq> job_sbom_sha256 j then Some ''sbomSha256''
      else if st_native_fingerprint s \<noteq> job_native_fingerprint j then Some ''nativeFingerprint''
      else if st_builder_id s \<noteq> pv_builder_id (in_provenance inp) then Some ''builderId''
      else None)"

definition check_provenance :: "policy_lib \<Rightarrow> policy_input \<Rightarrow> policy_fail + statement" where
  "check_provenance L inp =
     (let p = in_provenance inp; pinned = pinned_key (in_builders inp) (pv_builder_id p) in
      if pinned = [] then refuse BuilderNotTrusted
      else case b64_decode (pv_builder_public_key p) of
        None \<Rightarrow> refuse BuilderKeyMismatch
      | Some pub \<Rightarrow>
        if length pub \<noteq> ed_public_key_size \<or> sha256_hex (lib_crypto L) pub \<noteq> pinned
        then refuse BuilderKeyMismatch
        else case provenance_verify (lib_crypto L) (lib_statement L)
               \<lparr>env_statement = pv_statement p, env_signature = pv_signature p\<rparr> pub of
          Inl SignatureInvalid \<Rightarrow> refuse ProvenanceSignatureInvalid
        | Inl _ \<Rightarrow> refuse ProvenanceStatementInvalid
        | Inr s \<Rightarrow>
          (case statement_mismatch inp s of
             Some field \<Rightarrow> refuse (ProvenanceMismatch field)
           | None \<Rightarrow> Inr s))"

definition check_before_parsing ::
    "policy_lib \<Rightarrow> policy_input \<Rightarrow> bytes \<Rightarrow> int \<Rightarrow> policy_fail + statement" where
  "check_before_parsing L inp digest size_of =
     require (validate_input inp) PolicyInputInvalid
     (rbind (check_provenance L inp) (\<lambda>s.
       require (digest = st_unsigned_sha256 s \<and> digest = job_unsigned_sha256 (in_job inp)) UnsignedSha256Mismatch
       (require (size_of = st_unsigned_size s \<and> size_of = job_unsigned_size (in_job inp) \<and> size_of = in_apk_size inp)
          UnsignedSizeMismatch
        (Inr s))))"

section \<open>The package\<close>

definition check_structure :: "policy_input \<Rightarrow> package \<Rightarrow> facts \<Rightarrow> policy_fail + facts" where
  "check_structure inp pkg fa =
     require (\<not> pkg_signing_block pkg) InputAlreadySigned
     (require (pkg_v1_signature_files pkg = []) InputAlreadySigned
     (require (pkg_misaligned_count pkg = 0) NotAligned (Inr fa)))"

definition check_version_code :: "policy_input \<Rightarrow> int \<Rightarrow> policy_code option" where
  "check_version_code inp vc =
     (let lim = in_limits inp; s = in_signed inp in
      if vc \<noteq> job_build_number (in_job inp) then Some VersionCodeMismatch
      else if vc < 1 \<or> pol_max_version_code lim < vc then Some VersionCodeAboveLimit
      else if sg_has_max s then
        (if vc \<le> sg_max_version_code s then Some VersionCodeNotIncreasing
         else if pol_max_jump lim < vc - sg_max_version_code s then Some VersionCodeJumpTooLarge
         else None)
      else if cn_first_sign_max (in_confirmed inp) < vc then Some VersionCodeAboveFirstSignLimit
      else None)"

definition check_identity :: "policy_input \<Rightarrow> package \<Rightarrow> facts \<Rightarrow> policy_fail + facts" where
  "check_identity inp pkg fa =
     rbind (deref (pkg_manifest pkg)) (\<lambda>m.
     require (man_package m = cn_package_name (in_confirmed inp)) PackageNameMismatch
     (case man_version_name m of None \<Rightarrow> refuse VersionNameMismatch
      | Some vn \<Rightarrow>
        require (vn = job_version (in_job inp)) VersionNameMismatch
        (require (\<not> man_version_code_major m) VersionCodeMajorPresent
        (case man_version_code m of None \<Rightarrow> refuse VersionCodeMissing
         | Some vc \<Rightarrow>
           (case check_version_code inp vc of
              Some c \<Rightarrow> refuse c
            | None \<Rightarrow> Inr (fa\<lparr>fa_package_name := man_package m, fa_version_name := vn,
                             fa_version_code := vc\<rparr>))))))"

definition application_violation :: "manifest \<Rightarrow> application option \<Rightarrow> policy_code option" where
  "application_violation m app =
     (case app of None \<Rightarrow> Some ManifestApplicationMissing
      | Some a \<Rightarrow>
        if app_debuggable a then Some Debuggable
        else if app_test_only a then Some TestOnly
        else if app_allow_backup a \<noteq> Some False then Some AllowBackupNotFalse
        else if app_uses_cleartext_traffic a = Some True then Some CleartextTrafficAllowed
        else if app_network_security_config a then Some NetworkSecurityConfigPresent
        else if man_shared_user_id m then Some SharedUserIdPresent
        else None)"

definition check_attributes :: "policy_input \<Rightarrow> package \<Rightarrow> facts \<Rightarrow> policy_fail + facts" where
  "check_attributes inp pkg fa =
     rbind (deref (pkg_manifest pkg)) (\<lambda>m.
     case application_violation m (man_application m) of
       Some c \<Rightarrow> refuse c
     | None \<Rightarrow>
       (case man_min_sdk m of None \<Rightarrow> refuse MinSdkBelowConfirmed
        | Some min_sdk \<Rightarrow>
          let target = (case man_target_sdk m of Some t \<Rightarrow> t | None \<Rightarrow> min_sdk) in
          require (cn_min_sdk (in_confirmed inp) \<le> min_sdk) MinSdkBelowConfirmed
          (require (cn_target_sdk (in_confirmed inp) \<le> target) TargetSdkBelowConfirmed
          (Inr (fa\<lparr>fa_min_sdk := min_sdk, fa_target_sdk := target\<rparr>)))))"

definition protection_signature :: int where "protection_signature = 2"

definition definition_step ::
    "bytes list \<Rightarrow> bytes list \<Rightarrow> permission_def \<Rightarrow> policy_fail + bytes list" where
  "definition_step allowed seen d =
     require (\<not> (pd_name d \<notin> set allowed \<or> pd_name d \<in> set seen)) PermissionDefinitionNotAllowed
     (require (pd_protection_level d = Some protection_signature) PermissionDefinitionNotAllowed
     (Inr (seen @ [pd_name d])))"

definition check_permissions ::
    "permission_list \<Rightarrow> policy_input \<Rightarrow> package \<Rightarrow> facts \<Rightarrow> policy_fail + facts" where
  "check_permissions pl inp pkg fa =
     rbind (deref (pkg_manifest pkg)) (\<lambda>m.
     let c = in_confirmed inp;
         allowed = allowed_permission_set pl (cn_package_name c) (distribution_channel (cn_trust_roots c));
         names = map up_name (man_uses_permissions m) in
     require (list_all (\<lambda>n. n \<in> set allowed) names) PermissionNotAllowed
     (require (\<not> (0 < man_permission_trees m \<or> 0 < man_permission_groups m)) PermissionDefinitionNotAllowed
     (rbind (fold_res (definition_step (allowed_definition_set pl (cn_package_name c))) [] (man_permissions m)) (\<lambda>defs.
       Inr (fa\<lparr>fa_permissions := sorted_set names, fa_permission_definitions := sort defs\<rparr>)))))"

section \<open>The embedded configuration\<close>

definition expo_updates_prefix :: bytes where
  "expo_updates_prefix = ''expo.modules.updates.''"

definition meta_code_signing_certificate :: bytes where
  "meta_code_signing_certificate = ''expo.modules.updates.CODE_SIGNING_CERTIFICATE''"
definition meta_code_signing_metadata :: bytes where
  "meta_code_signing_metadata = ''expo.modules.updates.CODE_SIGNING_METADATA''"
definition meta_update_url :: bytes where
  "meta_update_url = ''expo.modules.updates.EXPO_UPDATE_URL''"
definition meta_updates_enabled :: bytes where
  "meta_updates_enabled = ''expo.modules.updates.ENABLED''"
definition meta_request_headers :: bytes where
  "meta_request_headers = ''expo.modules.updates.UPDATES_CONFIGURATION_REQUEST_HEADERS_KEY''"

datatype meta_rule = CheckedElsewhere | RuntimeVersion | OneOf "bytes list" | IntLiteral | BoolLiteral "bool option"

fun meta_rule_ok :: "meta_rule \<Rightarrow> meta_data \<Rightarrow> bool" where
  "meta_rule_ok CheckedElsewhere md = True"
| "meta_rule_ok RuntimeVersion md = (\<not> md_has_resource md \<or> val_type (md_value md) = 0)"
| "meta_rule_ok (OneOf values) md =
     (case value_str (md_value md) of None \<Rightarrow> False
      | Some s \<Rightarrow> \<not> md_has_resource md \<and> s \<in> set values)"
| "meta_rule_ok IntLiteral md = (value_int (md_value md) \<noteq> None \<and> \<not> md_has_resource md)"
| "meta_rule_ok (BoolLiteral want) md =
     (case value_bool (md_value md) of None \<Rightarrow> False
      | Some v \<Rightarrow> \<not> md_has_resource md \<and> (case want of None \<Rightarrow> True | Some w \<Rightarrow> v = w))"

definition expo_updates_meta :: "(bytes \<times> meta_rule) list" where
  "expo_updates_meta =
     [(meta_code_signing_certificate, CheckedElsewhere),
      (meta_code_signing_metadata, CheckedElsewhere),
      (meta_update_url, CheckedElsewhere),
      (meta_updates_enabled, CheckedElsewhere),
      (meta_request_headers, CheckedElsewhere),
      (''expo.modules.updates.EXPO_RUNTIME_VERSION'', RuntimeVersion),
      (''expo.modules.updates.EXPO_UPDATES_CHECK_ON_LAUNCH'',
         OneOf [''ALWAYS'', ''WIFI_ONLY'', ''NEVER'', ''ERROR_RECOVERY_ONLY'']),
      (''expo.modules.updates.EXPO_UPDATES_LAUNCH_WAIT_MS'', IntLiteral),
      (''expo.modules.updates.ENABLE_BSDIFF_PATCH_SUPPORT'', BoolLiteral None),
      (''expo.modules.updates.HAS_EMBEDDED_UPDATE'', BoolLiteral (Some True)),
      (''expo.modules.updates.CODE_SIGNING_ALLOW_UNSIGNED_MANIFESTS'', BoolLiteral (Some False)),
      (''expo.modules.updates.DISABLE_ANTI_BRICKING_MEASURES'', BoolLiteral (Some False)),
      (''expo.modules.updates.ENABLE_EXPO_UPDATES_PROTOCOL_V0_COMPATIBILITY_MODE'', BoolLiteral (Some False)),
      (''expo.modules.updates.CODE_SIGNING_INCLUDE_MANIFEST_RESPONSE_CERTIFICATE_CHAIN'', BoolLiteral (Some False))]"

text \<open>\<open>metaDataByName\<close>: the meta-data of the application, a duplicate name is a violation.\<close>

definition meta_step :: "(bytes \<times> meta_data) list \<Rightarrow> meta_data \<Rightarrow> policy_fail + (bytes \<times> meta_data) list" where
  "meta_step out md =
     require (map_of out (md_name md) = None) ManifestMetaDataDuplicate (Inr (out @ [(md_name md, md)]))"

definition meta_data_by_name :: "manifest \<Rightarrow> policy_fail + (bytes \<times> meta_data) list" where
  "meta_data_by_name m =
     (case man_application m of None \<Rightarrow> Inr []
      | Some a \<Rightarrow> fold_res meta_step [] (app_meta_data a))"

definition meta_string :: "(bytes \<times> meta_data) list \<Rightarrow> bytes \<Rightarrow> bytes option" where
  "meta_string meta name =
     (case map_of meta name of None \<Rightarrow> None
      | Some md \<Rightarrow> if md_has_resource md then None else value_str (md_value md))"

definition meta_bool :: "(bytes \<times> meta_data) list \<Rightarrow> bytes \<Rightarrow> bool option" where
  "meta_bool meta name =
     (case map_of meta name of None \<Rightarrow> None
      | Some md \<Rightarrow> if md_has_resource md then None else value_bool (md_value md))"

text \<open>The loop over the sorted names: an \<open>expo.modules.updates.\<close> entry must be known and pass its rule.\<close>

definition meta_allowed :: "(bytes \<times> meta_data) list \<Rightarrow> bytes \<Rightarrow> bool" where
  "meta_allowed meta name \<longleftrightarrow>
     (starts_with expo_updates_prefix name \<longrightarrow>
        (case map_of expo_updates_meta name of None \<Rightarrow> False
         | Some rule \<Rightarrow> (case map_of meta name of None \<Rightarrow> False | Some md \<Rightarrow> meta_rule_ok rule md)))"

text \<open>\<open>checkExpoConfig\<close>: every field must match the confirmed roots; all failures have one code.\<close>

definition expo_config_ok :: "expo_config \<Rightarrow> confirmed \<Rightarrow> bool" where
  "expo_config_ok cfg c =
     (let want = cn_trust_roots c in
      cfg_api_base_url cfg = Some (api_base_url want) \<and>
      (case cfg_bootstrap_signer_address cfg of None \<Rightarrow> False
       | Some a \<Rightarrow> normalize_address a = Inr (bootstrap_signer_address want)) \<and>
      cfg_application_id cfg = Some (application_id want) \<and>
      cfg_distribution_channel cfg = Some (distribution_channel want) \<and>
      cfg_updates_url cfg = Some (ota_manifest_url (api_base_url want)) \<and>
      cfg_updates_enabled cfg = Some True \<and>
      cfg_scheme cfg = Some (scheme want) \<and>
      cfg_android_package cfg = Some (cn_package_name c))"

definition headers_ok :: "(bytes \<times> meta_data) list \<Rightarrow> confirmed \<Rightarrow> bool" where
  "headers_ok meta c =
     (case map_of meta meta_request_headers of None \<Rightarrow> True
      | Some _ \<Rightarrow>
        (case meta_string meta meta_request_headers of None \<Rightarrow> False
         | Some raw \<Rightarrow>
           (case unmarshal_string_map raw of None \<Rightarrow> False
            | Some headers \<Rightarrow>
                (case map_of headers ''x-application-id'' of None \<Rightarrow> [] | Some v \<Rightarrow> v) =
                  application_id (cn_trust_roots c))))"

definition check_embedded_config :: "policy_input \<Rightarrow> package \<Rightarrow> facts \<Rightarrow> policy_fail + facts" where
  "check_embedded_config inp pkg fa =
     (let c = in_confirmed inp in
      case pkg_app_config pkg of None \<Rightarrow> refuse EmbeddedConfigMissing
      | Some cfg \<Rightarrow>
        require (expo_config_ok cfg c) TrustRootMismatch
        (require (case pkg_app_manifest pkg of None \<Rightarrow> True | Some am \<Rightarrow> expo_config_ok am c) TrustRootMismatch
        (rbind (deref (cfg_api_base_url cfg)) (\<lambda>url.
         rbind (deref (cfg_bootstrap_signer_address cfg)) (\<lambda>address.
         rbind (deref (cfg_application_id cfg)) (\<lambda>app_id.
         rbind (deref (cfg_distribution_channel cfg)) (\<lambda>channel.
         rbind (deref (cfg_scheme cfg)) (\<lambda>sch.
         rbind (deref (pkg_manifest pkg)) (\<lambda>m.
         rbind (meta_data_by_name m) (\<lambda>meta.
           require (list_all (meta_allowed meta) (sorted_keys meta)) OtaConfigurationNotAllowed
           (require (meta_string meta meta_update_url = Some (ota_manifest_url (api_base_url (cn_trust_roots c))))
              TrustRootMismatch
           (require (meta_bool meta meta_updates_enabled = Some True) TrustRootMismatch
           (require (headers_ok meta c) TrustRootMismatch
           (Inr (fa\<lparr>fa_trust_roots := (fa_trust_roots fa)\<lparr>api_base_url := url,
               bootstrap_signer_address := to_lower address, application_id := app_id,
               distribution_channel := channel, scheme := sch\<rparr>\<rparr>)))))))))))))))"

text \<open>\<open>singleCertificate\<close>: exactly one CERTIFICATE block without headers that parses as X.509.\<close>

definition single_certificate :: "policy_lib \<Rightarrow> bytes \<Rightarrow> bytes option" where
  "single_certificate L raw =
     (case lib_pem L (trim_space raw) of None \<Rightarrow> None
      | Some (block, rest) \<Rightarrow>
        if pem_type block \<noteq> ''CERTIFICATE'' \<or> pem_headers block \<noteq> [] then None
        else if trim_space rest \<noteq> [] then None
        else if \<not> lib_x509 L (pem_bytes block) then None
        else Some (pem_bytes block))"

definition signing_metadata_ok :: "(bytes \<times> meta_data) list \<Rightarrow> bool" where
  "signing_metadata_ok meta =
     (case map_of meta meta_code_signing_metadata of None \<Rightarrow> True
      | Some _ \<Rightarrow>
        (case meta_string meta meta_code_signing_metadata of None \<Rightarrow> False
         | Some raw \<Rightarrow> unmarshal_string_field ''alg'' raw = Some ''rsa-v1_5-sha256''))"

definition check_ota_certificate ::
    "policy_lib \<Rightarrow> policy_input \<Rightarrow> package \<Rightarrow> facts \<Rightarrow> policy_fail + facts" where
  "check_ota_certificate L inp pkg fa =
     rbind (deref (pkg_manifest pkg)) (\<lambda>m.
     rbind (meta_data_by_name m) (\<lambda>meta.
     case meta_string meta meta_code_signing_certificate of
       None \<Rightarrow>
         if map_of meta meta_code_signing_certificate \<noteq> None then refuse OtaCertificateMismatch
         else refuse OtaCertificateMissing
     | Some raw \<Rightarrow>
       (case single_certificate L raw of None \<Rightarrow> refuse OtaCertificateMismatch
        | Some der \<Rightarrow>
          let digest = sha256_hex (lib_crypto L) der in
          require (digest = ota_certificate_sha256 (cn_trust_roots (in_confirmed inp))) OtaCertificateMismatch
          (require (signing_metadata_ok meta) OtaCertificateMismatch
          (Inr (fa\<lparr>fa_trust_roots := (fa_trust_roots fa)\<lparr>ota_certificate_sha256 := digest\<rparr>\<rparr>))))))"

section \<open>Links\<close>

text \<open>The schemes of one filter: http ends the check, https marks the filter, others are collected.\<close>

definition scheme_step :: "bool \<times> bytes list \<Rightarrow> bytes \<Rightarrow> policy_fail + bool \<times> bytes list" where
  "scheme_step st s =
     (if s = ''http'' then refuse CleartextAppLink
      else if s = ''https'' then Inr (True, snd st)
      else Inr (fst st, snd st @ [s]))"

definition filter_step ::
    "bytes list \<times> bytes list \<Rightarrow> intent_filter \<Rightarrow> policy_fail + bytes list \<times> bytes list" where
  "filter_step st f =
     rbind (fold_res scheme_step (False, snd st) (if_schemes f)) (\<lambda>(web, schemes).
       if web then require (if_hosts f \<noteq> []) TrustRootMismatch (Inr (fst st @ if_hosts f, schemes))
       else Inr (fst st, schemes))"

text \<open>\<open>strings.Join(list, "\n")\<close>.\<close>

fun join_lf :: "bytes list \<Rightarrow> bytes" where
  "join_lf [] = []"
| "join_lf [x] = x"
| "join_lf (x # y # xs) = x @ CHR 0x0A # join_lf (y # xs)"

text \<open>\<open>^[a-z0-9][a-z0-9-]{0,63}$\<close>\<close>

definition valid_expo_slug :: "bytes \<Rightarrow> bool" where
  "valid_expo_slug s =
     (case s of [] \<Rightarrow> False
      | c # cs \<Rightarrow> (is_lower c \<or> is_digit c) \<and> length cs \<le> 63 \<and>
          list_all (\<lambda>x. is_lower x \<or> is_digit x \<or> x = CHR ''-'') cs)"

definition allowed_dev_scheme :: "expo_config \<Rightarrow> bytes" where
  "allowed_dev_scheme cfg =
     (case cfg_slug cfg of None \<Rightarrow> []
      | Some slug \<Rightarrow> if valid_expo_slug slug then ''exp+'' @ slug else [])"

definition check_links :: "policy_input \<Rightarrow> package \<Rightarrow> facts \<Rightarrow> policy_fail + facts" where
  "check_links inp pkg fa =
     (let want = cn_trust_roots (in_confirmed inp) in
      rbind (deref (pkg_manifest pkg)) (\<lambda>m.
      rbind (fold_res filter_step ([], []) (man_intent_filters m)) (\<lambda>(hosts, schemes).
        require (join_lf (sorted_set hosts) = join_lf (app_links_hosts want)) TrustRootMismatch
        (require (scheme want \<in> set schemes) TrustRootMismatch
        (rbind (deref (pkg_app_config pkg)) (\<lambda>cfg.
          require (list_all (\<lambda>s. s = scheme want \<or> s = allowed_dev_scheme cfg) schemes) TrustRootMismatch
          (Inr (fa\<lparr>fa_trust_roots := (fa_trust_roots fa)\<lparr>app_links_hosts := sorted_set hosts\<rparr>\<rparr>))))))))"

definition check_native_fingerprint :: "policy_input \<Rightarrow> package \<Rightarrow> facts \<Rightarrow> policy_fail + facts" where
  "check_native_fingerprint inp pkg fa =
     (case pkg_native_fingerprint pkg of None \<Rightarrow> Inr fa
      | Some got \<Rightarrow>
        require (valid_native_fingerprint got) NativeFingerprintInvalid
        (require (got = fa_native_fingerprint fa) NativeFingerprintMismatch (Inr fa)))"

section \<open>Evaluation\<close>

definition empty_roots :: roots where
  "empty_roots = \<lparr>api_base_url = [], ota_certificate_sha256 = [], bootstrap_signer_address = [],
     app_links_hosts = [], scheme = [], distribution_channel = [], application_id = []\<rparr>"

definition native_fingerprint_source :: bytes where
  "native_fingerprint_source = ''builder-provenance''"

definition initial_facts :: "statement \<Rightarrow> int \<Rightarrow> facts" where
  "initial_facts s size_of = \<lparr>fa_size = size_of, fa_package_name = [], fa_version_code = 0,
     fa_version_name = [], fa_min_sdk = 0, fa_target_sdk = 0, fa_permissions = [],
     fa_permission_definitions = [], fa_trust_roots = empty_roots,
     fa_native_fingerprint = st_native_fingerprint s,
     fa_native_fingerprint_source = native_fingerprint_source, fa_builder_id = st_builder_id s,
     fa_commit_sha = st_commit_sha s\<rparr>"

datatype parse_error = ApkError apk_code | OtherError

type_synonym parse_result = "package option \<times> parse_error option"

definition policy_checks ::
    "policy_lib \<Rightarrow> permission_list \<Rightarrow> (policy_input \<Rightarrow> package \<Rightarrow> facts \<Rightarrow> policy_fail + facts) list" where
  "policy_checks L pl =
     [check_structure, check_identity, check_attributes, check_permissions pl, check_embedded_config,
      check_ota_certificate L, check_links, check_native_fingerprint]"

definition check_parsed ::
    "policy_lib \<Rightarrow> permission_list \<Rightarrow> policy_input \<Rightarrow> statement \<Rightarrow> int \<Rightarrow> parse_result \<Rightarrow> policy_fail + facts" where
  "check_parsed L pl inp s size_of parsed =
     (case parsed of
        (_, Some (ApkError c)) \<Rightarrow> refuse (ApkRejected c)
      | (_, Some OtherError) \<Rightarrow> refuse ApkUnparseable
      | (None, None) \<Rightarrow> refuse PolicyManifestMissing
      | (Some pkg, None) \<Rightarrow>
          if pkg_manifest pkg = None then refuse PolicyManifestMissing
          else fold_res (\<lambda>fa check. check inp pkg fa) (initial_facts s size_of) (policy_checks L pl))"

definition conclude :: "bytes \<Rightarrow> policy_fail + facts \<Rightarrow> outcome" where
  "conclude digest r =
     (case r of
        Inl NilDereference \<Rightarrow> Panicked
      | Inl (Violation c) \<Rightarrow> Verdict ((violation c)\<lparr>vd_checked_sha256 := digest\<rparr>)
      | Inr fa \<Rightarrow> Verdict \<lparr>vd_ok = True, vd_kind = [], vd_code = None, vd_checked_sha256 = digest,
                         vd_facts = Some fa\<rparr>)"

text \<open>\<open>hashFile\<close>: a file that cannot be read or is over the limit is an error.\<close>

definition hash_file :: "crypto \<Rightarrow> bytes option \<Rightarrow> int \<Rightarrow> (bytes \<times> int) option" where
  "hash_file K file limit =
     (case file of None \<Rightarrow> None
      | Some data \<Rightarrow> if limit < int (length data) then None
                    else Some (sha256_hex K data, int (length data)))"

text \<open>
  \<open>EvaluateFile\<close>. The file is read twice, once by \<open>hashFile\<close> and once by the parser; what the
  parser reports is its result, so the comparison of both readings is part of the model.
\<close>

definition evaluate_file ::
    "policy_lib \<Rightarrow> permission_list \<Rightarrow> policy_input \<Rightarrow> bytes option \<Rightarrow> apk_limits \<Rightarrow> (apk_limits \<Rightarrow> parse_result) \<Rightarrow> outcome" where
  "evaluate_file L pl inp file lim parse =
     (case hash_file (lib_crypto L) file (max_file_size lim) of
        None \<Rightarrow> Verdict (violation ApkUnreadable)
      | Some (digest, size_of) \<Rightarrow>
        (case check_before_parsing L inp digest size_of of
           Inl e \<Rightarrow> conclude digest (Inl e)
         | Inr s \<Rightarrow>
           (let parsed = parse lim in
            if (case fst parsed of None \<Rightarrow> False | Some pkg \<Rightarrow> pkg_sha256 pkg \<noteq> digest \<or> pkg_size pkg \<noteq> size_of)
            then conclude digest (refuse ApkUnreadable)
            else conclude digest (check_parsed L pl inp s size_of parsed))))"

text \<open>\<open>Evaluate\<close>, for a package that is already parsed.\<close>

definition evaluate :: "policy_lib \<Rightarrow> permission_list \<Rightarrow> policy_input \<Rightarrow> package \<Rightarrow> outcome" where
  "evaluate L pl inp pkg =
     conclude (pkg_sha256 pkg)
       (rbind (check_before_parsing L inp (pkg_sha256 pkg) (pkg_size pkg)) (\<lambda>s.
          check_parsed L pl inp s (pkg_size pkg) (Some pkg, None)))"

end
