(* ===== verification/PolicyProps.thy ===== *)
theory PolicyProps
  imports Policy
begin

text \<open>
  What a verdict of the policy means: the evaluation never fails on its own, the parser is not
  reached without a trusted builder's signature over the very file, and a package that passes is
  the confirmed one in every respect the gate records.
\<close>

section \<open>No nil dereference\<close>

named_theorems no_nil \<open>checks that never dereference nil\<close>

lemma require_not_nil: "k \<noteq> Inl NilDereference \<Longrightarrow> require ok c k \<noteq> Inl NilDereference"
  by (simp add: require_def)

lemma check_provenance_no_nil [no_nil]: "check_provenance L inp \<noteq> Inl NilDereference"
  by (simp add: check_provenance_def Let_def split: option.splits sum.splits provenance_error.splits)

lemma check_before_parsing_no_nil [no_nil]: "check_before_parsing L inp digest n \<noteq> Inl NilDereference"
  by (auto simp: check_before_parsing_def result_simps check_provenance_no_nil)

lemma check_structure_no_nil [no_nil]: "check_structure inp pkg fa \<noteq> Inl NilDereference"
  by (simp add: check_structure_def result_simps)

lemma check_identity_no_nil [no_nil]:
  "pkg_manifest pkg \<noteq> None \<Longrightarrow> check_identity inp pkg fa \<noteq> Inl NilDereference"
  by (auto simp: check_identity_def result_simps split: option.splits)

lemma check_attributes_no_nil [no_nil]:
  "pkg_manifest pkg \<noteq> None \<Longrightarrow> check_attributes inp pkg fa \<noteq> Inl NilDereference"
  by (auto simp: check_attributes_def Let_def result_simps split: option.splits)

lemma fold_res_no_nil:
  assumes "\<And>s x. f s x \<noteq> Inl NilDereference" shows "fold_res f s xs \<noteq> Inl NilDereference"
  using assms by (induction xs arbitrary: s) (auto simp: result_simps)

lemma check_permissions_no_nil [no_nil]:
  assumes "pkg_manifest pkg \<noteq> None" shows "check_permissions pl inp pkg fa \<noteq> Inl NilDereference"
proof -
  have "fold_res (definition_step as) [] ds \<noteq> Inl NilDereference" for as ds
    by (rule fold_res_no_nil) (simp add: definition_step_def result_simps)
  then show ?thesis using assms by (auto simp: check_permissions_def Let_def result_simps)
qed

lemma meta_data_by_name_no_nil [no_nil]: "meta_data_by_name m \<noteq> Inl NilDereference"
  unfolding meta_data_by_name_def
  by (auto split: option.splits dest: fold_res_no_nil [of meta_step, THEN notE, rotated]
      simp: meta_step_def result_simps)

lemma expo_config_ok_fields:
  "expo_config_ok cfg c \<Longrightarrow> cfg_api_base_url cfg \<noteq> None \<and> cfg_bootstrap_signer_address cfg \<noteq> None \<and>
     cfg_application_id cfg \<noteq> None \<and> cfg_distribution_channel cfg \<noteq> None \<and> cfg_scheme cfg \<noteq> None"
  by (auto simp: expo_config_ok_def Let_def split: option.splits)

lemma check_embedded_config_no_nil [no_nil]:
  assumes "pkg_manifest pkg \<noteq> None" shows "check_embedded_config inp pkg fa \<noteq> Inl NilDereference"
proof (cases "pkg_app_config pkg")
  case None
  then show ?thesis by (simp add: check_embedded_config_def)
next
  case (Some cfg)
  show ?thesis
  proof (cases "expo_config_ok cfg (in_confirmed inp)")
    case True
    then show ?thesis using assms Some expo_config_ok_fields [OF True]
      by (auto simp: check_embedded_config_def Let_def result_simps meta_data_by_name_no_nil)
  next
    case False
    then show ?thesis by (simp add: check_embedded_config_def Let_def require_def Some)
  qed
qed

lemma check_ota_certificate_no_nil [no_nil]:
  "pkg_manifest pkg \<noteq> None \<Longrightarrow> check_ota_certificate L inp pkg fa \<noteq> Inl NilDereference"
  by (auto simp: check_ota_certificate_def Let_def result_simps meta_data_by_name_no_nil split: option.splits)

lemma filter_step_no_nil: "filter_step st f \<noteq> Inl NilDereference"
proof -
  have "fold_res scheme_step st ss \<noteq> Inl NilDereference" for st ss
    by (rule fold_res_no_nil) (simp add: scheme_step_def)
  then show ?thesis by (auto simp: filter_step_def result_simps)
qed

lemma check_links_no_nil [no_nil]:
  "pkg_manifest pkg \<noteq> None \<Longrightarrow> pkg_app_config pkg \<noteq> None \<Longrightarrow> check_links inp pkg fa \<noteq> Inl NilDereference"
  using fold_res_no_nil [of filter_step] filter_step_no_nil
  by (auto simp: check_links_def Let_def result_simps)

lemma check_native_fingerprint_no_nil [no_nil]: "check_native_fingerprint inp pkg fa \<noteq> Inl NilDereference"
  by (simp add: check_native_fingerprint_def result_simps split: option.splits)

lemma embedded_config_present:
  "check_embedded_config inp pkg fa = Inr fa' \<Longrightarrow> pkg_app_config pkg \<noteq> None"
  by (cases "pkg_app_config pkg") (auto simp: check_embedded_config_def Let_def)

lemma check_parsed_no_nil: "check_parsed L pl inp s n parsed \<noteq> Inl NilDereference"
proof -
  have "fold_res (\<lambda>fa check. check inp pkg fa) fa (policy_checks L pl) \<noteq> Inl NilDereference"
    if m: "pkg_manifest pkg \<noteq> None" for pkg fa
    unfolding policy_checks_def fold_res.simps rbind_eq_Inl
    using m by (auto simp: no_nil dest: embedded_config_present)
  then show ?thesis
    by (auto simp: check_parsed_def split: prod.splits option.splits parse_error.splits)
qed

text \<open>
  The evaluation never dereferences a nil pointer, whatever the policy input, the
  file and the result of the parser.
\<close>

theorem policy_never_panics: "evaluate_file L pl inp file lim parse \<noteq> Panicked"
proof -
  have c: "conclude d r \<noteq> Panicked" if "r \<noteq> Inl NilDereference" for d r
    using that by (auto simp: conclude_def split: sum.splits policy_fail.splits)
  show ?thesis
    using check_before_parsing_no_nil [of L inp] unfolding evaluate_file_def Let_def
    by (auto split: option.splits sum.splits intro!: c check_parsed_no_nil)
qed

section \<open>Provenance before parsing\<close>

definition signed_by_trusted_builder :: "policy_lib \<Rightarrow> policy_input \<Rightarrow> statement \<Rightarrow> bool" where
  "signed_by_trusted_builder L inp s \<longleftrightarrow>
     (\<exists>b\<in>set (in_builders inp). \<exists>pub raw sig.
        tb_id b = pv_builder_id (in_provenance inp) \<and> tb_key_sha256 b = sha256_hex (lib_crypto L) pub \<and>
        b64_decode (pv_statement (in_provenance inp)) = Some raw \<and>
        b64_decode (pv_signature (in_provenance inp)) = Some sig \<and>
        ed_verify (lib_crypto L) pub (provenance_prefix @ raw) sig \<and> lib_statement L raw = Some s)"

lemma pinned_key_from: "pinned_key bs i = [] \<or> (\<exists>b\<in>set bs. tb_id b = i \<and> tb_key_sha256 b = pinned_key bs i)"
  by (induction bs rule: rev_induct) (auto simp: pinned_key_def)

lemma check_provenance_Inr:
  assumes "check_provenance L inp = Inr s"
  shows "signed_by_trusted_builder L inp s \<and> statement_mismatch inp s = None \<and> statement_validate s = None"
proof -
  define p where "p = in_provenance inp"
  define e where "e = \<lparr>env_statement = pv_statement p, env_signature = pv_signature p\<rparr>"
  have ne: "pinned_key (in_builders inp) (pv_builder_id p) \<noteq> []"
    using assms by (auto simp: check_provenance_def Let_def p_def)
  then obtain b where b: "b \<in> set (in_builders inp)" "tb_id b = pv_builder_id p"
      "tb_key_sha256 b = pinned_key (in_builders inp) (pv_builder_id p)"
    using pinned_key_from by blast
  obtain pub where pub: "sha256_hex (lib_crypto L) pub = pinned_key (in_builders inp) (pv_builder_id p)"
      "provenance_verify (lib_crypto L) (lib_statement L) e pub = Inr s" "statement_mismatch inp s = None"
    using assms ne by (auto simp: check_provenance_def Let_def p_def e_def
        split: option.splits if_splits sum.splits provenance_error.splits)
  from pub(2) obtain raw sig where "b64_decode (env_statement e) = Some raw" "b64_decode (env_signature e) = Some sig"
      "ed_verify (lib_crypto L) pub (provenance_input raw) sig" "lib_statement L raw = Some s" "statement_validate s = None"
    by (rule provenance_verify_Inr)
  then have "signed_by_trusted_builder L inp s" "statement_validate s = None"
    using b pub(1) unfolding signed_by_trusted_builder_def
    by (auto simp: e_def p_def provenance_input_def intro!: bexI [of _ b] exI [of _ pub])
  then show ?thesis using pub(3) by blast
qed

lemma statement_mismatch_None:
  assumes "statement_mismatch inp s = None"
  shows "st_job_id s = job_id (in_job inp)" "st_attempt s = job_attempt (in_job inp)"
    "st_tenant_slug s = cn_tenant_slug (in_confirmed inp)" "st_package_name s = cn_package_name (in_confirmed inp)"
    "st_version_code s = job_build_number (in_job inp)" "st_version_name s = job_version (in_job inp)"
    "st_commit_sha s = job_commit_sha (in_job inp)" "st_native_fingerprint s = job_native_fingerprint (in_job inp)"
    "st_builder_id s = pv_builder_id (in_provenance inp)"
  using assms by (auto simp: statement_mismatch_def Let_def split: if_splits)

lemma check_before_parsing_Inr:
  assumes "check_before_parsing L inp digest n = Inr s"
  shows "validate_input inp \<and> check_provenance L inp = Inr s \<and> digest = st_unsigned_sha256 s \<and> n = st_unsigned_size s"
  using assms by (auto simp: check_before_parsing_def result_simps)

lemma hash_file_Some:
  "hash_file K file limit = Some (digest, n) \<longleftrightarrow>
     (\<exists>data. file = Some data \<and> int (length data) \<le> limit \<and> digest = sha256_hex K data \<and> n = int (length data))"
  by (auto simp: hash_file_def split: option.splits if_splits)

text \<open>
  Property C17. The parser, the largest attack surface, is reached only with bytes a trusted
  builder vouched for: if the verdict depends on the parser at all, then the file is exactly the
  one named in a statement that carries a signature of a builder pinned on this gate, for the
  confirmed package and the claimed job.
\<close>

theorem parser_needs_trusted_provenance:
  assumes "evaluate_file L pl inp file lim p \<noteq> evaluate_file L pl inp file lim q"
  shows "\<exists>data s. file = Some data \<and> signed_by_trusted_builder L inp s \<and>
    st_unsigned_sha256 s = sha256_hex (lib_crypto L) data \<and> st_unsigned_size s = int (length data) \<and>
    st_package_name s = cn_package_name (in_confirmed inp) \<and> st_job_id s = job_id (in_job inp) \<and>
    st_version_code s = job_build_number (in_job inp)"
proof -
  obtain digest n where h: "hash_file (lib_crypto L) file (max_file_size lim) = Some (digest, n)"
    using assms by (cases "hash_file (lib_crypto L) file (max_file_size lim)") (auto simp: evaluate_file_def)
  obtain s where s: "check_before_parsing L inp digest n = Inr s"
    using assms h by (cases "check_before_parsing L inp digest n") (auto simp: evaluate_file_def)
  note b = check_before_parsing_Inr [OF s]
  have "check_provenance L inp = Inr s" using b by blast
  note pr = check_provenance_Inr [OF this]
  show ?thesis
    using h b pr statement_mismatch_None [of inp s] by (auto simp: hash_file_Some)
qed

section \<open>What passing means\<close>

text \<open>The successful run of all checks, with the facts handed from one to the next.\<close>

lemma check_parsed_Inr:
  assumes "check_parsed L pl inp s n parsed = Inr fa"
  obtains pkg m f1 f2 f3 f4 f5 f6 f7 where "parsed = (Some pkg, None)" "pkg_manifest pkg = Some m"
    "check_structure inp pkg (initial_facts s n) = Inr f1" "check_identity inp pkg f1 = Inr f2"
    "check_attributes inp pkg f2 = Inr f3" "check_permissions pl inp pkg f3 = Inr f4"
    "check_embedded_config inp pkg f4 = Inr f5" "check_ota_certificate L inp pkg f5 = Inr f6"
    "check_links inp pkg f6 = Inr f7" "check_native_fingerprint inp pkg f7 = Inr fa"
proof -
  obtain pkg m where p: "parsed = (Some pkg, None)" "pkg_manifest pkg = Some m"
      "fold_res (\<lambda>fa check. check inp pkg fa) (initial_facts s n) (policy_checks L pl) = Inr fa"
    using assms by (auto simp: check_parsed_def split: prod.splits option.splits parse_error.splits if_splits)
  then show thesis using that by (auto simp: policy_checks_def result_simps)
qed

lemma evaluate_file_pass:
  assumes "evaluate_file L pl inp file lim parse = Verdict v" "vd_ok v"
  obtains data s fa pkg where "file = Some data" "vd_facts v = Some fa"
    "check_before_parsing L inp (sha256_hex (lib_crypto L) data) (int (length data)) = Inr s"
    "check_parsed L pl inp s (int (length data)) (parse lim) = Inr fa" "fst (parse lim) = Some pkg"
    "pkg_sha256 pkg = sha256_hex (lib_crypto L) data" "vd_checked_sha256 v = sha256_hex (lib_crypto L) data"
proof -
  have c: "\<exists>fa. r = Inr fa \<and> vd_facts v = Some fa \<and> vd_checked_sha256 v = d" if "conclude d r = Verdict v" for d r
    using that assms(2) by (auto simp: conclude_def violation_def split: sum.splits policy_fail.splits)
  obtain digest n where h: "hash_file (lib_crypto L) file (max_file_size lim) = Some (digest, n)"
    using assms by (cases "hash_file (lib_crypto L) file (max_file_size lim)")
      (auto simp: evaluate_file_def violation_def)
  obtain s where s: "check_before_parsing L inp digest n = Inr s"
    using assms h c by (cases "check_before_parsing L inp digest n") (fastforce simp: evaluate_file_def)+
  obtain fa where fa: "check_parsed L pl inp s n (parse lim) = Inr fa" "vd_facts v = Some fa" "vd_checked_sha256 v = digest"
      and same: "\<not> (case fst (parse lim) of None \<Rightarrow> False | Some pkg \<Rightarrow> pkg_sha256 pkg \<noteq> digest \<or> pkg_size pkg \<noteq> n)"
    using assms(1) h s c by (fastforce simp: evaluate_file_def Let_def split: if_splits)
  obtain pkg where "fst (parse lim) = Some pkg" using fa(1) by (rule check_parsed_Inr) simp
  then show thesis using that h s fa same by (auto simp: hash_file_Some)
qed

text \<open>The successful outcome of each check.\<close>

lemma check_identity_Inr:
  assumes "check_identity inp pkg fa = Inr fa'" "pkg_manifest pkg = Some m"
  shows "\<exists>vc. man_package m = cn_package_name (in_confirmed inp) \<and> man_version_code m = Some vc \<and>
    \<not> man_version_code_major m \<and> man_version_name m = Some (job_version (in_job inp)) \<and>
    check_version_code inp vc = None \<and>
    fa' = fa\<lparr>fa_package_name := man_package m, fa_version_name := job_version (in_job inp), fa_version_code := vc\<rparr>"
  using assms by (auto simp: check_identity_def result_simps split: option.splits)

lemma check_version_code_None:
  assumes "check_version_code inp vc = None"
  shows "vc = job_build_number (in_job inp) \<and> 1 \<le> vc \<and> vc \<le> pol_max_version_code (in_limits inp) \<and>
    (if sg_has_max (in_signed inp)
     then sg_max_version_code (in_signed inp) < vc \<and> vc \<le> sg_max_version_code (in_signed inp) + pol_max_jump (in_limits inp)
     else vc \<le> cn_first_sign_max (in_confirmed inp))"
  using assms by (auto simp: check_version_code_def Let_def split: if_splits)

lemma check_attributes_Inr:
  assumes "check_attributes inp pkg fa = Inr fa'" "pkg_manifest pkg = Some m"
  shows "\<exists>app k t. man_application m = Some app \<and> \<not> app_debuggable app \<and> \<not> app_test_only app \<and>
    app_allow_backup app = Some False \<and> app_uses_cleartext_traffic app \<noteq> Some True \<and>
    \<not> app_network_security_config app \<and> \<not> man_shared_user_id m \<and> man_min_sdk m = Some k \<and>
    t = (case man_target_sdk m of Some t \<Rightarrow> t | None \<Rightarrow> k) \<and>
    cn_min_sdk (in_confirmed inp) \<le> k \<and> cn_target_sdk (in_confirmed inp) \<le> t \<and>
    fa' = fa\<lparr>fa_min_sdk := k, fa_target_sdk := t\<rparr>"
  using assms by (auto simp: check_attributes_def application_violation_def Let_def result_simps
      split: option.splits if_splits)

lemma definition_step_Inr:
  "definition_step as seen d = Inr t \<longleftrightarrow> pd_name d \<in> set as \<and> pd_name d \<notin> set seen \<and>
     pd_protection_level d = Some protection_signature \<and> t = seen @ [pd_name d]"
  by (auto simp: definition_step_def result_simps)

lemma definition_fold:
  assumes "fold_res (definition_step as) seen ds = Inr out" "distinct seen" "set seen \<subseteq> set as"
  shows "distinct out \<and> set out \<subseteq> set as \<and> out = seen @ map pd_name ds \<and>
    (\<forall>d\<in>set ds. pd_protection_level d = Some protection_signature)"
  using assms
proof (induction ds arbitrary: seen)
  case (Cons d ds)
  then have d: "pd_name d \<in> set as" "pd_name d \<notin> set seen" "pd_protection_level d = Some protection_signature"
    and run: "fold_res (definition_step as) (seen @ [pd_name d]) ds = Inr out"
    by (auto simp: result_simps definition_step_Inr)
  have "distinct (seen @ [pd_name d])" "set (seen @ [pd_name d]) \<subseteq> set as"
    using Cons.prems(2,3) d by simp_all
  note r = Cons.IH [OF run this]
  show ?case
  proof (intro conjI)
    show "distinct out" "set out \<subseteq> set as" using r by blast+
    show "out = seen @ map pd_name (d # ds)" using r by simp
  qed (use r d in simp)
qed simp

lemma check_permissions_Inr:
  assumes "check_permissions pl inp pkg fa = Inr fa'" "pkg_manifest pkg = Some m"
  shows "set (map up_name (man_uses_permissions m)) \<subseteq>
      set (allowed_permission_set pl (cn_package_name (in_confirmed inp))
             (distribution_channel (cn_trust_roots (in_confirmed inp)))) \<and>
    man_permission_trees m = 0 \<and> man_permission_groups m = 0 \<and>
    distinct (map pd_name (man_permissions m)) \<and>
    set (map pd_name (man_permissions m)) \<subseteq> set (allowed_definition_set pl (cn_package_name (in_confirmed inp))) \<and>
    (\<forall>d\<in>set (man_permissions m). pd_protection_level d = Some protection_signature) \<and>
    fa' = fa\<lparr>fa_permissions := sorted_set (map up_name (man_uses_permissions m)),
             fa_permission_definitions := sort (map pd_name (man_permissions m))\<rparr>"
proof -
  obtain defs where d: "fold_res (definition_step (allowed_definition_set pl (cn_package_name (in_confirmed inp)))) []
        (man_permissions m) = Inr defs"
      "fa' = fa\<lparr>fa_permissions := sorted_set (map up_name (man_uses_permissions m)), fa_permission_definitions := sort defs\<rparr>"
    using assms by (auto simp: check_permissions_def Let_def result_simps)
  moreover note definition_fold [OF d(1)]
  ultimately show ?thesis
    using assms by (auto simp: check_permissions_def Let_def result_simps list_all_iff)
qed

lemma check_embedded_config_Inr:
  assumes "check_embedded_config inp pkg fa = Inr fa'"
  shows "\<exists>cfg. pkg_app_config pkg = Some cfg \<and> expo_config_ok cfg (in_confirmed inp) \<and>
    fa' = fa\<lparr>fa_trust_roots := (fa_trust_roots fa)\<lparr>
      api_base_url := api_base_url (cn_trust_roots (in_confirmed inp)),
      bootstrap_signer_address := bootstrap_signer_address (cn_trust_roots (in_confirmed inp)),
      application_id := application_id (cn_trust_roots (in_confirmed inp)),
      distribution_channel := distribution_channel (cn_trust_roots (in_confirmed inp)),
      scheme := scheme (cn_trust_roots (in_confirmed inp))\<rparr>\<rparr>"
proof -
  obtain cfg where cfg: "pkg_app_config pkg = Some cfg" using embedded_config_present [OF assms] by blast
  then have ok: "expo_config_ok cfg (in_confirmed inp)"
    using assms by (simp add: check_embedded_config_def Let_def result_simps)
  have addr: "to_lower a = b" if "normalize_address a = Inr b" for a b
    using that by (simp add: normalize_address_def split: if_splits)
  show ?thesis
    using assms ok unfolding check_embedded_config_def Let_def cfg
    by (auto simp: result_simps expo_config_ok_def Let_def cfg addr split: option.splits)
qed

lemma check_ota_certificate_Inr:
  assumes "check_ota_certificate L inp pkg fa = Inr fa'"
  shows "fa' = fa\<lparr>fa_trust_roots := (fa_trust_roots fa)\<lparr>ota_certificate_sha256 :=
    ota_certificate_sha256 (cn_trust_roots (in_confirmed inp))\<rparr>\<rparr>"
  using assms by (auto simp: check_ota_certificate_def Let_def result_simps split: option.splits if_splits)

lemma check_links_Inr:
  assumes "check_links inp pkg fa = Inr fa'" "pkg_manifest pkg = Some m"
  shows "\<exists>hosts schemes. fold_res filter_step ([], []) (man_intent_filters m) = Inr (hosts, schemes) \<and>
    join_lf (sorted_set hosts) = join_lf (app_links_hosts (cn_trust_roots (in_confirmed inp))) \<and>
    fa' = fa\<lparr>fa_trust_roots := (fa_trust_roots fa)\<lparr>app_links_hosts := sorted_set hosts\<rparr>\<rparr>"
  using assms by (auto simp: check_links_def Let_def result_simps)

lemma check_native_fingerprint_Inr: "check_native_fingerprint inp pkg fa = Inr fa' \<Longrightarrow> fa' = fa"
  by (auto simp: check_native_fingerprint_def result_simps split: option.splits)

lemma check_structure_Inr:
  "check_structure inp pkg fa = Inr fa' \<Longrightarrow>
     fa' = fa \<and> \<not> pkg_signing_block pkg \<and> pkg_v1_signature_files pkg = [] \<and> pkg_misaligned_count pkg = 0"
  by (auto simp: check_structure_def result_simps)

lemma no_lf_graphic: "graphic_ascii h \<Longrightarrow> no_lf h"
  by (auto simp: graphic_ascii_def byte_in_def no_lf_def list_all_iff)

lemma join_lf_split: "xs \<noteq> [] \<Longrightarrow> list_all no_lf xs \<Longrightarrow> split_on (CHR 0x0A) (join_lf xs) = xs"
  by (induction xs rule: join_lf.induct) (simp_all add: split_on_append_sep split_on_no_lf)

lemma join_lf_inj:
  assumes "join_lf xs = join_lf ys" "list_all no_lf xs" "list_all no_lf ys" "ys \<noteq> []" "[] \<notin> set ys"
  shows "xs = ys"
proof (cases "xs = []")
  case True
  have "split_on (CHR 0x0A) (join_lf ys) = ys" using assms(3,4) by (rule join_lf_split [rotated])
  then have "ys = [[]]" using assms(1) True by simp
  then show ?thesis using assms(5) by simp
next
  case False
  have "xs = split_on (CHR 0x0A) (join_lf xs)" by (rule join_lf_split [OF False assms(2), symmetric])
  also have "\<dots> = ys" unfolding assms(1) by (rule join_lf_split [OF assms(4,3)])
  finally show ?thesis .
qed

lemma normalize_hosts_accepted:
  "normalize_hosts hs = Inr ns \<Longrightarrow> hs \<noteq> [] \<and> list_all (\<lambda>h. graphic_ascii h \<and> valid_host_port (to_lower h)) hs"
  by (auto simp: normalize_hosts_def split: if_splits)

lemma normal_hosts:
  assumes "validate_input inp"
  shows "app_links_hosts (cn_trust_roots (in_confirmed inp)) \<noteq> [] \<and>
    list_all no_lf (app_links_hosts (cn_trust_roots (in_confirmed inp))) \<and>
    [] \<notin> set (app_links_hosts (cn_trust_roots (in_confirmed inp)))"
proof -
  define r where "r = cn_trust_roots (in_confirmed inp)"
  have "roots_normalize r = Inr r"
  proof (cases "roots_normalize r")
    case (Inl e)
    then show ?thesis using assms unfolding validate_input_def r_def by (simp only: sum.case) blast
  next
    case (Inr n)
    have "roots_equal n r" using assms Inr unfolding validate_input_def r_def by (simp only: sum.case)
    then show ?thesis using Inr by (simp only: roots_equal_iff)
  qed
  then have "normalize_hosts (app_links_hosts r) = Inr (app_links_hosts r)" by (simp add: roots_normalize_Inr)
  then have ne: "app_links_hosts r \<noteq> []"
    and ok: "list_all (\<lambda>h. graphic_ascii h \<and> valid_host_port (to_lower h)) (app_links_hosts r)"
    using normalize_hosts_accepted by blast+
  have "\<not> valid_host_port (to_lower [])"
    by (simp add: to_lower_def valid_host_port_def split_last_def valid_dns_name_def)
  then have "[] \<notin> set (app_links_hosts r)" using ok by (auto simp: list_all_iff)
  moreover have "list_all no_lf (app_links_hosts r)" using ok by (auto simp: list_all_iff intro: no_lf_graphic)
  ultimately show ?thesis using ne by (simp add: r_def)
qed

text \<open>What the loop over the intent filters collects.\<close>

lemma scheme_step_simps:
  "scheme_step st ''http'' = refuse CleartextAppLink"
  "scheme_step st ''https'' = Inr (True, snd st)"
  "s \<noteq> ''http'' \<Longrightarrow> s \<noteq> ''https'' \<Longrightarrow> scheme_step st s = Inr (fst st, snd st @ [s])"
  by (simp_all add: scheme_step_def)

lemma filter_step_Inr:
  "filter_step (hs, ss) f = Inr st \<longleftrightarrow>
     (\<exists>web ss1. fold_res scheme_step (False, ss) (if_schemes f) = Inr (web, ss1) \<and>
        (if web then if_hosts f \<noteq> [] \<and> st = (hs @ if_hosts f, ss1) else st = (hs, ss1)))"
  by (auto simp: filter_step_def result_simps)

lemma scheme_fold:
  assumes "fold_res scheme_step (web, ss) xs = Inr (web', ss')"
  shows "''http'' \<notin> set xs \<and> (web' \<longleftrightarrow> web \<or> ''https'' \<in> set xs) \<and>
    set ss' = set ss \<union> (set xs - {''https''})"
  using assms
proof (induction xs arbitrary: web ss)
  case (Cons x xs)
  consider "x = ''http''" | "x = ''https''" | "x \<noteq> ''http''" "x \<noteq> ''https''" by blast
  then show ?case
  proof cases
    case 1
    then show ?thesis using Cons.prems by (simp add: scheme_step_simps)
  next
    case 2
    then have "fold_res scheme_step (True, ss) xs = Inr (web', ss')" using Cons.prems by (simp add: scheme_step_simps)
    from Cons.IH [OF this] 2 show ?thesis by auto
  next
    case 3
    then have "fold_res scheme_step (web, ss @ [x]) xs = Inr (web', ss')" using Cons.prems by (simp add: scheme_step_simps)
    from Cons.IH [OF this] 3 show ?thesis by auto
  qed
qed simp

lemma filter_fold:
  assumes "fold_res filter_step (hs, ss) fs = Inr (hosts, schemes)"
  shows "(\<forall>f\<in>set fs. ''http'' \<notin> set (if_schemes f) \<and> (''https'' \<in> set (if_schemes f) \<longrightarrow> if_hosts f \<noteq> [])) \<and>
    set hosts = set hs \<union> (\<Union>f\<in>{f \<in> set fs. ''https'' \<in> set (if_schemes f)}. set (if_hosts f)) \<and>
    set schemes = set ss \<union> (\<Union>f\<in>set fs. set (if_schemes f) - {''https''})"
  using assms
proof (induction fs arbitrary: hs ss)
  case (Cons f fs)
  then obtain web ss1 st where s: "fold_res scheme_step (False, ss) (if_schemes f) = Inr (web, ss1)"
      and t: "if web then if_hosts f \<noteq> [] \<and> st = (hs @ if_hosts f, ss1) else st = (hs, ss1)"
      and run: "fold_res filter_step st fs = Inr (hosts, schemes)"
    unfolding fold_res.simps rbind_eq_Inr filter_step_Inr by blast
  note a = scheme_fold [OF s]
  show ?case
  proof (cases web)
    case True
    then have "if_hosts f \<noteq> []" "fold_res filter_step (hs @ if_hosts f, ss1) fs = Inr (hosts, schemes)"
      using t run by auto
    from Cons.IH [OF this(2)] this(1) a True show ?thesis by auto
  next
    case False
    then have "fold_res filter_step (hs, ss1) fs = Inr (hosts, schemes)" using t run by simp
    from Cons.IH [OF this] a False show ?thesis by auto
  qed
qed simp

text \<open>The whole record of facts of a package that passes.\<close>

lemma check_parsed_facts:
  assumes "check_parsed L pl inp s n parsed = Inr fa"
  obtains pkg m f1 f2 f3 f4 f5 f6 f7 hosts schemes where
    "parsed = (Some pkg, None)" "pkg_manifest pkg = Some m"
    "check_identity inp pkg f1 = Inr f2" "check_attributes inp pkg f2 = Inr f3"
    "check_permissions pl inp pkg f3 = Inr f4"
    "check_embedded_config inp pkg f4 = Inr f5" "check_links inp pkg f6 = Inr f7"
    "fold_res filter_step ([], []) (man_intent_filters m) = Inr (hosts, schemes)"
    "join_lf (sorted_set hosts) = join_lf (app_links_hosts (cn_trust_roots (in_confirmed inp)))"
    "fa_trust_roots fa = (cn_trust_roots (in_confirmed inp))\<lparr>app_links_hosts := sorted_set hosts\<rparr>"
    "fa_package_name fa = cn_package_name (in_confirmed inp)"
    "man_version_code m = Some (fa_version_code fa)" "man_version_name m = Some (fa_version_name fa)"
    "fa_version_name fa = job_version (in_job inp)" "check_version_code inp (fa_version_code fa) = None"
    "fa_permissions fa = sorted_set (map up_name (man_uses_permissions m))"
    "fa_builder_id fa = st_builder_id s" "fa_commit_sha fa = st_commit_sha s" "fa_size fa = n"
    "\<not> pkg_signing_block pkg" "pkg_v1_signature_files pkg = []" "pkg_misaligned_count pkg = 0"
proof -
  obtain pkg m f1 f2 f3 f4 f5 f6 f7 where p: "parsed = (Some pkg, None)" "pkg_manifest pkg = Some m"
    and c: "check_structure inp pkg (initial_facts s n) = Inr f1" "check_identity inp pkg f1 = Inr f2"
      "check_attributes inp pkg f2 = Inr f3" "check_permissions pl inp pkg f3 = Inr f4"
      "check_embedded_config inp pkg f4 = Inr f5" "check_ota_certificate L inp pkg f5 = Inr f6"
      "check_links inp pkg f6 = Inr f7" "check_native_fingerprint inp pkg f7 = Inr fa"
    using assms by (rule check_parsed_Inr)
  obtain vc where i: "man_package m = cn_package_name (in_confirmed inp)" "man_version_code m = Some vc"
      "man_version_name m = Some (job_version (in_job inp))" "check_version_code inp vc = None"
      "f2 = f1\<lparr>fa_package_name := man_package m, fa_version_name := job_version (in_job inp), fa_version_code := vc\<rparr>"
    using check_identity_Inr [OF c(2) p(2)] by blast
  obtain k t where a: "f3 = f2\<lparr>fa_min_sdk := k, fa_target_sdk := t\<rparr>"
    using check_attributes_Inr [OF c(3) p(2)] by blast
  obtain hosts schemes where l: "fold_res filter_step ([], []) (man_intent_filters m) = Inr (hosts, schemes)"
      "join_lf (sorted_set hosts) = join_lf (app_links_hosts (cn_trust_roots (in_confirmed inp)))"
      "f7 = f6\<lparr>fa_trust_roots := (fa_trust_roots f6)\<lparr>app_links_hosts := sorted_set hosts\<rparr>\<rparr>"
    using check_links_Inr [OF c(7) p(2)] by blast
  note s1 = check_structure_Inr [OF c(1)]
  note f = s1 i(5) a check_permissions_Inr [OF c(4) p(2)] check_embedded_config_Inr [OF c(5)]
    check_ota_certificate_Inr [OF c(6)] l(3) check_native_fingerprint_Inr [OF c(8)]
  have "fa_trust_roots fa = (cn_trust_roots (in_confirmed inp))\<lparr>app_links_hosts := sorted_set hosts\<rparr>"
    using f by (cases "cn_trust_roots (in_confirmed inp)") (auto simp: initial_facts_def empty_roots_def)
  moreover have "fa_package_name fa = cn_package_name (in_confirmed inp)" "fa_version_code fa = vc"
      "fa_version_name fa = job_version (in_job inp)" "fa_builder_id fa = st_builder_id s"
      "fa_commit_sha fa = st_commit_sha s" "fa_size fa = n"
      "fa_permissions fa = sorted_set (map up_name (man_uses_permissions m))"
    using f i(1) by (auto simp: initial_facts_def)
  ultimately show thesis using that p c i l s1 by simp
qed

text \<open>
  Property C9. A package passes only as the build it is claimed to be: its bytes are the ones a
  trusted builder signed for, unsigned and aligned; it carries the confirmed package name and
  the job's version; and its version code is above everything signed before, within the absolute
  limit and the jump limit, or within the first-signature cap when nothing was signed.
\<close>

theorem passing_package_is_the_claimed_build:
  assumes "evaluate_file L pl inp file lim parse = Verdict v" and "vd_ok v"
  shows "\<exists>data s fa. file = Some data \<and> vd_facts v = Some fa \<and>
    vd_checked_sha256 v = sha256_hex (lib_crypto L) data \<and> signed_by_trusted_builder L inp s \<and>
    st_unsigned_sha256 s = vd_checked_sha256 v \<and> fa_builder_id fa = st_builder_id s \<and>
    fa_package_name fa = cn_package_name (in_confirmed inp) \<and> fa_package_name fa = st_package_name s \<and>
    fa_version_name fa = st_version_name s \<and> fa_version_code fa = st_version_code s \<and>
    fa_version_code fa = job_build_number (in_job inp) \<and>
    1 \<le> fa_version_code fa \<and> fa_version_code fa \<le> pol_max_version_code (in_limits inp) \<and>
    (if sg_has_max (in_signed inp)
     then sg_max_version_code (in_signed inp) < fa_version_code fa \<and>
       fa_version_code fa \<le> sg_max_version_code (in_signed inp) + pol_max_jump (in_limits inp)
     else fa_version_code fa \<le> cn_first_sign_max (in_confirmed inp))"
proof -
  obtain data s fa where e: "file = Some data" "vd_facts v = Some fa"
      "check_before_parsing L inp (sha256_hex (lib_crypto L) data) (int (length data)) = Inr s"
      "check_parsed L pl inp s (int (length data)) (parse lim) = Inr fa"
      "vd_checked_sha256 v = sha256_hex (lib_crypto L) data"
    using assms by (rule evaluate_file_pass)
  note b = check_before_parsing_Inr [OF e(3)]
  have pr: "signed_by_trusted_builder L inp s \<and> statement_mismatch inp s = None"
    using b check_provenance_Inr by blast
  note m = statement_mismatch_None [OF conjunct2 [OF pr]]
  have fa: "fa_package_name fa = cn_package_name (in_confirmed inp)" "fa_version_name fa = job_version (in_job inp)"
      "check_version_code inp (fa_version_code fa) = None" "fa_builder_id fa = st_builder_id s"
    using e(4) by (rule check_parsed_facts, simp)+
  show ?thesis
    using e(1,2,5) b pr m fa check_version_code_None [OF fa(3)]
    by (intro exI [of _ data] exI [of _ s] exI [of _ fa]) (simp split: if_splits)
qed


text \<open>
  A passing package declares no permission outside the embedded allow list for its
  channel, defines only the package's own signature-level permissions, each once, cannot be
  debugged or backed up, and keeps the confirmed SDK floors.
\<close>

theorem passing_package_is_restricted:
  assumes "evaluate_file L pl inp file lim parse = Verdict v" and "vd_ok v"
    and "parse lim = (Some pkg, err)" and "pkg_manifest pkg = Some m"
  shows "set (map up_name (man_uses_permissions m)) \<subseteq>
      set (allowed_permissions pl (cn_package_name (in_confirmed inp))
             (distribution_channel (cn_trust_roots (in_confirmed inp)))) \<and>
    distinct (map pd_name (man_permissions m)) \<and>
    list_all (\<lambda>d. pd_protection_level d = Some protection_signature \<and>
      pd_name d \<in> set (allowed_definition_set pl (cn_package_name (in_confirmed inp)))) (man_permissions m) \<and>
    man_permission_trees m = 0 \<and> man_permission_groups m = 0 \<and> \<not> man_shared_user_id m \<and>
    (\<exists>app k. man_application m = Some app \<and> \<not> app_debuggable app \<and> \<not> app_test_only app \<and>
       app_allow_backup app = Some False \<and> app_uses_cleartext_traffic app \<noteq> Some True \<and>
       \<not> app_network_security_config app \<and> man_min_sdk m = Some k \<and> cn_min_sdk (in_confirmed inp) \<le> k)"
proof -
  obtain data :: bytes and s fa where e: "vd_facts v = Some fa"
      "check_parsed L pl inp s (int (length data)) (parse lim) = Inr fa"
    using assms(1,2) by (rule evaluate_file_pass)
  obtain f2 f3 f4 where c: "check_attributes inp pkg f2 = Inr f3" "check_permissions pl inp pkg f3 = Inr f4"
    using e(2) by (rule check_parsed_facts) (use assms(3) in simp)
  show ?thesis
    using check_permissions_Inr [OF c(2) assms(4)] check_attributes_Inr [OF c(1) assms(4)]
    by (auto simp: list_all_iff allowed_permissions_def)
qed

end
