(* ===== verification/PolicyExample.thy ===== *)
theory PolicyExample
  imports PolicyProps
begin

text \<open>
  A concrete package that passes the policy: the witnesses of the policy properties, and the
  counterexample that shows where the App Links comparison is not exact.
\<close>

definition ex_job :: job where
  "ex_job = \<lparr>job_id = ''bld_job0001'', job_tenant_slug = ''AnyFun'', job_version = ''1.3.16'',
     job_build_number = 7, job_attempt = 1, job_sign_attempt = 1, job_commit_sha = replicate 40 (CHR ''a''),
     job_unsigned_sha256 = replicate 64 (CHR ''0''), job_unsigned_size = 9,
     job_sbom_sha256 = replicate 64 (CHR ''b''), job_native_fingerprint = replicate 40 (CHR ''c'')\<rparr>"

definition ex_builder_key :: bytes where
  "ex_builder_key = replicate 32 (CHR ''k'')"

definition ex_confirmed_identity :: confirmed where
  "ex_confirmed_identity = \<lparr>cn_tenant_slug = ''AnyFun'', cn_package_name = ''com.anyfun.app'',
     cn_certificate_sha256 = replicate 64 (CHR ''0''), cn_trust_roots = example_roots_normal,
     cn_min_sdk = 24, cn_target_sdk = 28, cn_first_sign_max = 100\<rparr>"

definition ex_input :: policy_input where
  "ex_input = \<lparr>in_version = 1, in_job = ex_job,
     in_provenance = \<lparr>pv_statement = b64_encode (statement_json example_statement),
       pv_signature = b64_encode (replicate 64 (CHR 0x00)), pv_builder_id = ''mch_builder1'',
       pv_builder_public_key = b64_encode ex_builder_key\<rparr>,
     in_builders = [\<lparr>tb_id = ''mch_builder1'', tb_key_sha256 = sha256_hex toy_crypto ex_builder_key\<rparr>],
     in_confirmed = ex_confirmed_identity,
     in_signed = \<lparr>sg_has_max = False, sg_max_version_code = 0\<rparr>,
     in_limits = \<lparr>pol_max_jump = 10, pol_max_version_code = 2100000000\<rparr>, in_apk_size = 9\<rparr>"

definition ex_lib :: policy_lib where
  "ex_lib = \<lparr>lib_crypto = toy_crypto, lib_statement = (\<lambda>_. Some example_statement),
     lib_pem = (\<lambda>_. Some (\<lparr>pem_type = ''CERTIFICATE'', pem_headers = [], pem_bytes = replicate 32 (CHR 0xAA)\<rparr>, [])),
     lib_x509 = (\<lambda>_. True)\<rparr>"

definition ex_expo :: expo_config where
  "ex_expo = \<lparr>cfg_slug = None, cfg_scheme = Some ''anyfun'', cfg_android_package = Some ''com.anyfun.app'',
     cfg_version = None, cfg_api_base_url = Some ''https://api.example.com'',
     cfg_bootstrap_signer_address = Some (''0x'' @ replicate 40 (CHR ''b'')),
     cfg_application_id = Some ''any-fun'', cfg_distribution_channel = Some ''direct'',
     cfg_updates_url = Some ''https://api.example.com/v1/ota/manifest'',
     cfg_updates_enabled = Some True, cfg_android_version_code = None\<rparr>"

definition string_meta :: "bytes \<Rightarrow> bytes \<Rightarrow> meta_data" where
  "string_meta name s = \<lparr>md_name = name, md_value = \<lparr>val_type = type_string, val_data = 0, val_string = s\<rparr>,
     md_has_resource = False\<rparr>"

definition ex_application :: application where
  "ex_application = \<lparr>app_debuggable = False, app_test_only = False, app_network_security_config = False,
     app_allow_backup = Some False, app_uses_cleartext_traffic = None,
     app_meta_data =
       [string_meta meta_code_signing_certificate ''certificate'',
        string_meta meta_update_url ''https://api.example.com/v1/ota/manifest'',
        \<lparr>md_name = meta_updates_enabled,
         md_value = \<lparr>val_type = type_int_boolean, val_data = 1, val_string = []\<rparr>, md_has_resource = False\<rparr>]\<rparr>"

definition ex_filter :: "bytes list \<Rightarrow> bytes list \<Rightarrow> intent_filter" where
  "ex_filter schemes hosts = \<lparr>if_component = ''activity'', if_component_name = ''.Main'', if_auto_verify = None,
     if_actions = [], if_categories = [], if_schemes = schemes, if_hosts = hosts\<rparr>"

definition ex_manifest :: "bytes list \<Rightarrow> manifest" where
  "ex_manifest hosts = \<lparr>man_package = ''com.anyfun.app'', man_version_code = Some 7,
     man_version_code_major = False, man_version_name = Some ''1.3.16'', man_shared_user_id = False,
     man_min_sdk = Some 24, man_target_sdk = Some 34, man_application = Some ex_application,
     man_uses_permissions = [\<lparr>up_element = ''uses-permission'', up_name = ''android.permission.CAMERA'', up_max_sdk = None\<rparr>],
     man_permissions = [], man_permission_trees = 0, man_permission_groups = 0,
     man_intent_filters = [ex_filter [''https''] hosts, ex_filter [''anyfun''] []]\<rparr>"

definition ex_package :: "bytes list \<Rightarrow> package" where
  "ex_package hosts = \<lparr>pkg_size = 9, pkg_sha256 = replicate 64 (CHR ''0''), pkg_entries = [],
     pkg_signing_block = False, pkg_v1_signature_files = [], pkg_misaligned = [], pkg_misaligned_count = 0,
     pkg_manifest = Some (ex_manifest hosts), pkg_app_config = Some ex_expo, pkg_has_app_manifest = False,
     pkg_app_manifest = None, pkg_native_fingerprint = None\<rparr>"

definition ex_file :: bytes where
  "ex_file = replicate 9 (CHR 0x00)"

lemmas ex_defs = ex_job_def ex_confirmed_identity_def ex_input_def

section \<open>Before parsing\<close>

lemma ex_file_digest: "sha256_hex toy_crypto ex_file = replicate 64 (CHR ''0'')"
  by code_simp

lemma ex_key_digest: "fingerprint_valid (sha256_hex toy_crypto ex_builder_key)"
  by (rule sha256_hex_valid [OF toy_crypto_ok])

lemma ex_roots_normal: "roots_normalize example_roots_normal = Inr example_roots_normal"
  by (rule roots_normalize_fixpoint [OF example_roots_normalize])

lemma ex_version_text: "printable_ascii ''1.3.16''"
  by code_simp

lemma ex_input_valid: "validate_input ex_input"
  by (simp add: validate_input_def validate_job_def validate_confirmed_def ex_defs ex_roots_normal
      roots_equal_iff ex_key_digest example_identifiers ex_version_text input_version_def min_sdk_floor_def
      target_sdk_floor_def)

lemma ex_provenance_verify:
  "provenance_verify toy_crypto (\<lambda>_. Some example_statement)
     \<lparr>env_statement = b64_encode (statement_json example_statement),
      env_signature = b64_encode (replicate 64 (CHR 0x00))\<rparr> ex_builder_key = Inr example_statement"
proof -
  have "\<not> b64_encoded_len max_statement_size < length (b64_encode (statement_json example_statement))"
    using b64_encoded_len_mono [OF example_statement_size] by (simp add: length_b64_encode)
  moreover have "statement_json example_statement \<noteq> []" by (simp add: statement_json_def)
  ultimately show ?thesis
    by (simp add: provenance_verify_def ed_sizes ex_builder_key_def example_statement_valid) (simp add: toy_crypto_def)
qed

lemma ex_before: "check_before_parsing ex_lib ex_input (replicate 64 (CHR ''0'')) 9 = Inr example_statement"
proof -
  have "statement_mismatch ex_input example_statement = None"
    by (simp add: statement_mismatch_def Let_def ex_defs example_statement_def)
  moreover have "sha256_hex toy_crypto ex_builder_key \<noteq> []"
    using ex_key_digest by (metis fingerprint_valid_not_Nil)
  ultimately have "check_provenance ex_lib ex_input = Inr example_statement"
    using ex_provenance_verify
    by (simp add: check_provenance_def Let_def pinned_key_def ex_lib_def ex_input_def)
      (simp add: ex_builder_key_def ed_sizes)
  then show ?thesis
    by (simp add: check_before_parsing_def require_def ex_input_valid) (simp add: ex_defs example_statement_def)
qed

section \<open>The checks\<close>

lemma set_sorted_keys [simp]: "set (sorted_keys al) = fst ` set al"
  by (simp add: sorted_keys_def)

lemma ex_certificate_digest: "sha256_hex toy_crypto (replicate 32 (CHR 0xAA)) = replicate 64 (CHR ''a'')"
  by code_simp

lemma ex_permission: "''android.permission.CAMERA'' \<in> set (allowed_permission_set embedded_permissions p c)"
  by (simp add: allowed_permission_set_def embedded_permissions_def)

lemma ex_address: "normalize_address (''0x'' @ replicate 40 (CHR ''b'')) = Inr (''0x'' @ replicate 40 (CHR ''b''))"
  by code_simp

lemma ex_expo_ok: "expo_config_ok ex_expo ex_confirmed_identity"
  using ex_address
  by (simp add: expo_config_ok_def ex_expo_def ex_confirmed_identity_def example_roots_normal_def
      ota_manifest_url_def ota_manifest_path_def)

definition ex_meta :: "(bytes \<times> meta_data) list" where
  "ex_meta = map (\<lambda>md. (md_name md, md)) (app_meta_data ex_application)"

lemma ex_meta_names [simp]:
  "meta_code_signing_certificate \<noteq> meta_update_url" "meta_code_signing_certificate \<noteq> meta_updates_enabled"
  "meta_update_url \<noteq> meta_updates_enabled" "meta_update_url \<noteq> meta_code_signing_certificate"
  "meta_updates_enabled \<noteq> meta_code_signing_certificate" "meta_updates_enabled \<noteq> meta_update_url"
  "meta_request_headers \<noteq> meta_code_signing_certificate" "meta_request_headers \<noteq> meta_update_url"
  "meta_request_headers \<noteq> meta_updates_enabled" "meta_code_signing_metadata \<noteq> meta_code_signing_certificate"
  "meta_code_signing_metadata \<noteq> meta_update_url" "meta_code_signing_metadata \<noteq> meta_updates_enabled"
  by (simp_all add: meta_code_signing_certificate_def meta_update_url_def meta_updates_enabled_def
      meta_request_headers_def meta_code_signing_metadata_def)

lemma ex_meta_by_name: "meta_data_by_name (ex_manifest hosts) = Inr ex_meta"
  by (simp add: meta_data_by_name_def ex_manifest_def ex_application_def ex_meta_def meta_step_def
      require_def string_meta_def)

lemma ex_meta_lookup:
  "meta_string ex_meta meta_update_url = Some ''https://api.example.com/v1/ota/manifest''"
  "meta_bool ex_meta meta_updates_enabled = Some True"
  "meta_string ex_meta meta_code_signing_certificate = Some ''certificate''"
  "map_of ex_meta meta_request_headers = None" "map_of ex_meta meta_code_signing_metadata = None"
  by (simp_all add: meta_string_def meta_bool_def ex_meta_def ex_application_def string_meta_def
      value_str_def value_bool_def value_types)

lemma ex_meta_allowed: "list_all (meta_allowed ex_meta) (sorted_keys ex_meta)"
  by (simp add: list_all_iff meta_allowed_def ex_meta_def ex_application_def string_meta_def expo_updates_meta_def)

lemma ex_hosts:
  "sorted_set [''api.example.com'', ''www.example.com''] = [''api.example.com'', ''www.example.com'']"
  by code_simp

text \<open>All checks pass for every list of hosts that joins to the confirmed text.\<close>

lemma ex_checks:
  assumes "join_lf (sorted_set hosts) = join_lf [''api.example.com'', ''www.example.com'']" "hosts \<noteq> []"
  shows "\<exists>fa. check_parsed ex_lib embedded_permissions ex_input example_statement 9 (Some (ex_package hosts), None) = Inr fa \<and>
    app_links_hosts (fa_trust_roots fa) = sorted_set hosts"
proof -
  have m: "pkg_manifest (ex_package hosts) = Some (ex_manifest hosts)" "pkg_app_config (ex_package hosts) = Some ex_expo"
    by (simp_all add: ex_package_def)
  have s: "check_structure ex_input (ex_package hosts) fa = Inr fa" for fa
    by (simp add: check_structure_def require_def ex_package_def)
  have i: "\<exists>fa'. check_identity ex_input (ex_package hosts) fa = Inr fa' \<and> fa_trust_roots fa' = fa_trust_roots fa" for fa
  proof -
    have "check_version_code ex_input 7 = None" by (simp add: check_version_code_def ex_defs)
    moreover have "job_version (in_job ex_input) = ''1.3.16''" "cn_package_name (in_confirmed ex_input) = ''com.anyfun.app''"
      by (simp_all add: ex_defs)
    ultimately show ?thesis by (simp add: check_identity_def m ex_manifest_def require_def)
  qed
  have a: "\<exists>fa'. check_attributes ex_input (ex_package hosts) fa = Inr fa' \<and> fa_trust_roots fa' = fa_trust_roots fa" for fa
    by (simp add: check_attributes_def m application_violation_def)
      (simp add: require_def ex_manifest_def ex_application_def ex_defs)
  have p: "\<exists>fa'. check_permissions embedded_permissions ex_input (ex_package hosts) fa = Inr fa' \<and>
      fa_trust_roots fa' = fa_trust_roots fa" for fa
    using ex_permission by (simp add: check_permissions_def require_def m Let_def) (simp add: ex_manifest_def)
  have e: "\<exists>fa'. check_embedded_config ex_input (ex_package hosts) fa = Inr fa'" for fa
  proof -
    have "in_confirmed ex_input = ex_confirmed_identity" "pkg_app_manifest (ex_package hosts) = None"
      by (simp_all add: ex_input_def ex_package_def)
    moreover have "ota_manifest_url (api_base_url (cn_trust_roots ex_confirmed_identity)) = ''https://api.example.com/v1/ota/manifest''"
      by (simp add: ota_manifest_url_def ota_manifest_path_def ex_confirmed_identity_def example_roots_normal_def)
    ultimately show ?thesis
      by (simp add: check_embedded_config_def require_def m Let_def ex_expo_ok ex_meta_by_name ex_meta_lookup
          ex_meta_allowed headers_ok_def) (simp add: ex_expo_def)
  qed
  have o: "\<exists>fa'. check_ota_certificate ex_lib ex_input (ex_package hosts) fa = Inr fa'" for fa
    by (simp add: check_ota_certificate_def require_def m ex_meta_by_name ex_meta_lookup single_certificate_def
        signing_metadata_ok_def ex_lib_def trim_space_def ex_certificate_digest)
      (simp add: ex_input_def ex_confirmed_identity_def example_roots_normal_def)
  have l: "\<exists>fa'. check_links ex_input (ex_package hosts) fa = Inr fa' \<and> app_links_hosts (fa_trust_roots fa') = sorted_set hosts" for fa
    using assms
    by (simp add: check_links_def require_def m Let_def ex_manifest_def ex_filter_def filter_step_def scheme_step_def)
      (simp add: ex_input_def ex_confirmed_identity_def example_roots_normal_def)
  have n: "check_native_fingerprint ex_input (ex_package hosts) fa = Inr fa" for fa
    by (simp add: check_native_fingerprint_def ex_package_def)
  let ?f = "initial_facts example_statement 9"
  obtain f2 where f2: "check_identity ex_input (ex_package hosts) ?f = Inr f2" using i by blast
  obtain f3 where f3: "check_attributes ex_input (ex_package hosts) f2 = Inr f3" using a by blast
  obtain f4 where f4: "check_permissions embedded_permissions ex_input (ex_package hosts) f3 = Inr f4" using p by blast
  obtain f5 where f5: "check_embedded_config ex_input (ex_package hosts) f4 = Inr f5" using e by blast
  obtain f6 where f6: "check_ota_certificate ex_lib ex_input (ex_package hosts) f5 = Inr f6" using o by blast
  obtain f7 where f7: "check_links ex_input (ex_package hosts) f6 = Inr f7"
      "app_links_hosts (fa_trust_roots f7) = sorted_set hosts" using l by blast
  show ?thesis
    using f7(2) by (simp add: check_parsed_def m policy_checks_def s f2 f3 f4 f5 f6 f7(1) n)
qed

lemma ex_evaluates:
  assumes "join_lf (sorted_set hosts) = join_lf [''api.example.com'', ''www.example.com'']" "hosts \<noteq> []"
  shows "\<exists>v fa. evaluate_file ex_lib embedded_permissions ex_input (Some ex_file) default_apk_limits
      (\<lambda>_. (Some (ex_package hosts), None)) = Verdict v \<and> vd_ok v \<and> vd_facts v = Some fa \<and>
    app_links_hosts (fa_trust_roots fa) = sorted_set hosts"
proof -
  obtain fa where "check_parsed ex_lib embedded_permissions ex_input example_statement 9 (Some (ex_package hosts), None) = Inr fa"
      "app_links_hosts (fa_trust_roots fa) = sorted_set hosts"
    using ex_checks [OF assms] by blast
  moreover have "hash_file (lib_crypto ex_lib) (Some ex_file) (max_file_size default_apk_limits) = Some (replicate 64 (CHR ''0''), 9)"
    using ex_file_digest by (simp add: hash_file_def ex_lib_def default_apk_limits_def) (simp add: ex_file_def)
  ultimately show ?thesis
    using ex_before by (simp add: evaluate_file_def conclude_def) (simp add: ex_package_def)
qed

definition ex_hosts_confirmed :: "bytes list" where
  "ex_hosts_confirmed = [''api.example.com'', ''www.example.com'']"

definition ex_parse :: "apk_limits \<Rightarrow> parse_result" where
  "ex_parse lim = (Some (ex_package ex_hosts_confirmed), None)"

lemma ex_parse_fun: "ex_parse = (\<lambda>_. (Some (ex_package ex_hosts_confirmed), None))"
  by (rule ext) (simp add: ex_parse_def)

lemma ex_passes:
  obtains v where "evaluate_file ex_lib embedded_permissions ex_input (Some ex_file) default_apk_limits ex_parse = Verdict v"
    "vd_ok v"
proof -
  have "join_lf (sorted_set ex_hosts_confirmed) = join_lf [''api.example.com'', ''www.example.com'']"
    using ex_hosts by (simp add: ex_hosts_confirmed_def)
  then show thesis
    using ex_evaluates [of ex_hosts_confirmed, folded ex_parse_fun] that
    by (auto simp: ex_hosts_confirmed_def)
qed

section \<open>Witnesses and the counterexample\<close>

text \<open>
  The comparison of the App Links hosts joins both lists with line feeds, and the
  binary XML decoder lets a line feed through. So a manifest that declares one host, the
  confirmed hosts with a line feed between them, passes although it declares none of them.
\<close>

theorem newline_host_passes:
  "\<exists>v fa. evaluate_file ex_lib embedded_permissions ex_input (Some ex_file) default_apk_limits
       (\<lambda>_. (Some (ex_package [''api.example.com'' @ CHR 0x0A # ''www.example.com'']), None)) = Verdict v \<and>
     vd_ok v \<and> vd_facts v = Some fa \<and>
     app_links_hosts (fa_trust_roots fa) \<noteq> app_links_hosts (cn_trust_roots (in_confirmed ex_input))"
proof -
  have "join_lf (sorted_set [''api.example.com'' @ CHR 0x0A # ''www.example.com'']) =
      join_lf [''api.example.com'', ''www.example.com'']"
    by (simp add: sorted_set_def)
  from ex_evaluates [OF this] show ?thesis
    by (auto simp: sorted_set_def ex_input_def ex_confirmed_identity_def example_roots_normal_def)
qed

theorem parser_needs_trusted_provenance_witness:
  "\<exists>s. signed_by_trusted_builder ex_lib ex_input s \<and> st_unsigned_sha256 s = sha256_hex toy_crypto ex_file"
proof -
  obtain v where v: "evaluate_file ex_lib embedded_permissions ex_input (Some ex_file) default_apk_limits ex_parse = Verdict v" "vd_ok v"
    by (rule ex_passes)
  define q :: "apk_limits \<Rightarrow> parse_result" where "q = (\<lambda>_. (None, Some OtherError))"
  have "\<not> vd_ok w" if e: "evaluate_file ex_lib embedded_permissions ex_input (Some ex_file) default_apk_limits q = Verdict w" for w
  proof
    assume ok: "vd_ok w"
    obtain pkg where "fst (q default_apk_limits) = Some pkg" using e ok by (rule evaluate_file_pass)
    then show False by (simp add: q_def)
  qed
  then have "evaluate_file ex_lib embedded_permissions ex_input (Some ex_file) default_apk_limits ex_parse \<noteq>
      evaluate_file ex_lib embedded_permissions ex_input (Some ex_file) default_apk_limits q"
    using v by metis
  from parser_needs_trusted_provenance [OF this] show ?thesis by (auto simp: ex_lib_def)
qed

theorem passing_package_is_the_claimed_build_witness:
  "\<exists>v fa. evaluate_file ex_lib embedded_permissions ex_input (Some ex_file) default_apk_limits ex_parse = Verdict v \<and>
     vd_facts v = Some fa \<and> fa_package_name fa = ''com.anyfun.app'' \<and> fa_version_code fa = 7"
proof -
  obtain v where v: "evaluate_file ex_lib embedded_permissions ex_input (Some ex_file) default_apk_limits ex_parse = Verdict v" "vd_ok v"
    by (rule ex_passes)
  from passing_package_is_the_claimed_build [OF v] v(1) show ?thesis by (auto simp: ex_defs)
qed


theorem passing_package_is_restricted_witness:
  "''android.permission.CAMERA'' \<in> set (allowed_permissions embedded_permissions ''com.anyfun.app'' ''direct'')"
proof -
  obtain v where v: "evaluate_file ex_lib embedded_permissions ex_input (Some ex_file) default_apk_limits ex_parse = Verdict v" "vd_ok v"
    by (rule ex_passes)
  have m: "pkg_manifest (ex_package ex_hosts_confirmed) = Some (ex_manifest ex_hosts_confirmed)" by (simp add: ex_package_def)
  have "cn_package_name (in_confirmed ex_input) = ''com.anyfun.app''"
      "distribution_channel (cn_trust_roots (in_confirmed ex_input)) = ''direct''"
    by (simp_all add: ex_defs example_roots_normal_def)
  then show ?thesis
    using passing_package_is_restricted [OF v ex_parse_def m] by (simp add: ex_manifest_def)
qed

end
