(* ===== verification/ByteReader.thy ===== *)
theory ByteReader
  imports GoText
begin

unbundle bit_operations_syntax

text \<open>
  Reading untrusted binary data as Go does it: an index or a slice outside of its operand panics.
  A panic is a value of the model (\<open>Panic\<close>), so that its absence is a theorem about each parser
  (\<open>no_panic\<close>) instead of an assumption of the model.
\<close>

datatype 'e go_fail = Panic | Fail 'e

type_synonym ('e, 'a) go = "'e go_fail + 'a"

section \<open>Checked reads\<close>

definition rd8 :: "bytes \<Rightarrow> nat \<Rightarrow> ('e, 8 word) go" where
  "rd8 b i = (if i < length b then Inr (of_char (b ! i)) else Inl Panic)"

definition rd16 :: "bytes \<Rightarrow> nat \<Rightarrow> ('e, 16 word) go" where
  "rd16 b i = (if i + 2 \<le> length b then Inr (u16le (drop i b)) else Inl Panic)"

definition rd32 :: "bytes \<Rightarrow> nat \<Rightarrow> ('e, 32 word) go" where
  "rd32 b i = (if i + 4 \<le> length b then Inr (u32le (drop i b)) else Inl Panic)"

definition rd64 :: "bytes \<Rightarrow> nat \<Rightarrow> ('e, 64 word) go" where
  "rd64 b i = (if i + 8 \<le> length b then Inr (u64le (drop i b)) else Inl Panic)"

text \<open>\<open>b[i:j]\<close>, for a slice whose capacity is its length.\<close>

definition go_slice :: "bytes \<Rightarrow> nat \<Rightarrow> nat \<Rightarrow> ('e, bytes) go" where
  "go_slice b i j = (if i \<le> j \<and> j \<le> length b then Inr (take (j - i) (drop i b)) else Inl Panic)"

text \<open>\<open>xs[i]\<close> for a slice of any type.\<close>

definition elem_at :: "'a list \<Rightarrow> nat \<Rightarrow> ('e, 'a) go" where
  "elem_at xs i = (if i < length xs then Inr (xs ! i) else Inl Panic)"

lemmas rd_defs = rd8_def rd16_def rd32_def rd64_def go_slice_def elem_at_def

lemma rd_Inr:
  "rd8 b i = Inr v8 \<longleftrightarrow> i < length b \<and> v8 = of_char (b ! i)"
  "rd16 b i = Inr v16 \<longleftrightarrow> i + 2 \<le> length b \<and> v16 = u16le (drop i b)"
  "rd32 b i = Inr v32 \<longleftrightarrow> i + 4 \<le> length b \<and> v32 = u32le (drop i b)"
  "rd64 b i = Inr v64 \<longleftrightarrow> i + 8 \<le> length b \<and> v64 = u64le (drop i b)"
  by (auto simp: rd_defs)

lemma go_slice_Inr: "go_slice b i j = Inr s \<longleftrightarrow> i \<le> j \<and> j \<le> length b \<and> s = take (j - i) (drop i b)"
  by (auto simp: go_slice_def)

lemma elem_at_Inr: "elem_at xs i = Inr x \<longleftrightarrow> i < length xs \<and> x = xs ! i"
  by (auto simp: elem_at_def)

section \<open>Absence of panics\<close>

named_theorems no_panic \<open>computations that never panic\<close>

definition safe :: "('e, 'a) go \<Rightarrow> bool" where
  "safe m \<longleftrightarrow> m \<noteq> Inl Panic"

lemma safe_Inr [simp, no_panic]: "safe (Inr x)" by (simp add: safe_def)
lemma safe_Fail [simp, no_panic]: "safe (Inl (Fail e))" by (simp add: safe_def)
lemma safe_Panic [simp]: "\<not> safe (Inl Panic)" by (simp add: safe_def)

lemma safe_rbind [no_panic]: "safe m \<Longrightarrow> (\<And>x. m = Inr x \<Longrightarrow> safe (f x)) \<Longrightarrow> safe (rbind m f)"
  by (cases m) (auto simp: safe_def)

lemma safe_if [no_panic]: "(c \<Longrightarrow> safe a) \<Longrightarrow> (\<not> c \<Longrightarrow> safe b) \<Longrightarrow> safe (if c then a else b)"
  by simp

lemma safe_rd [no_panic]:
  "i < length b \<Longrightarrow> safe (rd8 b i)"
  "i + 2 \<le> length b \<Longrightarrow> safe (rd16 b i)"
  "i + 4 \<le> length b \<Longrightarrow> safe (rd32 b i)"
  "i + 8 \<le> length b \<Longrightarrow> safe (rd64 b i)"
  by (simp_all add: rd_defs)

lemma safe_go_slice [no_panic]: "i \<le> j \<Longrightarrow> j \<le> length b \<Longrightarrow> safe (go_slice b i j)"
  by (simp add: go_slice_def)

lemma safe_elem_at [no_panic]: "i < length xs \<Longrightarrow> safe (elem_at xs i)"
  by (simp add: elem_at_def)

lemma safe_fold_res:
  assumes "\<And>s x. P s \<Longrightarrow> x \<in> set xs \<Longrightarrow> safe (f s x)"
    and "\<And>s x s'. P s \<Longrightarrow> x \<in> set xs \<Longrightarrow> f s x = Inr s' \<Longrightarrow> P s'" and "P s"
  shows "safe (fold_res f s xs)"
  using assms
proof (induction xs arbitrary: s)
  case Nil
  then show ?case by simp
next
  case (Cons x xs)
  have "safe (fold_res f s' xs)" if "f s x = Inr s'" for s'
    using Cons.prems(3) that by (intro Cons.IH) (auto intro: Cons.prems(1,2))
  then show ?case using Cons.prems(1) [OF Cons.prems(3)] by (auto intro: safe_rbind)
qed

text \<open>Dropping the panic, for callers of a parser that is shown never to panic.\<close>

definition fail_code :: "'e \<Rightarrow> 'e go_fail \<Rightarrow> 'e" where
  "fail_code d e = (case e of Panic \<Rightarrow> d | Fail c \<Rightarrow> c)"

section \<open>Little-endian writes\<close>

definition le_byte :: "nat \<Rightarrow> char" where
  "le_byte n = char_of (n mod 256)"

fun le_bytes :: "nat \<Rightarrow> nat \<Rightarrow> bytes" where
  "le_bytes 0 n = []"
| "le_bytes (Suc k) n = le_byte n # le_bytes k (n div 256)"

lemma length_le_bytes [simp]: "length (le_bytes k n) = k"
  by (induction k arbitrary: n) simp_all

lemma le_nat_le_bytes: "le_nat (le_bytes k n @ s) = le_nat (le_bytes k n) + 256 ^ k * le_nat s"
  by (induction k arbitrary: n) (simp_all add: algebra_simps)

lemma le_nat_of_le_bytes: "n < 256 ^ k \<Longrightarrow> le_nat (le_bytes k n) = n"
proof (induction k arbitrary: n)
  case 0
  then show ?case by simp
next
  case (Suc k)
  then have "n div 256 < 256 ^ k" by (simp add: less_mult_imp_div_less mult.commute)
  then show ?case using Suc.IH by (simp add: le_byte_def)
qed

definition put16 :: "16 word \<Rightarrow> bytes" where "put16 v = le_bytes 2 (unat v)"
definition put32 :: "32 word \<Rightarrow> bytes" where "put32 v = le_bytes 4 (unat v)"

lemma length_put [simp]: "length (put16 v) = 2" "length (put32 w) = 4"
  by (simp_all add: put16_def put32_def)

lemma u16le_put16 [simp]: "u16le (put16 v @ s) = v"
  using unsigned_less [of v, where 'a = nat] by (simp add: u16le_def put16_def le_nat_of_le_bytes)

lemma u32le_put32 [simp]: "u32le (put32 v @ s) = v"
  using unsigned_less [of v, where 'a = nat] by (simp add: u32le_def put32_def le_nat_of_le_bytes)

lemma u16le_eq: "2 \<le> length b \<Longrightarrow> unat (u16le b) = le_nat (take 2 b)"
  using le_nat_bound [of "take 2 b"] by (simp add: u16le_def unat_of_nat min_absorb2)

lemma u32le_eq: "4 \<le> length b \<Longrightarrow> unat (u32le b) = le_nat (take 4 b)"
  using le_nat_bound [of "take 4 b"] by (simp add: u32le_def unat_of_nat min_absorb2)

lemma u64le_eq: "8 \<le> length b \<Longrightarrow> unat (u64le b) = le_nat (take 8 b)"
  using le_nat_bound [of "take 8 b"] by (simp add: u64le_def unat_of_nat min_absorb2)

text \<open>A 16-bit field widened to 32 bits keeps its value.\<close>

lemma unat_ucast_16_32 [simp]: "unat (ucast (w :: 16 word) :: 32 word) = unat w"
proof -
  have "unat w < 2 ^ 16" using unsigned_less [of w, where 'a = nat] by simp
  then show ?thesis by (simp add: unsigned_ucast_eq take_bit_nat_eq_self)
qed

end
