(* ===== verification/AxmlStrings.thy ===== *)
theory AxmlStrings
  imports AxmlValue ByteReader
begin

text \<open>
  The string pool of a binary XML document (\<open>signing/apk/axml/decode.go\<close>): UTF-8 and UTF-16 strings
  behind a table of offsets. A string of the pool is decoded once per offset, and the bytes decoded
  in total are bounded by a budget, because offsets may overlap.
\<close>

section \<open>Limits and constants\<close>

record axml_limits =
  ax_max_size :: int
  ax_max_strings :: int
  ax_max_elements :: int
  ax_max_depth :: int
  ax_max_attributes :: int
  ax_max_string_bytes :: int

definition default_axml_limits :: axml_limits where
  "default_axml_limits = \<lparr>ax_max_size = 8 * 2 ^ 20, ax_max_strings = 100000, ax_max_elements = 50000,
     ax_max_depth = 64, ax_max_attributes = 256, ax_max_string_bytes = 16 * 2 ^ 20\<rparr>"

definition string_pool_header_size :: nat where "string_pool_header_size = 28"
definition utf8_flag :: "32 word" where "utf8_flag = 0x100"
definition sorted_flag :: "32 word" where "sorted_flag = 0x1"

definition chunk_header :: "bytes \<Rightarrow> (axml_code, 16 word \<times> 16 word \<times> 32 word) go" where
  "chunk_header b =
     rbind (rd16 b 0) (\<lambda>typ. rbind (rd16 b 2) (\<lambda>hs. rbind (rd32 b 4) (\<lambda>sz. Inr (typ, hs, sz))))"

abbreviation pool_error :: "(axml_code, 'a) go" where
  "pool_error \<equiv> Inl (Fail AxmlStringPool)"

section \<open>Runes\<close>

definition allowed_pool_rune :: "nat \<Rightarrow> bool" where
  "allowed_pool_rune r \<longleftrightarrow>
     r = 0x09 \<or> r = 0x0A \<or> r = 0x0D \<or> \<not> (r < 0x20 \<or> r = 0x7F \<or> 0x80 \<le> r \<and> r < 0xA0)"

text \<open>\<open>utf16.RuneLen\<close>, \<open>utf8.RuneLen\<close> and \<open>utf16.DecodeRune\<close> (on a surrogate pair).\<close>

definition utf16_rune_len :: "nat \<Rightarrow> int" where
  "utf16_rune_len r =
     (if r < 0xD800 \<or> 0xE000 \<le> r \<and> r < 0x10000 then 1
      else if 0x10000 \<le> r \<and> r \<le> 0x10FFFF then 2 else - 1)"

definition utf8_rune_len :: "nat \<Rightarrow> nat" where
  "utf8_rune_len r = (if r < 0x80 then 1 else if r < 0x800 then 2 else if r < 0x10000 then 3 else 4)"

definition utf16_decode_rune :: "nat \<Rightarrow> nat \<Rightarrow> nat" where
  "utf16_decode_rune hi lo = (hi - 0xD800) * 0x400 + (lo - 0xDC00) + 0x10000"

section \<open>UTF-8 strings\<close>

definition decode_length8 :: "bytes \<Rightarrow> (nat \<times> nat) option" where
  "decode_length8 b =
     (case b of [] \<Rightarrow> None
      | c # t \<Rightarrow>
        if 0x80 \<le> (of_char c :: nat)
        then (case t of [] \<Rightarrow> None | d # _ \<Rightarrow> Some (of_char c mod 0x80 * 0x100 + of_char d, 2))
        else Some (of_char c, 1))"

text \<open>The loop over the runes: no control character, and the number of UTF-16 units.\<close>

fun count_units :: "nat list \<Rightarrow> int \<Rightarrow> (axml_code, int) go" where
  "count_units [] actual = Inr actual"
| "count_units (r # rs) actual =
     (if \<not> allowed_pool_rune r then Inl (Fail AxmlStringControl)
      else count_units rs (actual + utf16_rune_len r))"

definition decode_utf8_string :: "bytes \<Rightarrow> int \<Rightarrow> (axml_code, bytes) go" where
  "decode_utf8_string b0 budget =
     (case decode_length8 b0 of None \<Rightarrow> pool_error
      | Some (u16len, n0) \<Rightarrow>
        rbind (go_slice b0 n0 (length b0)) (\<lambda>b1.
        case decode_length8 b1 of None \<Rightarrow> pool_error
        | Some (u8len, n1) \<Rightarrow>
          rbind (go_slice b1 n1 (length b1)) (\<lambda>b.
          if length b \<le> u8len then pool_error
          else if budget < int u8len then Inl (Fail AxmlStringBudget)
          else
            rbind (go_slice b 0 u8len) (\<lambda>raw.
            rbind (elem_at b u8len) (\<lambda>nul.
            if nul \<noteq> CHR 0x00 then pool_error
            else if \<not> utf8_valid raw then pool_error
            else rbind (count_units (runes raw) 0) (\<lambda>actual.
              if actual \<noteq> int u16len then pool_error else Inr raw))))))"

section \<open>UTF-16 strings\<close>

definition utf16_rune_at :: "bytes \<Rightarrow> nat \<Rightarrow> nat \<Rightarrow> (axml_code, nat \<times> nat) go" where
  "utf16_rune_at b i len =
     rbind (rd16 b (2 * i)) (\<lambda>w.
     let u = unat w;
         finish = (\<lambda>(r, consumed).
           if \<not> allowed_pool_rune r then Inl (Fail AxmlStringControl) else Inr (r, consumed))
     in if 0xD800 \<le> u \<and> u < 0xDC00 then
          (if len \<le> i + 1 then pool_error
           else rbind (rd16 b (2 * (i + 1))) (\<lambda>w'.
             if unat w' < 0xDC00 \<or> 0xE000 \<le> unat w' then pool_error
             else finish (utf16_decode_rune u (unat w'), 2)))
        else if 0xDC00 \<le> u \<and> u < 0xE000 then pool_error
        else finish (u, 1))"

lemma utf16_rune_at_consumed: "utf16_rune_at b i len = Inr (r, n) \<Longrightarrow> n = 1 \<or> n = 2"
  by (auto simp: utf16_rune_at_def result_simps Let_def split: if_splits)

text \<open>The first pass validates and adds up the UTF-8 length.\<close>

function utf16_size :: "bytes \<Rightarrow> nat \<Rightarrow> nat \<Rightarrow> nat \<Rightarrow> (axml_code, nat) go" where
  "utf16_size b i len sz =
     (if i < len then
        (case utf16_rune_at b i len of
           Inl e \<Rightarrow> Inl e
         | Inr (r, consumed) \<Rightarrow> utf16_size b (i + consumed) len (sz + utf8_rune_len r))
      else Inr sz)"
  by auto
termination
  by (relation "measure (\<lambda>(b, i, len, sz). len - i)") (auto dest!: utf16_rune_at_consumed)

text \<open>
  The second pass writes the runes. It drops the error of \<open>utf16RuneAt\<close>, which cannot occur any more:
  the first pass made the same calls.
\<close>

function utf16_text :: "bytes \<Rightarrow> nat \<Rightarrow> nat \<Rightarrow> bytes" where
  "utf16_text b i len =
     (if i < len then
        (case utf16_rune_at b i len of
           Inl e \<Rightarrow> []
         | Inr (r, consumed) \<Rightarrow> encode_rune r @ utf16_text b (i + consumed) len)
      else [])"
  by auto
termination
  by (relation "measure (\<lambda>(b, i, len). len - i)") (auto dest!: utf16_rune_at_consumed)

declare utf16_size.simps [simp del] utf16_text.simps [simp del]

definition decode_utf16_string :: "bytes \<Rightarrow> int \<Rightarrow> (axml_code, bytes) go" where
  "decode_utf16_string b0 budget =
     (if length b0 < 2 then pool_error
      else rbind (rd16 b0 0) (\<lambda>w.
        if w AND 0x8000 \<noteq> 0 \<and> length b0 < 4 then pool_error
        else
          rbind (if w AND 0x8000 \<noteq> 0
                 then rbind (rd16 b0 2) (\<lambda>w'. Inr (unat (w AND 0x7FFF) * 0x10000 + unat w', 4))
                 else Inr (unat w, 2)) (\<lambda>(len, n).
          rbind (go_slice b0 n (length b0)) (\<lambda>b.
          if length b < len * 2 + 2 then pool_error
          else rbind (rd16 b (2 * len)) (\<lambda>nul.
            if nul \<noteq> 0 then pool_error
            else if budget < int len then Inl (Fail AxmlStringBudget)
            else rbind (utf16_size b 0 len 0) (\<lambda>sz.
              if budget < int sz then Inl (Fail AxmlStringBudget)
              else Inr (utf16_text b 0 len)))))))"

section \<open>The pool\<close>

record pool_scan =
  ps_strings :: "bytes list"
  ps_by_offset :: "(32 word \<times> bytes) list"
  ps_budget :: int

definition pool_string :: "bytes \<Rightarrow> bytes \<Rightarrow> bool \<Rightarrow> pool_scan \<Rightarrow> nat \<Rightarrow> (axml_code, pool_scan) go" where
  "pool_string chunk pool utf8 ps i =
     rbind (rd32 chunk (string_pool_header_size + 4 * i)) (\<lambda>offset.
     if length pool \<le> unat offset then pool_error
     else case map_of (ps_by_offset ps) offset of
       Some s \<Rightarrow> Inr (ps\<lparr>ps_strings := ps_strings ps @ [s]\<rparr>)
     | None \<Rightarrow>
       if \<not> utf8 \<and> unat offset mod 2 \<noteq> 0 then pool_error
       else
         rbind (go_slice pool (unat offset) (length pool)) (\<lambda>b.
         rbind (if utf8 then decode_utf8_string b (ps_budget ps) else decode_utf16_string b (ps_budget ps)) (\<lambda>s.
           Inr (ps\<lparr>ps_strings := ps_strings ps @ [s], ps_by_offset := (offset, s) # ps_by_offset ps,
             ps_budget := ps_budget ps - int (length s)\<rparr>))))"

definition parse_string_pool :: "axml_limits \<Rightarrow> bytes \<Rightarrow> (axml_code, bytes list) go" where
  "parse_string_pool lim chunk =
     rbind (chunk_header chunk) (\<lambda>(_, header_size, size_of).
     if unat header_size \<noteq> string_pool_header_size then pool_error
     else
       rbind (rd32 chunk 8) (\<lambda>string_count.
       rbind (rd32 chunk 12) (\<lambda>style_count.
       rbind (rd32 chunk 16) (\<lambda>flags.
       rbind (rd32 chunk 20) (\<lambda>strings_start.
       rbind (rd32 chunk 24) (\<lambda>styles_start.
       let count = unat string_count; offsets_end = string_pool_header_size + 4 * count in
       if style_count \<noteq> 0 \<or> styles_start \<noteq> 0 then pool_error
       else if flags AND NOT (utf8_flag OR sorted_flag) \<noteq> 0 then pool_error
       else if ax_max_strings lim < int count then pool_error
       else if unat size_of < offsets_end then pool_error
       else if count = 0 then
         (if strings_start \<noteq> 0 \<and> unat strings_start \<noteq> offsets_end then pool_error else Inr [])
       else if unat strings_start < offsets_end \<or> unat size_of \<le> unat strings_start then pool_error
       else
         rbind (go_slice chunk (unat strings_start) (unat size_of)) (\<lambda>pool.
         let utf8 = (flags AND utf8_flag \<noteq> 0) in
         if \<not> utf8 \<and> length pool mod 2 \<noteq> 0 then pool_error
         else rbind (fold_res (pool_string chunk pool utf8)
                \<lparr>ps_strings = [], ps_by_offset = [], ps_budget = ax_max_string_bytes lim\<rparr> [0..<count])
              (\<lambda>ps. Inr (ps_strings ps)))))))))"

end
