(* ===== verification/AxmlDecode.thy ===== *)
theory AxmlDecode
  imports AxmlStrings
begin

text \<open>
  The strict decoder of binary XML (\<open>signing/apk/axml/decode.go\<close>): a sequence of chunks that drives a
  stack of open namespaces and elements. It refuses what Android would read differently: an
  attribute whose name and resource id disagree, attributes out of id order, a raw string next to
  another typed value, undeclared namespaces.

  In the code an open element is shared by its parent's children and the stack. Here it lives in its
  stack frame and joins its parent's children when it closes; children close in the order in which
  they open, and a document is only returned when every element is closed.
\<close>

section \<open>Constants\<close>

definition chunk_string_pool :: "16 word" where "chunk_string_pool = 0x0001"
definition chunk_xml :: "16 word" where "chunk_xml = 0x0003"
definition chunk_start_namespace :: "16 word" where "chunk_start_namespace = 0x0100"
definition chunk_end_namespace :: "16 word" where "chunk_end_namespace = 0x0101"
definition chunk_start_element :: "16 word" where "chunk_start_element = 0x0102"
definition chunk_end_element :: "16 word" where "chunk_end_element = 0x0103"
definition chunk_resource_map :: "16 word" where "chunk_resource_map = 0x0180"
definition no_index :: "32 word" where "no_index = 0xFFFFFFFF"
definition node_header_size :: nat where "node_header_size = 16"
definition attr_ext_size :: nat where "attr_ext_size = 20"
definition attribute_size :: nat where "attribute_size = 20"
definition namespace_ext_size :: nat where "namespace_ext_size = 8"
definition end_element_ext_size :: nat where "end_element_ext_size = 8"

lemmas chunk_types =
  chunk_string_pool_def chunk_xml_def chunk_start_namespace_def chunk_end_namespace_def
  chunk_start_element_def chunk_end_element_def chunk_resource_map_def

lemmas node_sizes =
  node_header_size_def attr_ext_size_def attribute_size_def namespace_ext_size_def
  end_element_ext_size_def

abbreviation malformed :: "(axml_code, 'a) go" where
  "malformed \<equiv> Inl (Fail AxmlMalformed)"

section \<open>Attributes\<close>

definition valid_index :: "bytes list \<Rightarrow> 32 word \<Rightarrow> bool" where
  "valid_index strings i \<longleftrightarrow> unat i < length strings"

definition same_string :: "bytes list \<Rightarrow> 32 word \<Rightarrow> 32 word \<Rightarrow> (axml_code, bool) go" where
  "same_string strings a b =
     (if a = b then Inr True
      else if a = no_index \<or> b = no_index \<or> \<not> valid_index strings a \<or> \<not> valid_index strings b then Inr False
      else rbind (elem_at strings (unat a)) (\<lambda>s. rbind (elem_at strings (unat b)) (\<lambda>t. Inr (s = t))))"

definition in_scope :: "bytes list \<Rightarrow> bytes \<Rightarrow> bool" where
  "in_scope scopes uri \<longleftrightarrow> uri \<in> set scopes"

definition check_attr_identity :: "framework \<Rightarrow> attribute \<Rightarrow> axml_code option" where
  "check_attr_identity T a =
     (let rid = at_resource_id a; pkg = drop_bit 24 rid in
      if rid = 0 then
        (if at_namespace a = android_ns \<and> framework_attr_id T (at_name a) \<noteq> None
         then Some AxmlAttributeIdMismatch else None)
      else if pkg = 0x01 then
        (case framework_attr_name T rid of None \<Rightarrow> Some AxmlUnknownFrameworkAttribute
         | Some want \<Rightarrow>
           if at_namespace a \<noteq> android_ns then Some AxmlNamespace
           else if at_name a \<noteq> want then Some AxmlAttributeIdMismatch
           else None)
      else if pkg = 0x00 then Some AxmlAttributeIdMismatch
      else if at_namespace a = android_ns then Some AxmlAttributeIdMismatch
      else None)"

text \<open>
  One attribute of a start element. The first part reads and validates the entry, the second keeps
  the record of ids and names already seen.
\<close>

definition attribute_namespace ::
    "bytes list \<Rightarrow> bytes list \<Rightarrow> 32 word \<Rightarrow> (axml_code, bytes) go" where
  "attribute_namespace strings scopes ns =
     (if ns = no_index then Inr []
      else if \<not> valid_index strings ns then malformed
      else rbind (elem_at strings (unat ns)) (\<lambda>uri.
        if \<not> in_scope scopes uri then Inl (Fail AxmlNamespace) else Inr uri))"

definition attribute_value ::
    "bytes list \<Rightarrow> 8 word \<Rightarrow> 32 word \<Rightarrow> 32 word \<Rightarrow> (axml_code, axml_value) go" where
  "attribute_value strings data_type data raw =
     (if data_type = type_string then
        (if \<not> valid_index strings data then malformed
         else if raw \<noteq> data then Inl (Fail AxmlRawValueMismatch)
         else rbind (elem_at strings (unat data)) (\<lambda>s.
           Inr \<lparr>val_type = data_type, val_data = data, val_string = s\<rparr>))
      else if raw \<noteq> no_index then Inl (Fail AxmlRawValueMismatch)
      else Inr \<lparr>val_type = data_type, val_data = data, val_string = []\<rparr>)"

definition read_attribute ::
    "framework \<Rightarrow> bytes list \<Rightarrow> 32 word list \<Rightarrow> bytes list \<Rightarrow> bytes \<Rightarrow> (axml_code, attribute) go" where
  "read_attribute T strings res_ids scopes a =
     rbind (rd32 a 0) (\<lambda>attr_ns.
     rbind (rd32 a 4) (\<lambda>attr_name.
     rbind (rd32 a 8) (\<lambda>raw.
     rbind (rd16 a 12) (\<lambda>value_size.
     rbind (rd8 a 14) (\<lambda>res0.
     rbind (rd8 a 15) (\<lambda>data_type.
     rbind (rd32 a 16) (\<lambda>data.
     if \<not> valid_index strings attr_name then malformed
     else rbind (elem_at strings (unat attr_name)) (\<lambda>name.
     if name = [] then malformed
     else rbind (attribute_namespace strings scopes attr_ns) (\<lambda>ns.
     if value_size \<noteq> 8 \<or> res0 \<noteq> 0 then malformed
     else if \<not> valid_type data_type then malformed
     else rbind (attribute_value strings data_type data raw) (\<lambda>val.
     rbind (if unat attr_name < length res_ids then elem_at res_ids (unat attr_name) else Inr 0) (\<lambda>rid.
     let attr = \<lparr>at_namespace = ns, at_name = name, at_resource_id = rid, at_value = val\<rparr> in
     case check_attr_identity T attr of Some e \<Rightarrow> Inl (Fail e) | None \<Rightarrow> Inr attr)))))))))))"

record attr_scan =
  as_attrs :: "attribute list"
  as_last_id :: "32 word"
  as_seen_ids :: "32 word list"
  as_seen_names :: "(bytes \<times> bytes) list"

definition note_attribute :: "attr_scan \<Rightarrow> attribute \<Rightarrow> (axml_code, attr_scan) go" where
  "note_attribute st attr =
     (let rid = at_resource_id attr; key = (at_namespace attr, at_name attr) in
      if rid \<noteq> 0 \<and> rid \<in> set (as_seen_ids st) then Inl (Fail AxmlDuplicateAttribute)
      else if rid \<noteq> 0 \<and> rid \<le> as_last_id st then Inl (Fail AxmlAttributeOrder)
      else if key \<in> set (as_seen_names st) then Inl (Fail AxmlDuplicateAttribute)
      else Inr \<lparr>as_attrs = as_attrs st @ [attr],
        as_last_id = (if rid \<noteq> 0 then rid else as_last_id st),
        as_seen_ids = (if rid \<noteq> 0 then rid # as_seen_ids st else as_seen_ids st),
        as_seen_names = key # as_seen_names st\<rparr>)"

definition attribute_step ::
    "framework \<Rightarrow> bytes list \<Rightarrow> 32 word list \<Rightarrow> bytes list \<Rightarrow> bytes \<Rightarrow> attr_scan \<Rightarrow> nat \<Rightarrow> (axml_code, attr_scan) go" where
  "attribute_step T strings res_ids scopes ext st i =
     rbind (go_slice ext (attr_ext_size + attribute_size * i) (length ext)) (\<lambda>a.
     rbind (read_attribute T strings res_ids scopes a) (note_attribute st))"

definition parse_start_element ::
    "framework \<Rightarrow> axml_limits \<Rightarrow> bytes list \<Rightarrow> 32 word list \<Rightarrow> bytes \<Rightarrow> bytes \<Rightarrow> bytes list \<Rightarrow>
     (axml_code, (bytes \<times> attribute list) \<times> 32 word \<times> 32 word) go" where
  "parse_start_element T lim strings res_ids chunk ext scopes =
     (if length ext < attr_ext_size then malformed
      else
        rbind (rd32 ext 0) (\<lambda>ns_index.
        rbind (rd32 ext 4) (\<lambda>name_index.
        rbind (rd16 ext 8) (\<lambda>attribute_start.
        rbind (rd16 ext 10) (\<lambda>attr_size.
        rbind (rd16 ext 12) (\<lambda>attribute_count.
        rbind (rd16 ext 14) (\<lambda>id_index.
        rbind (rd16 ext 16) (\<lambda>class_index.
        rbind (rd16 ext 18) (\<lambda>style_index.
        if ns_index \<noteq> no_index then malformed
        else if \<not> valid_index strings name_index then malformed
        else rbind (elem_at strings (unat name_index)) (\<lambda>name.
        if name = [] then malformed
        else if unat attribute_start \<noteq> attr_ext_size \<or> unat attr_size \<noteq> attribute_size then malformed
        else if ax_max_attributes lim < int (unat attribute_count) then malformed
        else if attribute_count < id_index \<or> attribute_count < class_index \<or> attribute_count < style_index
        then malformed
        else if length chunk \<noteq> node_header_size + attr_ext_size + attribute_size * unat attribute_count
        then malformed
        else
          rbind (fold_res (attribute_step T strings res_ids scopes ext)
            \<lparr>as_attrs = [], as_last_id = 0, as_seen_ids = [], as_seen_names = []\<rparr>
            [0..<unat attribute_count]) (\<lambda>st.
          Inr ((name, as_attrs st), ns_index, name_index))))))))))))"

section \<open>The state of the decoder\<close>

datatype frame =
    NsFrame "32 word" "32 word"
  | ElFrame "32 word" "32 word" element

record doc_scan =
  ds_off :: nat
  ds_seen_pool :: bool
  ds_seen_map :: bool
  ds_seen_node :: bool
  ds_root_closed :: bool
  ds_has_root :: bool
  ds_root :: "element option"
  ds_stack :: "frame list"
  ds_elements :: int
  ds_depth :: int
  ds_scopes :: "bytes list"
  ds_strings :: "bytes list"
  ds_res_ids :: "32 word list"

text \<open>The stack and the scopes grow at the head. \<open>openElement\<close>: the innermost open element.\<close>

fun open_element :: "frame list \<Rightarrow> element option" where
  "open_element [] = None"
| "open_element (NsFrame p u # fs) = open_element fs"
| "open_element (ElFrame ns n e # fs) = Some e"

fun add_child :: "element \<Rightarrow> element \<Rightarrow> element" where
  "add_child c (Element n as cs l) = Element n as (cs @ [c]) l"

text \<open>\<open>parent.Children = append(parent.Children, el)\<close> for the innermost open element.\<close>

fun attach_child :: "element \<Rightarrow> frame list \<Rightarrow> frame list" where
  "attach_child c [] = []"
| "attach_child c (NsFrame p u # fs) = NsFrame p u # attach_child c fs"
| "attach_child c (ElFrame ns n e # fs) = ElFrame ns n (add_child c e) # fs"

section \<open>Nodes\<close>

definition resource_map_node :: "doc_scan \<Rightarrow> bytes \<Rightarrow> 16 word \<Rightarrow> 32 word \<Rightarrow> (axml_code, doc_scan) go" where
  "resource_map_node st chunk header_size size_of =
     (if \<not> ds_seen_pool st \<or> ds_seen_map st \<or> ds_seen_node st then malformed
      else if header_size \<noteq> 8 \<or> (unat size_of - 8) mod 4 \<noteq> 0 then malformed
      else rbind (fold_res (\<lambda>ids i. rbind (rd32 chunk (8 + 4 * i)) (\<lambda>rid. Inr (ids @ [rid])))
                    [] [0..<(unat size_of - 8) div 4]) (\<lambda>ids.
        Inr (st\<lparr>ds_res_ids := ids, ds_seen_map := True\<rparr>)))"

definition start_namespace_node :: "doc_scan \<Rightarrow> 32 word \<Rightarrow> 32 word \<Rightarrow> (axml_code, doc_scan) go" where
  "start_namespace_node st prefix uri =
     (if ds_root_closed st then malformed
      else rbind (elem_at (ds_strings st) (unat uri)) (\<lambda>s.
        Inr (st\<lparr>ds_stack := NsFrame prefix uri # ds_stack st, ds_scopes := s # ds_scopes st\<rparr>)))"

definition end_namespace_node :: "doc_scan \<Rightarrow> 32 word \<Rightarrow> 32 word \<Rightarrow> (axml_code, doc_scan) go" where
  "end_namespace_node st prefix uri =
     (case ds_stack st of
        NsFrame p u # fs \<Rightarrow>
          if p \<noteq> prefix \<or> u \<noteq> uri then malformed
          else (case ds_scopes st of
              [] \<Rightarrow> Inl Panic
            | s # ss \<Rightarrow> Inr (st\<lparr>ds_stack := fs, ds_scopes := ss\<rparr>))
      | _ \<Rightarrow> malformed)"

definition namespace_node ::
    "doc_scan \<Rightarrow> bool \<Rightarrow> bytes \<Rightarrow> 32 word \<Rightarrow> (axml_code, doc_scan) go" where
  "namespace_node st starts ext size_of =
     (if unat size_of \<noteq> node_header_size + namespace_ext_size then malformed
      else
        rbind (rd32 ext 0) (\<lambda>prefix.
        rbind (rd32 ext 4) (\<lambda>uri.
        if (prefix \<noteq> no_index \<and> \<not> valid_index (ds_strings st) prefix) \<or> \<not> valid_index (ds_strings st) uri
        then malformed
        else if starts then start_namespace_node st prefix uri
        else end_namespace_node st prefix uri)))"

definition start_element_node ::
    "framework \<Rightarrow> axml_limits \<Rightarrow> doc_scan \<Rightarrow> bytes \<Rightarrow> bytes \<Rightarrow> 32 word \<Rightarrow> (axml_code, doc_scan) go" where
  "start_element_node T lim st chunk ext line =
     (if ds_root_closed st then malformed
      else if ax_max_elements lim < ds_elements st + 1 then malformed
      else if ax_max_depth lim < ds_depth st + 1 then malformed
      else rbind (parse_start_element T lim (ds_strings st) (ds_res_ids st) chunk ext (ds_scopes st))
        (\<lambda>((name, attrs), ns_index, name_index).
        if ds_has_root st \<and> open_element (ds_stack st) = None then malformed
        else Inr (st\<lparr>ds_elements := ds_elements st + 1, ds_depth := ds_depth st + 1, ds_has_root := True,
          ds_stack := ElFrame ns_index name_index (Element name attrs [] line) # ds_stack st\<rparr>)))"

definition end_element_node :: "doc_scan \<Rightarrow> bytes \<Rightarrow> 32 word \<Rightarrow> (axml_code, doc_scan) go" where
  "end_element_node st ext size_of =
     (if unat size_of \<noteq> node_header_size + end_element_ext_size then malformed
      else
        rbind (rd32 ext 0) (\<lambda>ns.
        rbind (rd32 ext 4) (\<lambda>name.
        case ds_stack st of
          ElFrame top_ns top_name el # fs \<Rightarrow>
            rbind (same_string (ds_strings st) ns top_ns) (\<lambda>same_ns.
            rbind (if same_ns then same_string (ds_strings st) name top_name else Inr False) (\<lambda>same.
            if \<not> same then malformed
            else Inr (st\<lparr>ds_depth := ds_depth st - 1,
              ds_root_closed := ds_root_closed st \<or> ds_depth st - 1 = 0,
              ds_root := (if open_element fs = None then Some el else ds_root st),
              ds_stack := attach_child el fs\<rparr>)))
        | _ \<Rightarrow> malformed)))"

definition node_chunk ::
    "framework \<Rightarrow> axml_limits \<Rightarrow> doc_scan \<Rightarrow> bytes \<Rightarrow> 16 word \<Rightarrow> 16 word \<Rightarrow> 32 word \<Rightarrow> (axml_code, doc_scan) go" where
  "node_chunk T lim st0 chunk typ header_size size_of =
     (if \<not> ds_seen_pool st0 then malformed
      else let st = st0\<lparr>ds_seen_node := True\<rparr> in
        if unat header_size \<noteq> node_header_size then malformed
        else
          rbind (rd32 chunk 12) (\<lambda>comment.
          if comment \<noteq> no_index \<and> \<not> valid_index (ds_strings st) comment then malformed
          else
            rbind (rd32 chunk 8) (\<lambda>line.
            rbind (go_slice chunk node_header_size (length chunk)) (\<lambda>ext.
            if typ = chunk_start_namespace \<or> typ = chunk_end_namespace
            then namespace_node st (typ = chunk_start_namespace) ext size_of
            else if typ = chunk_start_element then start_element_node T lim st chunk ext line
            else end_element_node st ext size_of))))"

definition string_pool_node :: "axml_limits \<Rightarrow> doc_scan \<Rightarrow> bytes \<Rightarrow> (axml_code, doc_scan) go" where
  "string_pool_node lim st chunk =
     (if ds_seen_pool st \<or> ds_seen_map st \<or> ds_seen_node st then malformed
      else rbind (parse_string_pool lim chunk) (\<lambda>strings.
        Inr (st\<lparr>ds_strings := strings, ds_seen_pool := True\<rparr>)))"

definition dispatch_chunk ::
    "framework \<Rightarrow> axml_limits \<Rightarrow> doc_scan \<Rightarrow> bytes \<Rightarrow> 16 word \<Rightarrow> 16 word \<Rightarrow> 32 word \<Rightarrow> (axml_code, doc_scan) go" where
  "dispatch_chunk T lim st chunk typ header_size size_of =
     (if typ = chunk_string_pool then string_pool_node lim st chunk
      else if typ = chunk_resource_map then resource_map_node st chunk header_size size_of
      else if typ \<in> {chunk_start_namespace, chunk_end_namespace, chunk_start_element, chunk_end_element}
      then node_chunk T lim st chunk typ header_size size_of
      else malformed)"

definition decode_chunk ::
    "framework \<Rightarrow> axml_limits \<Rightarrow> bytes \<Rightarrow> doc_scan \<Rightarrow> (axml_code, doc_scan) go" where
  "decode_chunk T lim data st =
     (if length data - ds_off st < 8 then malformed
      else
        rbind (go_slice data (ds_off st) (length data)) (\<lambda>rest.
        rbind (chunk_header rest) (\<lambda>(typ, header_size, size_of).
        if header_size < 8 \<or> size_of < ucast header_size \<or> length data - ds_off st < unat size_of \<or>
           (size_of OR ucast header_size) mod 4 \<noteq> 0
        then malformed
        else
          rbind (go_slice data (ds_off st) (ds_off st + unat size_of)) (\<lambda>chunk.
          rbind (dispatch_chunk T lim st chunk typ header_size size_of) (\<lambda>st'. Inr (st'\<lparr>ds_off := ds_off st + unat size_of\<rparr>))))))"

section \<open>The document\<close>

lemma decode_chunk_progress: "decode_chunk T lim data st = Inr st' \<Longrightarrow>
  ds_off st + 8 \<le> ds_off st' \<and> ds_off st' \<le> length data"
proof -
  assume "decode_chunk T lim data st = Inr st'"
  then obtain header_size :: "16 word" and size_of :: "32 word" where d: "8 \<le> length data - ds_off st"
      "\<not> header_size < (8 :: 16 word)" "\<not> size_of < (ucast header_size :: 32 word)"
      "unat size_of \<le> length data - ds_off st" "ds_off st' = ds_off st + unat size_of"
    by (fastforce simp: decode_chunk_def result_simps chunk_header_def go_slice_Inr split: if_splits)
  have "unat (8 :: 16 word) \<le> unat header_size"
    using d(2) by (metis not_less word_le_nat_alt)
  moreover have "unat (ucast header_size :: 32 word) \<le> unat size_of"
    using d(3) by (metis not_less word_le_nat_alt)
  ultimately show ?thesis using d by simp
qed

function decode_loop ::
    "framework \<Rightarrow> axml_limits \<Rightarrow> bytes \<Rightarrow> doc_scan \<Rightarrow> (axml_code, doc_scan) go" where
  "decode_loop T lim data st =
     (if ds_off st < length data then
        (case decode_chunk T lim data st of
           Inl e \<Rightarrow> Inl e
         | Inr st' \<Rightarrow> decode_loop T lim data st')
      else Inr st)"
  by auto
termination
  by (relation "measure (\<lambda>(T, lim, data, st). length data - ds_off st)")
    (auto dest!: decode_chunk_progress)

declare decode_loop.simps [simp del]

definition doc_start :: doc_scan where
  "doc_start = \<lparr>ds_off = 8, ds_seen_pool = False, ds_seen_map = False, ds_seen_node = False,
     ds_root_closed = False, ds_has_root = False, ds_root = None, ds_stack = [], ds_elements = 0,
     ds_depth = 0, ds_scopes = [], ds_strings = [], ds_res_ids = []\<rparr>"

definition doc_finish :: "doc_scan \<Rightarrow> (axml_code, element) go" where
  "doc_finish st =
     (if \<not> ds_seen_pool st then malformed
      else if \<not> ds_has_root st \<or> \<not> ds_root_closed st then malformed
      else if ds_stack st \<noteq> [] then malformed
      else (case ds_root st of None \<Rightarrow> Inl Panic | Some e \<Rightarrow> Inr e))"

text \<open>\<open>Decode\<close>.\<close>

definition axml_decode :: "framework \<Rightarrow> bytes \<Rightarrow> axml_limits \<Rightarrow> (axml_code, element) go" where
  "axml_decode T data lim =
     (if ax_max_size lim < int (length data) then malformed
      else if length data < 8 then malformed
      else
        rbind (chunk_header data) (\<lambda>(typ, header_size, size_of).
        if typ \<noteq> chunk_xml \<or> header_size \<noteq> 8 \<or> unat size_of \<noteq> length data \<or> unat size_of mod 4 \<noteq> 0
        then malformed
        else rbind (decode_loop T lim data doc_start) doc_finish))"

end
