(* ===== verification/AxmlStringsProps.thy ===== *)
theory AxmlStringsProps
  imports AxmlStrings
begin

text \<open>
  What the string pool guarantees: decoding never reads outside of the chunk, every string is valid
  UTF-8 without control characters, and the distinct strings fit the budget.
\<close>

section \<open>No read outside of the chunk\<close>

lemma decode_length8_bound: "decode_length8 b = Some (n, k) \<Longrightarrow> k \<le> length b"
  by (auto simp: decode_length8_def split: list.splits if_splits)

lemma safe_count_units [no_panic]: "safe (count_units rs n)"
  by (induction rs n rule: count_units.induct) auto

lemma safe_decode_utf8_string [no_panic]: "safe (decode_utf8_string b budget)"
  unfolding decode_utf8_string_def
  by (auto intro!: no_panic dest!: decode_length8_bound simp: go_slice_Inr split: option.split)

lemma safe_utf16_rune_at [no_panic]:
  "i < len \<Longrightarrow> 2 * len \<le> length b \<Longrightarrow> safe (utf16_rune_at b i len)"
  unfolding utf16_rune_at_def Let_def by (auto intro!: no_panic)

lemma safe_utf16_size [no_panic]: "2 * len \<le> length b \<Longrightarrow> safe (utf16_size b i len sz)"
proof (induction b i len sz rule: utf16_size.induct)
  case (1 b i len sz)
  show ?case
  proof (cases "i < len")
    case True
    then have "safe (utf16_rune_at b i len)" using "1.prems" by (rule safe_utf16_rune_at)
    then show ?thesis
      using True "1.IH" [OF True] "1.prems"
      by (subst utf16_size.simps) (auto simp: safe_def split: sum.split)
  qed (simp add: utf16_size.simps)
qed

lemma safe_decode_utf16_string [no_panic]: "safe (decode_utf16_string b budget)"
  unfolding decode_utf16_string_def
  by (auto intro!: no_panic simp: go_slice_Inr result_simps split: if_splits)

lemma safe_pool_string [no_panic]:
  "string_pool_header_size + 4 * i + 4 \<le> length chunk \<Longrightarrow> safe (pool_string chunk pool utf8 ps i)"
  unfolding pool_string_def
  by (auto intro!: no_panic split: option.split)

lemma safe_chunk_header [no_panic]: "8 \<le> length b \<Longrightarrow> safe (chunk_header b)"
  unfolding chunk_header_def by (auto intro!: no_panic)

lemma chunk_header_Inr:
  "chunk_header b = Inr (kind, hs, sz) \<longleftrightarrow>
     8 \<le> length b \<and> kind = u16le b \<and> hs = u16le (drop 2 b) \<and> sz = u32le (drop 4 b)"
  by (auto simp: chunk_header_def result_simps rd_Inr)

lemma safe_parse_string_pool [no_panic]:
  assumes "chunk_header chunk = Inr (kind, hs, sz)" and "unat hs \<le> unat sz" and "unat sz = length chunk"
  shows "safe (parse_string_pool lim chunk)"
  unfolding parse_string_pool_def assms(1) Let_def
  using assms(2,3)
  by (auto intro!: no_panic safe_fold_res [where P = "\<lambda>_. True"] simp: string_pool_header_size_def)

section \<open>Clean text\<close>

definition control_free_text :: "bytes \<Rightarrow> bool" where
  "control_free_text s \<longleftrightarrow> utf8_valid s \<and> list_all allowed_pool_rune (runes s)"

lemma clean_text_Nil [simp]: "control_free_text []"
  by (simp add: control_free_text_def)

lemma count_units_Inr: "count_units rs n = Inr m \<Longrightarrow> list_all allowed_pool_rune rs"
  by (induction rs n rule: count_units.induct) (auto split: if_splits)

lemma decode_utf8_string_clean: "decode_utf8_string b budget = Inr s \<Longrightarrow> control_free_text s \<and> int (length s) \<le> budget"
  by (auto simp: decode_utf8_string_def result_simps control_free_text_def go_slice_Inr
      dest!: count_units_Inr split: option.splits if_splits)

lemma utf16_rune_at_Inr:
  assumes "utf16_rune_at b i len = Inr (r, n)"
  shows "scalar_value r \<and> allowed_pool_rune r"
proof -
  have b: "unat (u16le s) < 65536" for s
    using unsigned_less [of "u16le s", where 'a = nat] by simp
  have "unat (u16le s) < 65536 \<and> unat (u16le s) < 1114112" for s
    using b [of s] by linarith
  then show ?thesis
    using assms
    by (auto simp: utf16_rune_at_def result_simps Let_def rd_Inr utf16_decode_rune_def scalar_value_def
        split: if_splits)
qed

lemma utf16_text_runes:
  "\<exists>rs. utf16_text b i len = concat (map encode_rune rs) \<and> list_all scalar_value rs \<and>
     list_all allowed_pool_rune rs"
proof (induction b i len rule: utf16_text.induct)
  case (1 b i len)
  show ?case
  proof (cases "i < len")
    case True
    show ?thesis
    proof (cases "utf16_rune_at b i len")
      case (Inl e)
      then have "utf16_text b i len = concat (map encode_rune [])"
        by (subst utf16_text.simps) simp
      then show ?thesis by fastforce
    next
      case (Inr x)
      then obtain r n where x: "utf16_rune_at b i len = Inr (r, n)" by (cases x) auto
      obtain rs where rs: "utf16_text b (i + n) len = concat (map encode_rune rs)"
          "list_all scalar_value rs" "list_all allowed_pool_rune rs"
        using "1.IH" [OF True x refl] by blast
      have "utf16_text b i len = concat (map encode_rune (r # rs))"
        using True x rs(1) by (subst utf16_text.simps) simp
      then show ?thesis
        using rs(2,3) utf16_rune_at_Inr [OF x] by (intro exI [of _ "r # rs"]) simp
    qed
  next
    case False
    then have "utf16_text b i len = concat (map encode_rune [])"
      by (subst utf16_text.simps) simp
    then show ?thesis by fastforce
  qed
qed

lemma clean_utf16_text: "control_free_text (utf16_text b i len)"
  using utf16_text_runes [of b i len] utf8_concat_encode by (auto simp: control_free_text_def)

text \<open>The length that the first pass computes is the length of the text the second one writes.\<close>

lemma utf8_rune_len: "utf8_rune_len r = length (encode_rune r)"
  by (simp add: utf8_rune_len_def encode_rune_def)

lemma utf16_size_text: "utf16_size b i len sz = Inr n \<Longrightarrow> n = sz + length (utf16_text b i len)"
proof (induction b i len sz rule: utf16_size.induct)
  case (1 b i len sz)
  show ?case
  proof (cases "i < len")
    case True
    then obtain r k where x: "utf16_rune_at b i len = Inr (r, k)"
      using "1.prems" by (cases "utf16_rune_at b i len") (auto simp: utf16_size.simps [of b i len])
    have "utf16_size b (i + k) len (sz + utf8_rune_len r) = Inr n"
      using "1.prems" True x by (subst (asm) utf16_size.simps) simp
    then have "n = sz + utf8_rune_len r + length (utf16_text b (i + k) len)"
      using "1.IH" [OF True x refl] by blast
    then show ?thesis using True x by (subst utf16_text.simps) (simp add: utf8_rune_len)
  next
    case False
    then show ?thesis using "1.prems" by (simp add: utf16_size.simps utf16_text.simps)
  qed
qed

lemma decode_utf16_string_clean:
  "decode_utf16_string b budget = Inr s \<Longrightarrow> control_free_text s \<and> int (length s) \<le> budget"
  by (auto simp: decode_utf16_string_def result_simps clean_utf16_text dest!: utf16_size_text split: if_splits)

section \<open>The budget\<close>

text \<open>Every string comes from the cache, the cache is clean, and it has been paid for.\<close>

definition pool_inv :: "int \<Rightarrow> pool_scan \<Rightarrow> bool" where
  "pool_inv allowance ps \<longleftrightarrow>
     set (ps_strings ps) \<subseteq> set (map snd (ps_by_offset ps)) \<and>
     (\<forall>s\<in>set (map snd (ps_by_offset ps)). control_free_text s) \<and>
     (\<Sum>s\<leftarrow>map snd (ps_by_offset ps). int (length s)) + ps_budget ps = allowance \<and>
     (ps_by_offset ps \<noteq> [] \<longrightarrow> 0 \<le> ps_budget ps)"

lemma pool_string_inv:
  assumes "pool_inv allowance ps" and "pool_string chunk pool utf8 ps i = Inr ps'"
  shows "pool_inv allowance ps'"
proof -
  have d: "control_free_text s \<and> int (length s) \<le> ps_budget ps"
    if "(if utf8 then decode_utf8_string b (ps_budget ps) else decode_utf16_string b (ps_budget ps)) = Inr s" for b s
    using that by (auto split: if_splits dest: decode_utf8_string_clean decode_utf16_string_clean)
  consider (hit) offset s where "map_of (ps_by_offset ps) offset = Some s"
      "ps' = ps\<lparr>ps_strings := ps_strings ps @ [s]\<rparr>"
    | (miss) offset b s where
      "(if utf8 then decode_utf8_string b (ps_budget ps) else decode_utf16_string b (ps_budget ps)) = Inr s"
      "ps' = ps\<lparr>ps_strings := ps_strings ps @ [s], ps_by_offset := (offset, s) # ps_by_offset ps,
         ps_budget := ps_budget ps - int (length s)\<rparr>"
    using assms(2) unfolding pool_string_def
    by (cases utf8) (auto simp: result_simps split: if_splits option.splits)
  then show ?thesis
  proof cases
    case hit
    then have "s \<in> set (map snd (ps_by_offset ps))"
      by (auto dest!: map_of_SomeD intro: rev_image_eqI)
    then show ?thesis using assms(1) hit(2) by (auto simp: pool_inv_def)
  next
    case miss
    then show ?thesis using assms(1) d [OF miss(1)] by (auto simp: pool_inv_def)
  qed
qed

lemma sum_list_ge_sum_set:
  "(\<Sum>s\<in>set xs. int (length s)) \<le> (\<Sum>s\<leftarrow>xs. int (length s))"
  by (induction xs) (auto simp: insert_absorb sum.insert_if)

lemma parse_string_pool_clean:
  assumes "parse_string_pool lim chunk = Inr strings"
  shows "\<forall>s\<in>set strings. control_free_text s"
    and "0 \<le> ax_max_string_bytes lim \<Longrightarrow> (\<Sum>s\<in>set strings. int (length s)) \<le> ax_max_string_bytes lim"
proof -
  define ps0 where "ps0 = \<lparr>ps_strings = [], ps_by_offset = [], ps_budget = ax_max_string_bytes lim\<rparr>"
  have start: "pool_inv (ax_max_string_bytes lim) ps0"
    by (simp add: pool_inv_def ps0_def)
  consider "strings = []" | pool utf8 ps count where
      "fold_res (pool_string chunk pool utf8) ps0 [0..<count] = Inr ps" "strings = ps_strings ps"
    using assms unfolding parse_string_pool_def ps0_def Let_def
    by (auto simp: result_simps split: if_splits)
  then have "(\<forall>s\<in>set strings. control_free_text s) \<and>
      (0 \<le> ax_max_string_bytes lim \<longrightarrow> (\<Sum>s\<in>set strings. int (length s)) \<le> ax_max_string_bytes lim)"
  proof cases
    case 2
    have inv: "pool_inv (ax_max_string_bytes lim) ps"
      using pool_string_inv start 2(1) by (rule fold_res_inv)
    have "(\<Sum>s\<in>set strings. int (length s)) \<le> (\<Sum>s\<in>set (map snd (ps_by_offset ps)). int (length s))"
      using inv 2(2) by (intro sum_mono2) (auto simp: pool_inv_def)
    also have "\<dots> \<le> (\<Sum>s\<leftarrow>map snd (ps_by_offset ps). int (length s))"
      by (rule sum_list_ge_sum_set)
    finally show ?thesis using inv 2(2)
      by (cases "ps_by_offset ps = []") (auto simp: pool_inv_def)
  qed simp
  then show "\<forall>s\<in>set strings. control_free_text s"
    and "0 \<le> ax_max_string_bytes lim \<Longrightarrow> (\<Sum>s\<in>set strings. int (length s)) \<le> ax_max_string_bytes lim"
    by blast+
qed

end
