(* ===== verification/AxmlProps.thy ===== *)
theory AxmlProps
  imports AxmlDecode AxmlStringsProps
begin

text \<open>
  What the binary XML decoder guarantees about an accepted document: no panic, size limits, clean
  text, and the agreement of names and resource ids.
\<close>

section \<open>What holds of every element\<close>

text \<open>Attributes that carry a resource id do so in ascending order, and no name occurs twice.\<close>

definition attrs_ordered :: "attribute list \<Rightarrow> bool" where
  "attrs_ordered as \<longleftrightarrow>
     sorted_wrt (<) (filter (\<lambda>i. i \<noteq> 0) (map at_resource_id as)) \<and>
     distinct (map (\<lambda>a. (at_namespace a, at_name a)) as)"

definition attr_good :: "framework \<Rightarrow> attribute \<Rightarrow> bool" where
  "attr_good T a \<longleftrightarrow> check_attr_identity T a = None \<and> at_name a \<noteq> [] \<and>
     control_free_text (at_name a) \<and> control_free_text (at_namespace a) \<and> control_free_text (val_string (at_value a)) \<and>
     valid_type (val_type (at_value a))"

definition node_good :: "framework \<Rightarrow> axml_limits \<Rightarrow> bytes \<Rightarrow> attribute list \<Rightarrow> bool" where
  "node_good T lim name as \<longleftrightarrow> name \<noteq> [] \<and> control_free_text name \<and> list_all (attr_good T) as \<and>
     attrs_ordered as \<and> int (length as) \<le> ax_max_attributes lim"

abbreviation tree_good :: "framework \<Rightarrow> axml_limits \<Rightarrow> element \<Rightarrow> bool" where
  "tree_good T lim e \<equiv> \<forall>x\<in>set (subelements e). node_good T lim (el_name x) (el_attrs x)"

fun height :: "element \<Rightarrow> nat" where
  "height (Element n as cs l) = Suc (fold max (map height cs) 0)"

lemma fold_max_append: "fold max (xs @ [x]) (a :: nat) = max x (fold max xs a)"
  by (simp add: max.commute)

lemma height_add_child [simp]: "height (add_child c e) = max (height e) (Suc (height c))"
  by (cases e) (simp add: fold_max_append max.commute)

lemma length_subelements_add_child [simp]:
  "length (subelements (add_child c e)) = length (subelements e) + length (subelements c)"
  by (cases e) simp

lemma tree_good_add_child [simp]: "tree_good T lim (add_child c e) \<longleftrightarrow> tree_good T lim e \<and> tree_good T lim c"
  by (cases e) auto

section \<open>The attributes of one element\<close>

definition strings_clean :: "bytes list \<Rightarrow> bool" where
  "strings_clean strings \<longleftrightarrow> list_all control_free_text strings"

lemma elem_at_clean: "strings_clean strings \<Longrightarrow> elem_at strings i = Inr s \<Longrightarrow> control_free_text s"
  by (auto simp: strings_clean_def elem_at_Inr list_all_length)

lemma attribute_namespace_clean:
  "strings_clean strings \<Longrightarrow> attribute_namespace strings scopes ns = Inr uri \<Longrightarrow> control_free_text uri"
  by (auto simp: attribute_namespace_def result_simps dest: elem_at_clean split: if_splits)

lemma attribute_value_clean:
  "strings_clean strings \<Longrightarrow> attribute_value strings t d raw = Inr v \<Longrightarrow> control_free_text (val_string v) \<and> val_type v = t"
  by (auto simp: attribute_value_def result_simps dest: elem_at_clean split: if_splits)

lemma read_attribute_good:
  assumes "strings_clean strings" and "read_attribute T strings res_ids scopes b = Inr a"
  shows "attr_good T a"
proof -
  obtain i name nsi ns t d raw v rid where
    "(elem_at strings i :: (axml_code, bytes) go) = Inr name" "name \<noteq> []" "attribute_namespace strings scopes nsi = Inr ns"
    "valid_type t" "attribute_value strings t d raw = Inr v"
    "a = \<lparr>at_namespace = ns, at_name = name, at_resource_id = rid, at_value = v\<rparr>"
    "check_attr_identity T a = None"
    using assms(2) unfolding read_attribute_def Let_def
    by (auto simp: result_simps split: if_splits option.splits)
  then show ?thesis
    using assms(1) attribute_value_clean [OF assms(1)] attribute_namespace_clean [OF assms(1)] elem_at_clean [OF assms(1)]
    by (auto simp: attr_good_def)
qed

text \<open>The record of what was seen matches the attributes kept so far.\<close>

definition attr_inv :: "framework \<Rightarrow> attr_scan \<Rightarrow> bool" where
  "attr_inv T st \<longleftrightarrow> list_all (attr_good T) (as_attrs st) \<and> attrs_ordered (as_attrs st) \<and>
     (\<forall>i\<in>set (map at_resource_id (as_attrs st)). i \<le> as_last_id st) \<and>
     set (as_seen_names st) = set (map (\<lambda>a. (at_namespace a, at_name a)) (as_attrs st))"

lemma note_attribute_inv:
  assumes "attr_inv T st" and "attr_good T a" and "note_attribute st a = Inr st'"
  shows "attr_inv T st' \<and> length (as_attrs st') = Suc (length (as_attrs st))"
proof -
  have s: "st' = \<lparr>as_attrs = as_attrs st @ [a],
        as_last_id = (if at_resource_id a \<noteq> 0 then at_resource_id a else as_last_id st),
        as_seen_ids = (if at_resource_id a \<noteq> 0 then at_resource_id a # as_seen_ids st else as_seen_ids st),
        as_seen_names = (at_namespace a, at_name a) # as_seen_names st\<rparr>"
    and o: "at_resource_id a = 0 \<or> as_last_id st < at_resource_id a"
    and n: "(at_namespace a, at_name a) \<notin> set (as_seen_names st)"
    using assms(3) by (auto simp: note_attribute_def Let_def split: if_splits)
  have le: "i < at_resource_id a" if "at_resource_id a \<noteq> 0" "i \<in> set (map at_resource_id (as_attrs st))" for i
    using that o assms(1) by (auto simp: attr_inv_def intro: le_less_trans)
  show ?thesis
    using assms(1,2) n le o unfolding s attr_inv_def attrs_ordered_def
    by (auto simp: sorted_wrt_append less_imp_le)
qed

lemma attribute_step_inv:
  assumes "strings_clean strings" and "attr_inv T st"
    and "attribute_step T strings res_ids scopes ext st i = Inr st'"
  shows "attr_inv T st' \<and> length (as_attrs st') = Suc (length (as_attrs st))"
proof -
  obtain b a where "read_attribute T strings res_ids scopes b = Inr a" "note_attribute st a = Inr st'"
    using assms(3) by (auto simp: attribute_step_def result_simps)
  then show ?thesis using note_attribute_inv [OF assms(2)] read_attribute_good [OF assms(1)] by blast
qed

lemma attribute_steps_inv:
  assumes "strings_clean strings" and "attr_inv T st"
    and "fold_res (attribute_step T strings res_ids scopes ext) st is = Inr st'"
  shows "attr_inv T st' \<and> length (as_attrs st') = length (as_attrs st) + length is"
  using assms(2,3)
proof (induction "is" arbitrary: st)
  case Nil
  then show ?case by simp
next
  case (Cons i "is")
  then obtain st1 where s: "attribute_step T strings res_ids scopes ext st i = Inr st1"
      "fold_res (attribute_step T strings res_ids scopes ext) st1 is = Inr st'"
    by (auto simp: result_simps)
  show ?case
    using attribute_step_inv [OF assms(1) Cons.prems(1) s(1)] Cons.IH [OF _ s(2)] by simp
qed

lemma parse_start_element_good:
  assumes "strings_clean strings"
    and "parse_start_element T lim strings res_ids chunk ext scopes = Inr ((name, as), ni, nn)"
  shows "node_good T lim name as"
proof -
  define st0 where "st0 = \<lparr>as_attrs = [], as_last_id = 0, as_seen_ids = [], as_seen_names = []\<rparr>"
  obtain i and count :: "16 word" and st where p: "(elem_at strings i :: (axml_code, bytes) go) = Inr name" "name \<noteq> []"
      "uint count \<le> ax_max_attributes lim"
      "fold_res (attribute_step T strings res_ids scopes ext) st0 [0..<unat count] = Inr st" "as = as_attrs st"
    using assms(2) unfolding parse_start_element_def st0_def
    by (auto simp: result_simps not_less split: if_splits)
  have "attr_inv T st0" by (simp add: attr_inv_def attrs_ordered_def st0_def)
  from attribute_steps_inv [OF assms(1) this p(4)] have "attr_inv T st" "length (as_attrs st) = unat count"
    by (simp_all add: st0_def)
  then show ?thesis
    using p elem_at_clean [OF assms(1) p(1)] by (auto simp: node_good_def attr_inv_def)
qed

section \<open>The invariant of the decoder\<close>

fun frame_elements :: "frame list \<Rightarrow> element list" where
  "frame_elements [] = []"
| "frame_elements (NsFrame p u # fs) = frame_elements fs"
| "frame_elements (ElFrame ns n e # fs) = e # frame_elements fs"

fun namespace_count :: "frame list \<Rightarrow> nat" where
  "namespace_count [] = 0"
| "namespace_count (NsFrame p u # fs) = Suc (namespace_count fs)"
| "namespace_count (ElFrame ns n e # fs) = namespace_count fs"

text \<open>An open element and what is nested in it so far stay within the depth limit.\<close>

fun within_depth :: "int \<Rightarrow> element list \<Rightarrow> bool" where
  "within_depth m [] \<longleftrightarrow> True"
| "within_depth m (e # es) \<longleftrightarrow> int (length es + height e) \<le> m \<and> within_depth m es"

lemma open_element_None: "open_element fs = None \<longleftrightarrow> frame_elements fs = []"
  by (induction fs rule: open_element.induct) auto

lemma namespace_count_attach [simp]: "namespace_count (attach_child c fs) = namespace_count fs"
  by (induction c fs rule: attach_child.induct) auto

lemma frame_elements_attach:
  "frame_elements (attach_child c fs) =
     (case frame_elements fs of [] \<Rightarrow> [] | e # es \<Rightarrow> add_child c e # es)"
  by (induction c fs rule: attach_child.induct) auto

definition doc_inv :: "framework \<Rightarrow> axml_limits \<Rightarrow> doc_scan \<Rightarrow> bool" where
  "doc_inv T lim st \<longleftrightarrow>
     length (ds_scopes st) = namespace_count (ds_stack st) \<and>
     ds_depth st = int (length (frame_elements (ds_stack st))) \<and>
     (ds_root_closed st \<longleftrightarrow> ds_root st \<noteq> None) \<and>
     (ds_root st \<noteq> None \<longrightarrow> frame_elements (ds_stack st) = []) \<and>
     strings_clean (ds_strings st) \<and>
     within_depth (ax_max_depth lim) (frame_elements (ds_stack st)) \<and>
     list_all (tree_good T lim) (frame_elements (ds_stack st)) \<and>
     ds_elements st \<le> max 0 (ax_max_elements lim) \<and>
     ds_elements st = (\<Sum>e\<leftarrow>frame_elements (ds_stack st). int (length (subelements e))) +
       (case ds_root st of None \<Rightarrow> 0 | Some r \<Rightarrow> int (length (subelements r))) \<and>
     (\<forall>r. ds_root st = Some r \<longrightarrow> tree_good T lim r \<and> int (height r) \<le> ax_max_depth lim)"

lemma doc_inv_start: "doc_inv T lim doc_start"
  by (simp add: doc_inv_def doc_start_def strings_clean_def)

lemma string_pool_node_inv:
  "doc_inv T lim st \<Longrightarrow> string_pool_node lim st chunk = Inr st' \<Longrightarrow> doc_inv T lim st'"
  using parse_string_pool_clean(1)
  by (fastforce simp: string_pool_node_def doc_inv_def strings_clean_def list_all_iff result_simps split: if_splits)

lemma resource_map_node_inv:
  "doc_inv T lim st \<Longrightarrow> resource_map_node st chunk hs sz = Inr st' \<Longrightarrow> doc_inv T lim st'"
  by (auto simp: resource_map_node_def doc_inv_def result_simps split: if_splits)

lemma namespace_node_inv:
  assumes "doc_inv T lim st" and "namespace_node st starts ext sz = Inr st'"
  shows "doc_inv T lim st'"
proof -
  consider p u where "start_namespace_node st p u = Inr st'" | p u where "end_namespace_node st p u = Inr st'"
    using assms(2) by (auto simp: namespace_node_def result_simps split: if_splits)
  then show ?thesis
    using assms(1)
    by cases (auto simp: start_namespace_node_def end_namespace_node_def doc_inv_def result_simps
        split: if_splits list.splits frame.splits)
qed

lemma start_element_node_inv:
  assumes "doc_inv T lim st" and "start_element_node T lim st chunk ext line = Inr st'"
  shows "doc_inv T lim st'"
proof -
  obtain name as ni nn where p: "\<not> ds_root_closed st" "ds_elements st + 1 \<le> ax_max_elements lim"
      "ds_depth st + 1 \<le> ax_max_depth lim"
      "parse_start_element T lim (ds_strings st) (ds_res_ids st) chunk ext (ds_scopes st) = Inr ((name, as), ni, nn)"
      "st' = st\<lparr>ds_elements := ds_elements st + 1, ds_depth := ds_depth st + 1, ds_has_root := True,
          ds_stack := ElFrame ni nn (Element name as [] line) # ds_stack st\<rparr>"
    using assms(2) unfolding start_element_node_def
    by (auto simp: result_simps not_less split: if_splits)
  have "node_good T lim name as"
    using parse_start_element_good [OF _ p(4)] assms(1) by (simp add: doc_inv_def)
  then show ?thesis using assms(1) p(1,2,3) unfolding p(5) doc_inv_def by auto
qed

lemma end_element_node_inv:
  assumes "doc_inv T lim st" and "end_element_node st ext sz = Inr st'"
  shows "doc_inv T lim st'"
proof -
  obtain ni nn el fs where s: "ds_stack st = ElFrame ni nn el # fs"
    and st': "st' = st\<lparr>ds_depth := ds_depth st - 1,
       ds_root_closed := ds_root_closed st \<or> ds_depth st - 1 = 0,
       ds_root := (if open_element fs = None then Some el else ds_root st),
       ds_stack := attach_child el fs\<rparr>"
    using assms(2) unfolding end_element_node_def
    by (cases "ds_stack st"; cases "hd (ds_stack st)") (auto simp: result_simps split: if_splits)
  show ?thesis
  proof (cases "frame_elements fs")
    case Nil
    then show ?thesis
      using assms(1) s unfolding st' doc_inv_def by (auto simp: open_element_None frame_elements_attach)
  next
    case (Cons e es)
    then have "open_element fs \<noteq> None" by (simp add: open_element_None)
    then show ?thesis
      using assms(1) s Cons unfolding st' doc_inv_def by (auto simp: frame_elements_attach)
  qed
qed

lemma node_chunk_inv:
  assumes "doc_inv T lim st" and "node_chunk T lim st chunk kind hs sz = Inr st'"
  shows "doc_inv T lim st'"
proof -
  have i: "doc_inv T lim (st\<lparr>ds_seen_node := True\<rparr>)" using assms(1) by (simp add: doc_inv_def)
  show ?thesis
    using assms(2) unfolding node_chunk_def Let_def
    by (auto simp: result_simps split: if_splits
        intro: namespace_node_inv [OF i] start_element_node_inv [OF i] end_element_node_inv [OF i])
qed

lemma decode_chunk_inv:
  assumes "doc_inv T lim st" and "decode_chunk T lim data st = Inr st'"
  shows "doc_inv T lim st'"
proof -
  obtain chunk kind hs sz st1 n where d: "dispatch_chunk T lim st chunk kind hs sz = Inr st1"
    and st': "st' = st1\<lparr>ds_off := n\<rparr>"
    using assms(2) unfolding decode_chunk_def by (auto simp: result_simps split: if_splits)
  from d have "doc_inv T lim st1"
    using assms(1) unfolding dispatch_chunk_def
    by (auto split: if_splits intro: string_pool_node_inv resource_map_node_inv node_chunk_inv)
  then show ?thesis by (simp add: st' doc_inv_def)
qed

lemma decode_loop_inv:
  assumes "doc_inv T lim st" and "decode_loop T lim data st = Inr st'"
  shows "doc_inv T lim st'"
  using assms
proof (induction T lim data st rule: decode_loop.induct)
  case (1 T lim data st)
  show ?case
  proof (cases "ds_off st < length data")
    case True
    then obtain st1 where st1: "decode_chunk T lim data st = Inr st1" "decode_loop T lim data st1 = Inr st'"
      using "1.prems"(2) by (cases "decode_chunk T lim data st") (auto simp: decode_loop.simps [of T lim data st])
    show ?thesis using "1.IH" [OF True st1(1) decode_chunk_inv [OF "1.prems"(1) st1(1)] st1(2)] .
  next
    case False
    then show ?thesis using "1.prems" by (simp add: decode_loop.simps)
  qed
qed

lemma axml_decode_Inr:
  assumes "axml_decode T data lim = Inr root"
  obtains st where "doc_inv T lim st" "ds_root st = Some root"
proof -
  obtain st where st: "decode_loop T lim data doc_start = Inr st" "doc_finish st = Inr root"
    using assms by (auto simp: axml_decode_def result_simps split: if_splits)
  have "doc_inv T lim st" using doc_inv_start st(1) by (rule decode_loop_inv)
  moreover have "ds_root st = Some root"
    using st(2) by (auto simp: doc_finish_def split: if_splits option.splits)
  ultimately show thesis by (rule that)
qed

section \<open>No panic\<close>

lemma safe_same_string [no_panic]: "safe (same_string strings a b)"
  unfolding same_string_def by (auto intro!: no_panic simp: valid_index_def)

lemma safe_attribute_namespace [no_panic]: "safe (attribute_namespace strings scopes ns)"
  unfolding attribute_namespace_def by (auto intro!: no_panic simp: valid_index_def)

lemma safe_attribute_value [no_panic]: "safe (attribute_value strings t d raw)"
  unfolding attribute_value_def by (auto intro!: no_panic simp: valid_index_def)

lemma safe_read_attribute [no_panic]: "20 \<le> length b \<Longrightarrow> safe (read_attribute T strings res_ids scopes b)"
  unfolding read_attribute_def Let_def
  by (auto intro!: no_panic simp: valid_index_def split: option.split)

lemma safe_note_attribute [no_panic]: "safe (note_attribute st a)"
  by (simp add: note_attribute_def Let_def)

lemma safe_attribute_step [no_panic]:
  "attr_ext_size + attribute_size * (i + 1) \<le> length ext \<Longrightarrow>
     safe (attribute_step T strings res_ids scopes ext st i)"
  unfolding attribute_step_def by (auto intro!: no_panic simp: node_sizes go_slice_Inr)

lemma safe_parse_start_element [no_panic]:
  assumes "length chunk = node_header_size + length ext"
  shows "safe (parse_start_element T lim strings res_ids chunk ext scopes)"
  unfolding parse_start_element_def
  using assms
  by (auto intro!: no_panic safe_fold_res [where P = "\<lambda>_. True"] simp: node_sizes valid_index_def)

lemma safe_namespace_node [no_panic]:
  assumes "doc_inv T lim st" and "unat sz = node_header_size + length ext"
  shows "safe (namespace_node st starts ext sz)"
proof -
  have "safe (end_namespace_node st p u)" for p u
    using assms(1) unfolding end_namespace_node_def
    by (auto simp: doc_inv_def split: list.splits frame.splits)
  then show ?thesis
    using assms(2) unfolding namespace_node_def start_namespace_node_def
    by (auto intro!: no_panic simp: node_sizes valid_index_def)
qed

lemma safe_end_element_node [no_panic]:
  "unat sz = node_header_size + length ext \<Longrightarrow> safe (end_element_node st ext sz)"
  unfolding end_element_node_def
  by (auto intro!: no_panic simp: node_sizes split: list.split frame.split)

lemma safe_start_element_node [no_panic]:
  "length chunk = node_header_size + length ext \<Longrightarrow> safe (start_element_node T lim st chunk ext line)"
  unfolding start_element_node_def
  by (auto intro!: no_panic)

lemma safe_node_chunk [no_panic]:
  assumes "doc_inv T lim st" and "unat sz = length chunk" and "unat hs \<le> unat sz"
  shows "safe (node_chunk T lim st chunk kind hs sz)"
proof -
  have i: "doc_inv T lim (st\<lparr>ds_seen_node := True\<rparr>)" using assms(1) by (simp add: doc_inv_def)
  show ?thesis
    using assms(2,3) unfolding node_chunk_def Let_def
    by (auto intro!: no_panic safe_namespace_node [OF i] simp: node_header_size_def go_slice_Inr)
qed

lemma safe_resource_map_node [no_panic]:
  assumes "unat sz = length chunk"
  shows "safe (resource_map_node st chunk hs sz)"
proof -
  have "8 + 4 * i + 4 \<le> length chunk" if "i < (unat sz - 8) div 4" for i
    using that assms by arith
  then show ?thesis
    unfolding resource_map_node_def
    by (auto intro!: no_panic safe_fold_res [where P = "\<lambda>_. True"])
qed

lemma safe_decode_chunk [no_panic]:
  assumes "doc_inv T lim st"
  shows "safe (decode_chunk T lim data st)"
proof (cases "length data - ds_off st < 8")
  case True
  then show ?thesis by (simp add: decode_chunk_def)
next
  case False
  define rest where "rest = drop (ds_off st) data"
  have rest: "go_slice data (ds_off st) (length data) = (Inr rest :: (axml_code, bytes) go)" "8 \<le> length rest"
    using False by (auto simp: go_slice_def rest_def)
  obtain kind hs sz where h: "chunk_header rest = Inr (kind, hs, sz)"
    using rest(2) by (cases rest) (auto simp: chunk_header_def rd_defs)
  have body: "safe (dispatch_chunk T lim st chunk kind hs sz)"
    if c: "unat sz \<le> length rest" "unat hs \<le> unat sz" "8 \<le> unat hs" "chunk = take (unat sz) rest" for chunk
  proof -
    have "length chunk = unat sz" using c by simp
    moreover have "chunk_header chunk = Inr (kind, hs, sz)"
      using h c by (auto simp: chunk_header_Inr u16le_def u32le_def take_drop min_absorb1)
    ultimately show ?thesis
      using assms c(2) by (auto intro!: no_panic simp: string_pool_node_def dispatch_chunk_def)
  qed
  define bad where "bad \<longleftrightarrow> hs < 8 \<or> sz < ucast hs \<or> length data - ds_off st < unat sz \<or>
    (sz OR ucast hs) mod 4 \<noteq> 0"
  show ?thesis
  proof (cases bad)
    case True
    then show ?thesis using False by (simp add: decode_chunk_def rest(1) h bad_def)
  next
    case ok: False
    then have b: "unat sz \<le> length rest" "unat hs \<le> unat sz" "8 \<le> unat hs"
      by (auto simp: bad_def rest_def word_less_nat_alt)
    have chunk: "go_slice data (ds_off st) (ds_off st + unat sz) = (Inr (take (unat sz) rest) :: (axml_code, bytes) go)"
      using b(1) False by (auto simp: go_slice_def rest_def)
    have "decode_chunk T lim data st = rbind (dispatch_chunk T lim st (take (unat sz) rest) kind hs sz)
        (\<lambda>st'. Inr (st'\<lparr>ds_off := ds_off st + unat sz\<rparr>))"
      using False ok by (simp add: decode_chunk_def rest(1) h chunk bad_def)
    then show ?thesis by (simp only:) (rule safe_rbind [OF body [OF b refl] safe_Inr])
  qed
qed

lemma safe_decode_loop:
  assumes "doc_inv T lim st"
  shows "safe (decode_loop T lim data st)"
  using assms
proof (induction T lim data st rule: decode_loop.induct)
  case (1 T lim data st)
  have s: "safe (decode_chunk T lim data st)" using "1.prems" by (rule safe_decode_chunk)
  show ?case
  proof (cases "decode_chunk T lim data st")
    case (Inl e)
    then show ?thesis using s by (subst decode_loop.simps) (auto simp: safe_def)
  next
    case (Inr st1)
    then show ?thesis
      using "1.IH" [OF _ Inr decode_chunk_inv [OF "1.prems" Inr]] by (subst decode_loop.simps) auto
  qed
qed

lemma safe_axml_decode: "safe (axml_decode T data lim)"
proof -
  have "safe (doc_finish st)" if "doc_inv T lim st" for st
    using that by (auto simp: doc_finish_def doc_inv_def split: option.split)
  then show ?thesis
    unfolding axml_decode_def
    by (auto intro!: no_panic safe_decode_loop doc_inv_start dest: decode_loop_inv [OF doc_inv_start])
qed

text \<open>
  Decoding never panics: whatever the bytes, no index and no slice leaves its operand, and the stack
  of namespaces is never popped when it is empty.
\<close>

theorem decoder_never_panics: "axml_decode T data lim \<noteq> Inl Panic"
  using safe_axml_decode by (simp add: safe_def)

section \<open>Names and resource ids\<close>

lemma attr_good_id_iff_name:
  assumes "framework_ok T" and "framework_attr_id T name = Some rid" and "attr_good T a"
  shows "at_resource_id a = rid \<longleftrightarrow> at_namespace a = android_ns \<and> at_name a = name"
proof -
  have n: "framework_attr_name T rid = Some name" using assms(1,2) by (simp add: framework_inverse)
  have p: "drop_bit 24 rid = 0x01" using assms(1,2) by (rule framework_package)
  then have nz: "rid \<noteq> 0" by auto
  show ?thesis
  proof
    assume "at_resource_id a = rid"
    then show "at_namespace a = android_ns \<and> at_name a = name"
      using assms(3) n p nz by (auto simp: attr_good_def check_attr_identity_def Let_def split: if_splits)
  next
    assume a: "at_namespace a = android_ns \<and> at_name a = name"
    then obtain want where "framework_attr_name T (at_resource_id a) = Some want" "at_name a = want"
      using assms(2,3) by (auto simp: attr_good_def check_attr_identity_def Let_def split: if_splits option.splits)
    then have "framework_attr_id T name = Some (at_resource_id a)"
      using a assms(1) by (simp add: framework_inverse)
    then show "at_resource_id a = rid" using assms(2) by simp
  qed
qed

lemma decoded_node_good:
  assumes "axml_decode T data lim = Inr root" and "e \<in> set (subelements root)"
  shows "node_good T lim (el_name e) (el_attrs e)"
proof -
  obtain st where "doc_inv T lim st" "ds_root st = Some root"
    using assms(1) by (rule axml_decode_Inr)
  then show ?thesis using assms(2) by (auto simp: doc_inv_def)
qed

lemma decoded_id_iff_name:
  assumes "framework_ok T" and "axml_decode T data lim = Inr root" and "e \<in> set (subelements root)"
    and "framework_attr_id T name = Some rid" and "a \<in> set (el_attrs e)"
  shows "at_resource_id a = rid \<longleftrightarrow> at_namespace a = android_ns \<and> at_name a = name"
  using attr_good_id_iff_name [OF assms(1,4)] decoded_node_good [OF assms(2,3)] assms(5)
  by (auto simp: node_good_def list_all_iff)

lemma id_lookup_is_name_lookup:
  assumes "framework_ok T" and "axml_decode T data lim = Inr root" and "e \<in> set (subelements root)"
    and "framework_attr_id T name = Some rid"
  shows "el_attr e rid = el_attr_by_name e android_ns name"
  unfolding el_attr_def el_attr_by_name_def
  by (rule find_cong) (use decoded_id_iff_name [OF assms] in auto)

text \<open>
  Property C30.
  Reading by resource id and reading by name give the same attribute, in every element of an
  accepted document: for every framework attribute, the attribute that Android finds by its id is
  the one that a reader of names finds in the android namespace. There is at most one of it.
\<close>

theorem ids_and_names_agree:
  assumes "framework_ok T" and "axml_decode T data lim = Inr root" and "e \<in> set (subelements root)"
    and "framework_attr_id T name = Some rid"
  shows "el_attr e rid = el_attr_by_name e android_ns name \<and>
    length (filter (\<lambda>a. at_resource_id a = rid) (el_attrs e)) \<le> 1"
proof -
  have "filter (\<lambda>a. at_resource_id a = rid) (el_attrs e) =
      filter (\<lambda>a. (at_namespace a, at_name a) = (android_ns, name)) (el_attrs e)"
    by (rule filter_cong) (use decoded_id_iff_name [OF assms] in auto)
  moreover have "distinct (map (\<lambda>a. (at_namespace a, at_name a)) (el_attrs e))"
    using decoded_node_good [OF assms(2,3)] by (simp add: node_good_def attrs_ordered_def)
  ultimately have "length (filter (\<lambda>a. at_resource_id a = rid) (el_attrs e)) \<le> 1"
    using filter_key_unique [of "\<lambda>a. (at_namespace a, at_name a)" "el_attrs e" "(android_ns, name)"] by simp
  then show ?thesis using id_lookup_is_name_lookup [OF assms] by simp
qed

text \<open>
  An accepted document stays within its limits: the number of elements, the nesting and the
  attributes of one element are bounded, every text in it is valid UTF-8 without control
  characters, and every name is non-empty.
\<close>

theorem decoded_document_bounded:
  assumes "axml_decode T data lim = Inr root"
  shows "int (length (subelements root)) \<le> ax_max_elements lim \<and> int (height root) \<le> ax_max_depth lim \<and>
    (\<forall>e\<in>set (subelements root). int (length (el_attrs e)) \<le> ax_max_attributes lim \<and>
       el_name e \<noteq> [] \<and> control_free_text (el_name e) \<and>
       (\<forall>a\<in>set (el_attrs e). at_name a \<noteq> [] \<and> control_free_text (at_name a) \<and> control_free_text (at_namespace a) \<and>
          control_free_text (val_string (at_value a))))"
proof -
  obtain st where st: "doc_inv T lim st" "ds_root st = Some root"
    using assms by (rule axml_decode_Inr)
  then have "int (length (subelements root)) \<le> max 0 (ax_max_elements lim)"
    by (auto simp: doc_inv_def)
  moreover have "0 < length (subelements root)" by (cases root) simp
  ultimately have "int (length (subelements root)) \<le> ax_max_elements lim" by linarith
  then show ?thesis using st by (auto simp: doc_inv_def node_good_def attr_good_def list_all_iff)
qed

end
