(* ===== verification/AxmlExample.thy ===== *)
theory AxmlExample
  imports AxmlProps
begin

text \<open>
  A small binary manifest, decoded step by step by the simplifier: the witnesses of the decoder's
  properties. \<open>rbind_weak\<close> keeps the simplifier from entering a continuation before its argument is
  a value.
\<close>

lemma rbind_weak: "m = m' \<Longrightarrow> rbind m f = rbind m' f"
  by simp

lemmas read_eval = rd_defs u16le_def u32le_def Let_def upt_rec

lemmas pool_eval =
  chunk_header_def default_axml_limits_def string_pool_node_def doc_start_def parse_string_pool_def
  string_pool_header_size_def utf8_flag_def sorted_flag_def pool_string_def decode_utf8_string_def
  decode_length8_def utf8_step_def runes_def allowed_pool_rune_def utf16_rune_len_def

lemmas node_eval =
  chunk_types dispatch_chunk_def resource_map_node_def node_chunk_def node_sizes valid_index_def
  no_index_def namespace_node_def start_namespace_node_def end_namespace_node_def
  start_element_node_def end_element_node_def parse_start_element_def same_string_def
  attribute_step_def read_attribute_def note_attribute_def attribute_namespace_def in_scope_def
  attribute_value_def value_types check_attr_identity_def android_ns_def framework_attr_id_def
  framework_attr_name_def decode_chunk_def valid_type_def

text \<open>\<open><manifest package="p"><uses-permission android:name="q"/></manifest>\<close>.\<close>

definition example_document :: bytes where
  "example_document =
    [CHR 0x03, CHR 0x00, CHR 0x08, CHR 0x00, CHR 0x80, CHR 0x01, CHR 0x00, CHR 0x00, CHR 0x01, CHR 0x00,
     CHR 0x1C, CHR 0x00, CHR 0x9C, CHR 0x00, CHR 0x00, CHR 0x00, CHR 0x07, CHR 0x00, CHR 0x00, CHR 0x00,
     CHR 0x00, CHR 0x00, CHR 0x00, CHR 0x00, CHR 0x00, CHR 0x01, CHR 0x00, CHR 0x00, CHR ''8'', CHR 0x00,
     CHR 0x00, CHR 0x00, CHR 0x00, CHR 0x00, CHR 0x00, CHR 0x00, CHR 0x00, CHR 0x00, CHR 0x00, CHR 0x00,
     CHR 0x07, CHR 0x00, CHR 0x00, CHR 0x00, CHR ''4'', CHR 0x00, CHR 0x00, CHR 0x00, CHR ''?'', CHR 0x00,
     CHR 0x00, CHR 0x00, CHR ''I'', CHR 0x00, CHR 0x00, CHR 0x00, CHR ''M'', CHR 0x00, CHR 0x00, CHR 0x00,
     CHR ''_'', CHR 0x00, CHR 0x00, CHR 0x00, CHR 0x04, CHR 0x04, CHR ''n'', CHR ''a'', CHR ''m'',
     CHR ''e'', CHR 0x00, CHR ''*'', CHR ''*'', CHR ''h'', CHR ''t'', CHR ''t'', CHR ''p'', CHR '':'',
     CHR ''/'', CHR ''/'', CHR ''s'', CHR ''c'', CHR ''h'', CHR ''e'', CHR ''m'', CHR ''a'', CHR ''s'',
     CHR ''.'', CHR ''a'', CHR ''n'', CHR ''d'', CHR ''r'', CHR ''o'', CHR ''i'', CHR ''d'', CHR ''.'',
     CHR ''c'', CHR ''o'', CHR ''m'', CHR ''/'', CHR ''a'', CHR ''p'', CHR ''k'', CHR ''/'', CHR ''r'',
     CHR ''e'', CHR ''s'', CHR ''/'', CHR ''a'', CHR ''n'', CHR ''d'', CHR ''r'', CHR ''o'', CHR ''i'',
     CHR ''d'', CHR 0x00, CHR 0x08, CHR 0x08, CHR ''m'', CHR ''a'', CHR ''n'', CHR ''i'', CHR ''f'',
     CHR ''e'', CHR ''s'', CHR ''t'', CHR 0x00, CHR 0x07, CHR 0x07, CHR ''p'', CHR ''a'', CHR ''c'',
     CHR ''k'', CHR ''a'', CHR ''g'', CHR ''e'', CHR 0x00, CHR 0x01, CHR 0x01, CHR ''p'', CHR 0x00,
     CHR 0x0F, CHR 0x0F, CHR ''u'', CHR ''s'', CHR ''e'', CHR ''s'', CHR ''-'', CHR ''p'', CHR ''e'',
     CHR ''r'', CHR ''m'', CHR ''i'', CHR ''s'', CHR ''s'', CHR ''i'', CHR ''o'', CHR ''n'', CHR 0x00,
     CHR 0x01, CHR 0x01, CHR ''q'', CHR 0x00, CHR 0x00, CHR 0x80, CHR 0x01, CHR 0x08, CHR 0x00, CHR 0x0C,
     CHR 0x00, CHR 0x00, CHR 0x00, CHR 0x03, CHR 0x00, CHR 0x01, CHR 0x01, CHR 0x00, CHR 0x01, CHR 0x10,
     CHR 0x00, CHR 0x18, CHR 0x00, CHR 0x00, CHR 0x00, CHR 0x01, CHR 0x00, CHR 0x00, CHR 0x00, CHR 0xFF,
     CHR 0xFF, CHR 0xFF, CHR 0xFF, CHR 0xFF, CHR 0xFF, CHR 0xFF, CHR 0xFF, CHR 0x01, CHR 0x00, CHR 0x00,
     CHR 0x00, CHR 0x02, CHR 0x01, CHR 0x10, CHR 0x00, CHR ''8'', CHR 0x00, CHR 0x00, CHR 0x00, CHR 0x02,
     CHR 0x00, CHR 0x00, CHR 0x00, CHR 0xFF, CHR 0xFF, CHR 0xFF, CHR 0xFF, CHR 0xFF, CHR 0xFF, CHR 0xFF,
     CHR 0xFF, CHR 0x02, CHR 0x00, CHR 0x00, CHR 0x00, CHR 0x14, CHR 0x00, CHR 0x14, CHR 0x00, CHR 0x01,
     CHR 0x00, CHR 0x00, CHR 0x00, CHR 0x00, CHR 0x00, CHR 0x00, CHR 0x00, CHR 0xFF, CHR 0xFF, CHR 0xFF,
     CHR 0xFF, CHR 0x03, CHR 0x00, CHR 0x00, CHR 0x00, CHR 0x04, CHR 0x00, CHR 0x00, CHR 0x00, CHR 0x08,
     CHR 0x00, CHR 0x00, CHR 0x03, CHR 0x04, CHR 0x00, CHR 0x00, CHR 0x00, CHR 0x02, CHR 0x01, CHR 0x10,
     CHR 0x00, CHR ''8'', CHR 0x00, CHR 0x00, CHR 0x00, CHR 0x03, CHR 0x00, CHR 0x00, CHR 0x00, CHR 0xFF,
     CHR 0xFF, CHR 0xFF, CHR 0xFF, CHR 0xFF, CHR 0xFF, CHR 0xFF, CHR 0xFF, CHR 0x05, CHR 0x00, CHR 0x00,
     CHR 0x00, CHR 0x14, CHR 0x00, CHR 0x14, CHR 0x00, CHR 0x01, CHR 0x00, CHR 0x00, CHR 0x00, CHR 0x00,
     CHR 0x00, CHR 0x00, CHR 0x00, CHR 0x01, CHR 0x00, CHR 0x00, CHR 0x00, CHR 0x00, CHR 0x00, CHR 0x00,
     CHR 0x00, CHR 0x06, CHR 0x00, CHR 0x00, CHR 0x00, CHR 0x08, CHR 0x00, CHR 0x00, CHR 0x03, CHR 0x06,
     CHR 0x00, CHR 0x00, CHR 0x00, CHR 0x03, CHR 0x01, CHR 0x10, CHR 0x00, CHR 0x18, CHR 0x00, CHR 0x00,
     CHR 0x00, CHR 0x04, CHR 0x00, CHR 0x00, CHR 0x00, CHR 0xFF, CHR 0xFF, CHR 0xFF, CHR 0xFF, CHR 0xFF,
     CHR 0xFF, CHR 0xFF, CHR 0xFF, CHR 0x05, CHR 0x00, CHR 0x00, CHR 0x00, CHR 0x03, CHR 0x01, CHR 0x10,
     CHR 0x00, CHR 0x18, CHR 0x00, CHR 0x00, CHR 0x00, CHR 0x05, CHR 0x00, CHR 0x00, CHR 0x00, CHR 0xFF,
     CHR 0xFF, CHR 0xFF, CHR 0xFF, CHR 0xFF, CHR 0xFF, CHR 0xFF, CHR 0xFF, CHR 0x02, CHR 0x00, CHR 0x00,
     CHR 0x00, CHR 0x01, CHR 0x01, CHR 0x10, CHR 0x00, CHR 0x18, CHR 0x00, CHR 0x00, CHR 0x00, CHR 0x06,
     CHR 0x00, CHR 0x00, CHR 0x00, CHR 0xFF, CHR 0xFF, CHR 0xFF, CHR 0xFF, CHR 0xFF, CHR 0xFF, CHR 0xFF,
     CHR 0xFF, CHR 0x01, CHR 0x00, CHR 0x00, CHR 0x00]"

definition example_framework :: framework where
  "example_framework = [(''name'', 0x01010003)]"

definition example_root :: element where
  "example_root = Element ''manifest''
     [\<lparr>at_namespace = [], at_name = ''package'', at_resource_id = 0,
        at_value = \<lparr>val_type = 3, val_data = 4, val_string = ''p''\<rparr>\<rparr>]
     [Element ''uses-permission''
       [\<lparr>at_namespace = android_ns, at_name = ''name'', at_resource_id = 0x01010003,
          at_value = \<lparr>val_type = 3, val_data = 6, val_string = ''q''\<rparr>\<rparr>] [] 3] 2"

lemma example_decodes:
  "axml_decode example_framework example_document default_axml_limits = Inr example_root"
  by (simp add: axml_decode_def decode_loop.simps doc_finish_def example_document_def example_framework_def
      example_root_def read_eval pool_eval node_eval cong: rbind_weak)

lemma example_framework_ok: "framework_ok example_framework"
  by (simp add: framework_ok_def example_framework_def)

theorem ids_and_names_agree_witness:
  "\<exists>e a. e \<in> set (subelements example_root) \<and> el_attr e 0x01010003 = Some a \<and>
     el_attr_by_name e android_ns ''name'' = Some a"
proof -
  define e where "e = hd (el_children example_root)"
  have e: "e \<in> set (subelements example_root)" "\<exists>a. el_attr e 0x01010003 = Some a"
    by (simp_all add: e_def example_root_def el_attr_def)
  have "framework_attr_id example_framework ''name'' = Some 0x01010003"
    by (simp add: example_framework_def framework_attr_id_def)
  from ids_and_names_agree [OF example_framework_ok example_decodes e(1) this] e show ?thesis
    by auto
qed

theorem decoded_document_bounded_witness:
  "int (length (subelements example_root)) \<le> 50000 \<and> int (height example_root) \<le> 64"
  using decoded_document_bounded [OF example_decodes] by (simp add: default_axml_limits_def)

end
