(* ===== verification/ApkZip.thy ===== *)
theory ApkZip
  imports ApkTypes ByteReader
begin

text \<open>
  The ZIP reader of the signing gate (\<open>signing/apk/zip.go\<close>): the end-of-central-directory record, the
  central directory, every local header, the layout of the entries in the file, and the reading of
  one entry. Whatever two ZIP readers could understand differently is refused.

  The file is a \<open>file_reader\<close>: its bytes and the reads that fail (\<open>io.ReaderAt\<close>). The gate works on a
  private copy, so the bytes do not change while it reads. \<open>compress/flate\<close> is a parameter:
  \<open>inflate f off n k\<close> is what reading at most \<open>k\<close> bytes from a decompressor over the \<open>n\<close> bytes at
  \<open>off\<close> yields, None for an error.
\<close>

section \<open>Constants\<close>

definition sig_eocd :: "32 word" where "sig_eocd = 0x06054b50"
definition sig_zip64_locator :: "32 word" where "sig_zip64_locator = 0x07064b50"
definition sig_central_directory :: "32 word" where "sig_central_directory = 0x02014b50"
definition sig_local_header :: "32 word" where "sig_local_header = 0x04034b50"
definition sig_data_descriptor :: "32 word" where "sig_data_descriptor = 0x08074b50"

definition eocd_size :: nat where "eocd_size = 22"
definition cd_record_size :: nat where "cd_record_size = 46"
definition local_header_size :: nat where "local_header_size = 30"
definition max_comment_size :: nat where "max_comment_size = 0xFFFF"

definition flag_encrypted :: "16 word" where "flag_encrypted = 0x0001"
definition flag_data_descriptor :: "16 word" where "flag_data_descriptor = 0x0008"
definition flag_strong_encrypted :: "16 word" where "flag_strong_encrypted = 0x0040"
definition flag_masked_headers :: "16 word" where "flag_masked_headers = 0x2000"
definition method_stored :: "16 word" where "method_stored = 0"
definition method_deflate :: "16 word" where "method_deflate = 8"
definition extra_zip64 :: "16 word" where "extra_zip64 = 0x0001"

definition signing_block_magic :: bytes where "signing_block_magic = ''APK Sig Block 42''"
definition signing_block_min_size :: int where "signing_block_min_size = 32"
definition signing_block_page_size :: int where "signing_block_page_size = 4096"
definition stored_alignment :: int where "stored_alignment = 4"
definition page_alignment :: int where "page_alignment = 16384"
definition max_misaligned_listed :: nat where "max_misaligned_listed = 32"

lemmas zip_sizes = eocd_size_def cd_record_size_def local_header_size_def max_comment_size_def
  signing_block_min_size_def signing_block_page_size_def

section \<open>The file\<close>

record file_reader =
  fr_data :: bytes
  fr_fails :: "int \<Rightarrow> int \<Rightarrow> bool"

text \<open>\<open>readAt\<close>: \<open>make\<close> panics on a negative length.\<close>

definition read_at :: "file_reader \<Rightarrow> int \<Rightarrow> int \<Rightarrow> (apk_code, bytes) go" where
  "read_at r off n =
     (if n < 0 then Inl Panic
      else if off < 0 \<or> int (length (fr_data r)) < off + n \<or> fr_fails r off n then Inl (Fail ApkReadFailed)
      else Inr (take (nat n) (drop (nat off) (fr_data r))))"

section \<open>Entry names and extra fields\<close>

definition name_rune_ok :: "nat \<Rightarrow> bool" where
  "name_rune_ok r \<longleftrightarrow> \<not> (r < 0x20 \<or> r = 0x7F \<or> 0x80 \<le> r \<and> r < 0xA0)"

definition valid_zip_name :: "bytes \<Rightarrow> int \<Rightarrow> apk_code option" where
  "valid_zip_name raw max_len =
     (if raw = [] then Some ZipNameInvalid
      else if max_len < int (length raw) then Some ZipNameInvalid
      else if \<not> utf8_valid raw then Some ZipNameInvalid
      else if \<not> list_all name_rune_ok (runes raw) then Some ZipNameInvalid
      else if CHR 0x5C \<in> set raw \<or> starts_with ''/'' raw then Some ZipNameInvalid
      else if \<not> list_all (\<lambda>seg. seg \<noteq> [] \<and> seg \<noteq> ''.'' \<and> seg \<noteq> ''..'') (split_on (CHR ''/'') raw)
      then Some ZipNameInvalid
      else None)"

fun check_extra :: "bytes \<Rightarrow> apk_code option" where
  "check_extra [] = None"
| "check_extra (c # cs) =
     (let extra = c # cs; n = unat (u16le (drop 2 extra)) in
      if length extra < 4 then Some ZipCdEntry
      else if length extra - 4 < n then Some ZipCdEntry
      else if u16le extra = extra_zip64 then Some Zip64Unsupported
      else check_extra (drop (3 + n) cs))"

declare check_extra.simps(2) [simp del]

section \<open>Local headers\<close>

definition descriptor_matches :: "zip_entry \<Rightarrow> bytes \<Rightarrow> (apk_code, bool) go" where
  "descriptor_matches e desc =
     rbind (rd32 desc 0) (\<lambda>crc.
     if crc \<noteq> ze_crc32 e then Inr False
     else rbind (rd32 desc 4) (\<lambda>comp.
     if int (unat comp) \<noteq> ze_compressed_size e then Inr False
     else rbind (rd32 desc 8) (\<lambda>uncomp.
       Inr (int (unat uncomp) = ze_uncompressed_size e))))"

text \<open>The data descriptor behind the data: with its signature (16 bytes) or without (12 bytes).\<close>

definition check_descriptor :: "file_reader \<Rightarrow> zip_entry \<Rightarrow> int \<Rightarrow> int \<Rightarrow> (apk_code, int) go" where
  "check_descriptor r e end_of cd_offset =
     (if cd_offset < end_of + 12 then Inl (Fail ZipOverlap)
      else
        rbind
          (if end_of + 16 \<le> cd_offset then
             rbind (read_at r end_of 16) (\<lambda>desc.
             rbind (rd32 desc 0) (\<lambda>sig.
             if sig \<noteq> sig_data_descriptor then Inr False
             else rbind (go_slice desc 4 (length desc)) (descriptor_matches e)))
           else Inr False) (\<lambda>long.
        if long then Inr (end_of + 16)
        else
          rbind (read_at r end_of 12) (\<lambda>desc.
          rbind (descriptor_matches e desc) (\<lambda>short.
          if \<not> short then Inl (Fail ZipLocalHeaderMismatch) else Inr (end_of + 12)))))"

definition check_local_header ::
    "file_reader \<Rightarrow> zip_entry \<Rightarrow> bytes \<Rightarrow> int \<Rightarrow> (apk_code, zip_entry \<times> int) go" where
  "check_local_header r e name_bytes cd_offset =
     (let lho = ze_local_header_offset e; lhs = int local_header_size in
      if cd_offset < lho + lhs then Inl (Fail ZipLocalHeaderMismatch)
      else
        rbind (read_at r lho lhs) (\<lambda>lh.
        rbind (rd32 lh 0) (\<lambda>sig.
        if sig \<noteq> sig_local_header then Inl (Fail ZipLocalHeaderMismatch)
        else
          rbind (rd16 lh 6) (\<lambda>flags.
          rbind (rd16 lh 8) (\<lambda>method.
          rbind (rd32 lh 14) (\<lambda>crc.
          rbind (rd32 lh 18) (\<lambda>comp_size.
          rbind (rd32 lh 22) (\<lambda>uncomp_size.
          rbind (rd16 lh 26) (\<lambda>nlen.
          rbind (rd16 lh 28) (\<lambda>xlen.
          let name_len = int (unat nlen); extra_len = int (unat xlen) in
          if flags \<noteq> ze_flags e \<or> method \<noteq> ze_method e then Inl (Fail ZipLocalHeaderMismatch)
          else if name_len \<noteq> int (length name_bytes) \<or> cd_offset < lho + lhs + name_len + extra_len
          then Inl (Fail ZipLocalHeaderMismatch)
          else
            rbind (read_at r (lho + lhs) name_len) (\<lambda>local_name.
            if local_name \<noteq> name_bytes then Inl (Fail ZipLocalHeaderMismatch)
            else
              let data_off = lho + lhs + name_len + extra_len;
                  e' = e\<lparr>ze_data_offset := data_off\<rparr>;
                  end_of = data_off + ze_compressed_size e
              in if cd_offset < end_of then Inl (Fail ZipOverlap)
                 else if flags AND flag_data_descriptor = 0 then
                   (if crc \<noteq> ze_crc32 e \<or> int (unat comp_size) \<noteq> ze_compressed_size e \<or>
                       int (unat uncomp_size) \<noteq> ze_uncompressed_size e
                    then Inl (Fail ZipLocalHeaderMismatch) else Inr (e', end_of))
                 else if crc \<noteq> 0 \<and> crc \<noteq> ze_crc32 e \<or>
                   comp_size \<noteq> 0 \<and> int (unat comp_size) \<noteq> ze_compressed_size e \<or>
                   uncomp_size \<noteq> 0 \<and> int (unat uncomp_size) \<noteq> ze_uncompressed_size e
                 then Inl (Fail ZipLocalHeaderMismatch)
                 else rbind (check_descriptor r e end_of cd_offset) (\<lambda>stop. Inr (e', stop)))))))))))))"

section \<open>The central directory\<close>

record zip_span =
  sp_name :: bytes
  sp_start :: int
  sp_end :: int

record zip_scan =
  zs_pos :: nat
  zs_entries :: "zip_entry list"
  zs_by_name :: "(bytes \<times> zip_entry) list"
  zs_spans :: "zip_span list"

text \<open>One record: its fields and the checks up to the compression method.\<close>

definition parse_cd_record :: "apk_limits \<Rightarrow> bytes \<Rightarrow> nat \<Rightarrow> (apk_code, zip_entry \<times> bytes \<times> nat) go" where
  "parse_cd_record lim cd pos =
     (if length cd - pos < cd_record_size then Inl (Fail ZipCdEntry)
      else
        rbind (go_slice cd pos (length cd)) (\<lambda>rec.
        rbind (rd32 rec 0) (\<lambda>sig.
        if sig \<noteq> sig_central_directory then Inl (Fail ZipCdEntry)
        else
          rbind (rd16 rec 8) (\<lambda>flags.
          rbind (rd16 rec 10) (\<lambda>method.
          rbind (rd32 rec 16) (\<lambda>crc.
          rbind (rd32 rec 20) (\<lambda>comp_size.
          rbind (rd32 rec 24) (\<lambda>uncomp_size.
          rbind (rd16 rec 28) (\<lambda>name_len.
          rbind (rd16 rec 30) (\<lambda>extra_len.
          rbind (rd16 rec 32) (\<lambda>comment_len.
          rbind (rd16 rec 34) (\<lambda>disk_start.
          rbind (rd32 rec 42) (\<lambda>local_offset.
          let nl = unat name_len; xl = unat extra_len;
              record_len = cd_record_size + nl + xl + unat comment_len in
          if length cd - pos < record_len then Inl (Fail ZipCdEntry)
          else
            rbind (go_slice rec cd_record_size (cd_record_size + nl)) (\<lambda>name_bytes.
            rbind (go_slice rec (cd_record_size + nl) (cd_record_size + nl + xl)) (\<lambda>extra.
            case valid_zip_name name_bytes (max_name_length lim) of Some c \<Rightarrow> Inl (Fail c)
            | None \<Rightarrow>
              if disk_start \<noteq> 0 then Inl (Fail ZipMultiDisk)
              else if comp_size = 0xFFFFFFFF \<or> uncomp_size = 0xFFFFFFFF \<or> local_offset = 0xFFFFFFFF
              then Inl (Fail Zip64Unsupported)
              else (case check_extra extra of Some c \<Rightarrow> Inl (Fail c)
              | None \<Rightarrow>
                if flags AND (flag_encrypted OR flag_strong_encrypted OR flag_masked_headers) \<noteq> 0
                then Inl (Fail ZipEncrypted)
                else if method = method_stored \<and> comp_size \<noteq> uncomp_size then Inl (Fail ZipMethodUnsupported)
                else if method \<noteq> method_stored \<and> method \<noteq> method_deflate then Inl (Fail ZipMethodUnsupported)
                else Inr (\<lparr>ze_name = name_bytes, ze_method = method, ze_flags = flags, ze_crc32 = crc,
                    ze_compressed_size = int (unat comp_size), ze_uncompressed_size = int (unat uncomp_size),
                    ze_local_header_offset = int (unat local_offset), ze_data_offset = 0\<rparr>,
                  name_bytes, record_len)))))))))))))))))"

definition cd_step ::
    "file_reader \<Rightarrow> apk_limits \<Rightarrow> bytes \<Rightarrow> int \<Rightarrow> zip_scan \<Rightarrow> nat \<Rightarrow> (apk_code, zip_scan) go" where
  "cd_step r lim cd cd_offset z i =
     rbind (parse_cd_record lim cd (zs_pos z)) (\<lambda>(e, name_bytes, record_len).
     if map_of (zs_by_name z) (ze_name e) \<noteq> None then Inl (Fail ZipDuplicateEntry)
     else rbind (check_local_header r e name_bytes cd_offset) (\<lambda>(e', stop).
       Inr \<lparr>zs_pos = zs_pos z + record_len, zs_entries = zs_entries z @ [e'],
         zs_by_name = (ze_name e', e') # zs_by_name z,
         zs_spans = zs_spans z @ [\<lparr>sp_name = ze_name e', sp_start = ze_local_header_offset e', sp_end = stop\<rparr>]\<rparr>))"

section \<open>The layout of the file\<close>

text \<open>
  The entries, sorted by their local header offset, must follow each other without a gap. Go's sort
  is not stable; two entries with one offset overlap in either order.
\<close>

fun check_spans :: "zip_span list \<Rightarrow> int \<Rightarrow> (apk_code, int) go" where
  "check_spans [] pos = Inr pos"
| "check_spans (s # ss) pos =
     (if sp_start s < pos then Inl (Fail ZipOverlap)
      else if pos < sp_start s then Inl (Fail ZipUnaccountedBytes)
      else check_spans ss (sp_end s))"

definition check_padding :: "file_reader \<Rightarrow> int \<Rightarrow> int \<Rightarrow> (apk_code, unit) go" where
  "check_padding r pos block_start =
     (let padding = block_start - pos in
      if 0 < padding then
        (if signing_block_page_size \<le> padding \<or> block_start mod signing_block_page_size \<noteq> 0
         then Inl (Fail ZipUnaccountedBytes)
         else rbind (read_at r pos padding) (\<lambda>zeros.
           if list_all (\<lambda>b. b = CHR 0x00) zeros then Inr () else Inl (Fail ZipUnaccountedBytes)))
      else Inr ())"

text \<open>\<open>checkLayout\<close>; the result says whether there is a signing block.\<close>

definition check_layout :: "file_reader \<Rightarrow> zip_span list \<Rightarrow> int \<Rightarrow> (apk_code, bool) go" where
  "check_layout r spans cd_offset =
     rbind (check_spans (sort_key sp_start spans) 0) (\<lambda>pos.
     let gap = cd_offset - pos in
     if gap = 0 then Inr False
     else if gap < signing_block_min_size then Inl (Fail ZipUnaccountedBytes)
     else
       rbind (read_at r (cd_offset - 24) 24) (\<lambda>foot.
       rbind (rd64 foot 0) (\<lambda>size_end.
       rbind (go_slice foot 8 (length foot)) (\<lambda>magic.
       if magic \<noteq> signing_block_magic \<or> gap - 8 < int (unat size_end) then Inl (Fail ZipUnaccountedBytes)
       else
         let block_start = cd_offset - int (unat size_end) - 8 in
         rbind (read_at r block_start 8) (\<lambda>head.
         rbind (rd64 head 0) (\<lambda>size_head.
         if size_head \<noteq> size_end then Inl (Fail ZipUnaccountedBytes)
         else rbind (check_padding r pos block_start) (\<lambda>_. Inr True)))))))"

section \<open>Opening the archive\<close>

record zip_file =
  zf_entries :: "zip_entry list"
  zf_by_name :: "(bytes \<times> zip_entry) list"
  zf_signing_block :: bool

text \<open>
  The backward search: the signature matches and the comment ends exactly at the end. The second
  argument is one more than the index tried next.
\<close>

fun find_eocd :: "bytes \<Rightarrow> nat \<Rightarrow> (apk_code, nat option) go" where
  "find_eocd tail 0 = Inr None"
| "find_eocd tail (Suc i) =
     rbind (rd32 tail i) (\<lambda>sig.
     if sig \<noteq> sig_eocd then find_eocd tail i
     else rbind (rd16 tail (i + 20)) (\<lambda>comment_len.
       if i + eocd_size + unat comment_len = length tail then Inr (Some i) else find_eocd tail i))"

record eocd =
  eo_offset :: int
  eo_entries :: nat
  eo_cd_size :: int
  eo_cd_offset :: int

text \<open>The first part of \<open>readZip\<close>: the end-of-central-directory record and its offset.\<close>

definition locate_eocd :: "file_reader \<Rightarrow> int \<Rightarrow> (apk_code, bytes \<times> int) go" where
  "locate_eocd r size_of =
     (if size_of < int eocd_size then Inl (Fail ZipNoEocd)
      else
        let tail_size = min (int (eocd_size + max_comment_size)) size_of in
        rbind (read_at r (size_of - tail_size) tail_size) (\<lambda>tail.
        rbind (find_eocd tail (length tail - eocd_size + 1)) (\<lambda>found.
        case found of None \<Rightarrow> Inl (Fail ZipNoEocd)
        | Some eocd_in_tail \<Rightarrow>
          rbind (go_slice tail eocd_in_tail (length tail)) (\<lambda>eocd.
            Inr (eocd, size_of - tail_size + int eocd_in_tail)))))"

text \<open>The second part: the fields of the record, up to the bounds of the central directory.\<close>

definition check_zip64_locator :: "file_reader \<Rightarrow> int \<Rightarrow> (apk_code, unit) go" where
  "check_zip64_locator r eocd_offset =
     (if 20 \<le> eocd_offset then
        rbind (read_at r (eocd_offset - 20) 4) (\<lambda>locator.
        rbind (rd32 locator 0) (\<lambda>sig.
        if sig = sig_zip64_locator then Inl (Fail Zip64Unsupported) else Inr ()))
      else Inr ())"

definition read_eocd_rest :: "file_reader \<Rightarrow> apk_limits \<Rightarrow> bytes \<Rightarrow> int \<Rightarrow> (apk_code, eocd) go" where
  "read_eocd_rest r lim eocd eocd_offset =
    rbind (rd16 eocd 4) (\<lambda>disk.
    rbind (rd16 eocd 6) (\<lambda>cd_disk.
    rbind (rd16 eocd 8) (\<lambda>entries_on_disk.
    rbind (rd16 eocd 10) (\<lambda>entries_total.
    rbind (rd32 eocd 12) (\<lambda>cd_size.
    rbind (rd32 eocd 16) (\<lambda>cd_offset.
    rbind (rd16 eocd 20) (\<lambda>comment_len.
    if comment_len \<noteq> 0 then Inl (Fail ZipComment)
    else if entries_on_disk = 0xFFFF \<or> entries_total = 0xFFFF \<or> cd_size = 0xFFFFFFFF \<or>
      cd_offset = 0xFFFFFFFF then Inl (Fail Zip64Unsupported)
    else
      rbind (check_zip64_locator r eocd_offset) (\<lambda>_.
      if disk \<noteq> 0 \<or> cd_disk \<noteq> 0 then Inl (Fail ZipMultiDisk)
      else if entries_on_disk \<noteq> entries_total then Inl (Fail ZipCdBounds)
      else if int (unat cd_offset) + int (unat cd_size) \<noteq> eocd_offset then Inl (Fail ZipCdBounds)
      else if max_entries lim < int (unat entries_total) then Inl (Fail ZipTooManyEntries)
      else if max_central_directory_size lim < int (unat cd_size) then Inl (Fail ZipCdBounds)
      else Inr \<lparr>eo_offset = eocd_offset, eo_entries = unat entries_total,
        eo_cd_size = int (unat cd_size), eo_cd_offset = int (unat cd_offset)\<rparr>))))))))"

definition read_eocd :: "file_reader \<Rightarrow> int \<Rightarrow> apk_limits \<Rightarrow> (apk_code, eocd) go" where
  "read_eocd r size_of lim =
     rbind (locate_eocd r size_of) (\<lambda>(eocd, eocd_offset). read_eocd_rest r lim eocd eocd_offset)"

text \<open>The third part: every record of the central directory, then the layout.\<close>

definition read_zip :: "file_reader \<Rightarrow> int \<Rightarrow> apk_limits \<Rightarrow> (apk_code, zip_file) go" where
  "read_zip r size_of lim =
     rbind (read_eocd r size_of lim) (\<lambda>eo.
     rbind (read_at r (eo_cd_offset eo) (eo_cd_size eo)) (\<lambda>cd.
     rbind (fold_res (cd_step r lim cd (eo_cd_offset eo))
       \<lparr>zs_pos = 0, zs_entries = [], zs_by_name = [], zs_spans = []\<rparr> [0..<eo_entries eo]) (\<lambda>z.
     if zs_pos z \<noteq> length cd then Inl (Fail ZipCdBounds)
     else rbind (check_layout r (zs_spans z) (eo_cd_offset eo)) (\<lambda>block.
       Inr \<lparr>zf_entries = zs_entries z, zf_by_name = zs_by_name z, zf_signing_block = block\<rparr>))))"

declare find_eocd.simps(2) [simp del]

section \<open>Reading an entry\<close>

text \<open>\<open>crc32.ChecksumIEEE\<close>.\<close>

definition crc32_bit :: "32 word \<Rightarrow> 32 word" where
  "crc32_bit c = (if c AND 1 \<noteq> 0 then drop_bit 1 c XOR 0xEDB88320 else drop_bit 1 c)"

definition crc32_byte :: "32 word \<Rightarrow> char \<Rightarrow> 32 word" where
  "crc32_byte c b = (crc32_bit ^^ 8) (c XOR of_char b)"

definition crc32_ieee :: "bytes \<Rightarrow> 32 word" where
  "crc32_ieee s = NOT (foldl crc32_byte (NOT 0) s)"

type_synonym inflater = "file_reader \<Rightarrow> int \<Rightarrow> int \<Rightarrow> int \<Rightarrow> bytes option"

text \<open>Copying at most \<open>k\<close> bytes of an \<open>io.SectionReader\<close>; it ends early where the file ends.\<close>

definition read_section :: "file_reader \<Rightarrow> int \<Rightarrow> int \<Rightarrow> int \<Rightarrow> bytes option" where
  "read_section r off n k =
     (if fr_fails r off (min n k) then None
      else Some (take (nat (min n k)) (drop (nat off) (fr_data r))))"

definition zip_read :: "inflater \<Rightarrow> file_reader \<Rightarrow> zip_entry \<Rightarrow> int \<Rightarrow> apk_code + bytes" where
  "zip_read inflate r e limit =
     (if limit < ze_uncompressed_size e then Inl ZipEntryTooLarge
      else case (if ze_method e = method_deflate
                 then inflate r (ze_data_offset e) (ze_compressed_size e) (ze_uncompressed_size e + 1)
                 else read_section r (ze_data_offset e) (ze_compressed_size e) (ze_uncompressed_size e + 1)) of
        None \<Rightarrow> Inl ZipEntryCorrupt
      | Some buf \<Rightarrow>
        if int (length buf) \<noteq> ze_uncompressed_size e then Inl ZipEntryCorrupt
        else if crc32_ieee buf \<noteq> ze_crc32 e then Inl ZipEntryCorrupt
        else Inr buf)"

section \<open>Signature files and alignment\<close>

text \<open>
  \<open>strings.ToUpper\<close> as far as comparing with ASCII text goes: besides the ASCII letters, the dotless i
  and the long s have an ASCII upper case.
\<close>

definition upper_segment :: "nat \<times> bytes \<Rightarrow> bytes" where
  "upper_segment s =
     (case s of (r, raw) \<Rightarrow>
       if 97 \<le> r \<and> r \<le> 122 then [char_of (r - 32)]
       else if r = 0x131 then ''I''
       else if r = 0x17F then ''S''
       else raw)"

definition to_upper :: "bytes \<Rightarrow> bytes" where
  "to_upper s = concat (map upper_segment (segments s))"

definition is_v1_signature :: "bytes \<Rightarrow> bool" where
  "is_v1_signature name \<longleftrightarrow>
     starts_with ''META-INF/'' name \<and>
     (let rest = drop 9 name; upper = to_upper rest in
      CHR ''/'' \<notin> set rest \<and>
      (ends_with ''.SF'' upper \<or> ends_with ''.RSA'' upper \<or> ends_with ''.DSA'' upper \<or>
       ends_with ''.EC'' upper \<or> starts_with ''SIG-'' upper))"

definition v1_signature_files :: "zip_entry list \<Rightarrow> bytes list" where
  "v1_signature_files entries = map ze_name (filter (\<lambda>e. is_v1_signature (ze_name e)) entries)"

definition entry_alignment :: "zip_entry \<Rightarrow> int" where
  "entry_alignment e = (if ends_with ''.so'' (ze_name e) then page_alignment else stored_alignment)"

definition misaligned_step :: "misaligned_entry list \<times> nat \<Rightarrow> zip_entry \<Rightarrow> misaligned_entry list \<times> nat" where
  "misaligned_step st e =
     (case st of (out, count) \<Rightarrow>
       if ze_method e \<noteq> method_stored then (out, count)
       else if ze_data_offset e mod entry_alignment e \<noteq> 0 then
         (if length out < max_misaligned_listed
          then out @ [\<lparr>mis_name = ze_name e, mis_data_offset = ze_data_offset e,
            mis_alignment = entry_alignment e\<rparr>] else out, count + 1)
       else (out, count))"

definition find_misaligned :: "zip_entry list \<Rightarrow> misaligned_entry list \<times> nat" where
  "find_misaligned entries = foldl misaligned_step ([], 0) entries"

end
