(* ===== verification/ApkParse.thy ===== *)
theory ApkParse
  imports ApkZip ApkManifest ApkConfig AxmlDecode Crypto
begin

text \<open>
  \<open>signing/apk/apk.go\<close>: from the bytes of a file to the facts about the package. \<open>Parse\<close> reads the
  archive, decodes the one \<open>AndroidManifest.xml\<close>, extracts the manifest, and reads the three
  optional assets.

  What the parser uses and does not define is gathered in \<open>apk_lib\<close>: the cryptography, the
  decompressor, and the framework attribute table of package \<open>axml\<close> (a package variable that
  \<open>init\<close> fills).
\<close>

record apk_lib =
  al_crypto :: crypto
  al_inflate :: inflater
  al_framework :: framework

section \<open>Errors of the callees\<close>

definition lift_err :: "'e + 'a \<Rightarrow> ('e, 'a) go" where
  "lift_err m = (case m of Inl e \<Rightarrow> Inl (Fail e) | Inr x \<Rightarrow> Inr x)"

text \<open>The codes of package \<open>axml\<close> are passed on as they are.\<close>

definition lift_axml :: "(axml_code, 'a) go \<Rightarrow> (apk_code, 'a) go" where
  "lift_axml m = (case m of Inl Panic \<Rightarrow> Inl Panic | Inl (Fail c) \<Rightarrow> Inl (Fail (AxmlError c)) | Inr x \<Rightarrow> Inr x)"

text \<open>A configuration reader that ran out of fuel would be one that never returns; it is a panic here.\<close>

definition lift_json :: "json_fail + 'a \<Rightarrow> (apk_code, 'a) go" where
  "lift_json m =
     (case m of Inl (JsonError c) \<Rightarrow> Inl (Fail c) | Inl JsonOutOfFuel \<Rightarrow> Inl Panic | Inr x \<Rightarrow> Inr x)"

section \<open>Parsing\<close>

definition axml_limits_of :: "apk_limits \<Rightarrow> axml_limits" where
  "axml_limits_of lim = default_axml_limits
     \<lparr>ax_max_size := min (ax_max_size default_axml_limits) (max_manifest_size lim)\<rparr>"

text \<open>Hashing the section of the first \<open>size\<close> bytes.\<close>

definition hash_section :: "crypto \<Rightarrow> file_reader \<Rightarrow> int \<Rightarrow> (apk_code, bytes) go" where
  "hash_section K r size_of =
     (if fr_fails r 0 size_of \<or> int (length (fr_data r)) < size_of then Inl (Fail ApkReadFailed)
      else Inr (sha256_hex K (take (nat size_of) (fr_data r))))"

definition read_manifest :: "apk_lib \<Rightarrow> file_reader \<Rightarrow> zip_file \<Rightarrow> apk_limits \<Rightarrow> (apk_code, element) go" where
  "read_manifest E r z lim =
     (case map_of (zf_by_name z) manifest_entry of None \<Rightarrow> Inl (Fail ManifestMissing)
      | Some e \<Rightarrow>
        rbind (lift_err (zip_read (al_inflate E) r e (max_manifest_size lim))) (\<lambda>raw.
          lift_axml (axml_decode (al_framework E) raw (axml_limits_of lim))))"

text \<open>An asset that need not be there.\<close>

definition read_asset ::
    "apk_lib \<Rightarrow> file_reader \<Rightarrow> zip_file \<Rightarrow> bytes \<Rightarrow> int \<Rightarrow> (bytes \<Rightarrow> (apk_code, 'a) go) \<Rightarrow> (apk_code, 'a option) go" where
  "read_asset E r z name limit f =
     (case map_of (zf_by_name z) name of None \<Rightarrow> Inr None
      | Some e \<Rightarrow>
        rbind (lift_err (zip_read (al_inflate E) r e limit)) (\<lambda>raw. rbind (f raw) (\<lambda>x. Inr (Some x))))"

definition expo_client :: "(bytes \<times> json_value) list \<Rightarrow> expo_config option" where
  "expo_client obj =
     (case map_of obj ''extra'' of
        Some (JObject extra) \<Rightarrow>
          (case map_of extra ''expoClient'' of
             Some (JObject client) \<Rightarrow> Some (expo_config_from client)
           | _ \<Rightarrow> None)
      | _ \<Rightarrow> None)"

definition apk_parse :: "apk_lib \<Rightarrow> file_reader \<Rightarrow> int \<Rightarrow> apk_limits \<Rightarrow> (apk_code, package) go" where
  "apk_parse E r size_of lim =
     (if size_of < 0 \<or> max_file_size lim < size_of then Inl (Fail ZipTooLarge)
      else
        rbind (hash_section (al_crypto E) r size_of) (\<lambda>digest.
        rbind (read_zip r size_of lim) (\<lambda>z.
        rbind (read_manifest E r z lim) (\<lambda>doc.
        rbind (lift_err (extract_manifest doc)) (\<lambda>man.
        rbind (read_asset E r z app_config_entry (max_json_asset_size lim)
                 (\<lambda>raw. lift_json (parse_strict_json_object raw))) (\<lambda>config.
        rbind (read_asset E r z app_manifest_entry (max_json_asset_size lim)
                 (\<lambda>raw. lift_json (parse_strict_json_object raw))) (\<lambda>app_man.
        rbind (read_asset E r z fingerprint_entry (max_fingerprint_size lim)
                 (\<lambda>raw. lift_err (fingerprint_value raw))) (\<lambda>fingerprint.
        let mis = find_misaligned (zf_entries z) in
        Inr \<lparr>pkg_size = size_of, pkg_sha256 = digest, pkg_entries = zf_entries z,
          pkg_signing_block = zf_signing_block z,
          pkg_v1_signature_files = v1_signature_files (zf_entries z),
          pkg_misaligned = fst mis, pkg_misaligned_count = snd mis,
          pkg_manifest = Some man,
          pkg_app_config = map_option expo_config_from config,
          pkg_has_app_manifest = (app_man \<noteq> None),
          pkg_app_manifest = (case app_man of None \<Rightarrow> None | Some obj \<Rightarrow> expo_client obj),
          pkg_native_fingerprint = fingerprint\<rparr>))))))))"

text \<open>
  \<open>ParseFile\<close>. Opening the file and asking for its size may fail, and what is opened may not be a
  regular file; otherwise there is a reader and a size.
\<close>

record opened_file =
  of_reader :: file_reader
  of_stat :: "int option"
  of_regular :: bool

definition apk_parse_file :: "apk_lib \<Rightarrow> opened_file option \<Rightarrow> apk_limits \<Rightarrow> (apk_code, package) go" where
  "apk_parse_file E file lim =
     (case file of None \<Rightarrow> Inl (Fail ApkReadFailed)
      | Some f \<Rightarrow>
        (case of_stat f of None \<Rightarrow> Inl (Fail ApkReadFailed)
         | Some size_of \<Rightarrow>
           if \<not> of_regular f then Inl (Fail ApkReadFailed)
           else apk_parse E (of_reader f) size_of lim))"

end
