(* ===== verification/ApkZipProps.thy ===== *)
theory ApkZipProps
  imports ApkZip
begin

text \<open>
  What an accepted archive guarantees: no panic on the way, names that are clean relative paths and
  occur once, local headers that say what the central directory says, and a file in which every
  byte belongs to exactly one part.
\<close>

section \<open>Reads\<close>

lemma read_at_Inr: "read_at r off n = Inr bs \<longleftrightarrow>
  0 \<le> n \<and> 0 \<le> off \<and> off + n \<le> int (length (fr_data r)) \<and> \<not> fr_fails r off n \<and>
  bs = take (nat n) (drop (nat off) (fr_data r))"
  by (auto simp: read_at_def)

lemma length_read_at: "read_at r off n = Inr bs \<Longrightarrow> length bs = nat n"
  by (auto simp: read_at_Inr nat_le_iff nat_diff_distrib' min_absorb2)

lemma safe_read_at [no_panic]: "0 \<le> n \<Longrightarrow> safe (read_at r off n)"
  by (simp add: read_at_def)

section \<open>No panic\<close>

lemma safe_descriptor_matches [no_panic]: "12 \<le> length b \<Longrightarrow> safe (descriptor_matches e b)"
  unfolding descriptor_matches_def by (auto intro!: no_panic)

lemma safe_check_descriptor [no_panic]: "safe (check_descriptor r e stop cd_offset)"
  unfolding check_descriptor_def
  by (auto intro!: no_panic dest: length_read_at simp: go_slice_Inr)

lemma safe_check_local_header [no_panic]: "safe (check_local_header r e name cd_offset)"
  unfolding check_local_header_def Let_def
  by (auto intro!: no_panic dest!: length_read_at simp: local_header_size_def)

lemma safe_parse_cd_record [no_panic]: "safe (parse_cd_record lim cd pos)"
  unfolding parse_cd_record_def Let_def
  by (auto intro!: no_panic simp: cd_record_size_def go_slice_Inr split: option.split)

lemma safe_cd_step [no_panic]: "safe (cd_step r lim cd cd_offset z i)"
  unfolding cd_step_def by (auto intro!: no_panic)

lemma safe_check_spans [no_panic]: "safe (check_spans ss pos)"
  by (induction ss pos rule: check_spans.induct) auto

lemma safe_check_layout [no_panic]: "safe (check_layout r spans cd_offset)"
  unfolding check_layout_def check_padding_def Let_def
  by (auto intro!: no_panic dest!: length_read_at)

lemma safe_find_eocd [no_panic]: "n + 21 \<le> length tail \<Longrightarrow> safe (find_eocd tail n)"
  by (induction n) (auto intro!: no_panic simp: find_eocd.simps)

lemma find_eocd_Some:
  "find_eocd tail n = Inr (Some i) \<Longrightarrow>
     i < n \<and> u32le (drop i tail) = sig_eocd \<and> i + eocd_size + unat (u16le (drop (i + 20) tail)) = length tail"
  by (induction n) (auto simp: find_eocd.simps result_simps rd_Inr split: if_splits)

lemma safe_locate_eocd [no_panic]: "safe (locate_eocd r n)"
  unfolding locate_eocd_def Let_def
  by (auto intro!: no_panic dest!: length_read_at find_eocd_Some simp: zip_sizes split: option.split)

text \<open>The record reaches up to the end of the file.\<close>

lemma locate_eocd_Inr:
  assumes "locate_eocd r n = Inr (eocd, off)"
  shows "22 \<le> length eocd \<and> off + int (length eocd) = n \<and> 0 \<le> off \<and>
    length eocd = 22 + unat (u16le (drop 20 eocd)) \<and> n \<le> int (length (fr_data r))"
proof -
  define m where "m = min 65557 n"
  obtain tail i where t: "22 \<le> n" "read_at r (n - m) m = Inr tail" "find_eocd tail (Suc (length tail - 22)) = Inr (Some i)"
      "i \<le> length tail" "eocd = drop i tail" "off = n - m + int i"
    using assms unfolding locate_eocd_def Let_def m_def
    by (auto simp: result_simps zip_sizes go_slice_Inr Suc_diff_le split: if_splits option.splits)
  have m: "22 \<le> m" "m \<le> n" using t(1) by (auto simp: m_def)
  have len: "length tail = nat m" using t(2) by (rule length_read_at)
  have bound: "n \<le> int (length (fr_data r))" using t(2) by (auto simp: read_at_Inr)
  note f = find_eocd_Some [OF t(3)]
  have "length eocd = nat m - i" using t(5) len by simp
  moreover have "drop 20 eocd = drop (i + 20) tail" using t(5) by (simp add: add.commute)
  ultimately show ?thesis
    using f m t(4,6) len bound by (auto simp: eocd_size_def)
qed

lemma safe_check_zip64_locator [no_panic]: "safe (check_zip64_locator r off)"
  unfolding check_zip64_locator_def by (auto intro!: no_panic dest!: length_read_at)

lemma safe_read_eocd [no_panic]: "safe (read_eocd r n lim)"
proof -
  have "safe ((\<lambda>(eocd, eocd_offset). read_eocd_rest r lim eocd eocd_offset) x)"
    if "locate_eocd r n = Inr x" for x
  proof -
    obtain eocd off where x: "x = (eocd, off)" by (cases x)
    then have "22 \<le> length eocd" using locate_eocd_Inr that by blast
    then show ?thesis
      unfolding x prod.case read_eocd_rest_def by (intro no_panic) simp_all
  qed
  then show ?thesis unfolding read_eocd_def by (intro safe_rbind safe_locate_eocd)
qed

lemma read_eocd_Inr:
  assumes "read_eocd r n lim = Inr eo"
  shows "0 \<le> eo_cd_offset eo \<and> 0 \<le> eo_cd_size eo \<and> eo_cd_offset eo + eo_cd_size eo = eo_offset eo \<and>
    eo_offset eo + 22 = n \<and> n \<le> int (length (fr_data r)) \<and>
    eo_cd_size eo \<le> max_central_directory_size lim \<and> int (eo_entries eo) \<le> max_entries lim"
proof -
  obtain eocd off where l: "locate_eocd r n = Inr (eocd, off)" "read_eocd_rest r lim eocd off = Inr eo"
    using assms by (auto simp: read_eocd_def result_simps)
  obtain cd_size cd_offset :: "32 word" and entries :: "16 word" where
    e: "rd16 eocd 20 = (Inr 0 :: (apk_code, 16 word) go)" "int (unat cd_offset) + int (unat cd_size) = off"
      "int (unat entries) \<le> max_entries lim" "int (unat cd_size) \<le> max_central_directory_size lim"
      "eo = \<lparr>eo_offset = off, eo_entries = unat entries,
        eo_cd_size = int (unat cd_size), eo_cd_offset = int (unat cd_offset)\<rparr>"
    using l(2) unfolding read_eocd_rest_def
    by (elim rbind_InrE) (simp add: rbind_eq_Inr not_less split: if_split_asm)
  have zero: "u16le (drop 20 eocd) = 0" using e(1) by (simp add: rd_Inr)
  have "length eocd = 22 + unat (u16le (drop 20 eocd))" using locate_eocd_Inr [OF l(1)] by blast
  then have len: "length eocd = 22" by (simp only: zero unsigned_0 add_0_right)
  note b = locate_eocd_Inr [OF l(1), unfolded len]
  show ?thesis unfolding e(5) eocd.simps using b e(2-4) by (intro conjI) linarith+
qed

lemma safe_read_zip [no_panic]: "safe (read_zip r n lim)"
  unfolding read_zip_def
  by (auto intro!: no_panic safe_fold_res [where P = "\<lambda>_. True"] dest: read_eocd_Inr)

lemma list_all2_member: "list_all2 P xs ys \<Longrightarrow> x \<in> set xs \<Longrightarrow> \<exists>y\<in>set ys. P x y"
  by (induction rule: list_all2_induct) auto

section \<open>Local headers\<close>

text \<open>
  What a reader of the local header at the entry's offset finds: the same name, flags and method as
  in the central directory, and sizes and checksum that do not contradict it.
\<close>

definition local_header_agrees :: "bytes \<Rightarrow> zip_entry \<Rightarrow> bool" where
  "local_header_agrees data e \<longleftrightarrow>
     (let h = drop (nat (ze_local_header_offset e)) data in
      u32le h = sig_local_header \<and> u16le (drop 6 h) = ze_flags e \<and> u16le (drop 8 h) = ze_method e \<and>
      take (unat (u16le (drop 26 h))) (drop 30 h) = ze_name e \<and>
      ze_data_offset e =
        ze_local_header_offset e + 30 + int (length (ze_name e)) + int (unat (u16le (drop 28 h))) \<and>
      (u32le (drop 14 h) = ze_crc32 e \<or> ze_flags e AND flag_data_descriptor \<noteq> 0 \<and> u32le (drop 14 h) = 0) \<and>
      (int (unat (u32le (drop 18 h))) = ze_compressed_size e \<or>
         ze_flags e AND flag_data_descriptor \<noteq> 0 \<and> u32le (drop 18 h) = 0) \<and>
      (int (unat (u32le (drop 22 h))) = ze_uncompressed_size e \<or>
         ze_flags e AND flag_data_descriptor \<noteq> 0 \<and> u32le (drop 22 h) = 0))"

text \<open>Where the entry ends: behind its data, or behind a data descriptor that agrees with it.\<close>

definition descriptor_at :: "bytes \<Rightarrow> int \<Rightarrow> zip_entry \<Rightarrow> bool" where
  "descriptor_at data off e \<longleftrightarrow>
     (let d = drop (nat off) data in
      u32le d = ze_crc32 e \<and> int (unat (u32le (drop 4 d))) = ze_compressed_size e \<and>
      int (unat (u32le (drop 8 d))) = ze_uncompressed_size e)"

definition entry_stop :: "bytes \<Rightarrow> zip_entry \<Rightarrow> int \<Rightarrow> bool" where
  "entry_stop data e stop \<longleftrightarrow>
     (let data_end = ze_data_offset e + ze_compressed_size e in
      if ze_flags e AND flag_data_descriptor = 0 then stop = data_end
      else stop = data_end + 12 \<and> descriptor_at data data_end e \<or>
        stop = data_end + 16 \<and> u32le (drop (nat data_end) data) = sig_data_descriptor \<and>
        descriptor_at data (data_end + 4) e)"

lemma read_at_words:
  assumes "read_at r off n = Inr b"
  shows "i + 2 \<le> nat n \<Longrightarrow> u16le (drop i b) = u16le (drop (i + nat off) (fr_data r))"
    and "i + 4 \<le> nat n \<Longrightarrow> u32le (drop i b) = u32le (drop (i + nat off) (fr_data r))"
  using assms by (auto simp: read_at_Inr u16le_def u32le_def drop_take min_absorb1)

lemma descriptor_matches_True:
  "descriptor_matches e b = Inr True \<longleftrightarrow> 12 \<le> length b \<and> u32le b = ze_crc32 e \<and>
     int (unat (u32le (drop 4 b))) = ze_compressed_size e \<and> int (unat (u32le (drop 8 b))) = ze_uncompressed_size e"
  by (auto simp: descriptor_matches_def rd_defs)

lemma descriptor_data_offset:
  "descriptor_matches (e\<lparr>ze_data_offset := d\<rparr>) = descriptor_matches e"
  "check_descriptor r (e\<lparr>ze_data_offset := d\<rparr>) = check_descriptor r e"
proof -
  show m: "descriptor_matches (e\<lparr>ze_data_offset := d\<rparr>) = descriptor_matches e"
    by (simp add: descriptor_matches_def fun_eq_iff cong: if_cong)
  show "check_descriptor r (e\<lparr>ze_data_offset := d\<rparr>) = check_descriptor r e"
    by (simp add: check_descriptor_def fun_eq_iff m cong: if_cong)
qed

lemma check_descriptor_Inr:
  assumes "check_descriptor r e stop0 cd_offset = Inr stop"
    and "stop0 = ze_data_offset e + ze_compressed_size e" and "ze_flags e AND flag_data_descriptor \<noteq> 0"
  shows "stop \<le> cd_offset \<and> entry_stop (fr_data r) e stop"
proof -
  define long where "long \<longleftrightarrow> stop = stop0 + 16"
  consider
      (long) desc where "stop = stop0 + 16" "stop0 + 16 \<le> cd_offset" "read_at r stop0 16 = Inr desc"
        "u32le desc = sig_data_descriptor" "descriptor_matches e (drop 4 desc) = Inr True"
    | (short) desc where "stop = stop0 + 12" "stop0 + 12 \<le> cd_offset" "read_at r stop0 12 = Inr desc"
        "descriptor_matches e desc = Inr True"
    using assms(1) unfolding check_descriptor_def
    by (auto simp: result_simps rd_Inr go_slice_Inr split: if_splits) 
  then show ?thesis
  proof cases
    case long
    note w = read_at_words [OF long(3)]
    have "0 \<le> stop0" using long(3) by (simp add: read_at_Inr)
    then have n: "nat (stop0 + 4) = 4 + nat stop0" by simp
    have "u32le (drop (nat stop0) (fr_data r)) = sig_data_descriptor"
      using long(4) w(2) [of 0] by simp
    moreover have "descriptor_at (fr_data r) (stop0 + 4) e"
      using long(5) w(2) [of 4] w(2) [of 8] w(2) [of 12] n
      by (simp add: descriptor_matches_True descriptor_at_def Let_def)
    ultimately show ?thesis using long(1,2) assms(2,3) by (simp add: entry_stop_def)
  next
    case short
    note w = read_at_words(2) [OF short(3)]
    have "descriptor_at (fr_data r) stop0 e"
      using short(4) w [of 0] w [of 4] w [of 8]
      by (simp add: descriptor_matches_True descriptor_at_def Let_def)
    then show ?thesis using short(1,2) assms(2,3) by (simp add: entry_stop_def)
  qed
qed

lemma check_local_header_Inr:
  assumes "check_local_header r e name cd_offset = Inr (e', stop)" and "name = ze_name e"
    and "0 \<le> ze_compressed_size e"
  shows "local_header_agrees (fr_data r) e' \<and> entry_stop (fr_data r) e' stop \<and> stop \<le> cd_offset \<and>
    e' = e\<lparr>ze_data_offset := ze_data_offset e'\<rparr>"
proof -
  define lho where "lho = ze_local_header_offset e"
  define data_off where "data_off lh = lho + 30 + int (length (ze_name e)) + int (unat (u16le (drop 28 lh)))" for lh
  obtain lh where h:
      "read_at r lho 30 = Inr lh" "u32le lh = sig_local_header" "u16le (drop 6 lh) = ze_flags e"
      "u16le (drop 8 lh) = ze_method e" "int (unat (u16le (drop 26 lh))) = int (length (ze_name e))"
      "read_at r (lho + 30) (int (length (ze_name e))) = Inr (ze_name e)"
      "e' = e\<lparr>ze_data_offset := data_off lh\<rparr>"
      "u32le (drop 14 lh) = ze_crc32 e \<or> ze_flags e AND flag_data_descriptor \<noteq> 0 \<and> u32le (drop 14 lh) = 0"
      "int (unat (u32le (drop 18 lh))) = ze_compressed_size e \<or>
         ze_flags e AND flag_data_descriptor \<noteq> 0 \<and> u32le (drop 18 lh) = 0"
      "int (unat (u32le (drop 22 lh))) = ze_uncompressed_size e \<or>
         ze_flags e AND flag_data_descriptor \<noteq> 0 \<and> u32le (drop 22 lh) = 0"
      "if ze_flags e AND flag_data_descriptor = 0
       then stop = data_off lh + ze_compressed_size e \<and> stop \<le> cd_offset
       else check_descriptor r e (data_off lh + ze_compressed_size e) cd_offset = Inr stop"
    using assms(1,2) unfolding check_local_header_def Let_def lho_def data_off_def
    by (auto simp: result_simps rd_Inr local_header_size_def split: if_splits)
  note w = read_at_words [OF h(1)]
  have "0 \<le> lho" using h(1) by (simp add: read_at_Inr)
  then have n: "nat (lho + 30) = nat lho + 30" by simp
  have name: "take (length (ze_name e)) (drop (30 + nat lho) (fr_data r)) = ze_name e"
    using h(6) n by (simp add: read_at_Inr add.commute)
  have len: "unat (u16le (drop (26 + nat lho) (fr_data r))) = length (ze_name e)"
    using h(5) w(1) [of 26] by (simp only: of_nat_eq_iff)
  have agrees: "local_header_agrees (fr_data r) e'"
    using h(2-5,8-10) w(2) [of 0] w(1) [of 6] w(1) [of 8] w(1) [of 28] w(2) [of 14] w(2) [of 18] w(2) [of 22] name len
    unfolding h(7) local_header_agrees_def Let_def
    by (simp add: data_off_def lho_def [symmetric])
  show ?thesis
  proof (cases "ze_flags e AND flag_data_descriptor = 0")
    case True
    then show ?thesis using agrees h(7,11) by (simp add: entry_stop_def)
  next
    case False
    then have "check_descriptor r e' (ze_data_offset e' + ze_compressed_size e') cd_offset = Inr stop"
      using h(7,11) by (simp add: descriptor_data_offset)
    from check_descriptor_Inr [OF this refl] False agrees show ?thesis by (simp add: h(7))
  qed
qed

section \<open>The entries of the archive\<close>

text \<open>A name that no unpacker can resolve outside of its directory.\<close>

definition clean_path :: "bytes \<Rightarrow> bool" where
  "clean_path name \<longleftrightarrow> name \<noteq> [] \<and> utf8_valid name \<and> list_all name_rune_ok (runes name) \<and> CHR 0x5C \<notin> set name \<and>
     (\<forall>seg\<in>set (split_on (CHR ''/'') name). seg \<noteq> [] \<and> seg \<noteq> ''.'' \<and> seg \<noteq> ''..'')"

lemma valid_zip_name_None: "valid_zip_name raw n = None \<Longrightarrow> clean_path raw \<and> int (length raw) \<le> n"
  by (auto simp: valid_zip_name_def clean_path_def list_all_iff split: if_splits)

lemma parse_cd_record_Inr:
  assumes "parse_cd_record lim cd pos = Inr (e, name, len)"
  shows "name = ze_name e \<and> clean_path name \<and> 0 \<le> ze_compressed_size e \<and> 0 \<le> ze_local_header_offset e \<and>
    (ze_method e = method_stored \<and> ze_compressed_size e = ze_uncompressed_size e \<or> ze_method e = method_deflate) \<and>
    ze_flags e AND (flag_encrypted OR flag_strong_encrypted OR flag_masked_headers) = 0"
  using assms unfolding parse_cd_record_def Let_def
  by (auto simp: result_simps dest: valid_zip_name_None split: if_splits option.splits)

definition entry_ok :: "bytes \<Rightarrow> int \<Rightarrow> zip_entry \<Rightarrow> zip_span \<Rightarrow> bool" where
  "entry_ok data cd_offset e s \<longleftrightarrow>
     sp_start s = ze_local_header_offset e \<and> 0 \<le> sp_start s \<and> 0 \<le> ze_compressed_size e \<and> sp_end s \<le> cd_offset \<and>
     local_header_agrees data e \<and> entry_stop data e (sp_end s) \<and> clean_path (ze_name e) \<and>
     (ze_method e = method_stored \<and> ze_compressed_size e = ze_uncompressed_size e \<or> ze_method e = method_deflate) \<and>
     ze_flags e AND (flag_encrypted OR flag_strong_encrypted OR flag_masked_headers) = 0"

definition zip_inv :: "bytes \<Rightarrow> int \<Rightarrow> zip_scan \<Rightarrow> bool" where
  "zip_inv data cd_offset z \<longleftrightarrow>
     list_all2 (entry_ok data cd_offset) (zs_entries z) (zs_spans z) \<and>
     distinct (map ze_name (zs_entries z)) \<and>
     zs_by_name z = rev (map (\<lambda>e. (ze_name e, e)) (zs_entries z))"

lemma cd_step_inv:
  assumes "zip_inv (fr_data r) cd_offset z" and "cd_step r lim cd cd_offset z i = Inr z'"
  shows "zip_inv (fr_data r) cd_offset z'"
proof -
  obtain e name len e' stop where s: "parse_cd_record lim cd (zs_pos z) = Inr (e, name, len)"
      "map_of (zs_by_name z) (ze_name e) = None" "check_local_header r e name cd_offset = Inr (e', stop)"
      "zs_entries z' = zs_entries z @ [e']" "zs_by_name z' = (ze_name e', e') # zs_by_name z"
      "zs_spans z' = zs_spans z @ [\<lparr>sp_name = ze_name e', sp_start = ze_local_header_offset e', sp_end = stop\<rparr>]"
    using assms(2) unfolding cd_step_def
    by (auto simp: result_simps split: if_splits)
  note p = parse_cd_record_Inr [OF s(1)]
  have l: "local_header_agrees (fr_data r) e'" "entry_stop (fr_data r) e' stop" "stop \<le> cd_offset"
      "e' = e\<lparr>ze_data_offset := ze_data_offset e'\<rparr>"
    using check_local_header_Inr [OF s(3)] p by blast+
  have same: "ze_name e' = ze_name e" "ze_method e' = ze_method e" "ze_flags e' = ze_flags e"
      "ze_compressed_size e' = ze_compressed_size e" "ze_uncompressed_size e' = ze_uncompressed_size e"
      "ze_local_header_offset e' = ze_local_header_offset e"
    by (subst l(4), simp)+
  have "entry_ok (fr_data r) cd_offset e'
      \<lparr>sp_name = ze_name e', sp_start = ze_local_header_offset e', sp_end = stop\<rparr>"
    using p l(1-3) by (auto simp: entry_ok_def same)
  moreover have "ze_name e' \<notin> set (map ze_name (zs_entries z))"
    using s(2) assms(1) same by (auto simp: zip_inv_def map_of_eq_None_iff image_image)
  ultimately show ?thesis
    using assms(1) s(4-6) by (auto simp: zip_inv_def intro!: list_all2_appendI)
qed

section \<open>The layout of the file\<close>

text \<open>Consecutive intervals that cover everything from one offset to another.\<close>

fun tiles :: "int \<Rightarrow> (int \<times> int) list \<Rightarrow> int \<Rightarrow> bool" where
  "tiles a [] b \<longleftrightarrow> a = b"
| "tiles a ((s, t) # rest) b \<longleftrightarrow> s = a \<and> a < t \<and> tiles t rest b"

definition zero_bytes :: "bytes \<Rightarrow> int \<Rightarrow> int \<Rightarrow> bool" where
  "zero_bytes data a b \<longleftrightarrow> list_all (\<lambda>c. c = CHR 0x00) (take (nat (b - a)) (drop (nat a) data))"

text \<open>
  What may stand between the last entry and the central directory: nothing, or zero bytes up to a
  page boundary and a block that ends with its magic and carries its size at both ends.
\<close>

definition signing_block_at :: "bytes \<Rightarrow> int \<Rightarrow> int \<Rightarrow> bool" where
  "signing_block_at data pos cd_offset \<longleftrightarrow>
     (\<exists>start. pos \<le> start \<and> start + 8 \<le> cd_offset \<and>
        (pos < start \<longrightarrow> start - pos < 4096 \<and> start mod 4096 = 0) \<and> zero_bytes data pos start \<and>
        int (unat (u64le (drop (nat start) data))) = cd_offset - start - 8 \<and>
        u64le (drop (nat (cd_offset - 24)) data) = u64le (drop (nat start) data) \<and>
        take 16 (drop (nat (cd_offset - 16)) data) = signing_block_magic)"

lemma check_spans_tiles:
  "check_spans ss pos = Inr q \<Longrightarrow> \<forall>s\<in>set ss. sp_start s < sp_end s \<Longrightarrow>
     tiles pos (map (\<lambda>s. (sp_start s, sp_end s)) ss) q"
  by (induction ss pos rule: check_spans.induct) (auto split: if_splits)

lemma tiles_mono: "tiles a ts b \<Longrightarrow> a \<le> b \<and> (\<forall>(s, t)\<in>set ts. a \<le> s \<and> t \<le> b)"
proof (induction a ts b rule: tiles.induct)
  case (2 a s t rest b)
  then show ?case by fastforce
qed simp

text \<open>In a tiling every byte belongs to exactly one interval.\<close>

lemma tiles_unique:
  assumes "tiles a ts b" and "a \<le> i" and "i < b"
  shows "length (filter (\<lambda>(s, t). s \<le> i \<and> i < t) ts) = 1"
  using assms
proof (induction a ts b rule: tiles.induct)
  case (2 a s t rest b)
  show ?case
  proof (cases "i < t")
    case True
    have "\<not> (s' \<le> i \<and> i < t')" if "(s', t') \<in> set rest" for s' t'
      using tiles_mono [of t rest b] "2.prems"(1) that True by fastforce
    then have "filter (\<lambda>(s, t). s \<le> i \<and> i < t) rest = []" by (auto simp: filter_empty_conv)
    then show ?thesis using "2.prems" True by simp
  next
    case False
    then show ?thesis using 2 by simp
  qed
qed simp

lemma check_layout_Inr:
  assumes "check_layout r spans cd_offset = Inr block" and "\<forall>s\<in>set spans. sp_start s < sp_end s"
  obtains pos where "tiles 0 (map (\<lambda>s. (sp_start s, sp_end s)) (sort_key sp_start spans)) pos"
    "if block then signing_block_at (fr_data r) pos cd_offset else pos = cd_offset"
proof -
  obtain pos where pos: "check_spans (sort_key sp_start spans) 0 = Inr pos"
    and rest: "block = (pos \<noteq> cd_offset)"
      "pos \<noteq> cd_offset \<Longrightarrow> \<exists>foot size_end head. read_at r (cd_offset - 24) 24 = Inr foot \<and> size_end = u64le foot \<and>
         drop 8 foot = signing_block_magic \<and> int (unat size_end) \<le> cd_offset - pos - 8 \<and>
         read_at r (cd_offset - int (unat size_end) - 8) 8 = Inr head \<and> u64le head = size_end \<and>
         check_padding r pos (cd_offset - int (unat size_end) - 8) = Inr ()"
    using assms(1) unfolding check_layout_def Let_def
    by (auto simp: result_simps rd_Inr go_slice_Inr not_less split: if_splits)
  have t: "tiles 0 (map (\<lambda>s. (sp_start s, sp_end s)) (sort_key sp_start spans)) pos"
    using pos assms(2) by (intro check_spans_tiles) simp_all
  have "signing_block_at (fr_data r) pos cd_offset" if "block"
  proof -
    obtain foot head size_end where b: "read_at r (cd_offset - 24) 24 = Inr foot" "size_end = u64le foot"
        "drop 8 foot = signing_block_magic" "int (unat size_end) \<le> cd_offset - pos - 8"
        "read_at r (cd_offset - int (unat size_end) - 8) 8 = Inr head" "u64le head = size_end"
        "check_padding r pos (cd_offset - int (unat size_end) - 8) = Inr ()"
      using rest \<open>block\<close> by blast
    define start where "start = cd_offset - int (unat size_end) - 8"
    have pad: "(pos < start \<longrightarrow> start - pos < 4096 \<and> start mod 4096 = 0) \<and> zero_bytes (fr_data r) pos start"
      using b(4,7) unfolding start_def [symmetric]
      by (auto simp: check_padding_def Let_def result_simps read_at_Inr zero_bytes_def zip_sizes split: if_splits)
    have n: "nat (cd_offset - 16) = 8 + nat (cd_offset - 24)"
      using b(1) by (auto simp: read_at_Inr)
    have "u64le (drop (nat start) (fr_data r)) = size_end"
      using b(5,6) by (auto simp: start_def read_at_Inr u64le_def)
    moreover have "u64le (drop (nat (cd_offset - 24)) (fr_data r)) = size_end"
      using b(1,2) by (auto simp: read_at_Inr u64le_def)
    moreover have "take 16 (drop (nat (cd_offset - 16)) (fr_data r)) = signing_block_magic"
      using b(1,3) by (auto simp: read_at_Inr drop_take n)
    ultimately show ?thesis
      using pad b(4) unfolding signing_block_at_def by (intro exI [of _ start]) (auto simp: start_def)
  qed
  then show thesis using t rest(1) by (intro that) auto
qed

section \<open>Properties\<close>

lemma read_zip_Inr:
  assumes "read_zip r n lim = Inr z"
  obtains eo zs where "zip_inv (fr_data r) (eo_cd_offset eo) zs" "zf_entries z = zs_entries zs"
    "zf_by_name z = zs_by_name zs" "check_layout r (zs_spans zs) (eo_cd_offset eo) = Inr (zf_signing_block z)"
    "read_eocd r n lim = Inr eo"
proof -
  obtain eo cd zs where z: "read_eocd r n lim = Inr eo"
      "fold_res (cd_step r lim cd (eo_cd_offset eo))
        \<lparr>zs_pos = 0, zs_entries = [], zs_by_name = [], zs_spans = []\<rparr> [0..<eo_entries eo] = Inr zs"
      "zf_entries z = zs_entries zs" "zf_by_name z = zs_by_name zs"
      "check_layout r (zs_spans zs) (eo_cd_offset eo) = Inr (zf_signing_block z)"
    using assms unfolding read_zip_def by (auto simp: result_simps split: if_splits)
  have "zip_inv (fr_data r) (eo_cd_offset eo) \<lparr>zs_pos = 0, zs_entries = [], zs_by_name = [], zs_spans = []\<rparr>"
    by (simp add: zip_inv_def)
  from fold_res_inv [where P = "zip_inv (fr_data r) (eo_cd_offset eo)", OF cd_step_inv this z(2)]
  show thesis using z(1,3-5) by (intro that)
qed

lemma entry_ok_span:
  assumes "entry_ok data cd_offset e s"
  shows "sp_start s < sp_end s \<and> ze_data_offset e + ze_compressed_size e \<le> sp_end s \<and>
    ze_local_header_offset e + 30 \<le> ze_data_offset e"
proof -
  have "ze_local_header_offset e + 30 \<le> ze_data_offset e"
    using assms unfolding entry_ok_def local_header_agrees_def Let_def by linarith
  moreover have "ze_data_offset e + ze_compressed_size e \<le> sp_end s"
    using assms unfolding entry_ok_def entry_stop_def Let_def by (auto split: if_splits)
  moreover have "sp_start s = ze_local_header_offset e" "0 \<le> ze_compressed_size e"
    using assms by (simp_all add: entry_ok_def)
  ultimately show ?thesis by linarith
qed

text \<open>
  Property C28.
  Every byte of an accepted archive is accounted for: the entries, in the order of their local
  headers, follow each other without gap and overlap from the first byte; then comes the central
  directory, or one signing block (after at most a page of zero padding) and the central directory;
  the end record is the last 22 bytes of the file. The data of an entry lies inside its interval.
\<close>

theorem archive_is_covered_exactly:
  assumes "read_zip r n lim = Inr z"
  shows "\<exists>spans pos cd_offset cd_size. tiles 0 spans pos \<and>
    map fst spans = sort (map ze_local_header_offset (zf_entries z)) \<and>
    (\<forall>e\<in>set (zf_entries z). \<exists>stop. (ze_local_header_offset e, stop) \<in> set spans \<and>
       ze_local_header_offset e + 30 \<le> ze_data_offset e \<and> 0 \<le> ze_compressed_size e \<and>
       ze_data_offset e + ze_compressed_size e \<le> stop \<and> entry_stop (fr_data r) e stop) \<and>
    (if zf_signing_block z then signing_block_at (fr_data r) pos cd_offset else pos = cd_offset) \<and>
    0 \<le> cd_size \<and> cd_offset + cd_size + 22 = n \<and> n \<le> int (length (fr_data r))"
proof -
  obtain eo zs where z: "zip_inv (fr_data r) (eo_cd_offset eo) zs" "zf_entries z = zs_entries zs"
    "check_layout r (zs_spans zs) (eo_cd_offset eo) = Inr (zf_signing_block z)" "read_eocd r n lim = Inr eo"
    using assms by (rule read_zip_Inr)
  have l2: "list_all2 (entry_ok (fr_data r) (eo_cd_offset eo)) (zs_entries zs) (zs_spans zs)"
    using z(1) by (simp add: zip_inv_def)
  have pos: "\<forall>s\<in>set (zs_spans zs). sp_start s < sp_end s"
    using l2 entry_ok_span by (fastforce simp: list_all2_conv_all_nth in_set_conv_nth)
  define spans where "spans = map (\<lambda>s. (sp_start s, sp_end s)) (sort_key sp_start (zs_spans zs))"
  obtain q where q: "tiles 0 spans q"
      "if zf_signing_block z then signing_block_at (fr_data r) q (eo_cd_offset eo) else q = eo_cd_offset eo"
    using check_layout_Inr [OF z(3) pos] unfolding spans_def by blast
  have starts: "map ze_local_header_offset (zs_entries zs) = map sp_start (zs_spans zs)"
    using l2 by (auto simp: list_all2_conv_all_nth entry_ok_def intro: nth_equalityI)
  have "map fst spans = map sp_start (sort_key sp_start (zs_spans zs))"
    by (simp add: spans_def comp_def)
  also have "\<dots> = sort (map sp_start (zs_spans zs))"
    by (rule map_sort_key)
  finally have starts: "map fst spans = sort (map ze_local_header_offset (zf_entries z))"
    by (simp add: starts z(2))
  have data: "\<forall>e\<in>set (zf_entries z). \<exists>stop. (ze_local_header_offset e, stop) \<in> set spans \<and>
       ze_local_header_offset e + 30 \<le> ze_data_offset e \<and> 0 \<le> ze_compressed_size e \<and>
       ze_data_offset e + ze_compressed_size e \<le> stop \<and> entry_stop (fr_data r) e stop"
  proof
    fix e assume "e \<in> set (zf_entries z)"
    then obtain s where s: "s \<in> set (zs_spans zs)" "entry_ok (fr_data r) (eo_cd_offset eo) e s"
      using list_all2_member [OF l2] z(2) by auto
    have "sp_start s = ze_local_header_offset e" "0 \<le> ze_compressed_size e" "entry_stop (fr_data r) e (sp_end s)"
      using s(2) by (simp_all add: entry_ok_def)
    moreover have "(sp_start s, sp_end s) \<in> set spans"
      using s(1) by (simp add: spans_def)
    ultimately show "\<exists>stop. (ze_local_header_offset e, stop) \<in> set spans \<and>
       ze_local_header_offset e + 30 \<le> ze_data_offset e \<and> 0 \<le> ze_compressed_size e \<and>
       ze_data_offset e + ze_compressed_size e \<le> stop \<and> entry_stop (fr_data r) e stop"
      using entry_ok_span [OF s(2)] by auto
  qed
  note eo = read_eocd_Inr [OF z(4)]
  have bounds: "0 \<le> eo_cd_size eo" "eo_cd_offset eo + eo_cd_size eo + 22 = n" "n \<le> int (length (fr_data r))"
    using eo by (blast, linarith, blast)
  show ?thesis
    by (intro exI conjI) (rule q(1) starts data q(2) bounds)+
qed

text \<open>
  The central directory and the local headers tell the same story: for every entry of an accepted
  archive, a reader that looks at the local header finds the same name, flags, method and data
  offset, and no contradicting size or checksum. Names are clean relative paths, none occurs twice,
  and looking a name up finds its entry.
\<close>

theorem local_headers_agree:
  assumes "read_zip r n lim = Inr z"
  shows "distinct (map ze_name (zf_entries z)) \<and>
    (\<forall>name. map_of (zf_by_name z) name = find (\<lambda>e. ze_name e = name) (zf_entries z)) \<and>
    (\<forall>e\<in>set (zf_entries z). local_header_agrees (fr_data r) e \<and> clean_path (ze_name e) \<and>
       (ze_method e = method_stored \<and> ze_compressed_size e = ze_uncompressed_size e \<or>
        ze_method e = method_deflate))"
proof -
  obtain eo :: eocd and zs :: zip_scan where z: "zip_inv (fr_data r) (eo_cd_offset eo) zs" "zf_entries z = zs_entries zs"
    "zf_by_name z = zs_by_name zs"
    using assms by (rule read_zip_Inr)
  have "local_header_agrees (fr_data r) e \<and> clean_path (ze_name e) \<and>
       (ze_method e = method_stored \<and> ze_compressed_size e = ze_uncompressed_size e \<or>
        ze_method e = method_deflate)" if e: "e \<in> set (zf_entries z)" for e
  proof -
    obtain s where "entry_ok (fr_data r) (eo_cd_offset eo) e s"
      using z(1,2) e list_all2_member [of _ "zs_entries zs" "zs_spans zs" e] by (auto simp: zip_inv_def)
    then show ?thesis unfolding entry_ok_def by blast
  qed
  moreover have "distinct (map ze_name (zf_entries z))" using z by (simp add: zip_inv_def)
  moreover have "map_of (zf_by_name z) name = find (\<lambda>e. ze_name e = name) (zf_entries z)" for name
    using z by (simp add: zip_inv_def map_of_rev_keys)
  ultimately show ?thesis by blast
qed

end
