(* ===== verification/GateProps.thy ===== *)
theory GateProps
  imports ApkParse ApkZipProps AxmlProps ManifestProps ConfigProps PolicyProps
begin

text \<open>
  The policy on top of the real parser. The policy only sees the parser's result; the contract
  between the two is the locale \<open>package_parser\<close>, and the gate's parser is its interpretation. What
  a verdict says is then a statement about the XML document inside the file.
\<close>

section \<open>The parser never panics\<close>

lemma safe_lift [no_panic]:
  "safe (lift_err m)"
  "m' \<noteq> Inl Panic \<Longrightarrow> safe (lift_axml m')"
  "m'' \<noteq> Inl JsonOutOfFuel \<Longrightarrow> safe (lift_json m'')"
  by (auto simp: lift_err_def lift_axml_def lift_json_def split: sum.split go_fail.split json_fail.split)

lemma safe_read_asset [no_panic]: "(\<And>raw. safe (f raw)) \<Longrightarrow> safe (read_asset E r z name limit f)"
  unfolding read_asset_def by (auto intro!: no_panic split: option.split)

lemma safe_read_manifest [no_panic]: "safe (read_manifest E r z lim)"
proof -
  have "axml_decode T data l \<noteq> Inl Panic" for T data l
    using safe_axml_decode by (simp add: safe_def)
  then show ?thesis unfolding read_manifest_def by (auto intro!: no_panic split: option.split)
qed

lemma safe_apk_parse [no_panic]: "safe (apk_parse E r n lim)"
  unfolding apk_parse_def Let_def hash_section_def
  by (auto intro!: no_panic config_fuel_suffices)

text \<open>
  Property C31.
  Parsing an untrusted package never panics and always answers: whatever the file, the reads that
  fail, the decompressor and the limits, no slice or index leaves its operand, no nil is
  dereferenced, and the configuration reader does not run out of fuel.
\<close>

theorem package_parser_never_panics: "apk_parse_file E file lim \<noteq> Inl Panic"
proof -
  have "safe (apk_parse_file E file lim)"
    unfolding apk_parse_file_def by (auto intro!: no_panic split: option.split)
  then show ?thesis by (simp add: safe_def)
qed

section \<open>The contract between policy and parser\<close>

locale package_parser =
  fixes parse :: "'file \<Rightarrow> apk_limits \<Rightarrow> parse_result"
    and document :: "'file \<Rightarrow> apk_limits \<Rightarrow> element \<Rightarrow> bool"
  assumes document_unique: "document f lim root \<Longrightarrow> document f lim root' \<Longrightarrow> root = root'"
    and parsed_document: "parse f lim = (Some pkg, err) \<Longrightarrow>
      \<exists>root m. document f lim root \<and> pkg_manifest pkg = Some m \<and> extract_manifest root = Inr m"
begin

text \<open>The manifest the policy judged is the one of the document in the file.\<close>

lemma passing_document:
  assumes "evaluate_file L pl inp data lim (parse f) = Verdict v" and "vd_ok v"
  obtains root m fa where "document f lim root" "extract_manifest root = Inr m" "vd_facts v = Some fa"
    "set (map up_name (man_uses_permissions m)) \<subseteq>
      set (allowed_permissions pl (cn_package_name (in_confirmed inp))
             (distribution_channel (cn_trust_roots (in_confirmed inp))))"
    "man_package m = cn_package_name (in_confirmed inp)"
    "man_version_code m = Some (fa_version_code fa)"
proof -
  obtain bytes_of s fa where e: "vd_facts v = Some fa"
      "check_parsed L pl inp s (int (length (bytes_of :: bytes))) (parse f lim) = Inr fa"
    using assms by (rule evaluate_file_pass)
  obtain pkg m f1 f2 f3 f4 where c: "parse f lim = (Some pkg, None)" "pkg_manifest pkg = Some m"
      "check_identity inp pkg f1 = Inr f2" "check_permissions pl inp pkg f3 = Inr f4"
      "man_version_code m = Some (fa_version_code fa)"
    using e(2) by (rule check_parsed_facts)
  obtain root where "document f lim root" "extract_manifest root = Inr m"
    using parsed_document [OF c(1)] c(2) by auto
  moreover have "man_package m = cn_package_name (in_confirmed inp)"
    using check_identity_Inr [OF c(3,2)] by blast
  ultimately show thesis
    using that e(1) c(5) check_permissions_Inr [OF c(4,2)] by (simp add: allowed_permissions_def)
qed

text \<open>Every permission the document asks for, anywhere in it, is on the allow list.\<close>

lemma passing_permissions:
  assumes "evaluate_file L pl inp data lim (parse f) = Verdict v" and "vd_ok v"
    and "document f lim root" and "x \<in> set (subelements root)" and "el_name x \<in> set uses_permission_elements"
  shows "\<exists>s. string_attr x attr_name_id = Inr (Some s) \<and>
    s \<in> set (allowed_permissions pl (cn_package_name (in_confirmed inp))
               (distribution_channel (cn_trust_roots (in_confirmed inp))))"
proof -
  obtain root' m where d: "document f lim root'" "extract_manifest root' = Inr m"
      "set (map up_name (man_uses_permissions m)) \<subseteq>
        set (allowed_permissions pl (cn_package_name (in_confirmed inp))
               (distribution_channel (cn_trust_roots (in_confirmed inp))))"
    using assms(1,2) by (rule passing_document)
  then have "extract_manifest root = Inr m" using document_unique [OF assms(3) d(1)] by simp
  from uses_permission_scanned [OF this assms(4,5)] d(3) show ?thesis by auto
qed

end

section \<open>The gate's parser\<close>

text \<open>The result pair of \<open>ParseFile\<close>. A panic would end the process; there is none.\<close>

definition parse_result_of :: "(apk_code, package) go \<Rightarrow> parse_result" where
  "parse_result_of m =
     (case m of
        Inr pkg \<Rightarrow> (Some pkg, None)
      | Inl (Fail c) \<Rightarrow> (None, Some (ApkError c))
      | Inl Panic \<Rightarrow> (None, Some OtherError))"

definition apk_parser :: "apk_lib \<Rightarrow> opened_file \<Rightarrow> apk_limits \<Rightarrow> parse_result" where
  "apk_parser E f lim = parse_result_of (apk_parse_file E (Some f) lim)"

text \<open>
  The document in a file: the decoded content of the one entry of the archive that is called
  \<open>AndroidManifest.xml\<close>.
\<close>

definition manifest_document :: "apk_lib \<Rightarrow> opened_file \<Rightarrow> apk_limits \<Rightarrow> element \<Rightarrow> bool" where
  "manifest_document E f lim root \<longleftrightarrow>
     (\<exists>n z e raw. of_stat f = Some n \<and> read_zip (of_reader f) n lim = Inr z \<and>
        filter (\<lambda>e. ze_name e = manifest_entry) (zf_entries z) = [e] \<and>
        zip_read (al_inflate E) (of_reader f) e (max_manifest_size lim) = Inr raw \<and>
        axml_decode (al_framework E) raw (axml_limits_of lim) = Inr root)"

lemma lift_Inr:
  "lift_err m = Inr x \<longleftrightarrow> m = Inr x"
  "lift_axml m' = Inr y \<longleftrightarrow> m' = Inr y"
  by (auto simp: lift_err_def lift_axml_def split: sum.split go_fail.split)

text \<open>A name that the map finds is the name of exactly one entry.\<close>

lemma entry_by_name:
  assumes "read_zip r n lim = Inr z" and "map_of (zf_by_name z) name = Some e"
  shows "filter (\<lambda>x. ze_name x = name) (zf_entries z) = [e]"
proof -
  obtain eo :: eocd and zs :: zip_scan where z: "zip_inv (fr_data r) (eo_cd_offset eo) zs"
      "zf_entries z = zs_entries zs" "zf_by_name z = zs_by_name zs"
    using assms(1) by (rule read_zip_Inr)
  have "distinct (map ze_name (zf_entries z))"
      "find (\<lambda>x. ze_name x = name) (zf_entries z) = Some e"
    using z assms(2) by (simp_all add: zip_inv_def map_of_rev_keys)
  then show ?thesis by (rule filter_find_unique)
qed

interpretation apk: package_parser "apk_parser E" "manifest_document E" for E
proof
  show "root = root'" if "manifest_document E f lim root" "manifest_document E f lim root'" for f lim root root'
    using that by (auto simp: manifest_document_def)
next
  fix f lim pkg err
  assume "apk_parser E f lim = (Some pkg, err)"
  then have p: "apk_parse_file E (Some f) lim = Inr pkg"
    by (auto simp: apk_parser_def parse_result_of_def split: sum.splits go_fail.splits)
  then obtain n where n: "of_stat f = Some n" "apk_parse E (of_reader f) n lim = Inr pkg"
    by (auto simp: apk_parse_file_def split: option.splits if_splits)
  then obtain z root m where z: "read_zip (of_reader f) n lim = Inr z"
      "read_manifest E (of_reader f) z lim = Inr root" "extract_manifest root = Inr m" "pkg_manifest pkg = Some m"
    by (auto simp: apk_parse_def Let_def result_simps lift_Inr split: if_splits)
  then obtain e raw where "map_of (zf_by_name z) manifest_entry = Some e"
      "zip_read (al_inflate E) (of_reader f) e (max_manifest_size lim) = Inr raw"
      "axml_decode (al_framework E) raw (axml_limits_of lim) = Inr root"
    by (auto simp: read_manifest_def result_simps lift_Inr split: option.splits)
  then have "manifest_document E f lim root"
    using n(1) z(1) entry_by_name [OF z(1)] by (auto simp: manifest_document_def)
  then show "\<exists>root m. manifest_document E f lim root \<and> pkg_manifest pkg = Some m \<and> extract_manifest root = Inr m"
    using z(3,4) by blast
qed

section \<open>What the policy reads is what the file declares\<close>

text \<open>The android:name string of an element, read by name.\<close>

definition named_value :: "element \<Rightarrow> bytes \<Rightarrow> bytes option" where
  "named_value e name =
     (case el_attr_by_name e android_ns name of None \<Rightarrow> None | Some a \<Rightarrow> value_str (at_value a))"

lemma document_decoded:
  "manifest_document E f lim root \<Longrightarrow> \<exists>raw. axml_decode (al_framework E) raw (axml_limits_of lim) = Inr root"
  by (auto simp: manifest_document_def)

lemma string_attr_named:
  assumes "framework_ok (al_framework E)" and "framework_attr_id (al_framework E) name = Some rid"
    and "manifest_document E f lim root" and "x \<in> set (subelements root)"
  shows "string_attr x rid = Inr (Some s) \<longleftrightarrow> named_value x name = Some s"
proof -
  obtain raw where "axml_decode (al_framework E) raw (axml_limits_of lim) = Inr root"
    using document_decoded [OF assms(3)] by blast
  then have "el_attr x rid = el_attr_by_name x android_ns name"
    using assms(1,2,4) by (intro id_lookup_is_name_lookup)
  then show ?thesis
    by (auto simp: string_attr_def typed_attr_def named_value_def split: option.splits)
qed

text \<open>
  Property C27.
  The permissions the gate judges are the ones a reader of the XML finds: if parsing a file succeeds,
  the file is an archive with exactly one AndroidManifest.xml, and the permission list consists of
  the android:name strings, read by attribute name, of the uses-permission elements anywhere in the
  decoded document, none of which lacks such a name.
\<close>

theorem parsed_permissions_are_declared:
  assumes "apk_parse_file E (Some f) lim = Inr pkg" and "load_framework text = Inr (al_framework E)"
    and "framework_attr_id (al_framework E) ''name'' = Some attr_name_id"
  shows "\<exists>root m. manifest_document E f lim root \<and> pkg_manifest pkg = Some m \<and>
    up_name ` set (man_uses_permissions m) =
      {s. \<exists>x\<in>set (subelements root). el_name x \<in> set uses_permission_elements \<and>
            named_value x ''name'' = Some s} \<and>
    (\<forall>x\<in>set (subelements root). el_name x \<in> set uses_permission_elements \<longrightarrow> named_value x ''name'' \<noteq> None)"
proof -
  have "apk_parser E f lim = (Some pkg, None)"
    using assms(1) by (simp add: apk_parser_def parse_result_of_def)
  then obtain root m where d: "manifest_document E f lim root" "pkg_manifest pkg = Some m"
      "extract_manifest root = Inr m"
    using apk.parsed_document by blast
  note named = string_attr_named [OF load_framework_ok [OF assms(2)] assms(3) d(1)]
  have "up_name ` set (man_uses_permissions m) =
      {s. \<exists>x\<in>set (subelements root). el_name x \<in> set uses_permission_elements \<and>
            named_value x ''name'' = Some s}"
    unfolding permissions_exact [OF d(3)] using named by blast
  moreover have "named_value x ''name'' \<noteq> None"
    if x: "x \<in> set (subelements root)" "el_name x \<in> set uses_permission_elements" for x
  proof -
    obtain s where "string_attr x attr_name_id = Inr (Some s)"
      using d(3) x by (rule uses_permission_scanned)
    then show ?thesis using named [OF x(1)] by simp
  qed
  ultimately show ?thesis using d(1,2) by blast
qed

end
