(* ===== verification/ApkExample.thy ===== *)
theory ApkExample
  imports GateProps AxmlExample
begin

text \<open>
  A small archive that holds nothing but the example manifest, read and parsed by the simplifier:
  the witnesses of the archive's and the parser's properties.
\<close>

definition example_archive :: bytes where
  "example_archive =
    [CHR ''P'', CHR ''K'', CHR 0x03, CHR 0x04, CHR 0x14, CHR 0x00, CHR 0x00, CHR 0x00, CHR 0x00, CHR 0x00,
     CHR 0x00, CHR 0x00, CHR 0x00, CHR 0x00, CHR ''*'', CHR 0x9E, CHR ''Q'', CHR ''2'', CHR 0x80,
     CHR 0x01, CHR 0x00, CHR 0x00, CHR 0x80, CHR 0x01, CHR 0x00, CHR 0x00, CHR 0x13, CHR 0x00, CHR 0x00,
     CHR 0x00, CHR ''A'', CHR ''n'', CHR ''d'', CHR ''r'', CHR ''o'', CHR ''i'', CHR ''d'', CHR ''M'',
     CHR ''a'', CHR ''n'', CHR ''i'', CHR ''f'', CHR ''e'', CHR ''s'', CHR ''t'', CHR ''.'', CHR ''x'',
     CHR ''m'', CHR ''l''] @
    example_document @
    [CHR ''P'', CHR ''K'', CHR 0x01, CHR 0x02, CHR 0x14, CHR 0x00, CHR 0x14, CHR 0x00, CHR 0x00, CHR 0x00,
     CHR 0x00, CHR 0x00, CHR 0x00, CHR 0x00, CHR 0x00, CHR 0x00, CHR ''*'', CHR 0x9E, CHR ''Q'',
     CHR ''2'', CHR 0x80, CHR 0x01, CHR 0x00, CHR 0x00, CHR 0x80, CHR 0x01, CHR 0x00, CHR 0x00, CHR 0x13,
     CHR 0x00, CHR 0x00, CHR 0x00, CHR 0x00, CHR 0x00, CHR 0x00, CHR 0x00, CHR 0x00, CHR 0x00, CHR 0x00,
     CHR 0x00, CHR 0x00, CHR 0x00, CHR 0x00, CHR 0x00, CHR 0x00, CHR 0x00, CHR ''A'', CHR ''n'',
     CHR ''d'', CHR ''r'', CHR ''o'', CHR ''i'', CHR ''d'', CHR ''M'', CHR ''a'', CHR ''n'', CHR ''i'',
     CHR ''f'', CHR ''e'', CHR ''s'', CHR ''t'', CHR ''.'', CHR ''x'', CHR ''m'', CHR ''l'', CHR ''P'',
     CHR ''K'', CHR 0x05, CHR 0x06, CHR 0x00, CHR 0x00, CHR 0x00, CHR 0x00, CHR 0x01, CHR 0x00, CHR 0x01,
     CHR 0x00, CHR ''A'', CHR 0x00, CHR 0x00, CHR 0x00, CHR 0xB1, CHR 0x01, CHR 0x00, CHR 0x00, CHR 0x00,
     CHR 0x00]"

definition example_reader :: file_reader where
  "example_reader = \<lparr>fr_data = example_archive, fr_fails = \<lambda>_ _. False\<rparr>"

lemma example_reader_simps:
  "fr_data example_reader = example_archive" "fr_fails example_reader off n = False"
  by (simp_all add: example_reader_def)

definition example_entry :: zip_entry where
  "example_entry = \<lparr>ze_name = ''AndroidManifest.xml'', ze_method = 0, ze_flags = 0, ze_crc32 = 844209706,
     ze_compressed_size = 384, ze_uncompressed_size = 384, ze_local_header_offset = 0, ze_data_offset = 49\<rparr>"

definition example_zip :: zip_file where
  "example_zip = \<lparr>zf_entries = [example_entry], zf_by_name = [(''AndroidManifest.xml'', example_entry)],
     zf_signing_block = False\<rparr>"

lemma find_eocd_unfold:
  "find_eocd tail n =
     (if n = 0 then Inr None
      else rbind (rd32 tail (n - 1)) (\<lambda>sig.
        if sig \<noteq> sig_eocd then find_eocd tail (n - 1)
        else rbind (rd16 tail (n - 1 + 20)) (\<lambda>comment_len.
          if n - 1 + eocd_size + unat comment_len = length tail then Inr (Some (n - 1))
          else find_eocd tail (n - 1))))"
  by (cases n) (simp_all add: find_eocd.simps cong: if_cong)

lemmas zip_signatures = sig_eocd_def sig_zip64_locator_def sig_central_directory_def
  sig_local_header_def sig_data_descriptor_def

lemmas zip_flags = flag_encrypted_def flag_data_descriptor_def flag_strong_encrypted_def
  flag_masked_headers_def method_stored_def method_deflate_def extra_zip64_def

lemma length_example: "length example_archive = 520" "length example_document = 384"
  by (simp_all add: example_archive_def example_document_def)

lemma limit_simps:
  "max_file_size default_apk_limits = 536870912" "max_name_length default_apk_limits = 1024"
  "max_manifest_size default_apk_limits = 8388608"
  by (simp_all add: default_apk_limits_def)

lemma example_eocd:
  "read_eocd example_reader 520 default_apk_limits =
     Inr \<lparr>eo_offset = 498, eo_entries = 1, eo_cd_size = 65, eo_cd_offset = 433\<rparr>"
  by (simp add: read_eocd_def locate_eocd_def read_eocd_rest_def check_zip64_locator_def read_at_def
      example_reader_simps example_archive_def example_document_def find_eocd_unfold
      default_apk_limits_def zip_sizes zip_signatures read_eval cong: rbind_weak)

lemma example_zip_read: "read_zip example_reader 520 default_apk_limits = Inr example_zip"
  by (simp add: read_zip_def example_eocd cd_step_def parse_cd_record_def check_local_header_def
      check_layout_def read_at_def valid_zip_name_def utf8_step_def runes_def name_rune_ok_def starts_with_def
      example_reader_simps example_archive_def example_document_def example_zip_def example_entry_def
      limit_simps zip_sizes zip_signatures zip_flags read_eval cong: rbind_weak)

text \<open>Reading the one entry checks its CRC; the manifest is then decoded and extracted.\<close>

lemma crc32_byte_unfold: "crc32_byte c b =
  crc32_bit (crc32_bit (crc32_bit (crc32_bit (crc32_bit (crc32_bit (crc32_bit (crc32_bit (c XOR of_char b))))))))"
  by (simp add: crc32_byte_def eval_nat_numeral)

lemma example_crc: "crc32_ieee example_document = 844209706"
  by (simp add: crc32_ieee_def crc32_byte_unfold crc32_bit_def example_document_def)

section \<open>Parsing the example\<close>

definition example_lib :: "crypto \<Rightarrow> apk_lib" where
  "example_lib K = \<lparr>al_crypto = K, al_inflate = \<lambda>r off n k. None, al_framework = example_framework\<rparr>"

definition example_file :: opened_file where
  "example_file = \<lparr>of_reader = example_reader, of_stat = Some 520, of_regular = True\<rparr>"

lemma example_content: "zip_read inflate example_reader example_entry 8388608 = Inr example_document"
proof -
  have "take 384 (drop 49 example_archive) = example_document"
    by (simp add: example_archive_def example_document_def)
  then show ?thesis
    by (simp add: zip_read_def example_entry_def method_deflate_def read_section_def example_reader_simps
        length_example example_crc)
qed

lemma example_extracts: "\<exists>m. extract_manifest example_root = Inr m"
proof -
  have "case extract_manifest example_root of Inl _ \<Rightarrow> False | Inr _ \<Rightarrow> True" by code_simp
  then show ?thesis by (auto split: sum.splits)
qed

lemma example_manifest: "read_manifest (example_lib K) example_reader example_zip default_apk_limits = Inr example_root"
proof -
  have "axml_limits_of default_apk_limits = default_axml_limits"
    by (simp add: axml_limits_of_def default_axml_limits_def limit_simps)
  then show ?thesis
    by (simp add: read_manifest_def example_lib_def example_zip_def manifest_entry_def example_content
        example_decodes lift_err_def lift_axml_def limit_simps)
qed

lemma example_parses: "\<exists>pkg. apk_parse_file (example_lib K) (Some example_file) default_apk_limits = Inr pkg"
proof -
  obtain m where m: "extract_manifest example_root = Inr m" using example_extracts by blast
  have assets: "read_asset E r example_zip name n f = Inr None"
    if "name \<noteq> ''AndroidManifest.xml''" for E r name n and f :: "bytes \<Rightarrow> (apk_code, 'x) go"
    using that by (simp add: read_asset_def example_zip_def)
  show ?thesis
    by (simp add: apk_parse_file_def example_file_def apk_parse_def hash_section_def example_zip_read
        example_manifest m lift_err_def assets app_config_entry_def app_manifest_entry_def
        fingerprint_entry_def Let_def example_reader_simps length_example limit_simps)
qed

text \<open>Witnesses.\<close>

theorem archive_is_covered_exactly_witness:
  "\<exists>spans pos. tiles 0 spans pos \<and> map fst spans = [0] \<and> pos \<le> (498 :: int)"
proof -
  from archive_is_covered_exactly [OF example_zip_read] obtain spans pos cd_offset cd_size
    where cover: "tiles 0 spans pos"
      "map fst spans = sort (map ze_local_header_offset (zf_entries example_zip))"
      "if zf_signing_block example_zip then signing_block_at (fr_data example_reader) pos cd_offset
       else pos = cd_offset"
      "0 \<le> cd_size" "cd_offset + cd_size + 22 = 520"
    by blast
  from cover(2) have "map fst spans = [0]" by (simp add: example_zip_def example_entry_def)
  moreover from cover(3) have "pos = cd_offset" by (simp add: example_zip_def)
  ultimately show ?thesis using cover(1,4,5) by fastforce
qed

theorem local_headers_agree_witness:
  "local_header_agrees example_archive example_entry \<and> clean_path ''AndroidManifest.xml''"
  using local_headers_agree [OF example_zip_read]
  by (simp add: example_zip_def example_reader_simps) (simp add: example_entry_def)

text \<open>Loading the table from its text, and the one permission of the example.\<close>

lemma example_framework_loads: "load_framework ''name 0x01010003'' = Inr example_framework"
  by (simp add: load_framework_def framework_line_def trim_space_def is_space_rune_def utf8_step_def
      words_of_def ascii_space_def starts_with_def parse_hex32_def hex_value_def char_class_defs
      framework_attr_id_def framework_attr_name_def example_framework_def less_eq_char_def)

theorem parsed_permissions_are_declared_witness:
  "\<exists>pkg m root. apk_parse_file (example_lib toy_crypto) (Some example_file) default_apk_limits = Inr pkg \<and>
     manifest_document (example_lib toy_crypto) example_file default_apk_limits root \<and> pkg_manifest pkg = Some m"
proof -
  obtain pkg where pkg: "apk_parse_file (example_lib toy_crypto) (Some example_file) default_apk_limits = Inr pkg"
    using example_parses by blast
  have "load_framework ''name 0x01010003'' = Inr (al_framework (example_lib toy_crypto))"
    and "framework_attr_id (al_framework (example_lib toy_crypto)) ''name'' = Some attr_name_id"
    by (simp_all add: example_framework_loads example_lib_def example_framework_def framework_attr_id_def
        attr_name_id_def)
  from parsed_permissions_are_declared [OF pkg this] pkg show ?thesis by blast
qed

end
