(* ===== verification/SealedBox.thy ===== *)
theory SealedBox
  imports TrustRoots
begin

text \<open>
  Package \<open>signing/internal/sealedbox\<close>: an envelope encrypted to an X25519 public key by an
  anonymous sender. The ephemeral key and the recipient's key enter the key derivation, the label,
  the purpose and the recipient's fingerprint the associated data.

  X25519, HKDF-SHA256 and AES-256-GCM of Go's standard library are parameters, gathered in
  \<open>seal_prims\<close>; \<open>seal_prims_ok\<close> states what their documentation promises: key agreement commutes,
  opening what was sealed gives the plaintext, and what opens is what sealing produces (GCM is
  deterministic in key, nonce and data). It says nothing about secrecy or forgeries.
\<close>

record seal_prims =
  x_public :: "bytes \<Rightarrow> bytes"
  x_shared :: "bytes \<Rightarrow> bytes \<Rightarrow> bytes option"
  hkdf_key :: "bytes \<Rightarrow> bytes \<Rightarrow> bytes"
  gcm_seal :: "bytes \<Rightarrow> bytes \<Rightarrow> bytes \<Rightarrow> bytes \<Rightarrow> bytes"
  gcm_open :: "bytes \<Rightarrow> bytes \<Rightarrow> bytes \<Rightarrow> bytes \<Rightarrow> bytes option"

definition x25519_key_size :: nat where "x25519_key_size = 32"
definition seal_nonce_size :: nat where "seal_nonce_size = 12"
definition seal_tag_size :: nat where "seal_tag_size = 16"

lemmas seal_sizes = x25519_key_size_def seal_nonce_size_def seal_tag_size_def

definition seal_prims_ok :: "seal_prims \<Rightarrow> bool" where
  "seal_prims_ok S \<longleftrightarrow>
     (\<forall>a. length a = 32 \<longrightarrow> length (x_public S a) = 32) \<and>
     (\<forall>a b. length a = 32 \<longrightarrow> length b = 32 \<longrightarrow> x_shared S a (x_public S b) = x_shared S b (x_public S a)) \<and>
     (\<forall>k n p ad. length (gcm_seal S k n p ad) = length p + 16 \<and> gcm_open S k n (gcm_seal S k n p ad) ad = Some p) \<and>
     (\<forall>k n c p ad. gcm_open S k n c ad = Some p \<longrightarrow> c = gcm_seal S k n p ad)"

datatype seal_error = SealRecipientSize | SealNonceSize | SealKeyAgreement

datatype open_error = OpenDecrypt | OpenNotAddressed

record sealed =
  se_recipient :: bytes
  se_epk :: bytes
  se_nonce :: bytes
  se_ct :: bytes

text \<open>\<open>DecodeFixed\<close>: standard base64 of a fixed length.\<close>

definition decode_fixed :: "bytes \<Rightarrow> nat \<Rightarrow> bytes option" where
  "decode_fixed s n = (case b64_decode s of None \<Rightarrow> None | Some raw \<Rightarrow> if length raw \<noteq> n then None else Some raw)"

definition additional_data :: "bytes \<Rightarrow> bytes \<Rightarrow> bytes \<Rightarrow> bytes" where
  "additional_data label purpose recipient = label @ [CHR 0x0A] @ purpose @ [CHR 0x0A] @ recipient"

text \<open>The key of \<open>newAEAD\<close>: the info is the label and the two public keys, 32 bytes each.\<close>

definition aead_key :: "seal_prims \<Rightarrow> bytes \<Rightarrow> bytes \<Rightarrow> bytes \<Rightarrow> bytes \<Rightarrow> bytes" where
  "aead_key S label shared epk recipient = hkdf_key S shared (label @ epk @ recipient)"

text \<open>\<open>SealWith\<close>; \<open>Seal\<close> is \<open>SealWith\<close> on a fresh ephemeral key and nonce.\<close>

definition seal_with ::
    "crypto \<Rightarrow> seal_prims \<Rightarrow> bytes \<Rightarrow> bytes \<Rightarrow> bytes \<Rightarrow> bytes \<Rightarrow> bytes \<Rightarrow> bytes \<Rightarrow> seal_error + sealed" where
  "seal_with K S label purpose payload recipient ephemeral nonce =
     (if length recipient \<noteq> x25519_key_size then Inl SealRecipientSize
      else if length nonce \<noteq> seal_nonce_size then Inl SealNonceSize
      else case x_shared S ephemeral recipient of
        None \<Rightarrow> Inl SealKeyAgreement
      | Some shared \<Rightarrow>
          let epk = x_public S ephemeral; digest = sha256_hex K recipient;
              ct = gcm_seal S (aead_key S label shared epk recipient) nonce payload
                     (additional_data label purpose digest)
          in Inr \<lparr>se_recipient = digest, se_epk = b64_encode epk, se_nonce = b64_encode nonce,
                  se_ct = b64_encode ct\<rparr>)"

definition open_sealed ::
    "crypto \<Rightarrow> seal_prims \<Rightarrow> sealed \<Rightarrow> bytes \<Rightarrow> bytes \<Rightarrow> bytes \<Rightarrow> open_error + bytes" where
  "open_sealed K S s label purpose priv =
     (let own = x_public S priv; digest = sha256_hex K own in
      if se_recipient s \<noteq> digest then Inl OpenNotAddressed
      else case decode_fixed (se_epk s) x25519_key_size of
        None \<Rightarrow> Inl OpenDecrypt
      | Some epk \<Rightarrow>
        (case decode_fixed (se_nonce s) seal_nonce_size of
           None \<Rightarrow> Inl OpenDecrypt
         | Some nonce \<Rightarrow>
           (case b64_decode (se_ct s) of
              None \<Rightarrow> Inl OpenDecrypt
            | Some ct \<Rightarrow>
              if length ct < seal_tag_size then Inl OpenDecrypt
              else case x_shared S priv epk of
                None \<Rightarrow> Inl OpenDecrypt
              | Some shared \<Rightarrow>
                (case gcm_open S (aead_key S label shared epk own) nonce ct (additional_data label purpose digest) of
                   None \<Rightarrow> Inl OpenDecrypt
                 | Some payload \<Rightarrow> Inr payload))))"

section \<open>Facts\<close>

lemma decode_fixed_encode [simp]: "decode_fixed (b64_encode s) n = (if length s = n then Some s else None)"
  by (simp add: decode_fixed_def)

lemma decode_fixed_Some: "decode_fixed s n = Some raw \<longleftrightarrow> b64_decode s = Some raw \<and> length raw = n"
  by (auto simp: decode_fixed_def split: option.splits if_splits)

lemma seal_with_Inr:
  assumes "seal_with K S label purpose payload recipient eph nonce = Inr s"
  obtains shared where "length recipient = 32" "length nonce = 12" "x_shared S eph recipient = Some shared"
    "s = \<lparr>se_recipient = sha256_hex K recipient, se_epk = b64_encode (x_public S eph), se_nonce = b64_encode nonce,
       se_ct = b64_encode (gcm_seal S (aead_key S label shared (x_public S eph) recipient) nonce payload
                 (additional_data label purpose (sha256_hex K recipient)))\<rparr>"
  using assms by (auto simp: seal_with_def Let_def seal_sizes split: if_splits option.splits)

lemma open_sealed_Inr:
  assumes "open_sealed K S s label purpose priv = Inr payload"
  obtains epk nonce ct shared where "se_recipient s = sha256_hex K (x_public S priv)"
    "b64_decode (se_epk s) = Some epk" "length epk = 32" "b64_decode (se_nonce s) = Some nonce" "length nonce = 12"
    "b64_decode (se_ct s) = Some ct" "x_shared S priv epk = Some shared"
    "gcm_open S (aead_key S label shared epk (x_public S priv)) nonce ct
       (additional_data label purpose (sha256_hex K (x_public S priv))) = Some payload"
  using assms
  by (auto simp: open_sealed_def Let_def decode_fixed_Some seal_sizes split: if_splits option.splits)

lemma open_seal_with:
  assumes ok: "seal_prims_ok S" and eph: "length eph = 32" and priv: "length priv = 32"
    and s: "seal_with K S label purpose payload (x_public S priv) eph nonce = Inr s"
  shows "open_sealed K S s label purpose priv = Inr payload"
proof -
  obtain shared where sh: "length nonce = 12" "x_shared S eph (x_public S priv) = Some shared"
    and s_eq: "s = \<lparr>se_recipient = sha256_hex K (x_public S priv), se_epk = b64_encode (x_public S eph),
       se_nonce = b64_encode nonce,
       se_ct = b64_encode (gcm_seal S (aead_key S label shared (x_public S eph) (x_public S priv)) nonce payload
                 (additional_data label purpose (sha256_hex K (x_public S priv))))\<rparr>"
    using s by (rule seal_with_Inr)
  have "x_shared S priv (x_public S eph) = Some shared" "length (x_public S eph) = 32"
    using ok eph priv sh(2) by (auto simp: seal_prims_ok_def)
  moreover have "length (gcm_seal S k n p ad) = length p + 16" "gcm_open S k n (gcm_seal S k n p ad) ad = Some p"
    for k n p ad using ok by (simp_all add: seal_prims_ok_def)
  ultimately show ?thesis using sh(1) by (simp add: open_sealed_def s_eq seal_sizes Let_def)
qed

text \<open>What opens was sealed: the ciphertext is the one that sealing this payload produces.\<close>

lemma open_sealed_sound:
  assumes "seal_prims_ok S" and "open_sealed K S s label purpose priv = Inr payload"
  obtains epk nonce shared where "b64_decode (se_epk s) = Some epk" "length epk = 32"
    "b64_decode (se_nonce s) = Some nonce" "x_shared S priv epk = Some shared"
    "b64_decode (se_ct s) = Some (gcm_seal S (aead_key S label shared epk (x_public S priv)) nonce payload
       (additional_data label purpose (sha256_hex K (x_public S priv))))"
    "se_recipient s = sha256_hex K (x_public S priv)"
proof -
  obtain epk nonce ct shared where o: "se_recipient s = sha256_hex K (x_public S priv)"
    "b64_decode (se_epk s) = Some epk" "length epk = 32" "b64_decode (se_nonce s) = Some nonce"
    "b64_decode (se_ct s) = Some ct" "x_shared S priv epk = Some shared"
    "gcm_open S (aead_key S label shared epk (x_public S priv)) nonce ct
       (additional_data label purpose (sha256_hex K (x_public S priv))) = Some payload"
    using assms(2) by (rule open_sealed_Inr)
  moreover have "gcm_open S k n c ad = Some p \<Longrightarrow> c = gcm_seal S k n p ad" for k n c ad p
    using assms(1) by (simp add: seal_prims_ok_def)
  ultimately show thesis using that by blast
qed

text \<open>
  Domain separation: label and purpose without line feeds are determined by the associated data, and
  so is the recipient.
\<close>

lemma additional_data_inj:
  assumes "additional_data l p r = additional_data l' p' r'" and "no_lf l" "no_lf p" "no_lf l'" "no_lf p'"
  shows "l = l' \<and> p = p' \<and> r = r'"
proof -
  have split: "x = x' \<and> y = y'" if "x @ CHR 0x0A # y = x' @ CHR 0x0A # y'" "no_lf x" "no_lf x'" for x x' y y'
    using that by (auto simp: no_lf_def append_eq_append_conv2 Cons_eq_append_conv append_eq_Cons_conv)
  have "l = l' \<and> p @ CHR 0x0A # r = p' @ CHR 0x0A # r'"
    using assms(1,2,4) by (intro split) (simp_all add: additional_data_def)
  then show ?thesis using split [of p r p' r'] assms(3,5) by blast
qed

text \<open>
  A toy instance for the witnesses: the shared secret is symmetric in the keys, sealing appends a tag of
  sixteen bytes that opening checks.
\<close>

definition toy_prims :: seal_prims where
  "toy_prims = \<lparr>x_public = (\<lambda>a. a), x_shared = (\<lambda>a b. Some (map2 max a b)), hkdf_key = (\<lambda>s i. take 32 s),
     gcm_seal = (\<lambda>k n p ad. p @ replicate 16 (CHR ''t'')),
     gcm_open = (\<lambda>k n c ad. if 16 \<le> length c \<and> drop (length c - 16) c = replicate 16 (CHR ''t'')
                              then Some (take (length c - 16) c) else None)\<rparr>"

lemma toy_prims_ok: "seal_prims_ok toy_prims"
proof -
  have "c = take (length c - 16) c @ replicate 16 (CHR ''t'')"
    if "drop (length c - 16) c = replicate 16 (CHR ''t'')" for c :: bytes
    using append_take_drop_id [of "length c - 16" c] that by simp
  moreover have "map2 max a b = map2 max b a" for a b :: bytes
    by (induction a b rule: list_induct2') (simp_all add: max.commute)
  ultimately show ?thesis by (auto simp: seal_prims_ok_def toy_prims_def)
qed

end
