(* ===== verification/KeystoreBox.thy ===== *)
theory KeystoreBox
  imports SealedBox
begin

text \<open>
  Package \<open>signing/keystorebox\<close>: the encrypted form of an Android release key, one box per signing
  gate, and the signatures of generated and resealed keys. The redacting formatters of \<open>Plaintext\<close>
  (\<open>String\<close>, \<open>Format\<close>, \<open>LogValue\<close>, \<open>MarshalJSON\<close>) are diagnostics and left out; the texts of
  validation errors too. \<open>json.Marshal\<close> is written out, strict decoding is a parameter.
\<close>

definition keystore_purpose :: bytes where "keystore_purpose = ''android-release-keystore''"
definition upload_format :: bytes where "upload_format = ''rn-android-keystore-upload/v3''"
definition box_algorithm :: bytes where "box_algorithm = ''x25519-hkdf-sha256-aes256gcm''"
definition box_version :: int where "box_version = 3"
definition kdf_label :: bytes where "kdf_label = ''rn-build-keystore/v3''"
definition max_boxes :: nat where "max_boxes = 16"
definition max_p12_size :: nat where "max_p12_size = 65536"
definition max_password_length :: nat where "max_password_length = 1024"
definition max_ciphertext_size :: nat where "max_ciphertext_size = 131072 + 16"

record box =
  bx_version :: int
  bx_algorithm :: bytes
  bx_recipient :: bytes
  bx_epk :: bytes
  bx_nonce :: bytes
  bx_ct :: bytes

record generation =
  ge_trust_roots_digest :: bytes
  ge_min_sdk :: int
  ge_target_sdk :: int
  ge_first_sign_max :: int
  ge_supersedes :: bytes
  ge_kind :: bytes

record plaintext =
  pt_purpose :: bytes
  pt_tenant :: bytes
  pt_package :: bytes
  pt_cert :: bytes
  pt_alias :: bytes
  pt_recipients :: "bytes list"
  pt_created_at :: bytes
  pt_p12_base64 :: bytes
  pt_store_password :: bytes
  pt_key_password :: bytes
  pt_generation :: "generation option"

record upload =
  ul_format :: bytes
  ul_tenant :: bytes
  ul_package :: bytes
  ul_alias :: bytes
  ul_cert :: bytes
  ul_created_at :: bytes
  ul_boxes :: "box list"

section \<open>Validation\<close>

definition generation_kind_reseal :: bytes where "generation_kind_reseal = ''reseal''"

definition generation_validate :: "generation \<Rightarrow> bool" where
  "generation_validate g =
     (if ge_kind g \<noteq> [] \<and> ge_kind g \<noteq> generation_kind_reseal then False
      else if ge_kind g = generation_kind_reseal \<and> ge_supersedes g = [] then False
      else if \<not> fingerprint_valid (ge_trust_roots_digest g) then False
      else if ge_min_sdk g < 1 \<or> 1000 < ge_min_sdk g \<or> ge_target_sdk g < ge_min_sdk g \<or> 1000 < ge_target_sdk g then False
      else if ge_first_sign_max g < 1 \<or> 2100000000 < ge_first_sign_max g then False
      else if ge_supersedes g \<noteq> [] \<and> \<not> fingerprint_valid (ge_supersedes g) then False
      else True)"

definition pt_p12 :: "plaintext \<Rightarrow> bytes option" where
  "pt_p12 p =
     (case b64_decode (pt_p12_base64 p) of
        None \<Rightarrow> None
      | Some raw \<Rightarrow> if length raw = 0 \<or> max_p12_size < length raw then None else Some raw)"

text \<open>The recipients: one to sixteen fingerprints, strictly ascending.\<close>

fun recipients_ascend :: "bytes list \<Rightarrow> bool" where
  "recipients_ascend (r # s # rs) = (if s \<le> r then False else recipients_ascend (s # rs))"
| "recipients_ascend _ = True"

definition validate_recipients :: "bytes list \<Rightarrow> bool" where
  "validate_recipients rs =
     (if length rs = 0 \<or> max_boxes < length rs then False
      else list_all fingerprint_valid rs \<and> recipients_ascend rs)"

definition validate_password :: "bytes \<Rightarrow> bool" where
  "validate_password s =
     (if length s = 0 \<or> max_password_length < length s \<or> \<not> utf8_valid s then False
      else list_all (\<lambda>r. \<not> (r < 0x20 \<or> r = 0x7F)) (runes s))"

definition plaintext_validate :: "plaintext \<Rightarrow> bool" where
  "plaintext_validate p =
     (if pt_purpose p \<noteq> keystore_purpose then False
      else if \<not> valid_tenant_slug (pt_tenant p) then False
      else if \<not> valid_package_name (pt_package p) then False
      else if \<not> fingerprint_valid (pt_cert p) then False
      else if \<not> valid_key_alias (pt_alias p) then False
      else if \<not> valid_rfc3339_utc (pt_created_at p) then False
      else if \<not> validate_recipients (pt_recipients p) then False
      else if pt_p12 p = None then False
      else if \<not> validate_password (pt_store_password p) then False
      else if \<not> validate_password (pt_key_password p) then False
      else case pt_generation p of
        None \<Rightarrow> True
      | Some g \<Rightarrow>
          if \<not> generation_validate g then False
          else let resealed = (ge_kind g = generation_kind_reseal) in
            if \<not> resealed \<and> ge_supersedes g = pt_cert p then False
            else if resealed \<and> ge_supersedes g \<noteq> pt_cert p then False
            else True)"

definition box_validate_shape :: "box \<Rightarrow> bool" where
  "box_validate_shape b =
     (if bx_version b \<noteq> box_version then False
      else if bx_algorithm b \<noteq> box_algorithm then False
      else if \<not> fingerprint_valid (bx_recipient b) then False
      else if decode_fixed (bx_epk b) x25519_key_size = None then False
      else if decode_fixed (bx_nonce b) seal_nonce_size = None then False
      else case b64_decode (bx_ct b) of
        None \<Rightarrow> False
      | Some ct \<Rightarrow> \<not> (length ct \<le> seal_tag_size \<or> max_ciphertext_size < length ct))"

text \<open>The boxes of an upload: each well shaped, no recipient twice.\<close>

fun boxes_ok :: "bytes list \<Rightarrow> box list \<Rightarrow> bool" where
  "boxes_ok seen [] = True"
| "boxes_ok seen (b # bs) =
     (if \<not> box_validate_shape b then False
      else if bx_recipient b \<in> set seen then False
      else boxes_ok (bx_recipient b # seen) bs)"

definition upload_validate_shape :: "upload \<Rightarrow> bool" where
  "upload_validate_shape u =
     (if ul_format u \<noteq> upload_format then False
      else if \<not> valid_tenant_slug (ul_tenant u) then False
      else if \<not> valid_package_name (ul_package u) then False
      else if \<not> valid_key_alias (ul_alias u) then False
      else if \<not> fingerprint_valid (ul_cert u) then False
      else if \<not> valid_rfc3339_utc (ul_created_at u) then False
      else if length (ul_boxes u) = 0 then False
      else if max_boxes < length (ul_boxes u) then False
      else boxes_ok [] (ul_boxes u))"

section \<open>JSON\<close>

definition json_array :: "bytes list \<Rightarrow> bytes" where
  "json_array xs = ''['' @ json_commas xs @ '']''"

definition json_object :: "(bytes \<times> bytes) list \<Rightarrow> bytes" where
  "json_object fs = ''{'' @ json_commas (map (\<lambda>(k, v). json_field k v) fs) @ ''}''"

definition generation_json :: "generation \<Rightarrow> bytes" where
  "generation_json g = json_object
     ([(''trustRootsDigest'', json_string (ge_trust_roots_digest g)), (''minSdk'', int_str (ge_min_sdk g)),
       (''targetSdk'', int_str (ge_target_sdk g)), (''firstSignMaxVersionCode'', int_str (ge_first_sign_max g)),
       (''supersedesCertificateSha256'', json_string (ge_supersedes g))] @
      (if ge_kind g = [] then [] else [(''kind'', json_string (ge_kind g))]))"

definition plaintext_json :: "plaintext \<Rightarrow> bytes" where
  "plaintext_json p = json_object
     ([(''purpose'', json_string (pt_purpose p)), (''tenantSlug'', json_string (pt_tenant p)),
       (''packageName'', json_string (pt_package p)), (''certificateSha256'', json_string (pt_cert p)),
       (''keyAlias'', json_string (pt_alias p)),
       (''recipients'', json_array (map json_string (pt_recipients p))),
       (''createdAt'', json_string (pt_created_at p)), (''p12Base64'', json_string (pt_p12_base64 p)),
       (''storePassword'', json_string (pt_store_password p)), (''keyPassword'', json_string (pt_key_password p))] @
      (case pt_generation p of None \<Rightarrow> [] | Some g \<Rightarrow> [(''generation'', generation_json g)]))"

definition box_json :: "box \<Rightarrow> bytes" where
  "box_json b = json_object
     [(''v'', int_str (bx_version b)), (''alg'', json_string (bx_algorithm b)),
      (''recipientSha256'', json_string (bx_recipient b)), (''epk'', json_string (bx_epk b)),
      (''nonce'', json_string (bx_nonce b)), (''ct'', json_string (bx_ct b))]"

definition upload_json :: "upload \<Rightarrow> bytes" where
  "upload_json u = json_object
     [(''format'', json_string (ul_format u)), (''tenantSlug'', json_string (ul_tenant u)),
      (''packageName'', json_string (ul_package u)), (''keyAlias'', json_string (ul_alias u)),
      (''certificateSha256'', json_string (ul_cert u)), (''createdAt'', json_string (ul_created_at u)),
      (''boxes'', json_array (map box_json (ul_boxes u)))]"

section \<open>Sealing and opening\<close>

datatype keystore_seal_error = KsRecipientSize | KsPlaintext | KsNotListed | KsSeal seal_error | KsShape

definition sealed_box :: "sealed \<Rightarrow> box" where
  "sealed_box s = \<lparr>bx_version = box_version, bx_algorithm = box_algorithm, bx_recipient = se_recipient s,
     bx_epk = se_epk s, bx_nonce = se_nonce s, bx_ct = se_ct s\<rparr>"

definition box_sealed :: "box \<Rightarrow> sealed" where
  "box_sealed b = \<lparr>se_recipient = bx_recipient b, se_epk = bx_epk b, se_nonce = bx_nonce b, se_ct = bx_ct b\<rparr>"

text \<open>\<open>sealWith\<close>; \<open>Seal\<close> is \<open>sealWith\<close> on a fresh ephemeral key and nonce.\<close>

definition keystore_seal ::
    "crypto \<Rightarrow> seal_prims \<Rightarrow> plaintext \<Rightarrow> bytes \<Rightarrow> bytes \<Rightarrow> bytes \<Rightarrow> keystore_seal_error + box" where
  "keystore_seal K S p recipient ephemeral nonce =
     (if length recipient \<noteq> x25519_key_size then Inl KsRecipientSize
      else if \<not> plaintext_validate p then Inl KsPlaintext
      else if sha256_hex K recipient \<notin> set (pt_recipients p) then Inl KsNotListed
      else case seal_with K S kdf_label keystore_purpose (plaintext_json p) recipient ephemeral nonce of
        Inl e \<Rightarrow> Inl (KsSeal e)
      | Inr s \<Rightarrow> if \<not> box_validate_shape (sealed_box s) then Inl KsShape else Inr (sealed_box s))"

datatype keystore_open_error = KoKeySize | KoShape | KoNotAddressed | KoDecrypt | KoPlaintext

text \<open>
  \<open>Open\<close>. The decoder of the plaintext is \<open>encoding/json\<close> with unknown fields and trailing data
  refused.
\<close>

definition keystore_open ::
    "crypto \<Rightarrow> seal_prims \<Rightarrow> (bytes \<Rightarrow> plaintext option) \<Rightarrow> box \<Rightarrow> bytes \<Rightarrow> keystore_open_error + plaintext" where
  "keystore_open K S dec b priv =
     (if length priv \<noteq> x25519_key_size then Inl KoKeySize
      else if \<not> box_validate_shape b then Inl KoShape
      else let own = sha256_hex K (x_public S priv) in
        if bx_recipient b \<noteq> own then Inl KoNotAddressed
        else case open_sealed K S (box_sealed b) kdf_label keystore_purpose priv of
          Inl OpenNotAddressed \<Rightarrow> Inl KoNotAddressed
        | Inl OpenDecrypt \<Rightarrow> Inl KoDecrypt
        | Inr plain \<Rightarrow>
          (case dec plain of
             None \<Rightarrow> Inl KoPlaintext
           | Some p \<Rightarrow>
             if \<not> plaintext_validate p then Inl KoPlaintext
             else if own \<notin> set (pt_recipients p) then Inl KoPlaintext
             else Inr p))"

definition box_for :: "upload \<Rightarrow> bytes \<Rightarrow> box option" where
  "box_for u recipient = find (\<lambda>b. bx_recipient b = recipient) (ul_boxes u)"

section \<open>Generated and resealed keys\<close>

definition generation_prefix :: bytes where "generation_prefix = ''rn-keystore-generation/v1'' @ [CHR 0x0A]"
definition reseal_prefix :: bytes where "reseal_prefix = ''rn-keystore-reseal/v1'' @ [CHR 0x0A]"
definition reseal_id_prefix :: bytes where "reseal_id_prefix = ''rsl_''"
definition max_upload_size :: nat where "max_upload_size = 4194304"

text \<open>\<open>^[A-Za-z0-9_-]{1,128}$\<close> and \<open>^rsl_[A-Za-z0-9_-]{22}$\<close>.\<close>

definition ks_generation_request_id :: "bytes \<Rightarrow> bool" where
  "ks_generation_request_id s \<longleftrightarrow> 1 \<le> length s \<and> length s \<le> 128 \<and> list_all id_char s"

definition ks_reseal_id :: "bytes \<Rightarrow> bool" where
  "ks_reseal_id s \<longleftrightarrow> starts_with reseal_id_prefix s \<and> length s = 26 \<and> list_all id_char (drop 4 s)"

definition upload_digest :: "crypto \<Rightarrow> upload \<Rightarrow> bytes option" where
  "upload_digest K u = (if \<not> upload_validate_shape u then None else Some (sha256_hex K (upload_json u)))"

definition generation_message :: "crypto \<Rightarrow> bytes \<Rightarrow> upload \<Rightarrow> bytes option" where
  "generation_message K rid u =
     (if \<not> ks_generation_request_id rid then None
      else case upload_digest K u of None \<Rightarrow> None
      | Some d \<Rightarrow> Some (generation_prefix @ rid @ [CHR 0x0A] @ d))"

definition reseal_message :: "crypto \<Rightarrow> bytes \<Rightarrow> upload \<Rightarrow> bytes option" where
  "reseal_message K rid u =
     (if \<not> ks_reseal_id rid then None
      else case upload_digest K u of None \<Rightarrow> None
      | Some d \<Rightarrow> Some (reseal_prefix @ rid @ [CHR 0x0A] @ d))"

definition box_sign :: "crypto \<Rightarrow> bytes \<Rightarrow> bytes \<Rightarrow> bytes option" where
  "box_sign K priv msg =
     (if length priv \<noteq> ed_private_key_size then None else Some (b64_encode (ed_sign K priv msg)))"

definition box_verify :: "crypto \<Rightarrow> bytes \<Rightarrow> bytes option \<Rightarrow> bytes \<Rightarrow> bool" where
  "box_verify K pub msg signature =
     (if length pub \<noteq> ed_public_key_size then False
      else case b64_decode signature of
        None \<Rightarrow> False
      | Some sig \<Rightarrow>
          if length sig \<noteq> ed_signature_size then False
          else case msg of None \<Rightarrow> False | Some m \<Rightarrow> ed_verify K pub m sig)"

definition sign_generation :: "crypto \<Rightarrow> bytes \<Rightarrow> bytes \<Rightarrow> upload \<Rightarrow> bytes option" where
  "sign_generation K priv rid u =
     (case generation_message K rid u of None \<Rightarrow> None | Some m \<Rightarrow> box_sign K priv m)"

definition verify_generation :: "crypto \<Rightarrow> bytes \<Rightarrow> bytes \<Rightarrow> upload \<Rightarrow> bytes \<Rightarrow> bool" where
  "verify_generation K pub rid u signature = box_verify K pub (generation_message K rid u) signature"

definition sign_reseal :: "crypto \<Rightarrow> bytes \<Rightarrow> bytes \<Rightarrow> upload \<Rightarrow> bytes option" where
  "sign_reseal K priv rid u =
     (case reseal_message K rid u of None \<Rightarrow> None | Some m \<Rightarrow> box_sign K priv m)"

definition verify_reseal :: "crypto \<Rightarrow> bytes \<Rightarrow> bytes \<Rightarrow> upload \<Rightarrow> bytes \<Rightarrow> bool" where
  "verify_reseal K pub rid u signature = box_verify K pub (reseal_message K rid u) signature"

definition parse_upload :: "(bytes \<Rightarrow> upload option) \<Rightarrow> bytes \<Rightarrow> upload option" where
  "parse_upload dec raw =
     (if max_upload_size < length raw then None
      else case dec raw of None \<Rightarrow> None
      | Some u \<Rightarrow> if \<not> upload_validate_shape u then None else Some u)"

end
