(* ===== verification/KeystoreProps.thy ===== *)
theory KeystoreProps
  imports KeystoreBox Provenance
begin

text \<open>
  What the encrypted keystores guarantee: a sealed key opens unchanged for its recipient, what opens
  is a well-formed record sealed to this very machine, and the signatures of generations and reseals
  cover distinct messages.
\<close>

section \<open>Sealing\<close>

lemma box_sealed_box [simp]: "box_sealed (sealed_box s) = s"
  by (simp add: box_sealed_def sealed_box_def)

lemma keystore_seal_Inr:
  assumes "keystore_seal K S p recipient eph nonce = Inr b"
  obtains s where "length recipient = 32" "plaintext_validate p" "sha256_hex K recipient \<in> set (pt_recipients p)"
    "seal_with K S kdf_label keystore_purpose (plaintext_json p) recipient eph nonce = Inr s"
    "b = sealed_box s" "box_validate_shape b"
  using assms by (auto simp: keystore_seal_def x25519_key_size_def split: if_splits sum.splits)

lemma keystore_open_Inr:
  assumes "keystore_open K S dec b priv = Inr p"
  obtains plain where "length priv = 32" "box_validate_shape b" "bx_recipient b = sha256_hex K (x_public S priv)"
    "open_sealed K S (box_sealed b) kdf_label keystore_purpose priv = Inr plain" "dec plain = Some p"
    "plaintext_validate p" "sha256_hex K (x_public S priv) \<in> set (pt_recipients p)"
  using assms
  by (auto simp: keystore_open_def Let_def x25519_key_size_def
      split: if_splits sum.splits open_error.splits option.splits)

text \<open>
  
  A key sealed to a signing gate opens there unchanged, whatever the ephemeral key and the nonce, if
  decoding inverts the encoding of the record.
\<close>

theorem sealed_keystore_opens:
  assumes "seal_prims_ok S" and "length eph = 32" and "length priv = 32"
    and "keystore_seal K S p (x_public S priv) eph nonce = Inr b" and "dec (plaintext_json p) = Some p"
  shows "keystore_open K S dec b priv = Inr p"
proof -
  obtain s where s: "plaintext_validate p" "sha256_hex K (x_public S priv) \<in> set (pt_recipients p)"
    "seal_with K S kdf_label keystore_purpose (plaintext_json p) (x_public S priv) eph nonce = Inr s"
    "b = sealed_box s" "box_validate_shape b"
    using assms(4) by (rule keystore_seal_Inr)
  have "se_recipient s = sha256_hex K (x_public S priv)"
    using s(3) by (rule seal_with_Inr) simp
  then have "bx_recipient b = sha256_hex K (x_public S priv)"
    by (simp add: s(4) sealed_box_def)
  moreover have "open_sealed K S (box_sealed b) kdf_label keystore_purpose priv = Inr (plaintext_json p)"
    using open_seal_with [OF assms(1-3) s(3)] by (simp add: s(4))
  ultimately show ?thesis
    using assms(3,5) s(1,2,5) by (simp add: keystore_open_def x25519_key_size_def)
qed

text \<open>
  Property C35.
  What opens was sealed to this machine: the ciphertext is the one that sealing some record produces
  under the key derived from this machine's key, the box's ephemeral key and the label of keystores,
  and the record is well formed, lists this machine among its recipients and was decoded from
  exactly those bytes.
\<close>

theorem opened_keystore_was_sealed_here:
  assumes "seal_prims_ok S" and "keystore_open K S dec b priv = Inr p"
  shows "\<exists>plain epk nonce shared. dec plain = Some p \<and> plaintext_validate p \<and>
    bx_recipient b = sha256_hex K (x_public S priv) \<and> bx_recipient b \<in> set (pt_recipients p) \<and>
    b64_decode (bx_epk b) = Some epk \<and> b64_decode (bx_nonce b) = Some nonce \<and> x_shared S priv epk = Some shared \<and>
    b64_decode (bx_ct b) = Some (gcm_seal S (hkdf_key S shared (kdf_label @ epk @ x_public S priv)) nonce plain
      (additional_data kdf_label keystore_purpose (bx_recipient b)))"
proof -
  obtain plain where o: "bx_recipient b = sha256_hex K (x_public S priv)"
    "open_sealed K S (box_sealed b) kdf_label keystore_purpose priv = Inr plain" "dec plain = Some p"
    "plaintext_validate p" "sha256_hex K (x_public S priv) \<in> set (pt_recipients p)"
    using assms(2) by (rule keystore_open_Inr)
  obtain epk nonce shared where "b64_decode (bx_epk b) = Some epk" "b64_decode (bx_nonce b) = Some nonce"
    "x_shared S priv epk = Some shared"
    "b64_decode (bx_ct b) = Some (gcm_seal S (aead_key S kdf_label shared epk (x_public S priv)) nonce plain
       (additional_data kdf_label keystore_purpose (sha256_hex K (x_public S priv))))"
    using assms(1) o(2) by (rule open_sealed_sound) (simp add: box_sealed_def)
  then show ?thesis using o by (auto simp: aead_key_def)
qed

section \<open>Signatures of generations and reseals\<close>

lemma id_char_no_lf: "list_all id_char s \<Longrightarrow> no_lf s"
  by (induction s) (auto simp: id_char_def char_class_defs less_eq_char_def)

lemma generation_message_Some:
  assumes "generation_message K rid u = Some m"
  shows "no_lf rid" and "m = generation_prefix @ rid @ CHR 0x0A # sha256_hex K (upload_json u)"
    and "upload_validate_shape u"
  using assms
  by (auto simp: generation_message_def upload_digest_def ks_generation_request_id_def id_char_no_lf
      split: if_splits option.splits)

lemma reseal_message_Some:
  assumes "reseal_message K rid u = Some m"
  shows "m = reseal_prefix @ rid @ CHR 0x0A # sha256_hex K (upload_json u)"
  using assms by (auto simp: reseal_message_def upload_digest_def split: if_splits option.splits)

lemma box_verify_True:
  "box_verify K pub msg signature \<Longrightarrow>
     \<exists>m sig. msg = Some m \<and> b64_decode signature = Some sig \<and> ed_verify K pub m sig"
  by (auto simp: box_verify_def split: if_splits option.splits)

lemma split_at_lf: "no_lf x \<Longrightarrow> no_lf x' \<Longrightarrow> x @ CHR 0x0A # y = x' @ CHR 0x0A # y' \<Longrightarrow> x = x' \<and> y = y'"
  by (auto simp: no_lf_def append_eq_append_conv2 Cons_eq_append_conv append_eq_Cons_conv)

text \<open>
  A generation signature vouches for one request and one upload: it is a signature on a message that
  no reseal has, and that no other generation has unless sha256 collides on the uploads.
\<close>

theorem generation_signature_is_specific:
  assumes "verify_generation K pub rid u signature"
  shows "\<exists>m sig. b64_decode signature = Some sig \<and> ed_verify K pub m sig \<and>
    generation_message K rid u = Some m \<and> upload_validate_shape u \<and>
    (\<forall>rid' u'. reseal_message K rid' u' \<noteq> Some m) \<and>
    (\<forall>rid' u'. generation_message K rid' u' = Some m \<longrightarrow>
       rid' = rid \<and> (upload_json u' = upload_json u \<or> sha256_collision K (upload_json u) (upload_json u')))"
proof -
  obtain m sig where m: "generation_message K rid u = Some m" "b64_decode signature = Some sig"
      "ed_verify K pub m sig"
    using box_verify_True assms unfolding verify_generation_def by blast
  have "reseal_message K rid' u' \<noteq> Some m" for rid' u'
    using reseal_message_Some [of K rid' u' m] generation_message_Some(2) [OF m(1)]
    by (auto simp: generation_prefix_def reseal_prefix_def)
  moreover have "rid' = rid \<and> (upload_json u' = upload_json u \<or> sha256_collision K (upload_json u) (upload_json u'))"
    if g: "generation_message K rid' u' = Some m" for rid' u'
  proof -
    have "rid' = rid \<and> sha256_hex K (upload_json u') = sha256_hex K (upload_json u)"
      using generation_message_Some(1,2) [OF m(1)] generation_message_Some(1,2) [OF g]
      by (intro split_at_lf) simp_all
    then show ?thesis using sha256_hex_eq [of K "upload_json u" "upload_json u'"] by auto
  qed
  ultimately show ?thesis using m generation_message_Some(3) [OF m(1)] by blast
qed

section \<open>An example\<close>

definition ex_gate_key :: bytes where "ex_gate_key = replicate 32 (CHR 0x00)"

definition ex_plaintext :: plaintext where
  "ex_plaintext = \<lparr>pt_purpose = keystore_purpose, pt_tenant = ''AnyFun'', pt_package = ''com.anyfun.app'',
     pt_cert = replicate 64 (CHR ''a''), pt_alias = ''release'', pt_recipients = [replicate 64 (CHR ''0'')],
     pt_created_at = ''2026-09-16T08:00:00Z'', pt_p12_base64 = ''QUJD'', pt_store_password = ''secret'',
     pt_key_password = ''secret'', pt_generation = None\<rparr>"

definition ex_sealed :: sealed where
  "ex_sealed = \<lparr>se_recipient = replicate 64 (CHR ''0''), se_epk = b64_encode ex_gate_key,
     se_nonce = b64_encode (replicate 12 (CHR 0x00)),
     se_ct = b64_encode (plaintext_json ex_plaintext @ replicate 16 (CHR ''t''))\<rparr>"

lemma ex_gate_digest: "sha256_hex toy_crypto ex_gate_key = replicate 64 (CHR ''0'')"
  by code_simp

lemma ex_plaintext_valid: "plaintext_validate ex_plaintext"
proof -
  have "valid_key_alias ''release''" "fingerprint_valid (replicate 64 (CHR ''a''))"
    by code_simp+
  moreover have "validate_password ''secret''"
    by (simp add: validate_password_def max_password_length_def runes_def utf8_step_def)
  moreover have "pt_p12 ex_plaintext \<noteq> None"
    by (simp add: pt_p12_def ex_plaintext_def max_p12_size_def b64_decode_def is_crlf_def b64_val_def char_class_defs
        less_eq_char_def)
  ultimately show ?thesis
    by (simp add: plaintext_validate_def ex_plaintext_def example_time example_identifiers validate_recipients_def
        max_boxes_def)
qed

lemma ex_plaintext_size: "length (plaintext_json ex_plaintext) \<le> 2000"
proof -
  have small: "length (json_string s) \<le> 6 * length s + 2" for s by (rule length_json_string)
  show ?thesis
    unfolding plaintext_json_def json_object_def json_field_def json_array_def ex_plaintext_def
    using small [of "''purpose''"] small [of keystore_purpose] small [of "''tenantSlug''"] small [of "''AnyFun''"]
      small [of "''packageName''"] small [of "''com.anyfun.app''"] small [of "''certificateSha256''"]
      small [of "replicate 64 (CHR ''a'')"] small [of "''keyAlias''"] small [of "''release''"]
      small [of "''recipients''"] small [of "replicate 64 (CHR ''0'')"] small [of "''createdAt''"]
      small [of "''2026-09-16T08:00:00Z''"] small [of "''p12Base64''"] small [of "''QUJD''"]
      small [of "''storePassword''"] small [of "''secret''"] small [of "''keyPassword''"]
    by (simp add: keystore_purpose_def)
qed

lemma ex_box_shape: "box_validate_shape (sealed_box ex_sealed)"
  using ex_plaintext_size example_identifiers(7)
  by (simp add: box_validate_shape_def sealed_box_def ex_sealed_def box_version_def seal_sizes ex_gate_key_def
      max_ciphertext_size_def) (simp add: plaintext_json_def json_object_def)

lemma ex_keystore_seal:
  "keystore_seal toy_crypto toy_prims ex_plaintext ex_gate_key ex_gate_key (replicate 12 (CHR 0x00)) =
     Inr (sealed_box ex_sealed)"
proof -
  have "seal_with toy_crypto toy_prims kdf_label keystore_purpose (plaintext_json ex_plaintext) ex_gate_key
      ex_gate_key (replicate 12 (CHR 0x00)) = Inr ex_sealed"
    by (simp add: seal_with_def seal_sizes toy_prims_def ex_sealed_def ex_gate_digest Let_def)
      (simp add: ex_gate_key_def)
  then show ?thesis
    using ex_plaintext_valid ex_box_shape
    by (simp add: keystore_seal_def ex_gate_digest seal_sizes) (simp add: ex_gate_key_def ex_plaintext_def)
qed

lemma ex_gate_public [simp]: "x_public toy_prims ex_gate_key = ex_gate_key" "length ex_gate_key = 32"
  by (simp_all add: toy_prims_def ex_gate_key_def)

theorem sealed_keystore_opens_witness:
  "keystore_open toy_crypto toy_prims (\<lambda>_. Some ex_plaintext) (sealed_box ex_sealed) ex_gate_key = Inr ex_plaintext"
  using sealed_keystore_opens [OF toy_prims_ok, of ex_gate_key ex_gate_key toy_crypto ex_plaintext
      "replicate 12 (CHR 0x00)" "sealed_box ex_sealed" "\<lambda>_. Some ex_plaintext"] ex_keystore_seal
  by simp

lemma ex_keystore_open:
  "keystore_open toy_crypto toy_prims (\<lambda>_. Some ex_plaintext) (sealed_box ex_sealed) ex_gate_key = Inr ex_plaintext"
proof -
  have "seal_with toy_crypto toy_prims kdf_label keystore_purpose (plaintext_json ex_plaintext)
      (x_public toy_prims ex_gate_key) ex_gate_key (replicate 12 (CHR 0x00)) = Inr ex_sealed"
    using ex_keystore_seal by (auto elim!: keystore_seal_Inr dest: arg_cong [where f = box_sealed])
  from open_seal_with [OF toy_prims_ok _ _ this]
  have "open_sealed toy_crypto toy_prims ex_sealed kdf_label keystore_purpose ex_gate_key =
      Inr (plaintext_json ex_plaintext)" by simp
  moreover have "bx_recipient (sealed_box ex_sealed) = replicate 64 (CHR ''0'')"
    "pt_recipients ex_plaintext = [replicate 64 (CHR ''0'')]"
    by (simp_all add: sealed_box_def ex_sealed_def ex_plaintext_def)
  ultimately show ?thesis
    using ex_box_shape ex_plaintext_valid by (simp add: keystore_open_def seal_sizes ex_gate_digest)
qed

theorem opened_keystore_was_sealed_here_witness:
  "\<exists>epk nonce shared. b64_decode (bx_epk (sealed_box ex_sealed)) = Some epk \<and>
     b64_decode (bx_nonce (sealed_box ex_sealed)) = Some nonce \<and>
     x_shared toy_prims ex_gate_key epk = Some shared"
  using opened_keystore_was_sealed_here [OF toy_prims_ok ex_keystore_open] by blast

definition ex_upload :: upload where
  "ex_upload = \<lparr>ul_format = upload_format, ul_tenant = ''AnyFun'', ul_package = ''com.anyfun.app'',
     ul_alias = ''release'', ul_cert = replicate 64 (CHR ''a''), ul_created_at = ''2026-09-16T08:00:00Z'',
     ul_boxes = [sealed_box ex_sealed]\<rparr>"

lemma ex_upload_shape: "upload_validate_shape ex_upload"
proof -
  have "valid_key_alias ''release''" "fingerprint_valid (replicate 64 (CHR ''a''))" by code_simp+
  then show ?thesis
    using ex_box_shape
    by (simp add: upload_validate_shape_def ex_upload_def example_time example_identifiers max_boxes_def)
qed

theorem generation_signature_is_specific_witness:
  "\<exists>m. generation_message toy_crypto ''req1'' ex_upload = Some m \<and>
     ed_verify toy_crypto (replicate 32 (CHR ''k'')) m (replicate 64 (CHR 0x00))"
proof -
  have "ks_generation_request_id ''req1''" by code_simp
  then have "verify_generation toy_crypto (replicate 32 (CHR ''k'')) ''req1'' ex_upload
      (b64_encode (replicate 64 (CHR 0x00)))"
    using ex_upload_shape
    by (simp add: verify_generation_def box_verify_def ed_sizes generation_message_def upload_digest_def)
      (simp add: toy_crypto_def)
  from generation_signature_is_specific [OF this] show ?thesis by auto
qed

end
