(* ===== verification/SignerClient.thy ===== *)
theory SignerClient
  imports Provenance
begin

text \<open>
  What the signing gate makes of the answers it gets: the errors of calls to the server
  (\<open>signing/internal/signer/client.go\<close>), the cleaning of foreign text, and the output of
  \<open>apksigner verify\<close> (\<open>apksigner.go\<close>). Transport and HTTP are not modelled: a call returns a value
  or a \<open>call_error\<close>.
\<close>

section \<open>Errors of calls\<close>

definition code_sign_attempt_stale :: bytes where "code_sign_attempt_stale = ''SIGN_ATTEMPT_STALE''"
definition code_machine_key_not_accepted :: bytes where
  "code_machine_key_not_accepted = ''MACHINE_KEY_NOT_ACCEPTED''"
definition code_machine_revoked :: bytes where "code_machine_revoked = ''MACHINE_REVOKED''"
definition code_machine_auth_required :: bytes where "code_machine_auth_required = ''MACHINE_AUTH_REQUIRED''"
definition code_release_sequence_busy :: bytes where "code_release_sequence_busy = ''RELEASE_SEQUENCE_BUSY''"
definition code_signed_artifact_missing :: bytes where "code_signed_artifact_missing = ''SIGNED_ARTIFACT_MISSING''"
definition code_signed_artifact_replaced :: bytes where "code_signed_artifact_replaced = ''SIGNED_ARTIFACT_REPLACED''"
definition code_sign_result_mismatch :: bytes where "code_sign_result_mismatch = ''SIGN_RESULT_MISMATCH''"
definition code_signed_artifact_mismatch :: bytes where "code_signed_artifact_mismatch = ''SIGNED_ARTIFACT_MISMATCH''"
definition code_upload_storage_failed :: bytes where "code_upload_storage_failed = ''UPLOAD_STORAGE_FAILED''"
definition code_upload_interrupted :: bytes where "code_upload_interrupted = ''UPLOAD_INTERRUPTED''"
definition code_reseal_rate_limited :: bytes where "code_reseal_rate_limited = ''KEYSTORE_RESEAL_RATE_LIMITED''"

lemmas call_code_defs = code_sign_attempt_stale_def code_machine_key_not_accepted_def code_machine_revoked_def
  code_machine_auth_required_def code_release_sequence_busy_def code_signed_artifact_missing_def
  code_signed_artifact_replaced_def code_sign_result_mismatch_def code_signed_artifact_mismatch_def
  code_upload_storage_failed_def code_upload_interrupted_def code_reseal_rate_limited_def

text \<open>
  An error of a call: the server's problem (status and code), a response that breaks the contract,
  a canceled context, or anything else (network, files).
\<close>

datatype call_error = ApiError int bytes | ProtocolError | Canceled | OtherError

fun api_stale :: "call_error \<Rightarrow> bool" where
  "api_stale (ApiError status code) = (status = 409 \<and> code = code_sign_attempt_stale)"
| "api_stale _ = False"

definition api_transient :: "int \<Rightarrow> bytes \<Rightarrow> bool" where
  "api_transient status code =
     (if code = code_reseal_rate_limited then False
      else if 500 \<le> status \<or> status = 429 then True
      else code \<in> {code_release_sequence_busy, code_upload_storage_failed, code_upload_interrupted,
                    code_signed_artifact_replaced})"

fun is_transient :: "call_error \<Rightarrow> bool" where
  "is_transient Canceled = False"
| "is_transient (ApiError status code) = api_transient status code"
| "is_transient ProtocolError = False"
| "is_transient OtherError = True"

fun is_revoked :: "call_error \<Rightarrow> bool" where
  "is_revoked (ApiError status code) = (status = 401 \<and> code = code_machine_revoked)"
| "is_revoked _ = False"

fun is_token_rejected :: "call_error \<Rightarrow> bool" where
  "is_token_rejected (ApiError status code) =
     (is_revoked (ApiError status code) \<or> status = 401 \<and> code = code_machine_auth_required)"
| "is_token_rejected _ = False"

fun is_key_not_accepted :: "call_error \<Rightarrow> bool" where
  "is_key_not_accepted (ApiError status code) = (code = code_machine_key_not_accepted)"
| "is_key_not_accepted _ = False"

fun api_code :: "call_error \<Rightarrow> bytes option" where
  "api_code (ApiError status code) = Some code"
| "api_code _ = None"

text \<open>The three answers that end an attempt exclude each other, and none is retried.\<close>

lemma final_errors:
  "api_stale e \<Longrightarrow> \<not> is_token_rejected e"
  "api_stale e \<Longrightarrow> \<not> is_transient e"
  "is_token_rejected e \<Longrightarrow> \<not> is_transient e"
proof -
  show "api_stale e \<Longrightarrow> \<not> is_token_rejected e" by (cases e) auto
  show "api_stale e \<Longrightarrow> \<not> is_transient e" by (cases e) (auto simp: api_transient_def call_code_defs)
  show "is_token_rejected e \<Longrightarrow> \<not> is_transient e" by (cases e) (auto simp: api_transient_def call_code_defs)
qed

section \<open>Foreign text\<close>

definition text_ellipsis :: bytes where "text_ellipsis = [CHR 0xE2, CHR 0x80, CHR 0xA6]"

definition clean_rune :: "nat \<Rightarrow> nat" where
  "clean_rune r =
     (if r = utf8_rune_error \<or> r < 0x20 \<or> r = 0x7F \<or> (0x80 \<le> r \<and> r < 0xA0) then 0x3F else r)"

text \<open>
  \<open>cleanText\<close> builds its result rune by rune; the model keeps the encoded runes apart, so that
  \<open>DecodeLastRuneInString\<close> on the well-formed text is the last of them.
\<close>

fun clean_build :: "nat list \<Rightarrow> nat \<Rightarrow> bytes list \<Rightarrow> bytes list" where
  "clean_build [] m out = out"
| "clean_build (r # rs) m out =
     (let out' = out @ [encode_rune (clean_rune r)] in
      if m < length (concat out') then out' else clean_build rs m out')"

fun clean_shorten :: "bytes list \<Rightarrow> nat \<Rightarrow> bytes list" where
  "clean_shorten rev_out m =
     (case rev_out of
        [] \<Rightarrow> []
      | x # xs \<Rightarrow>
          if m < length (concat (rev rev_out)) + length text_ellipsis then clean_shorten xs m else rev_out)"

declare clean_shorten.simps [simp del]

definition clean_text :: "bytes \<Rightarrow> nat \<Rightarrow> bytes" where
  "clean_text s m =
     (let out = clean_build (runes s) m [] in
      if length (concat out) \<le> m then concat out
      else
        let short = concat (rev (clean_shorten (rev out) m)) in
        if m < length short + length text_ellipsis then short else short @ text_ellipsis)"

section \<open>Reading the output of apksigner verify\<close>

record verify_result =
  vr_verified :: bool
  vr_v1 :: bool
  vr_v2 :: bool
  vr_v3 :: bool
  vr_v31 :: bool
  vr_v4 :: bool
  vr_signers :: int
  vr_certificates :: "bytes list"

definition text_lines :: "bytes \<Rightarrow> bytes list" where
  "text_lines s = (let ls = split_on (CHR 0x0A) s in if last ls = [] then butlast ls else ls)"

text \<open>
  \<open>bufio.Scanner\<close> stops at a line that does not fit its buffer of 64 KiB; the code does not ask for
  the scanner's error. Trailing carriage returns are dropped.
\<close>

definition scanner_limit :: nat where "scanner_limit = 65536"

definition trim_cr :: "bytes \<Rightarrow> bytes" where
  "trim_cr s = rev (dropWhile (\<lambda>c. c = CHR 0x0D) (rev s))"

definition scan_lines :: "bytes \<Rightarrow> bytes list" where
  "scan_lines s = map trim_cr (takeWhile (\<lambda>l. length l < scanner_limit) (text_lines s))"

definition strip_prefix :: "bytes \<Rightarrow> bytes \<Rightarrow> bytes option" where
  "strip_prefix p s = (if starts_with p s then Some (drop (length p) s) else None)"

datatype scheme = SchemeV1 | SchemeV2 | SchemeV3 | SchemeV31 | SchemeV4

definition scheme_names :: "(bytes \<times> scheme) list" where
  "scheme_names = [(''v1'', SchemeV1), (''v2'', SchemeV2), (''v3'', SchemeV3), (''v3.1'', SchemeV31), (''v4'', SchemeV4)]"

text \<open>\<open>^Verified using (v1|v2|v3|v3\.1|v4) scheme \([^)]*\): (true|false)$\<close>\<close>

definition scheme_value :: "bytes \<Rightarrow> bool option" where
  "scheme_value s =
     (let rest = dropWhile (\<lambda>c. c \<noteq> CHR '')'') s in
      if rest = ''): true'' then Some True else if rest = ''): false'' then Some False else None)"

fun scheme_match :: "(bytes \<times> scheme) list \<Rightarrow> bytes \<Rightarrow> (scheme \<times> bool) option" where
  "scheme_match [] s = None"
| "scheme_match ((name, sch) # rest) s =
     (case strip_prefix (name @ '' scheme ('') s of
        None \<Rightarrow> scheme_match rest s
      | Some t \<Rightarrow> map_option (Pair sch) (scheme_value t))"

definition scheme_line :: "bytes \<Rightarrow> (scheme \<times> bool) option" where
  "scheme_line l = (case strip_prefix ''Verified using '' l of None \<Rightarrow> None | Some s \<Rightarrow> scheme_match scheme_names s)"

definition max_int64 :: int where "max_int64 = 2 ^ 63 - 1"

text \<open>\<open>strconv.Atoi\<close> on a string of digits; out of range it yields the largest integer, and the code ignores the error.\<close>

definition clamped_atoi :: "bytes \<Rightarrow> int" where
  "clamped_atoi s = min (int (digits_nat s)) max_int64"

text \<open>\<open>^Number of signers: (\d+)$\<close>\<close>

definition signers_line :: "bytes \<Rightarrow> int option" where
  "signers_line l =
     (case strip_prefix ''Number of signers: '' l of None \<Rightarrow> None
      | Some s \<Rightarrow> if s \<noteq> [] \<and> list_all is_digit s then Some (clamped_atoi s) else None)"

text \<open>\<open>^Signer #(\d+) certificate SHA-256 digest: ([0-9a-fA-F]{64})$\<close>\<close>

definition cert_line :: "bytes \<Rightarrow> (int \<times> bytes) option" where
  "cert_line l =
     (case strip_prefix ''Signer #'' l of None \<Rightarrow> None
      | Some s \<Rightarrow>
        let digits = takeWhile is_digit s; rest = dropWhile is_digit s in
        if digits = [] then None
        else case strip_prefix '' certificate SHA-256 digest: '' rest of None \<Rightarrow> None
          | Some d \<Rightarrow> if length d = 64 \<and> list_all is_hex d then Some (clamped_atoi digits, d) else None)"

record verify_scan =
  vs_result :: verify_result
  vs_seen :: "scheme list"
  vs_signers_seen :: bool

fun set_scheme :: "scheme \<Rightarrow> bool \<Rightarrow> verify_result \<Rightarrow> verify_result" where
  "set_scheme SchemeV1 v r = r\<lparr>vr_v1 := v\<rparr>"
| "set_scheme SchemeV2 v r = r\<lparr>vr_v2 := v\<rparr>"
| "set_scheme SchemeV3 v r = r\<lparr>vr_v3 := v\<rparr>"
| "set_scheme SchemeV31 v r = r\<lparr>vr_v31 := v\<rparr>"
| "set_scheme SchemeV4 v r = r\<lparr>vr_v4 := v\<rparr>"

datatype verify_error = RepeatedScheme | RepeatedSigners | CertificateOrder | NotReported | CertificateCount | CertificateDigest

definition verify_step :: "verify_scan \<Rightarrow> bytes \<Rightarrow> verify_error + verify_scan" where
  "verify_step st l =
     (let r = vs_result st in
      if l = ''Verifies'' then Inr (st\<lparr>vs_result := r\<lparr>vr_verified := True\<rparr>\<rparr>)
      else case scheme_line l of
        Some (sch, v) \<Rightarrow>
          if sch \<in> set (vs_seen st) then Inl RepeatedScheme
          else Inr (st\<lparr>vs_seen := sch # vs_seen st, vs_result := set_scheme sch v r\<rparr>)
      | None \<Rightarrow>
        (case signers_line l of
           Some n \<Rightarrow>
             if vs_signers_seen st then Inl RepeatedSigners
             else Inr (st\<lparr>vs_signers_seen := True, vs_result := r\<lparr>vr_signers := n\<rparr>\<rparr>)
         | None \<Rightarrow>
           (case cert_line l of
              Some (i, d) \<Rightarrow>
                if i \<noteq> int (length (vr_certificates r)) + 1 then Inl CertificateOrder
                else Inr (st\<lparr>vs_result := r\<lparr>vr_certificates := vr_certificates r @ [to_lower d]\<rparr>\<rparr>)
            | None \<Rightarrow> Inr st)))"

definition verify_start :: verify_scan where
  "verify_start = \<lparr>vs_result = \<lparr>vr_verified = False, vr_v1 = False, vr_v2 = False, vr_v3 = False, vr_v31 = False,
     vr_v4 = False, vr_signers = 0, vr_certificates = []\<rparr>, vs_seen = [], vs_signers_seen = False\<rparr>"

definition parse_verify_output :: "bytes \<Rightarrow> verify_error + verify_result" where
  "parse_verify_output output =
     rbind (fold_res verify_step verify_start (scan_lines output)) (\<lambda>st.
     let r = vs_result st in
     if \<not> vr_verified r \<or> \<not> vs_signers_seen st \<or> SchemeV2 \<notin> set (vs_seen st) \<or> SchemeV3 \<notin> set (vs_seen st)
     then Inl NotReported
     else if int (length (vr_certificates r)) \<noteq> vr_signers r then Inl CertificateCount
     else if \<not> list_all fingerprint_valid (vr_certificates r) then Inl CertificateDigest
     else Inr r)"

datatype check_signed_error = DoesNotVerify | SignerCount | SchemesMissing | CertificateDiffers

definition check_signed :: "verify_result \<Rightarrow> bytes \<Rightarrow> check_signed_error option" where
  "check_signed r cert =
     (if \<not> vr_verified r then Some DoesNotVerify
      else if vr_signers r \<noteq> 1 \<or> length (vr_certificates r) \<noteq> 1 then Some SignerCount
      else if \<not> vr_v2 r \<or> \<not> vr_v3 r then Some SchemesMissing
      else if vr_certificates r ! 0 \<noteq> cert then Some CertificateDiffers
      else None)"

record sign_params =
  sp_keystore_path :: bytes
  sp_key_alias :: bytes
  sp_store_password_file :: bytes
  sp_key_password_file :: bytes
  sp_min_sdk :: int
  sp_in :: bytes
  sp_out :: bytes
  sp_tmp_dir :: bytes

definition jvm_args :: "bytes \<Rightarrow> bytes \<Rightarrow> bytes list" where
  "jvm_args jar tmp =
     [''-XX:-UsePerfData''] @ (if tmp \<noteq> [] then [''-Djava.io.tmpdir='' @ tmp] else []) @ [''-jar'', jar]"

definition sign_args :: "bytes \<Rightarrow> sign_params \<Rightarrow> bytes list" where
  "sign_args jar p = jvm_args jar (sp_tmp_dir p) @
     [''sign'', ''--ks'', sp_keystore_path p, ''--ks-type'', ''PKCS12'', ''--ks-key-alias'', sp_key_alias p,
      ''--ks-pass'', ''file:'' @ sp_store_password_file p, ''--key-pass'', ''file:'' @ sp_key_password_file p,
      ''--v1-signing-enabled'', ''false'', ''--v2-signing-enabled'', ''true'',
      ''--v3-signing-enabled'', ''true'', ''--v4-signing-enabled'', ''false'',
      ''--min-sdk-version'', int_str (sp_min_sdk p), ''--out'', sp_out p, sp_in p]"

section \<open>Facts about cleaned text\<close>

definition plain_rune :: "nat \<Rightarrow> bool" where
  "plain_rune r \<longleftrightarrow> 0x20 \<le> r \<and> r \<noteq> 0x7F \<and> \<not> (0x80 \<le> r \<and> r < 0xA0) \<and> r \<noteq> utf8_rune_error"

lemma clean_rune_plain: "plain_rune (clean_rune r)"
  by (simp add: plain_rune_def clean_rune_def utf8_rune_error_def)

lemma clean_rune_id: "plain_rune r \<Longrightarrow> clean_rune r = r"
  by (auto simp: plain_rune_def clean_rune_def)

lemma utf8_step_scalar:
  assumes "utf8_step s = Some (r, w)" shows "scalar_value r"
  using assms
  by (auto simp: utf8_step_def Let_def scalar_value_def byte_in_def low6_def split: list.splits if_splits) linarith+

lemma segments_scalar: "(r, raw) \<in> set (segments s) \<Longrightarrow> scalar_value r"
  by (induction s rule: segments.induct)
    (auto simp: utf8_rune_error_def scalar_value_def split: option.splits dest: utf8_step_scalar)

lemma runes_scalar: "list_all scalar_value (runes s)"
  using segments_scalar [of _ _ s] by (auto simp: runes_def list_all_iff)

lemma clean_rune_scalar: "scalar_value r \<Longrightarrow> scalar_value (clean_rune r)"
  by (simp add: clean_rune_def scalar_value_def)

lemma clean_build_runes:
  assumes "list_all scalar_value rs"
  shows "\<exists>cs. clean_build rs m out = out @ map encode_rune cs \<and> list_all scalar_value cs \<and> list_all plain_rune cs"
  using assms
proof (induction rs m out rule: clean_build.induct)
  case (1 m out)
  then show ?case by (intro exI [of _ "[]"]) simp
next
  case (2 r rs m out)
  let ?c = "clean_rune r"
  have c: "scalar_value ?c" "plain_rune ?c" using 2(2) by (simp_all add: clean_rune_scalar clean_rune_plain)
  show ?case
  proof (cases "m < length (concat (out @ [encode_rune ?c]))")
    case True
    then show ?thesis using c by (intro exI [of _ "[?c]"]) (simp add: Let_def)
  next
    case False
    then obtain cs where "clean_build rs m (out @ [encode_rune ?c]) = (out @ [encode_rune ?c]) @ map encode_rune cs"
        "list_all scalar_value cs" "list_all plain_rune cs"
      using 2 by (auto simp: Let_def)
    then show ?thesis using False c by (intro exI [of _ "?c # cs"]) (simp add: Let_def)
  qed
qed

lemma clean_shorten_suffix: "\<exists>k. clean_shorten xs m = drop k xs"
proof (induction xs)
  case Nil
  show ?case by (simp add: clean_shorten.simps)
next
  case (Cons x xs)
  then obtain k where k: "clean_shorten xs m = drop k xs" by blast
  show ?case
  proof (cases "m < length (concat (rev (x # xs))) + length text_ellipsis")
    case True
    then show ?thesis using k by (intro exI [of _ "Suc k"]) (subst clean_shorten.simps, simp)
  next
    case False
    then show ?thesis by (intro exI [of _ 0]) (subst clean_shorten.simps, simp)
  qed
qed

lemma clean_shorten_fits:
  "clean_shorten xs m = [] \<or> length (concat (rev (clean_shorten xs m))) + length text_ellipsis \<le> m"
proof (induction xs)
  case Nil
  show ?case by (simp add: clean_shorten.simps)
next
  case (Cons x xs)
  then show ?case by (subst (1 2) clean_shorten.simps) (auto simp: not_less)
qed
lemma ellipsis_rune: "text_ellipsis = encode_rune 0x2026" "scalar_value 0x2026" "plain_rune 0x2026"
  by (simp_all add: text_ellipsis_def encode_rune_def scalar_value_def plain_rune_def utf8_rune_error_def char_of_def bit_0)

text \<open>
  Text from the other side is safe to print and to send on: whatever the bytes, what \<open>cleanText\<close>
  returns fits the limit, is valid UTF-8 and has no control character in it.
\<close>

theorem cleaned_text_is_safe:
  "length (clean_text s m) \<le> m \<and> utf8_valid (clean_text s m) \<and> list_all plain_rune (runes (clean_text s m))"
proof -
  obtain cs where cs: "clean_build (runes s) m [] = map encode_rune cs" "list_all scalar_value cs" "list_all plain_rune cs"
    using clean_build_runes [OF runes_scalar, of s m "[]"] by auto
  have ok: "utf8_valid (concat (map encode_rune xs)) \<and> list_all plain_rune (runes (concat (map encode_rune xs)))"
    if "list_all scalar_value xs" "list_all plain_rune xs" for xs
    using utf8_concat_encode [OF that(1)] that(2) by simp
  define short where "short = rev (clean_shorten (rev (map encode_rune cs)) m)"
  obtain k where k: "clean_shorten (rev (map encode_rune cs)) m = drop k (rev (map encode_rune cs))"
    using clean_shorten_suffix by blast
  have short: "short = map encode_rune (take (length cs - k) cs)"
    unfolding short_def k by (simp add: rev_drop take_map)
  have take: "list_all scalar_value (take j cs)" "list_all plain_rune (take j cs)" for j
    using cs(2,3) by (auto simp: list_all_iff dest: in_set_takeD)
  have fits: "short = [] \<or> length (concat short) + length text_ellipsis \<le> m"
    using clean_shorten_fits [of "rev (map encode_rune cs)" m] by (auto simp: short_def)
  show ?thesis
  proof (cases "length (concat (map encode_rune cs)) \<le> m")
    case True
    then show ?thesis using ok [OF cs(2,3)] by (simp add: clean_text_def cs(1))
  next
    case False
    then have t: "clean_text s m =
        (if m < length (concat short) + length text_ellipsis then concat short else concat short @ text_ellipsis)"
      by (simp add: clean_text_def cs(1) short_def Let_def)
    have e: "concat short @ text_ellipsis = concat (map encode_rune (take (length cs - k) cs @ [0x2026]))"
      by (simp add: short ellipsis_rune(1))
    show ?thesis
    proof (cases "m < length (concat short) + length text_ellipsis")
      case True
      then have "short = []" using fits by linarith
      then show ?thesis using True t by simp
    next
      case False
      have "list_all scalar_value (take (length cs - k) cs @ [0x2026])"
          "list_all plain_rune (take (length cs - k) cs @ [0x2026])"
        using take ellipsis_rune(2,3) by simp_all
      from ok [OF this] have "utf8_valid (concat short @ text_ellipsis) \<and>
          list_all plain_rune (runes (concat short @ text_ellipsis))" unfolding e .
      then show ?thesis using False t by simp
    qed
  qed
qed

section \<open>Facts about verified packages\<close>

lemma check_signed_None:
  "check_signed r cert = None \<longleftrightarrow>
     vr_verified r \<and> vr_signers r = 1 \<and> vr_certificates r = [cert] \<and> vr_v2 r \<and> vr_v3 r"
  by (auto simp: check_signed_def length_Suc_conv)

text \<open>The certificate a line names, if the reader takes it for a certificate line.\<close>

definition named_certificate :: "bytes \<Rightarrow> bytes option" where
  "named_certificate l =
     (if l = ''Verifies'' \<or> scheme_line l \<noteq> None \<or> signers_line l \<noteq> None then None
      else map_option (\<lambda>(i, d). to_lower d) (cert_line l))"

definition scanned :: "bytes list \<Rightarrow> verify_scan \<Rightarrow> bool" where
  "scanned ls st \<longleftrightarrow>
     (vr_verified (vs_result st) \<longrightarrow> ''Verifies'' \<in> set ls) \<and>
     (vr_v2 (vs_result st) \<longrightarrow> (\<exists>l\<in>set ls. scheme_line l = Some (SchemeV2, True))) \<and>
     (vr_v3 (vs_result st) \<longrightarrow> (\<exists>l\<in>set ls. scheme_line l = Some (SchemeV3, True))) \<and>
     (vs_signers_seen st \<longrightarrow> (\<exists>l\<in>set ls. signers_line l = Some (vr_signers (vs_result st)))) \<and>
     vr_certificates (vs_result st) = List.map_filter named_certificate ls"

lemma map_filter_snoc: "List.map_filter f (xs @ [x]) = List.map_filter f xs @ (case f x of None \<Rightarrow> [] | Some y \<Rightarrow> [y])"
  by (induction xs) (auto simp: List.map_filter_simps split: option.splits)

lemma set_scheme_simps [simp]:
  "vr_certificates (set_scheme sch v r) = vr_certificates r" "vr_signers (set_scheme sch v r) = vr_signers r"
  "vr_verified (set_scheme sch v r) = vr_verified r"
  "vr_v2 (set_scheme sch v r) = (if sch = SchemeV2 then v else vr_v2 r)"
  "vr_v3 (set_scheme sch v r) = (if sch = SchemeV3 then v else vr_v3 r)"
  by (cases sch; simp)+

lemma verify_step_cases:
  assumes "verify_step st l = Inr st'"
  obtains "l = ''Verifies''" "st' = st\<lparr>vs_result := vs_result st\<lparr>vr_verified := True\<rparr>\<rparr>"
  | sch v where "l \<noteq> ''Verifies''" "scheme_line l = Some (sch, v)"
      "st' = st\<lparr>vs_seen := sch # vs_seen st, vs_result := set_scheme sch v (vs_result st)\<rparr>"
  | n where "l \<noteq> ''Verifies''" "scheme_line l = None" "signers_line l = Some n" "\<not> vs_signers_seen st"
      "st' = st\<lparr>vs_signers_seen := True, vs_result := vs_result st\<lparr>vr_signers := n\<rparr>\<rparr>"
  | i d where "l \<noteq> ''Verifies''" "scheme_line l = None" "signers_line l = None" "cert_line l = Some (i, d)"
      "st' = st\<lparr>vs_result := vs_result st\<lparr>vr_certificates := vr_certificates (vs_result st) @ [to_lower d]\<rparr>\<rparr>"
  | "l \<noteq> ''Verifies''" "scheme_line l = None" "signers_line l = None" "cert_line l = None" "st' = st"
proof (cases "l = ''Verifies''")
  case True
  then show thesis using assms that(1) by (simp add: verify_step_def Let_def)
next
  case False
  then show thesis
    using assms that(2-5) by (auto simp: verify_step_def Let_def simp del: split_paired_Ex split: option.splits if_splits)
qed

lemma scanned_step:
  assumes "scanned ls st" and "verify_step st l = Inr st'"
  shows "scanned (ls @ [l]) st'"
  using assms(2)
proof (cases rule: verify_step_cases)
  case 1
  then show ?thesis using assms(1) by (simp add: scanned_def map_filter_snoc named_certificate_def)
next
  case (2 sch v)
  then show ?thesis using assms(1) by (auto simp: scanned_def map_filter_snoc named_certificate_def)
next
  case (3 n)
  then show ?thesis using assms(1) by (auto simp: scanned_def map_filter_snoc named_certificate_def)
next
  case (4 i d)
  then show ?thesis using assms(1) by (auto simp: scanned_def map_filter_snoc named_certificate_def)
next
  case 5
  then show ?thesis using assms(1) by (auto simp: scanned_def map_filter_snoc named_certificate_def)
qed

lemma scanned_fold: "fold_res verify_step verify_start ls = Inr st \<Longrightarrow> scanned ls st"
proof (induction ls arbitrary: st rule: rev_induct)
  case Nil
  then show ?case by (auto simp: scanned_def verify_start_def List.map_filter_simps)
next
  case (snoc l ls)
  then show ?case by (auto simp: fold_res_append result_simps intro: scanned_step)
qed

text \<open>
  A signed package leaves the gate only with the confirmed certificate: when the reader accepts the
  output of apksigner and the check passes, the output says that the package verifies with the v2 and
  the v3 scheme and has one signer, and the only certificate it names is the confirmed one.
\<close>

theorem verified_with_confirmed_certificate:
  assumes "parse_verify_output output = Inr r" and "check_signed r cert = None"
  shows "''Verifies'' \<in> set (scan_lines output) \<and>
    (\<exists>l\<in>set (scan_lines output). scheme_line l = Some (SchemeV2, True)) \<and>
    (\<exists>l\<in>set (scan_lines output). scheme_line l = Some (SchemeV3, True)) \<and>
    (\<exists>l\<in>set (scan_lines output). signers_line l = Some 1) \<and>
    List.map_filter named_certificate (scan_lines output) = [cert] \<and> fingerprint_valid cert"
proof -
  obtain st where st: "fold_res verify_step verify_start (scan_lines output) = Inr st" "r = vs_result st"
      "vs_signers_seen st" "list_all fingerprint_valid (vr_certificates r)"
    using assms(1) by (auto simp: parse_verify_output_def result_simps Let_def split: if_splits)
  then show ?thesis
    using scanned_fold [OF st(1)] assms(2) by (simp add: scanned_def check_signed_None)
qed

definition example_digest :: bytes where
  "example_digest = ''0000000000000000000000000000000000000000000000000000000000000000''"

definition example_output :: bytes where
  "example_output = concat (map (\<lambda>l. l @ [CHR 0x0A])
     [''Verifies'', ''Verified using v2 scheme (APK Signature Scheme v2): true'',
      ''Verified using v3 scheme (APK Signature Scheme v3): true'', ''Number of signers: 1'',
      ''Signer #1 certificate SHA-256 digest: '' @ example_digest])"

lemma example_output_parsed:
  "case parse_verify_output example_output of Inl _ \<Rightarrow> False | Inr r \<Rightarrow> check_signed r example_digest = None"
  by (simp add: example_output_def example_digest_def parse_verify_output_def scan_lines_def text_lines_def trim_cr_def scanner_limit_def
      verify_step_def verify_start_def scheme_line_def strip_prefix_def starts_with_def scheme_names_def scheme_value_def
      signers_line_def cert_line_def clamped_atoi_def digits_nat_def max_int64_def char_class_defs less_eq_char_def
      to_lower_def lower_char_def fingerprint_valid_def fingerprint_length_def check_signed_def)

theorem verified_with_confirmed_certificate_witness:
  "''Verifies'' \<in> set (scan_lines example_output) \<and>
     List.map_filter named_certificate (scan_lines example_output) = [example_digest]"
proof -
  obtain r where "parse_verify_output example_output = Inr r" "check_signed r example_digest = None"
    using example_output_parsed by (auto split: sum.splits)
  from verified_with_confirmed_certificate [OF this] show ?thesis by blast
qed

end
