(* ===== verification/SignerJob.thy ===== *)
theory SignerJob
  imports SignerClient KeystoreBox Policy RecordStore
begin

text \<open>
  One signing job on the gate (\<open>signing/internal/signer/run.go\<close>, from \<open>handle\<close> to \<open>deliver\<close>; opening
  the key from \<open>keystore.go\<close>): the claim is validated, the ledgers are consulted, the unsigned
  package is downloaded and checked by the isolated process, the version code is reserved, and only
  then is the key decrypted, used, and the result recorded, uploaded and completed.

  The state (\<open>gate\<close>) is what the process keeps: its view of the two ledgers, the ready list, a
  counter of the calls it has made, and the trace of what it did, latest event first. The
  environment (\<open>job_env\<close>) answers each call, as a function of the counter: server, disk, checker,
  apksigner, the clock, what other processes append to the ledgers, and when the context is canceled
  (by the heartbeat goroutine or by shutdown). Log output and file names are not modelled.
\<close>

section \<open>The claim\<close>

record claim_job =
  cj_id :: bytes
  cj_tenant :: bytes
  cj_platform :: bytes
  cj_version :: bytes
  cj_build_number :: int
  cj_attempt :: int
  cj_sign_attempt :: int
  cj_commit_sha :: bytes
  cj_unsigned_sha256 :: bytes
  cj_unsigned_size :: int
  cj_sbom_sha256 :: bytes
  cj_native_fingerprint :: bytes

record claim_provenance =
  cp_statement :: bytes
  cp_signature :: bytes
  cp_builder_id :: bytes
  cp_builder_public_key :: bytes
  cp_builder_public_key_sha256 :: bytes

record claim_keystore =
  ck_version :: int
  ck_package :: bytes
  ck_cert :: bytes
  ck_alias :: bytes
  ck_box :: box

record claim =
  cl_job :: claim_job
  cl_provenance :: claim_provenance
  cl_keystore :: claim_keystore
  cl_roots :: "roots option"
  cl_digest :: bytes

record ready_item =
  ri_tenant :: bytes
  ri_package :: bytes
  ri_cert :: bytes
  ri_digest :: bytes

definition validate_claim_job :: "claim_job \<Rightarrow> bytes option" where
  "validate_claim_job j =
     (if \<not> valid_tenant_slug (cj_tenant j) then Some ''job.tenantSlug''
      else if cj_platform j \<noteq> ''android'' then Some ''job.platform''
      else if cj_version j = [] \<or> 64 < length (cj_version j) \<or> \<not> printable_ascii (cj_version j) \<or>
        CHR '' '' \<in> set (cj_version j) then Some ''job.version''
      else if cj_build_number j < 1 \<or> max_version_code < cj_build_number j then Some ''job.buildNumber''
      else if cj_attempt j < 1 then Some ''job.attempt''
      else if \<not> valid_commit (cj_commit_sha j) then Some ''job.commitSha''
      else if \<not> fingerprint_valid (cj_unsigned_sha256 j) then Some ''job.unsignedSha256''
      else if cj_unsigned_size j < 1 \<or> ApkTypes.max_file_size default_apk_limits < cj_unsigned_size j
        then Some ''job.unsignedSize''
      else if \<not> fingerprint_valid (cj_sbom_sha256 j) then Some ''job.sbomSha256''
      else if \<not> valid_native_fingerprint (cj_native_fingerprint j) then Some ''job.nativeFingerprint''
      else None)"

definition validate_claim_provenance :: "claim_provenance \<Rightarrow> bytes option" where
  "validate_claim_provenance p =
     (if \<not> valid_server_id (cp_builder_id p) then Some ''provenance.builderId''
      else if (case b64_decode (cp_builder_public_key p) of None \<Rightarrow> True | Some pub \<Rightarrow> length pub \<noteq> 32)
      then Some ''provenance.builderPublicKey''
      else if cp_statement p = [] \<or> cp_signature p = [] \<or> 65536 < length (cp_statement p) \<or> 256 < length (cp_signature p)
      then Some ''provenance.statement or provenance.signature''
      else None)"

definition validate_claim_keystore :: "claim \<Rightarrow> bytes option" where
  "validate_claim_keystore c =
     (let k = cl_keystore c in
      if ck_version k < 0 then Some ''keystore.keystoreVersion''
      else if \<not> valid_package_name (ck_package k) then Some ''keystore.packageName''
      else if \<not> fingerprint_valid (ck_cert k) then Some ''keystore.certificateSha256''
      else if \<not> box_validate_shape (ck_box k) then Some ''keystore.box''
      else if \<not> fingerprint_valid (cl_digest c) then Some ''trustRootsDigest''
      else None)"

definition validate_claim :: "claim \<Rightarrow> bytes option" where
  "validate_claim c =
     or_else (validate_claim_job (cl_job c))
       (or_else (validate_claim_provenance (cl_provenance c)) (validate_claim_keystore c))"

section \<open>Opening the key\<close>

record expected_identity =
  xi_tenant :: bytes
  xi_package :: bytes
  xi_cert :: bytes

record keystore_material =
  km_plain :: plaintext
  km_p12 :: bytes

datatype keystore_code =
  KeystoreNotForThisSigner | KeystoreDecryptFailed | KeystoreIdentityMismatch | KeystoreUnusable

text \<open>
  \<open>openKeystore\<close>. The key's certificate digest in a PKCS#12 file under a password and an alias
  (\<open>pkcs12.FindKey\<close>, \<open>CertificateSHA256\<close>) is a parameter: None is an error.
\<close>

record keystore_lib =
  kl_prims :: seal_prims
  kl_decode :: "bytes \<Rightarrow> plaintext option"
  kl_find_key :: "bytes \<Rightarrow> bytes \<Rightarrow> bytes \<Rightarrow> bytes option"

definition open_keystore ::
    "crypto \<Rightarrow> keystore_lib \<Rightarrow> box \<Rightarrow> bytes \<Rightarrow> expected_identity \<Rightarrow> keystore_code + keystore_material" where
  "open_keystore K L b priv want =
     (case keystore_open K (kl_prims L) (kl_decode L) b priv of
        Inl KoNotAddressed \<Rightarrow> Inl KeystoreNotForThisSigner
      | Inl _ \<Rightarrow> Inl KeystoreDecryptFailed
      | Inr p \<Rightarrow>
        if pt_tenant p \<noteq> xi_tenant want \<or> pt_package p \<noteq> xi_package want \<or> pt_cert p \<noteq> xi_cert want
        then Inl KeystoreIdentityMismatch
        else case pt_p12 p of
          None \<Rightarrow> Inl KeystoreUnusable
        | Some p12 \<Rightarrow>
          if pt_store_password p \<noteq> pt_key_password p then Inl KeystoreUnusable
          else case kl_find_key L p12 (pt_store_password p) (pt_alias p) of
            None \<Rightarrow> Inl KeystoreUnusable
          | Some got \<Rightarrow>
            if got \<noteq> xi_cert want then Inl KeystoreIdentityMismatch
            else Inr \<lparr>km_plain = p, km_p12 = p12\<rparr>)"

section \<open>Outcomes\<close>

datatype out_kind =
  OutDone | OutStale | OutShutdown | OutDeferred | OutViolation | OutTransient | OutTokenRejected

datatype sign_code =
    ClaimInvalid | SignerRecordsUnavailable | SignerNotPrimary | CertificateNotConfirmed | TenantMismatch
  | TrustRootsNotConfirmed | BoxNotForThisSigner | SignerNotReady | ReservationConflict | JobAlreadyCompleted
  | DownloadFailed | DownloadSizeMismatch | DownloadSha256Mismatch | CheckerFailed | RefusedBy "policy_code option"
  | VersionCodeAlreadyReserved | ReserveNotIncreasing | ReserveOutOfBounds | KeystoreRefused keystore_code
  | UnsignedChangedBeforeSigning | RuntimeFilesFailed | SignerInterrupted | ApksignerFailed | SignedVerifyFailed
  | UploadFailed | UploadMismatch | ServerRejectedSignedPackage | CompleteFailed | NoCode

datatype fatal = FatalRecords store_error | FatalToken | FatalRelease store_error | FatalKeystoreFiles | FatalRuntimeDir

record sign_outcome =
  so_kind :: out_kind
  so_code :: sign_code
  so_fatal :: "fatal option"

definition deferred :: "sign_code \<Rightarrow> sign_outcome" where
  "deferred c = \<lparr>so_kind = OutDeferred, so_code = c, so_fatal = None\<rparr>"
definition violation_outcome :: "sign_code \<Rightarrow> sign_outcome" where
  "violation_outcome c = \<lparr>so_kind = OutViolation, so_code = c, so_fatal = None\<rparr>"
definition transient :: "sign_code \<Rightarrow> sign_outcome" where
  "transient c = \<lparr>so_kind = OutTransient, so_code = c, so_fatal = None\<rparr>"
definition records_unavailable :: "store_error \<Rightarrow> sign_outcome" where
  "records_unavailable e = \<lparr>so_kind = OutDeferred, so_code = SignerRecordsUnavailable, so_fatal = Some (FatalRecords e)\<rparr>"
definition token_rejected :: sign_outcome where
  "token_rejected = \<lparr>so_kind = OutTokenRejected, so_code = NoCode, so_fatal = Some FatalToken\<rparr>"
definition stale_outcome :: sign_outcome where
  "stale_outcome = \<lparr>so_kind = OutStale, so_code = NoCode, so_fatal = None\<rparr>"
definition done_outcome :: sign_outcome where
  "done_outcome = \<lparr>so_kind = OutDone, so_code = NoCode, so_fatal = None\<rparr>"

lemmas outcome_defs = deferred_def violation_outcome_def transient_def records_unavailable_def token_rejected_def
  stale_outcome_def done_outcome_def

end
