(* ===== verification/SignerRun.thy ===== *)
theory SignerRun
  imports SignerJob
begin

text \<open>
  The job itself (\<open>Runner.sign\<close>, \<open>deliver\<close>, \<open>handle\<close>, \<open>report\<close> and \<open>retry\<close> of
  \<open>signing/internal/signer/run.go\<close>), stage by stage over the state of the gate. A stage returns what
  the next stages need, or the outcome with which the job ends there.
\<close>

section \<open>Environment and state\<close>

record download =
  dl_size :: int
  dl_sha256 :: bytes
  dl_header :: "bytes option"

record upload_answer =
  up_sha256 :: bytes
  up_size :: int

datatype cancel_cause = CauseToken | CauseStale | CauseShutdown

record job_env =
  je_crypto :: crypto
  je_codec :: codec
  je_record_key :: bytes
  je_box_key :: bytes
  je_keystore :: keystore_lib
  je_max_jump :: int
  je_max_version_code :: int
  je_retries :: nat
  je_now :: "nat \<Rightarrow> utc"
  je_io :: "nat \<Rightarrow> io"
  je_trust_in :: "nat \<Rightarrow> bytes"
  je_signed_in :: "nat \<Rightarrow> bytes"
  je_heartbeat :: "(nat \<times> bool) option"
  je_shutdown :: "nat option"
  je_download :: "nat \<Rightarrow> call_error + download"
  je_check :: "nat \<Rightarrow> policy_input \<Rightarrow> verdict option"
  je_hash_unsigned :: "nat \<Rightarrow> (bytes \<times> int) option"
  je_write_files :: "nat \<Rightarrow> bool"
  je_remove_files :: "nat \<Rightarrow> bool"
  je_apksigner :: "nat \<Rightarrow> bool"
  je_verify :: "nat \<Rightarrow> bytes option"
  je_hash_signed :: "nat \<Rightarrow> (bytes \<times> int) option"
  je_upload :: "nat \<Rightarrow> call_error + upload_answer"
  je_complete :: "nat \<Rightarrow> call_error + bytes"
  je_answer :: "nat \<Rightarrow> call_error option"
  je_clear_runtime :: "nat \<Rightarrow> bool"

text \<open>What the gate did. A ledger event carries the file at that moment.\<close>

datatype event =
    RoleRead bytes role_change
  | ConfirmationRead bytes confirmation
  | Downloaded bytes download
  | Checked bytes policy_input verdict
  | Reserved bytes reservation "reservation option"
  | Released bytes
  | KeyOpened bytes expected_identity
  | KeyUsed bytes bytes expected_identity
  | PackageVerified bytes bytes bytes
  | SignedRecorded bytes bytes bytes
  | UploadSent bytes bytes
  | CompleteSent bytes bytes bytes
  | CompletionRecorded bytes bytes
  | ReportSent bytes out_kind sign_code

record gate =
  g_trust :: "trust_state log_view"
  g_signed :: "signed_state log_view"
  g_ready :: "ready_item list"
  g_tick :: nat
  g_trace :: "event list"

type_synonym 'a run = "gate \<Rightarrow> (sign_outcome + 'a) \<times> gate"

definition gbind :: "'a run \<Rightarrow> ('a \<Rightarrow> 'b run) \<Rightarrow> 'b run" where
  "gbind m f g = (case m g of (Inl o', g') \<Rightarrow> (Inl o', g') | (Inr x, g') \<Rightarrow> f x g')"

definition greturn :: "'a \<Rightarrow> 'a run" where "greturn x g = (Inr x, g)"

definition gstop :: "sign_outcome \<Rightarrow> 'a run" where "gstop o' g = (Inl o', g)"

definition gunless :: "bool \<Rightarrow> sign_outcome \<Rightarrow> unit run" where
  "gunless ok o' = (if ok then greturn () else gstop o')"

definition emit :: "event \<Rightarrow> unit run" where
  "emit ev g = (Inr (), g\<lparr>g_trace := ev # g_trace g\<rparr>)"

text \<open>A call to the environment: its answer, and the counter moves on.\<close>

definition ask :: "(nat \<Rightarrow> 'a) \<Rightarrow> 'a run" where
  "ask f g = (Inr (f (g_tick g)), g\<lparr>g_tick := Suc (g_tick g)\<rparr>)"

text \<open>The cause with which the job's context is canceled at a moment, and \<open>ctx.Err() \<noteq> nil\<close>.\<close>

definition job_cause :: "job_env \<Rightarrow> nat \<Rightarrow> cancel_cause option" where
  "job_cause E t =
     (case je_heartbeat E of
        Some (n, token) \<Rightarrow>
          if n \<le> t \<and> (case je_shutdown E of None \<Rightarrow> True | Some s \<Rightarrow> n \<le> s)
          then Some (if token then CauseToken else CauseStale)
          else if (case je_shutdown E of None \<Rightarrow> False | Some s \<Rightarrow> s \<le> t) then Some CauseShutdown else None
      | None \<Rightarrow> if (case je_shutdown E of None \<Rightarrow> False | Some s \<Rightarrow> s \<le> t) then Some CauseShutdown else None)"

definition canceled :: "job_env \<Rightarrow> gate \<Rightarrow> bool" where
  "canceled E g \<longleftrightarrow> job_cause E (g_tick g) \<noteq> None"

definition if_canceled :: "job_env \<Rightarrow> sign_outcome \<Rightarrow> unit run" where
  "if_canceled E o' g = (if canceled E g then (Inl o', g) else (Inr (), g))"

section \<open>The ledgers\<close>

definition own_box_digest :: "job_env \<Rightarrow> bytes" where
  "own_box_digest E = sha256_hex (je_crypto E) (x_public (kl_prims (je_keystore E)) (je_box_key E))"

text \<open>
  Reading a ledger. Before each call other processes may have appended; a shared lock that cannot be
  taken is an error that leaves the view as it is.
\<close>

definition trust_view :: "job_env \<Rightarrow> gate \<Rightarrow> trust_state log_view" where
  "trust_view E g = (g_trust g)\<lparr>lv_disk := lv_disk (g_trust g) @ je_trust_in E (g_tick g)\<rparr>"

definition signed_view_of :: "job_env \<Rightarrow> gate \<Rightarrow> signed_state log_view" where
  "signed_view_of E g = (g_signed g)\<lparr>lv_disk := lv_disk (g_signed g) @ je_signed_in E (g_tick g)\<rparr>"

definition read_locked :: "crypto \<Rightarrow> codec \<Rightarrow> 's applier \<Rightarrow> io \<Rightarrow> 's log_view \<Rightarrow> ('s \<Rightarrow> 'r) \<Rightarrow> (store_error + 'r) \<times> 's log_view" where
  "read_locked K C ap io lv fn =
     (if lv_broken lv = None \<and> io = IoLockFails then (Inl SeLock, lv) else read_log K C ap lv fn)"

definition read_trust :: "job_env \<Rightarrow> (trust_state \<Rightarrow> 'r) \<Rightarrow> (store_error + 'r) run" where
  "read_trust E fn g =
     (let (res, lv) = read_locked (je_crypto E) (je_codec E) (apply_trust (je_crypto E) (cd_data (je_codec E)))
            (je_io E (g_tick g)) (trust_view E g) fn
      in (Inr res, g\<lparr>g_trust := lv, g_tick := Suc (g_tick g)\<rparr>))"

definition read_signed :: "job_env \<Rightarrow> (signed_state \<Rightarrow> 'r) \<Rightarrow> (store_error + 'r) run" where
  "read_signed E fn g =
     (let (res, lv) = read_locked (je_crypto E) (je_codec E) (apply_signed (cd_data (je_codec E)))
            (je_io E (g_tick g)) (signed_view_of E g) fn
      in (Inr res, g\<lparr>g_signed := lv, g_tick := Suc (g_tick g)\<rparr>))"

text \<open>A writing method of the store on \<open>signed.jsonl\<close>.\<close>

definition write_signed ::
    "job_env \<Rightarrow> (crypto \<Rightarrow> codec \<Rightarrow> bytes \<Rightarrow> utc \<Rightarrow> io \<Rightarrow> signed_state log_view \<Rightarrow> (store_error + 'r) \<times> signed_state log_view) \<Rightarrow>
     (store_error + 'r) run" where
  "write_signed E method g =
     (let (res, lv) = method (je_crypto E) (je_codec E) (je_record_key E) (je_now E (g_tick g)) (je_io E (g_tick g))
            (signed_view_of E g)
      in (Inr res, g\<lparr>g_signed := lv, g_tick := Suc (g_tick g)\<rparr>))"

text \<open>\<open>err \<noteq> nil\<close> of a ledger call ends the job with the records unavailable.\<close>

definition need :: "(store_error + 'r) run \<Rightarrow> 'r run" where
  "need m = gbind m (\<lambda>res. case res of Inl e \<Rightarrow> gstop (records_unavailable e) | Inr x \<Rightarrow> greturn x)"

definition emit_trust :: "(bytes \<Rightarrow> event) \<Rightarrow> unit run" where
  "emit_trust ev g = emit (ev (lv_disk (g_trust g))) g"

definition emit_signed :: "(bytes \<Rightarrow> event) \<Rightarrow> unit run" where
  "emit_signed ev g = emit (ev (lv_disk (g_signed g))) g"

section \<open>Retrying calls\<close>

text \<open>
  \<open>retry\<close>: at most one call more than there are delays. While it waits the context may be canceled;
  the wait is one tick.
\<close>

fun retry :: "job_env \<Rightarrow> nat \<Rightarrow> (call_error + 'a) run \<Rightarrow> (call_error + 'a) run" where
  "retry E 0 call g = call g"
| "retry E (Suc k) call g =
     (case call g of
        (Inl o', g') \<Rightarrow> (Inl o', g')
      | (Inr (Inr x), g') \<Rightarrow> (Inr (Inr x), g')
      | (Inr (Inl e), g') \<Rightarrow>
          if api_stale e \<or> \<not> is_transient e \<or> canceled E g' then (Inr (Inl e), g')
          else let g'' = g'\<lparr>g_tick := Suc (g_tick g')\<rparr> in
            if canceled E g'' then (Inr (Inl e), g'') else retry E k call g'')"

section \<open>Before the package is touched\<close>

definition claim_ready :: "claim \<Rightarrow> ready_item" where
  "claim_ready c = \<lparr>ri_tenant = cj_tenant (cl_job c), ri_package = ck_package (cl_keystore c),
     ri_cert = ck_cert (cl_keystore c), ri_digest = cl_digest c\<rparr>"

definition ready_now :: "ready_item \<Rightarrow> bool run" where
  "ready_now it g = (Inr (it \<in> set (g_ready g)), g)"

definition reservation_conflict :: "claim \<Rightarrow> reservation \<Rightarrow> bool" where
  "reservation_conflict c e \<longleftrightarrow>
     rv_package e \<noteq> ck_package (cl_keystore c) \<or> rv_cert e \<noteq> ck_cert (cl_keystore c) \<or>
     rv_unsigned e \<noteq> cj_unsigned_sha256 (cl_job c) \<or> rv_vc e \<noteq> cj_build_number (cl_job c)"

definition admit :: "job_env \<Rightarrow> claim \<Rightarrow> confirmation run" where
  "admit E c =
     (let j = cl_job c; pkg = ck_package (cl_keystore c); cert = ck_cert (cl_keystore c) in
      gbind (gunless (validate_claim c = None) (violation_outcome ClaimInvalid)) (\<lambda>_.
      gbind (need (read_trust E ts_role)) (\<lambda>role.
      gbind (emit_trust (\<lambda>d. RoleRead d role)) (\<lambda>_.
      gbind (gunless (rc_role role = role_primary) (deferred SignerNotPrimary)) (\<lambda>_.
      gbind (need (read_trust E (\<lambda>ts. confirmation_for ts pkg cert))) (\<lambda>found.
      case found of
        None \<Rightarrow> gstop (deferred CertificateNotConfirmed)
      | Some conf \<Rightarrow>
          gbind (emit_trust (\<lambda>d. ConfirmationRead d conf)) (\<lambda>_.
          gbind (gunless (cf_tenant conf = cj_tenant j) (violation_outcome TenantMismatch)) (\<lambda>_.
          gbind (gunless (cl_digest c = cf_roots_digest conf) (deferred TrustRootsNotConfirmed)) (\<lambda>_.
          gbind (gunless (bx_recipient (ck_box (cl_keystore c)) = own_box_digest E) (transient BoxNotForThisSigner)) (\<lambda>_.
          gbind (ready_now (claim_ready c)) (\<lambda>ready.
          gbind (gunless ready (deferred SignerNotReady)) (\<lambda>_. greturn conf))))))))))))"

text \<open>The view of the signed ledger: what is reserved already, and the highest version code.\<close>

definition consult :: "job_env \<Rightarrow> claim \<Rightarrow> signed_view run" where
  "consult E c =
     (let j = cl_job c; pkg = ck_package (cl_keystore c); cert = ck_cert (cl_keystore c) in
      gbind (need (read_signed E (\<lambda>ss. view ss pkg cert (cj_id j) (cj_unsigned_sha256 j)))) (\<lambda>v.
      gbind (gunless (case sv_existing v of None \<Rightarrow> True | Some e \<Rightarrow> \<not> reservation_conflict c e)
               (violation_outcome ReservationConflict)) (\<lambda>_.
      gbind (gunless (case sv_existing v of None \<Rightarrow> True | Some e \<Rightarrow> rv_status e \<noteq> status_completed)
               (violation_outcome JobAlreadyCompleted)) (\<lambda>_.
      greturn v))))"

section \<open>Downloading and checking\<close>

definition download_unsigned :: "job_env \<Rightarrow> claim \<Rightarrow> download run" where
  "download_unsigned E c =
     (let j = cl_job c in
      gbind (retry E (je_retries E) (ask (je_download E))) (\<lambda>res.
      case res of
        Inl e \<Rightarrow>
          if is_token_rejected e then gstop token_rejected
          else if api_stale e then gstop stale_outcome
          else gstop (transient DownloadFailed)
      | Inr dl \<Rightarrow>
          gbind (emit (Downloaded (cj_id j) dl)) (\<lambda>_.
          gbind (gunless (dl_size dl = cj_unsigned_size j) (violation_outcome DownloadSizeMismatch)) (\<lambda>_.
          gbind (gunless (\<not> (dl_sha256 dl \<noteq> cj_unsigned_sha256 j \<or>
                     (case dl_header dl of None \<Rightarrow> False | Some h \<Rightarrow> h \<noteq> cj_unsigned_sha256 j)))
                  (violation_outcome DownloadSha256Mismatch)) (\<lambda>_.
          greturn dl)))))"

definition check_input :: "job_env \<Rightarrow> claim \<Rightarrow> confirmation \<Rightarrow> signed_view \<Rightarrow> builder_trust list \<Rightarrow> download \<Rightarrow> policy_input" where
  "check_input E c conf v builders dl =
     (let j = cl_job c; p = cl_provenance c in
      \<lparr>in_version = input_version,
       in_job = \<lparr>job_id = cj_id j, job_tenant_slug = cj_tenant j, job_version = cj_version j,
         job_build_number = cj_build_number j, job_attempt = cj_attempt j, job_sign_attempt = cj_sign_attempt j,
         job_commit_sha = cj_commit_sha j, job_unsigned_sha256 = cj_unsigned_sha256 j,
         job_unsigned_size = cj_unsigned_size j, job_sbom_sha256 = cj_sbom_sha256 j,
         job_native_fingerprint = cj_native_fingerprint j\<rparr>,
       in_provenance = \<lparr>pv_statement = cp_statement p, pv_signature = cp_signature p,
         pv_builder_id = cp_builder_id p, pv_builder_public_key = cp_builder_public_key p\<rparr>,
       in_builders = map (\<lambda>b. \<lparr>tb_id = bt_builder_id b, tb_key_sha256 = bt_key_sha256 b\<rparr>) builders,
       in_confirmed = \<lparr>cn_tenant_slug = cf_tenant conf, cn_package_name = cf_package conf,
         cn_certificate_sha256 = cf_cert conf, cn_trust_roots = cf_roots conf, cn_min_sdk = cf_min_sdk conf,
         cn_target_sdk = cf_target_sdk conf, cn_first_sign_max = cf_first_sign_max conf\<rparr>,
       in_signed = \<lparr>sg_has_max = (sv_max v \<noteq> None), sg_max_version_code = (case sv_max v of None \<Rightarrow> 0 | Some x \<Rightarrow> x)\<rparr>,
       in_limits = \<lparr>pol_max_jump = je_max_jump E, pol_max_version_code = je_max_version_code E\<rparr>,
       in_apk_size = dl_size dl\<rparr>)"

definition facts_describe :: "claim \<Rightarrow> confirmation \<Rightarrow> facts \<Rightarrow> bool" where
  "facts_describe c conf f \<longleftrightarrow>
     \<not> (fa_package_name f \<noteq> cf_package conf \<or> fa_version_code f \<noteq> cj_build_number (cl_job c) \<or>
        fa_version_name f \<noteq> cj_version (cl_job c) \<or> fa_native_fingerprint f \<noteq> cj_native_fingerprint (cl_job c) \<or>
        fa_native_fingerprint_source f \<noteq> native_fingerprint_source)"

definition run_check :: "job_env \<Rightarrow> claim \<Rightarrow> confirmation \<Rightarrow> policy_input \<Rightarrow> download \<Rightarrow> facts run" where
  "run_check E c conf inp dl =
     gbind (ask (\<lambda>t. je_check E t inp)) (\<lambda>res.
     gbind (if_canceled E (transient CheckerFailed)) (\<lambda>_.
     case res of
       None \<Rightarrow> gstop (transient CheckerFailed)
     | Some vd \<Rightarrow>
         gbind (emit (Checked (cj_id (cl_job c)) inp vd)) (\<lambda>_.
         gbind (gunless (vd_ok vd) (violation_outcome (RefusedBy (vd_code vd)))) (\<lambda>_.
         case vd_facts vd of
           None \<Rightarrow> gstop (transient CheckerFailed)
         | Some f \<Rightarrow>
             gbind (gunless (vd_checked_sha256 vd = dl_sha256 dl \<and> facts_describe c conf f) (transient CheckerFailed))
               (\<lambda>_. greturn f)))))"

section \<open>Reserving the version code\<close>

definition claim_reservation :: "claim \<Rightarrow> confirmation \<Rightarrow> download \<Rightarrow> reservation" where
  "claim_reservation c conf dl =
     \<lparr>rv_job_id = cj_id (cl_job c), rv_attempt = cj_sign_attempt (cl_job c), rv_tenant = cf_tenant conf,
      rv_package = cf_package conf, rv_cert = cf_cert conf, rv_vc = cj_build_number (cl_job c),
      rv_unsigned = dl_sha256 dl, rv_status = [], rv_signed = [], rv_release = [], rv_source = [],
      rv_reserved_at = [], rv_updated_at = []\<rparr>"

definition claim_limits :: "job_env \<Rightarrow> confirmation \<Rightarrow> reserve_limits" where
  "claim_limits E conf = \<lparr>lim_max_vc = je_max_version_code E, lim_max_jump = je_max_jump E,
     lim_first_sign_max = cf_first_sign_max conf\<rparr>"

definition reserve_refused :: "store_error \<Rightarrow> sign_outcome" where
  "reserve_refused e =
     (case e of
        SeRefused ErrVersionCodeTaken \<Rightarrow> violation_outcome VersionCodeAlreadyReserved
      | SeRefused ErrJobConflict \<Rightarrow> violation_outcome ReservationConflict
      | SeRefused ErrVersionCodeNotIncreasing \<Rightarrow> violation_outcome ReserveNotIncreasing
      | SeRefused ErrVersionCodeOutOfBounds \<Rightarrow> violation_outcome ReserveOutOfBounds
      | _ \<Rightarrow> records_unavailable e)"

text \<open>The result says whether the reservation may be released again while nothing has left the machine.\<close>

definition reserve_stage :: "job_env \<Rightarrow> claim \<Rightarrow> confirmation \<Rightarrow> download \<Rightarrow> bool run" where
  "reserve_stage E c conf dl =
     (let r = claim_reservation c conf dl in
      gbind (write_signed E (\<lambda>K C priv now io lv. reserve K C priv now io lv r (claim_limits E conf))) (\<lambda>res.
      case res of
        Inl e \<Rightarrow> gstop (reserve_refused e)
      | Inr existing \<Rightarrow>
          gbind (emit_signed (\<lambda>d. Reserved d r existing)) (\<lambda>_.
          gbind (gunless (case existing of None \<Rightarrow> True | Some x \<Rightarrow> rv_status x \<noteq> status_completed)
                  (violation_outcome JobAlreadyCompleted)) (\<lambda>_.
          greturn (case existing of None \<Rightarrow> True | Some x \<Rightarrow> rv_status x = status_reserved)))))"

text \<open>
  \<open>unsent\<close>: a stage that ends the job before the signed package is recorded releases the
  reservation, if it may be released.
\<close>

definition auto_release_operator :: bytes where "auto_release_operator = ''signer-run''"

text \<open>The codes a stage after the reservation ends with, as they appear in the reason.\<close>

definition release_code_text :: "sign_code \<Rightarrow> bytes" where
  "release_code_text c =
     (case c of
        KeystoreRefused KeystoreNotForThisSigner \<Rightarrow> ''KEYSTORE_NOT_FOR_THIS_SIGNER''
      | KeystoreRefused KeystoreDecryptFailed \<Rightarrow> ''KEYSTORE_DECRYPT_FAILED''
      | KeystoreRefused KeystoreIdentityMismatch \<Rightarrow> ''KEYSTORE_IDENTITY_MISMATCH''
      | KeystoreRefused KeystoreUnusable \<Rightarrow> ''KEYSTORE_UNUSABLE''
      | UnsignedChangedBeforeSigning \<Rightarrow> ''UNSIGNED_CHANGED_BEFORE_SIGNING''
      | RuntimeFilesFailed \<Rightarrow> ''RUNTIME_FILES_FAILED''
      | SignerInterrupted \<Rightarrow> ''SIGNER_INTERRUPTED''
      | ApksignerFailed \<Rightarrow> ''APKSIGNER_FAILED''
      | SignedVerifyFailed \<Rightarrow> ''SIGNED_VERIFY_FAILED''
      | _ \<Rightarrow> [])"

definition release_reason :: "sign_code \<Rightarrow> bytes" where
  "release_reason c = ''released automatically, no signed package left this machine: '' @ release_code_text c"

definition unsent :: "job_env \<Rightarrow> bytes \<Rightarrow> bool \<Rightarrow> 'a run \<Rightarrow> 'a run" where
  "unsent E job releasable m g =
     (case m g of
        (Inr x, g') \<Rightarrow> (Inr x, g')
      | (Inl o', g') \<Rightarrow>
          if \<not> releasable then (Inl o', g')
          else gbind (write_signed E (\<lambda>K C priv now io lv.
                       abandon K C priv now io lv job auto_release_operator (release_reason (so_code o')))) (\<lambda>res.
            case res of
              Inl e \<Rightarrow> gstop (if so_fatal o' = None then o'\<lparr>so_fatal := Some (FatalRelease e)\<rparr> else o')
            | Inr _ \<Rightarrow> gbind (emit (Released job)) (\<lambda>_. gstop o')) g')"

section \<open>Signing\<close>

definition claim_identity :: "confirmation \<Rightarrow> expected_identity" where
  "claim_identity conf = \<lparr>xi_tenant = cf_tenant conf, xi_package = cf_package conf, xi_cert = cf_cert conf\<rparr>"

definition use_key :: "job_env \<Rightarrow> claim \<Rightarrow> confirmation \<Rightarrow> download \<Rightarrow> unit run" where
  "use_key E c conf dl =
     (let job = cj_id (cl_job c); want = claim_identity conf in
      case open_keystore (je_crypto E) (je_keystore E) (ck_box (cl_keystore c)) (je_box_key E) want of
        Inl code \<Rightarrow> gstop (violation_outcome (KeystoreRefused code))
      | Inr material \<Rightarrow>
          gbind (emit (KeyOpened job want)) (\<lambda>_.
          gbind (ask (je_hash_unsigned E)) (\<lambda>h.
          gbind (gunless (h = Some (dl_sha256 dl, dl_size dl)) (transient UnsignedChangedBeforeSigning)) (\<lambda>_.
          gbind (ask (je_write_files E)) (\<lambda>written.
          gbind (gunless written (transient RuntimeFilesFailed)) (\<lambda>_.
          gbind (if_canceled E (transient SignerInterrupted)) (\<lambda>_.
          gbind (emit (KeyUsed job (dl_sha256 dl) want)) (\<lambda>_.
          gbind (ask (je_apksigner E)) (\<lambda>signed_ok.
          gbind (ask (je_remove_files E)) (\<lambda>removed.
          gbind (gunless removed ((transient RuntimeFilesFailed)\<lparr>so_fatal := Some FatalKeystoreFiles\<rparr>)) (\<lambda>_.
          gunless signed_ok (transient ApksignerFailed))))))))))))"

text \<open>The signed package is checked again and hashed; its digest and size.\<close>

definition verify_signed :: "job_env \<Rightarrow> claim \<Rightarrow> confirmation \<Rightarrow> (bytes \<times> int) run" where
  "verify_signed E c conf =
     gbind (ask (je_verify E)) (\<lambda>out.
     case out of
       None \<Rightarrow> gstop (transient SignedVerifyFailed)
     | Some text \<Rightarrow>
         (case parse_verify_output text of
            Inl _ \<Rightarrow> gstop (transient SignedVerifyFailed)
          | Inr r \<Rightarrow>
              gbind (gunless (check_signed r (cf_cert conf) = None) (transient SignedVerifyFailed)) (\<lambda>_.
              gbind (ask (je_hash_signed E)) (\<lambda>h.
              case h of
                None \<Rightarrow> gstop (transient SignedVerifyFailed)
              | Some (sha, size_of) \<Rightarrow>
                  gbind (emit (PackageVerified (cj_id (cl_job c)) sha text)) (\<lambda>_.
                  gbind (if_canceled E (transient SignerInterrupted)) (\<lambda>_.
                  greturn (sha, size_of)))))))"

definition record_signed :: "job_env \<Rightarrow> claim \<Rightarrow> download \<Rightarrow> bytes \<Rightarrow> unit run" where
  "record_signed E c dl sha =
     (let job = cj_id (cl_job c) in
      gbind (need (write_signed E (\<lambda>K C priv now io lv. mark_signed K C priv now io lv job (dl_sha256 dl) sha))) (\<lambda>_.
      emit (SignedRecorded job (dl_sha256 dl) sha)))"

section \<open>Delivering\<close>

definition max_upload_rounds :: nat where "max_upload_rounds = 3"

text \<open>Upload and complete; another round while the server says that the upload is missing.\<close>

definition upload_round :: "job_env \<Rightarrow> claim \<Rightarrow> bytes \<Rightarrow> int \<Rightarrow> unit run" where
  "upload_round E c sha size_of =
     (let job = cj_id (cl_job c) in
      gbind (retry E (je_retries E) (gbind (emit (UploadSent job sha)) (\<lambda>_. ask (je_upload E)))) (\<lambda>res.
      case res of
        Inl e \<Rightarrow>
          if is_token_rejected e then gstop token_rejected
          else if api_stale e then gstop stale_outcome
          else gstop (transient UploadFailed)
      | Inr up \<Rightarrow> gunless (up_sha256 up = sha \<and> up_size up = size_of) (transient UploadMismatch)))"

definition complete_call :: "job_env \<Rightarrow> claim \<Rightarrow> download \<Rightarrow> bytes \<Rightarrow> (call_error + bytes) run" where
  "complete_call E c dl sha =
     retry E (je_retries E)
       (gbind (emit (CompleteSent (cj_id (cl_job c)) (dl_sha256 dl) sha)) (\<lambda>_. ask (je_complete E)))"

text \<open>The rounds that are left after this one.\<close>

fun deliver_rounds :: "job_env \<Rightarrow> claim \<Rightarrow> download \<Rightarrow> bytes \<Rightarrow> int \<Rightarrow> nat \<Rightarrow> bytes run" where
  "deliver_rounds E c dl sha size_of left =
     gbind (upload_round E c sha size_of) (\<lambda>_.
     gbind (complete_call E c dl sha) (\<lambda>res.
     case res of
       Inr release \<Rightarrow> greturn release
     | Inl e \<Rightarrow>
         if is_token_rejected e then gstop token_rejected
         else if api_stale e then gstop stale_outcome
         else if api_code e = Some code_signed_artifact_missing \<and> 0 < left
         then (case left of 0 \<Rightarrow> gstop (transient CompleteFailed) | Suc k \<Rightarrow> deliver_rounds E c dl sha size_of k)
         else if api_code e = Some code_sign_result_mismatch \<or> api_code e = Some code_signed_artifact_mismatch
         then gstop (violation_outcome ServerRejectedSignedPackage)
         else gstop (transient CompleteFailed)))"

declare deliver_rounds.simps [simp del]

definition record_completion :: "job_env \<Rightarrow> claim \<Rightarrow> download \<Rightarrow> bytes \<Rightarrow> bytes \<Rightarrow> sign_outcome run" where
  "record_completion E c dl sha release =
     (let job = cj_id (cl_job c) in
      gbind (write_signed E (\<lambda>K C priv now io lv. complete K C priv now io lv job (dl_sha256 dl) sha release)) (\<lambda>res.
      case res of
        Inl e \<Rightarrow> greturn (if e = SeRefused ErrAlreadyCompleted then done_outcome
          else done_outcome\<lparr>so_fatal := Some (FatalRecords e)\<rparr>)
      | Inr _ \<Rightarrow> gbind (emit (CompletionRecorded job release)) (\<lambda>_. greturn done_outcome)))"

definition deliver :: "job_env \<Rightarrow> claim \<Rightarrow> download \<Rightarrow> bytes \<Rightarrow> int \<Rightarrow> sign_outcome run" where
  "deliver E c dl sha size_of =
     gbind (deliver_rounds E c dl sha size_of (max_upload_rounds - 1)) (\<lambda>release.
     gbind (gunless (valid_release_id release) (transient CompleteFailed)) (\<lambda>_.
     record_completion E c dl sha release))"

section \<open>The whole job\<close>

definition sign :: "job_env \<Rightarrow> claim \<Rightarrow> sign_outcome run" where
  "sign E c =
     gbind (admit E c) (\<lambda>conf.
     gbind (consult E c) (\<lambda>v.
     gbind (need (read_trust E trusted_builders)) (\<lambda>builders.
     gbind (download_unsigned E c) (\<lambda>dl.
     gbind (run_check E c conf (check_input E c conf v builders dl) dl) (\<lambda>f.
     gbind (reserve_stage E c conf dl) (\<lambda>releasable.
     gbind (unsent E (cj_id (cl_job c)) releasable
              (gbind (use_key E c conf dl) (\<lambda>_. verify_signed E c conf))) (\<lambda>(sha, size_of).
     gbind (record_signed E c dl sha) (\<lambda>_.
     deliver E c dl sha size_of))))))))"

definition job_outcome :: "(sign_outcome + sign_outcome) \<Rightarrow> sign_outcome" where
  "job_outcome res = (case res of Inl o' \<Rightarrow> o' | Inr o' \<Rightarrow> o')"

text \<open>What \<open>handle\<close> makes of the outcome when the context was canceled.\<close>

definition settle :: "job_env \<Rightarrow> nat \<Rightarrow> sign_outcome \<Rightarrow> sign_outcome" where
  "settle E t o' =
     (if job_cause E t = Some CauseToken \<and> so_kind o' \<noteq> OutDone then token_rejected
      else if job_cause E t = Some CauseStale \<and> so_kind o' \<noteq> OutDone
      then \<lparr>so_kind = OutStale, so_code = NoCode, so_fatal = so_fatal o'\<rparr>
      else if (case je_shutdown E of None \<Rightarrow> False | Some s \<Rightarrow> s \<le> t) \<and>
        so_kind o' \<noteq> OutDone \<and> so_kind o' \<noteq> OutStale \<and> so_kind o' \<noteq> OutTokenRejected
      then \<lparr>so_kind = OutShutdown, so_code = NoCode, so_fatal = so_fatal o'\<rparr>
      else o')"

text \<open>\<open>report\<close>: one call, retried unless the gate is stopping; its failure is only logged.\<close>

definition report :: "job_env \<Rightarrow> claim \<Rightarrow> sign_outcome \<Rightarrow> unit run" where
  "report E c o' g =
     (let call = gbind (emit (ReportSent (cj_id (cl_job c)) (so_kind o') (so_code o'))) (\<lambda>_.
                   gbind (ask (je_answer E)) (\<lambda>a. greturn (case a of None \<Rightarrow> Inr () | Some e \<Rightarrow> Inl e)))
      in if so_kind o' \<in> {OutDone, OutStale, OutTokenRejected} then (Inr (), g)
         else if so_kind o' = OutShutdown then gbind call (\<lambda>_. greturn ()) g
         else gbind (retry E (je_retries E) call) (\<lambda>_. greturn ()) g)"

definition handle :: "job_env \<Rightarrow> claim \<Rightarrow> gate \<Rightarrow> sign_outcome \<times> gate" where
  "handle E c g0 =
     (if \<not> valid_server_id (cj_id (cl_job c)) \<or> cj_sign_attempt (cl_job c) < 1
      then (\<lparr>so_kind = OutViolation, so_code = NoCode, so_fatal = None\<rparr>, g0)
      else
        let (res, g1) = sign E c g0;
            o1 = settle E (g_tick g1) (job_outcome res);
            cleared = je_clear_runtime E (g_tick g1);
            g2 = g1\<lparr>g_tick := Suc (g_tick g1)\<rparr>;
            o2 = (if cleared \<or> so_fatal o1 \<noteq> None then o1 else o1\<lparr>so_fatal := Some FatalRuntimeDir\<rparr>);
            (_, g3) = report E c o2 g2
        in (o2, g3))"

end
