(* ===== verification/SignerProps.thy ===== *)
theory SignerProps
  imports SignerRun StoreProps
begin

text \<open>
  What a signing job guarantees: rules for the run of a stage (weakest preconditions of the gate's
  state and error monad), what the ledgers say at an event, and the order of events that every
  trace of a job obeys, whatever the environment answers.
\<close>

section \<open>Rules\<close>

definition wp :: "'a run \<Rightarrow> ('a \<Rightarrow> gate \<Rightarrow> bool) \<Rightarrow> (sign_outcome \<Rightarrow> gate \<Rightarrow> bool) \<Rightarrow> gate \<Rightarrow> bool" where
  "wp m Q F g \<longleftrightarrow> (case m g of (Inr x, g') \<Rightarrow> Q x g' | (Inl o', g') \<Rightarrow> F o' g')"

named_theorems wp_simps \<open>the weakest precondition of each combinator\<close>

lemma wp_gbind [wp_simps]: "wp (gbind m f) Q F g \<longleftrightarrow> wp m (\<lambda>x. wp (f x) Q F) F g"
  by (simp add: wp_def gbind_def split: prod.split sum.split)

lemma wp_greturn [wp_simps]: "wp (greturn x) Q F g \<longleftrightarrow> Q x g"
  by (simp add: wp_def greturn_def)

lemma wp_gstop [wp_simps]: "wp (gstop o') Q F g \<longleftrightarrow> F o' g"
  by (simp add: wp_def gstop_def)

lemma wp_gunless [wp_simps]: "wp (gunless ok o') Q F g \<longleftrightarrow> (if ok then Q () g else F o' g)"
  by (simp add: gunless_def wp_simps)

lemma wp_emit [wp_simps]: "wp (emit ev) Q F g \<longleftrightarrow> Q () (g\<lparr>g_trace := ev # g_trace g\<rparr>)"
  by (simp add: wp_def emit_def)

lemma wp_emit_trust [wp_simps]:
  "wp (emit_trust ev) Q F g \<longleftrightarrow> Q () (g\<lparr>g_trace := ev (lv_disk (g_trust g)) # g_trace g\<rparr>)"
  by (simp add: wp_def emit_trust_def emit_def)

lemma wp_emit_signed [wp_simps]:
  "wp (emit_signed ev) Q F g \<longleftrightarrow> Q () (g\<lparr>g_trace := ev (lv_disk (g_signed g)) # g_trace g\<rparr>)"
  by (simp add: wp_def emit_signed_def emit_def)

lemma wp_ask [wp_simps]: "wp (ask f) Q F g \<longleftrightarrow> Q (f (g_tick g)) (g\<lparr>g_tick := Suc (g_tick g)\<rparr>)"
  by (simp add: wp_def ask_def)

lemma wp_if_canceled [wp_simps]: "wp (if_canceled E o') Q F g \<longleftrightarrow> (if canceled E g then F o' g else Q () g)"
  by (simp add: wp_def if_canceled_def)

lemma wp_ready_now [wp_simps]: "wp (ready_now it) Q F g \<longleftrightarrow> Q (it \<in> set (g_ready g)) g"
  by (simp add: wp_def ready_now_def)

lemma wp_need [wp_simps]:
  "wp (need m) Q F g \<longleftrightarrow> wp m (\<lambda>res g'. case res of Inl e \<Rightarrow> F (records_unavailable e) g' | Inr x \<Rightarrow> Q x g') F g"
  by (simp add: wp_def need_def gbind_def gstop_def greturn_def split: prod.split sum.split)

lemma wp_mono:
  assumes "wp m Q F g" and "\<And>x g'. Q x g' \<Longrightarrow> Q' x g'" and "\<And>o' g'. F o' g' \<Longrightarrow> F' o' g'"
  shows "wp m Q' F' g"
  using assms by (auto simp: wp_def split: prod.splits sum.splits)

section \<open>What the ledgers say\<close>

type_synonym bases = "(verifier \<times> trust_state) \<times> (verifier \<times> signed_state)"

text \<open>
  The bases are the verifiers and states from which the two files are replayed: for whole files
  those of \<open>open_store\<close>, for what is read during a job those the process had before it.
\<close>

definition trust_says :: "job_env \<Rightarrow> bases \<Rightarrow> bytes \<Rightarrow> trust_state \<Rightarrow> bool" where
  "trust_says E Z d ts \<longleftrightarrow> (\<exists>v. feed (je_crypto E) (je_codec E) (apply_trust (je_crypto E) (cd_data (je_codec E)))
     (fst Z) d = Inr (v, ts))"

definition signed_says :: "job_env \<Rightarrow> bases \<Rightarrow> bytes \<Rightarrow> signed_state \<Rightarrow> bool" where
  "signed_says E Z d ss \<longleftrightarrow> (\<exists>v. feed (je_crypto E) (je_codec E) (apply_signed (cd_data (je_codec E)))
     (snd Z) d = Inr (v, ss))"

text \<open>The file replays to a state whose plan is this one, and one line per record was added to it.\<close>

definition appended :: "job_env \<Rightarrow> bases \<Rightarrow> bytes \<Rightarrow> (signed_state \<Rightarrow> record_error + ('r \<times> payload list)) \<Rightarrow> 'r \<Rightarrow> bool" where
  "appended E Z d plan r \<longleftrightarrow> (\<exists>d0 data ss items. d = d0 @ data \<and> signed_says E Z d0 ss \<and> plan ss = Inr (r, items) \<and>
     length (file_lines data) = length items)"

text \<open>A view is broken for good, or its state is the replay of what it has read.\<close>

definition view_ok :: "crypto \<Rightarrow> codec \<Rightarrow> 's applier \<Rightarrow> verifier \<times> 's \<Rightarrow> 's log_view \<Rightarrow> bool" where
  "view_ok K C ap start lv \<longleftrightarrow> lv_broken lv \<noteq> None \<or> consistent K C ap start lv"

definition gate_ok :: "job_env \<Rightarrow> bases \<Rightarrow> gate \<Rightarrow> bool" where
  "gate_ok E Z g \<longleftrightarrow>
     view_ok (je_crypto E) (je_codec E) (apply_trust (je_crypto E) (cd_data (je_codec E)))
       (fst Z) (g_trust g) \<and>
     view_ok (je_crypto E) (je_codec E) (apply_signed (cd_data (je_codec E)))
       (snd Z) (g_signed g)"

lemma gate_ok_update [simp]:
  "gate_ok E Z (g\<lparr>g_trace := t\<rparr>) = gate_ok E Z g" "gate_ok E Z (g\<lparr>g_tick := n\<rparr>) = gate_ok E Z g"
  by (simp_all add: gate_ok_def)

lemma view_ok_grow:
  assumes "view_ok K C ap start lv"
  shows "view_ok K C ap start (lv\<lparr>lv_disk := lv_disk lv @ extra\<rparr>)"
  using assms by (auto simp: view_ok_def consistent_def)

lemma view_ok_refresh:
  assumes "view_ok K C ap start lv" and "refresh K C ap lv = (er, lv')"
  shows "view_ok K C ap start lv' \<and>
    (er = None \<longrightarrow> lv_disk lv' = lv_disk lv \<and> consistent K C ap start lv' \<and>
      feed K C ap start (lv_disk lv') = Inr (lf_verifier (lv_file lv'), lv_state lv'))"
proof (cases er)
  case (Some e)
  then show ?thesis using assms(2) by (simp add: view_ok_def refresh_broken)
next
  case None
  then have "lv_broken lv = None" using assms(2) by (auto simp: refresh_def split: option.splits)
  then have c: "consistent K C ap start lv" using assms(1) by (simp add: view_ok_def)
  show ?thesis using refresh_ok [OF c] assms(2) None by (auto simp: view_ok_def consistent_def caught_up_def)
qed

lemma view_ok_read:
  assumes "view_ok K C ap start lv" and "read_locked K C ap io lv fn = (res, lv')"
  shows "view_ok K C ap start lv' \<and>
    (\<forall>x. res = Inr x \<longrightarrow> (\<exists>v s. feed K C ap start (lv_disk lv') = Inr (v, s) \<and> x = fn s))"
proof (cases "lv_broken lv = None \<and> io = IoLockFails")
  case True
  then show ?thesis using assms by (auto simp: read_locked_def)
next
  case False
  obtain er lv1 where r: "refresh K C ap lv = (er, lv1)" by fastforce
  have "res = (case er of None \<Rightarrow> Inr (fn (lv_state lv1)) | Some e \<Rightarrow> Inl e)" "lv' = lv1"
    using assms(2) False by (auto simp: read_locked_def read_log_def r split: option.splits)
  then show ?thesis using view_ok_refresh [OF assms(1) r] by (auto split: option.splits)
qed

text \<open>An append on any disk: on success the plan is that of the replay of the file before it.\<close>

lemma view_ok_append:
  assumes "view_ok K C ap start lv" and "append_records K C ap priv now io lv plan = (res, lv')"
  shows "view_ok K C ap start lv' \<and>
    (\<forall>x. res = Inr x \<longrightarrow> (\<exists>v s items data. feed K C ap start (lv_disk lv) = Inr (v, s) \<and> plan s = Inr (x, items) \<and>
       lv_disk lv' = lv_disk lv @ data \<and> length (file_lines data) = length items))"
proof (cases "io = IoLockFails")
  case True
  then show ?thesis using assms by (auto simp: append_records_def)
next
  case nl: False
  obtain er lv1 where r: "refresh K C ap lv = (er, lv1)" by fastforce
  note v1 = view_ok_refresh [OF assms(1) r]
  show ?thesis
  proof (cases er)
    case (Some e)
    then show ?thesis using assms(2) v1 nl by (auto simp: append_records_def r)
  next
    case None
    have f1: "feed K C ap start (lv_disk lv) = Inr (lf_verifier (lv_file lv1), lv_state lv1)"
      and c1: "consistent K C ap start lv1" "lv_disk lv1 = lv_disk lv" "view_ok K C ap start lv1"
      using v1 None by auto
    show ?thesis
    proof (cases "plan (lv_state lv1)")
      case (Inl e)
      then show ?thesis using assms(2) c1 nl by (auto simp: append_records_def r None)
    next
      case (Inr q)
      obtain x items where q: "plan (lv_state lv1) = Inr (x, items)" using Inr by (cases q) simp
      show ?thesis
      proof (cases "items = []")
        case True
        then have "res = Inr x" "lv' = lv1" using assms(2) nl by (simp_all add: append_records_def r None q)
        then show ?thesis using f1 q c1 True by (auto simp: file_lines_def intro!: exI [of _ "[]"])
      next
        case ne: False
        let ?vs = "(lf_verifier (lv_file lv1), lv_state lv1)"
        show ?thesis
        proof (cases "fold_res (dry_step K C ap priv now) (?vs, []) items")
          case (Inl e)
          then show ?thesis using assms(2) c1 ne nl by (auto simp: append_records_def r None q)
        next
          case (Inr w)
          obtain vs' data where d: "fold_res (dry_step K C ap priv now) (?vs, []) items = Inr (vs', data)"
            using Inr by (cases w) simp
          obtain ls where ls: "data = lines_text ls" "length ls = length items" "list_all no_lf ls"
            "fold_res (feed_step K C ap) ?vs ls = Inr vs'"
            using dry_run_lines [OF d] by auto
          have f2: "feed K C ap ?vs data = Inr vs'" by (simp add: ls(1,4) feed_lines [OF ls(3)])
          consider "lv_broken lv' \<noteq> None" "\<exists>e. res = Inl e"
            | "res = Inr x" "lv' = lv1\<lparr>lv_disk := lv_disk lv1 @ data,
              lv_file := \<lparr>lf_verifier = fst vs', lf_offset = lf_offset (lv_file lv1) + length data\<rparr>, lv_state := snd vs'\<rparr>"
            using assms(2) ne nl f2 by (cases io) (auto simp: append_records_def r None q d split: prod.splits)
          then show ?thesis
          proof cases
            case 1
            then show ?thesis by (auto simp: view_ok_def)
          next
            case 2
            have "feed K C ap start (lv_disk lv @ data) = Inr vs'" using feed_append [OF f1] f2 by simp
            moreover have "lf_offset (lv_file lv1) = length (lv_disk lv1)"
              using r None by (auto simp: refresh_def Let_def split: option.splits sum.splits)
            ultimately have "consistent K C ap start lv'" using c1 by (simp add: 2 consistent_def)
            then show ?thesis using f1 q ls c1(2) by (auto simp: 2 view_ok_def intro!: exI [of _ data])
          qed
        qed
      qed
    qed
  qed
qed

lemma wp_read_trust:
  assumes "gate_ok E Z g"
    and "\<And>res lv. gate_ok E Z (g\<lparr>g_trust := lv, g_tick := Suc (g_tick g)\<rparr>) \<Longrightarrow>
       \<forall>x. res = Inr x \<longrightarrow> (\<exists>ts. trust_says E Z (lv_disk lv) ts \<and> x = fn ts) \<Longrightarrow>
       Q res (g\<lparr>g_trust := lv, g_tick := Suc (g_tick g)\<rparr>)"
  shows "wp (read_trust E fn) Q F g"
proof -
  obtain res lv where r: "read_locked (je_crypto E) (je_codec E) (apply_trust (je_crypto E) (cd_data (je_codec E)))
      (je_io E (g_tick g)) (trust_view E g) fn = (res, lv)"
    by fastforce
  have v: "view_ok (je_crypto E) (je_codec E) (apply_trust (je_crypto E) (cd_data (je_codec E)))
       (fst Z) (trust_view E g)"
    using assms(1) by (simp add: gate_ok_def trust_view_def view_ok_grow)
  note lv = view_ok_read [OF v r]
  have "Q res (g\<lparr>g_trust := lv, g_tick := Suc (g_tick g)\<rparr>)"
    by (rule assms(2)) (use lv assms(1) in \<open>auto simp: gate_ok_def trust_says_def\<close>)
  then show ?thesis by (simp add: wp_def read_trust_def r)
qed

lemma wp_read_signed:
  assumes "gate_ok E Z g"
    and "\<And>res lv. gate_ok E Z (g\<lparr>g_signed := lv, g_tick := Suc (g_tick g)\<rparr>) \<Longrightarrow>
       \<forall>x. res = Inr x \<longrightarrow> (\<exists>ss. signed_says E Z (lv_disk lv) ss \<and> x = fn ss) \<Longrightarrow>
       Q res (g\<lparr>g_signed := lv, g_tick := Suc (g_tick g)\<rparr>)"
  shows "wp (read_signed E fn) Q F g"
proof -
  obtain res lv where r: "read_locked (je_crypto E) (je_codec E) (apply_signed (cd_data (je_codec E)))
      (je_io E (g_tick g)) (signed_view_of E g) fn = (res, lv)"
    by fastforce
  have v: "view_ok (je_crypto E) (je_codec E) (apply_signed (cd_data (je_codec E)))
       (snd Z) (signed_view_of E g)"
    using assms(1) by (simp add: gate_ok_def signed_view_of_def view_ok_grow)
  note lv = view_ok_read [OF v r]
  have "Q res (g\<lparr>g_signed := lv, g_tick := Suc (g_tick g)\<rparr>)"
    by (rule assms(2)) (use lv assms(1) in \<open>auto simp: gate_ok_def signed_says_def\<close>)
  then show ?thesis by (simp add: wp_def read_signed_def r)
qed

text \<open>A method that refuses at once, or appends by this plan.\<close>

lemma wp_write_signed:
  assumes "gate_ok E Z g"
    and "\<And>K C priv now io lv. (\<exists>e. method K C priv now io lv = (Inl e, lv)) \<or>
       method K C priv now io lv = append_records K C (apply_signed (cd_data C)) priv now io lv plan"
    and "\<And>res lv. gate_ok E Z (g\<lparr>g_signed := lv, g_tick := Suc (g_tick g)\<rparr>) \<Longrightarrow>
       \<forall>x. res = Inr x \<longrightarrow> appended E Z (lv_disk lv) plan x \<Longrightarrow>
       Q res (g\<lparr>g_signed := lv, g_tick := Suc (g_tick g)\<rparr>)"
  shows "wp (write_signed E method) Q F g"
proof -
  obtain res lv where r: "method (je_crypto E) (je_codec E) (je_record_key E) (je_now E (g_tick g)) (je_io E (g_tick g))
      (signed_view_of E g) = (res, lv)"
    by fastforce
  have v: "view_ok (je_crypto E) (je_codec E) (apply_signed (cd_data (je_codec E)))
       (snd Z) (signed_view_of E g)"
    using assms(1) by (simp add: gate_ok_def signed_view_of_def view_ok_grow)
  consider e where "res = Inl e" "lv = signed_view_of E g"
    | "append_records (je_crypto E) (je_codec E) (apply_signed (cd_data (je_codec E))) (je_record_key E)
        (je_now E (g_tick g)) (je_io E (g_tick g)) (signed_view_of E g) plan = (res, lv)"
    using assms(2) [of "je_crypto E" "je_codec E" "je_record_key E" "je_now E (g_tick g)" "je_io E (g_tick g)" "signed_view_of E g"] r
    by auto
  then have "gate_ok E Z (g\<lparr>g_signed := lv, g_tick := Suc (g_tick g)\<rparr>) \<and>
      (\<forall>x. res = Inr x \<longrightarrow> appended E Z (lv_disk lv) plan x)"
  proof cases
    case 1
    then show ?thesis using v assms(1) by (auto simp: gate_ok_def)
  next
    case 2
    show ?thesis using view_ok_append [OF v 2] assms(1)
      by (auto simp: gate_ok_def appended_def signed_says_def) blast
  qed
  then show ?thesis using assms(3) by (simp add: wp_def write_signed_def r)
qed

section \<open>What may happen after what\<close>

text \<open>Nothing signed has left the machine, and no signed package has been recorded.\<close>

fun early :: "event \<Rightarrow> bool" where
  "early (SignedRecorded job uns sg) = False"
| "early (UploadSent job sg) = False"
| "early (CompleteSent job uns sg) = False"
| "early (CompletionRecorded job rel) = False"
| "early (ReportSent job k code) = False"
| "early _ = True"

text \<open>This gate is the primary and has confirmed the certificate of the claim, on its own ledger.\<close>

definition admitted :: "job_env \<Rightarrow> bases \<Rightarrow> claim \<Rightarrow> event list \<Rightarrow> confirmation \<Rightarrow> bool" where
  "admitted E Z c tr conf \<longleftrightarrow> validate_claim c = None \<and>
     (\<exists>d ts. RoleRead d (ts_role ts) \<in> set tr \<and> trust_says E Z d ts \<and> rc_role (ts_role ts) = role_primary) \<and>
     (\<exists>d ts. ConfirmationRead d conf \<in> set tr \<and> trust_says E Z d ts \<and>
        confirmation_for ts (ck_package (cl_keystore c)) (ck_cert (cl_keystore c)) = Some conf) \<and>
     cf_tenant conf = cj_tenant (cl_job c) \<and> cl_digest c = cf_roots_digest conf \<and>
     bx_recipient (ck_box (cl_keystore c)) = own_box_digest E"

text \<open>The downloaded package is the one the claim names.\<close>

definition fetched :: "claim \<Rightarrow> event list \<Rightarrow> download \<Rightarrow> bool" where
  "fetched c tr dl \<longleftrightarrow> Downloaded (cj_id (cl_job c)) dl \<in> set tr \<and>
     dl_size dl = cj_unsigned_size (cl_job c) \<and> dl_sha256 dl = cj_unsigned_sha256 (cl_job c)"

text \<open>
  The isolated checker accepted it, on an input made of the claim, the confirmation, what the
  signed ledger says and the builders the trust ledger trusts.
\<close>

definition accepted :: "job_env \<Rightarrow> bases \<Rightarrow> claim \<Rightarrow> event list \<Rightarrow> confirmation \<Rightarrow> download \<Rightarrow> bool" where
  "accepted E Z c tr conf dl \<longleftrightarrow>
     (\<exists>inp vd ds ss dt ts f. Checked (cj_id (cl_job c)) inp vd \<in> set tr \<and>
        signed_says E Z ds ss \<and> trust_says E Z dt ts \<and>
        inp = check_input E c conf (view ss (ck_package (cl_keystore c)) (ck_cert (cl_keystore c)) (cj_id (cl_job c))
                (cj_unsigned_sha256 (cl_job c))) (trusted_builders ts) dl \<and>
        vd_ok vd \<and> vd_facts vd = Some f \<and> vd_checked_sha256 vd = dl_sha256 dl \<and> facts_describe c conf f)"

text \<open>The reservation of this package for this version code is on disk, and is not completed.\<close>

definition reserved_for :: "job_env \<Rightarrow> bases \<Rightarrow> claim \<Rightarrow> event list \<Rightarrow> confirmation \<Rightarrow> download \<Rightarrow> bool" where
  "reserved_for E Z c tr conf dl \<longleftrightarrow>
     (\<exists>d ex. Reserved d (claim_reservation c conf dl) ex \<in> set tr \<and>
        appended E Z d (\<lambda>ss. plan_reserve ss (claim_reservation c conf dl) (claim_limits E conf)) ex \<and>
        (case ex of None \<Rightarrow> True | Some r \<Rightarrow> rv_status r \<noteq> status_completed))"

definition cleared :: "job_env \<Rightarrow> bases \<Rightarrow> claim \<Rightarrow> event list \<Rightarrow> confirmation \<Rightarrow> download \<Rightarrow> bool" where
  "cleared E Z c tr conf dl \<longleftrightarrow> admitted E Z c tr conf \<and> fetched c tr dl \<and> accepted E Z c tr conf dl \<and> reserved_for E Z c tr conf dl"

fun allowed :: "job_env \<Rightarrow> bases \<Rightarrow> claim \<Rightarrow> event \<Rightarrow> event list \<Rightarrow> bool" where
  "allowed E Z c (KeyOpened job want) past \<longleftrightarrow>
     job = cj_id (cl_job c) \<and> (\<exists>conf dl. cleared E Z c past conf dl \<and> want = claim_identity conf)"
| "allowed E Z c (KeyUsed job sha want) past \<longleftrightarrow>
     job = cj_id (cl_job c) \<and> KeyOpened job want \<in> set past \<and>
     (\<exists>conf dl. cleared E Z c past conf dl \<and> want = claim_identity conf \<and> sha = dl_sha256 dl)"
| "allowed E Z c (PackageVerified job sg text) past \<longleftrightarrow>
     job = cj_id (cl_job c) \<and>
     (\<exists>conf r. admitted E Z c past conf \<and> (\<exists>sha. KeyUsed job sha (claim_identity conf) \<in> set past) \<and>
        parse_verify_output text = Inr r \<and> check_signed r (cf_cert conf) = None)"
| "allowed E Z c (SignedRecorded job uns sg) past \<longleftrightarrow>
     job = cj_id (cl_job c) \<and> (\<exists>text. PackageVerified job sg text \<in> set past) \<and> uns = cj_unsigned_sha256 (cl_job c)"
| "allowed E Z c (UploadSent job sg) past \<longleftrightarrow> (\<exists>uns. SignedRecorded job uns sg \<in> set past)"
| "allowed E Z c (CompleteSent job uns sg) past \<longleftrightarrow> SignedRecorded job uns sg \<in> set past \<and> UploadSent job sg \<in> set past"
| "allowed E Z c (CompletionRecorded job rel) past \<longleftrightarrow>
     valid_release_id rel \<and> (\<exists>uns sg. CompleteSent job uns sg \<in> set past)"
| "allowed E Z c (Released job) past \<longleftrightarrow>
     job = cj_id (cl_job c) \<and> list_all early past \<and> (\<exists>d r ex. Reserved d r ex \<in> set past \<and> rv_job_id r = job)"
| "allowed E Z c _ past \<longleftrightarrow> True"

fun trace_ok :: "job_env \<Rightarrow> bases \<Rightarrow> claim \<Rightarrow> event list \<Rightarrow> bool" where
  "trace_ok E Z c [] \<longleftrightarrow> True"
| "trace_ok E Z c (ev # past) \<longleftrightarrow> allowed E Z c ev past \<and> trace_ok E Z c past"

lemma trace_ok_suffix: "trace_ok E Z c (later @ ev # past) \<Longrightarrow> allowed E Z c ev past"
  by (induction later) auto

text \<open>The invariant before the signed package is recorded, and the one from there on.\<close>

definition before_record :: "job_env \<Rightarrow> bases \<Rightarrow> claim \<Rightarrow> gate \<Rightarrow> bool" where
  "before_record E Z c g \<longleftrightarrow> gate_ok E Z g \<and> trace_ok E Z c (g_trace g) \<and> list_all early (g_trace g)"

definition in_order :: "job_env \<Rightarrow> bases \<Rightarrow> claim \<Rightarrow> gate \<Rightarrow> bool" where
  "in_order E Z c g \<longleftrightarrow> gate_ok E Z g \<and> trace_ok E Z c (g_trace g)"

abbreviation grows :: "gate \<Rightarrow> gate \<Rightarrow> bool" where
  "grows g g' \<equiv> set (g_trace g) \<subseteq> set (g_trace g')"

lemma cleared_mono:
  assumes "set tr \<subseteq> set tr'"
  shows "admitted E Z c tr conf \<Longrightarrow> admitted E Z c tr' conf" "fetched c tr dl \<Longrightarrow> fetched c tr' dl"
    "accepted E Z c tr conf dl \<Longrightarrow> accepted E Z c tr' conf dl" "reserved_for E Z c tr conf dl \<Longrightarrow> reserved_for E Z c tr' conf dl"
  using assms unfolding admitted_def fetched_def accepted_def reserved_for_def by blast+

section \<open>The stages keep the order\<close>

lemma admittedI:
  assumes "validate_claim c = None" and "RoleRead d (ts_role ts) \<in> set tr" "trust_says E Z d ts" "rc_role (ts_role ts) = role_primary"
    and "ConfirmationRead d' conf \<in> set tr" "trust_says E Z d' ts'"
      "confirmation_for ts' (ck_package (cl_keystore c)) (ck_cert (cl_keystore c)) = Some conf"
    and "cf_tenant conf = cj_tenant (cl_job c)" "cl_digest c = cf_roots_digest conf"
      "bx_recipient (ck_box (cl_keystore c)) = own_box_digest E"
  shows "admitted E Z c tr conf"
  using assms unfolding admitted_def by blast

lemma admit_wp:
  assumes "before_record E Z c g"
  shows "wp (admit E c) (\<lambda>conf g'. before_record E Z c g' \<and> grows g g' \<and> admitted E Z c (g_trace g') conf)
    (\<lambda>_. before_record E Z c) g"
  using assms
  by (auto simp: admit_def Let_def wp_simps before_record_def split: sum.split option.split intro!: wp_read_trust)
    (rule admittedI [OF _ _ _ _ _ _ sym]; simp; fail)+

lemma consult_wp:
  assumes "before_record E Z c g"
  shows "wp (consult E c) (\<lambda>v g'. before_record E Z c g' \<and> grows g g' \<and>
      (\<exists>d ss. signed_says E Z d ss \<and> v = view ss (ck_package (cl_keystore c)) (ck_cert (cl_keystore c)) (cj_id (cl_job c))
         (cj_unsigned_sha256 (cl_job c))))
    (\<lambda>_. before_record E Z c) g"
  using assms
  by (auto simp: consult_def Let_def wp_simps before_record_def split: sum.split option.split
      intro!: wp_read_signed)

lemma builders_wp:
  assumes "before_record E Z c g"
  shows "wp (need (read_trust E trusted_builders)) (\<lambda>bs g'. before_record E Z c g' \<and> grows g g' \<and>
      (\<exists>d ts. trust_says E Z d ts \<and> bs = trusted_builders ts))
    (\<lambda>_. before_record E Z c) g"
  using assms
  by (auto simp: wp_simps before_record_def split: sum.split intro!: wp_read_trust)

text \<open>A retried call keeps what each call keeps.\<close>

lemma retry_wp:
  assumes call: "\<And>g. P g \<Longrightarrow> wp call (\<lambda>x g'. P g' \<and> R x g') F g" and "P g"
    and P: "\<And>g n. P g \<Longrightarrow> P (g\<lparr>g_tick := n\<rparr>)" and R: "\<And>x g n. R x g \<Longrightarrow> R x (g\<lparr>g_tick := n\<rparr>)"
  shows "wp (retry E k call) (\<lambda>x g'. P g' \<and> R x g') F g"
  using assms(2)
proof (induction k arbitrary: g)
  case 0
  have "wp (retry E 0 call) Q F g = wp call Q F g" for Q by (simp add: wp_def)
  then show ?case using call 0 by simp
next
  case (Suc k)
  have w: "wp call (\<lambda>x g'. P g' \<and> R x g') F g" using call Suc.prems by simp
  have again: "wp (retry E k call) (\<lambda>x g'. P g' \<and> R x g') F (g'\<lparr>g_tick := n\<rparr>)" if "P g'" for g' n
    using Suc.IH P that by blast
  obtain r g' where r: "call g = (r, g')" by fastforce
  show ?case using w again [of g' "Suc (g_tick g')"] P R
    by (auto simp: wp_def r Let_def split: sum.split)
qed

lemma download_wp:
  assumes "before_record E Z c g"
  shows "wp (download_unsigned E c) (\<lambda>dl g'. before_record E Z c g' \<and> grows g g' \<and> fetched c (g_trace g') dl)
    (\<lambda>_. before_record E Z c) g"
proof -
  have "wp (retry E (je_retries E) (ask (je_download E))) (\<lambda>_ g'. (before_record E Z c g' \<and> grows g g') \<and> True)
      (\<lambda>_. before_record E Z c) g"
    by (rule retry_wp) (use assms in \<open>auto simp: wp_simps before_record_def\<close>)
  then show ?thesis
    unfolding download_unsigned_def Let_def wp_gbind
    by (rule wp_mono) (auto simp: wp_simps before_record_def fetched_def split: sum.split)
qed

lemma check_wp:
  assumes "before_record E Z c g"
    and "signed_says E Z ds ss" "v = view ss (ck_package (cl_keystore c)) (ck_cert (cl_keystore c)) (cj_id (cl_job c))
         (cj_unsigned_sha256 (cl_job c))" "trust_says E Z dt ts" "bs = trusted_builders ts"
  shows "wp (run_check E c conf (check_input E c conf v bs dl) dl)
    (\<lambda>f g'. before_record E Z c g' \<and> grows g g' \<and> accepted E Z c (g_trace g') conf dl) (\<lambda>_. before_record E Z c) g"
  using assms
  by (auto simp: run_check_def wp_simps before_record_def accepted_def split: option.split) (blast | metis)+

lemma reserve_wp:
  assumes "before_record E Z c g"
  shows "wp (reserve_stage E c conf dl) (\<lambda>releasable g'. before_record E Z c g' \<and> grows g g' \<and> reserved_for E Z c (g_trace g') conf dl)
    (\<lambda>_. before_record E Z c) g"
  unfolding reserve_stage_def Let_def wp_simps
proof (rule wp_write_signed [where plan = "\<lambda>ss. plan_reserve ss (claim_reservation c conf dl) (claim_limits E conf)"])
  show "gate_ok E Z g" using assms by (simp add: before_record_def)
next
  show "(\<exists>e. reserve K C priv now io lv (claim_reservation c conf dl) (claim_limits E conf) = (Inl e, lv)) \<or>
      reserve K C priv now io lv (claim_reservation c conf dl) (claim_limits E conf) =
        append_records K C (apply_signed (cd_data C)) priv now io lv
          (\<lambda>ss. plan_reserve ss (claim_reservation c conf dl) (claim_limits E conf))" for K C priv now io lv
    by (auto simp: reserve_def guarded_def split: option.splits)
next
  fix res :: "store_error + reservation option" and lv
  assume "gate_ok E Z (g\<lparr>g_signed := lv, g_tick := Suc (g_tick g)\<rparr>)" and
    "\<forall>x. res = Inr x \<longrightarrow> appended E Z (lv_disk lv) (\<lambda>ss. plan_reserve ss (claim_reservation c conf dl) (claim_limits E conf)) x"
  then show "wp (case res of Inl e \<Rightarrow> gstop (reserve_refused e)
      | Inr existing \<Rightarrow> gbind (emit_signed (\<lambda>d. Reserved d (claim_reservation c conf dl) existing)) (\<lambda>_.
          gbind (gunless (case existing of None \<Rightarrow> True | Some x \<Rightarrow> rv_status x \<noteq> status_completed)
                  (violation_outcome JobAlreadyCompleted)) (\<lambda>_.
          greturn (case existing of None \<Rightarrow> True | Some x \<Rightarrow> rv_status x = status_reserved))))
     (\<lambda>releasable g'. before_record E Z c g' \<and> grows g g' \<and> reserved_for E Z c (g_trace g') conf dl) (\<lambda>_. before_record E Z c)
     (g\<lparr>g_signed := lv, g_tick := Suc (g_tick g)\<rparr>)"
    using assms
    by (auto simp: wp_simps before_record_def reserved_for_def split: sum.split option.split)
qed

lemma use_key_wp:
  assumes "before_record E Z c g" and "cleared E Z c (g_trace g) conf dl"
  shows "wp (use_key E c conf dl) (\<lambda>_ g'. before_record E Z c g' \<and> grows g g' \<and>
      KeyUsed (cj_id (cl_job c)) (dl_sha256 dl) (claim_identity conf) \<in> set (g_trace g'))
    (\<lambda>_ g'. before_record E Z c g' \<and> grows g g') g"
proof -
  have "cleared E Z c (ev # g_trace g) conf dl" for ev
    using assms(2) unfolding cleared_def by (auto intro: cleared_mono)
  then show ?thesis
    using assms unfolding use_key_def Let_def
    by (auto simp: wp_simps before_record_def split: sum.split)
qed

lemma verify_wp:
  assumes "before_record E Z c g" and "admitted E Z c (g_trace g) conf"
    and "KeyUsed (cj_id (cl_job c)) sha (claim_identity conf) \<in> set (g_trace g)"
  shows "wp (verify_signed E c conf) (\<lambda>res g'. before_record E Z c g' \<and> grows g g' \<and>
      (\<exists>text. PackageVerified (cj_id (cl_job c)) (fst res) text \<in> set (g_trace g')))
    (\<lambda>_ g'. before_record E Z c g' \<and> grows g g') g"
  using assms unfolding verify_signed_def
  by (auto simp: wp_simps before_record_def split: sum.split option.split)

lemma abandon_appends:
  "(\<exists>e. abandon K C priv now io lv job op reason = (Inl e, lv)) \<or>
   abandon K C priv now io lv job op reason =
     append_records K C (apply_signed (cd_data C)) priv now io lv (\<lambda>ss. plan_abandon ss job op reason)"
  by (auto simp: abandon_def guarded_def split: option.splits)

lemma unsent_wp:
  assumes m: "wp m (\<lambda>x g'. before_record E Z c g' \<and> grows g g' \<and> R x g') (\<lambda>_ g'. before_record E Z c g' \<and> grows g g') g"
    and r: "reserved_for E Z c (g_trace g) conf dl"
  shows "wp (unsent E (cj_id (cl_job c)) releasable m) (\<lambda>x g'. before_record E Z c g' \<and> grows g g' \<and> R x g')
    (\<lambda>_. in_order E Z c) g"
proof -
  obtain res g' where res: "m g = (res, g')" by fastforce
  show ?thesis
  proof (cases res)
    case (Inr x)
    then show ?thesis using m by (simp add: wp_def unsent_def res)
  next
    case (Inl out)
    have b: "before_record E Z c g'" and "grows g g'" using m by (simp_all add: wp_def res Inl)
    then have r': "reserved_for E Z c (g_trace g') conf dl" using r cleared_mono(4) by blast
    have held: "\<exists>d x ex. Reserved d x ex \<in> set (g_trace g') \<and> rv_job_id x = cj_id (cl_job c)"
      using r' unfolding reserved_for_def by (force simp: claim_reservation_def)
    have "wp (gbind (write_signed E (\<lambda>K C priv now io lv.
          abandon K C priv now io lv (cj_id (cl_job c)) auto_release_operator (release_reason (so_code out)))) (\<lambda>res.
        case res of
          Inl e \<Rightarrow> gstop (if so_fatal out = None then out\<lparr>so_fatal := Some (FatalRelease e)\<rparr> else out)
        | Inr _ \<Rightarrow> gbind (emit (Released (cj_id (cl_job c)))) (\<lambda>_. gstop out)))
       (\<lambda>x g'. before_record E Z c g' \<and> grows g g' \<and> R x g') (\<lambda>_. in_order E Z c) g'"
      unfolding wp_gbind
      by (rule wp_write_signed [OF _ abandon_appends])
        (use b held in \<open>auto simp: wp_simps before_record_def in_order_def split: sum.split\<close>)
    then show ?thesis using b by (simp add: wp_def unsent_def res Inl before_record_def in_order_def)
  qed
qed

lemma record_signed_wp:
  assumes "before_record E Z c g" and "PackageVerified (cj_id (cl_job c)) sg text \<in> set (g_trace g)"
    and "dl_sha256 dl = cj_unsigned_sha256 (cl_job c)"
  shows "wp (record_signed E c dl sg) (\<lambda>_ g'. in_order E Z c g' \<and>
      SignedRecorded (cj_id (cl_job c)) (dl_sha256 dl) sg \<in> set (g_trace g')) (\<lambda>_. in_order E Z c) g"
  unfolding record_signed_def Let_def wp_simps
  by (rule wp_write_signed [where plan = "\<lambda>ss. rbind (plan_mark_signed ss (cj_id (cl_job c)) (dl_sha256 dl) sg) (\<lambda>items. Inr ((), items))"])
    (use assms in \<open>auto simp: mark_signed_def before_record_def in_order_def split: sum.split\<close>)

text \<open>The signed package is recorded: from here on only its digest is sent.\<close>

definition recorded :: "claim \<Rightarrow> download \<Rightarrow> bytes \<Rightarrow> event list \<Rightarrow> bool" where
  "recorded c dl sg tr \<longleftrightarrow> SignedRecorded (cj_id (cl_job c)) (dl_sha256 dl) sg \<in> set tr"

lemma upload_wp:
  assumes "in_order E Z c g" and "recorded c dl sg (g_trace g)"
  shows "wp (upload_round E c sg sz) (\<lambda>_ g'. in_order E Z c g' \<and> recorded c dl sg (g_trace g') \<and>
      UploadSent (cj_id (cl_job c)) sg \<in> set (g_trace g')) (\<lambda>_. in_order E Z c) g"
proof -
  have "wp (retry E (je_retries E) (gbind (emit (UploadSent (cj_id (cl_job c)) sg)) (\<lambda>_. ask (je_upload E))))
      (\<lambda>_ g'. (in_order E Z c g' \<and> recorded c dl sg (g_trace g')) \<and> UploadSent (cj_id (cl_job c)) sg \<in> set (g_trace g'))
      (\<lambda>_. in_order E Z c) g"
    by (rule retry_wp) (use assms in \<open>auto simp: wp_simps in_order_def recorded_def\<close>)
  then show ?thesis
    unfolding upload_round_def Let_def wp_gbind
    by (rule wp_mono) (auto simp: wp_simps split: sum.split)
qed

lemma complete_wp:
  assumes "in_order E Z c g" and "recorded c dl sg (g_trace g)" and "UploadSent (cj_id (cl_job c)) sg \<in> set (g_trace g)"
  shows "wp (complete_call E c dl sg) (\<lambda>_ g'. (in_order E Z c g' \<and> recorded c dl sg (g_trace g') \<and>
      UploadSent (cj_id (cl_job c)) sg \<in> set (g_trace g')) \<and>
      CompleteSent (cj_id (cl_job c)) (dl_sha256 dl) sg \<in> set (g_trace g')) (\<lambda>_. in_order E Z c) g"
  unfolding complete_call_def
  by (rule retry_wp) (use assms in \<open>auto simp: wp_simps in_order_def recorded_def\<close>)

lemma deliver_rounds_wp:
  assumes "in_order E Z c g" and "recorded c dl sg (g_trace g)"
  shows "wp (deliver_rounds E c dl sg sz left) (\<lambda>_ g'. in_order E Z c g' \<and>
      CompleteSent (cj_id (cl_job c)) (dl_sha256 dl) sg \<in> set (g_trace g')) (\<lambda>_. in_order E Z c) g"
  using assms
proof (induction left arbitrary: g)
  case 0
  show ?case
    unfolding deliver_rounds.simps [of E c dl sg sz 0] wp_gbind
    by (rule wp_mono [OF upload_wp [OF 0]], rule wp_mono [OF complete_wp])
      (auto simp: wp_simps split: sum.split)
next
  case (Suc k)
  show ?case
    unfolding deliver_rounds.simps [of E c dl sg sz "Suc k"] wp_gbind
    by (rule wp_mono [OF upload_wp [OF Suc.prems]], rule wp_mono [OF complete_wp])
      (auto simp: wp_simps Suc.IH split: sum.split)
qed

lemma complete_appends:
  "(\<exists>e. complete K C priv now io lv job uns sg rel = (Inl e, lv)) \<or>
   complete K C priv now io lv job uns sg rel =
     append_records K C (apply_signed (cd_data C)) priv now io lv
       (\<lambda>ss. rbind (plan_complete ss job uns sg rel) (\<lambda>items. Inr ((), items)))"
  by (auto simp: complete_def guarded_def split: option.splits)

lemma record_completion_wp:
  assumes "in_order E Z c g" and "CompleteSent (cj_id (cl_job c)) (dl_sha256 dl) sg \<in> set (g_trace g)" and "valid_release_id rel"
  shows "wp (record_completion E c dl sg rel) (\<lambda>_. in_order E Z c) (\<lambda>_. in_order E Z c) g"
  unfolding record_completion_def Let_def wp_gbind
  by (rule wp_write_signed [OF _ complete_appends])
    (use assms in \<open>auto simp: wp_simps in_order_def split: sum.split\<close>)

lemma deliver_wp:
  assumes "in_order E Z c g" and "recorded c dl sg (g_trace g)"
  shows "wp (deliver E c dl sg sz) (\<lambda>_. in_order E Z c) (\<lambda>_. in_order E Z c) g"
  unfolding deliver_def wp_gbind
  by (rule wp_mono [OF deliver_rounds_wp [OF assms]]) (auto simp: wp_simps record_completion_wp)

text \<open>One stage of the job, then the others.\<close>

lemma wp_stage:
  assumes "wp m Q (\<lambda>_. before_record E Z c) g" and "\<And>x g'. Q x g' \<Longrightarrow> wp (f x) R (\<lambda>_. in_order E Z c) g'"
  shows "wp (gbind m f) R (\<lambda>_. in_order E Z c) g"
  unfolding wp_gbind using assms(1)
  by (rule wp_mono) (auto simp: assms(2) before_record_def in_order_def)

lemma key_stage_wp:
  assumes b: "before_record E Z c g" and cl: "cleared E Z c (g_trace g) conf dl"
  shows "wp (gbind (unsent E (cj_id (cl_job c)) releasable (gbind (use_key E c conf dl) (\<lambda>_. verify_signed E c conf)))
      (\<lambda>(sha, size_of). gbind (record_signed E c dl sha) (\<lambda>_. deliver E c dl sha size_of)))
    (\<lambda>_. in_order E Z c) (\<lambda>_. in_order E Z c) g"
proof -
  let ?R = "\<lambda>res g'. \<exists>text. PackageVerified (cj_id (cl_job c)) (fst (res :: bytes \<times> int)) text \<in> set (g_trace g')"
  have dl: "dl_sha256 dl = cj_unsigned_sha256 (cl_job c)" using cl by (simp add: cleared_def fetched_def)
  have "wp (gbind (use_key E c conf dl) (\<lambda>_. verify_signed E c conf))
      (\<lambda>x g'. before_record E Z c g' \<and> grows g g' \<and> ?R x g') (\<lambda>_ g'. before_record E Z c g' \<and> grows g g') g"
    unfolding wp_gbind
  proof (rule wp_mono [OF use_key_wp [OF b cl]])
    fix x g'
    assume g': "before_record E Z c g' \<and> grows g g' \<and>
      KeyUsed (cj_id (cl_job c)) (dl_sha256 dl) (claim_identity conf) \<in> set (g_trace g')"
    then have "admitted E Z c (g_trace g') conf" using cl cleared_mono(1) unfolding cleared_def by blast
    then show "wp (verify_signed E c conf) (\<lambda>x g'. before_record E Z c g' \<and> grows g g' \<and> ?R x g')
        (\<lambda>_ g'. before_record E Z c g' \<and> grows g g') g'"
      using g' by (intro wp_mono [OF verify_wp]) auto
  qed
  then have "wp (unsent E (cj_id (cl_job c)) releasable (gbind (use_key E c conf dl) (\<lambda>_. verify_signed E c conf)))
      (\<lambda>x g'. before_record E Z c g' \<and> grows g g' \<and> ?R x g') (\<lambda>_. in_order E Z c) g"
    using cl by (auto simp: cleared_def intro: unsent_wp)
  then show ?thesis
    unfolding wp_gbind
  proof (rule wp_mono)
    fix res :: "bytes \<times> int" and g'
    assume "before_record E Z c g' \<and> grows g g' \<and> ?R res g'"
    then show "wp (case res of (sha, size_of) \<Rightarrow> gbind (record_signed E c dl sha) (\<lambda>_. deliver E c dl sha size_of))
        (\<lambda>_. in_order E Z c) (\<lambda>_. in_order E Z c) g'"
      by (auto simp: wp_gbind recorded_def split: prod.split intro!: wp_mono [OF record_signed_wp] deliver_wp dl)
  qed
qed

lemma sign_wp:
  assumes "before_record E Z c g"
  shows "wp (sign E c) (\<lambda>_. in_order E Z c) (\<lambda>_. in_order E Z c) g"
  unfolding sign_def
proof (rule wp_stage [OF admit_wp [OF assms]], elim conjE, rule wp_stage [OF consult_wp], assumption, elim conjE exE,
    rule wp_stage [OF builders_wp], assumption, elim conjE exE, rule wp_stage [OF download_wp], assumption, elim conjE,
    rule wp_stage [OF check_wp], assumption+, elim conjE, rule wp_stage [OF reserve_wp], assumption, elim conjE, rule key_stage_wp)
  fix conf g1 v g2 ds ss bs g3 dt ts dl g4 f g5 releasable g6
  assume "admitted E Z c (g_trace g1) conf" "grows g1 g2" "grows g2 g3" "grows g3 g4" "fetched c (g_trace g4) dl"
    "grows g4 g5" "accepted E Z c (g_trace g5) conf dl" "grows g5 g6" "reserved_for E Z c (g_trace g6) conf dl"
  then show "cleared E Z c (g_trace g6) conf dl" unfolding cleared_def by (meson cleared_mono subset_trans)
qed

lemma report_wp:
  assumes "in_order E Z c g"
  shows "wp (report E c out) (\<lambda>_. in_order E Z c) (\<lambda>_. in_order E Z c) g"
proof -
  let ?call = "gbind (emit (ReportSent (cj_id (cl_job c)) (so_kind out) (so_code out))) (\<lambda>_.
     gbind (ask (je_answer E)) (\<lambda>a. greturn (case a of None \<Rightarrow> Inr () | Some e \<Rightarrow> Inl e)))"
  have call: "wp ?call (\<lambda>_ g'. in_order E Z c g' \<and> True) (\<lambda>_. in_order E Z c) g'" if "in_order E Z c g'" for g'
    using that by (auto simp: wp_simps in_order_def)
  have "wp (retry E (je_retries E) ?call) (\<lambda>_ g'. in_order E Z c g' \<and> True) (\<lambda>_. in_order E Z c) g"
    by (rule retry_wp) (use call assms in \<open>auto simp: in_order_def\<close>)
  then show ?thesis
    using assms call [OF assms]
    by (auto simp: report_def wp_def gbind_def greturn_def Let_def split: prod.splits sum.splits)
qed

lemma handle_in_order:
  assumes "gate_ok E Z g0" and "g_trace g0 = []" and "handle E c g0 = (out, g)"
  shows "trace_ok E Z c (g_trace g)"
proof -
  have b: "before_record E Z c g0" using assms(1,2) by (simp add: before_record_def)
  obtain res g1 where s: "sign E c g0 = (res, g1)" by fastforce
  have i: "in_order E Z c (g1\<lparr>g_tick := n\<rparr>)" for n
    using sign_wp [OF b] by (auto simp: wp_def s in_order_def split: sum.splits)
  have "in_order E Z c (snd (report E c out' (g1\<lparr>g_tick := n\<rparr>)))" for out' n
    using report_wp [OF i, of out' n] by (auto simp: wp_def split: prod.splits sum.splits)
  then have r: "trace_ok E Z c (g_trace g)" if "report E c out' (g1\<lparr>g_tick := n\<rparr>) = (x, g)" for out' n x
    using that unfolding in_order_def by (metis snd_conv)
  show ?thesis using assms(2,3) by (auto simp: handle_def Let_def s split: if_splits prod.splits intro: r)
qed

section \<open>Properties\<close>

text \<open>
  Property C1. The signing key is used only behind every gate: when a job runs apksigner, this
  gate's own ledger says it is the primary, its trust ledger holds the operator's confirmation of
  exactly this package and certificate for the tenant of the claim and these trust roots, the
  isolated checker accepted the downloaded package (whose digest is the claim's) on an input made
  from those records, and the reservation of its version code is on disk and not completed.
\<close>

theorem key_used_only_after_every_check:
  assumes "gate_ok E Z g0" and "g_trace g0 = []" and "handle E c g0 = (out, g)"
    and "g_trace g = later @ KeyUsed job sha want # past"
  shows "\<exists>conf dl. job = cj_id (cl_job c) \<and> want = claim_identity conf \<and> sha = dl_sha256 dl \<and>
    admitted E Z c past conf \<and> fetched c past dl \<and> accepted E Z c past conf dl \<and> reserved_for E Z c past conf dl"
  using trace_ok_suffix [OF handle_in_order [OF assms(1-3), unfolded assms(4)]] by (auto simp: cleared_def)


text \<open>
  A reservation is released automatically only while nothing signed has been recorded
  or sent, and only one that this job holds.
\<close>

theorem release_only_before_record:
  assumes "gate_ok E Z g0" and "g_trace g0 = []" and "handle E c g0 = (out, g)"
    and "g_trace g = later @ Released job # past"
  shows "job = cj_id (cl_job c) \<and> (\<forall>uns sg rel. SignedRecorded job uns sg \<notin> set past \<and> UploadSent job sg \<notin> set past \<and>
      CompleteSent job uns sg \<notin> set past \<and> CompletionRecorded job rel \<notin> set past) \<and>
    (\<exists>d r ex. Reserved d r ex \<in> set past \<and> rv_job_id r = job)"
  using trace_ok_suffix [OF handle_in_order [OF assms(1-3), unfolded assms(4)]]
  by (auto simp: list_all_iff)

end
