(* ===== verification/SignerBounds.thy ===== *)
theory SignerBounds
  imports SignerRun
begin

text \<open>
  How much a signing job does at most, and what it achieves when the server recovers in time: a
  calculus that counts the events a stage can add, and the retry loop on an outage that ends.
\<close>

section \<open>Counting events\<close>

definition count_events :: "(event \<Rightarrow> bool) \<Rightarrow> gate \<Rightarrow> nat" where
  "count_events P g = length (filter P (g_trace g))"

text \<open>The stage adds at most \<open>n\<close> events of the kind.\<close>

definition adds :: "(event \<Rightarrow> bool) \<Rightarrow> nat \<Rightarrow> 'a run \<Rightarrow> bool" where
  "adds P n m \<longleftrightarrow> (\<forall>g. count_events P (snd (m g)) \<le> count_events P g + n)"

named_theorems adds_intros \<open>bounds of the combinators and stages\<close>

lemma adds_weaken: "adds P n m \<Longrightarrow> n \<le> k \<Longrightarrow> adds P k m"
  unfolding adds_def by (meson add_le_mono le_refl le_trans)

lemma adds_gbind:
  assumes "adds P a m" and "\<And>x. adds P b (f x)"
  shows "adds P (a + b) (gbind m f)"
  unfolding adds_def
proof
  fix g
  obtain r g' where r: "m g = (r, g')" by fastforce
  have 1: "count_events P g' \<le> count_events P g + a" using assms(1) unfolding adds_def by (metis r snd_conv)
  have 2: "count_events P (snd (f x g')) \<le> count_events P g' + b" for x using assms(2) unfolding adds_def by blast
  show "count_events P (snd (gbind m f g)) \<le> count_events P g + (a + b)"
    using 1 2 by (cases r) (force simp: gbind_def r intro: order_trans)+
qed

lemma adds_quiet:
  "adds P 0 (greturn x)" "adds P 0 (gstop o')" "adds P 0 (gunless ok o')" "adds P 0 (ask h)" "adds P 0 (if_canceled E o')"
  "adds P 0 (ready_now it)" "adds P 0 (read_trust E fn)" "adds P 0 (read_signed E fs)" "adds P 0 (write_signed E method)"
  by (auto simp: adds_def count_events_def greturn_def gstop_def gunless_def ask_def if_canceled_def ready_now_def
      read_trust_def read_signed_def write_signed_def split: prod.split)

lemma adds_emit: "adds P (if P ev then 1 else 0) (emit ev)"
  by (simp add: adds_def count_events_def emit_def)

lemma adds_emit0: "\<not> P ev \<Longrightarrow> adds P 0 (emit ev)"
  by (simp add: adds_def count_events_def emit_def)

lemma adds_emit_ledger:
  "(\<And>d. \<not> P (ev d)) \<Longrightarrow> adds P 0 (emit_trust ev)" "(\<And>d. \<not> P (ev d)) \<Longrightarrow> adds P 0 (emit_signed ev)"
  by (simp_all add: adds_def count_events_def emit_def emit_trust_def emit_signed_def)

lemma adds_gbind0: "adds P 0 m \<Longrightarrow> (\<And>x. adds P b (f x)) \<Longrightarrow> adds P b (gbind m f)"
  using adds_gbind [of P 0 m b f] by simp

lemma adds_need: "adds P 0 m \<Longrightarrow> adds P 0 (need m)"
  unfolding need_def by (rule adds_gbind0) (auto simp: adds_quiet split: sum.split)

text \<open>A retried call is made at most one time more than there are delays.\<close>

lemma adds_retry:
  assumes "adds P n call"
  shows "adds P ((k + 1) * n) (retry E k call)"
  unfolding adds_def
proof
  fix g
  have c: "count_events P (snd (call g)) \<le> count_events P g + n" for g using assms by (simp add: adds_def)
  show "count_events P (snd (retry E k call g)) \<le> count_events P g + (k + 1) * n"
  proof (induction k arbitrary: g)
    case 0
    then show ?case using c by simp
  next
    case (Suc k)
    obtain r g' where r: "call g = (r, g')" by fastforce
    have 1: "count_events P g' \<le> count_events P g + n" using c [of g] by (simp add: r)
    have 2: "count_events P (snd (retry E k call (g'\<lparr>g_tick := Suc (g_tick g')\<rparr>))) \<le> count_events P g' + (k + 1) * n"
      using Suc.IH [of "g'\<lparr>g_tick := Suc (g_tick g')\<rparr>"] by (simp add: count_events_def)
    show ?case using 1 2
      by (auto simp: r Let_def count_events_def split: sum.split)
  qed
qed

lemma adds_unsent:
  assumes "adds P n m" and "\<And>job. \<not> P (Released job)"
  shows "adds P n (unsent E job releasable m)"
  unfolding adds_def
proof
  fix g
  obtain r g' where r: "m g = (r, g')" by fastforce
  have 1: "count_events P g' \<le> count_events P g + n" using assms(1) unfolding adds_def by (metis r snd_conv)
  have 2: "adds P 0 (gbind (write_signed E w) (\<lambda>res. case res of
        Inl e \<Rightarrow> gstop (if so_fatal out = None then out\<lparr>so_fatal := Some (FatalRelease e)\<rparr> else out)
      | Inr _ \<Rightarrow> gbind (emit (Released job)) (\<lambda>_. gstop out)) :: 'a run)" for w :: "_ \<Rightarrow> _ \<Rightarrow> _ \<Rightarrow> _ \<Rightarrow> _ \<Rightarrow> _ \<Rightarrow> (store_error + 'z) \<times> _" and out
    by (intro adds_gbind0 adds_quiet)
      (auto split: sum.split intro!: adds_quiet adds_gbind0 adds_emit0 assms(2))
  show "count_events P (snd (unsent E job releasable m g)) \<le> count_events P g + n"
    using 1 order_trans [OF 2 [unfolded adds_def, rule_format] add_mono [OF 1 order_refl]]
    by (auto simp: unsent_def r split: sum.split)
qed


section \<open>The stages\<close>

fun is_upload :: "event \<Rightarrow> bool" where
  "is_upload (UploadSent job sg) = True"
| "is_upload _ = False"

fun is_complete :: "event \<Rightarrow> bool" where
  "is_complete (CompleteSent job uns sg) = True"
| "is_complete _ = False"

fun is_key_use :: "event \<Rightarrow> bool" where
  "is_key_use (KeyUsed job sha want) = True"
| "is_key_use _ = False"

text \<open>An event of the stages before the key, or of the ledger.\<close>

fun preparatory :: "event \<Rightarrow> bool" where
  "preparatory (UploadSent job sg) = False"
| "preparatory (CompleteSent job uns sg) = False"
| "preparatory (KeyUsed job sha want) = False"
| "preparatory (ReportSent job k code) = False"
| "preparatory _ = True"

lemmas adds_stage = adds_gbind0 adds_quiet adds_need adds_emit0 adds_emit_ledger

text \<open>A kind of event that the preparation and the ledgers never add.\<close>

locale counted_kind =
  fixes P :: "event \<Rightarrow> bool"
  assumes quiet: "preparatory ev \<Longrightarrow> \<not> P ev"
begin

lemma admit_adds: "adds P 0 (admit E c)"
  unfolding admit_def Let_def by (auto intro!: adds_stage quiet split: option.split)

lemma consult_adds: "adds P 0 (consult E c)"
  unfolding consult_def Let_def by (auto intro!: adds_stage quiet)

lemma download_adds: "adds P 0 (download_unsigned E c)"
proof -
  have "adds P 0 (retry E k (ask h))" for k and h :: "nat \<Rightarrow> call_error + download"
    using adds_retry [of P 0 "ask h" k E] by (simp add: adds_quiet)
  then show ?thesis unfolding download_unsigned_def Let_def by (auto intro!: adds_stage quiet split: sum.split)
qed

lemma check_adds: "adds P 0 (run_check E c conf inp dl)"
  unfolding run_check_def by (auto intro!: adds_stage quiet split: option.split)

lemma reserve_adds: "adds P 0 (reserve_stage E c conf dl)"
  unfolding reserve_stage_def Let_def by (auto intro!: adds_stage quiet split: sum.split)

lemma verify_adds: "adds P 0 (verify_signed E c conf)"
  unfolding verify_signed_def by (auto intro!: adds_stage quiet split: option.split sum.split)

lemma record_adds: "adds P 0 (record_signed E c dl sg)" "adds P 0 (record_completion E c dl sg rel)"
  unfolding record_signed_def record_completion_def Let_def
  by (auto intro!: adds_stage quiet split: sum.split)

lemma key_adds: "adds P 1 (use_key E c conf dl)"
proof -
  have k: "adds P 1 (gbind (emit ev) f)" if "\<And>x. adds P 0 (f x)" for ev :: event and f :: "unit \<Rightarrow> unit run"
    using adds_gbind [OF adds_emit that] by (rule adds_weaken) simp
  show ?thesis
  proof (cases "open_keystore (je_crypto E) (je_keystore E) (ck_box (cl_keystore c)) (je_box_key E) (claim_identity conf)")
    case (Inl code)
    then show ?thesis by (simp add: use_key_def Let_def adds_weaken [OF adds_quiet(2)])
  next
    case (Inr material)
    show ?thesis
      unfolding use_key_def Let_def Inr sum.case
      by ((rule adds_gbind0, (rule adds_quiet | rule adds_emit0 [OF quiet], simp; fail))+, rule k) (intro adds_stage)
  qed
qed

lemma key_quiet:
  assumes "\<And>job sha want. \<not> P (KeyUsed job sha want)"
  shows "adds P 0 (use_key E c conf dl)"
  unfolding use_key_def Let_def by (auto intro!: adds_stage quiet assms split: sum.split)

lemma signing_adds:
  assumes "\<And>conf dl. adds P a (use_key E c conf dl)"
  shows "adds P a (unsent E job releasable (gbind (use_key E c conf dl) (\<lambda>_. verify_signed E c conf)))"
proof (rule adds_unsent)
  show "adds P a (gbind (use_key E c conf dl) (\<lambda>_. verify_signed E c conf))"
    using adds_gbind [OF assms verify_adds] by simp
qed (rule quiet, simp)

lemma sign_adds:
  assumes "\<And>conf dl. adds P a (use_key E c conf dl)" and "\<And>dl sg sz. adds P n (deliver E c dl sg sz)"
  shows "adds P (a + n) (sign E c)"
proof -
  have d: "adds P n (gbind (record_signed E c dl sg) (\<lambda>_. deliver E c dl sg sz))" for dl sg sz
    by (rule adds_gbind0 [OF record_adds(1) assms(2)])
  have s: "adds P (a + n) (gbind (unsent E (cj_id (cl_job c)) releasable (gbind (use_key E c conf dl) (\<lambda>_. verify_signed E c conf)))
      (\<lambda>(sha, size_of). gbind (record_signed E c dl sha) (\<lambda>_. deliver E c dl sha size_of)))" for releasable conf dl
    by (rule adds_gbind [OF signing_adds [OF assms(1)]]) (auto intro: d)
  show ?thesis
    unfolding sign_def
    by (rule adds_gbind0 [OF admit_adds], rule adds_gbind0 [OF consult_adds],
        rule adds_gbind0 [OF adds_need [OF adds_quiet(7)]], rule adds_gbind0 [OF download_adds],
        rule adds_gbind0 [OF check_adds], rule adds_gbind0 [OF reserve_adds], rule s)
qed

lemma report_adds:
  assumes "\<And>job k code. \<not> P (ReportSent job k code)"
  shows "adds P 0 (report E c out)"
proof -
  let ?call = "gbind (emit (ReportSent (cj_id (cl_job c)) (so_kind out) (so_code out))) (\<lambda>_.
     gbind (ask (je_answer E)) (\<lambda>a. greturn (case a of None \<Rightarrow> Inr () | Some e \<Rightarrow> Inl e)))"
  have call: "adds P 0 ?call" by (intro adds_stage assms)
  have 1: "adds P 0 (gbind ?call (\<lambda>_. greturn ()))" by (rule adds_gbind0 [OF call adds_quiet(1)])
  have "adds P 0 (retry E (je_retries E) ?call)" using adds_retry [OF call] by simp
  then have 2: "adds P 0 (gbind (retry E (je_retries E) ?call) (\<lambda>_. greturn ()))"
    by (rule adds_gbind0 [OF _ adds_quiet(1)])
  show ?thesis using 1 2 unfolding adds_def by (auto simp: report_def Let_def)
qed

lemma handle_count:
  assumes "\<And>conf dl. adds P a (use_key E c conf dl)" and "\<And>dl sg sz. adds P n (deliver E c dl sg sz)"
    and "\<And>job k code. \<not> P (ReportSent job k code)" and "handle E c g0 = (out, g)"
  shows "count_events P g \<le> count_events P g0 + (a + n)"
proof -
  obtain res g1 where s: "sign E c g0 = (res, g1)" by fastforce
  have 1: "count_events P g1 \<le> count_events P g0 + (a + n)"
    using sign_adds [OF assms(1,2)] unfolding adds_def by (metis s snd_conv)
  have 2: "count_events P (snd (report E c out' (g1\<lparr>g_tick := k\<rparr>))) \<le> count_events P (g1\<lparr>g_tick := k\<rparr>)" for out' k
    using report_adds [OF assms(3)] unfolding adds_def by simp
  have r: "count_events P g \<le> count_events P g0 + (a + n)" if "report E c out' (g1\<lparr>g_tick := k\<rparr>) = (x, g)" for out' k x
    using 1 2 [of out' k] that by (simp add: count_events_def)
  show ?thesis using assms(4) by (auto simp: handle_def Let_def s split: if_splits prod.splits dest!: r)
qed

end

interpretation uploads: counted_kind is_upload
  by unfold_locales (case_tac ev; simp)

interpretation completes: counted_kind is_complete
  by unfold_locales (case_tac ev; simp)

interpretation key_uses: counted_kind is_key_use
  by unfold_locales (case_tac ev; simp)

section \<open>Delivery\<close>

lemma upload_round_adds:
  "adds is_upload (je_retries E + 1) (upload_round E c sg sz)" "adds is_complete 0 (upload_round E c sg sz)"
  "adds is_key_use 0 (upload_round E c sg sz)"
proof -
  let ?call = "gbind (emit (UploadSent (cj_id (cl_job c)) sg)) (\<lambda>_. ask (je_upload E))"
  have b: "adds P n (upload_round E c sg sz)" if "adds P m ?call" "n = (je_retries E + 1) * m" for P n m
    unfolding upload_round_def Let_def
    by (rule adds_weaken [OF adds_gbind [OF adds_retry [OF that(1)], where b = 0]])
      (auto intro!: adds_quiet simp: that(2) split: sum.split)
  have "adds is_upload 1 ?call" using adds_gbind [OF adds_emit adds_quiet(4)] by (rule adds_weaken) simp
  then show "adds is_upload (je_retries E + 1) (upload_round E c sg sz)" by (rule b) simp
  show "adds is_complete 0 (upload_round E c sg sz)" "adds is_key_use 0 (upload_round E c sg sz)"
    by (rule b [where m = 0]; auto intro!: adds_stage)+
qed

lemma complete_call_adds:
  "adds is_complete (je_retries E + 1) (complete_call E c dl sg)" "adds is_upload 0 (complete_call E c dl sg)"
  "adds is_key_use 0 (complete_call E c dl sg)"
proof -
  let ?call = "gbind (emit (CompleteSent (cj_id (cl_job c)) (dl_sha256 dl) sg)) (\<lambda>_. ask (je_complete E))"
  have b: "adds P n (complete_call E c dl sg)" if "adds P m ?call" "n = (je_retries E + 1) * m" for P n m
    unfolding complete_call_def Let_def using adds_retry [OF that(1)] that(2) by simp
  have "adds is_complete 1 ?call" using adds_gbind [OF adds_emit adds_quiet(4)] by (rule adds_weaken) simp
  then show "adds is_complete (je_retries E + 1) (complete_call E c dl sg)" by (rule b) simp
  show "adds is_upload 0 (complete_call E c dl sg)" "adds is_key_use 0 (complete_call E c dl sg)"
    by (rule b [where m = 0]; auto intro!: adds_stage)+
qed

lemma deliver_rounds_adds:
  assumes "\<And>dl sg sz. adds P u (upload_round E c sg sz)" and "\<And>dl sg. adds P k (complete_call E c dl sg)"
  shows "adds P ((left + 1) * (u + k)) (deliver_rounds E c dl sg sz left)"
proof (induction left)
  case 0
  have "adds P (u + (k + 0)) (deliver_rounds E c dl sg sz 0)"
    unfolding deliver_rounds.simps [of E c dl sg sz 0]
    by (intro adds_gbind assms) (auto split: sum.split intro: adds_quiet)
  then show ?case by simp
next
  case (Suc n)
  let ?b = "(n + 1) * (u + k)"
  have q: "adds P m (gstop o')" "adds P m (greturn x)" for m o' and x :: bytes
    by (rule adds_weaken [OF adds_quiet(2)], simp, rule adds_weaken [OF adds_quiet(1)], simp)
  have "adds P (u + (k + ?b)) (deliver_rounds E c dl sg sz (Suc n))"
    unfolding deliver_rounds.simps [of E c dl sg sz "Suc n"]
    using Suc.IH by (intro adds_gbind assms) (auto split: sum.split intro: q)
  then show ?case by (rule adds_weaken) (simp add: algebra_simps)
qed


lemma deliver_adds:
  assumes "\<And>dl sg sz. adds P u (upload_round E c sg sz)" and "\<And>dl sg. adds P k (complete_call E c dl sg)"
    and "\<And>dl sg rel. adds P 0 (record_completion E c dl sg rel)"
  shows "adds P (max_upload_rounds * (u + k)) (deliver E c dl sg sz)"
proof -
  have "adds P ((max_upload_rounds - 1 + 1) * (u + k)) (deliver_rounds E c dl sg sz (max_upload_rounds - 1))"
    using assms(1,2) by (rule deliver_rounds_adds)
  then have "adds P (max_upload_rounds * (u + k) + 0) (deliver E c dl sg sz)"
    unfolding deliver_def by (intro adds_gbind adds_gbind0 adds_quiet assms(3)) (simp add: max_upload_rounds_def)
  then show ?thesis by simp
qed

text \<open>
  Property C33. A job is bounded whatever server and network do: the key is used at most once, and
  in its at most three rounds at most one upload and one completion more per round than there are
  retry delays are sent.
\<close>

theorem job_effort_bounded:
  assumes "handle E c g0 = (out, g)"
  shows "count_events is_key_use g \<le> count_events is_key_use g0 + 1 \<and>
    count_events is_upload g \<le> count_events is_upload g0 + 3 * (je_retries E + 1) \<and>
    count_events is_complete g \<le> count_events is_complete g0 + 3 * (je_retries E + 1)"
proof -
  have k: "adds is_key_use (max_upload_rounds * (0 + 0)) (deliver E c dl sg sz)" for dl sg sz
    by (rule deliver_adds [OF upload_round_adds(3) complete_call_adds(3) key_uses.record_adds(2)])
  have u: "adds is_upload (max_upload_rounds * (je_retries E + 1 + 0)) (deliver E c dl sg sz)" for dl sg sz
    by (rule deliver_adds [OF upload_round_adds(1) complete_call_adds(2) uploads.record_adds(2)])
  have d: "adds is_complete (max_upload_rounds * (0 + (je_retries E + 1))) (deliver E c dl sg sz)" for dl sg sz
    by (rule deliver_adds [OF upload_round_adds(2) complete_call_adds(1) completes.record_adds(2)])
  show ?thesis
    using key_uses.handle_count [OF key_uses.key_adds k _ assms] uploads.handle_count [OF uploads.key_quiet u _ assms]
      completes.handle_count [OF completes.key_quiet d _ assms]
    by (simp add: max_upload_rounds_def)
qed

section \<open>An outage that ends in time\<close>

text \<open>Before the tick \<open>n\<close> a call may fail for a transient reason; from then on it is answered well.\<close>

definition recovers :: "nat \<Rightarrow> ('a \<Rightarrow> bool) \<Rightarrow> (nat \<Rightarrow> call_error + 'a) \<Rightarrow> bool" where
  "recovers n ok f \<longleftrightarrow>
     (\<forall>t. case f t of Inr x \<Rightarrow> ok x | Inl e \<Rightarrow> t < n \<and> is_transient e \<and> \<not> api_stale e)"

lemma calm: "je_heartbeat E = None \<Longrightarrow> je_shutdown E = None \<Longrightarrow> \<not> canceled E g"
  by (simp add: canceled_def job_cause_def)

text \<open>Each failed attempt and the wait after it take a tick, so the retries outlast the outage.\<close>

lemma retry_recovers:
  assumes "je_heartbeat E = None" and "je_shutdown E = None" and "recovers n ok f" and "n \<le> g_tick g + 2 * k"
  shows "\<exists>x g'. retry E k (gbind (emit ev) (\<lambda>_. ask f)) g = (Inr (Inr x), g') \<and> ok x \<and> g_tick g \<le> g_tick g'"
  using assms(4)
proof (induction k arbitrary: g)
  case 0
  then obtain x where "f (g_tick g) = Inr x" "ok x"
    using assms(3) unfolding recovers_def by (cases "f (g_tick g)") (fastforce dest: spec [of _ "g_tick g"])+
  then show ?case by (simp add: gbind_def emit_def ask_def)
next
  case (Suc k)
  show ?case
  proof (cases "f (g_tick g)")
    case (Inr x)
    then have "ok x" using assms(3) unfolding recovers_def by (fastforce dest: spec [of _ "g_tick g"])
    then show ?thesis by (simp add: gbind_def emit_def ask_def Inr)
  next
    case (Inl e)
    then have e: "is_transient e" "\<not> api_stale e"
      using assms(3) unfolding recovers_def by (fastforce dest: spec [of _ "g_tick g"])+
    let ?g = "g\<lparr>g_trace := ev # g_trace g, g_tick := Suc (Suc (g_tick g))\<rparr>"
    obtain x g' where "retry E k (gbind (emit ev) (\<lambda>_. ask f)) ?g = (Inr (Inr x), g')" "ok x" "g_tick ?g \<le> g_tick g'"
      using Suc.IH [of ?g] Suc.prems by auto
    moreover have "retry E (Suc k) (gbind (emit ev) (\<lambda>_. ask f)) g = retry E k (gbind (emit ev) (\<lambda>_. ask f)) ?g"
      using e by (simp add: gbind_def emit_def ask_def Inl Let_def calm [OF assms(1,2)])
    ultimately show ?thesis by auto
  qed
qed

lemma write_signed_Inr: "\<exists>w g'. write_signed E method g = (Inr w, g')"
  by (cases "method (je_crypto E) (je_codec E) (je_record_key E) (je_now E (g_tick g)) (je_io E (g_tick g)) (signed_view_of E g)")
    (simp add: write_signed_def)


end
