(* ===== verification/SignerExample.thy ===== *)
theory SignerExample
  imports SignerProps SignerBounds KeystoreProps SignedProps
begin

text \<open>
  A signing job run from start to end on a concrete claim: the gate resumes after a crash between
  recording the signed package and delivering it, the server is unreachable once, and the local
  record of the completion fails. Every stage computes; the properties are applied to this run.
\<close>

section \<open>The claim and what the ledgers hold\<close>

definition ex_sg :: bytes where "ex_sg = replicate 64 (CHR ''d'')"

definition ex_claim :: claim where
  "ex_claim =
     \<lparr>cl_job = \<lparr>cj_id = ''bld_job0001'', cj_tenant = ''AnyFun'', cj_platform = ''android'', cj_version = ''1.3.16'',
        cj_build_number = 7, cj_attempt = 1, cj_sign_attempt = 2, cj_commit_sha = replicate 40 (CHR ''a''),
        cj_unsigned_sha256 = replicate 64 (CHR ''b''), cj_unsigned_size = 4096,
        cj_sbom_sha256 = replicate 64 (CHR ''b''), cj_native_fingerprint = replicate 40 (CHR ''c'')\<rparr>,
      cl_provenance = \<lparr>cp_statement = ''s'', cp_signature = ''g'', cp_builder_id = ''bld_agent0001'',
        cp_builder_public_key = b64_encode (replicate 32 (CHR ''k'')), cp_builder_public_key_sha256 = []\<rparr>,
      cl_keystore = \<lparr>ck_version = 1, ck_package = ''com.anyfun.app'', ck_cert = replicate 64 (CHR ''a''),
        ck_alias = ''release'', ck_box = sealed_box ex_sealed\<rparr>,
      cl_roots = None, cl_digest = replicate 64 (CHR ''b'')\<rparr>"

definition ex_confirmation :: confirmation where
  "ex_confirmation =
     \<lparr>cf_tenant = ''AnyFun'', cf_package = ''com.anyfun.app'', cf_cert = replicate 64 (CHR ''a''),
      cf_key_alias = ''release'', cf_keystore_version = 1, cf_roots = undefined,
      cf_roots_digest = replicate 64 (CHR ''b''), cf_min_sdk = 24, cf_target_sdk = 35, cf_first_sign_max = 100,
      cf_confirmed_by = ''alice'', cf_mode = [], cf_request_id = [], cf_generator_name = [],
      cf_generator_sha256 = [], cf_confirmed_at = []\<rparr>"

definition ex_trust :: trust_state where
  "ex_trust = new_trust_state\<lparr>ts_role := (ts_role new_trust_state)\<lparr>rc_role := role_primary\<rparr>,
     ts_confirmations := [(''com.anyfun.app'', ex_confirmation)]\<rparr>"

definition ex_held :: reservation where
  "ex_held = (reserved_reservation (reservation_key ''bld_job0001'' 1 ''AnyFun'' ''com.anyfun.app''
     (replicate 64 (CHR ''a'')) 7 (replicate 64 (CHR ''b''))) ''t'')\<lparr>rv_status := status_signed, rv_signed := ex_sg\<rparr>"

definition ex_signed :: signed_state where
  "ex_signed = \<lparr>ss_all = [ex_held], ss_by_vc = [((''com.anyfun.app'', replicate 64 (CHR ''a''), 7), 0)],
     ss_by_job = [(''bld_job0001'', 0)], ss_baselines = []\<rparr>"

definition ex_facts :: facts where
  "ex_facts = \<lparr>fa_size = 4096, fa_package_name = ''com.anyfun.app'', fa_version_code = 7, fa_version_name = ''1.3.16'',
     fa_min_sdk = 24, fa_target_sdk = 35, fa_permissions = [], fa_permission_definitions = [],
     fa_trust_roots = undefined, fa_native_fingerprint = replicate 40 (CHR ''c''),
     fa_native_fingerprint_source = native_fingerprint_source, fa_builder_id = ''bld_agent0001'',
     fa_commit_sha = replicate 40 (CHR ''a'')\<rparr>"

definition ex_verdict :: verdict where
  "ex_verdict = \<lparr>vd_ok = True, vd_kind = [], vd_code = None, vd_checked_sha256 = replicate 64 (CHR ''b''),
     vd_facts = Some ex_facts\<rparr>"

definition ex_download :: download where
  "ex_download = \<lparr>dl_size = 4096, dl_sha256 = replicate 64 (CHR ''b''), dl_header = None\<rparr>"

definition ex_cert_text :: bytes where
  "ex_cert_text = ''aaaaaaaaaaaaaaaaaaaaaaaaaaaaaaaaaaaaaaaaaaaaaaaaaaaaaaaaaaaaaaaa''"

definition ex_verify_output :: bytes where
  "ex_verify_output = concat (map (\<lambda>l. l @ [CHR 0x0A])
     [''Verifies'', ''Verified using v2 scheme (APK Signature Scheme v2): true'',
      ''Verified using v3 scheme (APK Signature Scheme v3): true'', ''Number of signers: 1'',
      ''Signer #1 certificate SHA-256 digest: '' @ ex_cert_text])"

definition ex_env :: job_env where
  "ex_env =
     \<lparr>je_crypto = toy_crypto, je_codec = ex_codec1, je_record_key = ex_key, je_box_key = ex_gate_key,
      je_keystore = \<lparr>kl_prims = toy_prims, kl_decode = (\<lambda>_. Some ex_plaintext),
        kl_find_key = (\<lambda>p12 pw alias. Some (replicate 64 (CHR ''a'')))\<rparr>,
      je_max_jump = 100, je_max_version_code = 2100000000, je_retries = 3, je_now = (\<lambda>_. ex_utc),
      je_io = (\<lambda>t. if t < 16 then IoOk else IoLockFails),
      je_trust_in = (\<lambda>_. []), je_signed_in = (\<lambda>_. []), je_heartbeat = None, je_shutdown = None,
      je_download = (\<lambda>_. Inr ex_download), je_check = (\<lambda>_ _. Some ex_verdict),
      je_hash_unsigned = (\<lambda>_. Some (replicate 64 (CHR ''b''), 4096)), je_write_files = (\<lambda>_. True),
      je_remove_files = (\<lambda>_. True), je_apksigner = (\<lambda>_. True), je_verify = (\<lambda>_. Some ex_verify_output),
      je_hash_signed = (\<lambda>_. Some (ex_sg, 5000)),
      je_upload = (\<lambda>t. if t < 15 then Inl (ApiError 503 []) else Inr \<lparr>up_sha256 = ex_sg, up_size = 5000\<rparr>),
      je_complete = (\<lambda>_. Inr ''rel_00000001''), je_answer = (\<lambda>_. None), je_clear_runtime = (\<lambda>_. True)\<rparr>"

definition ex_job_gate :: gate where
  "ex_job_gate =
     \<lparr>g_trust = \<lparr>lv_file = \<lparr>lf_verifier = ex_after ex_raw0, lf_offset = 0\<rparr>, lv_state = ex_trust, lv_disk = [], lv_broken = None\<rparr>,
      g_signed = \<lparr>lv_file = \<lparr>lf_verifier = ex_after ex_raw0, lf_offset = 0\<rparr>, lv_state = ex_signed, lv_disk = [], lv_broken = None\<rparr>,
      g_ready = [claim_ready ex_claim], g_tick = 0, g_trace = []\<rparr>"

definition ex_bases :: bases where
  "ex_bases = ((ex_after ex_raw0, ex_trust), (ex_after ex_raw0, ex_signed))"

lemma ex_job_gate_ok: "gate_ok ex_env ex_bases ex_job_gate"
  by (simp add: gate_ok_def view_ok_def consistent_def ex_job_gate_def ex_bases_def feed_def)

section \<open>The run, stage by stage\<close>

text \<open>The gate after some calls: the ledgers are as they were.\<close>

abbreviation ex_at :: "nat \<Rightarrow> event list \<Rightarrow> gate" where
  "ex_at n tr \<equiv> ex_job_gate\<lparr>g_tick := n, g_trace := tr\<rparr>"

lemma ex_read_trust:
  "n < 16 \<Longrightarrow> read_trust ex_env fn (ex_at n tr) = (Inr (Inr (fn ex_trust)), ex_at (Suc n) tr)"
  by (simp add: read_trust_def read_locked_def read_log_def refresh_def trust_view_def read_range_def feed_def Let_def
      ex_job_gate_def ex_env_def)

lemma ex_read_signed:
  "n < 16 \<Longrightarrow> read_signed ex_env fn (ex_at n tr) = (Inr (Inr (fn ex_signed)), ex_at (Suc n) tr)"
  by (simp add: read_signed_def read_locked_def read_log_def refresh_def signed_view_of_def read_range_def feed_def Let_def
      ex_job_gate_def ex_env_def)

lemma ex_append_nothing:
  assumes "plan ex_signed = Inr (r, [])"
  shows "append_records toy_crypto ex_codec1 ap priv now IoOk (signed_view_of ex_env (ex_at n tr)) plan =
    (Inr r, g_signed ex_job_gate)"
  using assms
  by (simp add: append_records_def refresh_def signed_view_of_def read_range_def feed_def Let_def ex_job_gate_def ex_env_def)

lemma ex_claim_valid: "validate_claim ex_claim = None"
proof -
  have a: "valid_tenant_slug ''AnyFun''" "valid_commit (replicate 40 (CHR ''a''))" "fingerprint_valid (replicate 64 (CHR ''b''))"
    "fingerprint_valid (replicate 64 (CHR ''a''))" "valid_native_fingerprint (replicate 40 (CHR ''c''))"
    "valid_server_id ''bld_agent0001''" "valid_package_name ''com.anyfun.app''" "printable_ascii ''1.3.16''"
    by code_simp+
  have j: "validate_claim_job (cl_job ex_claim) = None"
    using a by (simp add: validate_claim_job_def ex_claim_def max_version_code_def default_apk_limits_def)
  have p: "validate_claim_provenance (cl_provenance ex_claim) = None"
    using a by (simp add: validate_claim_provenance_def ex_claim_def)
  have k: "validate_claim_keystore ex_claim = None"
    using a ex_box_shape by (simp add: validate_claim_keystore_def ex_claim_def Let_def)
  show ?thesis by (simp add: validate_claim_def j p k)
qed

lemma ex_admit:
  "admit ex_env ex_claim (ex_at 0 []) =
     (Inr ex_confirmation, ex_at 2 [ConfirmationRead [] ex_confirmation, RoleRead [] (ts_role ex_trust)])"
proof -
  have own: "own_box_digest ex_env = replicate 64 (CHR ''0'')"
    using ex_gate_digest by (simp add: own_box_digest_def ex_env_def)
  have c: "confirmation_for ex_trust ''com.anyfun.app'' (replicate 64 (CHR ''a'')) = Some ex_confirmation"
    by (simp add: confirmation_for_def ex_trust_def ex_confirmation_def)
  have r: "rc_role (ts_role ex_trust) = role_primary" by (simp add: ex_trust_def)
  have d: "lv_disk (g_trust ex_job_gate) = []" "g_ready ex_job_gate = [claim_ready ex_claim]" by (simp_all add: ex_job_gate_def)
  have f: "cj_tenant (cl_job ex_claim) = cf_tenant ex_confirmation" "cl_digest ex_claim = cf_roots_digest ex_confirmation"
    "ck_package (cl_keystore ex_claim) = ''com.anyfun.app''" "ck_cert (cl_keystore ex_claim) = replicate 64 (CHR ''a'')"
    "bx_recipient (ck_box (cl_keystore ex_claim)) = replicate 64 (CHR ''0'')"
    by (simp_all add: ex_claim_def ex_confirmation_def sealed_box_def ex_sealed_def)
  show ?thesis
    by (simp add: admit_def Let_def gbind_def gunless_def greturn_def need_def emit_trust_def emit_def ready_now_def
        ex_claim_valid ex_read_trust r f c own d)
qed

definition ex_view_of_job :: signed_view where
  "ex_view_of_job = view ex_signed ''com.anyfun.app'' (replicate 64 (CHR ''a'')) ''bld_job0001'' (replicate 64 (CHR ''b''))"

lemma ex_claim_job:
  "cj_id (cl_job ex_claim) = ''bld_job0001''" "ck_package (cl_keystore ex_claim) = ''com.anyfun.app''"
  "ck_cert (cl_keystore ex_claim) = replicate 64 (CHR ''a'')" "cj_unsigned_sha256 (cl_job ex_claim) = replicate 64 (CHR ''b'')"
  "cj_unsigned_size (cl_job ex_claim) = 4096" "cj_build_number (cl_job ex_claim) = 7" "cj_sign_attempt (cl_job ex_claim) = 2"
  "cj_version (cl_job ex_claim) = ''1.3.16''" "cj_native_fingerprint (cl_job ex_claim) = replicate 40 (CHR ''c'')"
  "ck_box (cl_keystore ex_claim) = sealed_box ex_sealed"
  by (simp_all add: ex_claim_def)

lemma ex_existing: "sv_existing ex_view_of_job = Some ex_held"
  by (simp add: ex_view_of_job_def view_def Let_def view_current_def ex_signed_def ex_held_def status_defs)

lemma ex_held_fields:
  "rv_package ex_held = ''com.anyfun.app''" "rv_cert ex_held = replicate 64 (CHR ''a'')" "rv_unsigned ex_held = replicate 64 (CHR ''b'')"
  "rv_vc ex_held = 7" "rv_status ex_held = status_signed" "rv_signed ex_held = ex_sg" "rv_job_id ex_held = ''bld_job0001''"
  "rv_tenant ex_held = ''AnyFun''"
  by (simp_all add: ex_held_def reserved_reservation_def reservation_key_def)

lemma ex_consult: "consult ex_env ex_claim (ex_at 2 tr) = (Inr ex_view_of_job, ex_at 3 tr)"
  by (simp add: consult_def Let_def gbind_def gunless_def greturn_def need_def ex_read_signed ex_claim_job
      ex_view_of_job_def [symmetric] ex_existing reservation_conflict_def ex_held_fields)

definition ex_builders :: "builder_trust list" where "ex_builders = trusted_builders ex_trust"

lemma ex_builders_read: "need (read_trust ex_env trusted_builders) (ex_at 3 tr) = (Inr ex_builders, ex_at 4 tr)"
  by (simp add: need_def gbind_def greturn_def ex_read_trust ex_builders_def)

lemma gbind_Inr: "m g = (Inr x, g') \<Longrightarrow> gbind m f g = f x g'"
  by (simp add: gbind_def)

lemma retry_at_once: "call g = (Inr (Inr x), g') \<Longrightarrow> retry E k call g = (Inr (Inr x), g')"
  by (cases k) simp_all

lemma retry_again:
  "call g = (Inr (Inl e), g') \<Longrightarrow> \<not> api_stale e \<Longrightarrow> is_transient e \<Longrightarrow> \<not> canceled E g' \<Longrightarrow>
     \<not> canceled E (g'\<lparr>g_tick := Suc (g_tick g')\<rparr>) \<Longrightarrow>
     retry E (Suc k) call g = retry E k call (g'\<lparr>g_tick := Suc (g_tick g')\<rparr>)"
  by simp

lemma ex_fetch:
  "download_unsigned ex_env ex_claim (ex_at 4 tr) = (Inr ex_download, ex_at 5 (Downloaded ''bld_job0001'' ex_download # tr))"
proof -
  have "retry ex_env (je_retries ex_env) (ask (je_download ex_env)) (ex_at 4 tr) = (Inr (Inr ex_download), ex_at 5 tr)"
    by (rule retry_at_once) (simp add: ask_def ex_env_def)
  moreover have "dl_size ex_download = 4096" "dl_sha256 ex_download = replicate 64 (CHR ''b'')" "dl_header ex_download = None"
    by (simp_all add: ex_download_def)
  ultimately show ?thesis
    by (simp add: download_unsigned_def Let_def gbind_def emit_def gunless_def greturn_def ex_claim_job)
qed

definition ex_input :: policy_input where
  "ex_input = check_input ex_env ex_claim ex_confirmation ex_view_of_job ex_builders ex_download"

lemma ex_calm: "\<not> canceled ex_env g"
  by (rule calm) (simp_all add: ex_env_def)

lemma ex_check:
  "run_check ex_env ex_claim ex_confirmation (check_input ex_env ex_claim ex_confirmation ex_view_of_job ex_builders ex_download)
     ex_download (ex_at 5 tr) = (Inr ex_facts, ex_at 6 (Checked ''bld_job0001'' ex_input ex_verdict # tr))"
proof -
  have "je_check ex_env = (\<lambda>_ _. Some ex_verdict)" by (simp add: ex_env_def)
  moreover have "facts_describe ex_claim ex_confirmation ex_facts"
    by (simp add: facts_describe_def ex_facts_def ex_confirmation_def ex_claim_job)
  moreover have "vd_checked_sha256 ex_verdict = dl_sha256 ex_download" "vd_ok ex_verdict" "vd_facts ex_verdict = Some ex_facts"
    by (simp_all add: ex_verdict_def ex_download_def)
  ultimately show ?thesis
    by (simp add: run_check_def gbind_def ask_def if_canceled_def ex_calm emit_def gunless_def greturn_def ex_claim_job
        ex_input_def)
qed

definition ex_reservation :: reservation where
  "ex_reservation = claim_reservation ex_claim ex_confirmation ex_download"

lemma ex_at_disk: "lv_disk (g_signed (ex_at n tr)) = []" "g_signed (ex_at n tr) = g_signed ex_job_gate"
  by (simp_all add: ex_job_gate_def)

lemma ex_reserve:
  "reserve_stage ex_env ex_claim ex_confirmation ex_download (ex_at 6 tr) =
     (Inr False, ex_at 7 (Reserved [] ex_reservation (Some ex_held) # tr))"
proof -
  let ?lim = "claim_limits ex_env ex_confirmation"
  have v: "validate_reserve ex_reservation = None"
  proof -
    have "valid_server_id ''bld_job0001''" "valid_tenant_slug ''AnyFun''" "valid_package_name ''com.anyfun.app''"
      "fingerprint_valid (replicate 64 (CHR ''a''))" "fingerprint_valid (replicate 64 (CHR ''b''))"
      by code_simp+
    then show ?thesis
      by (simp add: validate_reserve_def ex_reservation_def claim_reservation_def ex_claim_job ex_confirmation_def
          ex_download_def max_version_code_def)
  qed
  have l: "limits_validate ?lim = None"
    by (simp add: limits_validate_def claim_limits_def ex_env_def ex_confirmation_def)
  have k: "at_vc ex_signed (vc_key ex_reservation) = Some ex_held"
    by (simp add: at_vc_def vc_key_def ex_signed_def ex_reservation_def claim_reservation_def ex_claim_job
        ex_confirmation_def)
  have p: "plan_reserve ex_signed ex_reservation ?lim = Inr (Some ex_held, [])"
    using v l k by (simp add: plan_reserve_def invalid_def Let_def ex_held_fields)
      (simp add: ex_reservation_def claim_reservation_def ex_claim_job ex_confirmation_def ex_download_def)
  have r: "reserve toy_crypto ex_codec1 priv now IoOk (signed_view_of ex_env (ex_at n tr)) ex_reservation ?lim =
      (Inr (Some ex_held), g_signed ex_job_gate)" for priv now n tr
    using ex_append_nothing [where plan = "\<lambda>ss. plan_reserve ss ex_reservation ?lim", OF p] v l by (simp add: reserve_def guarded_def invalid_def)
  have w: "write_signed ex_env (\<lambda>K C priv now io lv. reserve K C priv now io lv ex_reservation ?lim) (ex_at 6 tr) =
      (Inr (Inr (Some ex_held)), ex_at 7 tr)"
    using r [where n = 6 and tr = tr and priv = ex_key and now = ex_utc] by (simp add: write_signed_def) (simp add: ex_env_def ex_job_gate_def)
  show ?thesis
    using w by (simp add: reserve_stage_def Let_def ex_reservation_def [symmetric] gbind_def emit_signed_def emit_def
        gunless_def greturn_def ex_at_disk ex_held_fields) (simp add: status_defs ex_job_gate_def)
qed

lemma ex_open: "open_keystore toy_crypto (je_keystore ex_env) (sealed_box ex_sealed) (je_box_key ex_env) (claim_identity ex_confirmation) =
    Inr \<lparr>km_plain = ex_plaintext, km_p12 = ''ABC''\<rparr>"
proof -
  have "pt_p12 ex_plaintext = Some ''ABC''"
    by (simp add: pt_p12_def ex_plaintext_def max_p12_size_def b64_decode_def is_crlf_def b64_val_def char_class_defs
        less_eq_char_def char_of_def bit_0)
  moreover have "kl_prims (je_keystore ex_env) = toy_prims" "kl_decode (je_keystore ex_env) = (\<lambda>_. Some ex_plaintext)"
    "kl_find_key (je_keystore ex_env) = (\<lambda>_ _ _. Some (replicate 64 (CHR ''a'')))" "je_box_key ex_env = ex_gate_key"
    by (simp_all add: ex_env_def)
  ultimately show ?thesis
    using ex_keystore_open by (simp add: open_keystore_def claim_identity_def ex_confirmation_def)
      (simp add: ex_plaintext_def)
qed

definition ex_want :: expected_identity where "ex_want = claim_identity ex_confirmation"

lemma ex_use_key:
  "use_key ex_env ex_claim ex_confirmation ex_download (ex_at 7 tr) =
     (Inr (), ex_at 11 (KeyUsed ''bld_job0001'' (replicate 64 (CHR ''b'')) ex_want # KeyOpened ''bld_job0001'' ex_want # tr))"
proof -
  have e: "je_hash_unsigned ex_env = (\<lambda>_. Some (replicate 64 (CHR ''b''), 4096))" "je_write_files ex_env = (\<lambda>_. True)"
    "je_apksigner ex_env = (\<lambda>_. True)" "je_remove_files ex_env = (\<lambda>_. True)" "je_crypto ex_env = toy_crypto"
    by (simp_all add: ex_env_def)
  have d: "dl_sha256 ex_download = replicate 64 (CHR ''b'')" "dl_size ex_download = 4096" by (simp_all add: ex_download_def)
  show ?thesis
    by (simp add: use_key_def Let_def ex_claim_job ex_open e d gbind_def ask_def emit_def gunless_def greturn_def
        if_canceled_def ex_calm ex_want_def)
qed

lemma ex_output_parsed:
  "case parse_verify_output ex_verify_output of Inl _ \<Rightarrow> False | Inr r \<Rightarrow> check_signed r ex_cert_text = None"
  by (simp add: ex_verify_output_def ex_cert_text_def parse_verify_output_def scan_lines_def text_lines_def trim_cr_def
      scanner_limit_def verify_step_def verify_start_def scheme_line_def strip_prefix_def starts_with_def scheme_names_def
      scheme_value_def signers_line_def cert_line_def clamped_atoi_def digits_nat_def max_int64_def char_class_defs
      less_eq_char_def to_lower_def lower_char_def fingerprint_valid_def fingerprint_length_def check_signed_def)

lemma ex_cert_text: "ex_cert_text = cf_cert ex_confirmation"
  by (simp add: ex_cert_text_def ex_confirmation_def numeral_eq_Suc)

lemma ex_verified:
  "verify_signed ex_env ex_claim ex_confirmation (ex_at 11 tr) =
     (Inr (ex_sg, 5000), ex_at 13 (PackageVerified ''bld_job0001'' ex_sg ex_verify_output # tr))"
proof -
  obtain r where "parse_verify_output ex_verify_output = Inr r" "check_signed r (cf_cert ex_confirmation) = None"
    using ex_output_parsed ex_cert_text by (auto split: sum.splits)
  moreover have "je_verify ex_env = (\<lambda>_. Some ex_verify_output)" "je_hash_signed ex_env = (\<lambda>_. Some (ex_sg, 5000))"
    by (simp_all add: ex_env_def)
  ultimately show ?thesis
    by (simp add: verify_signed_def gbind_def ask_def emit_def gunless_def greturn_def if_canceled_def ex_calm ex_claim_job)
qed

lemma ex_record:
  "record_signed ex_env ex_claim ex_download ex_sg (ex_at 13 tr) =
     (Inr (), ex_at 14 (SignedRecorded ''bld_job0001'' (replicate 64 (CHR ''b'')) ex_sg # tr))"
proof -
  let ?plan = "\<lambda>ss. rbind (plan_mark_signed ss ''bld_job0001'' (replicate 64 (CHR ''b'')) ex_sg) (\<lambda>items. Inr ((), items))"
  have "at_job ex_signed ''bld_job0001'' = Some ex_held" by (simp add: at_job_def ex_signed_def)
  then have p: "?plan ex_signed = Inr ((), [])" by (simp add: plan_mark_signed_def ex_held_fields)
  have m: "mark_signed toy_crypto ex_codec1 priv now IoOk (signed_view_of ex_env (ex_at n tr)) ''bld_job0001''
      (replicate 64 (CHR ''b'')) ex_sg = (Inr (), g_signed ex_job_gate)" for priv now n tr
    using ex_append_nothing [where plan = ?plan, OF p] by (simp add: mark_signed_def)
  have w: "write_signed ex_env (\<lambda>K C priv now io lv. mark_signed K C priv now io lv ''bld_job0001''
      (replicate 64 (CHR ''b'')) ex_sg) (ex_at 13 tr) = (Inr (Inr ()), ex_at 14 tr)"
    using m [where n = 13 and tr = tr and priv = ex_key and now = ex_utc]
    by (simp add: write_signed_def) (simp add: ex_env_def ex_job_gate_def)
  have "dl_sha256 ex_download = replicate 64 (CHR ''b'')" by (simp add: ex_download_def)
  then show ?thesis
    using w by (simp add: record_signed_def Let_def ex_claim_job need_def gbind_def greturn_def emit_def)
qed

text \<open>The server is unreachable for one attempt; the upload is sent twice.\<close>

lemma ex_delivered:
  "\<exists>out. deliver ex_env ex_claim ex_download ex_sg 5000 (ex_at 14 tr) =
     (Inr out, ex_at 19 (CompleteSent ''bld_job0001'' (replicate 64 (CHR ''b'')) ex_sg #
        UploadSent ''bld_job0001'' ex_sg # UploadSent ''bld_job0001'' ex_sg # tr)) \<and> so_kind out = OutDone"
proof -
  have up: "retry ex_env (je_retries ex_env) (gbind (emit (UploadSent ''bld_job0001'' ex_sg)) (\<lambda>_. ask (je_upload ex_env))) (ex_at 14 tr) =
      (Inr (Inr \<lparr>up_sha256 = ex_sg, up_size = 5000\<rparr>),
       ex_at 17 (UploadSent ''bld_job0001'' ex_sg # UploadSent ''bld_job0001'' ex_sg # tr))"
  proof -
    let ?call = "gbind (emit (UploadSent ''bld_job0001'' ex_sg)) (\<lambda>_. ask (je_upload ex_env))"
    have k: "je_retries ex_env = Suc 2" by (simp add: ex_env_def)
    have 1: "?call (ex_at 14 tr) = (Inr (Inl (ApiError 503 [])), ex_at 15 (UploadSent ''bld_job0001'' ex_sg # tr))"
      by (simp add: gbind_def emit_def ask_def) (simp add: ex_env_def)
    have e: "is_transient (ApiError 503 [])" "\<not> api_stale (ApiError 503 [])"
      by (simp_all add: api_transient_def code_reseal_rate_limited_def)
    have 2: "?call (ex_at 16 tr') = (Inr (Inr \<lparr>up_sha256 = ex_sg, up_size = 5000\<rparr>),
        ex_at 17 (UploadSent ''bld_job0001'' ex_sg # tr'))" for tr'
      by (simp add: gbind_def emit_def ask_def) (simp add: ex_env_def)
    have "retry ex_env (Suc 2) ?call (ex_at 14 tr) = retry ex_env 2 ?call (ex_at 16 (UploadSent ''bld_job0001'' ex_sg # tr))"
      by (rule trans [OF retry_again [where e = "ApiError 503 []" and g' = "ex_at 15 (UploadSent ''bld_job0001'' ex_sg # tr)"]])
        (use 1 e ex_calm in \<open>simp_all add: ex_job_gate_def\<close>)
    also have "\<dots> = (Inr (Inr \<lparr>up_sha256 = ex_sg, up_size = 5000\<rparr>),
        ex_at 17 (UploadSent ''bld_job0001'' ex_sg # UploadSent ''bld_job0001'' ex_sg # tr))"
      by (rule retry_at_once, rule 2)
    finally show ?thesis unfolding k .
  qed
  have co: "complete_call ex_env ex_claim ex_download ex_sg (ex_at 17 tr') =
      (Inr (Inr ''rel_00000001''), ex_at 18 (CompleteSent ''bld_job0001'' (replicate 64 (CHR ''b'')) ex_sg # tr'))" for tr'
    unfolding complete_call_def
    by (rule retry_at_once) (simp add: gbind_def emit_def ask_def ex_claim_job ex_download_def, simp add: ex_env_def)
  have w: "write_signed ex_env (\<lambda>K C priv now io lv. complete K C priv now io lv ''bld_job0001'' (dl_sha256 ex_download)
      ex_sg ''rel_00000001'') (ex_at 18 tr') = (Inr (Inl SeLock), ex_at 19 tr')" for tr'
    by (simp add: write_signed_def complete_def append_records_def) (simp add: ex_env_def signed_view_of_def ex_job_gate_def)
  have rel: "valid_release_id ''rel_00000001''" by code_simp
  show ?thesis
    by (simp add: deliver_def gbind_def deliver_rounds.simps upload_round_def Let_def ex_claim_job up co gunless_def
        greturn_def rel record_completion_def w done_outcome_def)
qed


section \<open>The whole job\<close>

definition ex_past :: "event list" where
  "ex_past = [KeyOpened ''bld_job0001'' ex_want, Reserved [] ex_reservation (Some ex_held),
     Checked ''bld_job0001'' ex_input ex_verdict, Downloaded ''bld_job0001'' ex_download,
     ConfirmationRead [] ex_confirmation, RoleRead [] (ts_role ex_trust)]"

definition ex_key_event :: event where
  "ex_key_event = KeyUsed ''bld_job0001'' (replicate 64 (CHR ''b'')) ex_want"

definition ex_sent :: "event list" where
  "ex_sent = [SignedRecorded ''bld_job0001'' (replicate 64 (CHR ''b'')) ex_sg,
     PackageVerified ''bld_job0001'' ex_sg ex_verify_output]"

lemma ex_signed_job:
  "\<exists>out. sign ex_env ex_claim (ex_at 0 []) = (Inr out, ex_at 19
     ([CompleteSent ''bld_job0001'' (replicate 64 (CHR ''b'')) ex_sg, UploadSent ''bld_job0001'' ex_sg,
       UploadSent ''bld_job0001'' ex_sg] @ ex_sent @ ex_key_event # ex_past)) \<and> so_kind out = OutDone"
proof -
  have k: "unsent ex_env job rel (gbind (use_key ex_env ex_claim ex_confirmation ex_download)
      (\<lambda>_. verify_signed ex_env ex_claim ex_confirmation)) (ex_at 7 tr) =
      (Inr (ex_sg, 5000), ex_at 13 (PackageVerified ''bld_job0001'' ex_sg ex_verify_output #
         KeyUsed ''bld_job0001'' (replicate 64 (CHR ''b'')) ex_want # KeyOpened ''bld_job0001'' ex_want # tr))" for job rel tr
    by (simp add: unsent_def gbind_def ex_use_key ex_verified)
  have s: "sign ex_env ex_claim (ex_at 0 []) = deliver ex_env ex_claim ex_download ex_sg 5000
      (ex_at 14 (ex_sent @ ex_key_event # ex_past))"
    unfolding sign_def
    apply (subst gbind_Inr, rule ex_admit)
    apply (subst gbind_Inr, rule ex_consult)
    apply (subst gbind_Inr, rule ex_builders_read)
    apply (subst gbind_Inr, rule ex_fetch)
    apply (subst gbind_Inr, rule ex_check)
    apply (subst gbind_Inr, rule ex_reserve)
    apply (subst gbind_Inr, rule k)
    apply (simp only: prod.case)
    apply (subst gbind_Inr, rule ex_record)
    apply (simp add: ex_sent_def ex_key_event_def ex_past_def ex_claim_job)
    done
  show ?thesis unfolding s using ex_delivered [of "ex_sent @ ex_key_event # ex_past"] by simp
qed

definition ex_trace :: "event list" where
  "ex_trace = [CompleteSent ''bld_job0001'' (replicate 64 (CHR ''b'')) ex_sg, UploadSent ''bld_job0001'' ex_sg,
     UploadSent ''bld_job0001'' ex_sg] @ ex_sent @ ex_key_event # ex_past"

lemma ex_handled: "\<exists>out. handle ex_env ex_claim ex_job_gate = (out, ex_at 20 ex_trace) \<and> so_kind out = OutDone"
proof -
  have g: "ex_at 0 [] = ex_job_gate" by (simp add: ex_job_gate_def)
  have e: "je_heartbeat ex_env = None" "je_shutdown ex_env = None" "je_clear_runtime ex_env = (\<lambda>_. True)" by (simp_all add: ex_env_def)
  have "valid_server_id ''bld_job0001''" by code_simp
  then show ?thesis
    using ex_signed_job [unfolded g] unfolding ex_trace_def [symmetric]
    by (auto simp: handle_def ex_claim_job Let_def settle_def job_cause_def e job_outcome_def report_def)
qed

lemma ex_start_trace: "g_trace ex_job_gate = []" "g_trace (ex_at n tr) = tr"
  by (simp_all add: ex_job_gate_def)

section \<open>Witnesses\<close>

theorem key_used_only_after_every_check_witness:
  "\<exists>conf dl. ex_want = claim_identity conf \<and> admitted ex_env ex_bases ex_claim ex_past conf \<and> fetched ex_claim ex_past dl \<and>
     accepted ex_env ex_bases ex_claim ex_past conf dl \<and> reserved_for ex_env ex_bases ex_claim ex_past conf dl"
proof -
  obtain out where h: "handle ex_env ex_claim ex_job_gate = (out, ex_at 20 ex_trace)" using ex_handled by blast
  have "g_trace (ex_at 20 ex_trace) = ([CompleteSent ''bld_job0001'' (replicate 64 (CHR ''b'')) ex_sg,
      UploadSent ''bld_job0001'' ex_sg, UploadSent ''bld_job0001'' ex_sg] @ ex_sent) @
      KeyUsed ''bld_job0001'' (replicate 64 (CHR ''b'')) ex_want # ex_past"
    by (simp add: ex_trace_def ex_key_event_def)
  from key_used_only_after_every_check [OF ex_job_gate_ok ex_start_trace(1) h this] show ?thesis by blast
qed


theorem job_effort_bounded_witness:
  "count_events is_key_use (snd (handle ex_env ex_claim ex_job_gate)) \<le> 1 \<and>
   count_events is_upload (snd (handle ex_env ex_claim ex_job_gate)) \<le> 12 \<and>
   filter is_upload (g_trace (snd (handle ex_env ex_claim ex_job_gate))) = [UploadSent ''bld_job0001'' ex_sg, UploadSent ''bld_job0001'' ex_sg]"
proof -
  obtain out where h: "handle ex_env ex_claim ex_job_gate = (out, ex_at 20 ex_trace)" using ex_handled by blast
  have r: "je_retries ex_env = 3" by (simp add: ex_env_def)
  have z: "count_events P ex_job_gate = 0" for P by (simp add: count_events_def ex_start_trace)
  have u: "filter is_upload ex_trace = [UploadSent ''bld_job0001'' ex_sg, UploadSent ''bld_job0001'' ex_sg]"
    by (simp add: ex_trace_def ex_sent_def ex_key_event_def ex_past_def)
  show ?thesis using job_effort_bounded [OF h] u by (simp add: h r z ex_start_trace)
qed


end
