(* ===== verification/BuildStates.thy ===== *)
theory BuildStates
  imports Prelude
begin

text \<open>
  The state machine of build jobs (\<open>internal/api/build_job_states.go\<close>): statuses, kinds, events, the
  table \<open>buildJobTransitions\<close> and the functions that read it. \<open>edge\<close> is the abstract specification
  the handlers refine: one step of a job of a kind, by an event.
\<close>

section \<open>Statuses, kinds, events\<close>

datatype job_status =
  JobQueued | JobClaimed | JobRunning | JobBuilt | JobSigning | JobSucceeded | JobFailed | JobCanceled

datatype job_kind = KindApk | KindOta

datatype job_event =
  BuilderClaim | BuilderHeartbeat | BuilderFail | BuilderBuilt | BuilderComplete | BuilderIosRelease
| DispatchFail | ReapBuild | AdminCancel | AdminForceFail
| SignerClaim | SignerHeartbeat | SignerRelease | SignerViolation | SignerTransient | SignerComplete
| ReapSign | SignOvertaken | SignerUpload | SignerDownload | BuilderUpload | BuilderOtaPayload

fun status_text :: "job_status \<Rightarrow> bytes" where
  "status_text JobQueued = ''queued''"
| "status_text JobClaimed = ''claimed''"
| "status_text JobRunning = ''running''"
| "status_text JobBuilt = ''built''"
| "status_text JobSigning = ''signing''"
| "status_text JobSucceeded = ''succeeded''"
| "status_text JobFailed = ''failed''"
| "status_text JobCanceled = ''canceled''"

definition build_job_statuses :: "job_status list" where
  "build_job_statuses =
     [JobQueued, JobClaimed, JobRunning, JobBuilt, JobSigning, JobSucceeded, JobFailed, JobCanceled]"

text \<open>The order of \<open>buildJobStatuses\<close> is the order of the flow; it orders the type.\<close>

fun status_rank :: "job_status \<Rightarrow> nat" where
  "status_rank JobQueued = 0"
| "status_rank JobClaimed = 1"
| "status_rank JobRunning = 2"
| "status_rank JobBuilt = 3"
| "status_rank JobSigning = 4"
| "status_rank JobSucceeded = 5"
| "status_rank JobFailed = 6"
| "status_rank JobCanceled = 7"

lemma status_rank_inj [simp]: "status_rank s = status_rank t \<longleftrightarrow> s = t"
  by (cases s; cases t) simp_all

instantiation job_status :: linorder
begin

definition less_eq_job_status :: "job_status \<Rightarrow> job_status \<Rightarrow> bool" where
  "less_eq_job_status s t \<longleftrightarrow> status_rank s \<le> status_rank t"

definition less_job_status :: "job_status \<Rightarrow> job_status \<Rightarrow> bool" where
  "less_job_status s t \<longleftrightarrow> status_rank s < status_rank t"

instance
  by standard (auto simp: less_eq_job_status_def less_job_status_def)

end

lemma sorted_build_job_statuses: "sorted build_job_statuses" and distinct_build_job_statuses: "distinct build_job_statuses"
  by (simp_all add: build_job_statuses_def less_eq_job_status_def)

lemma set_build_job_statuses [simp]: "set build_job_statuses = UNIV"
proof -
  have "s \<in> set build_job_statuses" for s by (cases s) (simp_all add: build_job_statuses_def)
  then show ?thesis by blast
qed

section \<open>The table\<close>

record transition =
  tr_event :: job_event
  tr_kinds :: "job_kind list"
  tr_from :: "job_status list"
  tr_to :: "job_status list"

abbreviation row :: "job_event \<Rightarrow> job_kind list \<Rightarrow> job_status list \<Rightarrow> job_status list \<Rightarrow> transition" where
  "row e ks fs ts \<equiv> \<lparr>tr_event = e, tr_kinds = ks, tr_from = fs, tr_to = ts\<rparr>"

definition build_job_transitions :: "transition list" where
  "build_job_transitions =
    [row BuilderClaim [KindApk, KindOta] [JobQueued] [JobClaimed],
     row BuilderHeartbeat [KindApk, KindOta] [JobClaimed, JobRunning] [JobRunning],
     row BuilderUpload [KindApk] [JobClaimed, JobRunning] [JobClaimed, JobRunning],
     row BuilderOtaPayload [KindOta] [JobClaimed, JobRunning] [JobClaimed, JobRunning],
     row BuilderFail [KindApk, KindOta] [JobClaimed, JobRunning] [JobFailed],
     row BuilderBuilt [KindApk] [JobClaimed, JobRunning] [JobBuilt],
     row BuilderComplete [KindOta] [JobClaimed, JobRunning] [JobSucceeded],
     row BuilderIosRelease [KindApk] [JobClaimed, JobRunning] [JobSucceeded],
     row DispatchFail [KindApk, KindOta] [JobClaimed] [JobFailed],
     row ReapBuild [KindApk] [JobClaimed, JobRunning] [JobQueued, JobFailed],
     row ReapBuild [KindOta] [JobClaimed, JobRunning] [JobFailed],
     row AdminCancel [KindApk, KindOta] [JobQueued, JobClaimed, JobRunning] [JobCanceled],
     row AdminCancel [KindApk] [JobBuilt] [JobCanceled],
     row AdminForceFail [KindApk] [JobSigning] [JobFailed],
     row SignerClaim [KindApk] [JobBuilt] [JobSigning],
     row SignerHeartbeat [KindApk] [JobSigning] [JobSigning],
     row SignerUpload [KindApk] [JobSigning] [JobSigning],
     row SignerDownload [KindApk] [JobSigning] [JobSigning],
     row SignerRelease [KindApk] [JobSigning] [JobBuilt],
     row SignerViolation [KindApk] [JobSigning] [JobFailed],
     row SignerTransient [KindApk] [JobSigning] [JobBuilt, JobFailed],
     row SignerComplete [KindApk] [JobSigning] [JobSucceeded],
     row ReapSign [KindApk] [JobSigning] [JobBuilt, JobFailed],
     row SignOvertaken [KindApk] [JobBuilt] [JobFailed]]"

text \<open>\<open>containsString\<close> and \<open>orderedStatuses\<close>.\<close>

fun contains :: "'a list \<Rightarrow> 'a \<Rightarrow> bool" where
  "contains [] v = False"
| "contains (x # xs) v = (x = v \<or> contains xs v)"

lemma contains_iff [simp]: "contains xs v \<longleftrightarrow> v \<in> set xs"
  by (induction xs) auto

definition ordered_statuses :: "job_status list \<Rightarrow> job_status list" where
  "ordered_statuses statuses = [status \<leftarrow> build_job_statuses. contains statuses status]"

text \<open>\<open>buildJobEventFrom\<close>; an empty kind is None and takes the union over the kinds.\<close>

definition row_matches :: "job_event \<Rightarrow> job_kind option \<Rightarrow> transition \<Rightarrow> bool" where
  "row_matches event kind t \<longleftrightarrow>
     tr_event t = event \<and> (case kind of None \<Rightarrow> True | Some k \<Rightarrow> contains (tr_kinds t) k)"

fun collect_from :: "job_status list \<Rightarrow> job_status list \<Rightarrow> job_status list" where
  "collect_from out [] = out"
| "collect_from out (s # ss) = (if contains out s then collect_from out ss else collect_from (out @ [s]) ss)"

definition event_from :: "job_event \<Rightarrow> job_kind option \<Rightarrow> job_status list" where
  "event_from event kind =
     ordered_statuses (foldl (\<lambda>out t. collect_from out (tr_from t)) []
       (filter (row_matches event kind) build_job_transitions))"

definition transition_allowed :: "job_event \<Rightarrow> job_kind \<Rightarrow> job_status \<Rightarrow> bool" where
  "transition_allowed event kind from_status \<longleftrightarrow> contains (event_from event (Some kind)) from_status"

definition in_flight_statuses :: "job_status list" where
  "in_flight_statuses = [JobQueued, JobClaimed, JobRunning, JobBuilt, JobSigning]"

definition terminal_statuses :: "job_status list" where
  "terminal_statuses = [JobSucceeded, JobFailed, JobCanceled]"

text \<open>\<open>sqlStatusList\<close>: the IN list of a query.\<close>

fun join_with :: "bytes \<Rightarrow> bytes list \<Rightarrow> bytes" where
  "join_with sep [] = []"
| "join_with sep [x] = x"
| "join_with sep (x # y # ys) = x @ sep @ join_with sep (y # ys)"

definition sql_status_list :: "job_status list \<Rightarrow> bytes" where
  "sql_status_list statuses = join_with '','' (map (\<lambda>s. [CHR 39] @ status_text s @ [CHR 39]) statuses)"

text \<open>The sets the queries are built from.\<close>

definition builder_active :: "job_status list" where "builder_active = event_from BuilderHeartbeat None"
definition cancelable_apk :: "job_status list" where "cancelable_apk = event_from AdminCancel (Some KindApk)"
definition cancelable_ota :: "job_status list" where "cancelable_ota = event_from AdminCancel (Some KindOta)"
definition signer_active :: "job_status list" where "signer_active = event_from SignerHeartbeat (Some KindApk)"
definition dispatch_failure :: "job_status list" where "dispatch_failure = event_from DispatchFail None"

section \<open>What the functions read from the table\<close>

lemma set_collect_from [simp]: "set (collect_from out ss) = set out \<union> set ss"
  by (induction out ss rule: collect_from.induct) auto

lemma set_fold_collect: "set (foldl (\<lambda>out t. collect_from out (tr_from t)) out ts) = set out \<union> (\<Union>t\<in>set ts. set (tr_from t))"
  by (induction ts arbitrary: out) auto

lemma set_ordered_statuses [simp]: "set (ordered_statuses ss) = set ss"
  by (simp add: ordered_statuses_def)

lemma set_event_from:
  "set (event_from e k) = (\<Union>t\<in>{t \<in> set build_job_transitions. row_matches e k t}. set (tr_from t))"
  by (simp add: event_from_def set_fold_collect)

lemma sorted_ordered_statuses: "sorted (ordered_statuses ss)" and distinct_ordered_statuses: "distinct (ordered_statuses ss)"
  using sorted_build_job_statuses distinct_build_job_statuses
  by (simp_all add: ordered_statuses_def sorted_wrt_filter)

lemma transition_allowed_iff:
  "transition_allowed e k s \<longleftrightarrow>
     (\<exists>t\<in>set build_job_transitions. tr_event t = e \<and> k \<in> set (tr_kinds t) \<and> s \<in> set (tr_from t))"
  by (auto simp: transition_allowed_def set_event_from row_matches_def)

lemma status_sets [simp]:
  "builder_active = [JobClaimed, JobRunning]"
  "cancelable_apk = [JobQueued, JobClaimed, JobRunning, JobBuilt]"
  "cancelable_ota = [JobQueued, JobClaimed, JobRunning]"
  "signer_active = [JobSigning]"
  "dispatch_failure = [JobClaimed]"
  by code_simp+

lemma event_from_simps [simp]:
  "event_from SignerClaim (Some KindApk) = [JobBuilt]"
  "event_from BuilderUpload (Some KindApk) = [JobClaimed, JobRunning]"
  "event_from BuilderBuilt (Some KindApk) = [JobClaimed, JobRunning]"
  "event_from BuilderComplete (Some KindOta) = [JobClaimed, JobRunning]"
  "event_from AdminForceFail (Some KindApk) = [JobSigning]"
  by code_simp+

lemma transition_allowed_simps [simp]:
  "transition_allowed BuilderHeartbeat k s \<longleftrightarrow> s = JobClaimed \<or> s = JobRunning"
  "transition_allowed SignerHeartbeat k s \<longleftrightarrow> k = KindApk \<and> s = JobSigning"
  "transition_allowed BuilderIosRelease k s \<longleftrightarrow> k = KindApk \<and> (s = JobClaimed \<or> s = JobRunning)"
proof -
  have "event_from BuilderHeartbeat (Some KindApk) = [JobClaimed, JobRunning]"
    "event_from BuilderHeartbeat (Some KindOta) = [JobClaimed, JobRunning]"
    "event_from SignerHeartbeat (Some KindApk) = [JobSigning]" "event_from SignerHeartbeat (Some KindOta) = []"
    "event_from BuilderIosRelease (Some KindApk) = [JobClaimed, JobRunning]"
    "event_from BuilderIosRelease (Some KindOta) = []" by code_simp+
  then show "transition_allowed BuilderHeartbeat k s \<longleftrightarrow> s = JobClaimed \<or> s = JobRunning"
    "transition_allowed SignerHeartbeat k s \<longleftrightarrow> k = KindApk \<and> s = JobSigning"
    "transition_allowed BuilderIosRelease k s \<longleftrightarrow> k = KindApk \<and> (s = JobClaimed \<or> s = JobRunning)"
    by (cases k; simp add: transition_allowed_def)+
qed

section \<open>Abstract steps of a job\<close>

text \<open>
  A row whose targets are its sources is a report that only requires the status and leaves it alone;
  every other row moves the job to one of its targets.
\<close>

inductive edge :: "job_kind \<Rightarrow> job_event \<Rightarrow> job_status \<Rightarrow> job_status \<Rightarrow> bool" where
  move: "t \<in> set build_job_transitions \<Longrightarrow> k \<in> set (tr_kinds t) \<Longrightarrow> s \<in> set (tr_from t) \<Longrightarrow>
         tr_to t \<noteq> tr_from t \<Longrightarrow> s' \<in> set (tr_to t) \<Longrightarrow> edge k (tr_event t) s s'"
| stay: "t \<in> set build_job_transitions \<Longrightarrow> k \<in> set (tr_kinds t) \<Longrightarrow> s \<in> set (tr_from t) \<Longrightarrow>
         tr_to t = tr_from t \<Longrightarrow> edge k (tr_event t) s s"

text \<open>The successors, computed; facts about the rows of the table are decided row by row.\<close>

definition next_statuses :: "job_kind \<Rightarrow> job_event \<Rightarrow> job_status \<Rightarrow> job_status list" where
  "next_statuses k e s =
     concat (map (\<lambda>t. if tr_event t = e \<and> contains (tr_kinds t) k \<and> contains (tr_from t) s
                      then (if tr_to t = tr_from t then [s] else tr_to t) else []) build_job_transitions)"

lemma edge_next: "edge k e s s' \<longleftrightarrow> contains (next_statuses k e s) s'"
proof
  assume "edge k e s s'"
  then show "contains (next_statuses k e s) s'"
    by cases (auto simp: next_statuses_def)
next
  assume "contains (next_statuses k e s) s'"
  then obtain t where r: "t \<in> set build_job_transitions"
      "s' \<in> set (if tr_event t = e \<and> contains (tr_kinds t) k \<and> contains (tr_from t) s
                 then (if tr_to t = tr_from t then [s] else tr_to t) else [])"
    by (auto simp only: next_statuses_def contains_iff set_concat set_map)
  then have t: "t \<in> set build_job_transitions" "tr_event t = e" "k \<in> set (tr_kinds t)"
      "s \<in> set (tr_from t)" "s' \<in> set (if tr_to t = tr_from t then [s] else tr_to t)"
    by (simp_all split: if_splits)
  show "edge k e s s'"
  proof (cases "tr_to t = tr_from t")
    case True
    then show ?thesis using stay [OF t(1,3,4)] t(2,5) by simp
  next
    case False
    then show ?thesis using move [OF t(1,3,4) False] t(2,5) by simp
  qed
qed

inductive_cases edgeE: "edge k e s s'"

lemma edge_row:
  assumes "edge k e s s'" and "list_all P build_job_transitions"
  obtains t where "t \<in> set build_job_transitions" "P t" "tr_event t = e" "k \<in> set (tr_kinds t)" "s \<in> set (tr_from t)"
    "s' = s \<or> s' \<in> set (tr_to t)"
proof -
  have P: "P t" if "t \<in> set build_job_transitions" for t using assms(2) that by (simp add: list_all_iff)
  from assms(1) show thesis
  proof (rule edgeE)
    fix t
    assume "e = tr_event t" "t \<in> set build_job_transitions" "k \<in> set (tr_kinds t)" "s \<in> set (tr_from t)"
      "tr_to t \<noteq> tr_from t" "s' \<in> set (tr_to t)"
    then show thesis using that [of t] P by simp
  next
    fix t
    assume "e = tr_event t" "s' = s" "t \<in> set build_job_transitions" "k \<in> set (tr_kinds t)" "s \<in> set (tr_from t)"
    then show thesis using that [of t] P by simp
  qed
qed

inductive path :: "job_kind \<Rightarrow> job_status \<Rightarrow> job_status \<Rightarrow> bool" for k where
  path_refl [intro, simp]: "path k s s"
| path_step: "path k s t \<Longrightarrow> edge k e t u \<Longrightarrow> path k s u"

lemma path_invariant:
  assumes "path k s t" and "P s" and "\<And>e s s'. edge k e s s' \<Longrightarrow> P s \<Longrightarrow> P s'"
  shows "P t"
  using assms(1,2) by (induction rule: path.induct) (auto intro: assms(3))

lemma path_one: "edge k e s t \<Longrightarrow> path k s t"
  by (blast intro: path_step)

lemma edge_moves [intro, simp]:
  "edge k BuilderClaim JobQueued JobClaimed"
  "edge k BuilderHeartbeat JobClaimed JobRunning" "edge k BuilderHeartbeat JobRunning JobRunning"
  "edge k BuilderFail JobClaimed JobFailed" "edge k BuilderFail JobRunning JobFailed"
  "edge KindApk BuilderBuilt JobClaimed JobBuilt" "edge KindApk BuilderBuilt JobRunning JobBuilt"
  "edge KindOta BuilderComplete JobClaimed JobSucceeded" "edge KindOta BuilderComplete JobRunning JobSucceeded"
  "edge KindApk BuilderIosRelease JobClaimed JobSucceeded" "edge KindApk BuilderIosRelease JobRunning JobSucceeded"
  "edge k DispatchFail JobClaimed JobFailed"
  "edge KindApk ReapBuild JobClaimed JobQueued" "edge KindApk ReapBuild JobRunning JobQueued"
  "edge k ReapBuild JobClaimed JobFailed" "edge k ReapBuild JobRunning JobFailed"
  "edge k AdminCancel JobQueued JobCanceled" "edge k AdminCancel JobClaimed JobCanceled"
  "edge k AdminCancel JobRunning JobCanceled" "edge KindApk AdminCancel JobBuilt JobCanceled"
  "edge KindApk AdminForceFail JobSigning JobFailed"
  "edge KindApk SignerClaim JobBuilt JobSigning" "edge KindApk SignerRelease JobSigning JobBuilt"
  "edge KindApk SignerViolation JobSigning JobFailed"
  "edge KindApk SignerTransient JobSigning JobBuilt" "edge KindApk SignerTransient JobSigning JobFailed"
  "edge KindApk SignerComplete JobSigning JobSucceeded"
  "edge KindApk ReapSign JobSigning JobBuilt" "edge KindApk ReapSign JobSigning JobFailed"
  "edge KindApk SignOvertaken JobBuilt JobFailed"
  "edge KindApk SignerHeartbeat JobSigning JobSigning" "edge KindApk SignerUpload JobSigning JobSigning"
  "edge KindApk SignerDownload JobSigning JobSigning"
  "edge KindApk BuilderUpload JobClaimed JobClaimed" "edge KindApk BuilderUpload JobRunning JobRunning"
  unfolding edge_next next_statuses_def build_job_transitions_def by (cases k; simp)+

text \<open>Terminal statuses have no way out, and no signing status is reachable for an OTA job.\<close>

lemma edge_from_in_flight: "edge k e s s' \<Longrightarrow> s \<in> set in_flight_statuses"
proof (erule edge_row [where P = "\<lambda>t. list_all (contains in_flight_statuses) (tr_from t)"])
  show "list_all (\<lambda>t. list_all (contains in_flight_statuses) (tr_from t)) build_job_transitions" by code_simp
qed (auto simp: list_all_iff)

lemma in_flight_not_terminal: "s \<in> set in_flight_statuses \<longleftrightarrow> s \<notin> set terminal_statuses"
  by (cases s) (simp_all add: in_flight_statuses_def terminal_statuses_def)

text \<open>What an OTA job never enters, it never leaves.\<close>

lemma edge_ota:
  "edge KindOta e s s' \<Longrightarrow> s \<noteq> JobBuilt \<and> s \<noteq> JobSigning \<and> s' \<noteq> JobBuilt \<and> s' \<noteq> JobSigning"
proof (erule edge_row [where P = "\<lambda>t. contains (tr_kinds t) KindOta \<longrightarrow>
    \<not> contains (tr_from t) JobBuilt \<and> \<not> contains (tr_from t) JobSigning \<and>
    \<not> contains (tr_to t) JobBuilt \<and> \<not> contains (tr_to t) JobSigning"])
  show "list_all (\<lambda>t. contains (tr_kinds t) KindOta \<longrightarrow>
    \<not> contains (tr_from t) JobBuilt \<and> \<not> contains (tr_from t) JobSigning \<and>
    \<not> contains (tr_to t) JobBuilt \<and> \<not> contains (tr_to t) JobSigning) build_job_transitions" by code_simp
qed auto

lemma path_ota: "path KindOta JobQueued s \<Longrightarrow> s \<noteq> JobBuilt \<and> s \<noteq> JobSigning"
  by (rule path_invariant [where P = "\<lambda>s. s \<noteq> JobBuilt \<and> s \<noteq> JobSigning"]) (auto dest: edge_ota)

lemma path_apk: "path KindApk JobQueued s"
proof -
  have c: "path KindApk JobQueued JobClaimed" by (rule path_one, rule edge_moves)
  have r: "path KindApk JobQueued JobRunning" by (rule path_step [OF c edge_moves(2)])
  have b: "path KindApk JobQueued JobBuilt" by (rule path_step [OF c edge_moves(6)])
  have g: "path KindApk JobQueued JobSigning" by (rule path_step [OF b edge_moves(22)])
  have u: "path KindApk JobQueued JobSucceeded" by (rule path_step [OF g edge_moves(27)])
  have f: "path KindApk JobQueued JobFailed" by (rule path_step [OF g edge_moves(24)])
  have x: "path KindApk JobQueued JobCanceled" by (rule path_one [OF edge_moves(17)])
  show ?thesis by (cases s) (simp_all add: c r b g u f x)
qed

lemma event_from_edges: "s \<in> set (event_from e (Some k)) \<longleftrightarrow> (\<exists>s'. edge k e s s')"
proof
  assume "s \<in> set (event_from e (Some k))"
  then obtain t where t: "t \<in> set build_job_transitions" "tr_event t = e" "k \<in> set (tr_kinds t)" "s \<in> set (tr_from t)"
    by (auto simp: set_event_from row_matches_def)
  have "list_all (\<lambda>t. tr_to t \<noteq> []) build_job_transitions" by code_simp
  then obtain s' where s': "s' \<in> set (tr_to t)" using t(1) by (cases "tr_to t") (auto simp: list_all_iff)
  show "\<exists>s'. edge k e s s'"
    using stay [OF t(1,3,4)] move [OF t(1,3,4) _ s'] by (cases "tr_to t = tr_from t") (auto simp: t(2))
next
  assume "\<exists>s'. edge k e s s'"
  then obtain s' where "edge k e s s'" by blast
  then obtain t where "t \<in> set build_job_transitions" "tr_event t = e" "k \<in> set (tr_kinds t)" "s \<in> set (tr_from t)"
    by (rule edge_row [where P = "\<lambda>_. True"]) (simp_all add: list_all_iff)
  then show "s \<in> set (event_from e (Some k))" by (auto simp: set_event_from row_matches_def)
qed

lemma leaves_in_flight:
  "(\<exists>e s'. edge k e s s') \<longleftrightarrow>
     s \<in> set in_flight_statuses \<and> (k = KindOta \<longrightarrow> s \<noteq> JobBuilt \<and> s \<noteq> JobSigning)"
proof
  assume "\<exists>e s'. edge k e s s'"
  then show "s \<in> set in_flight_statuses \<and> (k = KindOta \<longrightarrow> s \<noteq> JobBuilt \<and> s \<noteq> JobSigning)"
    using edge_from_in_flight edge_ota by blast
next
  assume "s \<in> set in_flight_statuses \<and> (k = KindOta \<longrightarrow> s \<noteq> JobBuilt \<and> s \<noteq> JobSigning)"
  then show "\<exists>e s'. edge k e s s'"
    using edge_moves(1,5,17-25) by (cases s; cases k) (auto simp: in_flight_statuses_def intro: edge_moves)
qed

lemma end_reachable: "\<exists>t\<in>set terminal_statuses. path KindApk s t"
proof (cases "s \<in> set terminal_statuses")
  case True
  then show ?thesis by blast
next
  case False
  then show ?thesis using path_one [OF edge_moves(17)] path_one [OF edge_moves(18)] path_one [OF edge_moves(19)]
      path_one [OF edge_moves(20)] path_one [OF edge_moves(21)]
    by (cases s) (auto simp: terminal_statuses_def)
qed

text \<open>Property C36. The transition table is well formed: a job can leave exactly the statuses in flight
  and from each of them an end is reachable, the lists of statuses a query uses are in flow order
  without repetition and hold exactly the starts of the event's rows, every status of the type is
  reachable for an installable package, and an OTA job never waits for or is in signing.\<close>

theorem transition_table_well_formed:
  "(\<exists>e' s'. edge k e' s s') = (s \<in> set in_flight_statuses \<and> \<not> (k = KindOta \<and> s \<in> {JobBuilt, JobSigning}))
   \<and> (\<exists>t\<in>set terminal_statuses. path KindApk s t)
   \<and> sorted (event_from e (Some k)) \<and> distinct (event_from e (Some k))
   \<and> (s \<in> set (event_from e (Some k)) \<longleftrightarrow> (\<exists>s'. edge k e s s'))
   \<and> path KindApk JobQueued s
   \<and> \<not> path KindOta JobQueued JobBuilt \<and> \<not> path KindOta JobQueued JobSigning"
proof -
  have "(\<exists>e' s'. edge k e' s s') = (s \<in> set in_flight_statuses \<and> \<not> (k = KindOta \<and> s \<in> {JobBuilt, JobSigning}))"
    using leaves_in_flight [of k s] by auto
  moreover have "sorted (event_from e (Some k))" "distinct (event_from e (Some k))"
    by (simp_all add: event_from_def sorted_ordered_statuses distinct_ordered_statuses)
  ultimately show ?thesis
    using end_reachable [of s] path_apk [of s] event_from_edges [of s e k] path_ota by blast
qed

end
