(* ===== verification/BuildRows.thy ===== *)
theory BuildRows
  imports BuildStates SignerClient
begin

text \<open>
  The rows behind the build queue and how they change: \<open>buildJob\<close> and the reported text
  (\<open>internal/api/build_jobs.go\<close>, \<open>reported_text.go\<close>), the delivered objects and the guarded state
  change \<open>transitionBuildJob\<close> (\<open>build_job_objects.go\<close>), and the release records with their sequence
  (\<open>simplified_releases.go\<close>).

  A table is a list of rows; a column that may be NULL is an option; a DATETIME is its number of
  milliseconds. A transaction is one update of the whole database record, or none: the argument
  \<open>commits\<close> of an operation says whether the database carried it out. Messages for people are
  constructors with the values the code formats into them.
\<close>

unbundle bit_operations_syntax

section \<open>Rows\<close>

record delivery_columns =
  dc_key :: "bytes option"
  dc_size :: "int option"
  dc_sha256 :: "bytes option"

definition no_delivery :: delivery_columns where
  "no_delivery = \<lparr>dc_key = None, dc_size = None, dc_sha256 = None\<rparr>"

record provenance_record =
  pr_statement :: bytes
  pr_signature :: bytes
  pr_builder :: bytes
  pr_public_key :: bytes
  pr_public_key_sha256 :: bytes

record job_sign_outcome =
  jo_kind :: bytes
  jo_code :: bytes
  jo_detail :: bytes
  jo_machine :: bytes
  jo_at :: int

datatype failure_reason =
  Reported bytes
| BuilderSilent job_kind int
| SignerSilent int
| SignerRefused job_sign_outcome
| SignerGaveUp int job_sign_outcome
| Overtaken "bytes option" int bytes int
| WrongGitRef
| TenantGone
| Undispatchable bytes
| CanceledBecause bytes
| ForcedBecause bytes

record build_part =
  bp_attempt :: int
  bp_machine :: "bytes option"
  bp_unsigned :: delivery_columns
  bp_sbom :: delivery_columns
  bp_appstore :: delivery_columns
  bp_native :: "bytes option"
  bp_provenance :: "provenance_record option"

record sign_part =
  sp_attempt :: int
  sp_failures :: int
  sp_machine :: "bytes option"
  sp_claimed_at :: "int option"
  sp_heartbeat_at :: "int option"
  sp_outcome :: "job_sign_outcome option"
  sp_key :: "bytes option"

record build_job =
  bj_id :: bytes
  bj_tenant :: bytes
  bj_platform :: bytes
  bj_kind :: job_kind
  bj_delivery :: "bytes option"
  bj_base_release :: "bytes option"
  bj_channel :: "bytes option"
  bj_apply :: "bytes option"
  bj_ota_release :: "bytes option"
  bj_git_ref :: bytes
  bj_commit :: "bytes option"
  bj_version :: bytes
  bj_number :: int
  bj_status :: job_status
  bj_claimed_by :: "bytes option"
  bj_claimed_at :: "int option"
  bj_heartbeat_at :: "int option"
  bj_release :: "bytes option"
  bj_artifact :: "bytes option"
  bj_log_tail :: "bytes list"
  bj_failure :: "failure_reason option"
  bj_reason :: bytes
  bj_created_by :: bytes
  bj_created_at :: int
  bj_updated_at :: int
  bj_build :: build_part
  bj_sign :: sign_part

record app_release =
  ar_id :: bytes
  ar_tenant :: bytes
  ar_platform :: bytes
  ar_version :: "bytes option"
  ar_number :: int
  ar_object_key :: bytes
  ar_file_size :: "int option"
  ar_sha256 :: "bytes option"
  ar_job :: "bytes option"
  ar_signer :: "bytes option"
  ar_builder :: "bytes option"
  ar_unsigned_sha256 :: "bytes option"
  ar_native :: "bytes option"
  ar_certificate :: "bytes option"

record audit_event =
  au_tenant :: bytes
  au_actor :: bytes
  au_action :: bytes
  au_target :: bytes

text \<open>\<open>db_written\<close> and \<open>db_deleted\<close> are the object keys that were uploaded and that were asked to be deleted.\<close>

record server_db =
  db_jobs :: "build_job list"
  db_releases :: "app_release list"
  db_audit :: "audit_event list"
  db_written :: "bytes list"
  db_deleted :: "bytes list"

abbreviation attempt_of :: "build_job \<Rightarrow> int" where "attempt_of j \<equiv> bp_attempt (bj_build j)"
abbreviation sign_attempt_of :: "build_job \<Rightarrow> int" where "sign_attempt_of j \<equiv> sp_attempt (bj_sign j)"

text \<open>Machines as the registry holds them (\<open>internal/api/machines.go\<close>).\<close>

record machine =
  mc_id :: bytes
  mc_name :: bytes
  mc_role :: bytes
  mc_status :: bytes
  mc_signer_role :: bytes
  mc_platforms :: "bytes list"
  mc_public_key :: bytes
  mc_public_key_sha256 :: bytes

definition is_active_primary :: "machine \<Rightarrow> bool" where
  "is_active_primary m \<longleftrightarrow>
     mc_role m = ''signer'' \<and> mc_status m = ''active'' \<and> mc_signer_role m = ''primary''"

text \<open>A NULL column read as a Go string: \<open>sql.NullString.String\<close>.\<close>

definition null_string :: "bytes option \<Rightarrow> bytes" where
  "null_string c = (case c of None \<Rightarrow> [] | Some s \<Rightarrow> s)"

definition platform_android :: bytes where "platform_android = ''android''"
definition platform_ios :: bytes where "platform_ios = ''ios''"

section \<open>Reported text\<close>

text \<open>\<open>sanitizeReportedText\<close>: the runes a report may not carry are dropped, bad bytes become U+FFFD.\<close>

definition drop_rune :: "nat \<Rightarrow> bool" where
  "drop_rune r \<longleftrightarrow>
     r \<noteq> 9 \<and> (r < 0x20 \<or> r = 0x7f \<or> 0x80 \<le> r \<and> r \<le> 0x9f
       \<or> 0x202a \<le> r \<and> r \<le> 0x202e \<or> 0x2066 \<le> r \<and> r \<le> 0x2069 \<or> r = 0x200e \<or> r = 0x200f)"

definition sanitize_reported :: "bytes \<Rightarrow> bytes" where
  "sanitize_reported s = concat (map encode_rune [r \<leftarrow> runes s. \<not> drop_rune r])"

definition clip_runes :: "bytes \<Rightarrow> nat \<Rightarrow> bytes" where
  "clip_runes s m = (if length (runes s) \<le> m then s else concat (map encode_rune (take m (runes s))))"

text \<open>\<open>clipBytes\<close>: cut back to the start of a rune (\<open>utf8.RuneStart\<close>).\<close>

definition rune_start :: "char \<Rightarrow> bool" where
  "rune_start c \<longleftrightarrow> \<not> (128 \<le> (of_char c :: nat) \<and> (of_char c :: nat) < 192)"

fun cut_back :: "bytes \<Rightarrow> nat \<Rightarrow> nat" where
  "cut_back s 0 = 0"
| "cut_back s (Suc n) = (if rune_start (s ! Suc n) then Suc n else cut_back s n)"

definition clip_bytes :: "bytes \<Rightarrow> nat \<Rightarrow> bytes" where
  "clip_bytes s m = (if length s \<le> m then s else take (cut_back s m) s)"

definition build_job_log_tail_max :: nat where "build_job_log_tail_max = 200"

definition clamp_log_tail :: "bytes list \<Rightarrow> bytes list" where
  "clamp_log_tail ls =
     map (\<lambda>l. clip_bytes (sanitize_reported l) 2000)
       (if build_job_log_tail_max < length ls then drop (length ls - build_job_log_tail_max) ls else ls)"

text \<open>\<open>sanitizeSignerText\<close>.\<close>

definition sanitize_signer_text :: "bytes \<Rightarrow> nat \<Rightarrow> bytes" where
  "sanitize_signer_text s m = clip_runes (trim_space (sanitize_reported s)) m"

section \<open>Delivered objects\<close>

type_synonym object_set = "8 word"

definition release_unsigned :: object_set where "release_unsigned = push_bit 0 1"
definition release_sbom :: object_set where "release_sbom = push_bit 1 1"
definition release_signed :: object_set where "release_signed = push_bit 2 1"
definition release_appstore :: object_set where "release_appstore = push_bit 3 1"
definition release_nothing :: object_set where "release_nothing = 0"

definition release_build_delivery :: object_set where
  "release_build_delivery = release_unsigned OR release_sbom OR release_appstore"

definition release_all_deliveries :: object_set where
  "release_all_deliveries = release_build_delivery OR release_signed"

lemmas release_set_defs = release_unsigned_def release_sbom_def release_signed_def release_appstore_def
  release_nothing_def release_build_delivery_def release_all_deliveries_def

record object_keys =
  ok_unsigned :: "bytes option"
  ok_sbom :: "bytes option"
  ok_signed :: "bytes option"
  ok_appstore :: "bytes option"

definition job_object_keys :: "build_job \<Rightarrow> object_keys" where
  "job_object_keys j =
     \<lparr>ok_unsigned = dc_key (bp_unsigned (bj_build j)), ok_sbom = dc_key (bp_sbom (bj_build j)),
      ok_signed = sp_key (bj_sign j), ok_appstore = dc_key (bp_appstore (bj_build j))\<rparr>"

text \<open>\<open>jobObjectKeys.pick\<close>.\<close>

definition pick_one :: "object_set \<Rightarrow> object_set \<Rightarrow> bytes option \<Rightarrow> bytes list" where
  "pick_one s want key =
     (case key of None \<Rightarrow> [] | Some k \<Rightarrow> if s AND want \<noteq> 0 \<and> trim_space k \<noteq> [] then [k] else [])"

definition pick :: "object_keys \<Rightarrow> object_set \<Rightarrow> bytes list" where
  "pick k s =
     pick_one s release_unsigned (ok_unsigned k) @ pick_one s release_sbom (ok_sbom k) @
     pick_one s release_signed (ok_signed k) @ pick_one s release_appstore (ok_appstore k)"

text \<open>\<open>objectSet.clearColumns\<close>: the assignments it appends to an UPDATE, as their effect on the row.\<close>

definition clear_columns :: "object_set \<Rightarrow> build_job \<Rightarrow> build_job" where
  "clear_columns s j =
     (let j = (if s AND release_unsigned \<noteq> 0
               then j\<lparr>bj_build := (bj_build j)\<lparr>bp_unsigned := (bp_unsigned (bj_build j))\<lparr>dc_key := None\<rparr>\<rparr>\<rparr> else j);
          j = (if s AND release_sbom \<noteq> 0
               then j\<lparr>bj_build := (bj_build j)\<lparr>bp_sbom := (bp_sbom (bj_build j))\<lparr>dc_key := None\<rparr>\<rparr>\<rparr> else j);
          j = (if s AND release_signed \<noteq> 0 then j\<lparr>bj_sign := (bj_sign j)\<lparr>sp_key := None\<rparr>\<rparr> else j)
      in if s AND release_appstore \<noteq> 0 then j\<lparr>bj_build := (bj_build j)\<lparr>bp_appstore := no_delivery\<rparr>\<rparr> else j)"

section \<open>Guarded state changes\<close>

record job_transition =
  jt_where :: "build_job \<Rightarrow> bool"
  jt_set :: "build_job \<Rightarrow> build_job"
  jt_release :: object_set
  jt_after :: "build_job \<Rightarrow> audit_event list"

text \<open>\<open>SELECT ... WHERE id=?\<close> and \<open>UPDATE ... WHERE id=?\<close>.\<close>

definition find_job :: "bytes \<Rightarrow> server_db \<Rightarrow> build_job option" where
  "find_job i db = find (\<lambda>j. bj_id j = i) (db_jobs db)"

definition update_job :: "bytes \<Rightarrow> (build_job \<Rightarrow> build_job) \<Rightarrow> server_db \<Rightarrow> server_db" where
  "update_job i f db = db\<lparr>db_jobs := map (\<lambda>j. if bj_id j = i then f j else j) (db_jobs db)\<rparr>"

definition delete_objects :: "bytes list \<Rightarrow> server_db \<Rightarrow> server_db" where
  "delete_objects ks db = db\<lparr>db_deleted := db_deleted db @ ks\<rparr>"

definition insert_audit :: "audit_event list \<Rightarrow> server_db \<Rightarrow> server_db" where
  "insert_audit es db = db\<lparr>db_audit := db_audit db @ es\<rparr>"

text \<open>
  \<open>transitionBuildJob\<close>: lock the row that satisfies the guard, change it and clear the abandoned keys
  in one transaction, delete the objects after the commit. Left: the database failed and nothing
  changed; None: no row satisfies the guard.
\<close>

definition transition_build_job :: "bool \<Rightarrow> bytes \<Rightarrow> job_transition \<Rightarrow> server_db \<Rightarrow> (unit + build_job option) \<times> server_db" where
  "transition_build_job commits job_id t db =
     (case find (\<lambda>j. bj_id j = job_id \<and> jt_where t j) (db_jobs db) of
        None \<Rightarrow> (Inr None, db)
      | Some locked \<Rightarrow>
          if \<not> commits then (Inl (), db)
          else (Inr (Some locked),
                delete_objects (pick (job_object_keys locked) (jt_release t))
                  (insert_audit (jt_after t locked)
                    (update_job job_id (\<lambda>j. clear_columns (jt_release t) (jt_set t j)) db))))"

section \<open>Release records\<close>

text \<open>
  \<open>golang.org/x/mod/semver\<close> compares versions; it is a parameter, \<open>semver_ok\<close> its documentation:
  a total order up to equivalence.
\<close>

type_synonym semver = "bytes \<Rightarrow> bytes \<Rightarrow> int"

definition semver_ok :: "semver \<Rightarrow> bool" where
  "semver_ok cmp \<longleftrightarrow> (\<forall>a. cmp a a = 0) \<and> (\<forall>a b c. 0 < cmp a b \<longrightarrow> 0 < cmp b c \<longrightarrow> 0 < cmp a c)"

record latest_release =
  lr_version :: "bytes option"
  lr_number :: int

text \<open>\<open>latestReleaseFor\<close>: the greatest build number of the tenant and platform.\<close>

fun greatest_number :: "app_release list \<Rightarrow> app_release option" where
  "greatest_number [] = None"
| "greatest_number (r # rs) =
     (case greatest_number rs of
        None \<Rightarrow> Some r
      | Some g \<Rightarrow> if ar_number r < ar_number g then Some g else Some r)"

definition sequence_of :: "bytes \<Rightarrow> bytes \<Rightarrow> server_db \<Rightarrow> app_release list" where
  "sequence_of tenant platform db = [r \<leftarrow> db_releases db. ar_tenant r = tenant \<and> ar_platform r = platform]"

definition latest_release_for :: "bytes \<Rightarrow> bytes \<Rightarrow> server_db \<Rightarrow> latest_release option" where
  "latest_release_for tenant platform db =
     map_option (\<lambda>r. \<lparr>lr_version = ar_version r, lr_number = ar_number r\<rparr>)
       (greatest_number (sequence_of tenant platform db))"

text \<open>\<open>latestRelease.increasedBy\<close>.\<close>

definition increased_by :: "semver \<Rightarrow> latest_release option \<Rightarrow> bytes \<Rightarrow> int \<Rightarrow> bool" where
  "increased_by cmp l version build_number \<longleftrightarrow>
     (case l of
        None \<Rightarrow> True
      | Some l \<Rightarrow> lr_number l < build_number
          \<and> (case lr_version l of None \<Rightarrow> True | Some v \<Rightarrow> 0 < cmp version v))"

datatype response =
  Problem int bytes
| NoContent
| AnswerRelease bytes
| AnswerObject bytes int
| AnswerJob build_job
| HasActiveJob bytes int

definition release_audit :: "app_release \<Rightarrow> bytes \<Rightarrow> audit_event" where
  "release_audit r actor = \<lparr>au_tenant = ar_tenant r, au_actor = actor, au_action = ''release_create'', au_target = ar_id r\<rparr>"

text \<open>\<open>insertReleaseInTx\<close>: Left is the rejection; nothing is written then.\<close>

definition insert_release :: "semver \<Rightarrow> app_release \<Rightarrow> bytes \<Rightarrow> server_db \<Rightarrow> response + server_db" where
  "insert_release cmp r actor db =
     (if \<not> increased_by cmp (latest_release_for (ar_tenant r) (ar_platform r) db) (null_string (ar_version r)) (ar_number r)
      then Inl (Problem 409 ''RELEASE_VERSION_NOT_INCREASING'')
      else Inr (insert_audit [release_audit r actor] (db\<lparr>db_releases := db_releases db @ [r]\<rparr>)))"

text \<open>
  \<open>withReleaseSequence\<close>: the named lock of the tenant and platform may be held by another request;
  otherwise the function runs in one transaction that commits or leaves the database alone.
\<close>

datatype sequence_outcome = SequenceBusy | SequenceFailed | SequenceRuns

definition with_release_sequence ::
  "sequence_outcome \<Rightarrow> bytes \<Rightarrow> (server_db \<Rightarrow> response + response \<times> server_db) \<Rightarrow> server_db \<Rightarrow> response \<times> server_db" where
  "with_release_sequence outcome failure_code f db =
     (case outcome of
        SequenceBusy \<Rightarrow> (Problem 409 code_release_sequence_busy, db)
      | SequenceFailed \<Rightarrow> (Problem 500 failure_code, db)
      | SequenceRuns \<Rightarrow>
          (case f db of Inl rejection \<Rightarrow> (rejection, db) | Inr (answer, db') \<Rightarrow> (answer, db')))"

end
