(* ===== verification/BuildAgent.thy ===== *)
theory BuildAgent
  imports BuildRows
begin

text \<open>
  What builders may do to a job: claim, heartbeat, fail, deliver, report a result
  (\<open>internal/api/build_agent.go\<close>, \<open>ios_build_release.go\<close>).

  A handler that reads the job first and changes it in a later transaction is two definitions, so that
  other requests can come in between: the first takes the database as it is read, the second the job
  that was read and the database at the commit. A decoded request body is an option; None is a body
  that does not decode. What the tenant configuration says is an argument.
\<close>

section \<open>Requests\<close>

definition max_build_attempts :: int where "max_build_attempts = 3"
definition build_git_ref :: bytes where "build_git_ref = ''main''"

text \<open>\<open>attemptFromHeader\<close>.\<close>

definition attempt_from_header :: "bytes \<Rightarrow> int option" where
  "attempt_from_header h =
     (let raw = trim_space h
      in case atoi raw of
           None \<Rightarrow> None
         | Some v \<Rightarrow> if v < 1 \<or> int_str v \<noteq> raw then None else Some v)"

definition load_build_job :: "bytes \<Rightarrow> server_db \<Rightarrow> response + build_job" where
  "load_build_job i db =
     (case find_job (trim_space i) db of None \<Rightarrow> Inl (Problem 404 ''BUILD_JOB_NOT_FOUND'') | Some j \<Rightarrow> Inr j)"

definition attempt_stale :: response where "attempt_stale = Problem 409 ''BUILD_ATTEMPT_STALE''"
definition save_failed :: response where "save_failed = Problem 500 ''BUILD_JOB_SAVE_FAILED''"

text \<open>\<open>builderJobScopeWith\<close>.\<close>

definition builder_job_scope :: "bool \<Rightarrow> machine \<Rightarrow> bytes \<Rightarrow> bytes \<Rightarrow> server_db \<Rightarrow> response + build_job" where
  "builder_job_scope allow_succeeded m header job_id db =
     (case attempt_from_header header of
        None \<Rightarrow> Inl (Problem 400 ''INVALID_BUILD_ATTEMPT'')
      | Some attempt \<Rightarrow>
          rbind (load_build_job job_id db) (\<lambda>job.
            let active = transition_allowed BuilderHeartbeat (bj_kind job) (bj_status job)
                         \<or> allow_succeeded \<and> bj_status job = JobSucceeded
            in if \<not> active \<or> attempt_of job \<noteq> attempt \<or> null_string (bp_machine (bj_build job)) \<noteq> mc_id m
               then Inl attempt_stale else Inr job))"

text \<open>The guard of every builder report, and of the one that also names the kind.\<close>

definition builder_guard :: "int \<Rightarrow> machine \<Rightarrow> build_job \<Rightarrow> bool" where
  "builder_guard attempt m j \<longleftrightarrow>
     contains builder_active (bj_status j) \<and> attempt_of j = attempt \<and> bp_machine (bj_build j) = Some (mc_id m)"

section \<open>Conditional updates\<close>

text \<open>
  An UPDATE with conditions: the number of rows whose values changed (MySQL's default), and
  \<open>rowsMatched\<close>, which asks again when that number is 0.
\<close>

definition update_where :: "bytes \<Rightarrow> (build_job \<Rightarrow> bool) \<Rightarrow> (build_job \<Rightarrow> build_job) \<Rightarrow> server_db \<Rightarrow> nat \<times> server_db" where
  "update_where i cond f db =
     (length [j \<leftarrow> db_jobs db. bj_id j = i \<and> cond j \<and> f j \<noteq> j],
      db\<lparr>db_jobs := map (\<lambda>j. if bj_id j = i \<and> cond j then f j else j) (db_jobs db)\<rparr>)"

definition rows_matched :: "nat \<Rightarrow> bytes \<Rightarrow> (build_job \<Rightarrow> bool) \<Rightarrow> server_db \<Rightarrow> bool" where
  "rows_matched affected i cond db \<longleftrightarrow>
     (if affected \<noteq> 0 then affected = 1 else length [j \<leftarrow> db_jobs db. bj_id j = i \<and> cond j] = 1)"

section \<open>Heartbeat and failure\<close>

definition build_job_heartbeat ::
  "machine \<Rightarrow> bytes \<Rightarrow> bytes list option \<Rightarrow> int \<Rightarrow> bytes \<Rightarrow> bool \<Rightarrow> server_db \<Rightarrow> response \<times> server_db" where
  "build_job_heartbeat m header body now job_id commits db =
     (case attempt_from_header header of
        None \<Rightarrow> (Problem 400 ''INVALID_BUILD_ATTEMPT'', db)
      | Some attempt \<Rightarrow>
          (case body of
             None \<Rightarrow> (Problem 400 ''INVALID_BUILD_PROGRESS'', db)
           | Some log_tail \<Rightarrow>
               if \<not> commits then (save_failed, db)
               else
                 (case update_where job_id (builder_guard attempt m)
                         (\<lambda>j. j\<lparr>bj_status := JobRunning, bj_heartbeat_at := Some now,
                               bj_log_tail := clamp_log_tail log_tail, bj_updated_at := now\<rparr>) db of
                    (affected, db') \<Rightarrow>
                      if \<not> rows_matched affected job_id (builder_guard attempt m) db' then (attempt_stale, db')
                      else (NoContent, db'))))"

text \<open>The assignments with which a job goes back to the queue.\<close>

definition requeue_set :: "int \<Rightarrow> build_job \<Rightarrow> build_job" where
  "requeue_set now j = j\<lparr>bj_status := JobQueued, bj_claimed_at := None, bj_heartbeat_at := None, bj_updated_at := now\<rparr>"

text \<open>\<open>requeueOrphanedBuildJob\<close>: Some is the response already given.\<close>

definition requeue_orphaned ::
  "machine \<Rightarrow> int \<Rightarrow> int \<Rightarrow> bytes \<Rightarrow> bool \<Rightarrow> server_db \<Rightarrow> response option \<times> server_db" where
  "requeue_orphaned m attempt now job_id commits db =
     (case transition_build_job commits job_id
             \<lparr>jt_where = (\<lambda>j. builder_guard attempt m j \<and> bj_kind j = KindApk \<and> attempt_of j < max_build_attempts),
              jt_set = requeue_set now, jt_release = release_build_delivery, jt_after = (\<lambda>_. [])\<rparr> db of
        (Inl _, db') \<Rightarrow> (Some save_failed, db')
      | (Inr None, db') \<Rightarrow> (None, db')
      | (Inr (Some _), db') \<Rightarrow> (Some NoContent, db'))"

record failure_report =
  fr_reason :: bytes
  fr_commit :: bytes
  fr_log_tail :: "bytes list"
  fr_orphaned :: bool

definition fail_set :: "bytes \<Rightarrow> bytes \<Rightarrow> bytes list \<Rightarrow> int \<Rightarrow> build_job \<Rightarrow> build_job" where
  "fail_set reason commit log_tail now j =
     j\<lparr>bj_status := JobFailed, bj_failure := Some (Reported (clip_runes reason 500)),
       bj_commit := (if commit = [] then bj_commit j else Some commit),
       bj_log_tail := clamp_log_tail log_tail, bj_heartbeat_at := Some now, bj_updated_at := now\<rparr>"

definition fail_build_job ::
  "machine \<Rightarrow> bytes \<Rightarrow> failure_report option \<Rightarrow> int \<Rightarrow> bytes \<Rightarrow> bool \<Rightarrow> bool \<Rightarrow> server_db \<Rightarrow> response \<times> server_db" where
  "fail_build_job m header body now job_id requeue_commits commits db =
     (case attempt_from_header header of
        None \<Rightarrow> (Problem 400 ''INVALID_BUILD_ATTEMPT'', db)
      | Some attempt \<Rightarrow>
          (case body of
             None \<Rightarrow> (Problem 400 ''INVALID_BUILD_RESULT'', db)
           | Some b \<Rightarrow>
               let reason = trim_space (sanitize_reported (fr_reason b));
                   commit = to_lower (trim_space (fr_commit b));
                   commit = (if valid_commit commit then commit else [])
               in if reason = [] then (Problem 400 ''INVALID_BUILD_RESULT'', db)
                  else
                    (case (if fr_orphaned b then requeue_orphaned m attempt now job_id requeue_commits db else (None, db)) of
                       (Some answer, db') \<Rightarrow> (answer, db')
                     | (None, db') \<Rightarrow>
                         (case transition_build_job commits job_id
                                 \<lparr>jt_where = builder_guard attempt m, jt_set = fail_set reason commit (fr_log_tail b) now,
                                  jt_release = release_build_delivery, jt_after = (\<lambda>_. [])\<rparr> db' of
                            (Inl _, db'') \<Rightarrow> (save_failed, db'')
                          | (Inr None, db'') \<Rightarrow> (attempt_stale, db'')
                          | (Inr (Some _), db'') \<Rightarrow> (NoContent, db'')))))"

section \<open>OTA results\<close>

record ota_report =
  or_commit :: bytes
  or_artifact :: bytes
  or_release :: bytes
  or_log_tail :: "bytes list"

text \<open>\<open>completeOTABuildJob\<close>: the checks on the job that was read, and the UPDATE.\<close>

definition complete_ota_checked :: "ota_report option \<Rightarrow> build_job \<Rightarrow> response + bytes \<times> bytes" where
  "complete_ota_checked body job =
     (if bj_kind job \<noteq> KindOta then Inl (Problem 409 ''BUILD_KIND_MISMATCH'')
      else
        case body of
          None \<Rightarrow> Inl (Problem 400 ''INVALID_BUILD_RESULT'')
        | Some b \<Rightarrow>
            let commit = to_lower (trim_space (or_commit b)); digest = to_lower (trim_space (or_artifact b))
            in if \<not> valid_commit commit \<or> \<not> fingerprint_valid digest then Inl (Problem 400 ''INVALID_BUILD_RESULT'')
               else Inr (commit, digest))"

definition null_if_empty :: "bytes \<Rightarrow> bytes option" where
  "null_if_empty s = (if s = [] then None else Some s)"

definition complete_ota_set :: "bytes \<Rightarrow> bytes \<Rightarrow> bytes \<Rightarrow> bytes list \<Rightarrow> int \<Rightarrow> build_job \<Rightarrow> build_job" where
  "complete_ota_set commit digest release log_tail now j =
     j\<lparr>bj_status := JobSucceeded, bj_commit := Some commit, bj_artifact := Some digest,
       bj_ota_release := null_if_empty (trim_space release), bj_log_tail := clamp_log_tail log_tail,
       bj_heartbeat_at := Some now, bj_updated_at := now\<rparr>"

definition complete_ota ::
  "machine \<Rightarrow> ota_report option \<Rightarrow> int \<Rightarrow> build_job \<Rightarrow> bool \<Rightarrow> server_db \<Rightarrow> response \<times> server_db" where
  "complete_ota m body now job commits db =
     (case complete_ota_checked body job of
        Inl answer \<Rightarrow> (answer, db)
      | Inr (commit, digest) \<Rightarrow>
          if \<not> commits then (save_failed, db)
          else
            (case body of
               None \<Rightarrow> (save_failed, db)
             | Some b \<Rightarrow>
                 (case update_where (bj_id job)
                         (\<lambda>j. bj_kind j = KindOta \<and> contains (event_from BuilderComplete (Some KindOta)) (bj_status j)
                              \<and> attempt_of j = attempt_of job \<and> bp_machine (bj_build j) = Some (mc_id m))
                         (complete_ota_set commit digest (or_release b) (or_log_tail b) now) db of
                    (affected, db') \<Rightarrow> if affected \<noteq> 1 then (attempt_stale, db') else (NoContent, db'))))"

section \<open>Deliveries\<close>

text \<open>\<open>recordDeliveredObject\<close>: Left: the database failed; None: the claim is not current.\<close>

definition record_delivered_object ::
  "bool \<Rightarrow> bytes \<Rightarrow> (build_job \<Rightarrow> bool) \<Rightarrow> (build_job \<Rightarrow> bytes option) \<Rightarrow> (build_job \<Rightarrow> build_job) \<Rightarrow>
   server_db \<Rightarrow> (unit + bytes option option) \<times> server_db" where
  "record_delivered_object commits i cond old f db =
     (case find (\<lambda>j. bj_id j = i \<and> cond j) (db_jobs db) of
        None \<Rightarrow> (Inr None, db)
      | Some j \<Rightarrow> if \<not> commits then (Inl (), db) else (Inr (Some (old j)), update_job i f db))"

definition delete_replaced_object :: "bytes option \<Rightarrow> bytes \<Rightarrow> server_db \<Rightarrow> server_db" where
  "delete_replaced_object replaced key db =
     (case replaced of
        None \<Rightarrow> db
      | Some old \<Rightarrow> if old = [] \<or> old = key then db else delete_objects [old] db)"

datatype delivery = DeliverUnsigned | DeliverSbom | DeliverIpa | DeliverAppStoreInfo

text \<open>The three columns of a delivery; an .ipa is kept in the columns of the unsigned package.\<close>

fun delivered_columns :: "delivery \<Rightarrow> build_job \<Rightarrow> delivery_columns" where
  "delivered_columns DeliverUnsigned j = bp_unsigned (bj_build j)"
| "delivered_columns DeliverSbom j = bp_sbom (bj_build j)"
| "delivered_columns DeliverIpa j = bp_unsigned (bj_build j)"
| "delivered_columns DeliverAppStoreInfo j = bp_appstore (bj_build j)"

fun store_delivered :: "delivery \<Rightarrow> delivery_columns \<Rightarrow> build_part \<Rightarrow> build_part" where
  "store_delivered DeliverUnsigned c b = b\<lparr>bp_unsigned := c\<rparr>"
| "store_delivered DeliverSbom c b = b\<lparr>bp_sbom := c\<rparr>"
| "store_delivered DeliverIpa c b = b\<lparr>bp_unsigned := c\<rparr>"
| "store_delivered DeliverAppStoreInfo c b = b\<lparr>bp_appstore := c\<rparr>"

definition set_delivered :: "delivery \<Rightarrow> bytes \<Rightarrow> int \<Rightarrow> bytes \<Rightarrow> int \<Rightarrow> build_job \<Rightarrow> build_job" where
  "set_delivered what key sz sha now j =
     j\<lparr>bj_build := store_delivered what \<lparr>dc_key = Some key, dc_size = Some sz, dc_sha256 = Some sha\<rparr> (bj_build j),
       bj_updated_at := now\<rparr>"

text \<open>
  What is decided before a byte is read, in \<open>uploadUnsignedArtifact\<close>, \<open>uploadBuildSBOM\<close> with the first
  half of \<open>receiveBuildDelivery\<close>, and in \<open>uploadIOSPackage\<close>, \<open>uploadIOSAppStoreInfo\<close> (\<open>identity\<close>: whether
  the tenant still has an iOS release identity).
\<close>

definition delivery_testflight :: bytes where "delivery_testflight = ''testflight''"
definition delivery_ipa :: bytes where "delivery_ipa = ''ipa''"

text \<open>\<open>jobDelivery\<close>.\<close>

definition job_delivery :: "build_job \<Rightarrow> bytes" where
  "job_delivery j =
     (if bj_platform j \<noteq> platform_ios \<or> bj_kind j \<noteq> KindApk then []
      else case bj_delivery j of
             None \<Rightarrow> delivery_testflight
           | Some d \<Rightarrow> if d = delivery_testflight \<or> d = delivery_ipa then d else delivery_testflight)"

definition delivery_checked :: "delivery \<Rightarrow> bool \<Rightarrow> build_job \<Rightarrow> response option" where
  "delivery_checked what storage job =
     (if what = DeliverUnsigned \<and> bj_platform job \<noteq> platform_android then Some (Problem 409 ''BUILD_PLATFORM_MISMATCH'')
      else if bj_kind job \<noteq> KindApk then Some (Problem 409 ''BUILD_KIND_MISMATCH'')
      else if \<not> storage then Some (Problem 503 ''STORAGE_UNAVAILABLE'')
      else None)"

definition ios_delivery_checked :: "bool \<Rightarrow> bool \<Rightarrow> build_job \<Rightarrow> response option" where
  "ios_delivery_checked identity storage job =
     (if bj_kind job \<noteq> KindApk \<or> bj_platform job \<noteq> platform_ios \<or> job_delivery job \<noteq> delivery_ipa
      then Some (Problem 409 ''BUILD_KIND_MISMATCH'')
      else if \<not> identity then Some (Problem 409 ''IOS_IDENTITY_INCOMPLETE'')
      else if \<not> storage then Some (Problem 503 ''STORAGE_UNAVAILABLE'')
      else None)"

text \<open>The condition under which the row takes the object.\<close>

definition delivery_guard :: "machine \<Rightarrow> delivery \<Rightarrow> build_job \<Rightarrow> build_job \<Rightarrow> bool" where
  "delivery_guard m what job j \<longleftrightarrow>
     bj_kind j = KindApk
     \<and> (what = DeliverIpa \<or> what = DeliverAppStoreInfo \<longrightarrow>
          bj_platform j = platform_ios \<and> bj_delivery j = Some delivery_ipa)
     \<and> contains (event_from BuilderUpload (Some KindApk)) (bj_status j)
     \<and> attempt_of j = attempt_of job \<and> bp_machine (bj_build j) = Some (mc_id m)"

text \<open>
  The rest: the stream was received, inspected and stored under a new key (\<open>received\<close>: its size and
  sha256, or the answer of a failure before the object was stored), a stored SBOM must parse, and the
  row takes the object if the claim is still current.
\<close>

definition receive_delivery ::
  "machine \<Rightarrow> delivery \<Rightarrow> bytes \<Rightarrow> response + int \<times> bytes \<Rightarrow> bool \<Rightarrow> int \<Rightarrow> build_job \<Rightarrow> bool \<Rightarrow> server_db \<Rightarrow> response \<times> server_db" where
  "receive_delivery m what key received sbom_ok now job commits db =
     (case received of
        Inl answer \<Rightarrow> (answer, db)
      | Inr (sz, sha) \<Rightarrow>
          let db = db\<lparr>db_written := db_written db @ [key]\<rparr>
          in if what = DeliverSbom \<and> \<not> sbom_ok then (Problem 422 ''BUILD_SBOM_INVALID'', delete_objects [key] db)
             else
               (case record_delivered_object commits (bj_id job) (delivery_guard m what job)
                       (\<lambda>j. dc_key (delivered_columns what j)) (set_delivered what key sz sha now) db of
                  (Inl _, db') \<Rightarrow> (save_failed, db')
                | (Inr None, db') \<Rightarrow> (attempt_stale, delete_objects [key] db')
                | (Inr (Some replaced), db') \<Rightarrow> (AnswerObject sha sz, delete_replaced_object replaced key db')))"

end
