(* ===== verification/BuildClaim.thy ===== *)
theory BuildClaim
  imports BuildAgent Provenance "HOL-Library.Option_ord"
begin

text \<open>
  The claim of a build and its two kinds of result (\<open>claimBuildJob\<close>, \<open>markBuildJobFailed\<close>,
  \<open>markBuildJobBuilt\<close> of \<open>internal/api/build_agent.go\<close>; \<open>completeIOSBuildJob\<close> of
  \<open>internal/api/ios_build_release.go\<close>). The self reports of a machine enter as what their normalisers
  return; rows that another transaction has locked are skipped by the query and are an argument.
\<close>

section \<open>Claiming\<close>

record claim_request =
  cq_platforms :: "bytes list"
  cq_kinds :: "bytes list"
  cq_agent_commit :: bytes
  cq_os :: bytes
  cq_free_gb :: int
  cq_paused :: bool
  cq_reports_ok :: bool
  cq_pairs :: "bytes list"
  cq_upload_pairs :: "bytes list"
  cq_ipa_capable :: bool

fun kind_text :: "job_kind \<Rightarrow> bytes" where
  "kind_text KindApk = ''apk''"
| "kind_text KindOta = ''ota''"

text \<open>What the handler reads of the configuration: the approved agent version, the slug of a tenant,
  the signing pair of a tenant's \<open>release.ios\<close>.\<close>

record tenant_view =
  tv_approved_commit :: "bytes option"
  tv_slug :: "bytes \<Rightarrow> bytes option"
  tv_ios_pair :: "bytes \<Rightarrow> bytes option"

definition claim_request_valid :: "claim_request \<Rightarrow> bool" where
  "claim_request_valid q \<longleftrightarrow>
     cq_platforms q \<noteq> [] \<and> cq_kinds q \<noteq> []
     \<and> list_all (\<lambda>p. p = platform_android \<or> p = platform_ios) (cq_platforms q)
     \<and> list_all (\<lambda>k. k = kind_text KindApk \<or> k = kind_text KindOta) (cq_kinds q)
     \<and> (cq_agent_commit q = [] \<or> valid_commit (cq_agent_commit q))
     \<and> (cq_os q = [] \<or> cq_os q = ''darwin'' \<or> cq_os q = ''linux'')
     \<and> 0 \<le> cq_free_gb q \<and> cq_reports_ok q"

text \<open>\<open>buildMachine.buildPlatforms\<close>, and the platforms a claim is narrowed to.\<close>

definition build_platforms :: "machine \<Rightarrow> bytes list" where
  "build_platforms m =
     (if mc_role m \<noteq> ''builder'' then [] else if mc_platforms m = [] then [platform_android] else mc_platforms m)"

definition claimed_platforms :: "machine \<Rightarrow> claim_request \<Rightarrow> bytes list" where
  "claimed_platforms m q =
     [p \<leftarrow> cq_platforms q. contains (build_platforms m) p \<and> \<not> (p = platform_ios \<and> cq_pairs q = [])]"

definition or_blank :: "bytes list \<Rightarrow> bytes list" where
  "or_blank ps = (if ps = [] then [[]] else ps)"

text \<open>The conditions of the query that picks a job.\<close>

definition ios_apk_active :: "server_db \<Rightarrow> build_job \<Rightarrow> bool" where
  "ios_apk_active db j \<longleftrightarrow>
     list_ex (\<lambda>x. bj_tenant x = bj_tenant j \<and> bj_platform x = bj_platform j \<and> bj_kind x = KindApk
                  \<and> contains builder_active (bj_status x)) (db_jobs db)"

definition ios_apk_earlier :: "server_db \<Rightarrow> build_job \<Rightarrow> bool" where
  "ios_apk_earlier db j \<longleftrightarrow>
     list_ex (\<lambda>x. bj_tenant x = bj_tenant j \<and> bj_platform x = bj_platform j \<and> bj_kind x = KindApk
                  \<and> bj_status x = JobQueued
                  \<and> (bj_created_at x < bj_created_at j \<or> bj_created_at x = bj_created_at j \<and> bj_id x < bj_id j))
       (db_jobs db)"

definition ios_material :: "tenant_view \<Rightarrow> claim_request \<Rightarrow> build_job \<Rightarrow> bool" where
  "ios_material T q j \<longleftrightarrow>
     (case tv_ios_pair T (bj_tenant j) of
        None \<Rightarrow> False
      | Some pair \<Rightarrow>
          contains (or_blank (cq_pairs q)) pair
          \<and> (bj_kind j \<noteq> KindApk
             \<or> (case bj_delivery j of None \<Rightarrow> delivery_testflight | Some d \<Rightarrow> d) = delivery_testflight
                 \<and> contains (or_blank (cq_upload_pairs q)) pair
             \<or> bj_delivery j = Some delivery_ipa \<and> cq_ipa_capable q))"

definition claimable :: "tenant_view \<Rightarrow> machine \<Rightarrow> claim_request \<Rightarrow> server_db \<Rightarrow> build_job \<Rightarrow> bool" where
  "claimable T m q db j \<longleftrightarrow>
     bj_status j = JobQueued \<and> contains (claimed_platforms m q) (bj_platform j)
     \<and> contains (cq_kinds q) (kind_text (bj_kind j))
     \<and> (bj_platform j \<noteq> platform_ios
        \<or> \<not> ios_apk_active db j \<and> (bj_kind j \<noteq> KindApk \<or> \<not> ios_apk_earlier db j) \<and> ios_material T q j)"

text \<open>\<open>ORDER BY ... LIMIT 1\<close>.\<close>

fun first_by :: "('a \<Rightarrow> 'k :: linorder) \<Rightarrow> 'a list \<Rightarrow> 'a option" where
  "first_by key [] = None"
| "first_by key (x # xs) =
     (case first_by key xs of None \<Rightarrow> Some x | Some y \<Rightarrow> if key y < key x then Some y else Some x)"

definition claim_set :: "machine \<Rightarrow> int \<Rightarrow> build_job \<Rightarrow> build_job" where
  "claim_set m now j =
     j\<lparr>bj_status := JobClaimed, bj_claimed_by := Some (mc_name m), bj_claimed_at := Some now,
       bj_heartbeat_at := Some now, bj_commit := None, bj_updated_at := now,
       bj_build := \<lparr>bp_attempt = attempt_of j + 1, bp_machine = Some (mc_id m), bp_unsigned = no_delivery,
                    bp_sbom = no_delivery, bp_appstore = no_delivery, bp_native = None, bp_provenance = None\<rparr>\<rparr>"

definition fail_claimed :: "failure_reason \<Rightarrow> int \<Rightarrow> build_job \<Rightarrow> build_job" where
  "fail_claimed reason now j = j\<lparr>bj_status := JobFailed, bj_failure := Some reason, bj_updated_at := now\<rparr>"

text \<open>
  The transaction of \<open>claimBuildJob\<close> under the machine's named lock. Inr is the job to dispatch; a job
  that cannot be built at all is failed in the same transaction and nothing is dispatched.
\<close>

definition claim_transaction ::
  "tenant_view \<Rightarrow> machine \<Rightarrow> claim_request \<Rightarrow> (build_job \<Rightarrow> bool) \<Rightarrow> int \<Rightarrow> bool \<Rightarrow> server_db \<Rightarrow> (response + build_job) \<times> server_db" where
  "claim_transaction T m q locked now commits db =
     (case first_by bj_claimed_at
             [j \<leftarrow> db_jobs db. bp_machine (bj_build j) = Some (mc_id m) \<and> contains builder_active (bj_status j)] of
        Some a \<Rightarrow> (Inl (HasActiveJob (bj_id a) (attempt_of a)), db)
      | None \<Rightarrow>
          (case first_by bj_created_at [j \<leftarrow> db_jobs db. claimable T m q db j \<and> \<not> locked j] of
             None \<Rightarrow> (Inl NoContent, db)
           | Some j \<Rightarrow>
               if \<not> commits then (Inl save_failed, db)
               else if bj_git_ref j \<noteq> build_git_ref
               then (Inl NoContent, update_job (bj_id j) (fail_claimed WrongGitRef now \<circ> claim_set m now) db)
               else if tv_slug T (bj_tenant j) = None
               then (Inl NoContent, update_job (bj_id j) (fail_claimed TenantGone now \<circ> claim_set m now) db)
               else (Inr (claim_set m now j),
                     delete_objects (pick (job_object_keys j) release_build_delivery)
                       (update_job (bj_id j) (claim_set m now) db))))"

definition claim_build_job ::
  "tenant_view \<Rightarrow> machine \<Rightarrow> claim_request option \<Rightarrow> bool \<Rightarrow> (build_job \<Rightarrow> bool) \<Rightarrow> int \<Rightarrow> bool \<Rightarrow> server_db \<Rightarrow>
   (response + build_job) \<times> server_db" where
  "claim_build_job T m body lock_free locked now commits db =
     (case body of
        None \<Rightarrow> (Inl (Problem 400 ''INVALID_BUILD_CLAIM''), db)
      | Some q \<Rightarrow>
          if \<not> claim_request_valid q then (Inl (Problem 400 ''INVALID_BUILD_CLAIM''), db)
          else if (case tv_approved_commit T of
                     None \<Rightarrow> False | Some target \<Rightarrow> trim_space target \<noteq> [] \<and> cq_agent_commit q \<noteq> trim_space target)
          then (Inl (Problem 409 ''AGENT_UPGRADE_REQUIRED''), db)
          else if cq_paused q then (Inl NoContent, db)
          else if claimed_platforms m q = [] then
            (Inl (if contains (cq_platforms q) platform_ios \<and> contains (build_platforms m) platform_ios then NoContent
                  else Problem 409 ''MACHINE_PLATFORM_NOT_REGISTERED''), db)
          else if \<not> lock_free then (Inl (Problem 409 ''BUILDER_CLAIM_IN_PROGRESS''), db)
          else claim_transaction T m q locked now commits db)"

text \<open>\<open>markBuildJobFailed\<close>: after the claim was committed the job turned out not to be dispatchable.\<close>

definition mark_build_job_failed :: "bytes \<Rightarrow> int \<Rightarrow> build_job \<Rightarrow> bool \<Rightarrow> server_db \<Rightarrow> server_db" where
  "mark_build_job_failed reason now job commits db =
     (if \<not> commits then db
      else snd (update_where (bj_id job)
             (\<lambda>j. contains dispatch_failure (bj_status j) \<and> attempt_of j = attempt_of job
                  \<and> bp_machine (bj_build j) = Some (null_string (bp_machine (bj_build job))))
             (\<lambda>j. (fail_claimed (Undispatchable (clip_runes reason 500)) now j)\<lparr>bj_heartbeat_at := Some now\<rparr>) db))"

section \<open>Delivery to the signing gate\<close>

record built_report =
  bt_commit :: bytes
  bt_native :: bytes
  bt_provenance :: envelope
  bt_log_tail :: "bytes list"

text \<open>\<open>base64.StdEncoding.DecodeString\<close>, which ignores the bits that padding throws away.\<close>

fun b64_quanta_lax :: "bytes \<Rightarrow> bytes option" where
  "b64_quanta_lax [] = Some []"
| "b64_quanta_lax (a # b # c # d # s) =
     (case (b64_val a, b64_val b) of
        (Some i, Some j) \<Rightarrow>
          if c = CHR ''='' then (if d = CHR ''='' \<and> s = [] then Some [char_of (i * 4 + j div 16)] else None)
          else (case b64_val c of None \<Rightarrow> None
            | Some k \<Rightarrow>
                if d = CHR ''='' then
                  (if s = [] then Some [char_of (i * 4 + j div 16), char_of (j mod 16 * 16 + k div 4)] else None)
                else (case b64_val d of None \<Rightarrow> None
                  | Some l \<Rightarrow> map_option (\<lambda>r. char_of (i * 4 + j div 16) # char_of (j mod 16 * 16 + k div 4)
                                   # char_of (k mod 4 * 64 + l) # r) (b64_quanta_lax s)))
      | _ \<Rightarrow> None)"
| "b64_quanta_lax _ = None"

definition b64_decode_lax :: "bytes \<Rightarrow> bytes option" where
  "b64_decode_lax s = b64_quanta_lax (filter (\<lambda>c. \<not> is_crlf c) s)"

definition provenance_invalid :: response where
  "provenance_invalid = Problem 422 ''BUILD_PROVENANCE_INVALID''"

text \<open>The fields of the statement compared with the job, the request and the machine.\<close>

definition statement_matches ::
  "statement \<Rightarrow> build_job \<Rightarrow> machine \<Rightarrow> bytes \<Rightarrow> bytes \<Rightarrow> bytes \<Rightarrow> bytes \<Rightarrow> bool" where
  "statement_matches s job m slug package commit native \<longleftrightarrow>
     st_job_id s = bj_id job \<and> st_attempt s = attempt_of job \<and> st_tenant_slug s = slug
     \<and> st_package_name s = package \<and> st_version_code s = bj_number job \<and> st_version_name s = bj_version job
     \<and> st_commit_sha s = commit
     \<and> st_unsigned_sha256 s = null_string (dc_sha256 (bp_unsigned (bj_build job)))
     \<and> Some (st_unsigned_size s) = dc_size (bp_unsigned (bj_build job))
     \<and> st_sbom_sha256 s = null_string (dc_sha256 (bp_sbom (bj_build job)))
     \<and> st_native_fingerprint s = native \<and> st_builder_id s = mc_id m"

text \<open>
  \<open>markBuildJobBuilt\<close> up to the transaction: \<open>slug\<close> and \<open>package\<close> are the tenant's, None when they
  cannot be read. Inr holds the commit and the native fingerprint.
\<close>

definition built_checked ::
  "crypto \<Rightarrow> (bytes \<Rightarrow> statement option) \<Rightarrow> machine \<Rightarrow> built_report option \<Rightarrow> bytes option \<Rightarrow> bytes option \<Rightarrow>
   build_job \<Rightarrow> response + bytes \<times> bytes" where
  "built_checked K dec m body slug package job =
     (if bj_kind job \<noteq> KindApk then Inl (Problem 409 ''BUILD_KIND_MISMATCH'')
      else if bj_platform job \<noteq> platform_android then Inl (Problem 409 ''BUILD_PLATFORM_MISMATCH'')
      else
        case body of
          None \<Rightarrow> Inl (Problem 400 ''INVALID_BUILD_RESULT'')
        | Some b \<Rightarrow>
            let commit = trim_space (bt_commit b); native = trim_space (bt_native b)
            in if \<not> valid_commit commit \<or> \<not> valid_native_fingerprint native then Inl (Problem 400 ''INVALID_BUILD_RESULT'')
               else if dc_sha256 (bp_unsigned (bj_build job)) = None \<or> dc_size (bp_unsigned (bj_build job)) = None
                       \<or> dc_sha256 (bp_sbom (bj_build job)) = None then Inl provenance_invalid
               else
                 case b64_decode_lax (mc_public_key m) of
                   None \<Rightarrow> Inl provenance_invalid
                 | Some pub \<Rightarrow>
                     if length pub \<noteq> ed_public_key_size then Inl provenance_invalid
                     else
                       case provenance_verify K dec (bt_provenance b) pub of
                         Inl _ \<Rightarrow> Inl provenance_invalid
                       | Inr s \<Rightarrow>
                           (case slug of
                              None \<Rightarrow> Inl (Problem 500 ''BUILD_JOB_QUERY_FAILED'')
                            | Some slug \<Rightarrow>
                                (case package of
                                   None \<Rightarrow> Inl provenance_invalid
                                 | Some package \<Rightarrow>
                                     if statement_matches s job m slug package commit native then Inr (commit, native)
                                     else Inl provenance_invalid)))"

definition built_set :: "machine \<Rightarrow> built_report \<Rightarrow> bytes \<Rightarrow> bytes \<Rightarrow> int \<Rightarrow> build_job \<Rightarrow> build_job" where
  "built_set m b commit native now j =
     j\<lparr>bj_status := JobBuilt, bj_commit := Some commit, bj_log_tail := clamp_log_tail (bt_log_tail b),
       bj_heartbeat_at := Some now, bj_updated_at := now,
       bj_build := (bj_build j)\<lparr>bp_native := Some native,
         bp_provenance := Some \<lparr>pr_statement = env_statement (bt_provenance b), pr_signature = env_signature (bt_provenance b),
           pr_builder = mc_id m, pr_public_key = mc_public_key m, pr_public_key_sha256 = mc_public_key_sha256 m\<rparr>\<rparr>\<rparr>"

text \<open>The transaction; the delivered files are compared once more in its condition.\<close>

definition mark_built ::
  "machine \<Rightarrow> built_report \<Rightarrow> bytes \<Rightarrow> bytes \<Rightarrow> int \<Rightarrow> build_job \<Rightarrow> bool \<Rightarrow> server_db \<Rightarrow> response \<times> server_db" where
  "mark_built m b commit native now job commits db =
     (if \<not> commits then (save_failed, db)
      else
        case update_where (bj_id job)
               (\<lambda>j. bj_kind j = KindApk \<and> contains (event_from BuilderBuilt (Some KindApk)) (bj_status j)
                    \<and> attempt_of j = attempt_of job \<and> bp_machine (bj_build j) = Some (mc_id m)
                    \<and> dc_sha256 (bp_unsigned (bj_build j)) = Some (null_string (dc_sha256 (bp_unsigned (bj_build job))))
                    \<and> dc_size (bp_unsigned (bj_build j)) = dc_size (bp_unsigned (bj_build job))
                    \<and> dc_sha256 (bp_sbom (bj_build j)) = Some (null_string (dc_sha256 (bp_sbom (bj_build job)))))
               (built_set m b commit native now) db of
          (affected, db') \<Rightarrow>
            if affected \<noteq> 1 then (attempt_stale, db)
            else (NoContent,
                  insert_audit [\<lparr>au_tenant = bj_tenant job, au_actor = ''system-build'', au_action = ''build_job_built'',
                                 au_target = bj_id job\<rparr>] db'))"

section \<open>iOS releases\<close>

record ios_report =
  ir_commit :: bytes
  ir_digest :: bytes
  ir_size :: int
  ir_bundle :: bytes
  ir_version :: bytes
  ir_number :: int
  ir_uploaded :: bool
  ir_log_tail :: "bytes list"

text \<open>\<open>strings.EqualFold\<close>, exact when one side is ASCII: two runes above ASCII fold to letters.\<close>

definition fold_rune :: "nat \<Rightarrow> nat" where
  "fold_rune r = (if 65 \<le> r \<and> r \<le> 90 then r + 32 else if r = 0x212A then 107 else if r = 0x17F then 115 else r)"

definition equal_fold :: "bytes \<Rightarrow> bytes \<Rightarrow> bool" where
  "equal_fold a b \<longleftrightarrow> map fold_rune (runes a) = map fold_rune (runes b)"

text \<open>
  \<open>completeIOSBuildJob\<close> up to the transaction; \<open>identity\<close> is the bundle id of the tenant's
  \<open>release.ios\<close>. Inr holds the commit and the digest.
\<close>

definition ios_checked :: "ios_report option \<Rightarrow> bytes option \<Rightarrow> build_job \<Rightarrow> response + bytes \<times> bytes" where
  "ios_checked body identity job =
     (if bj_kind job \<noteq> KindApk \<or> bj_platform job \<noteq> platform_ios then Inl (Problem 409 ''BUILD_KIND_MISMATCH'')
      else
        case body of
          None \<Rightarrow> Inl (Problem 400 ''INVALID_BUILD_RESULT'')
        | Some b \<Rightarrow>
            let commit = to_lower (trim_space (ir_commit b)); digest = to_lower (trim_space (ir_digest b))
            in if \<not> valid_commit commit \<or> \<not> fingerprint_valid digest \<or> ir_size b \<le> 0
               then Inl (Problem 400 ''INVALID_BUILD_RESULT'')
               else
                 (case identity of
                    None \<Rightarrow> Inl (Problem 409 ''IOS_IDENTITY_INCOMPLETE'')
                  | Some bundle \<Rightarrow>
                      if \<not> equal_fold (trim_space (ir_bundle b)) bundle \<or> trim_space (ir_version b) \<noteq> bj_version job
                         \<or> ir_number b \<noteq> bj_number job
                      then Inl (Problem 422 ''IOS_ARTIFACT_MISMATCH'')
                      else if job_delivery job = delivery_testflight then
                        (if \<not> ir_uploaded b then Inl (Problem 409 ''IOS_UPLOAD_MISSING'') else Inr (commit, digest))
                      else if ir_uploaded b then Inl (Problem 409 ''IOS_DELIVERY_MISMATCH'')
                      else if dc_sha256 (bp_unsigned (bj_build job)) \<noteq> Some digest
                              \<or> dc_size (bp_unsigned (bj_build job)) \<noteq> Some (ir_size b)
                      then Inl (Problem 409 ''IOS_IPA_NOT_DELIVERED'')
                      else Inr (commit, digest)))"

definition ios_release :: "machine \<Rightarrow> build_job \<Rightarrow> bytes \<Rightarrow> app_release" where
  "ios_release m job release_id =
     \<lparr>ar_id = release_id, ar_tenant = bj_tenant job, ar_platform = bj_platform job, ar_version = Some (bj_version job),
      ar_number = bj_number job, ar_object_key = [], ar_file_size = None, ar_sha256 = None, ar_job = Some (bj_id job),
      ar_signer = None, ar_builder = Some (mc_id m), ar_unsigned_sha256 = None, ar_native = None, ar_certificate = None\<rparr>"

definition ios_set :: "bytes \<Rightarrow> bytes \<Rightarrow> bytes \<Rightarrow> bytes list \<Rightarrow> int \<Rightarrow> build_job \<Rightarrow> build_job" where
  "ios_set commit digest release_id log_tail now j =
     j\<lparr>bj_status := JobSucceeded, bj_commit := Some commit, bj_artifact := Some digest, bj_release := Some release_id,
       bj_log_tail := clamp_log_tail log_tail, bj_heartbeat_at := Some now, bj_updated_at := now\<rparr>"

text \<open>The transaction under the release sequence; \<open>release_id\<close> is the fresh id of the record.\<close>

definition ios_transaction ::
  "semver \<Rightarrow> machine \<Rightarrow> ios_report \<Rightarrow> bytes \<Rightarrow> bytes \<Rightarrow> bytes \<Rightarrow> int \<Rightarrow> build_job \<Rightarrow> server_db \<Rightarrow> response + response \<times> server_db" where
  "ios_transaction cmp m b commit digest release_id now job db =
     (case find_job (bj_id job) db of
        None \<Rightarrow> Inl (Problem 500 ''RELEASE_CREATE_FAILED'')
      | Some l \<Rightarrow>
          let mine = attempt_of l = attempt_of job \<and> null_string (bp_machine (bj_build l)) = mc_id m
          in if bj_status l = JobSucceeded \<and> bj_release l \<noteq> None \<and> mine \<and> null_string (bj_artifact l) = digest
             then Inr (AnswerRelease (null_string (bj_release l)), db)
             else if bj_status l = JobSucceeded \<and> bj_release l \<noteq> None \<and> mine
             then Inl (Problem 409 ''IOS_RESULT_CONFLICT'')
             else if \<not> transition_allowed BuilderIosRelease KindApk (bj_status l) \<or> \<not> mine then Inl attempt_stale
             else if job_delivery job = delivery_ipa
                     \<and> (null_string (dc_sha256 (bp_unsigned (bj_build l))) \<noteq> digest
                        \<or> (case dc_size (bp_unsigned (bj_build l)) of None \<Rightarrow> 0 | Some n \<Rightarrow> n) \<noteq> ir_size b)
             then Inl (Problem 409 ''IOS_IPA_NOT_DELIVERED'')
             else
               (case insert_release cmp (ios_release m job release_id) ''system-build'' db of
                  Inl rejection \<Rightarrow> Inl rejection
                | Inr db \<Rightarrow>
                    (case update_where (bj_id job)
                            (\<lambda>j. attempt_of j = attempt_of job \<and> bp_machine (bj_build j) = Some (mc_id m))
                            (ios_set commit digest release_id (ir_log_tail b) now) db of
                       (affected, db') \<Rightarrow>
                         if affected \<noteq> 1 then Inl (Problem 500 ''RELEASE_CREATE_FAILED'')
                         else Inr (AnswerRelease release_id,
                                insert_audit [\<lparr>au_tenant = bj_tenant job, au_actor = ''system-build'',
                                               au_action = ''build_job_ios_released'', au_target = bj_id job\<rparr>] db'))))"

definition complete_ios ::
  "semver \<Rightarrow> machine \<Rightarrow> ios_report \<Rightarrow> bytes \<Rightarrow> bytes \<Rightarrow> bytes \<Rightarrow> int \<Rightarrow> build_job \<Rightarrow> sequence_outcome \<Rightarrow> server_db \<Rightarrow> response \<times> server_db" where
  "complete_ios cmp m b commit digest release_id now job outcome db =
     with_release_sequence outcome ''RELEASE_CREATE_FAILED'' (ios_transaction cmp m b commit digest release_id now job) db"

end
