(* ===== verification/BuildSigning.thy ===== *)
theory BuildSigning
  imports BuildClaim SignerJob
begin

text \<open>
  The server's side of the signing gate (\<open>internal/api/signer.go\<close>): which waiting build is handed to
  which gate, and what a gate's reports do to it. \<open>signing_dispatch\<close> answers with the very \<open>claim\<close> that
  the model of the gate (\<open>SignerJob\<close>) consumes.
\<close>

section \<open>Claiming a waiting build\<close>

definition max_signer_list_items :: nat where "max_signer_list_items = 1000"
definition sign_deferral_cooldown :: int where "sign_deferral_cooldown = 60000"
definition max_sign_failures :: int where "max_sign_failures = 2"

definition ready_item_valid :: "ready_item \<Rightarrow> bool" where
  "ready_item_valid i \<longleftrightarrow>
     valid_tenant_slug (ri_tenant i) \<and> valid_package_name (ri_package i)
     \<and> fingerprint_valid (ri_cert i) \<and> fingerprint_valid (ri_digest i)"

text \<open>\<open>signerReadyItem.key\<close>.\<close>

definition ready_key :: "ready_item \<Rightarrow> bytes" where
  "ready_key i = ri_tenant i @ [CHR 0x0A] @ ri_package i @ [CHR 0x0A] @ ri_cert i @ [CHR 0x0A] @ ri_digest i"

text \<open>What \<open>signerReadinessFor\<close> returns, as far as the claim uses it.\<close>

record sign_readiness =
  rd_ready :: bool
  rd_primary :: "bytes option"
  rd_box :: "box option"
  rd_roots :: "roots option"
  rd_digest :: bytes
  rd_version :: int
  rd_slug :: bytes
  rd_package :: bytes
  rd_cert :: bytes
  rd_alias :: bytes

text \<open>\<open>deferredRecentlyBy\<close>.\<close>

definition deferred_recently_by :: "build_job \<Rightarrow> bytes \<Rightarrow> int \<Rightarrow> bool" where
  "deferred_recently_by j machine_id now \<longleftrightarrow>
     (case sp_outcome (bj_sign j) of
        None \<Rightarrow> False
      | Some x \<Rightarrow> jo_kind x = ''deferred'' \<and> jo_machine x = machine_id \<and> now - jo_at x < sign_deferral_cooldown)"

text \<open>The candidates: waiting builds of the tenants that are ready, each the smallest in flight.\<close>

definition smaller_in_flight :: "server_db \<Rightarrow> build_job \<Rightarrow> bool" where
  "smaller_in_flight db j \<longleftrightarrow>
     list_ex (\<lambda>x. bj_tenant x = bj_tenant j \<and> bj_platform x = bj_platform j \<and> bj_kind x = KindApk
                  \<and> contains in_flight_statuses (bj_status x) \<and> bj_number x < bj_number j) (db_jobs db)"

definition sign_candidate :: "(bytes \<Rightarrow> bytes option) \<Rightarrow> bytes list \<Rightarrow> server_db \<Rightarrow> build_job \<Rightarrow> bool" where
  "sign_candidate slug_of slugs db j \<longleftrightarrow>
     bj_kind j = KindApk \<and> bj_platform j = platform_android \<and> bj_status j = JobBuilt
     \<and> (case slug_of (bj_tenant j) of None \<Rightarrow> False | Some s \<Rightarrow> contains slugs s)
     \<and> \<not> smaller_in_flight db j"

definition sign_candidates :: "(bytes \<Rightarrow> bytes option) \<Rightarrow> bytes list \<Rightarrow> server_db \<Rightarrow> bytes list" where
  "sign_candidates slug_of slugs db =
     map bj_id (sort_key (\<lambda>j. bj_created_at j)
       (sort_key bj_id [j \<leftarrow> db_jobs db. sign_candidate slug_of slugs db j]))"

text \<open>\<open>signingDispatch\<close>: the answer is composed before the claim; the sign attempt is the next one.\<close>

definition signing_dispatch :: "sign_readiness \<Rightarrow> build_job \<Rightarrow> machine \<Rightarrow> bytes list \<Rightarrow> claim option" where
  "signing_dispatch r job m ready =
     (if \<not> rd_ready r \<or> rd_primary r \<noteq> Some (mc_id m) then None
      else case (rd_box r, rd_roots r) of
        (Some sealed, Some roots) \<Rightarrow>
          if \<not> contains ready (ready_key \<lparr>ri_tenant = rd_slug r, ri_package = rd_package r, ri_cert = rd_cert r, ri_digest = rd_digest r\<rparr>)
          then None
          else
            (case bp_provenance (bj_build job) of
               None \<Rightarrow> None
             | Some p \<Rightarrow>
                 if pr_statement p = [] then None
                 else
                   (case (dc_sha256 (bp_unsigned (bj_build job)), dc_sha256 (bp_sbom (bj_build job)),
                          bp_native (bj_build job), bj_commit job) of
                      (Some unsigned_sha, Some sbom, Some native, Some commit) \<Rightarrow>
                        Some \<lparr>cl_job = \<lparr>cj_id = bj_id job, cj_tenant = rd_slug r, cj_platform = bj_platform job,
                                cj_version = bj_version job, cj_build_number = bj_number job,
                                cj_attempt = attempt_of job, cj_sign_attempt = sign_attempt_of job + 1,
                                cj_commit_sha = commit, cj_unsigned_sha256 = unsigned_sha,
                                cj_unsigned_size = (case dc_size (bp_unsigned (bj_build job)) of None \<Rightarrow> 0 | Some n \<Rightarrow> n),
                                cj_sbom_sha256 = sbom, cj_native_fingerprint = native\<rparr>,
                              cl_provenance = \<lparr>cp_statement = pr_statement p, cp_signature = pr_signature p,
                                cp_builder_id = pr_builder p, cp_builder_public_key = pr_public_key p,
                                cp_builder_public_key_sha256 = pr_public_key_sha256 p\<rparr>,
                              cl_keystore = \<lparr>ck_version = rd_version r, ck_package = rd_package r, ck_cert = rd_cert r,
                                ck_alias = rd_alias r, ck_box = sealed\<rparr>,
                              cl_roots = Some roots, cl_digest = rd_digest r\<rparr>
                    | _ \<Rightarrow> None))
      | _ \<Rightarrow> None)"

text \<open>
  \<open>claimForSigning\<close>: under the release sequence the row must still wait with the sign attempt that was
  read; a build that a newer release has overtaken is failed instead. None: nothing was dispatched.
\<close>

definition sign_claim_set :: "machine \<Rightarrow> int \<Rightarrow> build_job \<Rightarrow> build_job" where
  "sign_claim_set m now j =
     j\<lparr>bj_status := JobSigning, bj_updated_at := now,
       bj_sign := (bj_sign j)\<lparr>sp_attempt := sign_attempt_of j + 1, sp_machine := Some (mc_id m),
         sp_claimed_at := Some now, sp_heartbeat_at := Some now, sp_key := None\<rparr>\<rparr>"

definition overtaken_set :: "latest_release option \<Rightarrow> build_job \<Rightarrow> int \<Rightarrow> build_job \<Rightarrow> build_job" where
  "overtaken_set latest job now j =
     clear_columns release_all_deliveries
       (j\<lparr>bj_status := JobFailed, bj_updated_at := now,
          bj_failure := Some (case latest of
            None \<Rightarrow> Overtaken None 0 (bj_version job) (bj_number job)
          | Some l \<Rightarrow> Overtaken (lr_version l) (lr_number l) (bj_version job) (bj_number job))\<rparr>)"

definition claim_for_signing ::
  "semver \<Rightarrow> machine \<Rightarrow> int \<Rightarrow> build_job \<Rightarrow> sequence_outcome \<Rightarrow> server_db \<Rightarrow> (unit + bool) \<times> server_db" where
  "claim_for_signing cmp m now job outcome db =
     (case outcome of
        SequenceBusy \<Rightarrow> (Inr False, db)
      | SequenceFailed \<Rightarrow> (Inl (), db)
      | SequenceRuns \<Rightarrow>
          (case find (\<lambda>j. bj_id j = bj_id job \<and> bj_kind j = KindApk
                          \<and> contains (event_from SignerClaim (Some KindApk)) (bj_status j)
                          \<and> sign_attempt_of j = sign_attempt_of job) (db_jobs db) of
             None \<Rightarrow> (Inr False, db)
           | Some l \<Rightarrow>
               let latest = latest_release_for (bj_tenant job) (bj_platform job) db
               in if \<not> increased_by cmp latest (bj_version job) (bj_number job)
                  then (Inr False, delete_objects (pick (job_object_keys l) release_all_deliveries)
                          (update_job (bj_id job) (overtaken_set latest job now) db))
                  else (Inr True, delete_objects (pick (job_object_keys l) release_signed)
                          (update_job (bj_id job) (sign_claim_set m now) db))))"

text \<open>
  \<open>claimSigningJob\<close> without interruption: the candidates are tried in turn, each read again. \<open>readiness\<close>
  and \<open>outcome\<close> are per tenant and job. Inr None is 204.
\<close>

fun try_candidates ::
  "semver \<Rightarrow> machine \<Rightarrow> bytes list \<Rightarrow> (bytes \<Rightarrow> sign_readiness option) \<Rightarrow> (bytes \<Rightarrow> sequence_outcome) \<Rightarrow> int \<Rightarrow>
   bytes list \<Rightarrow> server_db \<Rightarrow> (response + claim option) \<times> server_db" where
  "try_candidates cmp m ready readiness outcome now [] db = (Inr None, db)"
| "try_candidates cmp m ready readiness outcome now (i # is) db =
     (case find_job i db of
        None \<Rightarrow> try_candidates cmp m ready readiness outcome now is db
      | Some job \<Rightarrow>
          if deferred_recently_by job (mc_id m) now then try_candidates cmp m ready readiness outcome now is db
          else
            (case readiness (bj_tenant job) of
               None \<Rightarrow> try_candidates cmp m ready readiness outcome now is db
             | Some r \<Rightarrow>
                 (case signing_dispatch r job m ready of
                    None \<Rightarrow> try_candidates cmp m ready readiness outcome now is db
                  | Some answer \<Rightarrow>
                      (case claim_for_signing cmp m now job (outcome i) db of
                         (Inl _, db') \<Rightarrow> (Inl save_failed, db')
                       | (Inr False, db') \<Rightarrow> try_candidates cmp m ready readiness outcome now is db'
                       | (Inr True, db') \<Rightarrow> (Inr (Some answer), db')))))"

definition claim_signing_job ::
  "semver \<Rightarrow> machine \<Rightarrow> ready_item list option \<Rightarrow> (bytes \<Rightarrow> bytes option) \<Rightarrow> (bytes \<Rightarrow> sign_readiness option) \<Rightarrow>
   (bytes \<Rightarrow> sequence_outcome) \<Rightarrow> int \<Rightarrow> server_db \<Rightarrow> (response + claim option) \<times> server_db" where
  "claim_signing_job cmp m body slug_of readiness outcome now db =
     (case body of
        None \<Rightarrow> (Inl (Problem 400 ''INVALID_SIGN_CLAIM''), db)
      | Some items \<Rightarrow>
          if max_signer_list_items < length items \<or> \<not> list_all ready_item_valid items
          then (Inl (Problem 400 ''INVALID_SIGN_CLAIM''), db)
          else if \<not> is_active_primary m \<or> items = [] then (Inr None, db)
          else try_candidates cmp m (map ready_key items) readiness outcome now
                 (sign_candidates slug_of (map ri_tenant items) db) db)"

section \<open>Reports on a claim\<close>

definition sign_stale :: response where "sign_stale = Problem 409 code_sign_attempt_stale"

text \<open>\<open>currentSigningJob\<close>.\<close>

definition current_signing_job :: "machine \<Rightarrow> bytes \<Rightarrow> bytes \<Rightarrow> server_db \<Rightarrow> response + build_job" where
  "current_signing_job m header jid db =
     (case attempt_from_header header of
        None \<Rightarrow> Inl (Problem 400 ''INVALID_SIGN_ATTEMPT'')
      | Some attempt \<Rightarrow>
          rbind (load_build_job jid db) (\<lambda>job.
            if bj_kind job \<noteq> KindApk \<or> \<not> transition_allowed SignerHeartbeat (bj_kind job) (bj_status job)
               \<or> sign_attempt_of job \<noteq> attempt \<or> null_string (sp_machine (bj_sign job)) \<noteq> mc_id m
            then Inl sign_stale else Inr job))"

definition signing_guard :: "int \<Rightarrow> machine \<Rightarrow> build_job \<Rightarrow> bool" where
  "signing_guard attempt m j \<longleftrightarrow>
     bj_kind j = KindApk \<and> bj_status j = JobSigning \<and> sign_attempt_of j = attempt \<and> sp_machine (bj_sign j) = Some (mc_id m)"

definition sign_heartbeat_set :: "int \<Rightarrow> build_job \<Rightarrow> build_job" where
  "sign_heartbeat_set now j = j\<lparr>bj_updated_at := now, bj_sign := (bj_sign j)\<lparr>sp_heartbeat_at := Some now\<rparr>\<rparr>"

text \<open>\<open>refreshSigningHeartbeat\<close>: Left: the database failed.\<close>

definition refresh_signing_heartbeat :: "machine \<Rightarrow> int \<Rightarrow> int \<Rightarrow> bytes \<Rightarrow> bool \<Rightarrow> server_db \<Rightarrow> (unit + bool) \<times> server_db" where
  "refresh_signing_heartbeat m attempt now jid commits db =
     (if \<not> commits then (Inl (), db)
      else case update_where jid (signing_guard attempt m) (sign_heartbeat_set now) db of
             (affected, db') \<Rightarrow> (Inr (rows_matched affected jid (signing_guard attempt m) db'), db'))"

definition signing_heartbeat :: "machine \<Rightarrow> bytes \<Rightarrow> int \<Rightarrow> bytes \<Rightarrow> bool \<Rightarrow> server_db \<Rightarrow> response \<times> server_db" where
  "signing_heartbeat m header now jid commits db =
     (case attempt_from_header header of
        None \<Rightarrow> (Problem 400 ''INVALID_SIGN_ATTEMPT'', db)
      | Some attempt \<Rightarrow>
          (case refresh_signing_heartbeat m attempt now jid commits db of
             (Inl _, db') \<Rightarrow> (save_failed, db')
           | (Inr matched, db') \<Rightarrow> (if matched then NoContent else sign_stale, db')))"

text \<open>\<open>uploadSignedArtifact\<close> after the scope check: \<open>received\<close> is the stored stream.\<close>

definition upload_signed ::
  "machine \<Rightarrow> bytes \<Rightarrow> response + int \<times> bytes \<Rightarrow> int \<Rightarrow> build_job \<Rightarrow> bool \<Rightarrow> server_db \<Rightarrow> response \<times> server_db" where
  "upload_signed m key received now job commits db =
     (case received of
        Inl answer \<Rightarrow> (answer, db)
      | Inr (sz, sha) \<Rightarrow>
          (case record_delivered_object commits (bj_id job) (signing_guard (sign_attempt_of job) m)
                  (\<lambda>j. sp_key (bj_sign j))
                  (\<lambda>j. (sign_heartbeat_set now j)\<lparr>bj_sign := (bj_sign j)\<lparr>sp_key := Some key, sp_heartbeat_at := Some now\<rparr>\<rparr>)
                  (db\<lparr>db_written := db_written db @ [key]\<rparr>) of
             (Inl _, db') \<Rightarrow> (save_failed, db')
           | (Inr None, db') \<Rightarrow> (sign_stale, delete_objects [key] db')
           | (Inr (Some replaced), db') \<Rightarrow> (AnswerObject sha sz, delete_replaced_object replaced key db')))"

section \<open>Completion\<close>

record sign_result =
  sq_signed :: bytes
  sq_size :: int
  sq_cert :: bytes
  sq_unsigned :: bytes
  sq_native :: bytes

definition sign_result_valid :: "sign_result \<Rightarrow> bool" where
  "sign_result_valid b \<longleftrightarrow>
     fingerprint_valid (sq_signed b) \<and> 1 \<le> sq_size b \<and> fingerprint_valid (sq_cert b)
     \<and> fingerprint_valid (sq_unsigned b) \<and> valid_native_fingerprint (sq_native b)"

text \<open>
  The outside of a completion: retired certificates, the certificate of the tenant's registered
  keystore, the stored package as it was downloaded (sha256, size) and verified (package name and
  signer as the inspection reports it), whether the tenant's slug can be read.
\<close>

record sign_checks =
  kc_retired :: "bytes \<Rightarrow> bool"
  kc_keystore_cert :: "response + bytes option"
  kc_storage :: bool
  kc_downloaded :: "response + bytes \<times> int"
  kc_verified :: "response + bytes \<times> bytes"
  kc_slug :: bool

text \<open>\<open>normalizeFingerprint\<close>.\<close>

definition normalize_digest :: "bytes \<Rightarrow> bytes" where
  "normalize_digest v = to_lower (filter (\<lambda>c. c \<noteq> CHR '':'') (trim_space v))"

text \<open>\<open>completeSigning\<close> up to the refresh of the heartbeat: Inl is the answer.\<close>

definition complete_read :: "machine \<Rightarrow> bytes \<Rightarrow> sign_result option \<Rightarrow> bytes \<Rightarrow> server_db \<Rightarrow> response + int \<times> build_job" where
  "complete_read m header body jid db =
     (case attempt_from_header header of
        None \<Rightarrow> Inl (Problem 400 ''INVALID_SIGN_ATTEMPT'')
      | Some attempt \<Rightarrow>
          (case body of
             None \<Rightarrow> Inl (Problem 400 ''INVALID_SIGN_RESULT'')
           | Some b \<Rightarrow>
               if \<not> sign_result_valid b then Inl (Problem 400 ''INVALID_SIGN_RESULT'')
               else rbind (load_build_job jid db) (\<lambda>job.
                 let mine = sign_attempt_of job = attempt \<and> null_string (sp_machine (bj_sign job)) = mc_id m
                 in if bj_kind job \<noteq> KindApk then Inl (Problem 409 ''BUILD_KIND_MISMATCH'')
                    else if bj_status job = JobSucceeded \<and> null_string (bj_artifact job) = sq_signed b \<and> bj_release job \<noteq> None \<and> mine
                    then Inl (AnswerRelease (null_string (bj_release job)))
                    else if bj_status job = JobSucceeded \<and> bj_release job \<noteq> None \<and> mine
                    then Inl (Problem 409 ''SIGN_RESULT_CONFLICT'')
                    else if bj_status job \<noteq> JobSigning \<or> \<not> mine then Inl sign_stale
                    else if null_string (sp_key (bj_sign job)) = [] then Inl (Problem 409 code_signed_artifact_missing)
                    else Inr (attempt, job))))"

text \<open>The checks between the heartbeat and the transaction; Inr is the verified package name.\<close>

definition complete_verify :: "sign_checks \<Rightarrow> sign_result \<Rightarrow> build_job \<Rightarrow> response + bytes" where
  "complete_verify s b job =
     (if sq_unsigned b \<noteq> null_string (dc_sha256 (bp_unsigned (bj_build job))) then Inl (Problem 422 code_sign_result_mismatch)
      else if sq_native b \<noteq> null_string (bp_native (bj_build job)) then Inl (Problem 422 code_sign_result_mismatch)
      else if kc_retired s (normalize_digest (sq_cert b)) then Inl (Problem 422 ''RELEASE_SIGNER_RETIRED'')
      else
        rbind (kc_keystore_cert s) (\<lambda>cert.
          if cert \<noteq> Some (sq_cert b) then Inl (Problem 422 ''RELEASE_SIGNER_MISMATCH'')
          else if \<not> kc_storage s then Inl (Problem 503 ''STORAGE_UNAVAILABLE'')
          else rbind (kc_downloaded s) (\<lambda>(sha, sz).
            if sha \<noteq> sq_signed b then Inl (Problem 422 code_signed_artifact_mismatch)
            else rbind (kc_verified s) (\<lambda>(package, signer).
              if normalize_digest signer \<noteq> sq_cert b then Inl (Problem 422 ''RELEASE_SIGNER_MISMATCH'')
              else if \<not> kc_slug s then Inl (Problem 500 ''BUILD_JOB_QUERY_FAILED'')
              else Inr package))))"

text \<open>\<open>signingIdentityChanged\<close>: package and certificate of \<open>release.android\<close> and of \<open>build.keystore\<close>;
  None when a row is missing; a keystore record of the old format is \<open>legacy\<close>.\<close>

definition signing_identity_changed ::
  "(bytes \<times> bytes) option \<Rightarrow> (bool \<times> bytes \<times> bytes) option \<Rightarrow> bytes \<Rightarrow> bytes \<Rightarrow> bool" where
  "signing_identity_changed identity keystore package cert \<longleftrightarrow>
     (case (identity, keystore) of
        (Some (ip, ic), Some (legacy, kp, kc)) \<Rightarrow> legacy \<or> ip \<noteq> package \<or> ic \<noteq> cert \<or> kp \<noteq> package \<or> kc \<noteq> cert
      | _ \<Rightarrow> True)"

record sign_registry =
  rx_machines :: "machine list"
  rx_identity :: "(bytes \<times> bytes) option"
  rx_keystore :: "(bool \<times> bytes \<times> bytes) option"

definition machine_still_signs :: "sign_registry \<Rightarrow> machine \<Rightarrow> bool" where
  "machine_still_signs x m \<longleftrightarrow>
     (case find (\<lambda>r. mc_id r = mc_id m) (rx_machines x) of
        None \<Rightarrow> False | Some r \<Rightarrow> mc_status r = ''active'' \<and> mc_role r = ''signer'')"

definition signed_release :: "machine \<Rightarrow> sign_result \<Rightarrow> build_job \<Rightarrow> bytes \<Rightarrow> app_release" where
  "signed_release m b job release_id =
     \<lparr>ar_id = release_id, ar_tenant = bj_tenant job, ar_platform = bj_platform job, ar_version = Some (bj_version job),
      ar_number = bj_number job, ar_object_key = null_string (sp_key (bj_sign job)), ar_file_size = Some (sq_size b),
      ar_sha256 = Some (sq_signed b), ar_job = Some (bj_id job), ar_signer = Some (mc_id m),
      ar_builder = bp_machine (bj_build job), ar_unsigned_sha256 = dc_sha256 (bp_unsigned (bj_build job)),
      ar_native = bp_native (bj_build job), ar_certificate = Some (sq_cert b)\<rparr>"

definition signed_set :: "bytes \<Rightarrow> bytes \<Rightarrow> int \<Rightarrow> build_job \<Rightarrow> build_job" where
  "signed_set release_id sha now j =
     j\<lparr>bj_status := JobSucceeded, bj_release := Some release_id, bj_artifact := Some sha, bj_updated_at := now,
       bj_sign := (bj_sign j)\<lparr>sp_heartbeat_at := Some now\<rparr>\<rparr>"

definition complete_transaction ::
  "semver \<Rightarrow> machine \<Rightarrow> sign_registry \<Rightarrow> sign_result \<Rightarrow> bytes \<Rightarrow> int \<Rightarrow> bytes \<Rightarrow> int \<Rightarrow> build_job \<Rightarrow>
   server_db \<Rightarrow> response + response \<times> server_db" where
  "complete_transaction cmp m x b package attempt release_id now job db =
     (case find_job (bj_id job) db of
        None \<Rightarrow> Inl (Problem 500 ''RELEASE_CREATE_FAILED'')
      | Some l \<Rightarrow>
          let mine = sign_attempt_of l = attempt \<and> null_string (sp_machine (bj_sign l)) = mc_id m
          in if bj_status l = JobSucceeded \<and> null_string (bj_artifact l) = sq_signed b \<and> bj_release l \<noteq> None \<and> mine
             then Inr (AnswerRelease (null_string (bj_release l)), db)
             else if bj_status l = JobSucceeded \<and> bj_release l \<noteq> None \<and> mine then Inl (Problem 409 ''SIGN_RESULT_CONFLICT'')
             else if bj_status l \<noteq> JobSigning \<or> \<not> mine then Inl sign_stale
             else if null_string (sp_key (bj_sign l)) \<noteq> null_string (sp_key (bj_sign job))
             then Inl (Problem 409 code_signed_artifact_replaced)
             else if \<not> machine_still_signs x m then Inl (Problem 401 code_machine_revoked)
             else if signing_identity_changed (rx_identity x) (rx_keystore x) package (sq_cert b)
             then Inl (Problem 409 ''RELEASE_IDENTITY_CHANGED'')
             else
               (case insert_release cmp (signed_release m b job release_id) ''system-signer'' db of
                  Inl rejection \<Rightarrow> Inl rejection
                | Inr db \<Rightarrow>
                    (case update_where (bj_id job) (signing_guard attempt m) (signed_set release_id (sq_signed b) now) db of
                       (affected, db') \<Rightarrow>
                         if affected \<noteq> 1 then Inl (Problem 500 ''RELEASE_CREATE_FAILED'')
                         else Inr (AnswerRelease release_id,
                                insert_audit [\<lparr>au_tenant = bj_tenant job, au_actor = ''system-signer'',
                                               au_action = ''build_job_signed'', au_target = bj_id job\<rparr>] db'))))"

text \<open>The whole handler when nothing comes in between.\<close>

definition complete_signing ::
  "semver \<Rightarrow> machine \<Rightarrow> bytes \<Rightarrow> sign_result option \<Rightarrow> sign_checks \<Rightarrow> sign_registry \<Rightarrow> bytes \<Rightarrow> int \<Rightarrow> bytes \<Rightarrow>
   bool \<Rightarrow> sequence_outcome \<Rightarrow> server_db \<Rightarrow> response \<times> server_db" where
  "complete_signing cmp m header body s x release_id now jid commits outcome db =
     (case complete_read m header body jid db of
        Inl answer \<Rightarrow> (answer, db)
      | Inr (attempt, job) \<Rightarrow>
          (case refresh_signing_heartbeat m attempt now (bj_id job) commits db of
             (Inl _, db) \<Rightarrow> (save_failed, db)
           | (Inr False, db) \<Rightarrow> (sign_stale, db)
           | (Inr True, db) \<Rightarrow>
               (case body of
                  None \<Rightarrow> (save_failed, db)
                | Some b \<Rightarrow>
                    (case complete_verify s b job of
                       Inl answer \<Rightarrow> (answer, db)
                     | Inr package \<Rightarrow>
                         with_release_sequence outcome ''RELEASE_CREATE_FAILED''
                           (complete_transaction cmp m x b package attempt release_id now job) db))))"

section \<open>Not signed\<close>

record outcome_report =
  on_kind :: bytes
  on_code :: bytes
  on_detail :: bytes

definition signer_code_valid :: "bytes \<Rightarrow> bool" where
  "signer_code_valid c \<longleftrightarrow>
     3 \<le> length c \<and> length c \<le> 64 \<and> is_upper (hd c) \<and> list_all (\<lambda>x. is_upper x \<or> is_digit x \<or> x = CHR ''_'') c"

text \<open>\<open>decodeSignerOutcome\<close>, completed with the machine and the time.\<close>

definition decode_signer_outcome :: "bool \<Rightarrow> machine \<Rightarrow> int \<Rightarrow> outcome_report option \<Rightarrow> job_sign_outcome option" where
  "decode_signer_outcome with_kind m now body =
     (case body of
        None \<Rightarrow> None
      | Some b \<Rightarrow>
          if \<not> signer_code_valid (on_code b) \<or> with_kind \<and> on_kind b \<noteq> ''violation'' \<and> on_kind b \<noteq> ''transient'' then None
          else Some \<lparr>jo_kind = (if with_kind then on_kind b else ''deferred''), jo_code = on_code b,
                     jo_detail = sanitize_signer_text (on_detail b) 500, jo_machine = mc_id m, jo_at = now\<rparr>)"

definition deferred_set :: "job_sign_outcome \<Rightarrow> int \<Rightarrow> build_job \<Rightarrow> build_job" where
  "deferred_set r now j =
     j\<lparr>bj_status := JobBuilt, bj_updated_at := now,
       bj_sign := (bj_sign j)\<lparr>sp_outcome := Some r, sp_heartbeat_at := Some now\<rparr>\<rparr>"

definition release_signing_job ::
  "machine \<Rightarrow> bytes \<Rightarrow> outcome_report option \<Rightarrow> int \<Rightarrow> bytes \<Rightarrow> bool \<Rightarrow> server_db \<Rightarrow> response \<times> server_db" where
  "release_signing_job m header body now jid commits db =
     (case attempt_from_header header of
        None \<Rightarrow> (Problem 400 ''INVALID_SIGN_ATTEMPT'', db)
      | Some attempt \<Rightarrow>
          (case decode_signer_outcome False m now body of
             None \<Rightarrow> (Problem 400 ''INVALID_SIGN_OUTCOME'', db)
           | Some r \<Rightarrow>
               (case transition_build_job commits jid
                       \<lparr>jt_where = signing_guard attempt m, jt_set = deferred_set r now,
                        jt_release = release_signed, jt_after = (\<lambda>_. [])\<rparr> db of
                  (Inl _, db') \<Rightarrow> (save_failed, db')
                | (Inr None, db') \<Rightarrow> (sign_stale, db')
                | (Inr (Some _), db') \<Rightarrow> (NoContent, db'))))"

definition rejected_set :: "job_sign_outcome \<Rightarrow> bool \<Rightarrow> int \<Rightarrow> int \<Rightarrow> build_job \<Rightarrow> build_job" where
  "rejected_set r failed failures now j =
     j\<lparr>bj_status := (if failed then JobFailed else JobBuilt), bj_updated_at := now,
       bj_failure := (if failed
         then Some (if jo_kind r = ''violation'' then SignerRefused r else SignerGaveUp failures r) else bj_failure j),
       bj_sign := (bj_sign j)\<lparr>sp_outcome := Some r, sp_failures := failures, sp_heartbeat_at := Some now\<rparr>\<rparr>"

text \<open>\<open>rejectSigningJob\<close> after the scope check, on the job that was read.\<close>

definition reject_signing_job ::
  "machine \<Rightarrow> outcome_report option \<Rightarrow> int \<Rightarrow> build_job \<Rightarrow> bool \<Rightarrow> server_db \<Rightarrow> response \<times> server_db" where
  "reject_signing_job m body now job commits db =
     (case decode_signer_outcome True m now body of
        None \<Rightarrow> (Problem 400 ''INVALID_SIGN_OUTCOME'', db)
      | Some r \<Rightarrow>
          let failed = jo_kind r = ''violation'' \<or> max_sign_failures \<le> sp_failures (bj_sign job) + 1;
              failures = (if jo_kind r = ''transient'' then sp_failures (bj_sign job) + 1 else sp_failures (bj_sign job))
          in (case transition_build_job commits (bj_id job)
                     \<lparr>jt_where = (\<lambda>j. signing_guard (sign_attempt_of job) m j \<and> sp_failures (bj_sign j) = sp_failures (bj_sign job)),
                      jt_set = rejected_set r failed failures now,
                      jt_release = (if failed then release_all_deliveries else release_signed),
                      jt_after = (\<lambda>_. if failed
                        then [\<lparr>au_tenant = bj_tenant job, au_actor = ''system-signer'',
                               au_action = (if jo_kind r = ''transient'' then ''build_job_sign_failed'' else ''build_job_sign_rejected''),
                               au_target = bj_id job\<rparr>] else [])\<rparr> db of
                (Inl _, db') \<Rightarrow> (save_failed, db')
              | (Inr None, db') \<Rightarrow> (sign_stale, db')
              | (Inr (Some _), db') \<Rightarrow> (NoContent, db')))"

end
