(* ===== verification/BuildAdmin.thy ===== *)
theory BuildAdmin
  imports BuildSigning
begin

text \<open>
  What the console and the server's own timer do to jobs: queueing (\<open>build_jobs.go\<close>,
  \<open>build_ota_jobs.go\<close>), canceling and giving up, releases uploaded by hand (\<open>simplified_releases.go\<close>),
  and the reaper (\<open>build_reaper.go\<close>).
\<close>

section \<open>The floor of version and build number\<close>

text \<open>\<open>semverPattern\<close>.\<close>

definition semver_pattern :: "bytes \<Rightarrow> bool" where
  "semver_pattern v \<longleftrightarrow>
     (let ps = split_on (CHR ''.'') v in length ps = 3 \<and> list_all (\<lambda>p. p \<noteq> [] \<and> list_all is_digit p) ps)"

record build_floor =
  bf_version :: bytes
  bf_number :: int

definition floor_step :: "semver \<Rightarrow> build_floor \<Rightarrow> bytes option \<times> int \<Rightarrow> build_floor" where
  "floor_step cmp f r =
     (let f = (if bf_number f < snd r then f\<lparr>bf_number := snd r\<rparr> else f);
          candidate = trim_space (null_string (fst r))
      in if \<not> semver_pattern candidate then f
         else if bf_version f = [] \<or> 0 < cmp candidate (bf_version f) then f\<lparr>bf_version := candidate\<rparr> else f)"

text \<open>\<open>buildFloorFor\<close>: the 50 greatest of the releases and the 50 greatest of the jobs that hold a number.\<close>

definition floor_limit :: nat where "floor_limit = 50"

definition greatest_first :: "('a \<Rightarrow> int) \<Rightarrow> 'a list \<Rightarrow> 'a list" where
  "greatest_first key xs = take floor_limit (rev (sort_key key xs))"

definition floor_rows :: "bytes \<Rightarrow> bytes \<Rightarrow> server_db \<Rightarrow> (bytes option \<times> int) list" where
  "floor_rows tenant platform db =
     map (\<lambda>r. (ar_version r, ar_number r)) (greatest_first ar_number (sequence_of tenant platform db)) @
     map (\<lambda>j. (Some (bj_version j), bj_number j)) (greatest_first bj_number
       [j \<leftarrow> db_jobs db. bj_tenant j = tenant \<and> bj_platform j = platform
          \<and> (contains in_flight_statuses (bj_status j) \<or> bj_status j = JobSucceeded)])"

definition build_floor_for :: "semver \<Rightarrow> bytes \<Rightarrow> bytes \<Rightarrow> server_db \<Rightarrow> build_floor" where
  "build_floor_for cmp tenant platform db =
     foldl (floor_step cmp) \<lparr>bf_version = [], bf_number = 0\<rparr> (floor_rows tenant platform db)"

text \<open>\<open>buildFloor.next\<close>.\<close>

definition next_patch_version :: "bytes \<Rightarrow> bytes" where
  "next_patch_version version =
     (case split_on (CHR ''.'') (trim_space version) of
        [a, b, c] \<Rightarrow> (case atoi c of None \<Rightarrow> ''1.0.0'' | Some n \<Rightarrow> a @ ''.'' @ b @ ''.'' @ int_str (n + 1))
      | _ \<Rightarrow> ''1.0.0'')"

definition floor_next :: "build_floor \<Rightarrow> bytes \<times> int" where
  "floor_next f =
     (if bf_version f = [] \<and> bf_number f = 0 then (''1.0.0'', 1)
      else (next_patch_version (bf_version f), bf_number f + 1))"

section \<open>Queueing\<close>

record job_request =
  jq_platform :: bytes
  jq_version :: bytes
  jq_number :: int
  jq_reason :: bytes
  jq_confirm :: bool
  jq_kind :: bytes
  jq_base_release :: bytes
  jq_apply :: bytes
  jq_acknowledge :: bool

text \<open>
  The tenant as it is configured: release notes that do not normalise, slug, build configuration, the
  composed identity (package and signer), the identity of the active release, live builders by
  platform, the iOS identity and delivery with their problem, readiness of the primary gate; for an
  OTA the base release (its id, platform, version, number), the signing key and the channel.
\<close>

record queue_view =
  qv_notes :: "response option"
  qv_slug :: bool
  qv_config :: bool
  qv_manifest :: "response + bytes \<times> bytes"
  qv_active :: "bytes \<times> bytes"
  qv_builder :: "bytes \<Rightarrow> bool"
  qv_ios :: "response + bytes"
  qv_signer_ready :: bool
  qv_base :: "response + bytes \<times> bytes \<times> bytes \<times> int"
  qv_ota_key :: bool
  qv_channel :: bytes

text \<open>\<open>tenantIdentityDrift\<close>.\<close>

definition identity_drift :: "bytes \<times> bytes \<Rightarrow> bytes \<times> bytes \<Rightarrow> bool" where
  "identity_drift composed active \<longleftrightarrow>
     fst active \<noteq> [] \<and> \<not> equal_fold (fst active) (fst composed)
     \<or> snd active \<noteq> [] \<and> \<not> equal_fold (snd active) (snd composed)"

text \<open>The columns under the unique indexes: \<open>live_build_number\<close> and \<open>live_ota_slot\<close>.\<close>

definition live_number :: "build_job \<Rightarrow> int option" where
  "live_number j =
     (if bj_kind j = KindApk \<and> (contains in_flight_statuses (bj_status j) \<or> bj_status j = JobSucceeded)
      then Some (bj_number j) else None)"

definition live_ota_slot :: "build_job \<Rightarrow> bool" where
  "live_ota_slot j \<longleftrightarrow> bj_kind j = KindOta \<and> contains [JobQueued, JobClaimed, JobRunning] (bj_status j)"

definition index_clash :: "build_job \<Rightarrow> build_job \<Rightarrow> bool" where
  "index_clash a b \<longleftrightarrow>
     bj_tenant a = bj_tenant b \<and> bj_platform a = bj_platform b
     \<and> (live_number a \<noteq> None \<and> live_number a = live_number b \<or> live_ota_slot a \<and> live_ota_slot b)"

definition new_build_part :: build_part where
  "new_build_part = \<lparr>bp_attempt = 0, bp_machine = None, bp_unsigned = no_delivery, bp_sbom = no_delivery,
     bp_appstore = no_delivery, bp_native = None, bp_provenance = None\<rparr>"

definition new_sign_part :: sign_part where
  "new_sign_part = \<lparr>sp_attempt = 0, sp_failures = 0, sp_machine = None, sp_claimed_at = None,
     sp_heartbeat_at = None, sp_outcome = None, sp_key = None\<rparr>"

definition new_job ::
  "bytes \<Rightarrow> bytes \<Rightarrow> bytes \<Rightarrow> job_kind \<Rightarrow> bytes option \<Rightarrow> bytes \<Rightarrow> int \<Rightarrow> bytes \<Rightarrow> bytes \<Rightarrow> int \<Rightarrow> build_job" where
  "new_job i tenant platform kind delivery version build_number reason created_by now =
     \<lparr>bj_id = i, bj_tenant = tenant, bj_platform = platform, bj_kind = kind, bj_delivery = delivery,
      bj_base_release = None, bj_channel = None, bj_apply = None, bj_ota_release = None, bj_git_ref = build_git_ref,
      bj_commit = None, bj_version = version, bj_number = build_number, bj_status = JobQueued, bj_claimed_by = None,
      bj_claimed_at = None, bj_heartbeat_at = None, bj_release = None, bj_artifact = None, bj_log_tail = [],
      bj_failure = None, bj_reason = reason, bj_created_by = created_by, bj_created_at = now, bj_updated_at = now,
      bj_build = new_build_part, bj_sign = new_sign_part\<rparr>"

text \<open>The INSERT: the primary key and the two unique indexes may refuse it (the one on OTA by name).\<close>

datatype insert_outcome = Inserted server_db | OtaSlotTaken | InsertFailed

definition insert_job :: "bool \<Rightarrow> build_job \<Rightarrow> bytes \<Rightarrow> server_db \<Rightarrow> insert_outcome" where
  "insert_job commits j created_by db =
     (if list_ex (\<lambda>x. bj_id x = bj_id j) (db_jobs db) then InsertFailed
      else if list_ex (\<lambda>x. index_clash x j \<and> bj_kind j = KindOta) (db_jobs db) then OtaSlotTaken
      else if list_ex (\<lambda>x. index_clash x j) (db_jobs db) \<or> \<not> commits then InsertFailed
      else Inserted (insert_audit [\<lparr>au_tenant = bj_tenant j, au_actor = created_by, au_action = ''build_job_create'',
                                    au_target = bj_id j\<rparr>] (db\<lparr>db_jobs := db_jobs db @ [j]\<rparr>)))"

text \<open>The checks of \<open>createBuildJob\<close> in their order; Inr is the delivery column.\<close>

definition create_checked ::
  "semver \<Rightarrow> queue_view \<Rightarrow> bytes \<Rightarrow> job_request \<Rightarrow> server_db \<Rightarrow> response + bytes option" where
  "create_checked cmp v tenant b db =
     (let platform = to_lower (trim_space (jq_platform b)); version = trim_space (jq_version b);
          reason = trim_space (jq_reason b)
      in if \<not> jq_confirm b \<or> platform \<noteq> platform_android \<and> platform \<noteq> platform_ios \<or> \<not> semver_pattern version
            \<or> jq_number b < 1 \<or> length reason < 3 then Inl (Problem 400 ''INVALID_BUILD_JOB'')
         else
           check_err (qv_notes v)
             (let f = build_floor_for cmp tenant platform db
              in if jq_number b \<le> bf_number f then Inl (Problem 409 ''BUILD_NUMBER_NOT_INCREASING'')
                 else if bf_version f \<noteq> [] \<and> cmp version (bf_version f) \<le> 0 then Inl (Problem 409 ''BUILD_VERSION_NOT_INCREASING'')
                 else if \<not> qv_slug v then Inl save_failed
                 else if \<not> qv_config v then Inl (Problem 500 ''BUILD_CONFIG_INVALID'')
                 else
                   rbind (qv_manifest v) (\<lambda>composed.
                     if identity_drift composed (qv_active v) \<and> \<not> jq_acknowledge b then Inl (Problem 409 ''APP_IDENTITY_DRIFT'')
                     else if \<not> qv_builder v platform then Inl (Problem 409 ''NO_BUILDER_FOR_PLATFORM'')
                     else if platform = platform_ios then rbind (qv_ios v) (\<lambda>mode. Inr (Some mode))
                     else if \<not> qv_signer_ready v then Inl (Problem 409 ''SIGNER_NOT_READY'')
                     else Inr None)))"

definition create_ota_checked :: "queue_view \<Rightarrow> job_request \<Rightarrow> response + bytes \<times> bytes \<times> bytes \<times> int" where
  "create_ota_checked v b =
     (let reason = trim_space (jq_reason b); apply_strategy = trim_space (jq_apply b)
      in if \<not> jq_confirm b \<or> length reason < 3 \<or> trim_space (jq_base_release b) = [] then Inl (Problem 400 ''INVALID_BUILD_JOB'')
         else if apply_strategy \<noteq> [] \<and> apply_strategy \<noteq> ''next_launch'' \<and> apply_strategy \<noteq> ''immediate''
         then Inl (Problem 422 ''INVALID_OTA_APPLY_STRATEGY'')
         else
           check_err (qv_notes v)
             (rbind (qv_base v) (\<lambda>(base, platform, version, build_number).
                if platform \<noteq> platform_android then Inl (Problem 422 ''OTA_BASE_RELEASE_INVALID'')
                else if \<not> qv_ota_key v then Inl (Problem 409 ''OTA_SIGNING_KEY_MISSING'')
                else if \<not> qv_slug v then Inl save_failed
                else if \<not> qv_config v then Inl (Problem 500 ''BUILD_CONFIG_INVALID'')
                else rbind (qv_manifest v) (\<lambda>_. Inr (base, platform, version, build_number)))))"

text \<open>\<open>createBuildJob\<close>: checks and INSERT are separate, so the database may change in between.\<close>

definition queue_job ::
  "bool \<Rightarrow> bytes \<Rightarrow> bytes \<Rightarrow> bytes \<Rightarrow> job_request \<Rightarrow> bytes option \<Rightarrow> int \<Rightarrow> server_db \<Rightarrow> response \<times> server_db" where
  "queue_job commits i tenant created_by b delivery now db =
     (let j = new_job i tenant (to_lower (trim_space (jq_platform b))) KindApk delivery (trim_space (jq_version b))
                (jq_number b) (trim_space (jq_reason b)) created_by now
      in case insert_job commits j created_by db of Inserted db' \<Rightarrow> (AnswerJob j, db') | _ \<Rightarrow> (save_failed, db))"

definition queue_ota_job ::
  "bool \<Rightarrow> bytes \<Rightarrow> bytes \<Rightarrow> bytes \<Rightarrow> queue_view \<Rightarrow> job_request \<Rightarrow> bytes \<times> bytes \<times> bytes \<times> int \<Rightarrow> int \<Rightarrow> server_db \<Rightarrow> response \<times> server_db" where
  "queue_ota_job commits i tenant created_by v b base now db =
     (case base of (base_id, platform, version, build_number) \<Rightarrow>
        let strategy = (if trim_space (jq_apply b) = [] then ''next_launch'' else trim_space (jq_apply b));
            j = (new_job i tenant platform KindOta None version build_number (trim_space (jq_reason b)) created_by now)
                  \<lparr>bj_base_release := Some base_id, bj_channel := Some (qv_channel v), bj_apply := Some strategy\<rparr>
        in case insert_job commits j created_by db of
             Inserted db' \<Rightarrow> (AnswerJob j, db')
           | OtaSlotTaken \<Rightarrow> (Problem 409 ''OTA_BUILD_ALREADY_QUEUED'', db)
           | InsertFailed \<Rightarrow> (save_failed, db))"

definition create_build_job ::
  "semver \<Rightarrow> queue_view \<Rightarrow> bool \<Rightarrow> bytes \<Rightarrow> bytes \<Rightarrow> bytes \<Rightarrow> job_request option \<Rightarrow> int \<Rightarrow> server_db \<Rightarrow> response \<times> server_db" where
  "create_build_job cmp v commits i tenant created_by body now db =
     (case body of
        None \<Rightarrow> (Problem 400 ''INVALID_BUILD_JOB'', db)
      | Some b \<Rightarrow>
          if trim_space (jq_kind b) = ''ota'' then
            (case create_ota_checked v b of
               Inl answer \<Rightarrow> (answer, db)
             | Inr base \<Rightarrow> queue_ota_job commits i tenant created_by v b base now db)
          else
            (case create_checked cmp v tenant b db of
               Inl answer \<Rightarrow> (answer, db)
             | Inr delivery \<Rightarrow> queue_job commits i tenant created_by b delivery now db))"

section \<open>Giving a job up\<close>

record give_up =
  gu_reason :: bytes
  gu_confirm :: bool

definition give_up_valid :: "give_up option \<Rightarrow> bool" where
  "give_up_valid body \<longleftrightarrow>
     (case body of None \<Rightarrow> False | Some b \<Rightarrow> gu_confirm b \<and> 3 \<le> length (trim_space (gu_reason b)))"

definition give_up_reason :: "give_up option \<Rightarrow> bytes" where
  "give_up_reason body = (case body of None \<Rightarrow> [] | Some b \<Rightarrow> trim_space (gu_reason b))"

definition cancel_set :: "bytes \<Rightarrow> int \<Rightarrow> build_job \<Rightarrow> build_job" where
  "cancel_set reason now j = j\<lparr>bj_status := JobCanceled, bj_failure := Some (CanceledBecause reason), bj_updated_at := now\<rparr>"

definition cancel_build_job ::
  "bytes \<Rightarrow> bytes \<Rightarrow> give_up option \<Rightarrow> int \<Rightarrow> bytes \<Rightarrow> bool \<Rightarrow> server_db \<Rightarrow> response \<times> server_db" where
  "cancel_build_job tenant actor body now jid commits db =
     (if \<not> give_up_valid body then (Problem 400 ''INVALID_BUILD_JOB'', db)
      else
        case transition_build_job commits jid
               \<lparr>jt_where = (\<lambda>j. bj_tenant j = tenant
                   \<and> (bj_kind j = KindApk \<and> contains cancelable_apk (bj_status j)
                      \<or> bj_kind j = KindOta \<and> contains cancelable_ota (bj_status j))),
                jt_set = cancel_set (clip_runes (give_up_reason body) 500) now,
                jt_release = release_all_deliveries,
                jt_after = (\<lambda>_. [\<lparr>au_tenant = tenant, au_actor = actor, au_action = ''build_job_cancel'', au_target = jid\<rparr>])\<rparr> db of
          (Inl _, db') \<Rightarrow> (save_failed, db')
        | (Inr None, db') \<Rightarrow> (Problem 409 ''BUILD_JOB_NOT_CANCELABLE'', db')
        | (Inr (Some _), db') \<Rightarrow> (NoContent, db'))"

definition force_fail_set :: "bytes \<Rightarrow> int \<Rightarrow> build_job \<Rightarrow> build_job" where
  "force_fail_set reason now j = j\<lparr>bj_status := JobFailed, bj_failure := Some (ForcedBecause reason), bj_updated_at := now\<rparr>"

definition force_fail_build_job ::
  "bytes \<Rightarrow> bytes \<Rightarrow> give_up option \<Rightarrow> int \<Rightarrow> bytes \<Rightarrow> bool \<Rightarrow> server_db \<Rightarrow> response \<times> server_db" where
  "force_fail_build_job tenant actor body now jid commits db =
     (if \<not> give_up_valid body then (Problem 400 ''INVALID_BUILD_JOB'', db)
      else
        case transition_build_job commits jid
               \<lparr>jt_where = (\<lambda>j. bj_tenant j = tenant \<and> bj_kind j = KindApk
                   \<and> contains (event_from AdminForceFail (Some KindApk)) (bj_status j)),
                jt_set = force_fail_set (clip_runes (give_up_reason body) 400) now,
                jt_release = release_all_deliveries,
                jt_after = (\<lambda>_. [\<lparr>au_tenant = tenant, au_actor = actor, au_action = ''build_job_force_fail'', au_target = jid\<rparr>])\<rparr> db of
          (Inl _, db') \<Rightarrow> (save_failed, db')
        | (Inr None, db') \<Rightarrow> (Problem 409 ''BUILD_JOB_NOT_FORCE_FAILABLE'', db')
        | (Inr (Some _), db') \<Rightarrow> (NoContent, db'))"

section \<open>Releases uploaded by hand\<close>

text \<open>\<open>releaseSigningInFlight\<close> and the transaction of \<open>createReleaseFromArtifact\<close>; \<open>gate\<close> is the answer of
  \<open>manualAndroidReleaseGate\<close>.\<close>

definition release_signing_in_flight :: "bytes \<Rightarrow> bytes \<Rightarrow> server_db \<Rightarrow> bool" where
  "release_signing_in_flight tenant platform db \<longleftrightarrow>
     list_ex (\<lambda>j. bj_tenant j = tenant \<and> bj_platform j = platform \<and> bj_kind j = KindApk
                  \<and> contains [JobBuilt, JobSigning] (bj_status j)) (db_jobs db)"

definition manual_release_transaction ::
  "semver \<Rightarrow> app_release \<Rightarrow> bytes \<Rightarrow> response option \<Rightarrow> server_db \<Rightarrow> response + response \<times> server_db" where
  "manual_release_transaction cmp r actor gate db =
     (if ar_platform r = platform_android \<and> release_signing_in_flight (ar_tenant r) (ar_platform r) db
      then Inl (Problem 409 ''RELEASE_SIGNING_IN_FLIGHT'')
      else check_err (if ar_platform r = platform_android then gate else None)
             (rbind (insert_release cmp r actor db) (\<lambda>db'. Inr (AnswerRelease (ar_id r), db'))))"

definition manual_release ::
  "semver \<Rightarrow> app_release \<Rightarrow> bytes \<Rightarrow> response option \<Rightarrow> sequence_outcome \<Rightarrow> server_db \<Rightarrow> response \<times> server_db" where
  "manual_release cmp r actor gate outcome db =
     with_release_sequence outcome ''RELEASE_CREATE_FAILED'' (manual_release_transaction cmp r actor gate) db"

section \<open>The reaper\<close>

definition build_heartbeat_timeout :: int where "build_heartbeat_timeout = 600000"
definition sign_heartbeat_timeout :: int where "sign_heartbeat_timeout = 300000"

fun coalesce :: "int option list \<Rightarrow> int \<Rightarrow> int" where
  "coalesce [] d = d"
| "coalesce (None # xs) d = coalesce xs d"
| "coalesce (Some x # xs) d = x"

definition build_silent_since :: "build_job \<Rightarrow> int" where
  "build_silent_since j = coalesce [bj_heartbeat_at j, bj_claimed_at j] (bj_created_at j)"

definition sign_silent_since :: "build_job \<Rightarrow> int" where
  "sign_silent_since j = coalesce [sp_heartbeat_at (bj_sign j), sp_claimed_at (bj_sign j)] (bj_updated_at j)"

definition stale_build :: "int \<Rightarrow> build_job \<Rightarrow> bool" where
  "stale_build now j \<longleftrightarrow>
     contains builder_active (bj_status j) \<and> build_silent_since j < now - build_heartbeat_timeout"

definition stale_signing :: "int \<Rightarrow> build_job \<Rightarrow> bool" where
  "stale_signing now j \<longleftrightarrow>
     bj_kind j = KindApk \<and> contains signer_active (bj_status j) \<and> sign_silent_since j < now - sign_heartbeat_timeout"

text \<open>One stale build that the query found: back to the queue, or failed.\<close>

definition reap_build :: "int \<Rightarrow> bool \<Rightarrow> build_job \<Rightarrow> server_db \<Rightarrow> server_db" where
  "reap_build now commits item db =
     (let guard = (\<lambda>j. stale_build now j \<and> attempt_of j = attempt_of item)
      in if bj_kind item = KindApk \<and> attempt_of item < max_build_attempts
         then snd (transition_build_job commits (bj_id item)
                \<lparr>jt_where = guard, jt_set = requeue_set now, jt_release = release_build_delivery, jt_after = (\<lambda>_. [])\<rparr> db)
         else snd (transition_build_job commits (bj_id item)
                \<lparr>jt_where = guard,
                 jt_set = (\<lambda>j. j\<lparr>bj_status := JobFailed, bj_failure := Some (BuilderSilent (bj_kind item) (attempt_of item)),
                                 bj_updated_at := now\<rparr>),
                 jt_release = release_build_delivery, jt_after = (\<lambda>_. [])\<rparr> db))"

definition signer_timeout_outcome :: "int \<Rightarrow> build_job \<Rightarrow> job_sign_outcome" where
  "signer_timeout_outcome now item =
     \<lparr>jo_kind = ''transient'', jo_code = ''SIGNER_HEARTBEAT_TIMEOUT'', jo_detail = ''no signing heartbeat'',
      jo_machine = null_string (sp_machine (bj_sign item)), jo_at = now\<rparr>"

definition sign_timeout_set :: "int \<Rightarrow> build_job \<Rightarrow> bool \<Rightarrow> build_job \<Rightarrow> build_job" where
  "sign_timeout_set now item failed j =
     j\<lparr>bj_status := (if failed then JobFailed else JobBuilt), bj_updated_at := now,
       bj_failure := (if failed then Some (SignerSilent (sp_failures (bj_sign item) + 1)) else bj_failure j),
       bj_sign := (bj_sign j)\<lparr>sp_outcome := Some (signer_timeout_outcome now item),
                             sp_failures := sp_failures (bj_sign j) + 1\<rparr>\<rparr>"

definition reap_signing :: "int \<Rightarrow> bool \<Rightarrow> build_job \<Rightarrow> server_db \<Rightarrow> server_db" where
  "reap_signing now commits item db =
     (let failed = (max_sign_failures \<le> sp_failures (bj_sign item) + 1)
      in snd (transition_build_job commits (bj_id item)
             \<lparr>jt_where = (\<lambda>j. contains signer_active (bj_status j) \<and> sign_attempt_of j = sign_attempt_of item
                             \<and> sp_failures (bj_sign j) = sp_failures (bj_sign item)
                             \<and> sign_silent_since j < now - sign_heartbeat_timeout),
              jt_set = sign_timeout_set now item failed,
              jt_release = (if failed then release_all_deliveries else release_signed), jt_after = (\<lambda>_. [])\<rparr> db))"

text \<open>\<open>reapStaleBuilds\<close> and \<open>reapStaleSignings\<close> without interruption.\<close>

definition reap_stale_builds :: "int \<Rightarrow> server_db \<Rightarrow> server_db" where
  "reap_stale_builds now db = foldl (\<lambda>d item. reap_build now True item d) db [j \<leftarrow> db_jobs db. stale_build now j]"

definition reap_stale_signings :: "int \<Rightarrow> server_db \<Rightarrow> server_db" where
  "reap_stale_signings now db = foldl (\<lambda>d item. reap_signing now True item d) db [j \<leftarrow> db_jobs db. stale_signing now j]"

definition reap_build_jobs :: "int \<Rightarrow> server_db \<Rightarrow> server_db" where
  "reap_build_jobs now db = reap_stale_signings now (reap_stale_builds now db)"

end
