(* ===== verification/BuildSystem.thy ===== *)
theory BuildSystem
  imports BuildAdmin
begin

text \<open>
  The queue as a system. \<open>row_change\<close> lists the guarded changes a row can undergo, each with its
  event of the transition table; \<open>request\<close> has one rule for each transaction a handler runs, on any
  arguments and on whatever earlier database the handler had read; a \<open>history\<close> is a run of the system,
  the current database first.
\<close>

section \<open>Changes of a row\<close>

definition active :: "build_job \<Rightarrow> bool" where
  "active j \<longleftrightarrow> bj_status j = JobClaimed \<or> bj_status j = JobRunning"

definition reap_fail_set :: "failure_reason \<Rightarrow> int \<Rightarrow> build_job \<Rightarrow> build_job" where
  "reap_fail_set reason now j = j\<lparr>bj_status := JobFailed, bj_failure := Some reason, bj_updated_at := now\<rparr>"

text \<open>What the server has checked of a row that waits for a signature.\<close>

definition built_facts :: "bytes \<Rightarrow> bytes \<Rightarrow> machine \<Rightarrow> built_report \<Rightarrow> build_job \<Rightarrow> bool" where
  "built_facts commit native m b j \<longleftrightarrow>
     bj_platform j = platform_android \<and> bp_machine (bj_build j) = Some (mc_id m)
     \<and> valid_commit commit \<and> valid_native_fingerprint native
     \<and> valid_version_name (bj_version j) \<and> 1 \<le> bj_number j \<and> bj_number j \<le> max_version_code
     \<and> (\<exists>u n s. dc_sha256 (bp_unsigned (bj_build j)) = Some u \<and> fingerprint_valid u
          \<and> dc_size (bp_unsigned (bj_build j)) = Some n \<and> 1 \<le> n
          \<and> dc_sha256 (bp_sbom (bj_build j)) = Some s \<and> fingerprint_valid s)
     \<and> valid_server_id (mc_id m)
     \<and> env_statement (bt_provenance b) \<noteq> []
     \<and> length (env_statement (bt_provenance b)) \<le> b64_encoded_len max_statement_size
     \<and> env_signature (bt_provenance b) \<noteq> []"

inductive row_change :: "build_job \<Rightarrow> job_event \<Rightarrow> build_job \<Rightarrow> bool" where
  claim: "bj_status j = JobQueued \<Longrightarrow> row_change j BuilderClaim (claim_set m now j)"
| dispatch_fail: "bj_status j = JobClaimed \<Longrightarrow> hb = bj_heartbeat_at j \<or> hb = Some now \<Longrightarrow>
    row_change j DispatchFail ((fail_claimed reason now j)\<lparr>bj_heartbeat_at := hb\<rparr>)"
| heartbeat: "active j \<Longrightarrow> row_change j BuilderHeartbeat
    (j\<lparr>bj_status := JobRunning, bj_heartbeat_at := Some now, bj_log_tail := clamp_log_tail tail, bj_updated_at := now\<rparr>)"
| requeue: "active j \<Longrightarrow> bj_kind j = KindApk \<Longrightarrow> attempt_of j < max_build_attempts \<Longrightarrow>
    row_change j ReapBuild (clear_columns release_build_delivery (requeue_set now j))"
| reap_fail: "active j \<Longrightarrow> row_change j ReapBuild (clear_columns release_build_delivery (reap_fail_set reason now j))"
| fail: "active j \<Longrightarrow> row_change j BuilderFail (clear_columns release_build_delivery (fail_set reason commit tail now j))"
| ota: "active j \<Longrightarrow> bj_kind j = KindOta \<Longrightarrow>
    row_change j BuilderComplete (complete_ota_set commit digest release tail now j)"
| upload: "active j \<Longrightarrow> bj_kind j = KindApk \<Longrightarrow> row_change j BuilderUpload (set_delivered what key sz sha now j)"
| built: "active j \<Longrightarrow> bj_kind j = KindApk \<Longrightarrow> built_facts commit native m b j \<Longrightarrow>
    row_change j BuilderBuilt (built_set m b commit native now j)"
| ios: "active j \<Longrightarrow> bj_kind j = KindApk \<Longrightarrow> bj_platform j = platform_ios \<Longrightarrow>
    row_change j BuilderIosRelease (ios_set commit digest release tail now j)"
| sign_claim: "bj_status j = JobBuilt \<Longrightarrow> bj_kind j = KindApk \<Longrightarrow> row_change j SignerClaim (sign_claim_set m now j)"
| overtaken: "bj_status j = JobBuilt \<Longrightarrow> bj_kind j = KindApk \<Longrightarrow> row_change j SignOvertaken (overtaken_set latest item now j)"
| sign_heartbeat: "bj_status j = JobSigning \<Longrightarrow> bj_kind j = KindApk \<Longrightarrow> row_change j SignerHeartbeat (sign_heartbeat_set now j)"
| sign_upload: "bj_status j = JobSigning \<Longrightarrow> bj_kind j = KindApk \<Longrightarrow> row_change j SignerUpload
    ((sign_heartbeat_set now j)\<lparr>bj_sign := (bj_sign j)\<lparr>sp_key := Some key, sp_heartbeat_at := Some now\<rparr>\<rparr>)"
| sign_complete: "bj_status j = JobSigning \<Longrightarrow> bj_kind j = KindApk \<Longrightarrow> bj_platform j = platform_android \<Longrightarrow>
    null_string (sp_key (bj_sign j)) \<noteq> [] \<Longrightarrow> row_change j SignerComplete (signed_set release sha now j)"
| sign_release: "bj_status j = JobSigning \<Longrightarrow> bj_kind j = KindApk \<Longrightarrow>
    row_change j SignerRelease (clear_columns release_signed (deferred_set r now j))"
| sign_violation: "bj_status j = JobSigning \<Longrightarrow> bj_kind j = KindApk \<Longrightarrow>
    row_change j SignerViolation (clear_columns release_all_deliveries (rejected_set r True (sp_failures (bj_sign j)) now j))"
| sign_transient: "bj_status j = JobSigning \<Longrightarrow> bj_kind j = KindApk \<Longrightarrow> n = sp_failures (bj_sign j) + 1 \<Longrightarrow>
    row_change j SignerTransient (clear_columns (if max_sign_failures \<le> n then release_all_deliveries else release_signed)
      (rejected_set r (max_sign_failures \<le> n) n now j))"
| sign_timeout: "bj_status j = JobSigning \<Longrightarrow> bj_kind j = KindApk \<Longrightarrow> n = sp_failures (bj_sign j) + 1 \<Longrightarrow>
    sp_failures (bj_sign item) = sp_failures (bj_sign j) \<Longrightarrow>
    row_change j ReapSign (clear_columns (if max_sign_failures \<le> n then release_all_deliveries else release_signed)
      (sign_timeout_set now item (max_sign_failures \<le> n) j))"
| cancel: "bj_status j = JobQueued \<or> active j \<or> bj_status j = JobBuilt \<and> bj_kind j = KindApk \<Longrightarrow>
    row_change j AdminCancel (clear_columns release_all_deliveries (cancel_set reason now j))"
| force_fail: "bj_status j = JobSigning \<Longrightarrow> bj_kind j = KindApk \<Longrightarrow>
    row_change j AdminForceFail (clear_columns release_all_deliveries (force_fail_set reason now j))"

inductive_cases row_changeE: "row_change j e j'"

inductive row_changes :: "build_job \<Rightarrow> build_job \<Rightarrow> bool" where
  changes_refl [intro, simp]: "row_changes j j"
| changes_step: "row_changes j k \<Longrightarrow> row_change k e l \<Longrightarrow> row_changes j l"

lemma changes_one: "row_change j e k \<Longrightarrow> row_changes j k"
  by (blast intro: changes_step)

lemma changes_trans: "row_changes k l \<Longrightarrow> row_changes j k \<Longrightarrow> row_changes j l"
  by (induction rule: row_changes.induct) (auto intro: changes_step)

lemma changes_invariant:
  assumes "row_changes j k" and "P j" and "\<And>j e k. row_change j e k \<Longrightarrow> P j \<Longrightarrow> P k"
  shows "P k"
  using assms(1,2) by (induction rule: row_changes.induct) (auto intro: assms(3))

text \<open>Every change assigns one of these; the collection unfolds them.\<close>

lemmas row_sets = claim_set_def fail_claimed_def requeue_set_def reap_fail_set_def fail_set_def complete_ota_set_def
  set_delivered_def built_set_def ios_set_def sign_claim_set_def overtaken_set_def sign_heartbeat_set_def
  signed_set_def deferred_set_def rejected_set_def sign_timeout_set_def cancel_set_def force_fail_set_def

section \<open>The columns an abandoned delivery leaves\<close>

lemma clear_columns_row [simp]:
  "bj_id (clear_columns s j) = bj_id j" "bj_tenant (clear_columns s j) = bj_tenant j"
  "bj_platform (clear_columns s j) = bj_platform j" "bj_kind (clear_columns s j) = bj_kind j"
  "bj_delivery (clear_columns s j) = bj_delivery j" "bj_git_ref (clear_columns s j) = bj_git_ref j"
  "bj_version (clear_columns s j) = bj_version j" "bj_number (clear_columns s j) = bj_number j"
  "bj_status (clear_columns s j) = bj_status j" "bj_created_at (clear_columns s j) = bj_created_at j"
  "bj_release (clear_columns s j) = bj_release j" "bj_artifact (clear_columns s j) = bj_artifact j"
  "bj_commit (clear_columns s j) = bj_commit j" "bj_failure (clear_columns s j) = bj_failure j"
  "bj_log_tail (clear_columns s j) = bj_log_tail j"
  "bj_claimed_at (clear_columns s j) = bj_claimed_at j" "bj_heartbeat_at (clear_columns s j) = bj_heartbeat_at j"
  "bj_updated_at (clear_columns s j) = bj_updated_at j"
  by (simp_all add: clear_columns_def Let_def)

lemma clear_columns_parts [simp]:
  "bp_attempt (bj_build (clear_columns s j)) = bp_attempt (bj_build j)"
  "bp_machine (bj_build (clear_columns s j)) = bp_machine (bj_build j)"
  "bp_native (bj_build (clear_columns s j)) = bp_native (bj_build j)"
  "bp_provenance (bj_build (clear_columns s j)) = bp_provenance (bj_build j)"
  "dc_sha256 (bp_unsigned (bj_build (clear_columns s j))) = dc_sha256 (bp_unsigned (bj_build j))"
  "dc_size (bp_unsigned (bj_build (clear_columns s j))) = dc_size (bp_unsigned (bj_build j))"
  "dc_sha256 (bp_sbom (bj_build (clear_columns s j))) = dc_sha256 (bp_sbom (bj_build j))"
  "dc_size (bp_sbom (bj_build (clear_columns s j))) = dc_size (bp_sbom (bj_build j))"
  "sp_attempt (bj_sign (clear_columns s j)) = sp_attempt (bj_sign j)"
  "sp_failures (bj_sign (clear_columns s j)) = sp_failures (bj_sign j)"
  "sp_machine (bj_sign (clear_columns s j)) = sp_machine (bj_sign j)"
  "sp_claimed_at (bj_sign (clear_columns s j)) = sp_claimed_at (bj_sign j)"
  "sp_heartbeat_at (bj_sign (clear_columns s j)) = sp_heartbeat_at (bj_sign j)"
  "sp_outcome (bj_sign (clear_columns s j)) = sp_outcome (bj_sign j)"
  by (simp_all add: clear_columns_def Let_def)

lemma release_bits [simp]:
  "release_build_delivery AND release_unsigned \<noteq> 0" "release_build_delivery AND release_sbom \<noteq> 0"
  "release_build_delivery AND release_appstore \<noteq> 0" "release_build_delivery AND release_signed = 0"
  "release_all_deliveries AND release_unsigned \<noteq> 0" "release_all_deliveries AND release_sbom \<noteq> 0"
  "release_all_deliveries AND release_appstore \<noteq> 0" "release_all_deliveries AND release_signed \<noteq> 0"
  "release_signed AND release_unsigned = 0" "release_signed AND release_sbom = 0"
  "release_signed AND release_appstore = 0" "release_signed AND release_signed \<noteq> 0"
  by (simp_all add: release_set_defs)

section \<open>The changes follow the table\<close>

definition identity_of :: "build_job \<Rightarrow> bytes \<times> bytes \<times> bytes \<times> job_kind \<times> bytes \<times> int \<times> int" where
  "identity_of j = (bj_id j, bj_tenant j, bj_platform j, bj_kind j, bj_version j, bj_number j, bj_created_at j)"

lemma row_change_identity: "row_change j e k \<Longrightarrow> identity_of k = identity_of j"
  by (erule row_change.cases) (simp_all add: identity_of_def row_sets)

lemma row_change_edge: "row_change j e k \<Longrightarrow> edge (bj_kind j) e (bj_status j) (bj_status k)"
  by (erule row_change.cases) (auto simp: active_def row_sets)

lemma changes_identity: "row_changes j k \<Longrightarrow> identity_of k = identity_of j"
  by (induction rule: row_changes.induct) (simp_all add: row_change_identity)

lemma changes_path: "row_changes j k \<Longrightarrow> path (bj_kind j) (bj_status j) (bj_status k)"
proof (induction rule: row_changes.induct)
  case (changes_step j k e l)
  have "bj_kind k = bj_kind j" using changes_identity [OF changes_step.hyps(1)] by (simp add: identity_of_def)
  then show ?case using path_step [OF changes_step.IH] row_change_edge [OF changes_step.hyps(2)] by simp
qed simp

end
