(* ===== verification/ReportedText.thy ===== *)
theory ReportedText
  imports BuildRows
begin

text \<open>
  What reported text looks like once it is stored (\<open>internal/api/reported_text.go\<close>): the machines that
  report it are not trusted to write to the console or to a log.
\<close>

definition report_clean :: "bytes \<Rightarrow> bool" where
  "report_clean t \<longleftrightarrow> utf8_valid t \<and> list_all (\<lambda>r. \<not> drop_rune r) (runes t)"

text \<open>Text that is the encoding of runes, and the cuts that keep it so.\<close>

definition encoding :: "nat list \<Rightarrow> bytes" where
  "encoding cs = concat (map encode_rune cs)"

lemma encoding_simps [simp]: "encoding [] = []" "encoding (r # cs) = encode_rune r @ encoding cs"
  by (simp_all add: encoding_def)

lemma runes_encoding [simp]: "list_all scalar_value cs \<Longrightarrow> runes (encoding cs) = cs"
  using utf8_concat_encode by (simp add: encoding_def)

lemma clean_encoding: "list_all scalar_value cs \<Longrightarrow> list_all (\<lambda>r. \<not> drop_rune r) cs \<Longrightarrow> report_clean (encoding cs)"
  using utf8_concat_encode [of cs] by (simp add: report_clean_def encoding_def)

lemma segments_encoding:
  assumes "list_all scalar_value cs" shows "segments (encoding cs) = map (\<lambda>r. (r, encode_rune r)) cs"
  using assms
proof (induction cs)
  case (Cons r cs)
  have "utf8_step (encode_rune r @ encoding cs) = Some (r, length (encode_rune r))"
    using Cons.prems utf8_step_encode by simp
  then show ?case
    using Cons segments_step [of "encode_rune r @ encoding cs" r "length (encode_rune r)"] by simp
qed simp

lemma list_all_take: "list_all P xs \<Longrightarrow> list_all P (take n xs)"
  by (auto simp: list_all_iff dest: in_set_takeD)

lemma trim_encoding:
  assumes "list_all scalar_value cs"
  obtains ds where "trim_space (encoding cs) = encoding ds" "set ds \<subseteq> set cs" "length ds \<le> length cs"
proof -
  define ds where "ds = rev (dropWhile is_space_rune (rev (dropWhile is_space_rune cs)))"
  have d: "dropWhile (\<lambda>x. is_space_rune (fst x)) (map (\<lambda>r. (r, encode_rune r)) xs)
      = map (\<lambda>r. (r, encode_rune r)) (dropWhile is_space_rune xs)" for xs
    by (simp add: dropWhile_map comp_def)
  have t: "trim_space (encoding cs) = encoding ds"
    unfolding trim_space_def segments_encoding [OF assms] d rev_map ds_def
    by (simp add: d encoding_def rev_map [symmetric] comp_def)
  have sub: "set ds \<subseteq> set cs"
    unfolding ds_def by (auto dest!: set_dropWhileD)
  have len: "length ds \<le> length cs"
    unfolding ds_def by (metis length_dropWhile_le length_rev order_trans)
  show thesis by (rule that [OF t sub len])
qed

lemma clip_runes_encoding:
  assumes "list_all scalar_value cs"
  shows "clip_runes (encoding cs) m = encoding (take m cs)"
  using assms by (simp add: clip_runes_def) (simp add: encoding_def)

text \<open>Only the first byte of a rune starts one.\<close>

lemma rune_start_lead: "n < 128 \<or> 192 \<le> n \<and> n < 256 \<Longrightarrow> rune_start (char_of (n :: nat))"
  by (auto simp: rune_start_def)

lemma rune_start_rest: "n < 64 \<Longrightarrow> \<not> rune_start (char_of (0x80 + n :: nat))"
  by (simp add: rune_start_def)

lemma rune_start_encode:
  assumes "k < length (encode_rune r)" and "scalar_value r"
  shows "rune_start (encode_rune r ! k) \<longleftrightarrow> k = 0"
proof (cases "r < 0x80")
  case True
  then show ?thesis using assms(1) by (simp add: encode_rune_def rune_start_lead)
next
  case False
  have r: "r < 0x110000" using assms(2) by (auto simp: scalar_value_def)
  obtain c cs where e: "encode_rune r = c # cs" "rune_start c" "list_all (\<lambda>x. \<not> rune_start x) cs"
  proof (cases "r < 0x800")
    case True
    with False have "encode_rune r = char_of (0xC0 + r div 64) # [char_of (0x80 + r mod 64)]" by (simp add: encode_rune_def)
    moreover have "0xC0 + r div 64 < 256" using True by simp
    ultimately show thesis using that rune_start_lead [of "0xC0 + r div 64"] rune_start_rest [of "r mod 64"] by simp
  next
    case ge: False
    show thesis
    proof (cases "r < 0x10000")
      case True
      with False ge have "encode_rune r = char_of (0xE0 + r div 4096) # [char_of (0x80 + r div 64 mod 64), char_of (0x80 + r mod 64)]"
        by (simp add: encode_rune_def)
      moreover have "0xE0 + r div 4096 < 256" using True by simp
      ultimately show thesis
        using that rune_start_lead [of "0xE0 + r div 4096"] rune_start_rest [of "r mod 64"] rune_start_rest [of "r div 64 mod 64"] by simp
    next
      case big: False
      with False ge have "encode_rune r = char_of (0xF0 + r div 262144)
          # [char_of (0x80 + r div 4096 mod 64), char_of (0x80 + r div 64 mod 64), char_of (0x80 + r mod 64)]"
        by (simp add: encode_rune_def)
      moreover have "0xF0 + r div 262144 < 256" using r by simp
      ultimately show thesis
        using that rune_start_lead [of "0xF0 + r div 262144"] rune_start_rest [of "r mod 64"]
          rune_start_rest [of "r div 64 mod 64"] rune_start_rest [of "r div 4096 mod 64"] by simp
    qed
  qed
  show ?thesis using assms(1) e(2,3) by (cases k) (simp_all add: e(1) list_all_length)
qed

lemma cut_at_rune:
  assumes "list_all scalar_value cs" and "p < length (encoding cs)" and "rune_start (encoding cs ! p)"
  shows "\<exists>n. take p (encoding cs) = encoding (take n cs)"
  using assms
proof (induction cs arbitrary: p)
  case (Cons r cs)
  show ?case
  proof (cases "p < length (encode_rune r)")
    case True
    then have "p = 0" using Cons.prems rune_start_encode [OF True] by (simp add: nth_append)
    then show ?thesis by (intro exI [of _ 0]) simp
  next
    case False
    then have "p - length (encode_rune r) < length (encoding cs)" "rune_start (encoding cs ! (p - length (encode_rune r)))"
      using Cons.prems(2,3) by (simp_all add: nth_append)
    then obtain n where "take (p - length (encode_rune r)) (encoding cs) = encoding (take n cs)"
      using Cons.IH [of "p - length (encode_rune r)"] Cons.prems(1) by auto
    then show ?thesis using False by (intro exI [of _ "Suc n"]) simp
  qed
qed simp

lemma cut_back_start: "cut_back s n = 0 \<or> rune_start (s ! cut_back s n)"
  by (induction n) auto

lemma cut_back_bound: "cut_back s n \<le> n"
  by (induction n) auto

lemma clip_bytes_encoding:
  assumes "list_all scalar_value cs"
  obtains n where "clip_bytes (encoding cs) m = encoding (take n cs)" "length (clip_bytes (encoding cs) m) \<le> m"
proof (cases "length (encoding cs) \<le> m")
  case True
  then show thesis using that [of "length cs"] by (simp add: clip_bytes_def)
next
  case False
  let ?p = "cut_back (encoding cs) m"
  have p: "?p \<le> m" by (rule cut_back_bound)
  have "\<exists>n. take ?p (encoding cs) = encoding (take n cs)"
  proof (cases "?p = 0")
    case True
    then show ?thesis by (intro exI [of _ 0]) simp
  next
    case False
    then show ?thesis using cut_back_start [of "encoding cs" m] p \<open>\<not> length (encoding cs) \<le> m\<close>
      by (intro cut_at_rune [OF assms]) auto
  qed
  then obtain n where n: "take ?p (encoding cs) = encoding (take n cs)" by blast
  have c: "clip_bytes (encoding cs) m = take ?p (encoding cs)" using False by (simp add: clip_bytes_def)
  show thesis
  proof (rule that)
    show "clip_bytes (encoding cs) m = encoding (take n cs)" by (simp only: c n)
    show "length (clip_bytes (encoding cs) m) \<le> m" using p by (simp add: c)
  qed
qed

section \<open>Sanitizing\<close>

lemma sanitize_encoding: "sanitize_reported s = encoding [r \<leftarrow> runes s. \<not> drop_rune r]"
  by (simp add: sanitize_reported_def encoding_def)

lemma kept_runes:
  "list_all scalar_value [r \<leftarrow> runes s. \<not> drop_rune r]" "list_all (\<lambda>r. \<not> drop_rune r) [r \<leftarrow> runes s. \<not> drop_rune r]"
  using runes_scalar [of s] by (auto simp: list_all_iff)

lemma list_all_subset: "list_all P xs \<Longrightarrow> set ys \<subseteq> set xs \<Longrightarrow> list_all P ys"
  by (auto simp: list_all_iff)

lemma sanitize_clean: "report_clean (sanitize_reported s)"
  by (simp add: sanitize_encoding clean_encoding kept_runes)

lemma clamp_line_clean:
  "report_clean (clip_bytes (sanitize_reported l) m) \<and> length (clip_bytes (sanitize_reported l) m) \<le> m"
proof -
  obtain n where n: "clip_bytes (sanitize_reported l) m = encoding (take n [r \<leftarrow> runes l. \<not> drop_rune r])"
      "length (clip_bytes (sanitize_reported l) m) \<le> m"
    using clip_bytes_encoding [OF kept_runes(1) [of l], of m] unfolding sanitize_encoding by blast
  show ?thesis
    using n by (simp add: n(1) clean_encoding list_all_take [OF kept_runes(1)] list_all_take [OF kept_runes(2)])
qed

lemma trimmed_clean:
  "report_clean (clip_runes (trim_space (sanitize_reported s)) m) \<and> length (runes (clip_runes (trim_space (sanitize_reported s)) m)) \<le> m"
proof -
  obtain ds where ds: "trim_space (sanitize_reported s) = encoding ds" "set ds \<subseteq> set [r \<leftarrow> runes s. \<not> drop_rune r]"
    using trim_encoding [OF kept_runes(1) [of s]] unfolding sanitize_encoding by blast
  have ok: "list_all scalar_value ds" "list_all (\<lambda>r. \<not> drop_rune r) ds"
    by (rule list_all_subset [OF kept_runes(1) ds(2)], rule list_all_subset [OF kept_runes(2) ds(2)])
  show ?thesis
    unfolding ds(1) clip_runes_encoding [OF ok(1)]
    using ok list_all_take by (auto intro: clean_encoding)
qed

lemma sanitize_idem: "sanitize_reported (sanitize_reported s) = sanitize_reported s"
  using kept_runes [of s] by (simp add: sanitize_encoding filter_id_conv list_all_iff)

lemma clamp_log_tail_ok:
  "length (clamp_log_tail ls) \<le> build_job_log_tail_max"
  "list_all (\<lambda>l. report_clean l \<and> length l \<le> 2000) (clamp_log_tail ls)"
  using clamp_line_clean by (simp_all add: clamp_log_tail_def list_all_iff)

text \<open>
  Whatever a machine reports, the stored log tail has at most 200 lines of at most 2000
  bytes, and every stored line and reason is valid UTF-8 without control characters and without the
  marks that reorder text; a reason keeps within its number of characters, and
  sanitizing twice changes nothing more.
\<close>

theorem reported_text_is_safe:
  "length (clamp_log_tail ls) \<le> build_job_log_tail_max
   \<and> list_all (\<lambda>l. report_clean l \<and> length l \<le> 2000) (clamp_log_tail ls)
   \<and> report_clean (sanitize_signer_text s m) \<and> length (runes (sanitize_signer_text s m)) \<le> m
   \<and> sanitize_reported (sanitize_reported s) = sanitize_reported s"
  using clamp_log_tail_ok [of ls] trimmed_clean [of s m] sanitize_idem [of s] by (simp add: sanitize_signer_text_def)

end
