(* ===== verification/BuildLife.thy ===== *)
theory BuildLife
  imports BuildSystem ReportedText
begin

text \<open>
  What holds of one row along its life: which columns are filled in which status, the bounds of the
  counters, and what a later version of a row keeps of an earlier one.
\<close>

section \<open>The invariant of a row\<close>

definition signable :: "build_job \<Rightarrow> bool" where
  "signable j \<longleftrightarrow>
     bj_kind j = KindApk \<and> bj_platform j = platform_android \<and> 1 \<le> attempt_of j
     \<and> (\<exists>c. bj_commit j = Some c \<and> valid_commit c)
     \<and> (\<exists>n. bp_native (bj_build j) = Some n \<and> valid_native_fingerprint n)
     \<and> (\<exists>u. dc_sha256 (bp_unsigned (bj_build j)) = Some u \<and> fingerprint_valid u)
     \<and> (\<exists>n. dc_size (bp_unsigned (bj_build j)) = Some n \<and> 1 \<le> n)
     \<and> (\<exists>s. dc_sha256 (bp_sbom (bj_build j)) = Some s \<and> fingerprint_valid s)
     \<and> valid_version_name (bj_version j) \<and> 1 \<le> bj_number j \<and> bj_number j \<le> max_version_code
     \<and> (\<exists>p. bp_provenance (bj_build j) = Some p \<and> valid_server_id (pr_builder p)
          \<and> bp_machine (bj_build j) = Some (pr_builder p)
          \<and> pr_statement p \<noteq> [] \<and> length (pr_statement p) \<le> b64_encoded_len max_statement_size
          \<and> pr_signature p \<noteq> [])"

definition attempts_ok :: "build_job \<Rightarrow> bool" where
  "attempts_ok j \<longleftrightarrow>
     0 \<le> attempt_of j \<and> attempt_of j \<le> max_build_attempts \<and> (bj_kind j = KindOta \<longrightarrow> attempt_of j \<le> 1)
     \<and> (bj_status j = JobQueued \<longrightarrow> attempt_of j < max_build_attempts \<and> (bj_kind j = KindOta \<longrightarrow> attempt_of j = 0))
     \<and> (active j \<or> bj_status j = JobBuilt \<or> bj_status j = JobSigning \<longrightarrow> 1 \<le> attempt_of j \<and> bp_machine (bj_build j) \<noteq> None)"

definition failures_ok :: "build_job \<Rightarrow> bool" where
  "failures_ok j \<longleftrightarrow>
     0 \<le> sp_failures (bj_sign j) \<and> sp_failures (bj_sign j) \<le> max_sign_failures \<and> 0 \<le> sign_attempt_of j
     \<and> (contains in_flight_statuses (bj_status j) \<longrightarrow> sp_failures (bj_sign j) < max_sign_failures)
     \<and> (bj_status j = JobSigning \<longrightarrow> 1 \<le> sign_attempt_of j \<and> sp_machine (bj_sign j) \<noteq> None)"

definition outcome_ok :: "build_job \<Rightarrow> bool" where
  "outcome_ok j \<longleftrightarrow>
     (bj_release j \<noteq> None \<longleftrightarrow> bj_status j = JobSucceeded \<and> bj_kind j = KindApk)
     \<and> (bj_artifact j \<noteq> None \<longleftrightarrow> bj_status j = JobSucceeded)
     \<and> (bj_failure j \<noteq> None \<longleftrightarrow> bj_status j = JobFailed \<or> bj_status j = JobCanceled)
     \<and> (bj_status j = JobBuilt \<or> bj_status j = JobSigning \<or> bj_status j = JobSucceeded \<longrightarrow> bj_commit j \<noteq> None)
     \<and> (bj_status j = JobSucceeded \<and> bj_kind j = KindApk \<and> bj_platform j = platform_android \<longrightarrow>
          null_string (sp_key (bj_sign j)) \<noteq> [])"

definition log_ok :: "build_job \<Rightarrow> bool" where
  "log_ok j \<longleftrightarrow> length (bj_log_tail j) \<le> build_job_log_tail_max \<and> list_all (\<lambda>l. report_clean l \<and> length l \<le> 2000) (bj_log_tail j)"

definition past_build :: "build_job \<Rightarrow> bool" where
  "past_build j \<longleftrightarrow> bj_status j \<noteq> JobQueued \<and> \<not> active j"

definition provenance_ok :: "build_job \<Rightarrow> bool" where
  "provenance_ok j \<longleftrightarrow>
     (bj_status j = JobBuilt \<or> bj_status j = JobSigning \<longrightarrow> bp_provenance (bj_build j) \<noteq> None)
     \<and> (bp_provenance (bj_build j) \<noteq> None \<longrightarrow> past_build j \<and> signable j)"

definition row_ok :: "build_job \<Rightarrow> bool" where
  "row_ok j \<longleftrightarrow> attempts_ok j \<and> failures_ok j \<and> outcome_ok j \<and> log_ok j \<and> provenance_ok j"

lemmas row_ok_parts = attempts_ok_def failures_ok_def outcome_ok_def

lemma log_ok_keep: "bj_log_tail k = bj_log_tail j \<or> (\<exists>ls. bj_log_tail k = clamp_log_tail ls) \<Longrightarrow> log_ok j \<Longrightarrow> log_ok k"
  by (auto simp: log_ok_def clamp_log_tail_ok)

lemma platforms_differ [simp]: "platform_ios \<noteq> platform_android" "platform_android \<noteq> platform_ios"
  by (simp_all add: platform_ios_def platform_android_def)

lemma row_change_log: "row_change j e k \<Longrightarrow> log_ok j \<Longrightarrow> log_ok k"
  by (erule row_change.cases; rule log_ok_keep [where j = j]) (auto simp: row_sets)

lemma store_delivered_fields [simp]:
  "bp_attempt (store_delivered w c b) = bp_attempt b" "bp_machine (store_delivered w c b) = bp_machine b"
  "bp_native (store_delivered w c b) = bp_native b" "bp_provenance (store_delivered w c b) = bp_provenance b"
  by (cases w; simp)+

lemma row_change_attempts: "row_change j e k \<Longrightarrow> attempts_ok j \<Longrightarrow> attempts_ok k"
  apply (erule row_change.cases)
  apply (simp_all add: attempts_ok_def active_def row_sets max_build_attempts_def)
  subgoal by (cases "bj_kind j") auto
  subgoal by auto
  subgoal by auto
  done

lemma row_change_failures: "row_change j e k \<Longrightarrow> failures_ok j \<Longrightarrow> failures_ok k"
  apply (erule row_change.cases)
  apply (simp_all add: failures_ok_def active_def row_sets max_sign_failures_def in_flight_statuses_def)
  apply (elim conjE disjE; simp)+
  done

lemma row_change_outcome: "row_change j e k \<Longrightarrow> outcome_ok j \<Longrightarrow> outcome_ok k"
  apply (erule row_change.cases)
  apply (simp_all add: outcome_ok_def active_def row_sets)
  apply (elim conjE disjE; simp)+
  done

text \<open>What was delivered is frozen from the report of the build on.\<close>

definition frozen :: "build_job \<Rightarrow> bytes option \<times> int \<times> bytes option \<times> bytes option \<times> int option \<times> bytes option \<times> bytes option \<times> provenance_record option" where
  "frozen j = (bj_commit j, attempt_of j, bp_machine (bj_build j), dc_sha256 (bp_unsigned (bj_build j)), dc_size (bp_unsigned (bj_build j)),
     dc_sha256 (bp_sbom (bj_build j)), bp_native (bj_build j), bp_provenance (bj_build j))"

lemma row_change_frozen: "row_change j e k \<Longrightarrow> past_build j \<Longrightarrow> past_build k \<and> frozen k = frozen j"
  by (erule row_change.cases) (auto simp: past_build_def active_def row_sets frozen_def)

lemma signable_cong: "frozen k = frozen j \<Longrightarrow> identity_of k = identity_of j \<Longrightarrow> signable k = signable j"
  by (simp add: signable_def frozen_def identity_of_def)

lemma built_signable:
  "built_facts commit native m b j \<Longrightarrow> bj_kind j = KindApk \<Longrightarrow> 1 \<le> attempt_of j \<Longrightarrow> signable (built_set m b commit native now j)"
  by (auto simp: built_facts_def signable_def built_set_def)

lemma row_change_building:
  "row_change j e k \<Longrightarrow> \<not> past_build j \<Longrightarrow> bp_provenance (bj_build j) = None \<Longrightarrow>
   e = BuilderBuilt \<or> bp_provenance (bj_build k) = None \<and> bj_status k \<noteq> JobBuilt \<and> bj_status k \<noteq> JobSigning"
  by (erule row_change.cases) (auto simp: past_build_def active_def row_sets)

lemma row_change_provenance:
  assumes c: "row_change j e k" and a: "attempts_ok j" and p: "provenance_ok j" shows "provenance_ok k"
proof (cases "past_build j")
  case True
  note f = row_change_frozen [OF c True]
  have "bp_provenance (bj_build j) \<noteq> None" if "bj_status k = JobBuilt \<or> bj_status k = JobSigning"
  proof -
    have "bj_status j = JobBuilt \<or> bj_status j = JobSigning"
      using row_change_edge [OF c] edge_from_in_flight [of "bj_kind j" e] True
      by (fastforce simp: past_build_def active_def in_flight_statuses_def)
    then show ?thesis using p by (simp add: provenance_ok_def)
  qed
  moreover have "bp_provenance (bj_build k) = bp_provenance (bj_build j)" using f by (simp add: frozen_def)
  ultimately show ?thesis
    using f p signable_cong [OF _ row_change_identity [OF c]] by (auto simp: provenance_ok_def)
next
  case False
  then have "bp_provenance (bj_build j) = None" using p by (auto simp: provenance_ok_def)
  from row_change_building [OF c False this] show ?thesis
  proof
    assume e: "e = BuilderBuilt"
    obtain commit native m b now where b: "active j" "bj_kind j = KindApk" "built_facts commit native m b j"
        "k = built_set m b commit native now j"
      using c e by (cases rule: row_change.cases) auto
    have "1 \<le> attempt_of j" using a b(1) by (simp add: attempts_ok_def)
    then show ?thesis
      using built_signable [OF b(3,2)] by (simp add: b(4) provenance_ok_def) (simp add: built_set_def past_build_def active_def)
  qed (simp add: provenance_ok_def)
qed

lemma row_change_ok: "row_change j e k \<Longrightarrow> row_ok j \<Longrightarrow> row_ok k"
  unfolding row_ok_def
  using row_change_attempts row_change_failures row_change_outcome row_change_log row_change_provenance by blast

lemma built_row_signable: "row_ok j \<Longrightarrow> bj_status j = JobBuilt \<or> bj_status j = JobSigning \<Longrightarrow> signable j"
  by (auto simp: row_ok_def provenance_ok_def)

lemma changes_ok: "row_changes j k \<Longrightarrow> row_ok j \<Longrightarrow> row_ok k"
  using changes_invariant [of j k row_ok] row_change_ok by blast

lemma unreleased: "row_ok j \<Longrightarrow> bj_status j \<noteq> JobSucceeded \<Longrightarrow> bj_release j = None"
  by (simp add: row_ok_def outcome_ok_def)

lemma new_job_ok:
  "row_ok (new_job i tenant platform kind delivery version n reason created_by now)"
  by (simp add: row_ok_def attempts_ok_def failures_ok_def outcome_ok_def log_ok_def provenance_ok_def new_job_def new_build_part_def
      new_sign_part_def active_def max_build_attempts_def max_sign_failures_def build_job_log_tail_max_def)

section \<open>What a later version keeps\<close>

text \<open>Claims are counted up; a claim that ended never becomes current again.\<close>

lemma row_change_counts: "row_change j e k \<Longrightarrow> attempt_of j \<le> attempt_of k \<and> sign_attempt_of j \<le> sign_attempt_of k"
  by (erule row_change.cases) (simp_all add: row_sets)

lemma changes_counts: "row_changes j k \<Longrightarrow> attempt_of j \<le> attempt_of k \<and> sign_attempt_of j \<le> sign_attempt_of k"
  by (induction rule: row_changes.induct) (auto dest: row_change_counts)

definition claim_over :: "int \<Rightarrow> build_job \<Rightarrow> bool" where
  "claim_over a j \<longleftrightarrow> a < sign_attempt_of j \<or> sign_attempt_of j = a \<and> bj_status j \<noteq> JobSigning"

lemma row_change_claim_over: "row_change j e k \<Longrightarrow> claim_over a j \<Longrightarrow> claim_over a k"
  by (erule row_change.cases) (auto simp: claim_over_def row_sets active_def)

lemma changes_claim_over: "row_changes j k \<Longrightarrow> claim_over a j \<Longrightarrow> claim_over a k"
  using changes_invariant [of j k "claim_over a"] row_change_claim_over by blast

lemma changes_frozen: "row_changes j k \<Longrightarrow> past_build j \<Longrightarrow> past_build k \<and> frozen k = frozen j"
  by (induction rule: row_changes.induct) (auto dest: row_change_frozen)

text \<open>A finished row never changes.\<close>

lemma row_change_in_flight: "row_change j e k \<Longrightarrow> bj_status j \<in> set in_flight_statuses"
  using row_change_edge edge_from_in_flight by blast

lemma changes_final: "row_changes j k \<Longrightarrow> bj_status j \<in> set terminal_statuses \<Longrightarrow> k = j"
  by (induction rule: row_changes.induct) (auto dest: row_change_in_flight simp: in_flight_not_terminal)

text \<open>The machine of a claim does not change while the claim is current.\<close>

lemma row_change_machine:
  "row_change j e k \<Longrightarrow> active j \<Longrightarrow> active k \<Longrightarrow> bp_machine (bj_build k) = bp_machine (bj_build j) \<and> attempt_of k = attempt_of j"
  by (erule row_change.cases) (auto simp: active_def row_sets)

section \<open>The columns under the unique indexes\<close>

lemma row_change_index:
  "row_change j e k \<Longrightarrow> live_number k = None \<or> live_number k = live_number j"
  "row_change j e k \<Longrightarrow> live_ota_slot k \<Longrightarrow> live_ota_slot j"
  by (erule row_change.cases; auto simp: live_number_def active_def row_sets in_flight_statuses_def)
    (erule row_change.cases; auto simp: live_ota_slot_def active_def row_sets)

lemma changes_index:
  "row_changes j k \<Longrightarrow> (live_number k = None \<or> live_number k = live_number j) \<and> (live_ota_slot k \<longrightarrow> live_ota_slot j)"
  by (induction rule: row_changes.induct) (auto dest: row_change_index)

section \<open>The object keys of a row\<close>

definition key_list :: "build_job \<Rightarrow> bytes list" where
  "key_list j = concat (map (\<lambda>k. case k of None \<Rightarrow> [] | Some x \<Rightarrow> [x])
     [dc_key (bp_unsigned (bj_build j)), dc_key (bp_sbom (bj_build j)), sp_key (bj_sign j), dc_key (bp_appstore (bj_build j))])"

end
