(* ===== verification/BuildRuns.thy ===== *)
theory BuildRuns
  imports BuildLife
begin

text \<open>
  Runs of the queue. \<open>request\<close> has a rule for each transaction: the current database is \<open>db\<close>, the
  databases a handler may have read before are \<open>past\<close> (the whole run so far, so any other transactions
  may have come in between), and every other argument is arbitrary: requests, machines, times, which
  commits succeed, what the configuration says. New object keys and record ids are random in the code
  and fresh here. \<open>step\<close> is what a transaction amounts to.
\<close>

section \<open>Requests\<close>

definition release_keys :: "server_db \<Rightarrow> bytes set" where
  "release_keys db = ar_object_key ` set (db_releases db)"

definition fresh_key :: "bytes \<Rightarrow> server_db \<Rightarrow> bool" where
  "fresh_key key db \<longleftrightarrow> key \<noteq> [] \<and> key \<notin> set (db_written db) \<and> key \<notin> release_keys db"

definition fresh_release :: "bytes \<Rightarrow> server_db \<Rightarrow> bool" where
  "fresh_release i db \<longleftrightarrow> i \<noteq> [] \<and> i \<notin> ar_id ` set (db_releases db)"

definition empty_db :: server_db where
  "empty_db = \<lparr>db_jobs = [], db_releases = [], db_audit = [], db_written = [], db_deleted = []\<rparr>"

inductive request ::
  "crypto \<Rightarrow> (bytes \<Rightarrow> statement option) \<Rightarrow> semver \<Rightarrow> server_db list \<Rightarrow> server_db \<Rightarrow> server_db \<Rightarrow> bool"
  for K dec cmp past db where
  queue: "p \<in> set past \<Longrightarrow> create_checked cmp v tenant b p = Inr delivery \<Longrightarrow>
    queue_job commits i tenant created_by b delivery now db = (a, db') \<Longrightarrow> request K dec cmp past db db'"
| queue_ota: "create_ota_checked v b = Inr base \<Longrightarrow>
    queue_ota_job commits i tenant created_by v b base now db = (a, db') \<Longrightarrow> request K dec cmp past db db'"
| claim: "claim_build_job T m body lock_free locked now commits db = (c, db') \<Longrightarrow> request K dec cmp past db db'"
| undispatchable: "p \<in> set past \<Longrightarrow> claim_build_job T m body lock_free locked t True p = (Inr job, p') \<Longrightarrow>
    mark_build_job_failed reason now job commits db = db' \<Longrightarrow> request K dec cmp past db db'"
| heartbeat: "build_job_heartbeat m header lines now i commits db = (a, db') \<Longrightarrow> request K dec cmp past db db'"
| fail: "fail_build_job m header report now i requeue_commits commits db = (a, db') \<Longrightarrow> request K dec cmp past db db'"
| ota: "p \<in> set past \<Longrightarrow> builder_job_scope False m header i p = Inr job \<Longrightarrow>
    complete_ota m result now job commits db = (a, db') \<Longrightarrow> request K dec cmp past db db'"
| delivery: "p \<in> set past \<Longrightarrow> builder_job_scope False m header i p = Inr job \<Longrightarrow>
    (if what = DeliverIpa \<or> what = DeliverAppStoreInfo then ios_delivery_checked identity storage job
     else delivery_checked what storage job) = None \<Longrightarrow> fresh_key key db \<Longrightarrow>
    receive_delivery m what key received sbom_ok now job commits db = (a, db') \<Longrightarrow> request K dec cmp past db db'"
| built: "p \<in> set past \<Longrightarrow> builder_job_scope False m header i p = Inr job \<Longrightarrow>
    built_checked K dec m (Some b) slug package job = Inr (commit, native) \<Longrightarrow>
    mark_built m b commit native now job commits db = (a, db') \<Longrightarrow> request K dec cmp past db db'"
| ios: "p \<in> set past \<Longrightarrow> builder_job_scope True m header i p = Inr job \<Longrightarrow>
    ios_checked (Some r) bundle job = Inr (commit, digest) \<Longrightarrow> fresh_release release_id db \<Longrightarrow>
    complete_ios cmp m r commit digest release_id now job outcome db = (a, db') \<Longrightarrow> request K dec cmp past db db'"
| sign_claim: "p \<in> set past \<Longrightarrow> q \<in> set past \<Longrightarrow> is_active_primary m \<Longrightarrow> i \<in> set (sign_candidates slug_of slugs p) \<Longrightarrow>
    find_job i q = Some job \<Longrightarrow> signing_dispatch rd job m ready = Some answer \<Longrightarrow>
    claim_for_signing cmp m now job outcome db = (c, db') \<Longrightarrow> request K dec cmp past db db'"
| sign_heartbeat: "refresh_signing_heartbeat m attempt now i commits db = (c, db') \<Longrightarrow> request K dec cmp past db db'"
| sign_upload: "p \<in> set past \<Longrightarrow> current_signing_job m header i p = Inr job \<Longrightarrow> fresh_key key db \<Longrightarrow>
    upload_signed m key received now job commits db = (a, db') \<Longrightarrow> request K dec cmp past db db'"
| sign_complete: "p \<in> set past \<Longrightarrow> complete_read m header (Some s) i p = Inr (attempt, job) \<Longrightarrow>
    complete_verify checks s job = Inr package \<Longrightarrow> fresh_release release_id db \<Longrightarrow>
    with_release_sequence outcome ''RELEASE_CREATE_FAILED''
      (complete_transaction cmp m x s package attempt release_id now job) db = (a, db') \<Longrightarrow> request K dec cmp past db db'"
| sign_release: "release_signing_job m header o_body now i commits db = (a, db') \<Longrightarrow> request K dec cmp past db db'"
| sign_reject: "p \<in> set past \<Longrightarrow> current_signing_job m header i p = Inr job \<Longrightarrow>
    reject_signing_job m o_body now job commits db = (a, db') \<Longrightarrow> request K dec cmp past db db'"
| cancel: "cancel_build_job tenant actor g now i commits db = (a, db') \<Longrightarrow> request K dec cmp past db db'"
| force_fail: "force_fail_build_job tenant actor g now i commits db = (a, db') \<Longrightarrow> request K dec cmp past db db'"
| by_hand: "ar_job r = None \<Longrightarrow> fresh_release (ar_id r) db \<Longrightarrow> ar_object_key r \<notin> set (db_written db) \<Longrightarrow>
    manual_release cmp r actor gate outcome db = (a, db') \<Longrightarrow> request K dec cmp past db db'"
| reap_builds: "p \<in> set past \<Longrightarrow> item \<in> set (db_jobs p) \<Longrightarrow> stale_build now item \<Longrightarrow>
    reap_build now commits item db = db' \<Longrightarrow> request K dec cmp past db db'"
| reap_signings: "p \<in> set past \<Longrightarrow> item \<in> set (db_jobs p) \<Longrightarrow> stale_signing now item \<Longrightarrow>
    reap_signing now commits item db = db' \<Longrightarrow> request K dec cmp past db db'"

inductive history :: "crypto \<Rightarrow> (bytes \<Rightarrow> statement option) \<Rightarrow> semver \<Rightarrow> server_db list \<Rightarrow> bool" for K dec cmp where
  start: "history K dec cmp [empty_db]"
| next_db: "history K dec cmp (db # h) \<Longrightarrow> request K dec cmp (db # h) db db' \<Longrightarrow> history K dec cmp (db' # db # h)"

inductive_cases historyE: "history K dec cmp (db' # db # h)"

section \<open>What a transaction amounts to\<close>

datatype key_column = UnsignedKey | SbomKey | SignedKey | AppStoreKey

fun key_at :: "key_column \<Rightarrow> build_job \<Rightarrow> bytes option" where
  "key_at UnsignedKey j = dc_key (bp_unsigned (bj_build j))"
| "key_at SbomKey j = dc_key (bp_sbom (bj_build j))"
| "key_at SignedKey j = sp_key (bj_sign j)"
| "key_at AppStoreKey j = dc_key (bp_appstore (bj_build j))"

definition replace_job :: "build_job \<Rightarrow> build_job list \<Rightarrow> build_job list" where
  "replace_job l js = map (\<lambda>j. if bj_id j = bj_id l then l else j) js"

definition machine_idle :: "bytes option \<Rightarrow> server_db \<Rightarrow> bool" where
  "machine_idle m db \<longleftrightarrow> (\<forall>j\<in>set (db_jobs db). active j \<longrightarrow> bp_machine (bj_build j) \<noteq> m)"

text \<open>Which keys a row may hold after a change, and which may be deleted with it.\<close>

definition keys_ok :: "build_job \<Rightarrow> build_job \<Rightarrow> bytes list \<Rightarrow> bytes list \<Rightarrow> bool" where
  "keys_ok l l' written deleted \<longleftrightarrow>
     (\<forall>c k. key_at c l' = Some k \<longrightarrow> key_at c l = Some k \<or> written = [k] \<and> (\<forall>c'. key_at c' l' = Some k \<longrightarrow> c' = c))
     \<and> (\<forall>k\<in>set deleted. k \<in> set written \<and> (\<forall>c. key_at c l' \<noteq> Some k) \<or> (\<exists>c. key_at c l = Some k \<and> key_at c l' \<noteq> Some k))"

inductive step :: "semver \<Rightarrow> server_db \<Rightarrow> server_db \<Rightarrow> bool" for cmp db where
  row_step: "l \<in> set (db_jobs db) \<Longrightarrow> row_changes l l' \<Longrightarrow> bj_release l' = bj_release l \<Longrightarrow>
    (active l' \<longrightarrow> active l \<and> bp_machine (bj_build l') = bp_machine (bj_build l) \<or> machine_idle (bp_machine (bj_build l')) db) \<Longrightarrow>
    keys_ok l l' written deleted \<Longrightarrow> list_all (\<lambda>k. fresh_key k db) written \<Longrightarrow>
    step cmp db (db\<lparr>db_jobs := replace_job l' (db_jobs db), db_audit := audit,
      db_written := db_written db @ written, db_deleted := db_deleted db @ deleted\<rparr>)"
| release_step: "l \<in> set (db_jobs db) \<Longrightarrow> row_changes l l' \<Longrightarrow> bj_release l' = Some (ar_id r) \<Longrightarrow> bj_release l = None \<Longrightarrow>
    bj_status l' = JobSucceeded \<Longrightarrow> (\<forall>c. key_at c l' = key_at c l) \<Longrightarrow>
    ar_job r = Some (bj_id l) \<Longrightarrow> ar_tenant r = bj_tenant l \<Longrightarrow> ar_platform r = bj_platform l \<Longrightarrow>
    ar_version r = Some (bj_version l) \<Longrightarrow> ar_number r = bj_number l \<Longrightarrow> fresh_release (ar_id r) db \<Longrightarrow>
    (if bj_platform l = platform_android
     then ar_object_key r \<noteq> [] \<and> sp_key (bj_sign l) = Some (ar_object_key r) \<and> ar_sha256 r = bj_artifact l' \<and>
       ar_unsigned_sha256 r = dc_sha256 (bp_unsigned (bj_build l')) \<and> ar_native r = bp_native (bj_build l') \<and>
       ar_builder r = bp_machine (bj_build l') \<and> ar_signer r = sp_machine (bj_sign l')
     else ar_object_key r = []) \<Longrightarrow>
    increased_by cmp (latest_release_for (ar_tenant r) (ar_platform r) db) (null_string (ar_version r)) (ar_number r) \<Longrightarrow>
    step cmp db (db\<lparr>db_jobs := replace_job l' (db_jobs db), db_releases := db_releases db @ [r], db_audit := audit\<rparr>)"
| manual_step: "ar_job r = None \<Longrightarrow> fresh_release (ar_id r) db \<Longrightarrow> ar_object_key r \<notin> set (db_written db) \<Longrightarrow>
    increased_by cmp (latest_release_for (ar_tenant r) (ar_platform r) db) (null_string (ar_version r)) (ar_number r) \<Longrightarrow>
    step cmp db (db\<lparr>db_releases := db_releases db @ [r], db_audit := audit\<rparr>)"
| insert_step: "bj_id j \<notin> bj_id ` set (db_jobs db) \<Longrightarrow> \<forall>x\<in>set (db_jobs db). \<not> index_clash x j \<Longrightarrow>
    bj_status j = JobQueued \<Longrightarrow> row_ok j \<Longrightarrow> (\<forall>c. key_at c j = None) \<Longrightarrow>
    step cmp db (db\<lparr>db_jobs := db_jobs db @ [j], db_audit := audit\<rparr>)"
| object_step: "list_all (\<lambda>k. fresh_key k db) written \<Longrightarrow> set deleted \<subseteq> set written \<Longrightarrow>
    step cmp db (db\<lparr>db_written := db_written db @ written, db_deleted := db_deleted db @ deleted\<rparr>)"

inductive_cases stepE: "step cmp db db'"


section \<open>Rules for steps\<close>

lemma step_refl [intro, simp]: "step cmp db db"
  using object_step [of db "[]" "[]" cmp] by simp

lemma row_stepI:
  assumes "l \<in> set (db_jobs db)" and "row_changes l l'" and "bj_release l' = bj_release l"
    and "active l' \<longrightarrow> active l \<and> bp_machine (bj_build l') = bp_machine (bj_build l) \<or> machine_idle (bp_machine (bj_build l')) db"
    and "keys_ok l l' written deleted" and "list_all (\<lambda>k. fresh_key k db) written"
    and "db_jobs db' = replace_job l' (db_jobs db)" and "db_releases db' = db_releases db"
    and "db_written db' = db_written db @ written" and "db_deleted db' = db_deleted db @ deleted"
  shows "step cmp db db'"
proof -
  have "db' = db\<lparr>db_jobs := replace_job l' (db_jobs db), db_audit := db_audit db',
      db_written := db_written db @ written, db_deleted := db_deleted db @ deleted\<rparr>"
    using assms(7-10) by simp
  then show ?thesis using row_step [OF assms(1-6), of cmp "db_audit db'"] by simp
qed

lemma object_stepI:
  assumes "list_all (\<lambda>k. fresh_key k db) written" and "set deleted \<subseteq> set written"
    and "db_jobs db' = db_jobs db" and "db_releases db' = db_releases db" and "db_audit db' = db_audit db"
    and "db_written db' = db_written db @ written" and "db_deleted db' = db_deleted db @ deleted"
  shows "step cmp db db'"
proof -
  have "db' = db\<lparr>db_written := db_written db @ written, db_deleted := db_deleted db @ deleted\<rparr>"
    using assms(3-7) by simp
  then show ?thesis using object_step [OF assms(1,2), of cmp] by simp
qed

lemma keys_same: "(\<And>c. key_at c l' = key_at c l) \<Longrightarrow> keys_ok l l' [] []"
  by (simp add: keys_ok_def)

fun column_bit :: "key_column \<Rightarrow> object_set" where
  "column_bit UnsignedKey = release_unsigned"
| "column_bit SbomKey = release_sbom"
| "column_bit SignedKey = release_signed"
| "column_bit AppStoreKey = release_appstore"

lemma key_at_clear: "key_at c (clear_columns s j) = (if s AND column_bit c \<noteq> 0 then None else key_at c j)"
  by (cases c) (simp_all add: clear_columns_def Let_def no_delivery_def)

lemma all_columns: "(\<forall>c. P c) \<longleftrightarrow> P UnsignedKey \<and> P SbomKey \<and> P SignedKey \<and> P AppStoreKey"
  by (metis key_column.exhaust)

lemma ex_column: "(\<exists>c. P c) \<longleftrightarrow> P UnsignedKey \<or> P SbomKey \<or> P SignedKey \<or> P AppStoreKey"
  by (metis key_column.exhaust)

lemma pick_column: "k \<in> set (pick (job_object_keys j) s) \<Longrightarrow> \<exists>c. s AND column_bit c \<noteq> 0 \<and> key_at c j = Some k"
  unfolding ex_column by (auto simp: pick_def pick_one_def job_object_keys_def split: option.splits if_splits)

lemma keys_cleared:
  assumes "\<And>c. key_at c l' = key_at c l \<or> key_at c l' = None"
    and "\<And>c. s AND column_bit c \<noteq> 0 \<Longrightarrow> key_at c l' = None"
  shows "keys_ok l l' [] (pick (job_object_keys l) s)"
proof -
  have "\<exists>c. key_at c l = Some k \<and> key_at c l' \<noteq> Some k" if "k \<in> set (pick (job_object_keys l) s)" for k
    using pick_column [OF that] assms(2) by force
  moreover have "key_at c l = Some k" if "key_at c l' = Some k" for c k
    using assms(1) [of c] that by simp
  ultimately show ?thesis by (simp add: keys_ok_def)
qed

section \<open>Updates of one row\<close>

definition distinct_ids :: "server_db \<Rightarrow> bool" where
  "distinct_ids db \<longleftrightarrow> distinct (map bj_id (db_jobs db))"

lemma same_row: "distinct_ids db \<Longrightarrow> j \<in> set (db_jobs db) \<Longrightarrow> l \<in> set (db_jobs db) \<Longrightarrow> bj_id j = bj_id l \<Longrightarrow> j = l"
  by (auto simp: distinct_ids_def distinct_map dest: inj_onD)

lemma update_one:
  assumes "distinct_ids db" and "l \<in> set (db_jobs db)" and "bj_id (f l) = bj_id l" and "cond l"
  shows "map (\<lambda>j. if bj_id j = bj_id l \<and> cond j then f j else j) (db_jobs db) = replace_job (f l) (db_jobs db)"
  unfolding replace_job_def using assms same_row [OF assms(1) _ assms(2)] by (auto intro!: map_cong)

lemma find_job_Some: "find_job i db = Some j \<Longrightarrow> j \<in> set (db_jobs db) \<and> bj_id j = i"
  by (auto simp: find_job_def find_Some_iff)

lemma find_row: "find (\<lambda>j. bj_id j = i \<and> P j) js = Some l \<Longrightarrow> l \<in> set js \<and> bj_id l = i \<and> P l"
  by (auto simp: find_Some_iff)

lemma update_job_one:
  assumes "distinct_ids db" and "l \<in> set (db_jobs db)" and "bj_id l = i" and "bj_id (f l) = i"
  shows "update_job i f db = db\<lparr>db_jobs := replace_job (f l) (db_jobs db)\<rparr>"
  using update_one [OF assms(1,2), of f "\<lambda>_. True"] assms(3,4) by (simp add: update_job_def)

lemma update_where_cases:
  assumes "distinct_ids db" and "update_where i cond f db = (n, db')" and "\<And>j. bj_id (f j) = bj_id j"
  obtains (none) "db' = db" "n = 0" "\<forall>j\<in>set (db_jobs db). bj_id j = i \<longrightarrow> \<not> cond j"
  | (one) l where "l \<in> set (db_jobs db)" "bj_id l = i" "cond l" "db' = db\<lparr>db_jobs := replace_job (f l) (db_jobs db)\<rparr>"
      "n = 1 \<Longrightarrow> f l \<noteq> l"
proof (cases "\<exists>l\<in>set (db_jobs db). bj_id l = i \<and> cond l")
  case True
  then obtain l where l: "l \<in> set (db_jobs db)" "bj_id l = i" "cond l" by blast
  have "f l \<noteq> l" if "n = 1"
  proof
    assume "f l = l"
    then have "[j \<leftarrow> db_jobs db. bj_id j = i \<and> cond j \<and> f j \<noteq> j] = []"
      using same_row [OF assms(1) _ l(1)] l(2) by (force simp: filter_empty_conv)
    then show False using that assms(2) by (simp add: update_where_def)
  qed
  then show thesis
    using one [OF l] update_one [OF assms(1) l(1), of f cond] assms(2,3) l(2,3) by (auto simp: update_where_def)
next
  case False
  then have "map (\<lambda>j. if bj_id j = i \<and> cond j then f j else j) (db_jobs db) = db_jobs db"
    "[j \<leftarrow> db_jobs db. bj_id j = i \<and> cond j \<and> f j \<noteq> j] = []"
    by (auto intro!: map_idI simp: filter_empty_conv)
  then show thesis using none assms(2) False by (auto simp: update_where_def)
qed

lemma transition_cases:
  assumes "distinct_ids db" and "transition_build_job commits i t db = (c, db')" and "\<And>j. bj_id (jt_set t j) = bj_id j"
  obtains (none) "db' = db" "c \<noteq> Inr None \<Longrightarrow> \<not> commits" "c = Inr None \<Longrightarrow> \<forall>j\<in>set (db_jobs db). bj_id j = i \<longrightarrow> \<not> jt_where t j"
  | (one) l where "l \<in> set (db_jobs db)" "bj_id l = i" "jt_where t l" "c = Inr (Some l)"
      "db_jobs db' = replace_job (clear_columns (jt_release t) (jt_set t l)) (db_jobs db)"
      "db_releases db' = db_releases db" "db_written db' = db_written db"
      "db_deleted db' = db_deleted db @ pick (job_object_keys l) (jt_release t)"
proof (cases "find (\<lambda>j. bj_id j = i \<and> jt_where t j) (db_jobs db)")
  case None
  then have "db' = db" "c = Inr None" using assms(2) by (simp_all add: transition_build_job_def)
  moreover have "\<forall>j\<in>set (db_jobs db). bj_id j = i \<longrightarrow> \<not> jt_where t j" using None by (auto simp: find_None_iff)
  ultimately show thesis using none by simp
next
  case (Some l)
  note l = find_row [OF Some]
  show thesis
  proof (cases commits)
    case True
    then have c: "c = Inr (Some l)" and db': "db' = delete_objects (pick (job_object_keys l) (jt_release t))
        (insert_audit (jt_after t l) (update_job i (\<lambda>j. clear_columns (jt_release t) (jt_set t j)) db))"
      using assms(2) Some by (simp_all add: transition_build_job_def)
    have u: "update_job i (\<lambda>j. clear_columns (jt_release t) (jt_set t j)) db
        = db\<lparr>db_jobs := replace_job (clear_columns (jt_release t) (jt_set t l)) (db_jobs db)\<rparr>"
      using l assms(3) by (intro update_job_one [OF assms(1)]) simp_all
    show thesis by (rule one [of l]) (simp_all add: l c db' u delete_objects_def insert_audit_def)
  next
    case False
    then show thesis using none assms(2) Some by (auto simp: transition_build_job_def)
  qed
qed

text \<open>A guarded change refines one step if the guard and the assignments are a change of the row.\<close>

lemma transition_step:
  assumes "distinct_ids db" and "transition_build_job commits i t db = (c, db')"
    and change: "\<And>l. l \<in> set (db_jobs db) \<Longrightarrow> bj_id l = i \<Longrightarrow> jt_where t l \<Longrightarrow>
      \<exists>e. row_change l e (clear_columns (jt_release t) (jt_set t l))"
    and keep: "\<And>j. bj_id (jt_set t j) = bj_id j" "\<And>j. bj_release (jt_set t j) = bj_release j"
      "\<And>j c. key_at c (jt_set t j) = key_at c j" "\<And>j. \<not> active (jt_set t j)"
  shows "step cmp db db'"
  using assms(1,2) keep(1)
proof (cases rule: transition_cases)
  case (one l)
  obtain e where e: "row_change l e (clear_columns (jt_release t) (jt_set t l))" using change one(1-3) by blast
  show ?thesis
  proof (rule row_stepI)
    show "l \<in> set (db_jobs db)" by (rule one(1))
    show "row_changes l (clear_columns (jt_release t) (jt_set t l))" by (rule changes_one [OF e])
    show "keys_ok l (clear_columns (jt_release t) (jt_set t l)) [] (pick (job_object_keys l) (jt_release t))"
      by (rule keys_cleared) (auto simp: key_at_clear keep(3))
  qed (use keep(2,4) one in \<open>simp_all add: active_def\<close>)
qed simp

text \<open>The same for an UPDATE with conditions, which deletes nothing.\<close>

lemma update_where_step:
  assumes "distinct_ids db" and "update_where i cond f db = (n, db1)"
    and out: "db' = db \<or> db' = db1 \<or> n = 1 \<and> (\<exists>es. db' = insert_audit es db1)"
    and change: "\<And>l. l \<in> set (db_jobs db) \<Longrightarrow> bj_id l = i \<Longrightarrow> cond l \<Longrightarrow> \<exists>e. row_change l e (f l)"
    and keep: "\<And>j. bj_id (f j) = bj_id j" "\<And>j. bj_release (f j) = bj_release j" "\<And>j c. key_at c (f j) = key_at c j"
      "\<And>l. cond l \<Longrightarrow> active (f l) \<Longrightarrow> active l"
  shows "step cmp db db'"
  using assms(1,2) keep(1)
proof (cases rule: update_where_cases)
  case (one l)
  obtain e where e: "row_change l e (f l)" using change one(1-3) by blast
  have "step cmp db db2" if "db2 = db1 \<or> (\<exists>es. db2 = insert_audit es db1)" for db2
  proof (rule row_stepI)
    show "l \<in> set (db_jobs db)" by (rule one(1))
    show "row_changes l (f l)" by (rule changes_one [OF e])
    show "keys_ok l (f l) [] []" by (rule keys_same) (rule keep(3))
    show "active (f l) \<longrightarrow> active l \<and> bp_machine (bj_build (f l)) = bp_machine (bj_build l) \<or> machine_idle (bp_machine (bj_build (f l))) db"
      using keep(4) [OF one(3)] row_change_machine [OF e] by blast
  qed (use keep(2) one(4) that in \<open>auto simp: insert_audit_def\<close>)
  then show ?thesis using out by blast
next
  case none
  then show ?thesis using out by auto
qed

end
