(* ===== verification/BuildRefine.thy ===== *)
theory BuildRefine
  imports BuildRuns
begin

text \<open>
  Each transaction of the model is one abstract \<open>step\<close>. What a handler read before enters as a job of
  an earlier database; \<open>descends\<close> says that its row is still there, some changes later.
\<close>

definition descends :: "server_db \<Rightarrow> server_db \<Rightarrow> bool" where
  "descends p db \<longleftrightarrow> (\<forall>j\<in>set (db_jobs p). \<exists>k\<in>set (db_jobs db). row_changes j k)"

lemma descends_row:
  assumes "distinct_ids db" and "descends p db" and "job \<in> set (db_jobs p)" and "l \<in> set (db_jobs db)" and "bj_id l = bj_id job"
  shows "row_changes job l"
proof -
  obtain k where k: "k \<in> set (db_jobs db)" "row_changes job k" using assms(2,3) by (auto simp: descends_def)
  then have "bj_id k = bj_id l" using changes_identity [OF k(2)] assms(5) by (simp add: identity_of_def)
  then show ?thesis using same_row [OF assms(1) k(1) assms(4)] k(2) by simp
qed

lemma contains_active [simp]: "contains builder_active s \<longleftrightarrow> s = JobClaimed \<or> s = JobRunning"
  by auto

section \<open>Queueing\<close>

lemma insert_job_step:
  assumes "insert_job commits j created_by db = Inserted db'" and "bj_status j = JobQueued" and "row_ok j"
    and "\<And>c. key_at c j = None"
  shows "step cmp db db'"
proof -
  have "bj_id j \<notin> bj_id ` set (db_jobs db)" "\<forall>x\<in>set (db_jobs db). \<not> index_clash x j"
    and "db' = db\<lparr>db_jobs := db_jobs db @ [j], db_audit := db_audit db'\<rparr>"
    using assms(1) by (auto simp: insert_job_def list_ex_iff insert_audit_def split: if_splits)
  then show ?thesis using insert_step [of j db cmp "db_audit db'"] assms(2-4) by simp
qed

lemma new_job_keys [simp]: "key_at c (new_job i tenant platform kind delivery version n reason created_by now) = None"
  by (cases c) (simp_all add: new_job_def new_build_part_def new_sign_part_def no_delivery_def)

lemma key_at_more: "key_at c (j\<lparr>bj_base_release := x, bj_channel := y, bj_apply := z\<rparr>) = key_at c j"
  by (cases c) simp_all

lemma new_job_status [simp]: "bj_status (new_job i tenant platform kind delivery version n reason created_by now) = JobQueued"
  by (simp add: new_job_def)

lemma queue_job_step: "queue_job commits i tenant created_by b delivery now db = (a, db') \<Longrightarrow> step cmp db db'"
  unfolding queue_job_def Let_def
  by (auto split: insert_outcome.splits intro: insert_job_step new_job_ok)

lemma row_ok_more [simp]:
  "row_ok (j\<lparr>bj_base_release := x, bj_channel := y, bj_apply := z\<rparr>) = row_ok j"
  by (simp add: row_ok_def row_ok_parts active_def log_ok_def signable_def provenance_ok_def past_build_def)

lemma queue_ota_job_step: "queue_ota_job commits i tenant created_by v b base now db = (a, db') \<Longrightarrow> step cmp db db'"
  unfolding queue_ota_job_def Let_def
  by (auto split: insert_outcome.splits prod.splits intro!: insert_job_step simp: new_job_ok key_at_more)

section \<open>Claiming\<close>

lemma first_by_in: "first_by key xs = Some x \<Longrightarrow> x \<in> set xs"
  by (induction xs arbitrary: x) (auto split: option.splits if_splits)

lemma first_by_None: "first_by key xs = None \<longleftrightarrow> xs = []"
  by (cases xs) (auto split: option.splits)

lemma claim_keys [simp]: "key_at c (claim_set m now j) = (if c = SignedKey then sp_key (bj_sign j) else None)"
  by (cases c) (simp_all add: claim_set_def no_delivery_def)

lemma claim_failed_changes:
  assumes "bj_status l = JobQueued"
  shows "row_changes l (fail_claimed reason now (claim_set m now l))"
proof -
  have "(fail_claimed reason now j)\<lparr>bj_heartbeat_at := bj_heartbeat_at j\<rparr> = fail_claimed reason now j" for j
    by (simp add: fail_claimed_def)
  then have "row_change (claim_set m now l) DispatchFail (fail_claimed reason now (claim_set m now l))"
    using dispatch_fail [of "claim_set m now l" "bj_heartbeat_at (claim_set m now l)" now reason]
    by (simp only:) (simp add: claim_set_def)
  then show ?thesis by (rule changes_step [OF changes_one [OF row_change.claim [OF assms]]])
qed

lemma claim_failed_step:
  assumes "distinct_ids db" and "l \<in> set (db_jobs db)" and "bj_status l = JobQueued"
  shows "step cmp db (update_job (bj_id l) (fail_claimed reason now \<circ> claim_set m now) db)"
proof (rule row_stepI [where written = "[]" and deleted = "[]"])
  show "row_changes l ((fail_claimed reason now \<circ> claim_set m now) l)"
    by (simp add: claim_failed_changes assms(3))
  show "keys_ok l ((fail_claimed reason now \<circ> claim_set m now) l) [] []"
    by (auto simp: keys_ok_def all_columns fail_claimed_def claim_set_def no_delivery_def)
  show "db_jobs (update_job (bj_id l) (fail_claimed reason now \<circ> claim_set m now) db)
      = replace_job ((fail_claimed reason now \<circ> claim_set m now) l) (db_jobs db)"
    using update_job_one [OF assms(1,2) refl, of "fail_claimed reason now \<circ> claim_set m now"]
    by (simp add: fail_claimed_def claim_set_def)
qed (simp_all add: assms update_job_def fail_claimed_def claim_set_def active_def)

lemma claim_transaction_step:
  assumes "distinct_ids db" and "claim_transaction T m q locked now commits db = (c, db')"
  shows "step cmp db db'"
proof (cases "first_by bj_claimed_at
    [j \<leftarrow> db_jobs db. bp_machine (bj_build j) = Some (mc_id m) \<and> contains builder_active (bj_status j)]")
  case (Some a)
  then show ?thesis using assms(2) by (simp add: claim_transaction_def)
next
  case None
  then have idle: "machine_idle (Some (mc_id m)) db"
    by (auto simp: first_by_None filter_empty_conv machine_idle_def active_def)
  show ?thesis
  proof (cases "first_by bj_created_at [j \<leftarrow> db_jobs db. claimable T m q db j \<and> \<not> locked j]")
    case None
    then show ?thesis using assms(2) \<open>first_by bj_claimed_at _ = None\<close> by (simp add: claim_transaction_def)
  next
    case (Some l)
    then have l: "l \<in> set (db_jobs db)" "bj_status l = JobQueued"
      using first_by_in [OF Some] by (simp_all add: claimable_def)
    have "step cmp db (delete_objects (pick (job_object_keys l) release_build_delivery) (update_job (bj_id l) (claim_set m now) db))"
    proof (rule row_stepI [OF l(1) changes_one [OF row_change.claim [OF l(2), of m now]], where written = "[]"])
      show "keys_ok l (claim_set m now l) [] (pick (job_object_keys l) release_build_delivery)"
        by (rule keys_cleared; case_tac c) simp_all
      show "db_jobs (delete_objects (pick (job_object_keys l) release_build_delivery) (update_job (bj_id l) (claim_set m now) db))
          = replace_job (claim_set m now l) (db_jobs db)"
        using update_job_one [OF assms(1) l(1) refl, of "claim_set m now"]
        by (simp add: delete_objects_def claim_set_def)
    qed (use idle in \<open>simp_all add: delete_objects_def update_job_def claim_set_def\<close>)
    then show ?thesis
      using assms(2) Some \<open>first_by bj_claimed_at _ = None\<close> claim_failed_step [OF assms(1) l]
      by (auto simp: claim_transaction_def split: if_splits)
  qed
qed

lemma claim_build_job_step:
  "distinct_ids db \<Longrightarrow> claim_build_job T m body lock_free locked now commits db = (c, db') \<Longrightarrow> step cmp db db'"
  by (auto simp: claim_build_job_def split: option.splits if_splits intro: claim_transaction_step)

lemma mark_failed_step:
  assumes "distinct_ids db" and "mark_build_job_failed reason now job commits db = db'"
  shows "step cmp db db'"
proof (cases commits)
  case True
  obtain n d where u: "update_where (bj_id job)
      (\<lambda>j. contains dispatch_failure (bj_status j) \<and> attempt_of j = attempt_of job
           \<and> bp_machine (bj_build j) = Some (null_string (bp_machine (bj_build job))))
      (\<lambda>j. (fail_claimed (Undispatchable (clip_runes reason 500)) now j)\<lparr>bj_heartbeat_at := Some now\<rparr>) db = (n, d)"
    by fastforce
  have "d = db'" using assms(2) True u by (simp add: mark_build_job_failed_def)
  show ?thesis unfolding \<open>d = db'\<close> [symmetric]
  proof (rule update_where_step [OF assms(1) u disjI2 [OF disjI1 [OF refl]]])
    fix l assume "contains dispatch_failure (bj_status l) \<and> attempt_of l = attempt_of job
           \<and> bp_machine (bj_build l) = Some (null_string (bp_machine (bj_build job)))"
    then show "\<exists>e. row_change l e ((fail_claimed (Undispatchable (clip_runes reason 500)) now l)\<lparr>bj_heartbeat_at := Some now\<rparr>)"
      by (auto intro!: exI dispatch_fail)
  next
    fix j :: build_job and c
    show "key_at c ((fail_claimed (Undispatchable (clip_runes reason 500)) now j)\<lparr>bj_heartbeat_at := Some now\<rparr>) = key_at c j"
      by (cases c) (simp_all add: fail_claimed_def)
  qed (simp_all add: fail_claimed_def active_def)
qed (use assms(2) in \<open>simp add: mark_build_job_failed_def\<close>)


section \<open>What the assignments keep\<close>

lemma key_at_cong: "bj_build j = bj_build k \<Longrightarrow> sp_key (bj_sign j) = sp_key (bj_sign k) \<Longrightarrow> key_at c j = key_at c k"
  by (cases c) simp_all

lemma sets_keep_keys [simp]:
  "key_at c (requeue_set now j) = key_at c j" "key_at c (fail_set reason commit tail now j) = key_at c j"
  "key_at c (reap_fail_set why now j) = key_at c j" "key_at c (complete_ota_set commit digest release tail now j) = key_at c j"
  "key_at c (cancel_set reason now j) = key_at c j" "key_at c (force_fail_set reason now j) = key_at c j"
  "key_at c (deferred_set r now j) = key_at c j" "key_at c (rejected_set r failed n now j) = key_at c j"
  "key_at c (sign_timeout_set now item failed j) = key_at c j" "key_at c (sign_heartbeat_set now j) = key_at c j"
  "key_at c (ios_set commit digest release tail now j) = key_at c j" "key_at c (signed_set release sha now j) = key_at c j"
  by (rule key_at_cong; simp add: row_sets)+

lemma built_set_keys [simp]: "key_at c (built_set m b commit native now j) = key_at c j"
  by (cases c) (simp_all add: built_set_def)

lemma sets_keep_row [simp]:
  "bj_id (requeue_set now j) = bj_id j" "bj_id (fail_set reason commit tail now j) = bj_id j"
  "bj_id (reap_fail_set why now j) = bj_id j" "bj_id (complete_ota_set commit digest release tail now j) = bj_id j"
  "bj_id (cancel_set reason now j) = bj_id j" "bj_id (force_fail_set reason now j) = bj_id j"
  "bj_id (deferred_set r now j) = bj_id j" "bj_id (rejected_set r failed n now j) = bj_id j"
  "bj_id (sign_timeout_set now item failed j) = bj_id j" "bj_id (sign_heartbeat_set now j) = bj_id j"
  "bj_id (built_set m b commit native now j) = bj_id j" "bj_id (ios_set commit digest release tail now j) = bj_id j"
  "bj_id (signed_set release sha now j) = bj_id j" "bj_id (set_delivered what key sz sha now j) = bj_id j"
  "bj_id (sign_claim_set m now j) = bj_id j" "bj_id (overtaken_set latest item now j) = bj_id j"
  "bj_release (requeue_set now j) = bj_release j" "bj_release (fail_set reason commit tail now j) = bj_release j"
  "bj_release (reap_fail_set why now j) = bj_release j" "bj_release (complete_ota_set commit digest release tail now j) = bj_release j"
  "bj_release (cancel_set reason now j) = bj_release j" "bj_release (force_fail_set reason now j) = bj_release j"
  "bj_release (deferred_set r now j) = bj_release j" "bj_release (rejected_set r failed n now j) = bj_release j"
  "bj_release (sign_timeout_set now item failed j) = bj_release j" "bj_release (sign_heartbeat_set now j) = bj_release j"
  "bj_release (built_set m b commit native now j) = bj_release j" "bj_release (set_delivered what key sz sha now j) = bj_release j"
  "bj_release (sign_claim_set m now j) = bj_release j" "bj_release (overtaken_set latest item now j) = bj_release j"
  by (simp_all add: row_sets)

lemma sets_status [simp]:
  "\<not> active (requeue_set now j)" "\<not> active (fail_set reason commit tail now j)" "\<not> active (reap_fail_set why now j)"
  "\<not> active (complete_ota_set commit digest release tail now j)" "\<not> active (cancel_set reason now j)"
  "\<not> active (force_fail_set reason now j)" "\<not> active (deferred_set r now j)" "\<not> active (rejected_set r failed n now j)"
  "\<not> active (sign_timeout_set now item failed j)" "\<not> active (built_set m b commit native now j)"
  "\<not> active (sign_claim_set m now j)" "\<not> active (overtaken_set latest item now j)"
  "active (set_delivered what key sz sha now j) = active j" "active (sign_heartbeat_set now j) = active j"
  by (simp_all add: row_sets active_def)

section \<open>Reports of a builder\<close>

lemma builder_guard_active: "builder_guard attempt m j \<Longrightarrow> active j"
  by (simp add: builder_guard_def active_def)

lemma heartbeat_step:
  assumes "distinct_ids db" and "build_job_heartbeat m header lines now i commits db = (a, db')"
  shows "step cmp db db'"
proof (cases "attempt_from_header header = None \<or> lines = None \<or> \<not> commits")
  case True
  then show ?thesis using assms(2) by (auto simp: build_job_heartbeat_def split: option.splits)
next
  case False
  then obtain attempt tail where v: "attempt_from_header header = Some attempt" "lines = Some tail" "commits" by auto
  let ?f = "\<lambda>j. j\<lparr>bj_status := JobRunning, bj_heartbeat_at := Some now, bj_log_tail := clamp_log_tail tail, bj_updated_at := now\<rparr>"
  obtain n d where u: "update_where i (builder_guard attempt m) ?f db = (n, d)" by fastforce
  then have d: "db' = d" using assms(2) v by (auto simp: build_job_heartbeat_def split: if_splits)
  show ?thesis unfolding d
  proof (rule update_where_step [OF assms(1) u disjI2 [OF disjI1 [OF refl]]])
    fix l assume "builder_guard attempt m l"
    then show "\<exists>e. row_change l e (?f l)" using row_change.heartbeat [OF builder_guard_active] by blast
  next
    fix j :: build_job and c show "key_at c (?f j) = key_at c j" by (cases c) simp_all
  qed (simp_all add: builder_guard_active)
qed

lemma requeue_orphaned_step:
  assumes "distinct_ids db" and "requeue_orphaned m attempt now i commits db = (r, db')"
  shows "step cmp db db'" and "r = None \<Longrightarrow> db' = db"
proof -
  obtain c d where t: "transition_build_job commits i
      \<lparr>jt_where = (\<lambda>j. builder_guard attempt m j \<and> bj_kind j = KindApk \<and> attempt_of j < max_build_attempts),
       jt_set = requeue_set now, jt_release = release_build_delivery, jt_after = (\<lambda>_. [])\<rparr> db = (c, d)"
    by fastforce
  then have d: "db' = d" "r = None \<Longrightarrow> c = Inr None"
    using assms(2) by (auto simp: requeue_orphaned_def split: sum.splits option.splits)
  show "step cmp db db'" unfolding d
    by (rule transition_step [OF assms(1) t])
      (auto intro!: exI [of _ ReapBuild] row_change.requeue dest: builder_guard_active)
  show "db' = db" if "r = None"
    using t d that by (auto simp: transition_build_job_def split: option.splits if_splits)
qed

lemma fail_step:
  assumes "distinct_ids db" and "fail_build_job m header report now i requeue_commits commits db = (a, db')"
  shows "step cmp db db'"
proof -
  have last: "step cmp db d" if t: "transition_build_job commits i
      \<lparr>jt_where = builder_guard attempt m, jt_set = fail_set reason commit tail now,
       jt_release = release_build_delivery, jt_after = (\<lambda>_. [])\<rparr> db = (c, d)" for attempt reason commit tail c d
    by (rule transition_step [OF assms(1) t])
      (auto intro!: exI [of _ BuilderFail] row_change.fail dest: builder_guard_active)
  have last2: "step cmp db d" if "requeue_orphaned m attempt now i requeue_commits db = (None, d0)"
    and "transition_build_job commits i \<lparr>jt_where = builder_guard attempt m, jt_set = fail_set reason commit tail now,
       jt_release = release_build_delivery, jt_after = (\<lambda>_. [])\<rparr> d0 = (c, d)" for attempt reason commit tail c d d0
    using requeue_orphaned_step(2) [OF assms(1) that(1) refl] that(2) last by simp
  show ?thesis
    using assms(2)
    by (auto simp: fail_build_job_def Let_def split: option.splits if_splits prod.splits sum.splits
        intro: last last2 requeue_orphaned_step(1) [OF assms(1)])
qed

lemma ota_step:
  assumes "distinct_ids db" and "complete_ota m result now job commits db = (a, db')"
  shows "step cmp db db'"
proof (cases "complete_ota_checked result job")
  case (Inr v)
  obtain commit digest where v: "v = (commit, digest)" by (cases v)
  show ?thesis
  proof (cases "\<not> commits \<or> result = None")
    case True
    then show ?thesis using assms(2) Inr by (auto simp: complete_ota_def v split: if_splits)
  next
    case False
    then obtain b where b: "result = Some b" "commits" by auto
    let ?f = "complete_ota_set commit digest (or_release b) (or_log_tail b) now"
    obtain n d where u: "update_where (bj_id job)
        (\<lambda>j. bj_kind j = KindOta \<and> contains (event_from BuilderComplete (Some KindOta)) (bj_status j)
           \<and> attempt_of j = attempt_of job \<and> bp_machine (bj_build j) = Some (mc_id m)) ?f db = (n, d)" by fastforce
    then have d: "db' = d" using assms(2) b Inr by (auto simp: complete_ota_def v split: if_splits)
    show ?thesis unfolding d
    proof (rule update_where_step [OF assms(1) u disjI2 [OF disjI1 [OF refl]]])
      fix l assume "bj_kind l = KindOta \<and> contains (event_from BuilderComplete (Some KindOta)) (bj_status l)
           \<and> attempt_of l = attempt_of job \<and> bp_machine (bj_build l) = Some (mc_id m)"
      then show "\<exists>e. row_change l e (?f l)"
        by (intro exI [of _ BuilderComplete] row_change.ota) (auto simp: active_def)
    qed simp_all
  qed
qed (use assms(2) in \<open>simp add: complete_ota_def\<close>)

section \<open>Deliveries\<close>

fun delivery_column :: "delivery \<Rightarrow> key_column" where
  "delivery_column DeliverUnsigned = UnsignedKey"
| "delivery_column DeliverSbom = SbomKey"
| "delivery_column DeliverIpa = UnsignedKey"
| "delivery_column DeliverAppStoreInfo = AppStoreKey"

lemma delivered_key: "dc_key (delivered_columns what j) = key_at (delivery_column what) j"
  by (cases what) simp_all

lemma key_at_delivered: "key_at c (set_delivered what key sz sha now j) = (if c = delivery_column what then Some key else key_at c j)"
  by (cases what; cases c) (simp_all add: set_delivered_def)

lemma keys_replaced:
  assumes "\<And>c'. key_at c' l' = (if c' = c then Some key else key_at c' l)" and "\<And>c. key_at c l \<noteq> Some key"
  shows "keys_ok l l' [key] (case key_at c l of None \<Rightarrow> [] | Some old \<Rightarrow> if old = [] \<or> old = key then [] else [old])"
proof -
  have "key_at c' l = Some k \<or> [key] = [k] \<and> (\<forall>c''. key_at c'' l' = Some k \<longrightarrow> c'' = c')" if "key_at c' l' = Some k" for c' k
    using that assms by (auto split: if_splits)
  moreover have "\<exists>c. key_at c l = Some k \<and> key_at c l' \<noteq> Some k"
    if "k \<in> set (case key_at c l of None \<Rightarrow> [] | Some old \<Rightarrow> if old = [] \<or> old = key then [] else [old])" for k
    using that assms(1) [of c] by (intro exI [of _ c]) (auto split: option.splits if_splits)
  ultimately show ?thesis by (simp add: keys_ok_def)
qed

text \<open>A stored object that the row takes, or that is deleted again.\<close>

lemma record_delivered_step:
  assumes "distinct_ids db" and keys: "\<forall>j\<in>set (db_jobs db). \<forall>c. key_at c j \<noteq> Some key" and "fresh_key key db"
    and r: "record_delivered_object commits i cond (key_at c) f (db\<lparr>db_written := db_written db @ [key]\<rparr>) = (res, d)"
    and db': "db' = (case res of Inl _ \<Rightarrow> d | Inr None \<Rightarrow> delete_objects [key] d
                    | Inr (Some replaced) \<Rightarrow> delete_replaced_object replaced key d)"
    and change: "\<And>l. bj_id l = i \<Longrightarrow> cond l \<Longrightarrow> \<exists>e. row_change l e (f l)"
    and keep: "\<And>j. bj_id (f j) = bj_id j" "\<And>j. bj_release (f j) = bj_release j" "\<And>l. active (f l) \<Longrightarrow> active l"
      "\<And>j c'. key_at c' (f j) = (if c' = c then Some key else key_at c' j)"
  shows "step cmp db db'"
proof (cases "find (\<lambda>j. bj_id j = i \<and> cond j) (db_jobs db)")
  case None
  then have "db' = delete_objects [key] (db\<lparr>db_written := db_written db @ [key]\<rparr>)"
    using r db' by (auto simp: record_delivered_object_def)
  then show ?thesis using assms(3) by (intro object_stepI [where written = "[key]" and deleted = "[key]"]) (simp_all add: delete_objects_def)
next
  case (Some l)
  note l = find_row [OF Some]
  show ?thesis
  proof (cases commits)
    case False
    then have "db' = db\<lparr>db_written := db_written db @ [key]\<rparr>"
      using r db' Some by (auto simp: record_delivered_object_def)
    then show ?thesis using assms(3) by (intro object_stepI [where written = "[key]" and deleted = "[]"]) simp_all
  next
    case True
    let ?del = "case key_at c l of None \<Rightarrow> [] | Some old \<Rightarrow> if old = [] \<or> old = key then [] else [old]"
    have u: "update_job i f (db\<lparr>db_written := db_written db @ [key]\<rparr>)
        = db\<lparr>db_written := db_written db @ [key], db_jobs := replace_job (f l) (db_jobs db)\<rparr>"
      using update_job_one [of "db\<lparr>db_written := db_written db @ [key]\<rparr>" l i f] assms(1) l keep(1) by (simp add: distinct_ids_def)
    have d: "db' = delete_replaced_object (key_at c l) key (update_job i f (db\<lparr>db_written := db_written db @ [key]\<rparr>))"
      using r db' Some True by (auto simp: record_delivered_object_def)
    obtain e where e: "row_change l e (f l)" using change l by blast
    show ?thesis
    proof (rule row_stepI [where written = "[key]" and deleted = ?del])
      show "l \<in> set (db_jobs db)" using l by simp
      show "row_changes l (f l)" by (rule changes_one [OF e])
      show "keys_ok l (f l) [key] ?del" using keep(4) keys l by (intro keys_replaced) blast+
      show "list_all (\<lambda>k. fresh_key k db) [key]" using assms(3) by simp
      show "active (f l) \<longrightarrow> active l \<and> bp_machine (bj_build (f l)) = bp_machine (bj_build l) \<or> machine_idle (bp_machine (bj_build (f l))) db"
        using keep(3) row_change_machine [OF e] by blast
    qed (use keep(2) in \<open>auto simp: d u delete_replaced_object_def delete_objects_def split: option.splits\<close>)
  qed
qed

lemma delivery_step:
  assumes "distinct_ids db" and "\<forall>j\<in>set (db_jobs db). \<forall>c. key_at c j \<noteq> Some key" and "fresh_key key db"
    and "receive_delivery m what key received sbom_ok now job commits db = (a, db')"
  shows "step cmp db db'"
proof (cases received)
  case (Inr v)
  obtain sz sha where v: "v = (sz, sha)" by (cases v)
  show ?thesis
  proof (cases "what = DeliverSbom \<and> \<not> sbom_ok")
    case True
    then have "db' = delete_objects [key] (db\<lparr>db_written := db_written db @ [key]\<rparr>)"
      using assms(4) Inr by (simp add: receive_delivery_def v)
    then show ?thesis using assms(3)
      by (intro object_stepI [where written = "[key]" and deleted = "[key]"]) (simp_all add: delete_objects_def)
  next
    case False
    obtain res d where r: "record_delivered_object commits (bj_id job) (delivery_guard m what job)
        (key_at (delivery_column what)) (set_delivered what key sz sha now) (db\<lparr>db_written := db_written db @ [key]\<rparr>) = (res, d)"
      by fastforce
    show ?thesis
    proof (rule record_delivered_step [OF assms(1-3) r])
      show "db' = (case res of Inl _ \<Rightarrow> d | Inr None \<Rightarrow> delete_objects [key] d
          | Inr (Some replaced) \<Rightarrow> delete_replaced_object replaced key d)"
        using assms(4) False Inr r by (auto simp: receive_delivery_def v delivered_key Let_def split: sum.splits option.splits)
      fix l assume "delivery_guard m what job l"
      then show "\<exists>e. row_change l e (set_delivered what key sz sha now l)"
        by (auto simp: delivery_guard_def active_def intro!: exI row_change.upload)
    qed (simp_all add: key_at_delivered)
  qed
qed (use assms(4) in \<open>simp add: receive_delivery_def\<close>)


section \<open>Results of a build\<close>

lemma statement_validate_None:
  "statement_validate s = None \<Longrightarrow>
     valid_version_name (st_version_name s) \<and> 1 \<le> st_version_code s \<and> st_version_code s \<le> max_version_code
     \<and> fingerprint_valid (st_unsigned_sha256 s) \<and> 1 \<le> st_unsigned_size s \<and> fingerprint_valid (st_sbom_sha256 s)
     \<and> valid_server_id (st_builder_id s)"
  by (simp add: statement_validate_def max_version_code_def split: if_splits)

lemma envelope_verified:
  assumes "provenance_verify K dec e pub = Inr s"
  shows "env_statement e \<noteq> []" and "length (env_statement e) \<le> b64_encoded_len max_statement_size" and "env_signature e \<noteq> []"
proof -
  show "length (env_statement e) \<le> b64_encoded_len max_statement_size"
    using assms by (auto simp: provenance_verify_def split: if_splits)
  obtain raw sig where r: "b64_decode (env_statement e) = Some raw" "b64_decode (env_signature e) = Some sig" "raw \<noteq> []"
      "length sig = ed_signature_size"
    using assms by (auto simp: provenance_verify_def split: if_splits option.splits)
  have "b64_decode [] = Some []" by (simp add: b64_decode_def)
  with r show "env_statement e \<noteq> []" "env_signature e \<noteq> []" by (auto simp: ed_sizes)
qed

lemma built_checked_facts:
  assumes c: "built_checked K dec m (Some b) slug package job = Inr (commit, native)" and id: "identity_of l = identity_of job"
    and w: "bp_machine (bj_build l) = Some (mc_id m)"
      "dc_sha256 (bp_unsigned (bj_build l)) = Some (null_string (dc_sha256 (bp_unsigned (bj_build job))))"
      "dc_size (bp_unsigned (bj_build l)) = dc_size (bp_unsigned (bj_build job))"
      "dc_sha256 (bp_sbom (bj_build l)) = Some (null_string (dc_sha256 (bp_sbom (bj_build job))))"
  shows "built_facts commit native m b l"
proof -
  obtain pub s t pk where v: "provenance_verify K dec (bt_provenance b) pub = Inr s"
      and sm: "statement_matches s job m t pk commit native"
      and cn: "valid_commit commit" "valid_native_fingerprint native" and pl: "bj_platform job = platform_android"
    using c by (auto simp: built_checked_def Let_def split: if_splits option.splits sum.splits)
  have "statement_validate s = None" using v by (rule provenance_verify_Inr)
  note f = statement_validate_None [OF this] and e = envelope_verified [OF v]
  have sz: "dc_size (bp_unsigned (bj_build job)) = Some (st_unsigned_size s)"
    using sm by (simp add: statement_matches_def)
  have l: "bj_platform l = bj_platform job" "bj_version l = bj_version job" "bj_number l = bj_number job"
    using id by (simp_all add: identity_of_def)
  show ?thesis
    unfolding built_facts_def using f e sm cn pl l w sz by (auto simp: statement_matches_def)
qed

lemma built_step:
  assumes "distinct_ids db" and desc: "\<And>l. l \<in> set (db_jobs db) \<Longrightarrow> bj_id l = bj_id job \<Longrightarrow> row_changes job l"
    and "built_checked K dec m (Some b) slug package job = Inr (commit, native)"
    and "mark_built m b commit native now job commits db = (a, db')"
  shows "step cmp db db'"
proof (cases commits)
  case True
  let ?cond = "\<lambda>j. bj_kind j = KindApk \<and> contains (event_from BuilderBuilt (Some KindApk)) (bj_status j)
      \<and> attempt_of j = attempt_of job \<and> bp_machine (bj_build j) = Some (mc_id m)
      \<and> dc_sha256 (bp_unsigned (bj_build j)) = Some (null_string (dc_sha256 (bp_unsigned (bj_build job))))
      \<and> dc_size (bp_unsigned (bj_build j)) = dc_size (bp_unsigned (bj_build job))
      \<and> dc_sha256 (bp_sbom (bj_build j)) = Some (null_string (dc_sha256 (bp_sbom (bj_build job))))"
  obtain n d where u: "update_where (bj_id job) ?cond (built_set m b commit native now) db = (n, d)" by fastforce
  have out: "db' = db \<or> db' = d \<or> n = 1 \<and> (\<exists>es. db' = insert_audit es d)"
    using assms(4) True u by (auto simp: mark_built_def split: if_splits)
  show ?thesis
  proof (rule update_where_step [OF assms(1) u out])
    fix l assume l: "l \<in> set (db_jobs db)" "bj_id l = bj_id job" "?cond l"
    have "built_facts commit native m b l"
      using built_checked_facts [OF assms(3) changes_identity [OF desc [OF l(1,2)]]] l(3) by blast
    then show "\<exists>e. row_change l e (built_set m b commit native now l)"
      using l(3) by (intro exI [of _ BuilderBuilt] row_change.built) (auto simp: active_def)
  qed simp_all
qed (use assms(4) in \<open>simp add: mark_built_def\<close>)

section \<open>Recording a release\<close>

lemma insert_release_Inr:
  "insert_release cmp r actor db = Inr d \<longleftrightarrow>
     increased_by cmp (latest_release_for (ar_tenant r) (ar_platform r) db) (null_string (ar_version r)) (ar_number r)
     \<and> d = insert_audit [release_audit r actor] (db\<lparr>db_releases := db_releases db @ [r]\<rparr>)"
  by (auto simp: insert_release_def)

lemma with_sequence_cases:
  assumes "with_release_sequence outcome code f db = (a, db')"
  obtains "db' = db" | "f db = Inr (a, db')"
  using assms by (auto simp: with_release_sequence_def split: sequence_outcome.splits sum.splits prod.splits)

lemma release_stepI:
  assumes "l \<in> set (db_jobs db)" "row_changes l l'" "bj_release l' = Some (ar_id r)" "bj_release l = None"
    "bj_status l' = JobSucceeded" "\<forall>c. key_at c l' = key_at c l"
    "ar_job r = Some (bj_id l)" "ar_tenant r = bj_tenant l" "ar_platform r = bj_platform l"
    "ar_version r = Some (bj_version l)" "ar_number r = bj_number l" "fresh_release (ar_id r) db"
    "if bj_platform l = platform_android
     then ar_object_key r \<noteq> [] \<and> sp_key (bj_sign l) = Some (ar_object_key r) \<and> ar_sha256 r = bj_artifact l' \<and>
       ar_unsigned_sha256 r = dc_sha256 (bp_unsigned (bj_build l')) \<and> ar_native r = bp_native (bj_build l') \<and>
       ar_builder r = bp_machine (bj_build l') \<and> ar_signer r = sp_machine (bj_sign l')
     else ar_object_key r = []"
    "increased_by cmp (latest_release_for (ar_tenant r) (ar_platform r) db) (null_string (ar_version r)) (ar_number r)"
    "db_jobs db' = replace_job l' (db_jobs db)" "db_releases db' = db_releases db @ [r]"
    "db_written db' = db_written db" "db_deleted db' = db_deleted db"
  shows "step cmp db db'"
proof -
  have "db' = db\<lparr>db_jobs := replace_job l' (db_jobs db), db_releases := db_releases db @ [r], db_audit := db_audit db'\<rparr>"
    using assms(15-18) by simp
  then show ?thesis using release_step [OF assms(1-14), of "db_audit db'"] by simp
qed

lemma manual_step_refines:
  assumes "ar_job r = None" "fresh_release (ar_id r) db" "ar_object_key r \<notin> set (db_written db)"
    and "manual_release cmp r actor gate outcome db = (a, db')"
  shows "step cmp db db'"
proof -
  have "step cmp db d" if "manual_release_transaction cmp r actor gate db = Inr (x, d)" for x d
  proof -
    have d: "insert_release cmp r actor db = Inr d"
      using that by (auto simp: manual_release_transaction_def result_simps split: if_splits)
    then have "d = db\<lparr>db_releases := db_releases db @ [r], db_audit := db_audit d\<rparr>"
      by (simp add: insert_release_Inr insert_audit_def)
    then show ?thesis
      using manual_step [OF assms(1-3), of cmp "db_audit d"] d by (simp add: insert_release_Inr)
  qed
  then show ?thesis
    using assms(4) unfolding manual_release_def by (elim with_sequence_cases) auto
qed


lemma ios_checked_kind: "ios_checked (Some r) bundle job = Inr v \<Longrightarrow> bj_kind job = KindApk \<and> bj_platform job = platform_ios"
  by (auto simp: ios_checked_def split: if_splits)

lemma ios_step:
  assumes "distinct_ids db" and ok: "\<And>l. l \<in> set (db_jobs db) \<Longrightarrow> row_ok l"
    and desc: "\<And>l. l \<in> set (db_jobs db) \<Longrightarrow> bj_id l = bj_id job \<Longrightarrow> row_changes job l"
    and "ios_checked (Some r) bundle job = Inr (commit, digest)" and "fresh_release release_id db"
    and "complete_ios cmp m r commit digest release_id now job outcome db = (a, db')"
  shows "step cmp db db'"
proof -
  let ?r = "ios_release m job release_id" and ?f = "ios_set commit digest release_id (ir_log_tail r) now"
  have "step cmp db d" if t: "ios_transaction cmp m r commit digest release_id now job db = Inr (x, d)" for x d
  proof (cases "d = db")
    case False
    then obtain l where l: "find_job (bj_id job) db = Some l" and al: "transition_allowed BuilderIosRelease KindApk (bj_status l)"
      using t by (auto simp: ios_transaction_def Let_def split: option.splits if_splits)
    obtain d1 where i: "insert_release cmp ?r ''system-build'' db = Inr d1"
      using t False l by (auto simp: ios_transaction_def Let_def split: if_splits sum.splits)
    then have d1: "db_jobs d1 = db_jobs db" "distinct_ids d1" "db_releases d1 = db_releases db @ [?r]"
        "db_written d1 = db_written db" "db_deleted d1 = db_deleted db"
      using assms(1) by (simp_all add: insert_release_Inr insert_audit_def distinct_ids_def)
    obtain n d2 where u: "update_where (bj_id job)
        (\<lambda>j. attempt_of j = attempt_of job \<and> bp_machine (bj_build j) = Some (mc_id m)) ?f d1 = (n, d2)" by fastforce
    have n: "n = 1" and d: "db_jobs d = db_jobs d2" "db_releases d = db_releases d2" "db_written d = db_written d2" "db_deleted d = db_deleted d2"
      using t False l i u by (auto simp: ios_transaction_def Let_def insert_audit_def split: if_splits)
    have l': "l \<in> set (db_jobs db)" "bj_id l = bj_id job" using find_job_Some [OF l] by simp_all
    have fid: "bj_id (?f j) = bj_id j" for j by simp
    from d1(2) u fid obtain k where k: "k \<in> set (db_jobs d1)" "bj_id k = bj_id job"
        "d2 = d1\<lparr>db_jobs := replace_job (?f k) (db_jobs d1)\<rparr>"
      by (rule update_where_cases) (use n in auto)
    have "k = l" using same_row [OF assms(1), of k l] k(1,2) l' d1(1) by simp
    note k = k [unfolded this]
    have id: "identity_of l = identity_of job" using changes_identity [OF desc [OF l']] .
    have kind: "bj_kind l = KindApk" "bj_platform l = platform_ios" using ios_checked_kind [OF assms(4)] id by (simp_all add: identity_of_def)
    have act: "active l" using al by (simp add: active_def)
    show ?thesis
    proof (rule release_stepI [where r = ?r and l' = "?f l"])
      show "row_changes l (?f l)" by (rule changes_one [OF row_change.ios [OF act kind]])
      show "bj_release l = None" using unreleased [OF ok [OF l'(1)]] act by (auto simp: active_def)
      show "increased_by cmp (latest_release_for (ar_tenant ?r) (ar_platform ?r) db) (null_string (ar_version ?r)) (ar_number ?r)"
        using i by (simp add: insert_release_Inr)
    qed (use l' id kind assms(5) d d1 k in \<open>simp_all add: ios_release_def identity_of_def, simp_all add: ios_set_def\<close>)
  qed simp
  then show ?thesis
    using assms(6) unfolding complete_ios_def by (elim with_sequence_cases) auto
qed

lemma complete_step:
  assumes "distinct_ids db" and ok: "\<And>l. l \<in> set (db_jobs db) \<Longrightarrow> row_ok l"
    and desc: "\<And>l. l \<in> set (db_jobs db) \<Longrightarrow> bj_id l = bj_id job \<Longrightarrow> row_changes job l"
    and read: "bj_status job = JobSigning" "bj_kind job = KindApk" "null_string (sp_key (bj_sign job)) \<noteq> []"
    and "fresh_release release_id db"
    and "with_release_sequence outcome code (complete_transaction cmp m x b package attempt release_id now job) db = (a, db')"
  shows "step cmp db db'"
proof -
  let ?r = "signed_release m b job release_id" and ?f = "signed_set release_id (sq_signed b) now"
  have "step cmp db d" if t: "complete_transaction cmp m x b package attempt release_id now job db = Inr (y, d)" for y d
  proof (cases "d = db")
    case False
    then obtain l where l: "find_job (bj_id job) db = Some l" and key: "null_string (sp_key (bj_sign l)) = null_string (sp_key (bj_sign job))"
      using t by (auto simp: complete_transaction_def Let_def split: option.splits if_splits)
    obtain d1 where i: "insert_release cmp ?r ''system-signer'' db = Inr d1"
      using t False l by (auto simp: complete_transaction_def Let_def split: if_splits sum.splits)
    then have d1: "db_jobs d1 = db_jobs db" "distinct_ids d1" "db_releases d1 = db_releases db @ [?r]"
        "db_written d1 = db_written db" "db_deleted d1 = db_deleted db"
      using assms(1) by (simp_all add: insert_release_Inr insert_audit_def distinct_ids_def)
    obtain n d2 where u: "update_where (bj_id job) (signing_guard attempt m) ?f d1 = (n, d2)" by fastforce
    have n: "n = 1" and d: "db_jobs d = db_jobs d2" "db_releases d = db_releases d2" "db_written d = db_written d2" "db_deleted d = db_deleted d2"
      using t False l i u by (auto simp: complete_transaction_def Let_def insert_audit_def split: if_splits)
    have l': "l \<in> set (db_jobs db)" "bj_id l = bj_id job" using find_job_Some [OF l] by simp_all
    have fid: "bj_id (?f j) = bj_id j" for j by simp
    from d1(2) u fid obtain k where k: "k \<in> set (db_jobs d1)" "bj_id k = bj_id job" "signing_guard attempt m k"
        "d2 = d1\<lparr>db_jobs := replace_job (?f k) (db_jobs d1)\<rparr>"
      by (rule update_where_cases) (use n in auto)
    have "k = l" using same_row [OF assms(1), of k l] k(1,2) l' d1(1) by simp
    note k = k [unfolded this]
    have id: "identity_of l = identity_of job" using changes_identity [OF desc [OF l']] .
    have fr: "frozen l = frozen job" using changes_frozen [OF desc [OF l']] read(1) by (simp add: past_build_def active_def)
    have sg: "bj_status l = JobSigning" "bj_kind l = KindApk" "sp_machine (bj_sign l) = Some (mc_id m)"
      using k(3) by (simp_all add: signing_guard_def)
    have pl: "bj_platform l = platform_android" using built_row_signable [OF ok [OF l'(1)]] sg(1) by (simp add: signable_def)
    have key': "null_string (sp_key (bj_sign l)) \<noteq> []" using key read(3) by simp
    then have sk: "sp_key (bj_sign l) = Some (null_string (sp_key (bj_sign job)))"
      using key by (cases "sp_key (bj_sign l)") (simp_all add: null_string_def)
    show ?thesis
    proof (rule release_stepI [where r = ?r and l' = "?f l"])
      show "row_changes l (?f l)" by (rule changes_one [OF row_change.sign_complete [OF sg(1,2) pl key']])
      show "bj_release l = None" using unreleased [OF ok [OF l'(1)]] sg(1) by simp
      show "increased_by cmp (latest_release_for (ar_tenant ?r) (ar_platform ?r) db) (null_string (ar_version ?r)) (ar_number ?r)"
        using i by (simp add: insert_release_Inr)
    qed (use l' id fr sg pl sk read(3) assms(7) d d1 k in
        \<open>simp_all add: signed_release_def identity_of_def frozen_def, simp_all add: signed_set_def\<close>)
  qed simp
  then show ?thesis
    using assms(8) by (elim with_sequence_cases) auto
qed


section \<open>Claims and reports of a gate\<close>

lemma sign_claim_keys [simp]:
  "key_at c (sign_claim_set m now j) = (if c = SignedKey then None else key_at c j)"
  by (cases c) (simp_all add: sign_claim_set_def)

lemma overtaken_keys [simp]: "key_at c (overtaken_set latest item now j) = None"
  by (cases c) (simp_all add: overtaken_set_def clear_columns_def no_delivery_def)

lemma sign_claim_step:
  assumes "distinct_ids db" and "claim_for_signing cmp m now job outcome db = (c, db')"
  shows "step cmp db db'"
proof (cases "outcome = SequenceRuns")
  case True
  show ?thesis
  proof (cases "find (\<lambda>j. bj_id j = bj_id job \<and> bj_kind j = KindApk
      \<and> contains (event_from SignerClaim (Some KindApk)) (bj_status j) \<and> sign_attempt_of j = sign_attempt_of job) (db_jobs db)")
    case None
    then show ?thesis using assms(2) True by (simp add: claim_for_signing_def)
  next
    case (Some l)
    then have l: "l \<in> set (db_jobs db)" "bj_id l = bj_id job" "bj_kind l = KindApk" "bj_status l = JobBuilt"
      using find_row [OF Some] by simp_all
    have "step cmp db (delete_objects (pick (job_object_keys l) s) (update_job (bj_id job) f db))"
      if e: "row_change l e (f l)" and keep: "bj_id (f l) = bj_id l" "bj_release (f l) = bj_release l" "\<not> active (f l)"
        and k: "\<And>c. key_at c (f l) = (if s AND column_bit c \<noteq> 0 then None else key_at c l)" for e f s
    proof (rule row_stepI [OF l(1) changes_one [OF e]])
      show "keys_ok l (f l) [] (pick (job_object_keys l) s)" by (rule keys_cleared) (auto simp: k)
    qed (use keep update_job_one [OF assms(1) l(1,2), of f] l(2) in \<open>simp_all add: delete_objects_def update_job_def\<close>)
    note one = this
    show ?thesis
    proof (cases "increased_by cmp (latest_release_for (bj_tenant job) (bj_platform job) db) (bj_version job) (bj_number job)")
      case True
      have "db' = delete_objects (pick (job_object_keys l) release_signed) (update_job (bj_id job) (sign_claim_set m now) db)"
        using assms(2) \<open>outcome = SequenceRuns\<close> Some True by (simp add: claim_for_signing_def Let_def)
      moreover have "key_at c (sign_claim_set m now l) = (if release_signed AND column_bit c \<noteq> 0 then None else key_at c l)" for c
        by (cases c) (simp_all add: release_set_defs)
      ultimately show ?thesis
        using one [of SignerClaim "sign_claim_set m now" release_signed] row_change.sign_claim [OF l(4,3), of m now] by simp
    next
      case False
      have "db' = delete_objects (pick (job_object_keys l) release_all_deliveries)
          (update_job (bj_id job) (overtaken_set (latest_release_for (bj_tenant job) (bj_platform job) db) job now) db)"
        using assms(2) \<open>outcome = SequenceRuns\<close> Some False by (simp add: claim_for_signing_def Let_def)
      moreover have "key_at c (overtaken_set latest job now l) = (if release_all_deliveries AND column_bit c \<noteq> 0 then None else key_at c l)"
        for latest c by (cases c) simp_all
      ultimately show ?thesis
        using one [of SignOvertaken "overtaken_set (latest_release_for (bj_tenant job) (bj_platform job) db) job now" release_all_deliveries]
          row_change.overtaken [OF l(4,3), of _ job now] by simp
    qed
  qed
qed (use assms(2) in \<open>cases outcome; simp add: claim_for_signing_def\<close>)

lemma sign_heartbeat_step:
  assumes "distinct_ids db" and "refresh_signing_heartbeat m attempt now i commits db = (c, db')"
  shows "step cmp db db'"
proof (cases commits)
  case True
  obtain n d where u: "update_where i (signing_guard attempt m) (sign_heartbeat_set now) db = (n, d)" by fastforce
  then have d: "db' = d" using assms(2) True by (simp add: refresh_signing_heartbeat_def)
  show ?thesis unfolding d
    by (rule update_where_step [OF assms(1) u disjI2 [OF disjI1 [OF refl]]])
      (auto simp: signing_guard_def intro!: exI [of _ SignerHeartbeat] row_change.sign_heartbeat)
qed (use assms(2) in \<open>simp add: refresh_signing_heartbeat_def\<close>)

lemma sign_upload_step:
  assumes "distinct_ids db" and "\<forall>j\<in>set (db_jobs db). \<forall>c. key_at c j \<noteq> Some key" and "fresh_key key db"
    and "upload_signed m key received now job commits db = (a, db')"
  shows "step cmp db db'"
proof (cases received)
  case (Inr v)
  obtain sz sha where v: "v = (sz, sha)" by (cases v)
  let ?f = "\<lambda>j. (sign_heartbeat_set now j)\<lparr>bj_sign := (bj_sign j)\<lparr>sp_key := Some key, sp_heartbeat_at := Some now\<rparr>\<rparr>"
  obtain res d where r: "record_delivered_object commits (bj_id job) (signing_guard (sign_attempt_of job) m)
      (key_at SignedKey) ?f (db\<lparr>db_written := db_written db @ [key]\<rparr>) = (res, d)" by fastforce
  have "key_at SignedKey = (\<lambda>j. sp_key (bj_sign j))" by (rule ext) simp
  show ?thesis
  proof (rule record_delivered_step [OF assms(1-3) r])
    show "db' = (case res of Inl _ \<Rightarrow> d | Inr None \<Rightarrow> delete_objects [key] d
        | Inr (Some replaced) \<Rightarrow> delete_replaced_object replaced key d)"
      using assms(4) Inr r [unfolded \<open>key_at SignedKey = _\<close>]
      by (auto simp: upload_signed_def v split: sum.splits option.splits)
    fix l assume "signing_guard (sign_attempt_of job) m l"
    then show "\<exists>e. row_change l e (?f l)"
      by (auto simp: signing_guard_def intro!: exI [of _ SignerUpload] row_change.sign_upload)
  next
    fix j c' show "key_at c' (?f j) = (if c' = SignedKey then Some key else key_at c' j)"
      by (cases c') (simp_all add: sign_heartbeat_set_def)
  qed (simp_all add: sign_heartbeat_set_def active_def)
qed (use assms(4) in \<open>simp add: upload_signed_def\<close>)

lemma sign_release_step:
  assumes "distinct_ids db" and "release_signing_job m header body now i commits db = (a, db')"
  shows "step cmp db db'"
proof -
  have "step cmp db d" if t: "transition_build_job commits i
      \<lparr>jt_where = signing_guard attempt m, jt_set = deferred_set r now, jt_release = release_signed, jt_after = (\<lambda>_. [])\<rparr> db = (c, d)"
    for attempt r c d
    by (rule transition_step [OF assms(1) t])
      (auto simp: signing_guard_def intro!: exI [of _ SignerRelease] row_change.sign_release)
  then show ?thesis
    using assms(2) by (auto simp: release_signing_job_def split: option.splits prod.splits sum.splits)
qed

lemma rejected_change:
  assumes "decode_signer_outcome True m now body = Some r" and "signing_guard (sign_attempt_of job) m l"
    and "sp_failures (bj_sign l) = n"
    and failed: "failed = (jo_kind r = ''violation'' \<or> max_sign_failures \<le> n + 1)"
    and failures: "failures = (if jo_kind r = ''transient'' then n + 1 else n)"
  shows "\<exists>e. row_change l e (clear_columns (if failed then release_all_deliveries else release_signed) (rejected_set r failed failures now l))"
proof -
  have l: "bj_status l = JobSigning" "bj_kind l = KindApk" using assms(2) by (simp_all add: signing_guard_def)
  have "jo_kind r = ''violation'' \<or> jo_kind r = ''transient''"
    using assms(1) by (auto simp: decode_signer_outcome_def split: option.splits if_splits)
  then show ?thesis
  proof
    assume "jo_kind r = ''violation''"
    then show ?thesis using row_change.sign_violation [OF l, of r now] assms(3) failed failures by auto
  next
    assume "jo_kind r = ''transient''"
    then show ?thesis using row_change.sign_transient [OF l refl, of r now] assms(3) failed failures by auto
  qed
qed

lemma sign_reject_step:
  assumes "distinct_ids db" and "reject_signing_job m body now job commits db = (a, db')"
  shows "step cmp db db'"
proof (cases "decode_signer_outcome True m now body")
  case (Some r)
  let ?failed = "jo_kind r = ''violation'' \<or> max_sign_failures \<le> sp_failures (bj_sign job) + 1"
  let ?failures = "if jo_kind r = ''transient'' then sp_failures (bj_sign job) + 1 else sp_failures (bj_sign job)"
  have "step cmp db d" if t: "transition_build_job commits (bj_id job)
      \<lparr>jt_where = (\<lambda>j. signing_guard (sign_attempt_of job) m j \<and> sp_failures (bj_sign j) = sp_failures (bj_sign job)),
       jt_set = rejected_set r failed failures now,
       jt_release = (if failed then release_all_deliveries else release_signed), jt_after = es\<rparr> db = (c, d)"
    and f: "failed = ?failed" "failures = ?failures" for failed failures es c d
  proof (rule transition_step [OF assms(1) t], goal_cases)
    case (1 l)
    then show ?case using rejected_change [OF Some, of job l "sp_failures (bj_sign job)" failed failures] f by simp
  qed simp_all
  from this [OF _ refl refl] show ?thesis
    using assms(2) Some by (simp only: reject_signing_job_def Let_def option.case)
      (auto split: prod.splits sum.splits option.splits simp del: if_split)
qed (use assms(2) in \<open>simp add: reject_signing_job_def\<close>)

section \<open>The console and the timer\<close>

lemma cancel_step:
  assumes "distinct_ids db" and "cancel_build_job tenant actor g now i commits db = (a, db')"
  shows "step cmp db db'"
proof -
  have "step cmp db d" if t: "transition_build_job commits i
      \<lparr>jt_where = (\<lambda>j. bj_tenant j = tenant \<and> (bj_kind j = KindApk \<and> contains cancelable_apk (bj_status j)
           \<or> bj_kind j = KindOta \<and> contains cancelable_ota (bj_status j))),
       jt_set = cancel_set reason now, jt_release = release_all_deliveries, jt_after = es\<rparr> db = (c, d)" for reason es c d
    by (rule transition_step [OF assms(1) t]) (auto intro!: exI [of _ AdminCancel] row_change.cancel [unfolded active_def])
  then show ?thesis
    using assms(2) by (auto simp: cancel_build_job_def split: if_splits prod.splits sum.splits option.splits)
qed

lemma force_fail_step:
  assumes "distinct_ids db" and "force_fail_build_job tenant actor g now i commits db = (a, db')"
  shows "step cmp db db'"
proof -
  have "step cmp db d" if t: "transition_build_job commits i
      \<lparr>jt_where = (\<lambda>j. bj_tenant j = tenant \<and> bj_kind j = KindApk \<and> contains (event_from AdminForceFail (Some KindApk)) (bj_status j)),
       jt_set = force_fail_set reason now, jt_release = release_all_deliveries, jt_after = es\<rparr> db = (c, d)" for reason es c d
    by (rule transition_step [OF assms(1) t]) (auto intro!: exI [of _ AdminForceFail] row_change.force_fail)
  then show ?thesis
    using assms(2) by (auto simp: force_fail_build_job_def split: if_splits prod.splits sum.splits option.splits)
qed

lemma stale_build_active: "stale_build now j \<Longrightarrow> active j"
  by (simp add: stale_build_def active_def)

lemma reap_build_step:
  assumes "distinct_ids db" and desc: "\<And>l. l \<in> set (db_jobs db) \<Longrightarrow> bj_id l = bj_id item \<Longrightarrow> bj_kind l = bj_kind item"
    and "reap_build now commits item db = db'"
  shows "step cmp db db'"
proof (cases "bj_kind item = KindApk \<and> attempt_of item < max_build_attempts")
  case True
  obtain c d where t: "transition_build_job commits (bj_id item) \<lparr>jt_where = (\<lambda>j. stale_build now j \<and> attempt_of j = attempt_of item),
      jt_set = requeue_set now, jt_release = release_build_delivery, jt_after = (\<lambda>_. [])\<rparr> db = (c, d)" by fastforce
  have d: "db' = d" using assms(3) True t by (simp add: reap_build_def)
  show ?thesis unfolding d
    by (rule transition_step [OF assms(1) t])
      (use True desc in \<open>auto intro!: exI [of _ ReapBuild] row_change.requeue dest: stale_build_active\<close>)
next
  case False
  obtain c d where t: "transition_build_job commits (bj_id item) \<lparr>jt_where = (\<lambda>j. stale_build now j \<and> attempt_of j = attempt_of item),
      jt_set = reap_fail_set (BuilderSilent (bj_kind item) (attempt_of item)) now,
      jt_release = release_build_delivery, jt_after = (\<lambda>_. [])\<rparr> db = (c, d)" by fastforce
  have d: "db' = d" using assms(3) False t unfolding reap_build_def Let_def reap_fail_set_def
    by (metis (no_types, lifting) snd_conv)
  show ?thesis unfolding d
    by (rule transition_step [OF assms(1) t])
      (auto intro!: exI [of _ ReapBuild] row_change.reap_fail dest: stale_build_active)
qed

lemma reap_signing_step:
  assumes "distinct_ids db" and desc: "\<And>l. l \<in> set (db_jobs db) \<Longrightarrow> bj_id l = bj_id item \<Longrightarrow> bj_kind l = bj_kind item"
    and "bj_kind item = KindApk" and "reap_signing now commits item db = db'"
  shows "step cmp db db'"
proof -
  let ?failed = "max_sign_failures \<le> sp_failures (bj_sign item) + 1"
  obtain c d where t: "transition_build_job commits (bj_id item)
      \<lparr>jt_where = (\<lambda>j. contains signer_active (bj_status j) \<and> sign_attempt_of j = sign_attempt_of item
           \<and> sp_failures (bj_sign j) = sp_failures (bj_sign item) \<and> sign_silent_since j < now - sign_heartbeat_timeout),
       jt_set = sign_timeout_set now item ?failed,
       jt_release = (if ?failed then release_all_deliveries else release_signed), jt_after = (\<lambda>_. [])\<rparr> db = (c, d)" by fastforce
  have d: "db' = d" using assms(4) t by (simp add: reap_signing_def Let_def)
  show ?thesis unfolding d
  proof (rule transition_step [OF assms(1) t])
    fix l assume "l \<in> set (db_jobs db)" "bj_id l = bj_id item"
      "jt_where \<lparr>jt_where = (\<lambda>j. contains signer_active (bj_status j) \<and> sign_attempt_of j = sign_attempt_of item
           \<and> sp_failures (bj_sign j) = sp_failures (bj_sign item) \<and> sign_silent_since j < now - sign_heartbeat_timeout),
       jt_set = sign_timeout_set now item ?failed,
       jt_release = (if ?failed then release_all_deliveries else release_signed), jt_after = (\<lambda>_. [])\<rparr> l"
    then have "bj_status l = JobSigning" "bj_kind l = KindApk" "sp_failures (bj_sign item) = sp_failures (bj_sign l)"
      using desc assms(3) by auto
    from row_change.sign_timeout [OF this(1,2) refl this(3), of now] this(3)
    show "\<exists>e. row_change l e (clear_columns (jt_release \<lparr>jt_where = (\<lambda>j. contains signer_active (bj_status j) \<and> sign_attempt_of j = sign_attempt_of item
           \<and> sp_failures (bj_sign j) = sp_failures (bj_sign item) \<and> sign_silent_since j < now - sign_heartbeat_timeout),
       jt_set = sign_timeout_set now item ?failed,
       jt_release = (if ?failed then release_all_deliveries else release_signed), jt_after = (\<lambda>_. [])\<rparr>)
       (jt_set \<lparr>jt_where = (\<lambda>j. contains signer_active (bj_status j) \<and> sign_attempt_of j = sign_attempt_of item
           \<and> sp_failures (bj_sign j) = sp_failures (bj_sign item) \<and> sign_silent_since j < now - sign_heartbeat_timeout),
       jt_set = sign_timeout_set now item ?failed,
       jt_release = (if ?failed then release_all_deliveries else release_signed), jt_after = (\<lambda>_. [])\<rparr> l))"
      by auto
  qed simp_all
qed


section \<open>Every request is a step\<close>

definition rows_known :: "server_db \<Rightarrow> bool" where
  "rows_known db \<longleftrightarrow> distinct_ids db \<and> (\<forall>j\<in>set (db_jobs db). row_ok j \<and> (\<forall>c k. key_at c j = Some k \<longrightarrow> k \<in> set (db_written db)))"

lemma scope_row:
  "builder_job_scope allow m header i p = Inr job \<Longrightarrow> job \<in> set (db_jobs p)"
  by (auto simp: builder_job_scope_def load_build_job_def Let_def result_simps split: option.splits if_splits dest: find_job_Some)

lemma signing_scope_row:
  "current_signing_job m header i p = Inr job \<Longrightarrow> job \<in> set (db_jobs p)"
  by (auto simp: current_signing_job_def load_build_job_def result_simps split: option.splits if_splits dest: find_job_Some)

lemma complete_read_row:
  "complete_read m header (Some b) i p = Inr (attempt, job) \<Longrightarrow>
     job \<in> set (db_jobs p) \<and> bj_status job = JobSigning \<and> bj_kind job = KindApk \<and> null_string (sp_key (bj_sign job)) \<noteq> []
     \<and> sign_attempt_of job = attempt"
  by (auto simp: complete_read_def load_build_job_def Let_def result_simps split: option.splits if_splits dest: find_job_Some)

theorem request_refines_step:
  assumes r: "request K dec cmp past db db'" and known: "rows_known db" and desc: "\<And>p. p \<in> set past \<Longrightarrow> descends p db"
  shows "step cmp db db'"
proof -
  have ids: "distinct_ids db" and ok: "\<And>l. l \<in> set (db_jobs db) \<Longrightarrow> row_ok l" using known by (auto simp: rows_known_def)
  have new: "\<forall>j\<in>set (db_jobs db). \<forall>c. key_at c j \<noteq> Some key" if "fresh_key key db" for key
    using known that by (auto simp: rows_known_def fresh_key_def)
  have later: "row_changes job l" if "p \<in> set past" "job \<in> set (db_jobs p)" "l \<in> set (db_jobs db)" "bj_id l = bj_id job" for p job l
    using descends_row [OF ids desc] that by blast
  have kind: "bj_kind l = bj_kind job" if "p \<in> set past" "job \<in> set (db_jobs p)" "l \<in> set (db_jobs db)" "bj_id l = bj_id job" for p job l
    using changes_identity [OF later [OF that]] by (simp add: identity_of_def)
  from r show ?thesis
  proof (cases rule: request.cases)
    case queue then show ?thesis by (intro queue_job_step)
  next
    case queue_ota then show ?thesis by (intro queue_ota_job_step)
  next
    case claim then show ?thesis using ids by (intro claim_build_job_step)
  next
    case undispatchable then show ?thesis using ids by (intro mark_failed_step)
  next
    case heartbeat then show ?thesis using ids by (intro heartbeat_step)
  next
    case fail then show ?thesis using ids by (intro fail_step)
  next
    case ota then show ?thesis using ids by (intro ota_step)
  next
    case delivery then show ?thesis using ids new by (intro delivery_step)
  next
    case built then show ?thesis using ids later scope_row by (intro built_step) blast+
  next
    case ios then show ?thesis using ids ok later scope_row by (intro ios_step) blast+
  next
    case sign_claim then show ?thesis using ids by (intro sign_claim_step)
  next
    case sign_heartbeat then show ?thesis using ids by (intro sign_heartbeat_step)
  next
    case sign_upload then show ?thesis using ids new by (intro sign_upload_step)
  next
    case sign_complete then show ?thesis using ids ok later complete_read_row by (intro complete_step) blast+
  next
    case sign_release then show ?thesis using ids by (intro sign_release_step)
  next
    case sign_reject then show ?thesis using ids by (intro sign_reject_step)
  next
    case cancel then show ?thesis using ids by (intro cancel_step)
  next
    case force_fail then show ?thesis using ids by (intro force_fail_step)
  next
    case by_hand then show ?thesis by (intro manual_step_refines)
  next
    case reap_builds then show ?thesis using ids kind by (intro reap_build_step) blast+
  next
    case reap_signings then show ?thesis using ids kind
      by (intro reap_signing_step) (blast | simp add: stale_signing_def)+
  qed
qed

end
