(* ===== verification/BuildInvariants.thy ===== *)
theory BuildInvariants
  imports BuildRefine
begin

text \<open>
  Invariants of the database, each kept by every abstract step, and by rule induction true of every
  database of a history: the rows, the unique indexes, one build per machine, the object keys and the
  release records.
\<close>

section \<open>The invariants\<close>

definition rows_ok :: "server_db \<Rightarrow> bool" where
  "rows_ok db \<longleftrightarrow> (\<forall>j\<in>set (db_jobs db). row_ok j)"

definition index_ok :: "server_db \<Rightarrow> bool" where
  "index_ok db \<longleftrightarrow> (\<forall>x\<in>set (db_jobs db). \<forall>y\<in>set (db_jobs db). x \<noteq> y \<longrightarrow> \<not> index_clash x y)"

definition machines_ok :: "server_db \<Rightarrow> bool" where
  "machines_ok db \<longleftrightarrow>
     (\<forall>x\<in>set (db_jobs db). \<forall>y\<in>set (db_jobs db).
        active x \<longrightarrow> active y \<longrightarrow> bp_machine (bj_build x) = bp_machine (bj_build y) \<longrightarrow> x = y)"

definition keys_kept :: "server_db \<Rightarrow> bool" where
  "keys_kept db \<longleftrightarrow>
     (\<forall>j\<in>set (db_jobs db). \<forall>c k. key_at c j = Some k \<longrightarrow> k \<in> set (db_written db) \<and> k \<notin> set (db_deleted db))
     \<and> (\<forall>x\<in>set (db_jobs db). \<forall>y\<in>set (db_jobs db). \<forall>c d k. key_at c x = Some k \<longrightarrow> key_at d y = Some k \<longrightarrow> x = y \<and> c = d)
     \<and> set (db_deleted db) \<subseteq> set (db_written db)"

text \<open>The release record of a job, and the job of a release record.\<close>

definition release_of :: "build_job \<Rightarrow> app_release \<Rightarrow> bool" where
  "release_of j r \<longleftrightarrow>
     ar_job r = Some (bj_id j) \<and> bj_release j = Some (ar_id r) \<and> bj_status j = JobSucceeded \<and> bj_kind j = KindApk
     \<and> ar_tenant r = bj_tenant j \<and> ar_platform r = bj_platform j \<and> ar_version r = Some (bj_version j) \<and> ar_number r = bj_number j
     \<and> (if bj_platform j = platform_android
        then ar_object_key r \<noteq> [] \<and> sp_key (bj_sign j) = Some (ar_object_key r) \<and> ar_sha256 r = bj_artifact j
          \<and> ar_unsigned_sha256 r = dc_sha256 (bp_unsigned (bj_build j)) \<and> ar_native r = bp_native (bj_build j)
          \<and> ar_builder r = bp_machine (bj_build j) \<and> ar_signer r = sp_machine (bj_sign j)
        else ar_object_key r = [])"

definition releases_ok :: "server_db \<Rightarrow> bool" where
  "releases_ok db \<longleftrightarrow>
     distinct (map ar_id (db_releases db))
     \<and> (\<forall>r\<in>set (db_releases db). ar_job r \<noteq> None \<longrightarrow> (\<exists>j\<in>set (db_jobs db). release_of j r))
     \<and> (\<forall>j\<in>set (db_jobs db). bj_release j \<noteq> None \<longrightarrow> (\<exists>r\<in>set (db_releases db). release_of j r))
     \<and> (\<forall>r\<in>set (db_releases db). ar_job r = None \<longrightarrow> ar_object_key r \<notin> set (db_written db))"

definition same_sequence :: "app_release \<Rightarrow> app_release \<Rightarrow> bool" where
  "same_sequence a b \<longleftrightarrow> ar_tenant a = ar_tenant b \<and> ar_platform a = ar_platform b"

definition numbers_increase :: "server_db \<Rightarrow> bool" where
  "numbers_increase db \<longleftrightarrow> sorted_wrt (\<lambda>a b. same_sequence a b \<longrightarrow> ar_number a < ar_number b) (db_releases db)"

definition sound :: "server_db \<Rightarrow> bool" where
  "sound db \<longleftrightarrow> distinct_ids db \<and> rows_ok db \<and> index_ok db \<and> machines_ok db \<and> keys_kept db \<and> releases_ok db \<and> numbers_increase db"

section \<open>Steps keep them\<close>

lemma in_replace:
  assumes "x \<in> set (replace_job l' js)"
  obtains (new) "x = l'" | (old) "x \<in> set js" "bj_id x \<noteq> bj_id l'"
  using assms by (auto simp: replace_job_def split: if_splits)

lemma replace_ids [simp]: "map bj_id (replace_job l' js) = map bj_id js"
  by (auto simp: replace_job_def)

lemma changes_id: "row_changes l l' \<Longrightarrow> bj_id l' = bj_id l"
  using changes_identity [of l l'] by (simp add: identity_of_def)

lemma replace_mem: "l \<in> set js \<Longrightarrow> bj_id l' = bj_id l \<Longrightarrow> l' \<in> set (replace_job l' js)"
  by (force simp: replace_job_def)

lemma replace_old: "x \<in> set js \<Longrightarrow> bj_id x \<noteq> bj_id l' \<Longrightarrow> x \<in> set (replace_job l' js)"
  by (force simp: replace_job_def)

lemma step_jobs:
  assumes "step cmp db db'"
  obtains (same) "db_jobs db' = db_jobs db"
  | (replaced) l l' where "l \<in> set (db_jobs db)" "row_changes l l'" "bj_id l' = bj_id l" "db_jobs db' = replace_job l' (db_jobs db)"
      "active l' \<longrightarrow> active l \<and> bp_machine (bj_build l') = bp_machine (bj_build l) \<or> machine_idle (bp_machine (bj_build l')) db"
  | (added) j where "db_jobs db' = db_jobs db @ [j]" "bj_status j = JobQueued" "\<forall>x\<in>set (db_jobs db). \<not> index_clash x j"
      "bj_id j \<notin> bj_id ` set (db_jobs db)" "row_ok j" "bj_release j = None"
  using assms
proof (cases rule: step.cases)
  case (release_step l l' r audit)
  then show thesis using replaced [of l l'] changes_id [of l l'] by (simp add: active_def)
next
  case (insert_step j audit)
  then have "bj_release j = None" by (auto simp: row_ok_def outcome_ok_def)
  then show thesis using added [of j] insert_step by simp
qed (use same replaced changes_id in auto)

lemma step_ids: "step cmp db db' \<Longrightarrow> distinct_ids db \<Longrightarrow> distinct_ids db'"
  by (erule step_jobs) (auto simp: distinct_ids_def)

lemma step_rows: "step cmp db db' \<Longrightarrow> rows_ok db \<Longrightarrow> rows_ok db'"
  by (erule step_jobs) (auto simp: rows_ok_def elim!: in_replace intro: changes_ok)

lemma step_descends: 
  assumes "step cmp db db'" and "distinct_ids db" shows "descends db db'"
  using assms(1)
proof (cases rule: step_jobs)
  case (replaced l l')
  have "\<exists>k\<in>set (db_jobs db'). row_changes j k" if "j \<in> set (db_jobs db)" for j
    using same_row [OF assms(2) that replaced(1)] replaced that replace_mem [of l "db_jobs db" l'] replace_old [of j "db_jobs db" l']
    by (cases "bj_id j = bj_id l'") auto
  then show ?thesis by (simp add: descends_def)
qed (auto simp: descends_def)

lemma index_clash_sym: "index_clash x y = index_clash y x"
  unfolding index_clash_def by (metis (no_types))

lemma changes_clash:
  assumes "row_changes l l'" and "\<not> index_clash l y" shows "\<not> index_clash l' y"
proof -
  have "bj_tenant l' = bj_tenant l" "bj_platform l' = bj_platform l"
    using changes_identity [OF assms(1)] by (simp_all add: identity_of_def)
  then show ?thesis using changes_index [OF assms(1)] assms(2) by (auto simp: index_clash_def)
qed

lemma replace_index:
  assumes "distinct_ids db" "index_ok db" "l \<in> set (db_jobs db)" "row_changes l l'" "db_jobs db' = replace_job l' (db_jobs db)"
  shows "index_ok db'"
  unfolding index_ok_def assms(5)
proof (intro ballI impI)
  fix x y assume x: "x \<in> set (replace_job l' (db_jobs db))" and y: "y \<in> set (replace_job l' (db_jobs db))" and ne: "x \<noteq> y"
  have l: "\<not> index_clash l' z" if "z \<in> set (db_jobs db)" "bj_id z \<noteq> bj_id l'" for z
  proof (rule changes_clash [OF assms(4)])
    have "l \<noteq> z" using that(2) changes_id [OF assms(4)] by auto
    then show "\<not> index_clash l z" using assms(2,3) that(1) unfolding index_ok_def by blast
  qed
  show "\<not> index_clash x y"
    using x
  proof (cases rule: in_replace)
    case new
    from y show ?thesis by (cases rule: in_replace) (use new ne l in auto)
  next
    case old
    from y show ?thesis
    proof (cases rule: in_replace)
      case new then show ?thesis using l [OF old] index_clash_sym by simp
    next
      case 2: old then show ?thesis using old ne assms(2) unfolding index_ok_def by blast
    qed
  qed
qed

lemma step_index:
  assumes "step cmp db db'" and "distinct_ids db" "index_ok db" shows "index_ok db'"
  using assms(1)
proof (cases rule: step_jobs)
  case (replaced l l')
  show ?thesis by (rule replace_index [OF assms(2,3) replaced(1,2,4)])
next
  case (added j)
  have "\<not> index_clash j x" if "x \<in> set (db_jobs db)" for x using added(3) that index_clash_sym by blast
  then show ?thesis using assms(3) added(1,3) unfolding index_ok_def by auto
qed (use assms(3) in \<open>simp add: index_ok_def\<close>)

lemma replace_machines:
  assumes "distinct_ids db" "machines_ok db" "l \<in> set (db_jobs db)" "bj_id l' = bj_id l" "db_jobs db' = replace_job l' (db_jobs db)"
    and a: "active l' \<longrightarrow> active l \<and> bp_machine (bj_build l') = bp_machine (bj_build l) \<or> machine_idle (bp_machine (bj_build l')) db"
  shows "machines_ok db'"
  unfolding machines_ok_def assms(5)
proof (intro ballI impI)
  fix x y assume x: "x \<in> set (replace_job l' (db_jobs db))" and y: "y \<in> set (replace_job l' (db_jobs db))"
    and ax: "active x" and ay: "active y" and m: "bp_machine (bj_build x) = bp_machine (bj_build y)"
  have l: "False" if "z \<in> set (db_jobs db)" "bj_id z \<noteq> bj_id l'" "active z" "active l'" "bp_machine (bj_build z) = bp_machine (bj_build l')" for z
  proof -
    have "active l" "bp_machine (bj_build l') = bp_machine (bj_build l)"
      using a that by (auto simp: machine_idle_def)
    then have "z = l" using assms(2,3) that by (auto simp: machines_ok_def)
    then show False using that(2) assms(4) by simp
  qed
  show "x = y"
    using x
  proof (cases rule: in_replace)
    case new
    from y show ?thesis by (cases rule: in_replace) (use new l ax ay m in auto)
  next
    case old
    from y show ?thesis
    proof (cases rule: in_replace)
      case new then show ?thesis using l [OF old] ax ay m by auto
    next
      case 2: old then show ?thesis using old ax ay m assms(2) unfolding machines_ok_def by blast
    qed
  qed
qed

lemma step_machines:
  assumes "step cmp db db'" and "distinct_ids db" "machines_ok db" shows "machines_ok db'"
  using assms(1)
proof (cases rule: step_jobs)
  case (replaced l l')
  show ?thesis by (rule replace_machines [OF assms(2,3) replaced(1,3,4,5)])
next
  case (added j)
  then have "\<not> active j" by (simp add: active_def)
  then show ?thesis using assms(3) added(1) by (auto simp: machines_ok_def)
qed (use assms(3) in \<open>simp add: machines_ok_def\<close>)

section \<open>Object keys\<close>

lemma kept_key:
  "keys_kept db \<Longrightarrow> key_at c j = Some k \<Longrightarrow> j \<in> set (db_jobs db) \<Longrightarrow> k \<in> set (db_written db) \<and> k \<notin> set (db_deleted db)"
  unfolding keys_kept_def by blast

lemma kept_one:
  "keys_kept db \<Longrightarrow> key_at c x = Some k \<Longrightarrow> key_at d y = Some k \<Longrightarrow> x \<in> set (db_jobs db) \<Longrightarrow> y \<in> set (db_jobs db) \<Longrightarrow> x = y \<and> c = d"
  unfolding keys_kept_def by blast

text \<open>A key of a changed row was there before, or is the one new object.\<close>

lemma key_origin:
  assumes "keys_kept db" "l \<in> set (db_jobs db)" "keys_ok l l' written deleted" "list_all (\<lambda>k. fresh_key k db) written" "key_at c l' = Some k"
  obtains (old) "k \<in> set (db_written db)" "key_at c l = Some k"
  | (new) "k \<notin> set (db_written db)" "written = [k]" "\<forall>c'. key_at c' l' = Some k \<longrightarrow> c' = c"
proof -
  have "key_at c l = Some k \<or> written = [k] \<and> (\<forall>c'. key_at c' l' = Some k \<longrightarrow> c' = c)"
    using assms(3,5) unfolding keys_ok_def by blast
  then show thesis using old new kept_key [OF assms(1) _ assms(2)] assms(4) by (auto simp: fresh_key_def)
qed

lemma replaced_one:
  assumes inv: "keys_kept db" and l: "l \<in> set (db_jobs db)" "bj_id l' = bj_id l"
    and k: "keys_ok l l' written deleted" "list_all (\<lambda>k. fresh_key k db) written"
    and x: "key_at c x = Some k" "x \<in> set (replace_job l' (db_jobs db))" and y: "key_at d y = Some k" "y \<in> set (replace_job l' (db_jobs db))"
  shows "x = y \<and> c = d"
proof -
  have cross: False if "key_at c l' = Some k" "key_at d z = Some k" "z \<in> set (db_jobs db)" "bj_id z \<noteq> bj_id l'" for c d z
    using inv l(1) k that(1)
  proof (cases rule: key_origin)
    case old
    then have "l = z" using kept_one [OF inv] that(2,3) l(1) by blast
    then show False using that(4) l(2) by simp
  qed (use kept_key [OF inv that(2,3)] in simp)
  have same: "c = d" if "key_at c l' = Some k" "key_at d l' = Some k" for c d
    using inv l(1) k that(1)
  proof (cases rule: key_origin)
    case old
    from inv l(1) k that(2) show ?thesis
      by (cases rule: key_origin) (use old kept_one [OF inv _ _ l(1) l(1)] in blast)+
  qed (use that(2) in blast)
  from x(2) show ?thesis
  proof (cases rule: in_replace)
    case new
    from y(2) show ?thesis by (cases rule: in_replace) (use new x(1) y(1) same cross in blast)+
  next
    case old
    from y(2) show ?thesis by (cases rule: in_replace) (use old x(1) y(1) kept_one [OF inv] cross in blast)+
  qed
qed

lemma replaced_safe:
  assumes inv: "keys_kept db" and l: "l \<in> set (db_jobs db)" "bj_id l' = bj_id l"
    and k: "keys_ok l l' written deleted" "list_all (\<lambda>k. fresh_key k db) written"
    and x: "key_at c x = Some k" "x \<in> set (replace_job l' (db_jobs db))"
  shows "k \<notin> set (db_deleted db)" and "k \<notin> set deleted"
proof -
  have gone: "set (db_deleted db) \<subseteq> set (db_written db)" using inv by (simp add: keys_kept_def)
  have orig: "k \<notin> set (db_written db) \<or> key_at c l = Some k" if "x = l'"
    using inv l(1) k x(1) [unfolded that] by (cases rule: key_origin) blast+
  show "k \<notin> set (db_deleted db)"
    using x(2) by (cases rule: in_replace) (use x(1) orig gone kept_key [OF inv _ l(1)] kept_key [OF inv x(1)] in blast)+
  show "k \<notin> set deleted"
  proof
    assume "k \<in> set deleted"
    then consider "k \<in> set written" "\<forall>c. key_at c l' \<noteq> Some k" | d where "key_at d l = Some k" "key_at d l' \<noteq> Some k"
      using k(1) unfolding keys_ok_def by blast
    then show False
    proof cases
      case 1
      from x(2) show False
        by (cases rule: in_replace) (use 1 x(1) k(2) kept_key [OF inv x(1)] in \<open>auto simp: list_all_iff fresh_key_def\<close>)
    next
      case 2
      from x(2) show False
      proof (cases rule: in_replace)
        case new
        then have "key_at c l = Some k" using orig kept_key [OF inv 2(1) l(1)] by blast
        then show False using kept_one [OF inv _ 2(1) l(1) l(1)] 2(2) x(1) new by blast
      next
        case old
        then show False using kept_one [OF inv 2(1) x(1) l(1)] l(2) by auto
      qed
    qed
  qed
qed

lemma replace_keys:
  assumes inv: "keys_kept db" and l: "l \<in> set (db_jobs db)" "bj_id l' = bj_id l"
    and k: "keys_ok l l' written deleted" "list_all (\<lambda>k. fresh_key k db) written"
    and db': "db_jobs db' = replace_job l' (db_jobs db)" "db_written db' = db_written db @ written"
      "db_deleted db' = db_deleted db @ deleted"
  shows "keys_kept db'"
proof -
  have held: "k \<in> set (db_written db')" if x: "key_at c x = Some k" "x \<in> set (replace_job l' (db_jobs db))" for c x k
    using x(2)
  proof (cases rule: in_replace)
    case new
    from inv l(1) k x(1) [unfolded new] show ?thesis by (cases rule: key_origin) (simp_all add: db'(2))
  next
    case old
    then show ?thesis using kept_key [OF inv x(1)] by (simp add: db'(2))
  qed
  have gone: "k \<in> set (db_written db')" if "k \<in> set (db_deleted db')" for k
  proof (cases "k \<in> set deleted")
    case True
    then have "k \<in> set written \<or> (\<exists>c. key_at c l = Some k)" using k(1) unfolding keys_ok_def by blast
    then show ?thesis using kept_key [OF inv _ l(1)] db'(2) by auto
  next
    case False
    then show ?thesis using that inv db'(2,3) by (auto simp: keys_kept_def)
  qed
  have safe: "k \<notin> set (db_deleted db')" if "key_at c x = Some k" "x \<in> set (replace_job l' (db_jobs db))" for c x k
    using replaced_safe [OF inv l k that] by (simp add: db'(3))
  show ?thesis
    unfolding keys_kept_def db'(1)
    using held gone safe replaced_one [OF inv l k] by (intro conjI ballI allI impI subsetI) blast+
qed

lemma step_keys:
  assumes "step cmp db db'" and ids: "distinct_ids db" and inv: "keys_kept db"
  shows "keys_kept db'"
  using assms(1)
proof (cases rule: step.cases)
  case (row_step l l' written deleted audit)
  show ?thesis
    by (rule replace_keys [OF inv row_step(2) changes_id [OF row_step(3)] row_step(6,7)]) (simp_all add: row_step(1))
next
  case (release_step l l' r audit)
  have k: "keys_ok l l' [] []" using release_step(7) by (intro keys_same) simp
  show ?thesis
    by (rule replace_keys [OF inv release_step(2) changes_id [OF release_step(3)] k])
      (simp_all add: release_step(1))
next
  case (insert_step j audit)
  then show ?thesis using inv by (auto simp: keys_kept_def)
next
  case (object_step written deleted)
  have "k \<notin> set deleted" if "key_at c x = Some k" "x \<in> set (db_jobs db)" for c x k
    using that inv object_step(2,3) unfolding keys_kept_def by (fastforce simp: list_all_iff fresh_key_def)
  then show ?thesis using inv object_step by (auto simp: keys_kept_def)
qed (use inv in \<open>simp add: keys_kept_def\<close>)

section \<open>Release records\<close>

lemma changes_succeeded: "row_changes l l' \<Longrightarrow> bj_status l = JobSucceeded \<Longrightarrow> l' = l"
  using changes_final [of l l'] by (simp add: terminal_statuses_def)

text \<open>A row that has its record keeps it, whatever row is replaced.\<close>

lemma released_kept:
  assumes "distinct_ids db" "l \<in> set (db_jobs db)" "row_changes l l'" "j \<in> set (db_jobs db)" "release_of j r"
  shows "j \<in> set (replace_job l' (db_jobs db))"
proof (cases "bj_id j = bj_id l'")
  case True
  then have "j = l" using same_row [OF assms(1,4,2)] changes_id [OF assms(3)] by simp
  then have "l' = j" using changes_succeeded [OF assms(3)] assms(5) by (simp add: release_of_def)
  then show ?thesis using replace_mem [OF assms(2), of l'] \<open>j = l\<close> by simp
qed (use replace_old assms(4) in blast)

lemma step_releases:
  assumes "step cmp db db'" and ids: "distinct_ids db" and rows: "rows_ok db" and inv: "releases_ok db"
  shows "releases_ok db'"
proof -
  have ids_rel: "distinct (map ar_id (db_releases db))" using inv by (simp add: releases_ok_def)
  have fwd: "\<exists>j\<in>set (db_jobs db). release_of j r" if "r \<in> set (db_releases db)" "ar_job r \<noteq> None" for r
    using inv that unfolding releases_ok_def by blast
  have bwd: "\<exists>r\<in>set (db_releases db). release_of j r" if "j \<in> set (db_jobs db)" "bj_release j \<noteq> None" for j
    using inv that unfolding releases_ok_def by blast
  have man: "ar_object_key r \<notin> set (db_written db)" if "r \<in> set (db_releases db)" "ar_job r = None" for r
    using inv that unfolding releases_ok_def by blast
  have fresh: "ar_object_key r \<notin> set written" if "list_all (\<lambda>k. fresh_key k db) written" "r \<in> set (db_releases db)" for written r
    using that by (auto simp: list_all_iff fresh_key_def release_keys_def)
  from assms(1) show ?thesis
  proof (cases rule: step.cases)
    case (row_step l l' written deleted audit)
    have r: "bj_release l' = None \<or> l' = l"
    proof (cases "bj_release l")
      case (Some i)
      then have "bj_status l = JobSucceeded" using rows row_step(2) unreleased by (fastforce simp: rows_ok_def)
      then show ?thesis using changes_succeeded [OF row_step(3)] by simp
    qed (use row_step(4) in simp)
    have "\<exists>j\<in>set (replace_job l' (db_jobs db)). release_of j r" if "r \<in> set (db_releases db)" "ar_job r \<noteq> None" for r
      using fwd [OF that] released_kept [OF ids row_step(2,3)] by blast
    moreover have "\<exists>r\<in>set (db_releases db). release_of j r"
      if "j \<in> set (replace_job l' (db_jobs db))" "bj_release j \<noteq> None" for j
      using that(1) by (cases rule: in_replace) (use that(2) r bwd row_step(2) in auto)
    ultimately show ?thesis using ids_rel man fresh row_step(1,7) by (auto simp: releases_ok_def)
  next
    case (release_step l l' r audit)
    have kind: "bj_kind l' = KindApk"
      using changes_ok [OF release_step(3)] rows release_step(2,4) by (auto simp: rows_ok_def row_ok_def outcome_ok_def)
    have id: "identity_of l' = identity_of l" using changes_identity [OF release_step(3)] .
    have new: "release_of l' r"
      using release_step(4-14) kind id key_at.simps(3) [of l] key_at.simps(3) [of l'] unfolding release_of_def
      by (simp add: identity_of_def split: if_splits)
    have l': "l' \<in> set (replace_job l' (db_jobs db))"
      by (rule replace_mem [OF release_step(2) changes_id [OF release_step(3)]])
    have "\<exists>j\<in>set (replace_job l' (db_jobs db)). release_of j x"
      if "x \<in> set (db_releases db)" "ar_job x \<noteq> None" for x
      using fwd [OF that] released_kept [OF ids release_step(2,3)] by blast
    moreover have "\<exists>x\<in>set (db_releases db @ [r]). release_of j x"
      if "j \<in> set (replace_job l' (db_jobs db))" "bj_release j \<noteq> None" for j
      using that(1) by (cases rule: in_replace) (use that(2) bwd new in auto)
    ultimately show ?thesis
      using ids_rel man new l' release_step(1,8,13) unfolding releases_ok_def fresh_release_def by auto
  next
    case (manual_step r audit)
    then show ?thesis using ids_rel fwd bwd man by (fastforce simp: releases_ok_def fresh_release_def)
  next
    case (insert_step j audit)
    then have "bj_release j = None" by (simp add: unreleased)
    then show ?thesis using ids_rel fwd bwd man insert_step(1) by (fastforce simp: releases_ok_def)
  next
    case (object_step written deleted)
    then show ?thesis using ids_rel fwd bwd man fresh by (auto simp: releases_ok_def)
  qed
qed

section \<open>The release sequence\<close>

lemma greatest_number_None [simp]: "greatest_number rs = None \<longleftrightarrow> rs = []"
  by (cases rs) (auto split: option.splits)

lemma greatest_number_bound: "greatest_number rs = Some g \<Longrightarrow> r \<in> set rs \<Longrightarrow> ar_number r \<le> ar_number g"
proof (induction rs arbitrary: g)
  case (Cons x rs)
  show ?case
  proof (cases "greatest_number rs")
    case (Some y)
    have "ar_number r \<le> ar_number y" if "r \<in> set rs" using Cons.IH [OF Some that] .
    then show ?thesis using Cons.prems Some by (auto split: if_splits)
  qed (use Cons.prems in simp)
qed simp

lemma greatest_number_in: "greatest_number rs = Some g \<Longrightarrow> g \<in> set rs"
  by (induction rs arbitrary: g) (auto split: option.splits if_splits)

lemma increased_number:
  assumes "increased_by cmp (latest_release_for t p db) v n" and "r \<in> set (sequence_of t p db)"
  shows "ar_number r < n"
proof -
  obtain g where g: "greatest_number (sequence_of t p db) = Some g"
    using assms(2) by (cases "greatest_number (sequence_of t p db)") auto
  then show ?thesis using greatest_number_bound [OF g assms(2)] assms(1)
    by (simp add: increased_by_def latest_release_for_def)
qed

lemma append_number:
  assumes "increased_by cmp (latest_release_for (ar_tenant r) (ar_platform r) db) v (ar_number r)" and "numbers_increase db"
  shows "sorted_wrt (\<lambda>a b. same_sequence a b \<longrightarrow> ar_number a < ar_number b) (db_releases db @ [r])"
  using assms(2) increased_number [OF assms(1)]
  by (auto simp: numbers_increase_def sorted_wrt_append same_sequence_def sequence_of_def)

lemma step_numbers:
  assumes "step cmp db db'" and "numbers_increase db" shows "numbers_increase db'"
  using assms(1)
proof (cases rule: step.cases)
  case (release_step l l' r audit)
  then show ?thesis using append_number [OF release_step(15) assms(2)] by (simp add: numbers_increase_def)
next
  case (manual_step r audit)
  then show ?thesis using append_number [OF manual_step(5) assms(2)] by (simp add: numbers_increase_def)
qed (use assms(2) in \<open>simp_all add: numbers_increase_def\<close>)

section \<open>Histories\<close>

lemma step_sound: "step cmp db db' \<Longrightarrow> sound db \<Longrightarrow> sound db'"
  by (simp add: sound_def step_ids step_rows step_index step_machines step_keys step_releases step_numbers)

lemma sound_empty: "sound empty_db"
  by (simp add: sound_def empty_db_def distinct_ids_def rows_ok_def index_ok_def machines_ok_def keys_kept_def
      releases_ok_def numbers_increase_def)

lemma sound_known: "sound db \<Longrightarrow> rows_known db"
  unfolding sound_def rows_known_def rows_ok_def keys_kept_def by blast

lemma descends_refl: "descends db db"
  by (auto simp: descends_def)

lemma descends_trans: "descends p q \<Longrightarrow> descends q db \<Longrightarrow> descends p db"
  unfolding descends_def using changes_trans by blast

lemma history_sound:
  "history K dec cmp h \<Longrightarrow> sound (hd h) \<and> (\<forall>p\<in>set h. descends p (hd h))"
proof (induction rule: history.induct)
  case start
  then show ?case using sound_empty descends_refl by simp
next
  case (next_db db h db')
  then have s: "sound db" and d: "\<And>p. p \<in> set (db # h) \<Longrightarrow> descends p db" by auto
  have st: "step cmp db db'" by (rule request_refines_step [OF next_db.hyps(2) sound_known [OF s] d])
  have "descends db db'" using step_descends [OF st] s by (simp add: sound_def)
  then show ?case using step_sound [OF st s] d descends_trans descends_refl by auto
qed

lemma history_all_sound: "history K dec cmp h \<Longrightarrow> p \<in> set h \<Longrightarrow> sound p"
proof (induction rule: history.induct)
  case start
  then show ?case using sound_empty by simp
next
  case (next_db db h db')
  then show ?case using history_sound [OF history.next_db [OF next_db.hyps]] by auto
qed

lemma history_step:
  assumes "history K dec cmp (db' # db # h)" shows "step cmp db db'" and "sound db" and "sound db'"
proof -
  from assms have r: "history K dec cmp (db # h)" "request K dec cmp (db # h) db db'"
    by (auto elim: history.cases)
  have "sound db" "\<forall>p\<in>set (db # h). descends p db" using history_sound [OF r(1)] by simp_all
  then show "step cmp db db'" using request_refines_step [OF r(2) sound_known] by blast
  show "sound db" by fact
  show "sound db'" using history_all_sound [OF assms] by simp
qed

end
