(* ===== verification/BuildProps.thy ===== *)
theory BuildProps
  imports BuildInvariants
begin

text \<open>
  The properties of the server's build queue, over histories of concurrent handlers. The witnesses, on
  a history that runs a job from the queue to its release, are in \<open>BuildExample\<close>.
\<close>

section \<open>Refinement of the transition table\<close>


section \<open>Objects and releases\<close>


text \<open>
  Property C25. In every history, an object named in a row was uploaded, has not been deleted, and
  is named by no other row and no other column.
\<close>

theorem live_objects_are_kept:
  assumes "history K dec cmp h" and "db \<in> set h" and "j \<in> set (db_jobs db)" and "key_at c j = Some k"
  shows "k \<in> set (db_written db) \<and> k \<notin> set (db_deleted db)
         \<and> (\<forall>x\<in>set (db_jobs db). \<forall>d. key_at d x = Some k \<longrightarrow> x = j \<and> d = c)"
proof -
  have "keys_kept db" using history_all_sound [OF assms(1,2)] by (simp add: sound_def)
  then show ?thesis using kept_key [OF _ assms(4,3)] kept_one [OF _ _ assms(4) _ assms(3)] by blast
qed


section \<open>The release sequence\<close>

definition release_before :: "app_release \<Rightarrow> app_release \<Rightarrow> server_db \<Rightarrow> bool" where
  "release_before a b db \<longleftrightarrow> (\<exists>xs ys zs. db_releases db = xs @ a # ys @ b # zs)"

lemma release_before_wrt:
  "sorted_wrt P (db_releases db) \<Longrightarrow> release_before a b db \<Longrightarrow> P a b"
  by (auto simp: release_before_def sorted_wrt_append)

definition versions_increase :: "semver \<Rightarrow> server_db \<Rightarrow> bool" where
  "versions_increase cmp db \<longleftrightarrow>
     ((\<forall>r\<in>set (db_releases db). ar_version r \<noteq> None) \<longrightarrow>
      sorted_wrt (\<lambda>a b. same_sequence a b \<longrightarrow> 0 < cmp (null_string (ar_version b)) (null_string (ar_version a))) (db_releases db))"

lemma sorted_wrt_order:
  assumes "sorted_wrt P xs" "a \<in> set xs" "b \<in> set xs" "a \<noteq> b"
  shows "P a b \<or> P b a"
  using assms by (induction xs) auto

lemma sorted_wrt_both: "sorted_wrt P xs \<Longrightarrow> sorted_wrt Q xs \<Longrightarrow> sorted_wrt (\<lambda>a b. P a b \<and> Q a b) xs"
  by (induction xs) auto

lemma append_version:
  assumes "semver_ok cmp" and n: "numbers_increase db" and v: "versions_increase cmp db"
    and i: "increased_by cmp (latest_release_for (ar_tenant r) (ar_platform r) db) (null_string (ar_version r)) (ar_number r)"
    and db': "db_releases db' = db_releases db @ [r]"
  shows "versions_increase cmp db'"
  unfolding versions_increase_def
proof
  assume all: "\<forall>r\<in>set (db_releases db'). ar_version r \<noteq> None"
  let ?v = "\<lambda>r. null_string (ar_version r)"
  have old: "sorted_wrt (\<lambda>a b. same_sequence a b \<longrightarrow> 0 < cmp (?v b) (?v a)) (db_releases db)"
    using v all by (simp add: versions_increase_def db')
  have "0 < cmp (?v r) (?v a)" if a: "a \<in> set (db_releases db)" "same_sequence a r" for a
  proof -
    let ?seq = "sequence_of (ar_tenant r) (ar_platform r) db"
    have as: "a \<in> set ?seq" using a by (simp add: sequence_of_def same_sequence_def)
    then obtain g where g: "greatest_number ?seq = Some g" by (cases "greatest_number ?seq") auto
    have gs: "g \<in> set (db_releases db)" "same_sequence g r" using greatest_number_in [OF g] by (simp_all add: sequence_of_def same_sequence_def)
    have top: "0 < cmp (?v r) (?v g)"
      using i g gs(1) all by (auto simp: increased_by_def latest_release_for_def null_string_def db' split: option.splits)
    show ?thesis
    proof (cases "a = g")
      case False
      have ag: "same_sequence a g" "same_sequence g a" using a(2) gs(2) by (simp_all add: same_sequence_def)
      have P: "sorted_wrt (\<lambda>a b. (same_sequence a b \<longrightarrow> ar_number a < ar_number b)
          \<and> (same_sequence a b \<longrightarrow> 0 < cmp (?v b) (?v a))) (db_releases db)"
        using n old unfolding numbers_increase_def by (rule sorted_wrt_both)
      have "0 < cmp (?v g) (?v a)"
        using sorted_wrt_order [OF P a(1) gs(1) False] ag greatest_number_bound [OF g as] by auto
      then show ?thesis using assms(1) top unfolding semver_ok_def by blast
    qed (use top in simp)
  qed
  then show "sorted_wrt (\<lambda>a b. same_sequence a b \<longrightarrow> 0 < cmp (?v b) (?v a)) (db_releases db')"
    using old by (simp add: db' sorted_wrt_append)
qed

lemma step_versions:
  assumes "step cmp db db'" and "semver_ok cmp" "numbers_increase db" "versions_increase cmp db"
  shows "versions_increase cmp db'"
  using assms(1)
proof (cases rule: step.cases)
  case (release_step l l' r audit)
  then show ?thesis using append_version [OF assms(2-4) release_step(15)] by simp
next
  case (manual_step r audit)
  then show ?thesis using append_version [OF assms(2-4) manual_step(5)] by simp
qed (use assms(4) in \<open>simp_all add: versions_increase_def\<close>)

lemma history_versions: "history K dec cmp h \<Longrightarrow> semver_ok cmp \<Longrightarrow> p \<in> set h \<Longrightarrow> versions_increase cmp p"
proof (induction arbitrary: p rule: history.induct)
  case start
  then show ?case by (simp add: versions_increase_def empty_db_def)
next
  case (next_db db h db')
  note st = history_step [OF history.next_db [OF next_db.hyps]]
  have "versions_increase cmp db'"
    using step_versions [OF st(1) next_db.prems(1)] st(2) next_db.IH next_db.prems(1) by (simp add: sound_def)
  then show ?case using next_db by auto
qed


section \<open>Bounds and uniqueness\<close>

text \<open>
  Property C21. In every history, a job is claimed at most three times (an OTA job once) and fails
  at most twice in signing, a job in flight has failed in signing at most once, and the kept log
  has at most 200 clean lines of at most 2000 bytes.
\<close>

theorem attempts_bounded:
  assumes "history K dec cmp h" and "db \<in> set h" and "j \<in> set (db_jobs db)"
  shows "0 \<le> attempt_of j \<and> attempt_of j \<le> 3 \<and> (bj_kind j = KindOta \<longrightarrow> attempt_of j \<le> 1)
         \<and> 0 \<le> sp_failures (bj_sign j) \<and> sp_failures (bj_sign j) \<le> 2
         \<and> (bj_status j \<in> set in_flight_statuses \<longrightarrow> sp_failures (bj_sign j) < 2)
         \<and> (bj_status j = JobQueued \<longrightarrow> attempt_of j < 3)
         \<and> length (bj_log_tail j) \<le> 200 \<and> list_all (\<lambda>l. report_clean l \<and> length l \<le> 2000) (bj_log_tail j)"
proof -
  have "row_ok j" using history_all_sound [OF assms(1,2)] assms(3) by (simp add: sound_def rows_ok_def)
  then show ?thesis
    by (simp add: row_ok_def attempts_ok_def failures_ok_def log_ok_def max_build_attempts_def max_sign_failures_def build_job_log_tail_max_def)
qed

text \<open>
  Property C19. In every history, no two rows share an id, no machine builds two jobs at once, and
  no two rows break the unique index on a tenant's jobs.
\<close>

theorem claims_are_exclusive:
  assumes "history K dec cmp h" and "db \<in> set h" and "x \<in> set (db_jobs db)" and "y \<in> set (db_jobs db)" and "x \<noteq> y"
  shows "bj_id x \<noteq> bj_id y
         \<and> \<not> (active x \<and> active y \<and> bp_machine (bj_build x) = bp_machine (bj_build y))
         \<and> \<not> index_clash x y"
proof -
  have s: "sound db" by (rule history_all_sound [OF assms(1,2)])
  then have "bj_id x \<noteq> bj_id y" using same_row assms(3-5) by (auto simp: sound_def)
  then show ?thesis using s assms(3-5) unfolding sound_def machines_ok_def index_ok_def by blast
qed

section \<open>Reports of a claim that is over\<close>

lemma no_current_signing:
  assumes "history K dec cmp (db # h)" and "p \<in> set (db # h)" and "find_job i p = Some j" and "claim_over a j"
    and "l \<in> set (db_jobs db)" "bj_id l = i"
  shows "\<not> signing_guard a m l" and "\<not> (bj_status l = JobSigning \<and> sign_attempt_of l = a)"
proof -
  have s: "sound db" "descends p db" using history_sound [OF assms(1)] assms(2) by auto
  have "row_changes j l"
    using descends_row [OF _ s(2)] s(1) find_job_Some [OF assms(3)] assms(5,6) by (simp add: sound_def)
  then have "claim_over a l" using changes_claim_over assms(4) by blast
  then show "\<not> signing_guard a m l" "\<not> (bj_status l = JobSigning \<and> sign_attempt_of l = a)"
    by (auto simp: claim_over_def signing_guard_def)
qed

lemma update_where_none:
  assumes "\<And>j. j \<in> set (db_jobs db) \<Longrightarrow> bj_id j = i \<Longrightarrow> \<not> cond j"
  shows "update_where i cond f db = (0, db)"
proof -
  have "[j \<leftarrow> db_jobs db. bj_id j = i \<and> cond j \<and> f j \<noteq> j] = []" using assms by (auto simp: filter_empty_conv)
  moreover have "map (\<lambda>j. if bj_id j = i \<and> cond j then f j else j) (db_jobs db) = db_jobs db"
    using assms by (intro map_idI) auto
  ultimately show ?thesis by (simp add: update_where_def)
qed

lemma transition_none:
  assumes "\<And>j. j \<in> set (db_jobs db) \<Longrightarrow> bj_id j = i \<Longrightarrow> \<not> jt_where t j"
  shows "transition_build_job commits i t db = (Inr None, db)"
proof -
  have "find (\<lambda>j. bj_id j = i \<and> jt_where t j) (db_jobs db) = None" using assms by (auto simp: find_None_iff)
  then show ?thesis by (simp add: transition_build_job_def)
qed

text \<open>
  Property C12. Once a signing claim has been reaped, replaced or finished, no report of the gate
  that held it changes a row or a release: heartbeats are refused, and an upload that comes too
  late is deleted again.
\<close>

theorem ended_claim_changes_nothing:
  assumes "history K dec cmp (db # h)" and "p \<in> set (db # h)" and "find_job i p = Some j" and "claim_over a j"
    and "attempt_from_header header = Some a" and "bj_id job = i" and "sign_attempt_of job = a"
  shows "signing_heartbeat m header now i True db = (sign_stale, db)
         \<and> snd (release_signing_job m header body now i commits db) = db
         \<and> snd (reject_signing_job m body now job commits db) = db
         \<and> (\<exists>written deleted. snd (upload_signed m key received now job commits db)
              = db\<lparr>db_written := db_written db @ written, db_deleted := db_deleted db @ deleted\<rparr>
              \<and> set written \<subseteq> {key} \<and> set deleted \<subseteq> set written)
         \<and> snd (with_release_sequence outcome code (complete_transaction cmp m x b package a release_id now job) db) = db"
proof -
  have none: "\<not> signing_guard a m l" "\<not> (bj_status l = JobSigning \<and> sign_attempt_of l = a)"
    if "l \<in> set (db_jobs db)" "bj_id l = i" for l
    using no_current_signing [OF assms(1-4) that] by blast+
  have hb: "signing_heartbeat m header now i True db = (sign_stale, db)"
    using none(1) by (auto simp: signing_heartbeat_def assms(5) refresh_signing_heartbeat_def update_where_none rows_matched_def filter_empty_conv)
  have rel: "snd (release_signing_job m header body now i commits db) = db"
    using none(1) by (auto simp: release_signing_job_def assms(5) transition_none split: option.splits)
  have rej: "snd (reject_signing_job m body now job commits db) = db"
    using none(1) by (auto simp: reject_signing_job_def assms(6,7) transition_none Let_def split: option.splits)
  have "find (\<lambda>l. bj_id l = i \<and> signing_guard a m l) (db_jobs db) = None" using none(1) by (auto simp: find_None_iff)
  then have up: "\<exists>written deleted. snd (upload_signed m key received now job commits db)
      = db\<lparr>db_written := db_written db @ written, db_deleted := db_deleted db @ deleted\<rparr>
      \<and> set written \<subseteq> {key} \<and> set deleted \<subseteq> set written"
  proof (cases received)
    case (Inr v)
    show ?thesis
      by (rule exI [of _ "[key]"], rule exI [of _ "[key]"])
        (use \<open>find _ _ = None\<close> Inr in \<open>auto simp: upload_signed_def record_delivered_object_def delete_objects_def assms(6,7) split: prod.splits\<close>)
  next
    case (Inl answer)
    show ?thesis
      by (rule exI [of _ "[]"], rule exI [of _ "[]"]) (simp add: upload_signed_def Inl)
  qed
  have "d = db" if "complete_transaction cmp m x b package a release_id now job db = Inr (y, d)" for y d
    using that none(2) find_job_Some [of i db] by (auto simp: complete_transaction_def Let_def assms(6) split: option.splits if_splits)
  then have "snd (with_release_sequence outcome code (complete_transaction cmp m x b package a release_id now job) db) = db"
    by (auto simp: with_release_sequence_def split: sequence_outcome.splits sum.splits prod.splits)
  then show ?thesis using hb rel rej up by blast
qed

end
