(* ===== verification/BuildAnswers.thy ===== *)
theory BuildAnswers
  imports BuildInvariants
begin

text \<open>
  What single handlers answer: that a heartbeat is confirmed exactly for the current claim, that a
  refusal leaves every job and release alone, and that what the server dispatches is what the gate
  accepts.
\<close>

section \<open>Heartbeats\<close>

lemma one_row:
  "distinct (map bj_id js) \<Longrightarrow> length [j \<leftarrow> js. bj_id j = i \<and> P j] = (if \<exists>j\<in>set js. bj_id j = i \<and> P j then 1 else 0)"
proof (induction js)
  case (Cons j js)
  have "[x \<leftarrow> js. bj_id x = i \<and> P x] = []" if "bj_id j = i"
    using Cons.prems that by (auto simp: filter_empty_conv image_iff)
  then show ?case using Cons by auto
qed simp

text \<open>MySQL counts changed rows; \<open>rowsMatched\<close> makes of it whether the condition held.\<close>

lemma rows_matched_iff:
  assumes "distinct_ids db" and "update_where i cond f db = (n, db')"
  shows "rows_matched n i cond db' \<longleftrightarrow> (\<exists>j\<in>set (db_jobs db). bj_id j = i \<and> cond j)"
proof (cases "\<exists>j\<in>set (db_jobs db). bj_id j = i \<and> cond j \<and> f j \<noteq> j")
  case True
  have "n = length [j \<leftarrow> db_jobs db. bj_id j = i \<and> (cond j \<and> f j \<noteq> j)]" using assms(2) by (simp add: update_where_def)
  then have "n = 1" using one_row [of "db_jobs db" i "\<lambda>j. cond j \<and> f j \<noteq> j"] assms(1) True by (simp add: distinct_ids_def)
  then show ?thesis using True by (auto simp: rows_matched_def)
next
  case False
  have n: "n = length [j \<leftarrow> db_jobs db. bj_id j = i \<and> (cond j \<and> f j \<noteq> j)]" using assms(2) by (simp add: update_where_def)
  then have "n = 0" using False by (auto simp: filter_empty_conv)
  moreover have "map (\<lambda>j. if bj_id j = i \<and> cond j then f j else j) (db_jobs db) = db_jobs db"
    using False by (intro map_idI) auto
  then have "db' = db" using assms(2) by (simp add: update_where_def)
  ultimately show ?thesis
    using one_row [of "db_jobs db" i cond] assms(1) by (auto simp: rows_matched_def distinct_ids_def)
qed

text \<open>
  Property C29. In every history, a heartbeat of a builder or a gate is answered with success
  exactly when the machine holds the current claim of that attempt; the answer does not depend on
  whether the row's values changed.
\<close>

theorem heartbeat_confirms_exactly_the_current_claim:
  assumes "history K dec cmp (db # h)" and "attempt_from_header header = Some a"
  shows "(fst (build_job_heartbeat m header (Some lines) now i True db) = NoContent \<longleftrightarrow>
            (\<exists>j\<in>set (db_jobs db). bj_id j = i \<and> builder_guard a m j))
         \<and> (fst (signing_heartbeat m header now i True db) = NoContent \<longleftrightarrow>
            (\<exists>j\<in>set (db_jobs db). bj_id j = i \<and> signing_guard a m j))"
proof -
  have d: "distinct_ids db" using history_all_sound [OF assms(1), of db] by (simp add: sound_def)
  let ?f = "\<lambda>j. j\<lparr>bj_status := JobRunning, bj_heartbeat_at := Some now, bj_log_tail := clamp_log_tail lines, bj_updated_at := now\<rparr>"
  obtain n d1 where u: "update_where i (builder_guard a m) ?f db = (n, d1)" by fastforce
  obtain k d2 where v: "update_where i (signing_guard a m) (sign_heartbeat_set now) db = (k, d2)" by fastforce
  show ?thesis
    using rows_matched_iff [OF d u] rows_matched_iff [OF d v]
    by (simp add: build_job_heartbeat_def signing_heartbeat_def refresh_signing_heartbeat_def assms(2) u v attempt_stale_def sign_stale_def)
qed

section \<open>Refusals\<close>

definition same_rows :: "server_db \<Rightarrow> server_db \<Rightarrow> bool" where
  "same_rows db db' \<longleftrightarrow> db_jobs db' = db_jobs db \<and> db_releases db' = db_releases db"

lemma same_rows_refl [intro, simp]: "same_rows db db"
  by (simp add: same_rows_def)

lemma transition_refused:
  assumes "transition_build_job commits i t db = (c, db')" and "c = Inl () \<or> c = Inr None" shows "db' = db"
  using assms by (auto simp: transition_build_job_def split: option.splits if_splits)

lemma sequence_refused:
  assumes "with_release_sequence outcome code f db = (Problem n why, db')" and "\<And>a d. f db = Inr (a, d) \<Longrightarrow> a = Problem n why \<Longrightarrow> d = db"
  shows "db' = db"
  using assms by (auto simp: with_release_sequence_def split: sequence_outcome.splits sum.splits prod.splits)

lemma fail_refused:
  assumes "fail_build_job m header report now i requeue_commits commits db = (Problem n why, db')" shows "db' = db"
proof -
  have orphan: "(r, d) = requeue_orphaned m a now i c db \<Longrightarrow> r \<noteq> Some NoContent \<Longrightarrow> d = db" for r d a c
    by (auto simp: requeue_orphaned_def split: prod.splits sum.splits option.splits dest: transition_refused)
  show ?thesis
    using assms orphan [OF sym]
    by (auto simp: fail_build_job_def Let_def split: option.splits if_splits prod.splits sum.splits dest: transition_refused)
qed


section \<open>What the gate receives\<close>

text \<open>
  What the configuration of a ready tenant is: a registered slug, a keystore record whose box has the
  shape of one. A builder's key was registered as the encoding of 32 bytes.
\<close>

definition readiness_ok :: "sign_readiness \<Rightarrow> bool" where
  "readiness_ok r \<longleftrightarrow>
     valid_tenant_slug (rd_slug r) \<and> valid_package_name (rd_package r) \<and> fingerprint_valid (rd_cert r)
     \<and> fingerprint_valid (rd_digest r) \<and> 0 \<le> rd_version r
     \<and> (case rd_box r of None \<Rightarrow> True | Some b \<Rightarrow> box_validate_shape b)"

definition registered_key :: "bytes \<Rightarrow> bool" where
  "registered_key k \<longleftrightarrow> (\<exists>pub. k = b64_encode pub \<and> length pub = 32)"

lemma version_printable: "valid_version_name v \<Longrightarrow> v \<noteq> [] \<and> length v \<le> 64 \<and> printable_ascii v \<and> CHR '' '' \<notin> set v"
proof -
  assume v: "valid_version_name v"
  then have "byte_in 0x21 0x7E c" if "c \<in> set v" for c using that by (auto simp: valid_version_name_def list_all_iff)
  moreover have "byte_in 0x21 0x7E c \<Longrightarrow> byte_in 0x20 0x7E c" for c by (auto simp: byte_in_def)
  moreover have "\<not> byte_in 0x21 0x7E (CHR '' '')" by (simp add: byte_in_def)
  ultimately show ?thesis using v by (auto simp: valid_version_name_def printable_ascii_def list_all_iff)
qed

lemma dispatched_claim:
  assumes "signing_dispatch r job m ready = Some answer" and "readiness_ok r" and "row_ok job"
    and p: "bp_provenance (bj_build job) = Some p" "registered_key (pr_public_key p)" "length (pr_signature p) \<le> 256"
    and sz: "dc_size (bp_unsigned (bj_build job)) = Some n" "n \<le> ApkTypes.max_file_size default_apk_limits"
  shows "validate_claim answer = None"
proof -
  have s: "signable job" using assms(3) p(1) by (simp add: row_ok_def provenance_ok_def)
  then obtain c u sb nf where f: "bj_commit job = Some c" "valid_commit c" "dc_sha256 (bp_unsigned (bj_build job)) = Some u" "fingerprint_valid u"
      "dc_sha256 (bp_sbom (bj_build job)) = Some sb" "fingerprint_valid sb" "bp_native (bj_build job) = Some nf" "valid_native_fingerprint nf"
    by (auto simp: signable_def)
  obtain bx rts where r: "rd_box r = Some bx" "rd_roots r = Some rts"
    using assms(1) by (auto simp: signing_dispatch_def split: if_splits option.splits)
  have a: "answer = \<lparr>cl_job = \<lparr>cj_id = bj_id job, cj_tenant = rd_slug r, cj_platform = bj_platform job,
        cj_version = bj_version job, cj_build_number = bj_number job, cj_attempt = attempt_of job,
        cj_sign_attempt = sign_attempt_of job + 1, cj_commit_sha = c, cj_unsigned_sha256 = u, cj_unsigned_size = n,
        cj_sbom_sha256 = sb, cj_native_fingerprint = nf\<rparr>,
      cl_provenance = \<lparr>cp_statement = pr_statement p, cp_signature = pr_signature p, cp_builder_id = pr_builder p,
        cp_builder_public_key = pr_public_key p, cp_builder_public_key_sha256 = pr_public_key_sha256 p\<rparr>,
      cl_keystore = \<lparr>ck_version = rd_version r, ck_package = rd_package r, ck_cert = rd_cert r, ck_alias = rd_alias r, ck_box = bx\<rparr>,
      cl_roots = Some rts, cl_digest = rd_digest r\<rparr>"
    using assms(1) f p(1) sz(1) r by (simp add: signing_dispatch_def split: if_splits)
  have "validate_claim_job (cl_job answer) = None"
    using s f sz assms(2) version_printable [of "bj_version job"]
    by (auto simp: a validate_claim_job_def signable_def readiness_ok_def platform_android_def)
  moreover have "validate_claim_provenance (cl_provenance answer) = None"
  proof -
    have "b64_encoded_len max_statement_size \<le> 65536" by (simp add: b64_encoded_len_def max_statement_size_def)
    then show ?thesis using s p by (auto simp: a validate_claim_provenance_def signable_def registered_key_def)
  qed
  moreover have "validate_claim_keystore answer = None"
    using assms(2) r by (simp add: a validate_claim_keystore_def readiness_ok_def)
  ultimately show ?thesis by (simp add: validate_claim_def result_simps)
qed


end
