(* ===== verification/BuildLiveness.thy ===== *)
theory BuildLiveness
  imports BuildInvariants
begin

text \<open>
  Progress: the reaper leaves no silent claim behind, and a job takes finitely many turns unless the
  gate defers it again and again.
\<close>

section \<open>The reaper\<close>

text \<open>One kind of claim that can fall silent, and what reaping one row does to the table.\<close>

locale reaping =
  fixes reap :: "build_job \<Rightarrow> server_db \<Rightarrow> server_db" and stale calm :: "build_job \<Rightarrow> bool"
  assumes reap_row: "distinct_ids d \<Longrightarrow> item \<in> set (db_jobs d) \<Longrightarrow> stale item \<Longrightarrow>
      \<exists>l. db_jobs (reap item d) = replace_job l (db_jobs d) \<and> bj_id l = bj_id item \<and> calm l"
    and calm_not_stale: "calm j \<Longrightarrow> \<not> stale j"
begin

definition sweep :: "build_job list \<Rightarrow> server_db \<Rightarrow> server_db" where
  "sweep items d = foldl (\<lambda>d item. reap item d) d items"

lemma sweep_rows:
  assumes "distinct_ids d" "distinct (map bj_id items)" "set items \<subseteq> set (db_jobs d)" "list_all stale items"
  shows "map bj_id (db_jobs (sweep items d)) = map bj_id (db_jobs d)
    \<and> (\<forall>x\<in>set (db_jobs (sweep items d)). x \<in> set (db_jobs d) \<and> bj_id x \<notin> bj_id ` set items \<or> bj_id x \<in> bj_id ` set items \<and> calm x)
    \<and> (\<forall>x\<in>set (db_jobs d). bj_id x \<notin> bj_id ` set items \<longrightarrow> x \<in> set (db_jobs (sweep items d)))"
  using assms
proof (induction items arbitrary: d)
  case (Cons a items)
  obtain l where l: "db_jobs (reap a d) = replace_job l (db_jobs d)" "bj_id l = bj_id a" "calm l"
    using reap_row [OF Cons.prems(1)] Cons.prems(3,4) by auto
  let ?d = "reap a d"
  have ids: "map bj_id (db_jobs ?d) = map bj_id (db_jobs d)" by (simp add: l(1))
  have a: "bj_id a \<notin> bj_id ` set items" using Cons.prems(2) by simp
  have sub: "set items \<subseteq> set (db_jobs ?d)"
  proof
    fix x assume "x \<in> set items"
    then have "x \<in> set (db_jobs d)" "bj_id x \<noteq> bj_id l" using Cons.prems(3) a l(2) by (auto simp: image_iff)
    then show "x \<in> set (db_jobs ?d)" unfolding l(1) by (rule replace_old)
  qed
  have IH: "map bj_id (db_jobs (sweep items ?d)) = map bj_id (db_jobs ?d)
    \<and> (\<forall>x\<in>set (db_jobs (sweep items ?d)). x \<in> set (db_jobs ?d) \<and> bj_id x \<notin> bj_id ` set items \<or> bj_id x \<in> bj_id ` set items \<and> calm x)
    \<and> (\<forall>x\<in>set (db_jobs ?d). bj_id x \<notin> bj_id ` set items \<longrightarrow> x \<in> set (db_jobs (sweep items ?d)))"
    using Cons.IH [of ?d] Cons.prems(1,2,4) sub ids by (simp add: distinct_ids_def)
  have s: "sweep (a # items) d = sweep items ?d" by (simp add: sweep_def)
  have one: "x \<in> set (db_jobs d) \<and> bj_id x \<noteq> bj_id a \<or> bj_id x = bj_id a \<and> calm x" if "x \<in> set (db_jobs ?d)" for x
    using that unfolding l(1) by (cases rule: in_replace) (use l in auto)
  have kept: "x \<in> set (db_jobs ?d)" if "x \<in> set (db_jobs d)" "bj_id x \<noteq> bj_id a" for x
    using replace_old [of x "db_jobs d" l] that l by simp
  show ?case using IH one kept ids unfolding s by (auto simp: image_iff)
qed (simp add: sweep_def)

definition sweep_all :: "server_db \<Rightarrow> server_db" where
  "sweep_all d = sweep [j \<leftarrow> db_jobs d. stale j] d"

lemma sweep_all_rows:
  assumes "distinct_ids d"
  shows "map bj_id (db_jobs (sweep_all d)) = map bj_id (db_jobs d)"
    and "x \<in> set (db_jobs (sweep_all d)) \<Longrightarrow> x \<in> set (db_jobs d) \<and> \<not> stale x \<or> calm x"
    and "x \<in> set (db_jobs d) \<Longrightarrow> \<not> stale x \<Longrightarrow> x \<in> set (db_jobs (sweep_all d))"
proof -
  let ?items = "[j \<leftarrow> db_jobs d. stale j]"
  have d: "distinct (map bj_id ?items)" using assms by (simp add: distinct_ids_def distinct_map_filter)
  note r = sweep_rows [OF assms d, folded sweep_all_def]
  have ns: "bj_id x \<notin> bj_id ` set ?items" if "x \<in> set (db_jobs d)" "\<not> stale x" for x
    using same_row [OF assms that(1)] that(2) by force
  show "map bj_id (db_jobs (sweep_all d)) = map bj_id (db_jobs d)" using r by (simp add: list_all_iff)
  show "x \<in> set (db_jobs (sweep_all d)) \<Longrightarrow> x \<in> set (db_jobs d) \<and> \<not> stale x \<or> calm x"
    using r by (auto simp: list_all_iff)
  show "x \<in> set (db_jobs d) \<Longrightarrow> \<not> stale x \<Longrightarrow> x \<in> set (db_jobs (sweep_all d))"
    using r ns by (auto simp: list_all_iff)
qed

lemma sweep_all_calms: "distinct_ids d \<Longrightarrow> x \<in> set (db_jobs (sweep_all d)) \<Longrightarrow> \<not> stale x"
  using sweep_all_rows(2) calm_not_stale by blast

end

text \<open>A sweep next to another kind of claim: it never makes one of those stale.\<close>

locale reaping_beside = reaping +
  fixes other :: "build_job \<Rightarrow> bool"
  assumes calm_not_other: "calm j \<Longrightarrow> \<not> other j"
begin

lemma sweep_all_beside:
  "distinct_ids d \<Longrightarrow> (\<And>x. x \<in> set (db_jobs d) \<Longrightarrow> \<not> other x) \<Longrightarrow> x \<in> set (db_jobs (sweep_all d)) \<Longrightarrow> \<not> other x"
  using sweep_all_rows(2) calm_not_other by blast

end

definition released_claim :: "build_job \<Rightarrow> bool" where
  "released_claim j \<longleftrightarrow> bj_status j = JobQueued \<or> bj_status j = JobBuilt \<or> bj_status j = JobFailed"

lemma released_sets [simp]:
  "released_claim (requeue_set now j)" "released_claim (sign_timeout_set now item failed j)"
  "released_claim (j\<lparr>bj_status := JobFailed, bj_failure := why, bj_updated_at := now\<rparr>)"
  by (simp_all add: released_claim_def requeue_set_def sign_timeout_set_def)

lemma reap_one:
  assumes "distinct_ids d" "item \<in> set (db_jobs d)" "bj_id item = i" "jt_where t item" "\<And>j. bj_id (jt_set t j) = bj_id j"
    "snd (transition_build_job True i t d) = d'" "released_claim (jt_set t item)"
  shows "\<exists>l. db_jobs d' = replace_job l (db_jobs d) \<and> bj_id l = i \<and> released_claim l"
proof -
  obtain c where t: "transition_build_job True i t d = (c, d')" using assms(6) by (cases "transition_build_job True i t d") simp
  from assms(1) t assms(5) show ?thesis
  proof (cases rule: transition_cases)
    case none
    then show ?thesis using assms(2-4) by blast
  next
    case (one l)
    then have "l = item" using same_row [OF assms(1) one(1) assms(2)] assms(3) by simp
    then show ?thesis using one assms(3,5,7) by (intro exI [of _ "clear_columns (jt_release t) (jt_set t item)"]) (simp add: released_claim_def)
  qed
qed

lemma reap_build_row:
  assumes "distinct_ids d" "item \<in> set (db_jobs d)" "stale_build now item"
  shows "\<exists>l. db_jobs (reap_build now True item d) = replace_job l (db_jobs d) \<and> bj_id l = bj_id item \<and> released_claim l"
  unfolding reap_build_def Let_def
  using assms(3)
  by (auto intro!: reap_one [OF assms(1,2) refl])

lemma reap_signing_row:
  assumes "distinct_ids d" "item \<in> set (db_jobs d)" "stale_signing now item"
  shows "\<exists>l. db_jobs (reap_signing now True item d) = replace_job l (db_jobs d) \<and> bj_id l = bj_id item \<and> released_claim l"
  unfolding reap_signing_def Let_def
  using assms(3)
  by (intro reap_one [OF assms(1,2) refl]) (auto simp: stale_signing_def)

interpretation builds: reaping_beside "reap_build now True" "stale_build now" released_claim "stale_signing now" for now
  by unfold_locales (simp add: reap_build_row, auto simp: released_claim_def stale_build_def stale_signing_def)

interpretation signings: reaping_beside "reap_signing now True" "stale_signing now" released_claim "stale_build now" for now
  by unfold_locales (simp add: reap_signing_row, auto simp: released_claim_def stale_build_def stale_signing_def)

lemma reap_stale_builds_sweep: "reap_stale_builds now d = builds.sweep_all now d"
  by (simp add: reap_stale_builds_def builds.sweep_all_def builds.sweep_def)

lemma reap_stale_signings_sweep: "reap_stale_signings now d = signings.sweep_all now d"
  by (simp add: reap_stale_signings_def signings.sweep_all_def signings.sweep_def)


section \<open>Every job comes to an end\<close>

fun rank_of :: "job_status \<Rightarrow> int \<Rightarrow> int \<Rightarrow> int" where
  "rank_of JobClaimed a f = 10 * (max_build_attempts - a) + 8"
| "rank_of JobRunning a f = 10 * (max_build_attempts - a) + 7"
| "rank_of JobQueued a f = 10 * (max_build_attempts - a) + 6"
| "rank_of JobBuilt a f = 10 * (max_build_attempts - a) + 2 * (max_sign_failures - f) + 1"
| "rank_of JobSigning a f = 10 * (max_build_attempts - a) + 2 * (max_sign_failures - f)"
| "rank_of _ a f = 0"

definition rank :: "build_job \<Rightarrow> int" where
  "rank j = rank_of (bj_status j) (attempt_of j) (sp_failures (bj_sign j))"

definition same_turn :: "build_job \<Rightarrow> build_job \<Rightarrow> bool" where
  "same_turn j k \<longleftrightarrow> bj_status k = bj_status j \<and> attempt_of k = attempt_of j \<and> sp_failures (bj_sign k) = sp_failures (bj_sign j)"

definition deferral :: "build_job \<Rightarrow> build_job \<Rightarrow> bool" where
  "deferral j k \<longleftrightarrow> bj_status j = JobSigning \<and> bj_status k = JobBuilt \<and> attempt_of k = attempt_of j
     \<and> sp_failures (bj_sign k) = sp_failures (bj_sign j)"

lemma rank_same: "same_turn j k \<Longrightarrow> rank k = rank j"
  by (simp add: same_turn_def rank_def)

lemma rank_deferral: "deferral j k \<Longrightarrow> rank k = rank j + 1"
  by (simp add: deferral_def rank_def)

lemma rank_terminal: "bj_status j \<in> set terminal_statuses \<Longrightarrow> rank j = 0"
  by (cases "bj_status j") (simp_all add: terminal_statuses_def rank_def)

lemma rank_in_flight: "rank j \<noteq> 0 \<Longrightarrow> bj_status j \<in> set in_flight_statuses"
  using rank_terminal in_flight_not_terminal by blast

lemma rank_positive:
  assumes "row_ok j" and "bj_status j \<in> set in_flight_statuses" shows "2 \<le> rank j"
proof -
  have "attempt_of j \<le> max_build_attempts" "sp_failures (bj_sign j) < max_sign_failures"
    using assms by (auto simp: row_ok_def attempts_ok_def failures_ok_def)
  then show ?thesis using assms(2)
    by (cases "bj_status j") (simp_all add: rank_def in_flight_statuses_def)
qed

text \<open>The last digit of a rank tells the status and the failures, the rest the attempts.\<close>

definition rank_digit :: "job_status \<Rightarrow> int \<Rightarrow> int" where
  "rank_digit s f = (case s of JobClaimed \<Rightarrow> 8 | JobRunning \<Rightarrow> 7 | JobQueued \<Rightarrow> 6 | JobBuilt \<Rightarrow> 5 - 2 * f | _ \<Rightarrow> 4 - 2 * f)"

lemma digit_split: "r = d + 10 * q \<Longrightarrow> 0 \<le> d \<Longrightarrow> d < 10 \<Longrightarrow> r mod 10 = d \<and> r div 10 = q" for r d q :: int
  by simp

lemma rank_of_digit:
  assumes "f = 0 \<or> f = 1" and "rank_of s a f \<noteq> 0"
  shows "rank_of s a f mod 10 = rank_digit s f \<and> rank_of s a f div 10 = max_build_attempts - a"
proof -
  have "rank_of s a f = rank_digit s f + 10 * (max_build_attempts - a)" "0 \<le> rank_digit s f" "rank_digit s f < 10"
    using assms by (cases s; auto simp: rank_digit_def max_sign_failures_def)+
  then show ?thesis by (rule digit_split)
qed

lemma rank_of_injective:
  assumes "f = 0 \<or> f = 1" "g = 0 \<or> g = 1" "rank_of s a f = rank_of t b g" "rank_of s a f \<noteq> 0"
  shows "s = t \<and> a = b \<and> (s = JobBuilt \<or> s = JobSigning \<longrightarrow> f = g)"
proof -
  have t: "rank_of t b g \<noteq> 0" using assms(3,4) by simp
  have "rank_digit s f = rank_digit t g" "a = b"
    using rank_of_digit [OF assms(1,4)] rank_of_digit [OF assms(2) t] assms(3) by simp_all
  then show ?thesis using assms(1,2,4) t by (elim disjE; cases s; cases t) (simp_all add: rank_digit_def)
qed

lemma row_change_turn:
  assumes "row_change j e k" and "bj_status k \<in> set in_flight_statuses"
  shows "same_turn j k \<or> deferral j k
    \<or> bj_status j = JobQueued \<and> bj_status k = JobClaimed \<and> attempt_of k = attempt_of j + 1
    \<or> bj_status j = JobClaimed \<and> bj_status k = JobRunning \<and> attempt_of k = attempt_of j
    \<or> active j \<and> bj_status k = JobQueued \<and> attempt_of k = attempt_of j
    \<or> active j \<and> bj_status k = JobBuilt \<and> attempt_of k = attempt_of j \<and> 0 \<le> sp_failures (bj_sign k) - sp_failures (bj_sign j)
    \<or> bj_status j = JobBuilt \<and> bj_status k = JobSigning \<and> attempt_of k = attempt_of j \<and> sp_failures (bj_sign k) = sp_failures (bj_sign j)
    \<or> bj_status j = JobSigning \<and> bj_status k = JobBuilt \<and> attempt_of k = attempt_of j \<and> sp_failures (bj_sign k) = sp_failures (bj_sign j) + 1"
  using assms
  by (cases rule: row_change.cases)
    (simp_all add: same_turn_def deferral_def row_sets active_def in_flight_statuses_def split: if_splits, auto)

lemma row_change_rank:
  assumes c: "row_change j e k" and ok: "row_ok j" shows "rank k < rank j \<or> same_turn j k \<or> deferral j k"
proof (cases "bj_status k \<in> set in_flight_statuses")
  case True
  have "row_ok k" by (rule row_change_ok [OF c ok])
  then have k: "0 \<le> sp_failures (bj_sign k)" by (simp add: row_ok_def failures_ok_def)
  from row_change_turn [OF c True] show ?thesis
    using k by (auto simp: rank_def active_def max_sign_failures_def)
next
  case False
  then have "rank k = 0" using rank_terminal in_flight_not_terminal by blast
  then show ?thesis using rank_positive [OF ok row_change_in_flight [OF c]] by simp
qed


lemma rank_injective:
  assumes "row_ok j" "row_ok k" "rank k = rank j" "rank j \<noteq> 0" shows "bj_status k = bj_status j \<and> attempt_of k = attempt_of j
    \<and> (bj_status j = JobBuilt \<or> bj_status j = JobSigning \<longrightarrow> sp_failures (bj_sign k) = sp_failures (bj_sign j))"
proof -
  have "bj_status j \<in> set in_flight_statuses" "bj_status k \<in> set in_flight_statuses"
    using rank_in_flight assms(3,4) by simp_all
  then have "sp_failures (bj_sign j) = 0 \<or> sp_failures (bj_sign j) = 1" "sp_failures (bj_sign k) = 0 \<or> sp_failures (bj_sign k) = 1"
    using assms(1,2) by (auto simp: row_ok_def failures_ok_def max_sign_failures_def)
  from rank_of_injective [OF this] show ?thesis
    using assms(3,4) unfolding rank_def by metis
qed

text \<open>Several changes in a row rank lower, unless they amount to nothing or to a deferral.\<close>

definition near :: "build_job \<Rightarrow> build_job \<Rightarrow> bool" where
  "near j k \<longleftrightarrow> rank k < rank j \<or> rank k = rank j \<and> bj_status k = bj_status j \<or> deferral j k"

lemma near_step:
  assumes n: "near j k" and c: "row_change k e l" and ok: "row_ok j" "row_ok k"
  shows "near j l"
proof -
  have k: "2 \<le> rank k" by (rule rank_positive [OF ok(2) row_change_in_flight [OF c]])
  have j: "rank k \<le> rank j + 1" "rank j \<noteq> 0" using n k rank_deferral by (auto simp: near_def)
  have lower: "near j l" if "rank l \<le> rank j"
    using that rank_injective [OF ok(1) row_change_ok [OF c ok(2)] _ j(2)] by (cases "rank l = rank j") (simp_all add: near_def)
  from row_change_rank [OF c ok(2)] consider "rank l < rank k" | "same_turn k l" | "deferral k l" by blast
  then show ?thesis
  proof cases
    case 2
    then show ?thesis using n rank_same [OF 2] by (auto simp: near_def same_turn_def deferral_def)
  next
    case 3
    then have l: "bj_status k = JobSigning" "rank l = rank k + 1" using rank_deferral by (simp_all add: deferral_def)
    from n l(1) consider "rank k < rank j" | "rank k = rank j" by (auto simp: near_def deferral_def)
    then show ?thesis
    proof cases
      case 2
      then have "deferral j l" using rank_injective [OF ok 2 j(2)] 3 l(1) by (simp add: deferral_def)
      then show ?thesis by (simp add: near_def)
    qed (use l lower in simp)
  qed (use j lower in simp)
qed

lemma changes_near: "row_changes j k \<Longrightarrow> row_ok j \<Longrightarrow> near j k"
proof (induction rule: row_changes.induct)
  case (changes_step j k e l)
  then show ?case using near_step changes_ok by blast
qed (simp add: near_def)

subsection \<open>Along a history\<close>

text \<open>How often the status of a job changed, and how often that was a deferral; the current database first.\<close>

definition turned :: "bytes \<Rightarrow> server_db \<Rightarrow> server_db \<Rightarrow> (build_job \<Rightarrow> build_job \<Rightarrow> bool) \<Rightarrow> nat" where
  "turned i db db' P = (case (find_job i db, find_job i db') of (Some j, Some k) \<Rightarrow> if P j k then 1 else 0 | _ \<Rightarrow> 0)"

fun count_turns :: "bytes \<Rightarrow> (build_job \<Rightarrow> build_job \<Rightarrow> bool) \<Rightarrow> server_db list \<Rightarrow> nat" where
  "count_turns i P (db' # db # h) = turned i db db' P + count_turns i P (db # h)"
| "count_turns i P _ = 0"

definition status_changes :: "bytes \<Rightarrow> server_db list \<Rightarrow> nat" where
  "status_changes i h = count_turns i (\<lambda>j k. bj_status k \<noteq> bj_status j) h"

definition deferrals :: "bytes \<Rightarrow> server_db list \<Rightarrow> nat" where
  "deferrals i h = count_turns i deferral h"

definition rank_at :: "bytes \<Rightarrow> server_db \<Rightarrow> int" where
  "rank_at i db = (case find_job i db of None \<Rightarrow> 36 | Some j \<Rightarrow> rank j)"

lemma find_job_iff: "distinct_ids db \<Longrightarrow> find_job i db = Some j \<longleftrightarrow> j \<in> set (db_jobs db) \<and> bj_id j = i"
proof
  assume d: "distinct_ids db" and j: "j \<in> set (db_jobs db) \<and> bj_id j = i"
  then obtain k where k: "find_job i db = Some k" by (cases "find_job i db") (auto simp: find_job_def find_None_iff)
  then show "find_job i db = Some j" using find_job_Some [OF k] same_row [OF d, of k j] j by simp
qed (rule find_job_Some)

lemma new_row_rank:
  assumes "step cmp db db'" "distinct_ids db" "distinct_ids db'" "rows_ok db'" "find_job i db = None" "find_job i db' = Some k"
  shows "rank k \<le> 36"
proof -
  have k: "k \<in> set (db_jobs db')" "bj_id k = i" using find_job_Some [OF assms(6)] by simp_all
  have new: "bj_id x \<noteq> i" if "x \<in> set (db_jobs db)" for x
    using assms(2,5) that find_job_iff [OF assms(2), of i x] by auto
  have "bj_status k = JobQueued"
    using assms(1)
  proof (cases rule: step_jobs)
    case (replaced l l')
    have "k = l' \<or> k \<in> set (db_jobs db)" using k(1) unfolding replaced(4) by (cases rule: in_replace) auto
    then show ?thesis using new [of k] new [OF replaced(1)] replaced(3) k(2) by auto
  qed (use k new in auto)
  moreover have "0 \<le> attempt_of k" using assms(4) k(1) by (auto simp: rows_ok_def row_ok_def attempts_ok_def)
  ultimately show ?thesis by (simp add: rank_def max_build_attempts_def)
qed

lemma potential:
  assumes "history K dec cmp h"
  shows "int (status_changes i h) + rank_at i (hd h) \<le> 36 + 2 * int (deferrals i h)"
  using assms
proof (induction rule: history.induct)
  case start
  then show ?case by (simp add: status_changes_def deferrals_def rank_at_def empty_db_def find_job_def)
next
  case (next_db db h db')
  note st = history_step [OF history.next_db [OF next_db.hyps]]
  have d: "distinct_ids db" "distinct_ids db'" "rows_ok db" "rows_ok db'" using st(2,3) by (simp_all add: sound_def)
  note defs = status_changes_def deferrals_def rank_at_def turned_def
  show ?case
  proof (cases "find_job i db")
    case None
    then show ?thesis using next_db.IH new_row_rank [OF st(1) d(1,2,4) None]
      by (cases "find_job i db'") (auto simp: defs)
  next
    case (Some j)
    have j: "j \<in> set (db_jobs db)" "bj_id j = i" using find_job_Some [OF Some] by simp_all
    obtain k where k: "k \<in> set (db_jobs db')" "row_changes j k"
      using step_descends [OF st(1) d(1)] j(1) by (auto simp: descends_def)
    then have k': "find_job i db' = Some k" using find_job_iff [OF d(2)] changes_id [OF k(2)] j(2) by simp
    have "near j k" using changes_near [OF k(2)] d(3) j(1) by (simp add: rows_ok_def)
    then have "int (if bj_status k \<noteq> bj_status j then 1 else 0) + rank k \<le> rank j + 2 * int (if deferral j k then 1 else 0)"
      using rank_deferral by (auto simp: near_def)
    then show ?thesis using next_db.IH Some k' by (simp add: defs del: of_nat_eq_0_iff split del: if_split)
  qed
qed

text \<open>
  Property C13. In every history a job changes its status at most 36 times plus twice for each
  deferral by a gate: without deferrals no job moves on forever.
\<close>

theorem jobs_come_to_an_end:
  assumes "history K dec cmp h"
  shows "status_changes i h \<le> 36 + 2 * deferrals i h"
proof -
  have "0 \<le> rank_at i (hd h)"
  proof (cases "find_job i (hd h)")
    case (Some j)
    have "rows_ok (hd h)" using history_sound [OF assms] by (simp add: sound_def)
    then have "row_ok j" using find_job_Some [OF Some] by (simp add: rows_ok_def)
    then have "0 \<le> rank j" using rank_positive [of j] rank_in_flight [of j] by (cases "rank j = 0") auto
    then show ?thesis by (simp add: rank_at_def Some)
  qed (simp add: rank_at_def)
  then show ?thesis using potential [OF assms, of i] by linarith
qed

end
