(* ===== verification/BuildExample.thy ===== *)
theory BuildExample
  imports BuildProps BuildAnswers BuildLiveness KeystoreProps
begin

text \<open>
  A history of the queue, run by the model: a job is queued, claimed by a builder, its package and SBOM
  are delivered and reported built, the gate claims it, uploads the signed package and completes it,
  and a later release is uploaded by hand. The witnesses of the properties about histories use it.
\<close>

section \<open>Plain words\<close>

definition plain_word :: "bytes \<Rightarrow> bool" where
  "plain_word s \<longleftrightarrow> list_all (\<lambda>c. 33 \<le> (of_char c :: nat) \<and> (of_char c :: nat) < 127) s"

lemma plain_segments: "plain_word s \<Longrightarrow> segments s = map (\<lambda>c. (of_char c, [c])) s"
  by (induction s) (simp_all add: plain_word_def utf8_step_def)

lemma trim_plain: "plain_word s \<Longrightarrow> trim_space s = s"
proof -
  assume p: "plain_word s"
  have k: "dropWhile (\<lambda>x. is_space_rune (fst x)) (map (\<lambda>c. (of_char c, [c])) t) = map (\<lambda>c. (of_char c, [c])) t"
    if "plain_word t" for t :: bytes
    using that by (cases t) (auto simp: plain_word_def is_space_rune_def)
  have r: "plain_word (rev s)" using p by (simp add: plain_word_def)
  have one: "concat (map snd (map (\<lambda>c. (of_char c :: nat, [c])) t)) = t" for t :: bytes by (induction t) simp_all
  have "trim_space s = concat (map snd (rev (map (\<lambda>c. (of_char c :: nat, [c])) (rev s))))"
    unfolding trim_space_def plain_segments [OF p] k [OF p] rev_map k [OF r] ..
  then show ?thesis by (simp only: rev_map rev_rev_ident one)
qed

section \<open>The machines, the tenant and the reports\<close>

definition eg_builder :: machine where
  "eg_builder = \<lparr>mc_id = ''mch_builder1'', mc_name = ''mac'', mc_role = ''builder'', mc_status = ''active'', mc_signer_role = [],
     mc_platforms = [], mc_public_key = b64_encode (replicate 32 (CHR ''k'')), mc_public_key_sha256 = []\<rparr>"

definition eg_gate :: machine where
  "eg_gate = \<lparr>mc_id = ''mch_gate0001'', mc_name = ''gate'', mc_role = ''signer'', mc_status = ''active'', mc_signer_role = ''primary'',
     mc_platforms = [], mc_public_key = [], mc_public_key_sha256 = []\<rparr>"

definition eg_dec :: "bytes \<Rightarrow> statement option" where
  "eg_dec raw = (if raw = ''s'' then Some example_statement else None)"

definition eg_cmp :: semver where "eg_cmp a b = int (length a) - int (length b)"

definition eg_request :: job_request where
  "eg_request = \<lparr>jq_platform = ''android'', jq_version = ''1.3.16'', jq_number = 7, jq_reason = ''release'', jq_confirm = True,
     jq_kind = ''apk'', jq_base_release = [], jq_apply = [], jq_acknowledge = False\<rparr>"

definition eg_view :: queue_view where
  "eg_view = \<lparr>qv_notes = None, qv_slug = True, qv_config = True, qv_manifest = Inr (''com.anyfun.app'', ''c''), qv_active = ([], []),
     qv_builder = (\<lambda>_. True), qv_ios = Inl NoContent, qv_signer_ready = True, qv_base = Inl NoContent, qv_ota_key = False,
     qv_channel = []\<rparr>"

definition eg_tenants :: tenant_view where
  "eg_tenants = \<lparr>tv_approved_commit = None, tv_slug = (\<lambda>_. Some ''AnyFun''), tv_ios_pair = (\<lambda>_. None)\<rparr>"

definition eg_claim :: claim_request where
  "eg_claim = \<lparr>cq_platforms = [''android''], cq_kinds = [''apk''], cq_agent_commit = [], cq_os = ''linux'', cq_free_gb = 9,
     cq_paused = False, cq_reports_ok = True, cq_pairs = [], cq_upload_pairs = [], cq_ipa_capable = False\<rparr>"

definition eg_built :: built_report where
  "eg_built = \<lparr>bt_commit = replicate 40 (CHR ''a''), bt_native = replicate 40 (CHR ''c''),
     bt_provenance = \<lparr>env_statement = b64_encode ''s'', env_signature = b64_encode (replicate 64 (CHR 0x00))\<rparr>, bt_log_tail = []\<rparr>"

definition eg_ready :: sign_readiness where
  "eg_ready = \<lparr>rd_ready = True, rd_primary = Some ''mch_gate0001'', rd_box = Some (sealed_box ex_sealed), rd_roots = Some example_roots_normal,
     rd_digest = replicate 64 (CHR ''d''), rd_version = 1, rd_slug = ''AnyFun'', rd_package = ''com.anyfun.app'',
     rd_cert = replicate 64 (CHR ''e''), rd_alias = ''key''\<rparr>"


section \<open>The row and the databases\<close>

definition eg_j1 :: build_job where
  "eg_j1 = new_job ''bld_job0001'' ''7'' ''android'' KindApk None ''1.3.16'' 7 ''release'' ''root'' 1"

definition eg_j2 :: build_job where "eg_j2 = claim_set eg_builder 2 eg_j1"

definition eg_j3 :: build_job where
  "eg_j3 = set_delivered DeliverUnsigned ''k1'' 9 (replicate 64 (CHR ''0'')) 3 eg_j2"

definition eg_j4 :: build_job where
  "eg_j4 = set_delivered DeliverSbom ''k2'' 5 (replicate 64 (CHR ''b'')) 4 eg_j3"

definition eg_j5 :: build_job where
  "eg_j5 = built_set eg_builder eg_built (replicate 40 (CHR ''a'')) (replicate 40 (CHR ''c'')) 5 eg_j4"

definition eg_j6 :: build_job where "eg_j6 = sign_claim_set eg_gate 6 eg_j5"

definition eg_j7 :: build_job where
  "eg_j7 = (sign_heartbeat_set 7 eg_j6)\<lparr>bj_sign := (bj_sign eg_j6)\<lparr>sp_key := Some ''k3'', sp_heartbeat_at := Some 7\<rparr>\<rparr>"

definition eg_j8 :: build_job where "eg_j8 = signed_set ''rel_1'' (replicate 64 (CHR ''f'')) 8 eg_j7"

definition eg_result :: sign_result where
  "eg_result = \<lparr>sq_signed = replicate 64 (CHR ''f''), sq_size = 10, sq_cert = replicate 64 (CHR ''e''),
     sq_unsigned = replicate 64 (CHR ''0''), sq_native = replicate 40 (CHR ''c'')\<rparr>"

definition eg_release :: app_release where "eg_release = signed_release eg_gate eg_result eg_j7 ''rel_1''"

definition eg_manual :: app_release where
  "eg_manual = \<lparr>ar_id = ''rel_2'', ar_tenant = ''7'', ar_platform = ''android'', ar_version = Some ''1.3.160'', ar_number = 8,
     ar_object_key = ''k4'', ar_file_size = None, ar_sha256 = None, ar_job = None, ar_signer = None, ar_builder = None,
     ar_unsigned_sha256 = None, ar_native = None, ar_certificate = None\<rparr>"

definition eg_audit :: "bytes \<Rightarrow> bytes \<Rightarrow> audit_event" where
  "eg_audit actor action = \<lparr>au_tenant = ''7'', au_actor = actor, au_action = action, au_target = ''bld_job0001''\<rparr>"

definition eg_db :: "build_job \<Rightarrow> app_release list \<Rightarrow> audit_event list \<Rightarrow> bytes list \<Rightarrow> server_db" where
  "eg_db j rs es ks = \<lparr>db_jobs = [j], db_releases = rs, db_audit = es, db_written = ks, db_deleted = []\<rparr>"

definition eg_audit1 :: "audit_event list" where "eg_audit1 = [eg_audit ''root'' ''build_job_create'']"
definition eg_audit5 :: "audit_event list" where "eg_audit5 = eg_audit1 @ [eg_audit ''system-build'' ''build_job_built'']"
definition eg_audit8 :: "audit_event list" where
  "eg_audit8 = eg_audit5 @ [release_audit eg_release ''system-signer'', eg_audit ''system-signer'' ''build_job_signed'']"

definition eg_d1 :: server_db where "eg_d1 = eg_db eg_j1 [] eg_audit1 []"
definition eg_d2 :: server_db where "eg_d2 = eg_db eg_j2 [] eg_audit1 []"
definition eg_d3 :: server_db where "eg_d3 = eg_db eg_j3 [] eg_audit1 [''k1'']"
definition eg_d4 :: server_db where "eg_d4 = eg_db eg_j4 [] eg_audit1 [''k1'', ''k2'']"
definition eg_d5 :: server_db where "eg_d5 = eg_db eg_j5 [] eg_audit5 [''k1'', ''k2'']"
definition eg_d6 :: server_db where "eg_d6 = eg_db eg_j6 [] eg_audit5 [''k1'', ''k2'']"
definition eg_d7 :: server_db where "eg_d7 = eg_db eg_j7 [] eg_audit5 [''k1'', ''k2'', ''k3'']"
definition eg_d8 :: server_db where "eg_d8 = eg_db eg_j8 [eg_release] eg_audit8 [''k1'', ''k2'', ''k3'']"
definition eg_d9 :: server_db where
  "eg_d9 = eg_db eg_j8 [eg_release, eg_manual] (eg_audit8 @ [release_audit eg_manual ''root'']) [''k1'', ''k2'', ''k3'']"

lemmas eg_jobs = eg_j1_def eg_j2_def eg_j3_def eg_j4_def eg_j5_def eg_j6_def eg_j7_def eg_j8_def
lemmas eg_rows = eg_jobs new_job_def new_build_part_def new_sign_part_def claim_set_def set_delivered_def built_set_def
  sign_claim_set_def sign_heartbeat_set_def signed_set_def no_delivery_def
lemmas eg_parties = eg_builder_def eg_gate_def eg_built_def eg_result_def

text \<open>What the later steps read of the row.\<close>

lemma eg_row [simp]:
  "bj_id eg_j1 = ''bld_job0001''" "bj_id eg_j2 = ''bld_job0001''" "bj_id eg_j3 = ''bld_job0001''" "bj_id eg_j4 = ''bld_job0001''"
  "bj_id eg_j5 = ''bld_job0001''" "bj_id eg_j6 = ''bld_job0001''" "bj_id eg_j7 = ''bld_job0001''" "bj_id eg_j8 = ''bld_job0001''"
  "bj_status eg_j1 = JobQueued" "bj_status eg_j2 = JobClaimed" "bj_status eg_j3 = JobClaimed" "bj_status eg_j4 = JobClaimed"
  "bj_status eg_j5 = JobBuilt" "bj_status eg_j6 = JobSigning" "bj_status eg_j7 = JobSigning" "bj_status eg_j8 = JobSucceeded"
  by (simp_all add: eg_rows)

lemma eg_plain:
  "trim_space ''android'' = ''android''" "trim_space ''1.3.16'' = ''1.3.16''" "trim_space ''release'' = ''release''"
  "trim_space ''apk'' = ''apk''" "trim_space ''bld_job0001'' = ''bld_job0001''" "trim_space ''1'' = ''1''"
  by (rule trim_plain, code_simp)+

lemma eg_step1:
  "create_checked eg_cmp eg_view ''7'' eg_request empty_db = Inr None"
  "queue_job True ''bld_job0001'' ''7'' ''root'' eg_request None 1 empty_db = (AnswerJob eg_j1, eg_d1)"
proof -
  have l: "to_lower ''android'' = ''android''" by code_simp
  have v: "semver_pattern ''1.3.16''" by code_simp
  have f: "build_floor_for eg_cmp ''7'' ''android'' empty_db = \<lparr>bf_version = [], bf_number = 0\<rparr>"
    by (simp add: build_floor_for_def floor_rows_def greatest_first_def sequence_of_def empty_db_def)
  show "create_checked eg_cmp eg_view ''7'' eg_request empty_db = Inr None"
    by (simp add: create_checked_def eg_request_def eg_plain l v f platform_android_def platform_ios_def eg_view_def
        identity_drift_def Let_def)
  show "queue_job True ''bld_job0001'' ''7'' ''root'' eg_request None 1 empty_db = (AnswerJob eg_j1, eg_d1)"
    by (simp add: queue_job_def eg_request_def eg_plain l insert_job_def empty_db_def Let_def insert_audit_def eg_d1_def eg_db_def
        eg_audit1_def eg_audit_def eg_j1_def new_job_def)
qed

lemma eg_step2: "claim_build_job eg_tenants eg_builder (Some eg_claim) True (\<lambda>_. False) 2 True eg_d1 = (Inr eg_j2, eg_d2)"
  by (simp add: claim_build_job_def claim_request_valid_def eg_claim_def platform_android_def platform_ios_def kind_text.simps eg_tenants_def
      claimed_platforms_def build_platforms_def eg_builder_def claim_transaction_def eg_d1_def eg_d2_def eg_db_def claimable_def
      eg_rows build_git_ref_def update_job_def delete_objects_def pick_def pick_one_def job_object_keys_def)


lemma b64_lax_encode: "b64_decode_lax (b64_encode s) = Some s"
proof -
  have "b64_quanta_lax (b64_encode s) = Some s"
  proof (induction s rule: b64_encode.induct)
    case (4 x y z s)
    then show ?case by (simp add: b64_val_char b64_char_plain sextet_bytes of_char_less_256)
  qed (simp_all add: b64_val_char b64_char_plain sextet_bytes of_char_less_256)
  then show ?thesis by (simp add: b64_decode_lax_def b64_encode_no_crlf)
qed

lemma eg_header: "attempt_from_header ''1'' = Some 1"
  by (simp add: attempt_from_header_def eg_plain atoi_def int_str_def digits_nat_def is_digit_def digit_char_def)

lemma eg_scope:
  "builder_job_scope False eg_builder ''1'' ''bld_job0001'' eg_d2 = Inr eg_j2"
  "builder_job_scope False eg_builder ''1'' ''bld_job0001'' eg_d3 = Inr eg_j3"
  "builder_job_scope False eg_builder ''1'' ''bld_job0001'' eg_d4 = Inr eg_j4"
  by (simp_all add: builder_job_scope_def eg_header load_build_job_def eg_plain find_job_def eg_d2_def eg_d3_def eg_d4_def eg_db_def
      eg_rows eg_builder_def null_string_def Let_def)

lemma eg_step3: "receive_delivery eg_builder DeliverUnsigned ''k1'' (Inr (9, replicate 64 (CHR ''0''))) True 3 eg_j2 True eg_d2
    = (AnswerObject (replicate 64 (CHR ''0'')) 9, eg_d3)"
  by (simp add: receive_delivery_def record_delivered_object_def delivery_guard_def eg_d2_def eg_d3_def eg_db_def Let_def
      update_job_def delete_replaced_object_def eg_j3_def) (simp add: eg_rows eg_builder_def)

lemma eg_step4: "receive_delivery eg_builder DeliverSbom ''k2'' (Inr (5, replicate 64 (CHR ''b''))) True 4 eg_j3 True eg_d3
    = (AnswerObject (replicate 64 (CHR ''b'')) 5, eg_d4)"
  by (simp add: receive_delivery_def record_delivered_object_def delivery_guard_def eg_d3_def eg_d4_def eg_db_def Let_def
      update_job_def delete_replaced_object_def eg_j4_def) (simp add: eg_rows eg_builder_def)

lemma eg_step5:
  "built_checked toy_crypto eg_dec eg_builder (Some eg_built) (Some ''AnyFun'') (Some ''com.anyfun.app'') eg_j4
     = Inr (replicate 40 (CHR ''a''), replicate 40 (CHR ''c''))"
  "mark_built eg_builder eg_built (replicate 40 (CHR ''a'')) (replicate 40 (CHR ''c'')) 5 eg_j4 True eg_d4 = (NoContent, eg_d5)"
proof -
  have t: "trim_space (replicate 40 (CHR ''a'')) = replicate 40 (CHR ''a'')" "trim_space (replicate 40 (CHR ''c'')) = replicate 40 (CHR ''c'')"
    by (rule trim_plain, code_simp)+
  have sz: "length (b64_encode ''s'') \<le> b64_encoded_len max_statement_size"
    unfolding length_b64_encode by (rule b64_encoded_len_mono) (simp add: max_statement_size_def)
  have v: "provenance_verify toy_crypto eg_dec (bt_provenance eg_built) (replicate 32 (CHR ''k'')) = Inr example_statement"
    using sz by (simp add: provenance_verify_def eg_built_def ed_sizes eg_dec_def example_statement_valid del: b64_encode.simps)
      (simp add: toy_crypto_def)
  have m: "statement_matches example_statement eg_j4 eg_builder ''AnyFun'' ''com.anyfun.app'' (replicate 40 (CHR ''a'')) (replicate 40 (CHR ''c''))"
    by (simp add: statement_matches_def example_statement_def eg_rows eg_builder_def null_string_def)
  have k: "bj_kind eg_j4 = KindApk" "bj_platform eg_j4 = platform_android" "dc_sha256 (bp_unsigned (bj_build eg_j4)) \<noteq> None"
    "dc_size (bp_unsigned (bj_build eg_j4)) \<noteq> None" "dc_sha256 (bp_sbom (bj_build eg_j4)) \<noteq> None"
    by (simp_all add: eg_rows platform_android_def)
  have p: "b64_decode_lax (mc_public_key eg_builder) = Some (replicate 32 (CHR ''k''))"
    by (simp add: eg_builder_def b64_lax_encode del: b64_encode.simps)
  have b: "bt_commit eg_built = replicate 40 (CHR ''a'')" "bt_native eg_built = replicate 40 (CHR ''c'')"
    by (simp_all add: eg_built_def)
  show "built_checked toy_crypto eg_dec eg_builder (Some eg_built) (Some ''AnyFun'') (Some ''com.anyfun.app'') eg_j4
     = Inr (replicate 40 (CHR ''a''), replicate 40 (CHR ''c''))"
    by (simp add: built_checked_def k p b t v m Let_def example_identifiers ed_sizes)
  show "mark_built eg_builder eg_built (replicate 40 (CHR ''a'')) (replicate 40 (CHR ''c'')) 5 eg_j4 True eg_d4 = (NoContent, eg_d5)"
    by (simp add: mark_built_def update_where_def eg_d4_def eg_d5_def eg_db_def eg_j5_def insert_audit_def eg_audit5_def eg_audit_def)
      (simp add: eg_rows eg_builder_def null_string_def)
qed

lemma eg_step6:
  "''bld_job0001'' \<in> set (sign_candidates (\<lambda>_. Some ''AnyFun'') [''AnyFun''] eg_d5)"
  "find_job ''bld_job0001'' eg_d5 = Some eg_j5"
  "\<exists>answer. signing_dispatch eg_ready eg_j5 eg_gate [ready_key \<lparr>ri_tenant = ''AnyFun'', ri_package = ''com.anyfun.app'',
      ri_cert = replicate 64 (CHR ''e''), ri_digest = replicate 64 (CHR ''d'')\<rparr>] = Some answer"
  "claim_for_signing eg_cmp eg_gate 6 eg_j5 SequenceRuns eg_d5 = (Inr True, eg_d6)"
proof -
  have j: "bj_kind eg_j5 = KindApk" "bj_platform eg_j5 = platform_android"
    by (simp_all add: eg_rows platform_android_def)
  show "''bld_job0001'' \<in> set (sign_candidates (\<lambda>_. Some ''AnyFun'') [''AnyFun''] eg_d5)"
    by (simp add: sign_candidates_def sign_candidate_def smaller_in_flight_def eg_d5_def eg_db_def j)
  show "find_job ''bld_job0001'' eg_d5 = Some eg_j5"
    by (simp add: find_job_def eg_d5_def eg_db_def)
  show "\<exists>answer. signing_dispatch eg_ready eg_j5 eg_gate [ready_key \<lparr>ri_tenant = ''AnyFun'', ri_package = ''com.anyfun.app'',
      ri_cert = replicate 64 (CHR ''e''), ri_digest = replicate 64 (CHR ''d'')\<rparr>] = Some answer"
    by (simp add: signing_dispatch_def eg_ready_def) (simp add: eg_rows eg_gate_def eg_built_def eg_builder_def)
  have k: "pick (job_object_keys eg_j5) release_signed = []"
    by (simp add: pick_def pick_one_def job_object_keys_def release_set_defs) (simp add: eg_rows)
  show "claim_for_signing eg_cmp eg_gate 6 eg_j5 SequenceRuns eg_d5 = (Inr True, eg_d6)"
    by (simp add: claim_for_signing_def eg_d5_def eg_d6_def eg_db_def j Let_def k latest_release_for_def sequence_of_def
        increased_by_def update_job_def delete_objects_def eg_j6_def)
qed

lemma eg_step7:
  "current_signing_job eg_gate ''1'' ''bld_job0001'' eg_d6 = Inr eg_j6"
  "upload_signed eg_gate ''k3'' (Inr (10, replicate 64 (CHR ''f''))) 7 eg_j6 True eg_d6 = (AnswerObject (replicate 64 (CHR ''f'')) 10, eg_d7)"
proof -
  have j: "bj_kind eg_j6 = KindApk" "sign_attempt_of eg_j6 = 1" "sp_machine (bj_sign eg_j6) = Some (mc_id eg_gate)"
      "sp_key (bj_sign eg_j6) = None"
    by (simp_all add: eg_rows)
  show "current_signing_job eg_gate ''1'' ''bld_job0001'' eg_d6 = Inr eg_j6"
    by (simp add: current_signing_job_def eg_header load_build_job_def eg_plain find_job_def eg_d6_def eg_db_def j null_string_def)
  show "upload_signed eg_gate ''k3'' (Inr (10, replicate 64 (CHR ''f''))) 7 eg_j6 True eg_d6 = (AnswerObject (replicate 64 (CHR ''f'')) 10, eg_d7)"
    by (simp add: upload_signed_def record_delivered_object_def signing_guard_def j eg_d6_def eg_d7_def eg_db_def update_job_def
        delete_replaced_object_def eg_j7_def)
qed

definition eg_checks :: sign_checks where
  "eg_checks = \<lparr>kc_retired = (\<lambda>_. False), kc_keystore_cert = Inr (Some (replicate 64 (CHR ''e''))), kc_storage = True,
     kc_downloaded = Inr (replicate 64 (CHR ''f''), 10), kc_verified = Inr (''com.anyfun.app'', replicate 64 (CHR ''e'')), kc_slug = True\<rparr>"

definition eg_registry :: sign_registry where
  "eg_registry = \<lparr>rx_machines = [eg_gate], rx_identity = Some (''com.anyfun.app'', replicate 64 (CHR ''e'')),
     rx_keystore = Some (False, ''com.anyfun.app'', replicate 64 (CHR ''e''))\<rparr>"

lemma eg_step8:
  "complete_read eg_gate ''1'' (Some eg_result) ''bld_job0001'' eg_d7 = Inr (1, eg_j7)"
  "complete_verify eg_checks eg_result eg_j7 = Inr ''com.anyfun.app''"
  "with_release_sequence SequenceRuns ''RELEASE_CREATE_FAILED''
     (complete_transaction eg_cmp eg_gate eg_registry eg_result ''com.anyfun.app'' 1 ''rel_1'' 8 eg_j7) eg_d7
   = (AnswerRelease ''rel_1'', eg_d8)"
proof -
  have v: "sign_result_valid eg_result"
  proof -
    have "fingerprint_valid (replicate 64 (CHR ''e''))" "fingerprint_valid (replicate 64 (CHR ''f''))" by code_simp+
    then show ?thesis by (simp add: sign_result_valid_def eg_result_def example_identifiers)
  qed
  have n: "normalize_digest (replicate 64 (CHR ''e'')) = replicate 64 (CHR ''e'')"
  proof -
    have t: "trim_space (replicate 64 (CHR ''e'')) = replicate 64 (CHR ''e'')" by (rule trim_plain, code_simp)
    have "to_lower (replicate 64 (CHR ''e'')) = replicate 64 (CHR ''e'')" by code_simp
    then show ?thesis by (simp add: normalize_digest_def t filter_replicate)
  qed
  have j: "bj_kind eg_j7 = KindApk" "sign_attempt_of eg_j7 = 1" "sp_machine (bj_sign eg_j7) = Some (mc_id eg_gate)"
      "sp_key (bj_sign eg_j7) = Some ''k3''" "dc_sha256 (bp_unsigned (bj_build eg_j7)) = Some (replicate 64 (CHR ''0''))"
      "bp_native (bj_build eg_j7) = Some (replicate 40 (CHR ''c''))" "bj_release eg_j7 = None" "bj_tenant eg_j7 = ''7''"
    by (simp_all add: eg_rows)
  show "complete_read eg_gate ''1'' (Some eg_result) ''bld_job0001'' eg_d7 = Inr (1, eg_j7)"
    by (simp add: complete_read_def eg_header v load_build_job_def eg_plain find_job_def eg_d7_def eg_db_def j null_string_def Let_def)
  show "complete_verify eg_checks eg_result eg_j7 = Inr ''com.anyfun.app''"
    by (simp add: complete_verify_def eg_checks_def eg_result_def j null_string_def n)
  have s: "machine_still_signs eg_registry eg_gate" by (simp add: machine_still_signs_def eg_registry_def eg_gate_def)
  have c: "\<not> signing_identity_changed (rx_identity eg_registry) (rx_keystore eg_registry) ''com.anyfun.app'' (sq_cert eg_result)"
    by (simp add: signing_identity_changed_def eg_registry_def eg_result_def)
  show "with_release_sequence SequenceRuns ''RELEASE_CREATE_FAILED''
     (complete_transaction eg_cmp eg_gate eg_registry eg_result ''com.anyfun.app'' 1 ''rel_1'' 8 eg_j7) eg_d7
   = (AnswerRelease ''rel_1'', eg_d8)"
    by (simp add: with_release_sequence_def complete_transaction_def find_job_def eg_d7_def eg_d8_def eg_db_def j null_string_def Let_def s c
        insert_release_def latest_release_for_def sequence_of_def increased_by_def update_where_def signing_guard_def insert_audit_def
        eg_audit8_def eg_audit_def eg_release_def)
      (simp add: eg_rows eg_result_def signed_release_def)
qed

lemma eg_step9: "manual_release eg_cmp eg_manual ''root'' None SequenceRuns eg_d8 = (AnswerRelease ''rel_2'', eg_d9)"
proof -
  have "\<not> release_signing_in_flight ''7'' ''android'' eg_d8"
    by (simp add: release_signing_in_flight_def eg_d8_def eg_db_def)
  moreover have "ar_platform eg_release = ''android''" "ar_tenant eg_release = ''7''" "ar_number eg_release = 7"
      "ar_version eg_release = Some ''1.3.16''"
    by (simp_all add: eg_release_def signed_release_def eg_rows)
  ultimately show ?thesis
    by (simp add: manual_release_def with_release_sequence_def manual_release_transaction_def insert_release_def latest_release_for_def
        sequence_of_def increased_by_def eg_manual_def null_string_def insert_audit_def release_audit_def eg_d8_def eg_d9_def eg_db_def)
      (simp add: eg_cmp_def)
qed

section \<open>The run\<close>

definition eg_history :: "server_db list" where
  "eg_history = [eg_d9, eg_d8, eg_d7, eg_d6, eg_d5, eg_d4, eg_d3, eg_d2, eg_d1, empty_db]"

abbreviation eg_run :: "server_db list \<Rightarrow> bool" where "eg_run \<equiv> history toy_crypto eg_dec eg_cmp"

lemma eg_fresh:
  "fresh_key ''k1'' eg_d2" "fresh_key ''k2'' eg_d3" "fresh_key ''k3'' eg_d6" "fresh_release ''rel_1'' eg_d7"
  "fresh_release (ar_id eg_manual) eg_d8" "ar_object_key eg_manual \<notin> set (db_written eg_d8)" "ar_job eg_manual = None"
  "is_active_primary eg_gate"
  by (simp_all add: fresh_key_def fresh_release_def release_keys_def eg_d2_def eg_d3_def eg_d6_def eg_d7_def eg_d8_def eg_db_def
      eg_release_def signed_release_def eg_manual_def is_active_primary_def eg_gate_def)

lemma eg_run1: "eg_run [eg_d1, empty_db]"
  by (rule history.next_db [OF history.start]) (rule request.queue [OF _ eg_step1], simp)

lemma eg_run2: "eg_run [eg_d2, eg_d1, empty_db]"
  by (rule history.next_db [OF eg_run1]) (rule request.claim [OF eg_step2])

lemma eg_run3: "eg_run [eg_d3, eg_d2, eg_d1, empty_db]"
  by (rule history.next_db [OF eg_run2], rule request.delivery [OF _ eg_scope(1) _ eg_fresh(1) eg_step3, where storage = True])
    (simp_all add: delivery_checked_def eg_rows platform_android_def)

lemma eg_run4: "eg_run [eg_d4, eg_d3, eg_d2, eg_d1, empty_db]"
  by (rule history.next_db [OF eg_run3], rule request.delivery [OF _ eg_scope(2) _ eg_fresh(2) eg_step4, where storage = True])
    (simp_all add: delivery_checked_def eg_rows platform_android_def)

lemma eg_run5: "eg_run [eg_d5, eg_d4, eg_d3, eg_d2, eg_d1, empty_db]"
  by (rule history.next_db [OF eg_run4], rule request.built [OF _ eg_scope(3) eg_step5]) simp

lemma eg_run6: "eg_run [eg_d6, eg_d5, eg_d4, eg_d3, eg_d2, eg_d1, empty_db]"
proof -
  obtain answer where a: "signing_dispatch eg_ready eg_j5 eg_gate [ready_key \<lparr>ri_tenant = ''AnyFun'', ri_package = ''com.anyfun.app'',
      ri_cert = replicate 64 (CHR ''e''), ri_digest = replicate 64 (CHR ''d'')\<rparr>] = Some answer"
    using eg_step6(3) by blast
  show ?thesis
    by (rule history.next_db [OF eg_run5], rule request.sign_claim [OF _ _ eg_fresh(8) eg_step6(1,2) a eg_step6(4)]) simp_all
qed

lemma eg_run7: "eg_run [eg_d7, eg_d6, eg_d5, eg_d4, eg_d3, eg_d2, eg_d1, empty_db]"
  by (rule history.next_db [OF eg_run6], rule request.sign_upload [OF _ eg_step7(1) eg_fresh(3) eg_step7(2)]) simp

lemma eg_run8: "eg_run [eg_d8, eg_d7, eg_d6, eg_d5, eg_d4, eg_d3, eg_d2, eg_d1, empty_db]"
  by (rule history.next_db [OF eg_run7], rule request.sign_complete [OF _ eg_step8(1,2) eg_fresh(4) eg_step8(3)]) simp

lemma eg_run9: "eg_run eg_history"
  unfolding eg_history_def by (rule history.next_db [OF eg_run8], rule request.by_hand [OF eg_fresh(7,5,6) eg_step9])

text \<open>A second job, of another tenant, queued on the way.\<close>

definition eg_k1 :: build_job where
  "eg_k1 = new_job ''bld_job0002'' ''8'' ''android'' KindApk None ''1.3.16'' 7 ''release'' ''root'' 2"

definition eg_two :: server_db where
  "eg_two = \<lparr>db_jobs = [eg_j1, eg_k1], db_releases = [],
     db_audit = eg_audit1 @ [\<lparr>au_tenant = ''8'', au_actor = ''root'', au_action = ''build_job_create'', au_target = ''bld_job0002''\<rparr>],
     db_written = [], db_deleted = []\<rparr>"

lemma eg_run_two: "eg_run [eg_two, eg_d1, empty_db]"
proof (rule history.next_db [OF eg_run1], rule request.queue)
  have l: "to_lower ''android'' = ''android''" by code_simp
  have v: "semver_pattern ''1.3.16''" by code_simp
  have f: "build_floor_for eg_cmp ''8'' ''android'' empty_db = \<lparr>bf_version = [], bf_number = 0\<rparr>"
    by (simp add: build_floor_for_def floor_rows_def greatest_first_def sequence_of_def empty_db_def)
  show "create_checked eg_cmp eg_view ''8'' eg_request empty_db = Inr None"
    by (simp add: create_checked_def eg_request_def eg_plain l v f platform_android_def platform_ios_def eg_view_def
        identity_drift_def Let_def)
  show "empty_db \<in> set [eg_d1, empty_db]" by simp
  show "queue_job True ''bld_job0002'' ''8'' ''root'' eg_request None 2 eg_d1 = (AnswerJob eg_k1, eg_two)"
    by (simp add: queue_job_def eg_request_def eg_plain l insert_job_def eg_d1_def Let_def insert_audit_def eg_two_def eg_db_def
        eg_k1_def new_job_def eg_j1_def index_clash_def)
qed

section \<open>Witnesses\<close>

lemma eg_jobs_of [simp]:
  "db_jobs eg_d5 = [eg_j5]" "db_jobs eg_d6 = [eg_j6]" "db_jobs eg_d7 = [eg_j7]" "db_jobs eg_d8 = [eg_j8]" "db_jobs eg_d9 = [eg_j8]"
  by (simp_all add: eg_d5_def eg_d6_def eg_d7_def eg_d8_def eg_d9_def eg_db_def)



theorem live_objects_are_kept_witness: "''k3'' \<in> set (db_written eg_d7) \<and> ''k3'' \<notin> set (db_deleted eg_d7)"
proof -
  have "key_at SignedKey eg_j7 = Some ''k3''" by (simp add: eg_rows)
  moreover have "eg_d7 \<in> set eg_history" "eg_j7 \<in> set (db_jobs eg_d7)" by (simp_all add: eg_history_def)
  ultimately show ?thesis using live_objects_are_kept [OF eg_run9] by blast
qed



theorem attempts_bounded_witness: "eg_j7 \<in> set (db_jobs eg_d7) \<and> attempt_of eg_j7 \<le> 3 \<and> sp_failures (bj_sign eg_j7) < 2"
  using attempts_bounded [OF eg_run9, of eg_d7 eg_j7] by (simp add: eg_history_def in_flight_statuses_def)

theorem claims_are_exclusive_witness:
  "eg_j1 \<noteq> eg_k1 \<and> bj_id eg_j1 \<noteq> bj_id eg_k1 \<and> \<not> index_clash eg_j1 eg_k1"
proof -
  have n: "eg_j1 \<noteq> eg_k1" by (simp add: eg_j1_def eg_k1_def new_job_def)
  show ?thesis using claims_are_exclusive [OF eg_run_two, of eg_two eg_j1 eg_k1] n by (simp add: eg_two_def)
qed

theorem ended_claim_changes_nothing_witness:
  "claim_over 1 eg_j8 \<and> signing_heartbeat eg_gate ''1'' 9 ''bld_job0001'' True eg_d8 = (sign_stale, eg_d8)"
proof -
  have f: "find_job ''bld_job0001'' eg_d8 = Some eg_j8" by (simp add: find_job_def)
  have c: "claim_over 1 eg_j8" "sign_attempt_of eg_j7 = 1" by (simp_all add: claim_over_def eg_rows)
  show ?thesis
    using ended_claim_changes_nothing [OF eg_run8 _ f c(1) eg_header, of eg_j7] c by simp
qed

theorem heartbeat_confirms_exactly_the_current_claim_witness:
  "fst (signing_heartbeat eg_gate ''1'' 9 ''bld_job0001'' True eg_d7) = NoContent
   \<and> fst (signing_heartbeat eg_gate ''1'' 9 ''bld_job0001'' True eg_d8) \<noteq> NoContent"
proof -
  have "bj_kind eg_j7 = KindApk" "sign_attempt_of eg_j7 = 1" "sp_machine (bj_sign eg_j7) = Some (mc_id eg_gate)"
    by (simp_all add: eg_rows)
  then show ?thesis
    using heartbeat_confirms_exactly_the_current_claim [OF eg_run7 eg_header, of eg_gate "[]" 9 "''bld_job0001''"]
      heartbeat_confirms_exactly_the_current_claim [OF eg_run8 eg_header, of eg_gate "[]" 9 "''bld_job0001''"]
    by (auto simp: signing_guard_def)
qed




theorem jobs_come_to_an_end_witness:
  "eg_run eg_history \<and> status_changes ''bld_job0001'' eg_history \<le> 36 + 2 * deferrals ''bld_job0001'' eg_history"
  using jobs_come_to_an_end [OF eg_run9] eg_run9 by simp

end
